(* ===== verification/Prelude.thy ===== *)
theory Prelude
  imports Complex_Main
begin

text \<open>
  Shared vocabulary of the development.

  The services of the program raise an exception to leave a handler early, and
  the session then rolls the transaction back.  A handler is therefore a
  function into \<^verbatim>\<open>'e + 'a\<close>: \<^verbatim>\<open>Inl\<close> is the raised error (no new state),
  \<^verbatim>\<open>Inr\<close> the state that is committed.  \<^verbatim>\<open>rbind\<close> is sequencing,
  \<^verbatim>\<open>rfold\<close> a loop over rows that may raise, \<^verbatim>\<open>rtraverse\<close> a loop that
  collects a value per row.

  A database table is the list of its rows in primary-key order.  The second
  half of the theory holds the operations the services use on a table (lookup by
  key, conditional UPDATE, compare-and-set) and the lemmas about lookups, counts
  and sums after them.
\<close>

named_theorems rsimps \<open>Inversion of handlers that returned\<close>
named_theorems table_simps \<open>Table lookups, counts and sums after an update\<close>

section \<open>Results\<close>

definition rbind :: "'e + 'a \<Rightarrow> ('a \<Rightarrow> 'e + 'b) \<Rightarrow> 'e + 'b" where
  "rbind m f = (case m of Inl e \<Rightarrow> Inl e | Inr x \<Rightarrow> f x)"

definition check :: "bool \<Rightarrow> 'e \<Rightarrow> 'e + unit" where
  "check b e = (if b then Inr () else Inl e)"

definition require :: "'a option \<Rightarrow> 'e \<Rightarrow> 'e + 'a" where
  "require x e = (case x of None \<Rightarrow> Inl e | Some y \<Rightarrow> Inr y)"

primrec rfold :: "('a \<Rightarrow> 's \<Rightarrow> 'e + 's) \<Rightarrow> 'a list \<Rightarrow> 's \<Rightarrow> 'e + 's" where
  "rfold f [] s = Inr s"
| "rfold f (x # xs) s = rbind (f x s) (rfold f xs)"

primrec rtraverse :: "('a \<Rightarrow> 'e + 'b) \<Rightarrow> 'a list \<Rightarrow> 'e + 'b list" where
  "rtraverse f [] = Inr []"
| "rtraverse f (x # xs) = rbind (f x) (\<lambda>y. rbind (rtraverse f xs) (\<lambda>ys. Inr (y # ys)))"

definition rall :: "('a \<Rightarrow> 'e + unit) \<Rightarrow> 'a list \<Rightarrow> 'e + unit" where
  "rall f xs = rfold (\<lambda>x _. f x) xs ()"

lemma rbind_simps [simp]:
  "rbind (Inl e) f = Inl e"
  "rbind (Inr x) f = f x"
  by (simp_all add: rbind_def)

lemma rbind_eq_Inr [simp, rsimps]:
  "rbind m f = Inr y \<longleftrightarrow> (\<exists>x. m = Inr x \<and> f x = Inr y)"
  by (cases m) simp_all

lemma rbind_eq_Inl:
  "rbind m f = Inl e \<longleftrightarrow> m = Inl e \<or> (\<exists>x. m = Inr x \<and> f x = Inl e)"
  by (cases m) simp_all

lemma check_eq_Inr [simp, rsimps]: "check b e = Inr u \<longleftrightarrow> b"
  by (simp add: check_def)

lemma check_eq_Inl [simp]: "check b e = Inl e' \<longleftrightarrow> \<not> b \<and> e' = e"
  by (auto simp: check_def)

lemma check_simps [simp]: "check True e = Inr ()" "check False e = Inl e"
  by (simp_all add: check_def)

lemma require_eq_Inr [simp, rsimps]: "require x e = Inr y \<longleftrightarrow> x = Some y"
  by (auto simp: require_def split: option.splits)

lemma require_simps [simp]: "require None e = Inl e" "require (Some y) e = Inr y"
  by (simp_all add: require_def)

lemma require_eq_Inl [simp]: "require x e = Inl e' \<longleftrightarrow> x = None \<and> e' = e"
  by (auto simp: require_def split: option.splits)

lemma if_Inl_eq_Inr [simp, rsimps]: "(if b then Inl e else m) = Inr x \<longleftrightarrow> \<not> b \<and> m = Inr x"
  by simp

lemma rbind_cong [fundef_cong]:
  assumes "m = m'" and "\<And>x. m' = Inr x \<Longrightarrow> f x = f' x"
  shows "rbind m f = rbind m' f'"
  using assms by (cases m') simp_all

lemma rfold_invariant:
  assumes "rfold f xs s = Inr s'" and "P s"
    and "\<And>x s s'. x \<in> set xs \<Longrightarrow> P s \<Longrightarrow> f x s = Inr s' \<Longrightarrow> P s'"
  shows "P s'"
  using assms
proof (induction xs arbitrary: s)
  case (Cons x xs)
  from Cons.prems(1) obtain s1 where s1: "f x s = Inr s1" "rfold f xs s1 = Inr s'"
    by auto
  have "P s1" using Cons.prems(2,3) s1(1) by (meson list.set_intros(1))
  then show ?case
    using Cons.IH[OF s1(2)] Cons.prems(3) by (meson list.set_intros(2))
qed simp

lemma rfold_append:
  "rfold f (xs @ ys) s = rbind (rfold f xs s) (rfold f ys)"
  by (induction xs arbitrary: s) (simp_all add: rbind_def split: sum.splits)

lemma rfold_rel:
  assumes "rfold f xs s = Inr s'"
    and "\<And>s. R s s" and "\<And>a b c. R a b \<Longrightarrow> R b c \<Longrightarrow> R a c"
    and "\<And>x s s'. x \<in> set xs \<Longrightarrow> f x s = Inr s' \<Longrightarrow> R s s'"
  shows "R s s'"
proof -
  have "R s s'" if "rfold f ys s = Inr s'" "set ys \<subseteq> set xs" for ys
    using that
  proof (induction ys arbitrary: s)
    case Nil
    then show ?case using assms(2) by simp
  next
    case (Cons y ys)
    then obtain s1 where "f y s = Inr s1" "rfold f ys s1 = Inr s'" by auto
    then show ?case using Cons assms(3,4) by (metis insert_subset list.simps(15))
  qed
  then show ?thesis using assms(1) by blast
qed

lemma rall_simps [simp]:
  "rall f [] = Inr ()"
  "rall f (x # xs) = rbind (f x) (\<lambda>_. rall f xs)"
  by (simp_all add: rall_def)

lemma rall_eq_Inr [simp, rsimps]: "rall f xs = Inr u \<longleftrightarrow> (\<forall>x\<in>set xs. f x = Inr ())"
  by (induction xs) auto

lemma rtraverse_Inr_iff:
  "rtraverse f xs = Inr ys \<longleftrightarrow> list_all2 (\<lambda>x y. f x = Inr y) xs ys"
proof (induction xs arbitrary: ys)
  case Nil
  then show ?case by auto
next
  case (Cons x xs)
  then show ?case by (cases ys) auto
qed

lemma rtraverse_length:
  "rtraverse f xs = Inr ys \<Longrightarrow> length ys = length xs"
  by (auto simp: rtraverse_Inr_iff list_all2_lengthD)

section \<open>Tables\<close>

definition row_by :: "('r \<Rightarrow> 'k) \<Rightarrow> 'k \<Rightarrow> 'r list \<Rightarrow> 'r option" where
  "row_by key k rows = find (\<lambda>r. key r = k) rows"

definition update_rows :: "('r \<Rightarrow> bool) \<Rightarrow> ('r \<Rightarrow> 'r) \<Rightarrow> 'r list \<Rightarrow> 'r list" where
  "update_rows p f rows = map (\<lambda>r. if p r then f r else r) rows"

text \<open>
  A conditional UPDATE whose row count is tested: \<^verbatim>\<open>None\<close> when no row matched
  (\<^verbatim>\<open>rowcount == 0\<close>).
\<close>

definition cas_rows :: "('r \<Rightarrow> bool) \<Rightarrow> ('r \<Rightarrow> 'r) \<Rightarrow> 'r list \<Rightarrow> 'r list option" where
  "cas_rows p f rows = (if list_ex p rows then Some (update_rows p f rows) else None)"

definition sum_over :: "('r \<Rightarrow> bool) \<Rightarrow> ('r \<Rightarrow> 'n) \<Rightarrow> 'r list \<Rightarrow> 'n::comm_monoid_add" where
  "sum_over p g rows = sum_list (map g (filter p rows))"

lemma row_by_Nil [simp]: "row_by key k [] = None"
  by (simp add: row_by_def)

lemma row_by_Cons [simp]:
  "row_by key k (r # rows) = (if key r = k then Some r else row_by key k rows)"
  by (simp add: row_by_def)

lemma row_by_SomeD:
  "row_by key k rows = Some r \<Longrightarrow> r \<in> set rows \<and> key r = k"
  by (induction rows) (auto split: if_splits)

lemma row_by_None_iff:
  "row_by key k rows = None \<longleftrightarrow> k \<notin> key ` set rows"
  by (induction rows) auto

lemma row_by_append:
  "row_by key k (xs @ ys) = (case row_by key k xs of None \<Rightarrow> row_by key k ys | Some r \<Rightarrow> Some r)"
  by (induction xs) auto

lemma row_by_distinct:
  "\<lbrakk>distinct (map key rows); r \<in> set rows\<rbrakk> \<Longrightarrow> row_by key (key r) rows = Some r"
  by (induction rows) (auto simp: image_iff)

lemma row_by_eq_distinct:
  "distinct (map key rows) \<Longrightarrow> row_by key k rows = Some r \<longleftrightarrow> r \<in> set rows \<and> key r = k"
  by (auto intro: row_by_distinct dest: row_by_SomeD)

lemma update_rows_Nil [simp]: "update_rows p f [] = []"
  by (simp add: update_rows_def)

lemma update_rows_Cons [simp]:
  "update_rows p f (r # rows) = (if p r then f r else r) # update_rows p f rows"
  by (simp add: update_rows_def)

lemma update_rows_append [simp]:
  "update_rows p f (xs @ ys) = update_rows p f xs @ update_rows p f ys"
  by (simp add: update_rows_def)

lemma length_update_rows [simp]: "length (update_rows p f rows) = length rows"
  by (simp add: update_rows_def)

lemma update_rows_none:
  "(\<And>r. r \<in> set rows \<Longrightarrow> \<not> p r) \<Longrightarrow> update_rows p f rows = rows"
  by (induction rows) auto

lemma set_update_rows:
  "set (update_rows p f rows) = {if p r then f r else r | r. r \<in> set rows}"
  by (auto simp: update_rows_def)

lemma map_update_rows_same:
  "(\<And>r. p r \<Longrightarrow> g (f r) = g r) \<Longrightarrow> map g (update_rows p f rows) = map g rows"
  by (induction rows) auto

lemma row_by_update_rows:
  assumes "\<And>r. p r \<Longrightarrow> key (f r) = key r"
  shows "row_by key k (update_rows p f rows) =
    map_option (\<lambda>r. if p r then f r else r) (row_by key k rows)"
  using assms by (induction rows) auto

lemma filter_update_rows_same:
  "(\<And>r. p r \<Longrightarrow> q (f r) = q r) \<Longrightarrow>
    filter q (update_rows p f rows) = update_rows p f (filter q rows)"
  by (induction rows) auto

lemma cas_rows_Some_iff [rsimps]:
  "cas_rows p f rows = Some rows' \<longleftrightarrow> (\<exists>r\<in>set rows. p r) \<and> rows' = update_rows p f rows"
  by (auto simp: cas_rows_def list_ex_iff)

lemma cas_rows_None_iff:
  "cas_rows p f rows = None \<longleftrightarrow> (\<forall>r\<in>set rows. \<not> p r)"
  by (auto simp: cas_rows_def list_ex_iff)

lemma sum_over_Nil [simp]: "sum_over p g [] = 0"
  by (simp add: sum_over_def)

lemma sum_over_Cons [simp]:
  "sum_over p g (r # rows) = (if p r then g r + sum_over p g rows else sum_over p g rows)"
  by (simp add: sum_over_def)

lemma sum_over_append [simp]:
  "sum_over p g (xs @ ys) = sum_over p g xs + sum_over p g ys"
  by (simp add: sum_over_def)

lemma sum_over_cong:
  "(\<And>r. r \<in> set rows \<Longrightarrow> p r = p' r) \<Longrightarrow> (\<And>r. r \<in> set rows \<Longrightarrow> p r \<Longrightarrow> g r = g' r) \<Longrightarrow>
    sum_over p g rows = sum_over p' g' rows"
  by (induction rows) auto

lemma sum_over_none:
  "(\<And>r. r \<in> set rows \<Longrightarrow> \<not> p r) \<Longrightarrow> sum_over p g rows = 0"
  by (induction rows) auto

lemma sum_over_update_same:
  assumes "\<And>r. q r \<Longrightarrow> p (f r) = p r" and "\<And>r. q r \<Longrightarrow> p r \<Longrightarrow> g (f r) = g r"
  shows "sum_over p g (update_rows q f rows) = sum_over p g rows"
  using assms by (induction rows) auto

text \<open>
  The key lemma for totals: updating the one row of a key changes a total by the
  change of that row.
\<close>

lemma sum_over_update_key:
  fixes g :: "'r \<Rightarrow> 'n::ab_group_add"
  assumes "distinct (map key rows)" and "r \<in> set rows"
    and "p r" and "p (f r)"
  shows "sum_over p g (update_rows (\<lambda>x. key x = key r) f rows) = sum_over p g rows - g r + g (f r)"
  using assms
proof (induction rows)
  case (Cons a rows)
  show ?case
  proof (cases "a = r")
    case True
    then have "update_rows (\<lambda>x. key x = key r) f rows = rows"
      using Cons.prems(1) by (intro update_rows_none) (auto simp: image_iff)
    then show ?thesis using True Cons.prems by simp
  next
    case False
    then have "r \<in> set rows" and "key a \<noteq> key r"
      using Cons.prems by (auto simp: image_iff)
    then show ?thesis using Cons by simp
  qed
qed simp

section \<open>Filters and pages of a query\<close>

definition opt_cond :: "('a \<Rightarrow> bool) \<Rightarrow> 'a option \<Rightarrow> bool" where
  "opt_cond p x = (case x of None \<Rightarrow> True | Some v \<Rightarrow> p v)"

text \<open>A text filter is applied when it is given and not empty.\<close>

definition text_cond :: "(string \<Rightarrow> bool) \<Rightarrow> string option \<Rightarrow> bool" where
  "text_cond p x = (case x of None \<Rightarrow> True | Some v \<Rightarrow> v = [] \<or> p v)"

text \<open>\<^verbatim>\<open>Field(min_length=lo, max_length=hi)\<close> on a text and on an optional text\<close>

definition text_len :: "nat \<Rightarrow> nat \<Rightarrow> string \<Rightarrow> bool" where
  "text_len lo hi x \<longleftrightarrow> lo \<le> length x \<and> length x \<le> hi"

definition opt_len :: "nat \<Rightarrow> nat \<Rightarrow> string option \<Rightarrow> bool" where
  "opt_len lo hi x = (case x of None \<Rightarrow> True | Some v \<Rightarrow> text_len lo hi v)"

text \<open>\<^verbatim>\<open>offset((page - 1) * page_size).limit(page_size)\<close>\<close>

definition page_of :: "nat \<Rightarrow> nat \<Rightarrow> 'a list \<Rightarrow> 'a list" where
  "page_of page page_size rows = take page_size (drop ((page - 1) * page_size) rows)"

text \<open>The pages of a list, one after the other, are the list.\<close>

lemma concat_pages:
  "concat (map (\<lambda>p. page_of (Suc p) n rows) [0..<k]) = take (k * n) rows"
proof (induction k)
  case (Suc k)
  have "take (Suc k * n) rows = take (k * n) rows @ take n (drop (k * n) rows)"
    by (simp add: take_add[symmetric] add.commute)
  then show ?case using Suc by (simp add: page_of_def)
qed simp

end
