(* ===== verification/Enums.thy ===== *)
theory Enums
  imports Prelude
begin

text \<open>
  The enumerations of \<^verbatim>\<open>app/utils/enums.py\<close> and the errors of
  \<^verbatim>\<open>app/core/exceptions.py\<close> with their translation into HTTP responses
  (\<^verbatim>\<open>app/core/exception_handlers.py\<close>).

  A constructor carries a prefix where two Python enums share a member name
  (\<^verbatim>\<open>PrStatus.DRAFT\<close> is \<^verbatim>\<open>PR_DRAFT\<close>, \<^verbatim>\<open>PoStatus.DRAFT\<close> is \<^verbatim>\<open>PO_DRAFT\<close>).
  The human-readable message of an error is left out: clients branch on the code.
\<close>

section \<open>Enumerations\<close>

datatype active_status = ST_ACTIVE | ST_DISABLED

datatype dept_status = DEPT_ACTIVE | DEPT_INACTIVE

datatype user_status = USER_ACTIVE | USER_DISABLED_ST

datatype pr_status =
  PR_DRAFT | PR_PENDING | PR_APPROVED | PR_REJECTED | PR_CANCELLED | PR_CONVERTED

datatype po_status =
  PO_DRAFT | PO_CONFIRMED | PO_PARTIALLY_RECEIVED | PO_RECEIVED | PO_CANCELLED

datatype receipt_status = RCV_POSTED | RCV_REVERSED

datatype reconciliation_status =
  RC_DRAFT | RC_PENDING | RC_POSTED | RC_REJECTED | RC_CANCELLED | RC_REVERSED

datatype txn_type =
  PURCHASE_IN | PURCHASE_IN_REVERSAL | ADJUST_IN | ADJUST_OUT | PRODUCTION_OUT | PRODUCTION_IN

definition TXN_INBOUND_TYPES :: "txn_type list" where
  "TXN_INBOUND_TYPES = [PURCHASE_IN, ADJUST_IN, PRODUCTION_IN]"

definition TXN_OUTBOUND_TYPES :: "txn_type list" where
  "TXN_OUTBOUND_TYPES = [PURCHASE_IN_REVERSAL, ADJUST_OUT, PRODUCTION_OUT]"

datatype txn_source_type =
  SRC_PURCHASE_RECEIPT | SRC_PURCHASE_RECEIPT_REVERSAL | SRC_MANUAL_ADJUST
| SRC_PRODUCTION_ISSUE | SRC_PRODUCTION_RECEIPT | SRC_STOCK_RECONCILIATION

datatype document_type = DOC_PURCHASE_REQUISITION | DOC_PURCHASE_ORDER

datatype approval_action = AA_SUBMIT | AA_APPROVE | AA_REJECT | AA_CANCEL

datatype role_code =
  ROLE_ADMIN | ROLE_APPLICANT | ROLE_DEPT_MANAGER | ROLE_BUYER | ROLE_WAREHOUSE

datatype (plugins only: code) audit_action =
  LOGIN | LOGIN_FAILED
| PR_CREATE | PR_UPDATE | PR_SUBMIT | PR_APPROVE | PR_REJECT | PR_REVISE | PR_CANCEL
| PO_CREATE | PO_CONFIRM | PO_CANCEL
| RECEIPT_POST | RECEIPT_REVERSE | PERMISSION_CHANGE
| MATERIAL_CREATE | MATERIAL_UPDATE | MATERIAL_DISABLE | MATERIAL_ENABLE
| SUPPLIER_CREATE | SUPPLIER_UPDATE | SUPPLIER_DISABLE | SUPPLIER_ENABLE
| WAREHOUSE_CREATE | WAREHOUSE_UPDATE | WAREHOUSE_DISABLE | WAREHOUSE_ENABLE
| INVENTORY_POLICY_CHANGE
| STOCK_COUNT_CREATE | STOCK_COUNT_SUBMIT | STOCK_COUNT_APPROVE | STOCK_COUNT_REJECT

datatype sequence_key =
  SEQ_MATERIAL | SEQ_SUPPLIER | SEQ_WAREHOUSE | SEQ_PURCHASE_REQUISITION
| SEQ_PURCHASE_ORDER | SEQ_PURCHASE_RECEIPT | SEQ_INVENTORY_TRANSACTION
| SEQ_STOCK_RECONCILIATION

primrec sequence_key_value :: "sequence_key \<Rightarrow> string" where
  "sequence_key_value SEQ_MATERIAL = ''MAT''"
| "sequence_key_value SEQ_SUPPLIER = ''SUP''"
| "sequence_key_value SEQ_WAREHOUSE = ''WH''"
| "sequence_key_value SEQ_PURCHASE_REQUISITION = ''PR''"
| "sequence_key_value SEQ_PURCHASE_ORDER = ''PO''"
| "sequence_key_value SEQ_PURCHASE_RECEIPT = ''RCV''"
| "sequence_key_value SEQ_INVENTORY_TRANSACTION = ''TXN''"
| "sequence_key_value SEQ_STOCK_RECONCILIATION = ''CNT''"

definition GLOBAL_SEQUENCE_KEYS :: "sequence_key list" where
  "GLOBAL_SEQUENCE_KEYS = [SEQ_MATERIAL, SEQ_SUPPLIER, SEQ_WAREHOUSE]"

text \<open>The status names that approval records and descriptions store as text.\<close>

primrec pr_status_value :: "pr_status \<Rightarrow> string" where
  "pr_status_value PR_DRAFT = ''DRAFT''"
| "pr_status_value PR_PENDING = ''PENDING''"
| "pr_status_value PR_APPROVED = ''APPROVED''"
| "pr_status_value PR_REJECTED = ''REJECTED''"
| "pr_status_value PR_CANCELLED = ''CANCELLED''"
| "pr_status_value PR_CONVERTED = ''CONVERTED''"

primrec po_status_value :: "po_status \<Rightarrow> string" where
  "po_status_value PO_DRAFT = ''DRAFT''"
| "po_status_value PO_CONFIRMED = ''CONFIRMED''"
| "po_status_value PO_PARTIALLY_RECEIVED = ''PARTIALLY_RECEIVED''"
| "po_status_value PO_RECEIVED = ''RECEIVED''"
| "po_status_value PO_CANCELLED = ''CANCELLED''"

lemma sequence_key_value_inject [simp]:
  "sequence_key_value k = sequence_key_value k' \<longleftrightarrow> k = k'"
  by (cases k; cases k') simp_all

lemma sequence_key_value_no_dash: "CHR ''-'' \<notin> set (sequence_key_value k)"
  by (cases k) simp_all

lemma txn_types_partition:
  "t \<in> set TXN_INBOUND_TYPES \<longleftrightarrow> t \<notin> set TXN_OUTBOUND_TYPES"
  by (cases t) (simp_all add: TXN_INBOUND_TYPES_def TXN_OUTBOUND_TYPES_def)

section \<open>Errors\<close>

datatype (plugins only: code) error_code =
  OK
| INTERNAL_ERROR | VALIDATION_ERROR | NOT_FOUND | CONFLICT | DUPLICATE_KEY
| UNAUTHORIZED | FORBIDDEN | INVALID_CREDENTIALS | USER_DISABLED | PERMISSION_DENIED
| MATERIAL_CODE_EXISTS | MATERIAL_IN_USE | SUPPLIER_CODE_EXISTS | SUPPLIER_IN_USE
| WAREHOUSE_CODE_EXISTS | USERNAME_EXISTS | DEPARTMENT_CODE_EXISTS | ROLE_CODE_EXISTS
| MASTER_DATA_DISABLED | WAREHOUSE_HAS_STOCK | INVENTORY_POLICY_DUPLICATE
| PR_NOT_FOUND | PR_INVALID_STATUS_TRANSITION | PR_NOT_EDITABLE | PR_EMPTY_ITEMS
| PR_NOT_APPLICANT | PR_REJECT_COMMENT_REQUIRED | PR_NOT_APPROVER | PR_CANCEL_HAS_ACTIVE_PO
| PR_ITEM_CONVERT_EXCEEDED | PR_ITEM_NOT_FOUND | PR_VERSION_CONFLICT | PR_ALREADY_PROCESSED
| PO_NOT_FOUND | PO_INVALID_STATUS_TRANSITION | PO_NOT_EDITABLE | PO_EMPTY_ITEMS
| PO_SUPPLIER_REQUIRED | PO_SUPPLIER_DISABLED | PO_UNIT_PRICE_REQUIRED | PO_CANCEL_HAS_RECEIPT
| PO_NOT_RECEIVABLE | PO_SOURCE_QUANTITY_MISMATCH | PO_ITEM_NOT_FOUND | PO_VERSION_CONFLICT
| PO_ALREADY_PROCESSED
| RECEIPT_NOT_FOUND | RECEIPT_EXCEEDS_REMAINING | RECEIPT_EMPTY_ITEMS | RECEIPT_DUPLICATE_ITEM
| RECEIPT_ALREADY_REVERSED | RECEIPT_NOT_POSTED | REVERSE_REASON_REQUIRED
| RECEIPT_QUANTITY_POSITIVE | INVENTORY_NEGATIVE | INVENTORY_BALANCE_MISMATCH
| INVENTORY_TXN_APPEND_ONLY | RECEIPT_ITEM_NOT_IN_PO
| RECONCILIATION_NOT_FOUND | RECONCILIATION_INVALID_STATUS | RECONCILIATION_VERSION_CONFLICT
| RECONCILIATION_BALANCE_CHANGED | RECONCILIATION_ALREADY_PROCESSED
| RECONCILIATION_SELF_APPROVAL | RECONCILIATION_OVERRIDE_REASON_REQUIRED
| RECONCILIATION_EMPTY_ITEMS | RECONCILIATION_PHYSICAL_NEGATIVE
| RECONCILIATION_ITEM_NOT_FOUND | RECONCILIATION_VALUATION_RATE_REQUIRED

primrec error_code_value :: "error_code \<Rightarrow> nat" where
  "error_code_value OK = 0"
| "error_code_value INTERNAL_ERROR = 1000"
| "error_code_value VALIDATION_ERROR = 1001"
| "error_code_value NOT_FOUND = 1002"
| "error_code_value CONFLICT = 1003"
| "error_code_value DUPLICATE_KEY = 1004"
| "error_code_value UNAUTHORIZED = 2001"
| "error_code_value FORBIDDEN = 2002"
| "error_code_value INVALID_CREDENTIALS = 2003"
| "error_code_value USER_DISABLED = 2004"
| "error_code_value PERMISSION_DENIED = 2005"
| "error_code_value MATERIAL_CODE_EXISTS = 3001"
| "error_code_value MATERIAL_IN_USE = 3002"
| "error_code_value SUPPLIER_CODE_EXISTS = 3003"
| "error_code_value SUPPLIER_IN_USE = 3004"
| "error_code_value WAREHOUSE_CODE_EXISTS = 3005"
| "error_code_value USERNAME_EXISTS = 3006"
| "error_code_value DEPARTMENT_CODE_EXISTS = 3007"
| "error_code_value ROLE_CODE_EXISTS = 3008"
| "error_code_value MASTER_DATA_DISABLED = 3009"
| "error_code_value WAREHOUSE_HAS_STOCK = 3010"
| "error_code_value INVENTORY_POLICY_DUPLICATE = 3011"
| "error_code_value PR_NOT_FOUND = 4001"
| "error_code_value PR_INVALID_STATUS_TRANSITION = 4002"
| "error_code_value PR_NOT_EDITABLE = 4003"
| "error_code_value PR_EMPTY_ITEMS = 4004"
| "error_code_value PR_NOT_APPLICANT = 4005"
| "error_code_value PR_REJECT_COMMENT_REQUIRED = 4006"
| "error_code_value PR_NOT_APPROVER = 4007"
| "error_code_value PR_CANCEL_HAS_ACTIVE_PO = 4008"
| "error_code_value PR_ITEM_CONVERT_EXCEEDED = 4009"
| "error_code_value PR_ITEM_NOT_FOUND = 4010"
| "error_code_value PR_VERSION_CONFLICT = 4011"
| "error_code_value PR_ALREADY_PROCESSED = 4012"
| "error_code_value PO_NOT_FOUND = 5001"
| "error_code_value PO_INVALID_STATUS_TRANSITION = 5002"
| "error_code_value PO_NOT_EDITABLE = 5003"
| "error_code_value PO_EMPTY_ITEMS = 5004"
| "error_code_value PO_SUPPLIER_REQUIRED = 5005"
| "error_code_value PO_SUPPLIER_DISABLED = 5006"
| "error_code_value PO_UNIT_PRICE_REQUIRED = 5007"
| "error_code_value PO_CANCEL_HAS_RECEIPT = 5008"
| "error_code_value PO_NOT_RECEIVABLE = 5009"
| "error_code_value PO_SOURCE_QUANTITY_MISMATCH = 5010"
| "error_code_value PO_ITEM_NOT_FOUND = 5011"
| "error_code_value PO_VERSION_CONFLICT = 5012"
| "error_code_value PO_ALREADY_PROCESSED = 5013"
| "error_code_value RECEIPT_NOT_FOUND = 6001"
| "error_code_value RECEIPT_EXCEEDS_REMAINING = 6002"
| "error_code_value RECEIPT_EMPTY_ITEMS = 6003"
| "error_code_value RECEIPT_DUPLICATE_ITEM = 6004"
| "error_code_value RECEIPT_ALREADY_REVERSED = 6005"
| "error_code_value RECEIPT_NOT_POSTED = 6006"
| "error_code_value REVERSE_REASON_REQUIRED = 6007"
| "error_code_value RECEIPT_QUANTITY_POSITIVE = 6008"
| "error_code_value INVENTORY_NEGATIVE = 6009"
| "error_code_value INVENTORY_BALANCE_MISMATCH = 6010"
| "error_code_value INVENTORY_TXN_APPEND_ONLY = 6011"
| "error_code_value RECEIPT_ITEM_NOT_IN_PO = 6012"
| "error_code_value RECONCILIATION_NOT_FOUND = 7001"
| "error_code_value RECONCILIATION_INVALID_STATUS = 7002"
| "error_code_value RECONCILIATION_VERSION_CONFLICT = 7003"
| "error_code_value RECONCILIATION_BALANCE_CHANGED = 7005"
| "error_code_value RECONCILIATION_ALREADY_PROCESSED = 7006"
| "error_code_value RECONCILIATION_SELF_APPROVAL = 7007"
| "error_code_value RECONCILIATION_OVERRIDE_REASON_REQUIRED = 7008"
| "error_code_value RECONCILIATION_EMPTY_ITEMS = 7009"
| "error_code_value RECONCILIATION_PHYSICAL_NEGATIVE = 7011"
| "error_code_value RECONCILIATION_ITEM_NOT_FOUND = 7014"
| "error_code_value RECONCILIATION_VALUATION_RATE_REQUIRED = 7017"

text \<open>
  An exception object is its class with the optional \<^verbatim>\<open>code\<close> and
  \<^verbatim>\<open>http_status\<close> of the constructor call, which override those of the class.
\<close>

datatype exc_class =
  AppException | ValidationException | NotFoundException | ConflictException
| UnauthorizedException | InvalidCredentialsException | UserDisabledException
| ForbiddenException | PermissionDeniedException | InvalidStatusTransitionException
| ReceiptExceedsRemainingException | InventoryNegativeException
| InventoryTxnAppendOnlyException
| ReconciliationNotFoundException | ReconciliationInvalidStatusException
| ReconciliationVersionConflictException | ReconciliationBalanceChangedException
| ReconciliationAlreadyProcessedException | ReconciliationSelfApprovalException
| ReconciliationOverrideReasonRequiredException
| ReconciliationValuationRateRequiredException

primrec class_code :: "exc_class \<Rightarrow> error_code" where
  "class_code AppException = INTERNAL_ERROR"
| "class_code ValidationException = VALIDATION_ERROR"
| "class_code NotFoundException = NOT_FOUND"
| "class_code ConflictException = CONFLICT"
| "class_code UnauthorizedException = UNAUTHORIZED"
| "class_code InvalidCredentialsException = INVALID_CREDENTIALS"
| "class_code UserDisabledException = USER_DISABLED"
| "class_code ForbiddenException = FORBIDDEN"
| "class_code PermissionDeniedException = PERMISSION_DENIED"
| "class_code InvalidStatusTransitionException = PR_INVALID_STATUS_TRANSITION"
| "class_code ReceiptExceedsRemainingException = RECEIPT_EXCEEDS_REMAINING"
| "class_code InventoryNegativeException = INVENTORY_NEGATIVE"
| "class_code InventoryTxnAppendOnlyException = INVENTORY_TXN_APPEND_ONLY"
| "class_code ReconciliationNotFoundException = RECONCILIATION_NOT_FOUND"
| "class_code ReconciliationInvalidStatusException = RECONCILIATION_INVALID_STATUS"
| "class_code ReconciliationVersionConflictException = RECONCILIATION_VERSION_CONFLICT"
| "class_code ReconciliationBalanceChangedException = RECONCILIATION_BALANCE_CHANGED"
| "class_code ReconciliationAlreadyProcessedException = RECONCILIATION_ALREADY_PROCESSED"
| "class_code ReconciliationSelfApprovalException = RECONCILIATION_SELF_APPROVAL"
| "class_code ReconciliationOverrideReasonRequiredException =
    RECONCILIATION_OVERRIDE_REASON_REQUIRED"
| "class_code ReconciliationValuationRateRequiredException =
    RECONCILIATION_VALUATION_RATE_REQUIRED"

primrec class_http_status :: "exc_class \<Rightarrow> nat" where
  "class_http_status AppException = 409"
| "class_http_status ValidationException = 422"
| "class_http_status NotFoundException = 404"
| "class_http_status ConflictException = 409"
| "class_http_status UnauthorizedException = 401"
| "class_http_status InvalidCredentialsException = 401"
| "class_http_status UserDisabledException = 403"
| "class_http_status ForbiddenException = 403"
| "class_http_status PermissionDeniedException = 403"
| "class_http_status InvalidStatusTransitionException = 409"
| "class_http_status ReceiptExceedsRemainingException = 409"
| "class_http_status InventoryNegativeException = 409"
| "class_http_status InventoryTxnAppendOnlyException = 409"
| "class_http_status ReconciliationNotFoundException = 404"
| "class_http_status ReconciliationInvalidStatusException = 409"
| "class_http_status ReconciliationVersionConflictException = 409"
| "class_http_status ReconciliationBalanceChangedException = 409"
| "class_http_status ReconciliationAlreadyProcessedException = 409"
| "class_http_status ReconciliationSelfApprovalException = 403"
| "class_http_status ReconciliationOverrideReasonRequiredException = 422"
| "class_http_status ReconciliationValuationRateRequiredException = 422"

text \<open>
  Beside the exceptions the services raise, the database refuses a statement
  that violates a UNIQUE index, a foreign key or a CHECK of the schema, and the
  ORM raises when an UPDATE of a loaded row finds the row gone (\<^verbatim>\<open>StaleData\<close>).
\<close>

datatype db_violation = UniqueViolation string | ForeignKeyViolation string | CheckViolation string

datatype error =
  Raised (exc_class: exc_class) (raised_code: "error_code option") (raised_http: "nat option")
| DbError db_violation
| StaleData

definition raise_class :: "exc_class \<Rightarrow> error" where
  "raise_class c = Raised c None None"

definition raise_code :: "exc_class \<Rightarrow> error_code \<Rightarrow> error" where
  "raise_code c k = Raised c (Some k) None"

text \<open>
  The response of the global exception handlers: HTTP status and business code.
  Whether the driver reports a violation as SQLAlchemy's \<^verbatim>\<open>IntegrityError\<close> is the
  driver's choice, so it is a parameter.
\<close>

record error_response =
  resp_status :: nat
  resp_code :: nat

primrec handle_error :: "(db_violation \<Rightarrow> bool) \<Rightarrow> error \<Rightarrow> error_response" where
  "handle_error is_integrity_error (Raised c k h) =
    \<lparr>resp_status = (case h of None \<Rightarrow> class_http_status c | Some st \<Rightarrow> st),
     resp_code = error_code_value (case k of None \<Rightarrow> class_code c | Some kk \<Rightarrow> kk)\<rparr>"
| "handle_error is_integrity_error (DbError v) =
    (if is_integrity_error v
     then \<lparr>resp_status = 409, resp_code = error_code_value DUPLICATE_KEY\<rparr>
     else \<lparr>resp_status = 500, resp_code = error_code_value INTERNAL_ERROR\<rparr>)"
| "handle_error is_integrity_error StaleData =
    \<lparr>resp_status = 500, resp_code = error_code_value INTERNAL_ERROR\<rparr>"

definition all_error_codes :: "error_code list" where
  "all_error_codes = [
    OK, INTERNAL_ERROR, VALIDATION_ERROR, NOT_FOUND, CONFLICT, DUPLICATE_KEY, UNAUTHORIZED,
    FORBIDDEN, INVALID_CREDENTIALS, USER_DISABLED, PERMISSION_DENIED, MATERIAL_CODE_EXISTS,
    MATERIAL_IN_USE, SUPPLIER_CODE_EXISTS, SUPPLIER_IN_USE, WAREHOUSE_CODE_EXISTS,
    USERNAME_EXISTS, DEPARTMENT_CODE_EXISTS, ROLE_CODE_EXISTS, MASTER_DATA_DISABLED,
    WAREHOUSE_HAS_STOCK, INVENTORY_POLICY_DUPLICATE, PR_NOT_FOUND,
    PR_INVALID_STATUS_TRANSITION, PR_NOT_EDITABLE, PR_EMPTY_ITEMS, PR_NOT_APPLICANT,
    PR_REJECT_COMMENT_REQUIRED, PR_NOT_APPROVER, PR_CANCEL_HAS_ACTIVE_PO,
    PR_ITEM_CONVERT_EXCEEDED, PR_ITEM_NOT_FOUND, PR_VERSION_CONFLICT, PR_ALREADY_PROCESSED,
    PO_NOT_FOUND, PO_INVALID_STATUS_TRANSITION, PO_NOT_EDITABLE, PO_EMPTY_ITEMS,
    PO_SUPPLIER_REQUIRED, PO_SUPPLIER_DISABLED, PO_UNIT_PRICE_REQUIRED, PO_CANCEL_HAS_RECEIPT,
    PO_NOT_RECEIVABLE, PO_SOURCE_QUANTITY_MISMATCH, PO_ITEM_NOT_FOUND, PO_VERSION_CONFLICT,
    PO_ALREADY_PROCESSED, RECEIPT_NOT_FOUND, RECEIPT_EXCEEDS_REMAINING, RECEIPT_EMPTY_ITEMS,
    RECEIPT_DUPLICATE_ITEM, RECEIPT_ALREADY_REVERSED, RECEIPT_NOT_POSTED,
    REVERSE_REASON_REQUIRED, RECEIPT_QUANTITY_POSITIVE, INVENTORY_NEGATIVE,
    INVENTORY_BALANCE_MISMATCH, INVENTORY_TXN_APPEND_ONLY, RECEIPT_ITEM_NOT_IN_PO,
    RECONCILIATION_NOT_FOUND, RECONCILIATION_INVALID_STATUS, RECONCILIATION_VERSION_CONFLICT,
    RECONCILIATION_BALANCE_CHANGED, RECONCILIATION_ALREADY_PROCESSED,
    RECONCILIATION_SELF_APPROVAL, RECONCILIATION_OVERRIDE_REASON_REQUIRED,
    RECONCILIATION_EMPTY_ITEMS, RECONCILIATION_PHYSICAL_NEGATIVE,
    RECONCILIATION_ITEM_NOT_FOUND, RECONCILIATION_VALUATION_RATE_REQUIRED]"

lemma find_error_code:
  "find (\<lambda>c. error_code_value c = error_code_value x) all_error_codes = Some x"
  by (cases x) (simp_all add: all_error_codes_def)

lemma error_code_value_inject: "inj error_code_value"
  by (rule injI) (metis find_error_code option.inject)

end
