(* ===== verification/Money.thy ===== *)
theory Money
  imports Prelude
begin

text \<open>
  Decimal arithmetic of \<^verbatim>\<open>app/utils/money.py\<close>.

  A Python \<^verbatim>\<open>Decimal\<close> is a finite decimal fraction; it is modelled by its value,
  a rational.  \<^verbatim>\<open>Decimal.quantize\<close> with \<^verbatim>\<open>ROUND_HALF_UP\<close> rounds to the nearest
  multiple of the quantum and ties away from zero, with the default rounding of
  the context ties go to the even multiple.  Sums, differences and products of
  column values (DECIMAL(18,2), DECIMAL(18,4)) have at most 28 significant digits
  whenever the product fits an amount column, so the context of 28 digits does
  not round them.
\<close>

type_synonym decimal = rat

definition scale10 :: "nat \<Rightarrow> decimal" where
  "scale10 n = 10 ^ n"

definition quantize_half_up :: "nat \<Rightarrow> decimal \<Rightarrow> decimal" where
  "quantize_half_up n x =
    (if x < 0 then - (of_int \<lfloor>- x * scale10 n + 1/2\<rfloor> / scale10 n)
     else of_int \<lfloor>x * scale10 n + 1/2\<rfloor> / scale10 n)"

definition quantize_half_even :: "nat \<Rightarrow> decimal \<Rightarrow> decimal" where
  "quantize_half_even n x =
    (let y = x * scale10 n; k = \<lfloor>y\<rfloor>; r = y - of_int k
     in (if r < 1/2 \<or> (r = 1/2 \<and> even k) then of_int k else of_int (k + 1)) / scale10 n)"

definition money :: "decimal \<Rightarrow> decimal" where
  "money v = quantize_half_up 2 v"

definition unit_cost :: "decimal \<Rightarrow> decimal" where
  "unit_cost v = quantize_half_up 4 v"

definition line_amount :: "decimal \<Rightarrow> decimal \<Rightarrow> decimal" where
  "line_amount requested_quantity estimated_unit_price =
    money (requested_quantity * estimated_unit_price)"

definition sum_amounts :: "decimal list \<Rightarrow> decimal" where
  "sum_amounts amounts = money (fold (\<lambda>a s. s + a) amounts 0)"

text \<open>The values of a DECIMAL(p,n) column: multiples of \<^verbatim>\<open>10^-n\<close>.\<close>

definition on_grid :: "nat \<Rightarrow> decimal \<Rightarrow> bool" where
  "on_grid n x = (x * scale10 n \<in> \<int>)"

named_theorems grid \<open>Values that are multiples of a quantum\<close>

lemma scale10_pos [simp]: "0 < scale10 n" "scale10 n \<noteq> 0"
  by (simp_all add: scale10_def)

lemma on_grid_iff: "on_grid n x \<longleftrightarrow> (\<exists>k. x = of_int k / scale10 n)"
  unfolding on_grid_def Ints_def image_iff
  by (metis UNIV_I eq_divide_eq scale10_pos(2))

lemma on_grid_code [code]: "on_grid n x = (of_int \<lfloor>x * scale10 n\<rfloor> = x * scale10 n)"
  unfolding on_grid_def by (metis Ints_cases Ints_of_int floor_of_int)

lemma on_grid_0 [simp, grid]: "on_grid n 0"
  by (simp add: on_grid_def)

lemma on_grid_add [grid]: "on_grid n x \<Longrightarrow> on_grid n y \<Longrightarrow> on_grid n (x + y)"
  by (simp add: on_grid_def algebra_simps)

lemma on_grid_diff [grid]: "on_grid n x \<Longrightarrow> on_grid n y \<Longrightarrow> on_grid n (x - y)"
  by (simp add: on_grid_def algebra_simps)

lemma on_grid_minus [grid]: "on_grid n x \<Longrightarrow> on_grid n (- x)"
  by (simp add: on_grid_def)

lemma on_grid_minus_iff [simp]: "on_grid n (- x) = on_grid n x"
  using on_grid_minus by force

lemma on_grid_sum_list [grid]:
  "(\<And>x. x \<in> set xs \<Longrightarrow> on_grid n x) \<Longrightarrow> on_grid n (sum_list xs)"
  by (induction xs) (auto intro: on_grid_add)

lemma on_grid_sum_over [grid]:
  "(\<And>r. r \<in> set rows \<Longrightarrow> p r \<Longrightarrow> on_grid n (g r)) \<Longrightarrow> on_grid n (sum_over p g rows)"
  by (induction rows) (auto intro: on_grid_add)

section \<open>Rounding half up\<close>

lemma quantize_half_up_grid [simp, grid]: "on_grid n (quantize_half_up n x)"
  unfolding on_grid_def quantize_half_up_def by simp

lemma floor_half_int:
  assumes "x \<in> \<int>" shows "of_int \<lfloor>x + 1/2\<rfloor> = (x :: rat)"
proof -
  obtain k where k: "x = of_int k" using assms by (auto elim: Ints_cases)
  have "\<lfloor>x + 1/2\<rfloor> = k" unfolding k by (simp add: floor_unique)
  then show ?thesis by (simp add: k)
qed

lemma quantize_half_up_id [simp]:
  assumes "on_grid n x" shows "quantize_half_up n x = x"
proof (cases "x < 0")
  case True
  have "- x * scale10 n \<in> \<int>" using assms by (simp add: on_grid_def)
  from floor_half_int[OF this] show ?thesis
    using True by (simp add: quantize_half_up_def)
next
  case False
  have "x * scale10 n \<in> \<int>" using assms by (simp add: on_grid_def)
  from floor_half_int[OF this] show ?thesis
    using False by (simp add: quantize_half_up_def)
qed

lemma quantize_half_up_0 [simp]: "quantize_half_up n 0 = 0"
  by simp

lemma quantize_half_up_minus: "quantize_half_up n (- x) = - quantize_half_up n x"
proof (cases "x = 0")
  case False
  then show ?thesis by (simp add: quantize_half_up_def)
qed simp

lemma floor_half_bounds:
  fixes y :: rat shows "of_int \<lfloor>y + 1/2\<rfloor> - y \<le> 1/2" "y - of_int \<lfloor>y + 1/2\<rfloor> < 1/2"
  using of_int_floor_le[of "y + 1/2"] floor_correct[of "y + 1/2"] by linarith+

lemma quantize_half_up_error_nonneg:
  assumes "0 \<le> x"
  shows "quantize_half_up n x - x \<le> 1 / (2 * scale10 n)" (is ?upper)
    and "x - quantize_half_up n x < 1 / (2 * scale10 n)" (is ?lower)
proof -
  have q: "quantize_half_up n x * scale10 n = of_int \<lfloor>x * scale10 n + 1/2\<rfloor>"
    using assms by (simp add: quantize_half_up_def)
  have "(quantize_half_up n x - x) * scale10 n \<le> 1/2"
    using floor_half_bounds(1)[of "x * scale10 n"] q by (simp add: left_diff_distrib)
  then show ?upper by (simp add: field_simps)
  have "(x - quantize_half_up n x) * scale10 n < 1/2"
    using floor_half_bounds(2)[of "x * scale10 n"] q by (simp add: left_diff_distrib)
  then show ?lower by (simp add: field_simps)
qed

lemma quantize_half_up_error: "\<bar>quantize_half_up n x - x\<bar> \<le> 1 / (2 * scale10 n)"
proof (cases "0 \<le> x")
  case True
  then show ?thesis using quantize_half_up_error_nonneg[OF True, of n] by linarith
next
  case False
  then have "0 \<le> - x" by simp
  then show ?thesis
    using quantize_half_up_error_nonneg[of "- x" n] by (simp add: quantize_half_up_minus)
qed

lemma quantize_half_up_nonneg [simp]: "0 \<le> x \<Longrightarrow> 0 \<le> quantize_half_up n x"
  by (simp add: quantize_half_up_def order.strict_implies_order)

lemma quantize_half_up_nonpos: "x \<le> 0 \<Longrightarrow> quantize_half_up n x \<le> 0"
  using quantize_half_up_nonneg[of "- x" n] by (simp add: quantize_half_up_minus)

lemma quantize_half_up_mono_nonneg:
  assumes "0 \<le> x" "x \<le> y" shows "quantize_half_up n x \<le> quantize_half_up n y"
proof -
  have "\<lfloor>x * scale10 n + 1/2\<rfloor> \<le> \<lfloor>y * scale10 n + 1/2\<rfloor>"
    using assms by (intro floor_mono) (simp add: mult_right_mono order.strict_implies_order)
  then show ?thesis
    using assms by (simp add: quantize_half_up_def divide_right_mono order.strict_implies_order)
qed

lemma quantize_half_up_mono:
  assumes "x \<le> y" shows "quantize_half_up n x \<le> quantize_half_up n y"
proof (cases "0 \<le> x")
  case True then show ?thesis using assms quantize_half_up_mono_nonneg by blast
next
  case x: False
  show ?thesis
  proof (cases "0 \<le> y")
    case True
    then show ?thesis
      using x quantize_half_up_nonneg[of y n] quantize_half_up_nonpos[of x n] by linarith
  next
    case False
    then show ?thesis
      using quantize_half_up_mono_nonneg[of "- y" "- x" n] assms
      by (simp add: quantize_half_up_minus)
  qed
qed

section \<open>Rounding half to even\<close>

lemma quantize_half_even_grid [simp, grid]: "on_grid n (quantize_half_even n x)"
  unfolding on_grid_def quantize_half_even_def by (auto simp: Let_def)

lemma quantize_half_even_id [simp]:
  assumes "on_grid n x" shows "quantize_half_even n x = x"
proof -
  obtain k where "x = of_int k / scale10 n" using assms by (auto simp: on_grid_iff)
  then show ?thesis by (simp add: quantize_half_even_def)
qed

section \<open>Money\<close>

lemma money_grid [simp, grid]: "on_grid 2 (money x)"
  by (simp add: money_def)

lemma money_id [simp]: "on_grid 2 x \<Longrightarrow> money x = x"
  by (simp add: money_def)

lemma money_0 [simp]: "money 0 = 0"
  by simp

lemma money_minus: "money (- x) = - money x"
  by (simp add: money_def quantize_half_up_minus)

lemma money_nonneg [simp]: "0 \<le> x \<Longrightarrow> 0 \<le> money x"
  by (simp add: money_def)

lemma money_mono: "x \<le> y \<Longrightarrow> money x \<le> money y"
  by (simp add: money_def quantize_half_up_mono)

lemma money_error: "\<bar>money x - x\<bar> \<le> 1 / 200"
  using quantize_half_up_error[of 2 x] by (simp add: money_def scale10_def)

lemma unit_cost_grid [simp, grid]: "on_grid 4 (unit_cost x)"
  by (simp add: unit_cost_def)

lemma unit_cost_nonneg [simp]: "0 \<le> x \<Longrightarrow> 0 \<le> unit_cost x"
  by (simp add: unit_cost_def)

lemma unit_cost_error: "\<bar>unit_cost x - x\<bar> \<le> 1 / 20000"
  using quantize_half_up_error[of 4 x] by (simp add: unit_cost_def scale10_def)

lemma line_amount_grid [simp, grid]: "on_grid 2 (line_amount q p)"
  by (simp add: line_amount_def)

lemma line_amount_nonneg [simp]: "0 \<le> q \<Longrightarrow> 0 \<le> p \<Longrightarrow> 0 \<le> line_amount q p"
  by (simp add: line_amount_def)

lemma fold_add_sum_list: "fold (\<lambda>a s. s + a) xs (s::rat) = s + sum_list xs"
  by (induction xs arbitrary: s) simp_all

lemma sum_amounts_eq: "sum_amounts xs = money (sum_list xs)"
  by (simp add: sum_amounts_def fold_add_sum_list)

lemma sum_amounts_grid [simp, grid]: "on_grid 2 (sum_amounts xs)"
  by (simp add: sum_amounts_def)

lemma sum_amounts_exact:
  "(\<And>x. x \<in> set xs \<Longrightarrow> on_grid 2 x) \<Longrightarrow> sum_amounts xs = sum_list xs"
  by (simp add: sum_amounts_eq on_grid_sum_list)

end
