(* ===== verification/Calendar.thy ===== *)
theory Calendar
  imports Prelude
begin

text \<open>
  Dates and timestamps.  A \<^verbatim>\<open>date\<close> is year, month and day; a timestamp of
  a DATETIME(3) column is a date with the milliseconds of the day.  The clock
  (\<^verbatim>\<open>date.today()\<close>, \<^verbatim>\<open>datetime.now(UTC)\<close>) is an argument of the handlers.
  Both types are linearly ordered by the library's class \<^verbatim>\<open>linorder\<close>.
\<close>

datatype date = Date (year: nat) (month: nat) (day: nat)

datatype datetime = DateTime (dt_date: date) (dt_millis: nat)

instantiation date :: linorder
begin

definition less_eq_date :: "date \<Rightarrow> date \<Rightarrow> bool" where
  "less_eq_date a b \<longleftrightarrow> year a < year b \<or> (year a = year b \<and>
     (month a < month b \<or> (month a = month b \<and> day a \<le> day b)))"

definition less_date :: "date \<Rightarrow> date \<Rightarrow> bool" where
  "less_date a b \<longleftrightarrow> a \<le> b \<and> \<not> b \<le> (a::date)"

instance
proof
  fix a b c :: date
  show "a < b \<longleftrightarrow> a \<le> b \<and> \<not> b \<le> a" by (simp add: less_date_def)
  show "a \<le> a" by (simp add: less_eq_date_def)
  show "a \<le> b \<Longrightarrow> b \<le> c \<Longrightarrow> a \<le> c" by (auto simp: less_eq_date_def)
  show "a \<le> b \<Longrightarrow> b \<le> a \<Longrightarrow> a = b"
    by (cases a; cases b) (auto simp: less_eq_date_def)
  show "a \<le> b \<or> b \<le> a" by (auto simp: less_eq_date_def)
qed

end

instantiation datetime :: linorder
begin

definition less_eq_datetime :: "datetime \<Rightarrow> datetime \<Rightarrow> bool" where
  "less_eq_datetime a b \<longleftrightarrow>
     dt_date a < dt_date b \<or> (dt_date a = dt_date b \<and> dt_millis a \<le> dt_millis b)"

definition less_datetime :: "datetime \<Rightarrow> datetime \<Rightarrow> bool" where
  "less_datetime a b \<longleftrightarrow> a \<le> b \<and> \<not> b \<le> (a::datetime)"

instance
proof
  fix a b c :: datetime
  show "a < b \<longleftrightarrow> a \<le> b \<and> \<not> b \<le> a" by (simp add: less_datetime_def)
  show "a \<le> a" by (simp add: less_eq_datetime_def)
  show "a \<le> b \<Longrightarrow> b \<le> c \<Longrightarrow> a \<le> c" by (auto simp: less_eq_datetime_def)
  show "a \<le> b \<Longrightarrow> b \<le> a \<Longrightarrow> a = b"
    by (cases a; cases b) (auto simp: less_eq_datetime_def)
  show "a \<le> b \<or> b \<le> a" by (auto simp: less_eq_datetime_def)
qed

end

text \<open>The fixed business date of the sequences that never reset.\<close>

definition GLOBAL_DATE :: date where
  "GLOBAL_DATE = Date 1970 1 1"

end
