(* ===== verification/Schema.thy ===== *)
theory Schema
  imports Enums Money Calendar
begin

text \<open>
  The database schema of \<^verbatim>\<open>app/models\<close>: one record per mapped class, with a
  field per column (prefixed by an abbreviation of the table), one list of rows
  per table in the record \<^verbatim>\<open>db\<close>, and the UNIQUE and CHECK constraints of
  \<^verbatim>\<open>__table_args__\<close> as predicates on rows and tables.

  Rows are kept in the order of their auto-increment key.  The columns
  \<^verbatim>\<open>created_at\<close> and \<^verbatim>\<open>updated_at\<close>, which the database fills in and which
  are only ever displayed, are left out except in the two tables whose queries
  use them.  Text generated for the reader of a log (audit descriptions, ledger
  remarks) is left out too; text that a user enters is kept.
\<close>

section \<open>Identity (app/models/system.py)\<close>

record department =
  dept_id :: nat
  dept_code :: string
  dept_name :: string
  dept_parent_id :: "nat option"
  dept_sort_order :: int
  dept_status :: dept_status
  dept_remark :: "string option"
  dept_created_by :: "nat option"
  dept_updated_by :: "nat option"

record role =
  role_id :: nat
  role_role_code :: role_code
  role_name :: string
  role_description :: "string option"
  role_is_system :: bool
  role_status :: active_status

record permission =
  perm_id :: nat
  perm_code :: string
  perm_name :: string
  perm_module :: string

record role_permission =
  rp_id :: nat
  rp_role_id :: nat
  rp_permission_id :: nat

record user =
  user_id :: nat
  user_username :: string
  user_password_hash :: string
  user_real_name :: string
  user_email :: "string option"
  user_phone :: "string option"
  user_department_id :: "nat option"
  user_role_id :: nat
  user_status :: user_status
  user_last_login_at :: "datetime option"
  user_created_by :: "nat option"
  user_updated_by :: "nat option"

record department_manager =
  dm_id :: nat
  dm_dept_id :: nat
  dm_user_id :: nat
  dm_is_primary :: bool

section \<open>Master data (app/models/masterdata.py)\<close>

record material =
  mat_id :: nat
  mat_material_code :: string
  mat_material_name :: string
  mat_category :: "string option"
  mat_specification :: "string option"
  mat_unit :: string
  mat_status :: active_status
  mat_remark :: "string option"
  mat_created_by :: "nat option"
  mat_updated_by :: "nat option"

record supplier =
  sup_id :: nat
  sup_supplier_code :: string
  sup_supplier_name :: string
  sup_contact_person :: "string option"
  sup_phone :: "string option"
  sup_email :: "string option"
  sup_address :: "string option"
  sup_status :: active_status
  sup_remark :: "string option"
  sup_created_by :: "nat option"
  sup_updated_by :: "nat option"

record warehouse =
  wh_id :: nat
  wh_warehouse_code :: string
  wh_warehouse_name :: string
  wh_status :: active_status
  wh_remark :: "string option"
  wh_created_by :: "nat option"
  wh_updated_by :: "nat option"

record inventory_policy =
  pol_id :: nat
  pol_warehouse_id :: nat
  pol_material_id :: nat
  pol_safety_stock :: decimal
  pol_min_stock :: "decimal option"
  pol_max_stock :: "decimal option"
  pol_reorder_point :: "decimal option"
  pol_remark :: "string option"

section \<open>Purchasing (app/models/purchase.py)\<close>

record purchase_requisition =
  pr_id :: nat
  pr_no :: string
  pr_applicant_id :: nat
  pr_department_id :: nat
  pr_apply_date :: date
  pr_reason :: "string option"
  pr_status :: pr_status
  pr_total_estimated_amount :: decimal
  pr_submitted_at :: "datetime option"
  pr_version :: nat
  pr_remark :: "string option"
  pr_created_by :: "nat option"
  pr_updated_by :: "nat option"

record purchase_requisition_item =
  pri_id :: nat
  pri_pr_id :: nat
  pri_line_no :: nat
  pri_material_id :: nat
  pri_requested_quantity :: decimal
  pri_converted_quantity :: decimal
  pri_estimated_unit_price :: decimal
  pri_estimated_amount :: decimal
  pri_required_date :: "date option"
  pri_remark :: "string option"

record purchase_order =
  po_id :: nat
  po_no :: string
  po_supplier_id :: nat
  po_buyer_id :: nat
  po_order_date :: date
  po_expected_date :: "date option"
  po_status :: po_status
  po_total_amount :: decimal
  po_version :: nat
  po_remark :: "string option"
  po_created_by :: "nat option"
  po_updated_by :: "nat option"

record purchase_order_item =
  poi_id :: nat
  poi_po_id :: nat
  poi_line_no :: nat
  poi_material_id :: nat
  poi_ordered_quantity :: decimal
  poi_received_quantity :: decimal
  poi_unit_price :: decimal
  poi_amount :: decimal
  poi_remark :: "string option"

record purchase_order_item_source =
  pois_id :: nat
  pois_po_item_id :: nat
  pois_pr_item_id :: nat
  pois_quantity :: decimal

record approval_record =
  ar_id :: nat
  ar_document_type :: document_type
  ar_document_id :: nat
  ar_document_no :: "string option"
  ar_step_no :: nat
  ar_step_name :: "string option"
  ar_approver_id :: nat
  ar_action :: approval_action
  ar_from_status :: "string option"
  ar_to_status :: "string option"
  ar_result_status :: string
  ar_comment :: "string option"
  ar_created_at :: datetime

section \<open>Inventory (app/models/inventory.py)\<close>

record purchase_receipt =
  rcv_id :: nat
  rcv_receipt_no :: string
  rcv_po_id :: nat
  rcv_warehouse_id :: nat
  rcv_received_by :: nat
  rcv_received_at :: datetime
  rcv_status :: receipt_status
  rcv_reversed_by :: "nat option"
  rcv_reversed_at :: "datetime option"
  rcv_reverse_reason :: "string option"
  rcv_remark :: "string option"

record purchase_receipt_item =
  ri_id :: nat
  ri_receipt_id :: nat
  ri_po_item_id :: nat
  ri_line_no :: nat
  ri_material_id :: nat
  ri_received_quantity :: decimal
  ri_unit_price :: decimal
  ri_amount :: decimal
  ri_remark :: "string option"

record inventory_balance =
  ib_id :: nat
  ib_warehouse_id :: nat
  ib_material_id :: nat
  ib_quantity :: decimal
  ib_total_amount :: decimal
  ib_average_unit_cost :: decimal
  ib_version :: nat
  ib_last_transaction_at :: "datetime option"

record inventory_transaction =
  it_id :: nat
  it_txn_no :: string
  it_transaction_type :: txn_type
  it_warehouse_id :: nat
  it_material_id :: nat
  it_quantity :: decimal
  it_unit_cost :: decimal
  it_amount :: decimal
  it_balance_after :: decimal
  it_source_type :: "txn_source_type option"
  it_source_id :: "nat option"
  it_source_item_id :: "nat option"
  it_reversed_transaction_id :: "nat option"
  it_transaction_at :: datetime
  it_created_by :: "nat option"

section \<open>Stock reconciliation (app/models/reconciliation.py)\<close>

record stock_reconciliation =
  rc_id :: nat
  rc_reconciliation_no :: string
  rc_warehouse_id :: nat
  rc_counted_by :: nat
  rc_counted_on :: date
  rc_status :: reconciliation_status
  rc_reason :: "string option"
  rc_remark :: "string option"
  rc_submitted_at :: "datetime option"
  rc_posted_at :: "datetime option"
  rc_approved_by :: "nat option"
  rc_approve_comment :: "string option"
  rc_override_self_approval :: bool
  rc_override_reason :: "string option"
  rc_version :: nat

record stock_reconciliation_item =
  rci_id :: nat
  rci_reconciliation_id :: nat
  rci_line_no :: nat
  rci_material_id :: nat
  rci_book_quantity_snapshot :: decimal
  rci_book_total_amount_snapshot :: decimal
  rci_book_avg_cost_snapshot :: decimal
  rci_book_last_transaction_id_snapshot :: "nat option"
  rci_physical_quantity :: decimal
  rci_difference_quantity :: decimal
  rci_valuation_rate :: "decimal option"
  rci_adjustment_amount :: decimal
  rci_remark :: "string option"

section \<open>Support (app/models/support.py)\<close>

record number_sequence =
  ns_id :: nat
  ns_sequence_key :: string
  ns_sequence_date :: date
  ns_current_value :: nat

record operation_log =
  ol_id :: nat
  ol_operator_id :: "nat option"
  ol_username_snapshot :: "string option"
  ol_action :: audit_action
  ol_module :: string
  ol_document_type :: "string option"
  ol_document_id :: "nat option"
  ol_document_no :: "string option"
  ol_ip_address :: "string option"
  ol_user_agent :: "string option"
  ol_request_id :: "string option"
  ol_created_at :: datetime

end
