(* ===== verification/Store.thy ===== *)
theory Store
  imports Schema
begin

text \<open>
  The store: the record \<^verbatim>\<open>db\<close> of all tables, the CHECK constraints of the
  schema as predicates on rows, and per table its primary-key lookup
  (\<^verbatim>\<open>db.get\<close>) and INSERT.  An INSERT takes the next auto-increment key,
  appends the row, and fails with a database error when a CHECK or a UNIQUE index
  of the table refuses the row.  Foreign keys are not checked: no service deletes
  a row that another table refers to, and the handlers read the rows they refer
  to.

  A handler runs in one transaction under REPEATABLE READ.  Where it matters it
  is given two states: the snapshot that its plain SELECTs see, and the live
  state that its UPDATE, INSERT, upsert and SELECT ... FOR UPDATE statements see
  and change.  A transaction that runs alone has the same state in both places.
\<close>

datatype db_table =
  T_departments | T_roles | T_permissions | T_role_permissions
| T_users | T_department_managers | T_materials | T_suppliers
| T_warehouses | T_inventory_policies | T_purchase_requisitions | T_purchase_requisition_items
| T_purchase_orders | T_purchase_order_items | T_purchase_order_item_sources | T_approval_records
| T_purchase_receipts | T_purchase_receipt_items | T_inventory_balances | T_inventory_transactions
| T_stock_reconciliations | T_stock_reconciliation_items | T_number_sequences | T_operation_logs

record db =
  departments :: "department list"
  roles :: "role list"
  permissions :: "permission list"
  role_permissions :: "role_permission list"
  users :: "user list"
  department_managers :: "department_manager list"
  materials :: "material list"
  suppliers :: "supplier list"
  warehouses :: "warehouse list"
  inventory_policies :: "inventory_policy list"
  purchase_requisitions :: "purchase_requisition list"
  purchase_requisition_items :: "purchase_requisition_item list"
  purchase_orders :: "purchase_order list"
  purchase_order_items :: "purchase_order_item list"
  purchase_order_item_sources :: "purchase_order_item_source list"
  approval_records :: "approval_record list"
  purchase_receipts :: "purchase_receipt list"
  purchase_receipt_items :: "purchase_receipt_item list"
  inventory_balances :: "inventory_balance list"
  inventory_transactions :: "inventory_transaction list"
  stock_reconciliations :: "stock_reconciliation list"
  stock_reconciliation_items :: "stock_reconciliation_item list"
  number_sequences :: "number_sequence list"
  operation_logs :: "operation_log list"
  auto_inc :: "db_table \<Rightarrow> nat"

section \<open>CHECK constraints\<close>

definition pol_checks :: "inventory_policy \<Rightarrow> bool" where
  "pol_checks p \<longleftrightarrow> 0 \<le> pol_safety_stock p
    \<and> (case pol_min_stock p of None \<Rightarrow> True | Some m \<Rightarrow> 0 \<le> m)
    \<and> (case pol_max_stock p of None \<Rightarrow> True | Some m \<Rightarrow> 0 < m)
    \<and> (case pol_reorder_point p of None \<Rightarrow> True | Some m \<Rightarrow> 0 \<le> m)"

definition pri_checks :: "purchase_requisition_item \<Rightarrow> bool" where
  "pri_checks i \<longleftrightarrow> 0 < pri_requested_quantity i
    \<and> 0 \<le> pri_estimated_unit_price i
    \<and> 0 \<le> pri_converted_quantity i \<and> pri_converted_quantity i \<le> pri_requested_quantity i"

definition poi_checks :: "purchase_order_item \<Rightarrow> bool" where
  "poi_checks i \<longleftrightarrow> 0 < poi_ordered_quantity i
    \<and> 0 \<le> poi_received_quantity i \<and> poi_received_quantity i \<le> poi_ordered_quantity i
    \<and> 0 \<le> poi_unit_price i"

definition pois_checks :: "purchase_order_item_source \<Rightarrow> bool" where
  "pois_checks src \<longleftrightarrow> 0 < pois_quantity src"

definition ri_checks :: "purchase_receipt_item \<Rightarrow> bool" where
  "ri_checks i \<longleftrightarrow> 0 < ri_received_quantity i \<and> 0 \<le> ri_unit_price i"

definition ib_checks :: "inventory_balance \<Rightarrow> bool" where
  "ib_checks b \<longleftrightarrow> 0 \<le> ib_quantity b \<and> 0 \<le> ib_total_amount b \<and> 0 \<le> ib_average_unit_cost b"

definition it_checks :: "inventory_transaction \<Rightarrow> bool" where
  "it_checks t \<longleftrightarrow>
    ((it_transaction_type t \<in> {PURCHASE_IN, ADJUST_IN, PRODUCTION_IN}
        \<and> 0 < it_quantity t \<and> 0 \<le> it_amount t)
     \<or> (it_transaction_type t \<in> {PURCHASE_IN_REVERSAL, ADJUST_OUT, PRODUCTION_OUT}
        \<and> it_quantity t < 0 \<and> it_amount t \<le> 0))
    \<and> 0 \<le> it_unit_cost t"

definition rci_checks :: "stock_reconciliation_item \<Rightarrow> bool" where
  "rci_checks i \<longleftrightarrow> 0 \<le> rci_physical_quantity i
    \<and> 0 \<le> rci_book_quantity_snapshot i
    \<and> 0 \<le> rci_book_total_amount_snapshot i
    \<and> 0 \<le> rci_book_avg_cost_snapshot i
    \<and> (case rci_valuation_rate i of None \<Rightarrow> True | Some r \<Rightarrow> 0 < r)
    \<and> (case rci_book_last_transaction_id_snapshot i of None \<Rightarrow> True | Some w \<Rightarrow> 0 < w)"

section \<open>Primary-key lookups\<close>

definition get_dept :: "db \<Rightarrow> nat \<Rightarrow> department option" where
  "get_dept d i = row_by dept_id i (departments d)"

definition get_role :: "db \<Rightarrow> nat \<Rightarrow> role option" where
  "get_role d i = row_by role_id i (roles d)"

definition get_user :: "db \<Rightarrow> nat \<Rightarrow> user option" where
  "get_user d i = row_by user_id i (users d)"

definition get_dm :: "db \<Rightarrow> nat \<Rightarrow> department_manager option" where
  "get_dm d i = row_by dm_id i (department_managers d)"

definition get_mat :: "db \<Rightarrow> nat \<Rightarrow> material option" where
  "get_mat d i = row_by mat_id i (materials d)"

definition get_sup :: "db \<Rightarrow> nat \<Rightarrow> supplier option" where
  "get_sup d i = row_by sup_id i (suppliers d)"

definition get_wh :: "db \<Rightarrow> nat \<Rightarrow> warehouse option" where
  "get_wh d i = row_by wh_id i (warehouses d)"

definition get_pol :: "db \<Rightarrow> nat \<Rightarrow> inventory_policy option" where
  "get_pol d i = row_by pol_id i (inventory_policies d)"

definition get_pr :: "db \<Rightarrow> nat \<Rightarrow> purchase_requisition option" where
  "get_pr d i = row_by pr_id i (purchase_requisitions d)"

definition get_pri :: "db \<Rightarrow> nat \<Rightarrow> purchase_requisition_item option" where
  "get_pri d i = row_by pri_id i (purchase_requisition_items d)"

definition get_po :: "db \<Rightarrow> nat \<Rightarrow> purchase_order option" where
  "get_po d i = row_by po_id i (purchase_orders d)"

definition get_poi :: "db \<Rightarrow> nat \<Rightarrow> purchase_order_item option" where
  "get_poi d i = row_by poi_id i (purchase_order_items d)"

definition get_pois :: "db \<Rightarrow> nat \<Rightarrow> purchase_order_item_source option" where
  "get_pois d i = row_by pois_id i (purchase_order_item_sources d)"

definition get_rcv :: "db \<Rightarrow> nat \<Rightarrow> purchase_receipt option" where
  "get_rcv d i = row_by rcv_id i (purchase_receipts d)"

definition get_ri :: "db \<Rightarrow> nat \<Rightarrow> purchase_receipt_item option" where
  "get_ri d i = row_by ri_id i (purchase_receipt_items d)"

definition get_ib :: "db \<Rightarrow> nat \<Rightarrow> inventory_balance option" where
  "get_ib d i = row_by ib_id i (inventory_balances d)"

definition get_it :: "db \<Rightarrow> nat \<Rightarrow> inventory_transaction option" where
  "get_it d i = row_by it_id i (inventory_transactions d)"

definition get_rc :: "db \<Rightarrow> nat \<Rightarrow> stock_reconciliation option" where
  "get_rc d i = row_by rc_id i (stock_reconciliations d)"

definition get_rci :: "db \<Rightarrow> nat \<Rightarrow> stock_reconciliation_item option" where
  "get_rci d i = row_by rci_id i (stock_reconciliation_items d)"

section \<open>INSERT\<close>

definition insert_user :: "user \<Rightarrow> db \<Rightarrow> error + db" where
  "insert_user r d =
    (if list_ex (\<lambda>x. user_username x = user_username r) (users d)
     then Inl (DbError (UniqueViolation ''uk_user_username''))
     else Inr (d\<lparr>users := users d @ [r\<lparr>user_id := auto_inc d T_users\<rparr>],
        auto_inc := (auto_inc d)(T_users := Suc (auto_inc d T_users))\<rparr>))"

definition insert_mat :: "material \<Rightarrow> db \<Rightarrow> error + db" where
  "insert_mat r d =
    (if list_ex (\<lambda>x. mat_material_code x = mat_material_code r) (materials d)
     then Inl (DbError (UniqueViolation ''uk_mat_code''))
     else Inr (d\<lparr>materials := materials d @ [r\<lparr>mat_id := auto_inc d T_materials\<rparr>],
        auto_inc := (auto_inc d)(T_materials := Suc (auto_inc d T_materials))\<rparr>))"

definition insert_sup :: "supplier \<Rightarrow> db \<Rightarrow> error + db" where
  "insert_sup r d =
    (if list_ex (\<lambda>x. sup_supplier_code x = sup_supplier_code r) (suppliers d)
     then Inl (DbError (UniqueViolation ''uk_sup_code''))
     else Inr (d\<lparr>suppliers := suppliers d @ [r\<lparr>sup_id := auto_inc d T_suppliers\<rparr>],
        auto_inc := (auto_inc d)(T_suppliers := Suc (auto_inc d T_suppliers))\<rparr>))"

definition insert_wh :: "warehouse \<Rightarrow> db \<Rightarrow> error + db" where
  "insert_wh r d =
    (if list_ex (\<lambda>x. wh_warehouse_code x = wh_warehouse_code r) (warehouses d)
     then Inl (DbError (UniqueViolation ''uk_wh_code''))
     else Inr (d\<lparr>warehouses := warehouses d @ [r\<lparr>wh_id := auto_inc d T_warehouses\<rparr>],
        auto_inc := (auto_inc d)(T_warehouses := Suc (auto_inc d T_warehouses))\<rparr>))"

definition insert_pol :: "inventory_policy \<Rightarrow> db \<Rightarrow> error + db" where
  "insert_pol r d =
    (if \<not> pol_checks r then Inl (DbError (CheckViolation ''inventory_policies''))
     else if list_ex (\<lambda>x. pol_warehouse_id x = pol_warehouse_id r \<and> pol_material_id x = pol_material_id r) (inventory_policies d)
     then Inl (DbError (UniqueViolation ''uk_invpol''))
     else Inr (d\<lparr>inventory_policies := inventory_policies d @ [r\<lparr>pol_id := auto_inc d T_inventory_policies\<rparr>],
        auto_inc := (auto_inc d)(T_inventory_policies := Suc (auto_inc d T_inventory_policies))\<rparr>))"

definition insert_pr :: "purchase_requisition \<Rightarrow> db \<Rightarrow> error + db" where
  "insert_pr r d =
    (if list_ex (\<lambda>x. pr_no x = pr_no r) (purchase_requisitions d)
     then Inl (DbError (UniqueViolation ''uk_pr_no''))
     else Inr (d\<lparr>purchase_requisitions := purchase_requisitions d @ [r\<lparr>pr_id := auto_inc d T_purchase_requisitions\<rparr>],
        auto_inc := (auto_inc d)(T_purchase_requisitions := Suc (auto_inc d T_purchase_requisitions))\<rparr>))"

definition insert_pri :: "purchase_requisition_item \<Rightarrow> db \<Rightarrow> error + db" where
  "insert_pri r d =
    (if \<not> pri_checks r then Inl (DbError (CheckViolation ''purchase_requisition_items''))
     else if list_ex (\<lambda>x. pri_pr_id x = pri_pr_id r \<and> pri_line_no x = pri_line_no r) (purchase_requisition_items d)
     then Inl (DbError (UniqueViolation ''uk_pri_line''))
     else Inr (d\<lparr>purchase_requisition_items := purchase_requisition_items d @ [r\<lparr>pri_id := auto_inc d T_purchase_requisition_items\<rparr>],
        auto_inc := (auto_inc d)(T_purchase_requisition_items := Suc (auto_inc d T_purchase_requisition_items))\<rparr>))"

definition insert_po :: "purchase_order \<Rightarrow> db \<Rightarrow> error + db" where
  "insert_po r d =
    (if list_ex (\<lambda>x. po_no x = po_no r) (purchase_orders d)
     then Inl (DbError (UniqueViolation ''uk_po_no''))
     else Inr (d\<lparr>purchase_orders := purchase_orders d @ [r\<lparr>po_id := auto_inc d T_purchase_orders\<rparr>],
        auto_inc := (auto_inc d)(T_purchase_orders := Suc (auto_inc d T_purchase_orders))\<rparr>))"

definition insert_poi :: "purchase_order_item \<Rightarrow> db \<Rightarrow> error + db" where
  "insert_poi r d =
    (if \<not> poi_checks r then Inl (DbError (CheckViolation ''purchase_order_items''))
     else if list_ex (\<lambda>x. poi_po_id x = poi_po_id r \<and> poi_line_no x = poi_line_no r) (purchase_order_items d)
     then Inl (DbError (UniqueViolation ''uk_poi_line''))
     else Inr (d\<lparr>purchase_order_items := purchase_order_items d @ [r\<lparr>poi_id := auto_inc d T_purchase_order_items\<rparr>],
        auto_inc := (auto_inc d)(T_purchase_order_items := Suc (auto_inc d T_purchase_order_items))\<rparr>))"

definition insert_pois :: "purchase_order_item_source \<Rightarrow> db \<Rightarrow> error + db" where
  "insert_pois r d =
    (if \<not> pois_checks r then Inl (DbError (CheckViolation ''purchase_order_item_sources''))
     else if list_ex (\<lambda>x. pois_po_item_id x = pois_po_item_id r \<and> pois_pr_item_id x = pois_pr_item_id r) (purchase_order_item_sources d)
     then Inl (DbError (UniqueViolation ''uk_pois''))
     else Inr (d\<lparr>purchase_order_item_sources := purchase_order_item_sources d @ [r\<lparr>pois_id := auto_inc d T_purchase_order_item_sources\<rparr>],
        auto_inc := (auto_inc d)(T_purchase_order_item_sources := Suc (auto_inc d T_purchase_order_item_sources))\<rparr>))"

definition insert_ar :: "approval_record \<Rightarrow> db \<Rightarrow> db" where
  "insert_ar r d =
    d\<lparr>approval_records := approval_records d @ [r\<lparr>ar_id := auto_inc d T_approval_records\<rparr>],
        auto_inc := (auto_inc d)(T_approval_records := Suc (auto_inc d T_approval_records))\<rparr>"

definition insert_rcv :: "purchase_receipt \<Rightarrow> db \<Rightarrow> error + db" where
  "insert_rcv r d =
    (if list_ex (\<lambda>x. rcv_receipt_no x = rcv_receipt_no r) (purchase_receipts d)
     then Inl (DbError (UniqueViolation ''uk_receipt_no''))
     else Inr (d\<lparr>purchase_receipts := purchase_receipts d @ [r\<lparr>rcv_id := auto_inc d T_purchase_receipts\<rparr>],
        auto_inc := (auto_inc d)(T_purchase_receipts := Suc (auto_inc d T_purchase_receipts))\<rparr>))"

definition insert_ri :: "purchase_receipt_item \<Rightarrow> db \<Rightarrow> error + db" where
  "insert_ri r d =
    (if \<not> ri_checks r then Inl (DbError (CheckViolation ''purchase_receipt_items''))
     else if list_ex (\<lambda>x. ri_receipt_id x = ri_receipt_id r \<and> ri_line_no x = ri_line_no r) (purchase_receipt_items d)
     then Inl (DbError (UniqueViolation ''uk_ri_line''))
     else if list_ex (\<lambda>x. ri_receipt_id x = ri_receipt_id r \<and> ri_po_item_id x = ri_po_item_id r) (purchase_receipt_items d)
     then Inl (DbError (UniqueViolation ''uk_ri_poi''))
     else Inr (d\<lparr>purchase_receipt_items := purchase_receipt_items d @ [r\<lparr>ri_id := auto_inc d T_purchase_receipt_items\<rparr>],
        auto_inc := (auto_inc d)(T_purchase_receipt_items := Suc (auto_inc d T_purchase_receipt_items))\<rparr>))"

definition insert_it :: "inventory_transaction \<Rightarrow> db \<Rightarrow> error + db" where
  "insert_it r d =
    (if \<not> it_checks r then Inl (DbError (CheckViolation ''inventory_transactions''))
     else if list_ex (\<lambda>x. it_txn_no x = it_txn_no r) (inventory_transactions d)
     then Inl (DbError (UniqueViolation ''uk_txn_no''))
     else Inr (d\<lparr>inventory_transactions := inventory_transactions d @ [r\<lparr>it_id := auto_inc d T_inventory_transactions\<rparr>],
        auto_inc := (auto_inc d)(T_inventory_transactions := Suc (auto_inc d T_inventory_transactions))\<rparr>))"

definition insert_rc :: "stock_reconciliation \<Rightarrow> db \<Rightarrow> error + db" where
  "insert_rc r d =
    (if list_ex (\<lambda>x. rc_reconciliation_no x = rc_reconciliation_no r) (stock_reconciliations d)
     then Inl (DbError (UniqueViolation ''uk_reconciliation_no''))
     else Inr (d\<lparr>stock_reconciliations := stock_reconciliations d @ [r\<lparr>rc_id := auto_inc d T_stock_reconciliations\<rparr>],
        auto_inc := (auto_inc d)(T_stock_reconciliations := Suc (auto_inc d T_stock_reconciliations))\<rparr>))"

definition insert_rci :: "stock_reconciliation_item \<Rightarrow> db \<Rightarrow> error + db" where
  "insert_rci r d =
    (if \<not> rci_checks r then Inl (DbError (CheckViolation ''stock_reconciliation_items''))
     else if list_ex (\<lambda>x. rci_reconciliation_id x = rci_reconciliation_id r \<and> rci_line_no x = rci_line_no r) (stock_reconciliation_items d)
     then Inl (DbError (UniqueViolation ''uk_rc_line''))
     else if list_ex (\<lambda>x. rci_reconciliation_id x = rci_reconciliation_id r \<and> rci_material_id x = rci_material_id r) (stock_reconciliation_items d)
     then Inl (DbError (UniqueViolation ''uk_rc_mat''))
     else Inr (d\<lparr>stock_reconciliation_items := stock_reconciliation_items d @ [r\<lparr>rci_id := auto_inc d T_stock_reconciliation_items\<rparr>],
        auto_inc := (auto_inc d)(T_stock_reconciliation_items := Suc (auto_inc d T_stock_reconciliation_items))\<rparr>))"

definition insert_ol :: "operation_log \<Rightarrow> db \<Rightarrow> db" where
  "insert_ol r d =
    d\<lparr>operation_logs := operation_logs d @ [r\<lparr>ol_id := auto_inc d T_operation_logs\<rparr>],
        auto_inc := (auto_inc d)(T_operation_logs := Suc (auto_inc d T_operation_logs))\<rparr>"

end
