(* ===== verification/Numbering.thy ===== *)
theory Numbering
  imports Store
begin

text \<open>
  Document numbering (\<^verbatim>\<open>app/services/numbering_service.py\<close>).

  A sequence is the row of \<^verbatim>\<open>number_sequences\<close> for a key and a business date; an
  allocation is one upsert that locks the row until the transaction ends,
  followed by a read of the row just written.  The interface \<^verbatim>\<open>sequence\<close> says
  what the callers rely on: an allocation advances its own counter by one and
  leaves every other counter alone.  From it follows that no two allocations
  give the same pair of counter and value, and, as the rendering is injective,
  no two documents get the same number.
\<close>

section \<open>Rendering\<close>

definition digit :: "nat \<Rightarrow> char" where
  "digit n = char_of (48 + n)"

fun dec :: "nat \<Rightarrow> string" where
  "dec n = (if n < 10 then [digit n] else dec (n div 10) @ [digit (n mod 10)])"

declare dec.simps [simp del]

text \<open>The format \<^verbatim>\<open>:0wd\<close>: at least \<^verbatim>\<open>w\<close> digits, padded with zeros.\<close>

definition zero_pad :: "nat \<Rightarrow> nat \<Rightarrow> string" where
  "zero_pad w n = replicate (w - length (dec n)) (CHR ''0'') @ dec n"

definition format_date :: "date \<Rightarrow> string" where
  "format_date d = zero_pad 4 (year d) @ zero_pad 2 (month d) @ zero_pad 2 (day d)"

definition format_code :: "string \<Rightarrow> nat \<Rightarrow> string" where
  "format_code prefix seq = prefix @ ''-'' @ zero_pad 6 seq"

definition format_daily_code :: "string \<Rightarrow> date \<Rightarrow> nat \<Rightarrow> string" where
  "format_daily_code prefix d seq = prefix @ ''-'' @ format_date d @ ''-'' @ zero_pad 4 seq"

definition format_txn_no :: "date \<Rightarrow> nat \<Rightarrow> string" where
  "format_txn_no when seq = ''TXN-'' @ format_date when @ ''-'' @ zero_pad 6 seq"

section \<open>Allocation\<close>

definition seq_row_is :: "sequence_key \<Rightarrow> date \<Rightarrow> number_sequence \<Rightarrow> bool" where
  "seq_row_is key dt r \<longleftrightarrow>
    ns_sequence_key r = sequence_key_value key \<and> ns_sequence_date r = dt"

definition bump_value :: "number_sequence \<Rightarrow> number_sequence" where
  "bump_value r = r\<lparr>ns_current_value := ns_current_value r + 1\<rparr>"

definition upsert_sequence :: "sequence_key \<Rightarrow> date \<Rightarrow> db \<Rightarrow> db" where
  "upsert_sequence key dt d =
    (if list_ex (seq_row_is key dt) (number_sequences d)
     then d\<lparr>number_sequences := update_rows (seq_row_is key dt) bump_value (number_sequences d)\<rparr>
     else d\<lparr>number_sequences := number_sequences d @
              [\<lparr>ns_id = auto_inc d T_number_sequences,
                ns_sequence_key = sequence_key_value key,
                ns_sequence_date = dt, ns_current_value = 1\<rparr>],
            auto_inc := (auto_inc d)(T_number_sequences := Suc (auto_inc d T_number_sequences))\<rparr>)"

definition current_value :: "sequence_key \<Rightarrow> date \<Rightarrow> db \<Rightarrow> nat" where
  "current_value key dt d =
    (case find (seq_row_is key dt) (number_sequences d) of
       None \<Rightarrow> 0 | Some r \<Rightarrow> ns_current_value r)"

definition sequence_date_of :: "sequence_key \<Rightarrow> date \<Rightarrow> date option \<Rightarrow> date" where
  "sequence_date_of key today sequence_date =
    (case sequence_date of
       None \<Rightarrow> if key \<in> set GLOBAL_SEQUENCE_KEYS then GLOBAL_DATE else today
     | Some dt \<Rightarrow> dt)"

definition next_sequence_value ::
    "sequence_key \<Rightarrow> date \<Rightarrow> date option \<Rightarrow> db \<Rightarrow> nat \<times> db" where
  "next_sequence_value key today sequence_date d =
    (let dt = sequence_date_of key today sequence_date;
         d' = upsert_sequence key dt d
     in (current_value key dt d', d'))"

definition next_code :: "sequence_key \<Rightarrow> string \<Rightarrow> date \<Rightarrow> db \<Rightarrow> string \<times> db" where
  "next_code key prefix today d =
    (let (seq, d') = next_sequence_value key today None d in (format_code prefix seq, d'))"

definition next_daily_code ::
    "sequence_key \<Rightarrow> string \<Rightarrow> date \<Rightarrow> date option \<Rightarrow> db \<Rightarrow> string \<times> db" where
  "next_daily_code key prefix today sequence_date d =
    (let dt = (case sequence_date of None \<Rightarrow> today | Some x \<Rightarrow> x);
         (seq, d') = next_sequence_value key today (Some dt) d
     in (format_daily_code prefix dt seq, d'))"

section \<open>Rendering is injective\<close>

definition undec :: "string \<Rightarrow> nat" where
  "undec s = foldl (\<lambda>a c. 10 * a + (of_char c - 48)) 0 s"

lemma of_char_digit: "n < 10 \<Longrightarrow> of_char (digit n) = 48 + n"
  by (simp add: digit_def)

lemma undec_dec: "undec (dec n) = n"
proof (induction n rule: dec.induct)
  case (1 n)
  then show ?case
    by (subst dec.simps) (auto simp: undec_def of_char_digit)
qed

lemma undec_replicate: "undec (replicate k (CHR ''0'') @ s) = undec s"
  by (induction k) (simp_all add: undec_def)

lemma undec_zero_pad: "undec (zero_pad w n) = n"
  by (simp add: zero_pad_def undec_replicate undec_dec)

lemma zero_pad_inject [simp]: "zero_pad w m = zero_pad w n \<longleftrightarrow> m = n"
  using undec_zero_pad by metis

lemma length_dec_le: "n < 10 ^ w \<Longrightarrow> 0 < w \<Longrightarrow> length (dec n) \<le> w"
proof (induction n arbitrary: w rule: dec.induct)
  case (1 n)
  show ?case
  proof (cases "n < 10")
    case True
    then show ?thesis using 1 by (simp add: dec.simps)
  next
    case False
    then obtain v where v: "w = Suc v" "0 < v" using 1 by (cases w; cases "w - 1") auto
    then have "n div 10 < 10 ^ v" using 1(2) by (simp add: less_mult_imp_div_less mult.commute)
    then show ?thesis using False 1(1)[of v] v by (subst dec.simps) simp
  qed
qed

lemma length_zero_pad: "n < 10 ^ w \<Longrightarrow> 0 < w \<Longrightarrow> length (zero_pad w n) = w"
  using length_dec_le[of n w] by (simp add: zero_pad_def)

lemma digit_no_dash: "n < 10 \<Longrightarrow> digit n \<noteq> CHR ''-''"
proof
  assume "n < 10" "digit n = CHR ''-''"
  then have "of_char (CHR ''-'') = 48 + n" using of_char_digit by metis
  then show False by simp
qed

lemma dec_no_dash: "CHR ''-'' \<notin> set (dec n)"
proof (induction n rule: dec.induct)
  case (1 n)
  have "digit k \<noteq> CHR ''-''" if "k < 10" for k using digit_no_dash[OF that] .
  then have "CHR ''-'' \<noteq> digit (n mod 10)" and "n < 10 \<Longrightarrow> CHR ''-'' \<noteq> digit n"
    by (metis mod_less_divisor zero_less_numeral)+
  then show ?case using 1 by (subst dec.simps) auto
qed

lemma zero_pad_no_dash: "CHR ''-'' \<notin> set (zero_pad w n)"
  using dec_no_dash by (auto simp: zero_pad_def)

definition calendar_date :: "date \<Rightarrow> bool" where
  "calendar_date d \<longleftrightarrow> year d < 10000 \<and> 1 \<le> month d \<and> month d \<le> 12 \<and> 1 \<le> day d \<and> day d \<le> 31"

lemma format_date_inject:
  assumes "calendar_date a" "calendar_date b" "format_date a = format_date b"
  shows "a = b"
proof -
  have l: "length (zero_pad 4 (year x)) = 4" "length (zero_pad 2 (month x)) = 2"
    if "calendar_date x" for x
    using that by (auto simp: calendar_date_def intro!: length_zero_pad)
  show ?thesis
    using assms l[OF assms(1)] l[OF assms(2)]
    by (cases a; cases b) (simp add: format_date_def)
qed

lemma split_at_dash:
  assumes "c \<notin> set p" "c \<notin> set p'" "p @ c # x = p' @ c # x'"
  shows "p = p' \<and> x = x'"
  using assms
proof (induction p arbitrary: p')
  case Nil
  then show ?case by (cases p') auto
next
  case (Cons a p)
  then show ?case by (cases p') auto
qed

lemma format_date_no_dash: "CHR ''-'' \<notin> set (format_date d)"
  using zero_pad_no_dash by (auto simp: format_date_def)

lemma format_code_inject:
  assumes "CHR ''-'' \<notin> set p" "CHR ''-'' \<notin> set p'"
    and "format_code p n = format_code p' n'"
  shows "p = p' \<and> n = n'"
  using split_at_dash[OF assms(1,2), of "zero_pad 6 n" "zero_pad 6 n'"] assms(3)
  by (auto simp: format_code_def)

lemma format_daily_code_inject:
  assumes "CHR ''-'' \<notin> set p" "CHR ''-'' \<notin> set p'" "calendar_date a" "calendar_date b"
    and "format_daily_code p a n = format_daily_code p' b n'"
  shows "p = p' \<and> a = b \<and> n = n'"
proof -
  have "p = p'" and rest: "format_date a @ ''-'' @ zero_pad 4 n = format_date b @ ''-'' @ zero_pad 4 n'"
    using split_at_dash[OF assms(1,2)] assms(5) by (auto simp: format_daily_code_def)
  moreover have "format_date a = format_date b \<and> zero_pad 4 n = zero_pad 4 n'"
    using split_at_dash[OF format_date_no_dash format_date_no_dash,
        of a "zero_pad 4 n" b "zero_pad 4 n'"] rest by simp
  ultimately show ?thesis using format_date_inject assms(3,4) by simp
qed

section \<open>The contract of a sequence\<close>

text \<open>
  \<^verbatim>\<open>draw k s\<close> allocates from counter \<^verbatim>\<open>k\<close> in state \<^verbatim>\<open>s\<close>; \<^verbatim>\<open>counter k s\<close> is the last
  value given out.
\<close>

locale sequence =
  fixes draw :: "'k \<Rightarrow> 's \<Rightarrow> nat \<times> 's"
    and counter :: "'k \<Rightarrow> 's \<Rightarrow> nat"
  assumes draw_value: "fst (draw k s) = Suc (counter k s)"
    and draw_counter: "counter k (snd (draw k s)) = Suc (counter k s)"
    and draw_other: "k' \<noteq> k \<Longrightarrow> counter k' (snd (draw k s)) = counter k' s"
begin

fun draws :: "'k list \<Rightarrow> 's \<Rightarrow> nat list" where
  "draws [] s = []"
| "draws (k # ks) s = fst (draw k s) # draws ks (snd (draw k s))"

lemma length_draws: "length (draws ks s) = length ks"
  by (induction ks arbitrary: s) simp_all

lemma counter_mono: "counter k s \<le> counter k (snd (draw k' s))"
  using draw_counter[of k s] draw_other[of k k' s] by (cases "k = k'") simp_all

lemma draws_above: "(k, v) \<in> set (zip ks (draws ks s)) \<Longrightarrow> counter k s < v"
proof (induction ks arbitrary: s)
  case (Cons k' ks)
  then show ?case
    using draw_value[of k' s] counter_mono[of k s k'] by (auto intro: le_less_trans)
qed simp

lemma draws_distinct: "distinct (zip ks (draws ks s))"
proof (induction ks arbitrary: s)
  case (Cons k ks)
  have "(k, fst (draw k s)) \<notin> set (zip ks (draws ks (snd (draw k s))))"
    using draws_above[of k "fst (draw k s)" ks "snd (draw k s)"] draw_value[of k s]
      draw_counter[of k s] by auto
  then show ?case using Cons by simp
qed simp

end

lemma find_seq_row_upsert_same:
  "find (seq_row_is key dt) (number_sequences (upsert_sequence key dt d)) =
    (case find (seq_row_is key dt) (number_sequences d) of
       None \<Rightarrow> Some \<lparr>ns_id = auto_inc d T_number_sequences,
                ns_sequence_key = sequence_key_value key,
                ns_sequence_date = dt, ns_current_value = 1\<rparr>
     | Some r \<Rightarrow> Some (bump_value r))"
proof -
  have upd: "find (seq_row_is key dt) (update_rows (seq_row_is key dt) bump_value rows) =
      map_option bump_value
        (find (seq_row_is key dt) rows)" for rows
    by (induction rows) (auto simp: seq_row_is_def bump_value_def)
  have app: "find (seq_row_is key dt) (rows @ [r]) = Some r"
    if "\<not> list_ex (seq_row_is key dt) rows" "seq_row_is key dt r" for rows r
    using that by (induction rows) auto
  have ex: "list_ex (seq_row_is key dt) rows \<longleftrightarrow> (\<exists>r. find (seq_row_is key dt) rows = Some r)" for rows
    by (induction rows) auto
  have new: "seq_row_is key dt \<lparr>ns_id = i, ns_sequence_key = sequence_key_value key,
      ns_sequence_date = dt, ns_current_value = v\<rparr>" for i v
    by (simp add: seq_row_is_def)
  show ?thesis
    by (cases "find (seq_row_is key dt) (number_sequences d)")
      (simp_all add: upsert_sequence_def upd ex app new)
qed

lemma find_seq_row_upsert_other:
  assumes "(key', dt') \<noteq> (key, dt)"
  shows "find (seq_row_is key' dt') (number_sequences (upsert_sequence key dt d)) =
    find (seq_row_is key' dt') (number_sequences d)"
proof -
  have ne: "\<not> (seq_row_is key dt r \<and> seq_row_is key' dt' r)" for r
    using assms by (auto simp: seq_row_is_def)
  have upd: "find (seq_row_is key' dt') (update_rows (seq_row_is key dt) bump_value rows) =
      find (seq_row_is key' dt') rows" for rows
    using ne by (induction rows) (auto simp: seq_row_is_def bump_value_def)
  have app: "find (seq_row_is key' dt') (rows @ [r]) = find (seq_row_is key' dt') rows"
    if "\<not> seq_row_is key' dt' r" for rows r
    using that by (induction rows) auto
  have "\<not> seq_row_is key' dt' \<lparr>ns_id = i, ns_sequence_key = sequence_key_value key,
      ns_sequence_date = dt, ns_current_value = 1\<rparr>" for i
    using assms by (auto simp: seq_row_is_def)
  then show ?thesis by (simp add: upsert_sequence_def upd app)
qed

definition draw_sequence :: "sequence_key \<times> date \<Rightarrow> db \<Rightarrow> nat \<times> db" where
  "draw_sequence k d = next_sequence_value (fst k) (snd k) (Some (snd k)) d"

interpretation numbers: sequence draw_sequence "\<lambda>k. current_value (fst k) (snd k)"
proof
  fix k k' :: "sequence_key \<times> date" and d :: db
  note defs = draw_sequence_def next_sequence_value_def sequence_date_of_def current_value_def Let_def
  show "fst (draw_sequence k d) = Suc (current_value (fst k) (snd k) d)"
    by (simp add: defs find_seq_row_upsert_same bump_value_def split: option.splits)
  show "current_value (fst k) (snd k) (snd (draw_sequence k d)) =
      Suc (current_value (fst k) (snd k) d)"
    by (simp add: defs find_seq_row_upsert_same bump_value_def split: option.splits)
  show "current_value (fst k') (snd k') (snd (draw_sequence k d)) =
      current_value (fst k') (snd k') d" if "k' \<noteq> k"
  proof -
    have "(fst k', snd k') \<noteq> (fst k, snd k)" using that by (simp add: prod_eq_iff)
    from find_seq_row_upsert_other[OF this] show ?thesis by (simp add: defs)
  qed
qed

lemma next_sequence_value_frame:
  assumes "next_sequence_value key today dt d = (v, d')"
  shows "\<exists>X Y. d' = d\<lparr>number_sequences := X, auto_inc := Y\<rparr>"
proof -
  have "d' = upsert_sequence key (sequence_date_of key today dt) d"
    using assms by (simp add: next_sequence_value_def Let_def)
  moreover have "d\<lparr>number_sequences := X\<rparr> = d\<lparr>number_sequences := X, auto_inc := auto_inc d\<rparr>" for X
    by simp
  ultimately show ?thesis unfolding upsert_sequence_def by metis
qed

lemma next_daily_code_frame:
  assumes "next_daily_code key p today dt d = (no, d')"
  shows "\<exists>X Y. d' = d\<lparr>number_sequences := X, auto_inc := Y\<rparr>"
    and "t \<noteq> T_number_sequences \<Longrightarrow> auto_inc d' t = auto_inc d t"
proof -
  show "\<exists>X Y. d' = d\<lparr>number_sequences := X, auto_inc := Y\<rparr>"
    using assms next_sequence_value_frame by (fastforce simp: next_daily_code_def Let_def split: prod.splits)
  show "t \<noteq> T_number_sequences \<Longrightarrow> auto_inc d' t = auto_inc d t"
    using assms by (auto simp: next_daily_code_def next_sequence_value_def upsert_sequence_def Let_def)
qed

end
