(* ===== verification/AuditLog.thy ===== *)
theory AuditLog
  imports Store
begin

text \<open>
  What every handler gets beside its input: the clock and the request headers,
  and the authenticated user (\<^verbatim>\<open>app/schemas/auth.py\<close>, \<^verbatim>\<open>CurrentUser\<close>); and the
  writer of the audit log (\<^verbatim>\<open>app/services/audit_service.py\<close>).
\<close>

record request_ctx =
  rq_today :: date
  rq_now :: datetime
  rq_ip_address :: "string option"
  rq_user_agent :: "string option"
  rq_request_id :: "string option"

record current_user =
  cu_id :: nat
  cu_username :: string
  cu_real_name :: string
  cu_role_id :: nat
  cu_role_code :: "role_code option"
  cu_department_id :: "nat option"

definition write_audit ::
    "request_ctx \<Rightarrow> audit_action \<Rightarrow> string \<Rightarrow> current_user option \<Rightarrow> string option \<Rightarrow>
     string option \<Rightarrow> nat option \<Rightarrow> string option \<Rightarrow> db \<Rightarrow> db" where
  "write_audit ctx action module_name operator username_snapshot document_type document_id
      document_no d =
    insert_ol
      \<lparr>ol_id = 0,
       ol_operator_id = map_option cu_id operator,
       ol_username_snapshot =
         (if username_snapshot \<noteq> None \<and> username_snapshot \<noteq> Some '''' then username_snapshot
          else map_option cu_username operator),
       ol_action = action,
       ol_module = module_name,
       ol_document_type = document_type,
       ol_document_id = document_id,
       ol_document_no = document_no,
       ol_ip_address = rq_ip_address ctx,
       ol_user_agent = rq_user_agent ctx,
       ol_request_id = rq_request_id ctx,
       ol_created_at = rq_now ctx\<rparr> d"

lemma write_audit_preserves [simp]:
  "departments (write_audit c a m u n t i no d) = departments d"
  "roles (write_audit c a m u n t i no d) = roles d"
  "permissions (write_audit c a m u n t i no d) = permissions d"
  "role_permissions (write_audit c a m u n t i no d) = role_permissions d"
  "users (write_audit c a m u n t i no d) = users d"
  "department_managers (write_audit c a m u n t i no d) = department_managers d"
  "materials (write_audit c a m u n t i no d) = materials d"
  "suppliers (write_audit c a m u n t i no d) = suppliers d"
  "warehouses (write_audit c a m u n t i no d) = warehouses d"
  "inventory_policies (write_audit c a m u n t i no d) = inventory_policies d"
  "purchase_requisitions (write_audit c a m u n t i no d) = purchase_requisitions d"
  "purchase_requisition_items (write_audit c a m u n t i no d) = purchase_requisition_items d"
  "purchase_orders (write_audit c a m u n t i no d) = purchase_orders d"
  "purchase_order_items (write_audit c a m u n t i no d) = purchase_order_items d"
  "purchase_order_item_sources (write_audit c a m u n t i no d) = purchase_order_item_sources d"
  "approval_records (write_audit c a m u n t i no d) = approval_records d"
  "purchase_receipts (write_audit c a m u n t i no d) = purchase_receipts d"
  "purchase_receipt_items (write_audit c a m u n t i no d) = purchase_receipt_items d"
  "inventory_balances (write_audit c a m u n t i no d) = inventory_balances d"
  "inventory_transactions (write_audit c a m u n t i no d) = inventory_transactions d"
  "stock_reconciliations (write_audit c a m u n t i no d) = stock_reconciliations d"
  "stock_reconciliation_items (write_audit c a m u n t i no d) = stock_reconciliation_items d"
  "number_sequences (write_audit c a m u n t i no d) = number_sequences d"
  by (simp_all add: write_audit_def insert_ol_def)

lemma write_audit_auto_inc [simp]:
  "t' \<noteq> T_operation_logs \<Longrightarrow> auto_inc (write_audit c a m u n t i no d) t' = auto_inc d t'"
  by (simp add: write_audit_def insert_ol_def)

text \<open>One row is appended, with the operator and the document.\<close>

lemma write_audit_appends:
  "\<exists>r. operation_logs (write_audit c a m u n t i no d) = operation_logs d @ [r]
     \<and> ol_action r = a \<and> ol_operator_id r = map_option cu_id u \<and> ol_document_id r = i"
  by (simp add: write_audit_def insert_ol_def)

end
