(* ===== verification/Contracts.thy ===== *)
theory Contracts
  imports Prelude
begin

text \<open>
  The contracts that several services rely on, as locales over arbitrary rows and
  states.  Each is interpreted on the model where the code provides it.

  \<^item> \<^verbatim>\<open>exclusive_claim\<close>: a status flip by a conditional UPDATE that closes the
    row for every other claim (approve and reject a requisition, confirm an
    order, reverse a receipt, post a stock count).
  \<^item> \<^verbatim>\<open>bounded_counter\<close>: a quantity that is taken from a row and given back by
    conditional UPDATEs that keep it between zero and a cap (the converted
    quantity of a requisition line, the received quantity of an order line).
  \<^item> \<^verbatim>\<open>ledger_posting\<close>: lines are appended to a ledger while their totals are
    collected per key, then each key's total is settled into its balance.
\<close>

section \<open>Keys\<close>

text \<open>Distinct primary keys, all below the next auto-increment value.\<close>

definition keyed :: "('r \<Rightarrow> nat) \<Rightarrow> nat \<Rightarrow> 'r list \<Rightarrow> bool" where
  "keyed key n rows \<longleftrightarrow> distinct (map key rows) \<and> (\<forall>k\<in>set (map key rows). k < n)"

lemma keyed_cong: "map key rows = map key rows' \<Longrightarrow> keyed key n rows = keyed key n rows'"
  by (simp add: keyed_def del: set_map)

lemma keyed_distinct: "keyed key n rows \<Longrightarrow> distinct (map key rows)"
  by (simp add: keyed_def)

lemma keyed_below: "keyed key n rows \<Longrightarrow> r \<in> set rows \<Longrightarrow> key r < n"
  by (simp add: keyed_def)

lemma keyed_unique:
  "keyed key n rows \<Longrightarrow> r \<in> set rows \<Longrightarrow> r' \<in> set rows \<Longrightarrow> key r = key r' \<Longrightarrow> r = r'"
  by (auto simp: keyed_def distinct_map inj_on_def)

lemma keyed_append:
  "keyed key n rows \<Longrightarrow> key r = n \<Longrightarrow> keyed key (Suc n) (rows @ [r])"
  by (auto simp: keyed_def)

lemma keyed_filter: "keyed key n rows \<Longrightarrow> keyed key n (filter p rows)"
  by (auto simp: keyed_def distinct_map_filter)

lemma keyed_row_by:
  "keyed key n rows \<Longrightarrow> row_by key k rows = Some r \<longleftrightarrow> r \<in> set rows \<and> key r = k"
  by (simp add: keyed_def row_by_eq_distinct)

lemma keyed_fresh: "keyed key n rows \<Longrightarrow> row_by key n rows = None"
  by (auto simp: keyed_def row_by_None_iff)

lemma keyed_update:
  "(\<And>r. p r \<Longrightarrow> key (f r) = key r) \<Longrightarrow> keyed key n (update_rows p f rows) = keyed key n rows"
  by (rule keyed_cong) (rule map_update_rows_same)

section \<open>Two updates of one row\<close>

lemma update_key_twice:
  assumes "distinct (map key rows)" "r \<in> set rows" "key r = i" "p r"
    and "\<And>x. key (f x) = key x"
  shows "update_rows (\<lambda>x. key x = i) g (update_rows (\<lambda>x. key x = i \<and> p x) f rows) =
    update_rows (\<lambda>x. key x = i) (\<lambda>_. g (f r)) rows"
  using assms
proof (induction rows)
  case (Cons a rows)
  show ?case
  proof (cases "key a = i")
    case True
    then have "a = r" using Cons.prems by (auto simp: image_iff)
    have none: "\<And>x. x \<in> set rows \<Longrightarrow> key x \<noteq> i"
      using Cons.prems(1) True by (auto simp: image_iff)
    then have "update_rows (\<lambda>x. key x = i) h rows = rows"
      "update_rows (\<lambda>x. key x = i \<and> p x) h rows = rows" for h
      by (auto intro!: update_rows_none)
    then show ?thesis using True \<open>a = r\<close> Cons.prems(4,5) by simp
  next
    case False
    then show ?thesis using Cons by auto
  qed
qed simp

lemma update_key_once:
  assumes "distinct (map key rows)" "r \<in> set rows" "key r = i" "p r"
  shows "update_rows (\<lambda>x. key x = i \<and> p x) f rows = update_rows (\<lambda>x. key x = i) (\<lambda>_. f r) rows"
  using assms
proof (induction rows)
  case (Cons a rows)
  show ?case
  proof (cases "key a = i")
    case True
    then have "a = r" using Cons.prems by (auto simp: image_iff)
    have none: "\<And>x. x \<in> set rows \<Longrightarrow> key x \<noteq> i"
      using Cons.prems(1) True by (auto simp: image_iff)
    then have "update_rows (\<lambda>x. key x = i) h rows = rows"
      "update_rows (\<lambda>x. key x = i \<and> p x) h rows = rows" for h
      by (auto intro!: update_rows_none)
    then show ?thesis using True \<open>a = r\<close> Cons.prems(4) by simp
  next
    case False
    then show ?thesis using Cons by auto
  qed
qed simp

lemma row_by_update_key:
  assumes "key r' = i" "row_by key i rows \<noteq> None"
  shows "row_by key k (update_rows (\<lambda>x. key x = i) (\<lambda>_. r') rows) =
    (if k = i then Some r' else row_by key k rows)"
proof -
  have "row_by key k (update_rows (\<lambda>x. key x = i) (\<lambda>_. r') rows) =
      map_option (\<lambda>x. if key x = i then r' else x) (row_by key k rows)"
    using assms(1) by (intro row_by_update_rows) simp
  then show ?thesis
    using assms(2) row_by_SomeD[of key k rows] by (cases "row_by key k rows") auto
qed

section \<open>Exclusive claims\<close>

text \<open>
  \<^verbatim>\<open>claim c s\<close> is one attempt in the live state \<^verbatim>\<open>s\<close>; \<^verbatim>\<open>c\<close> carries everything the
  attempt brings along, its stale snapshot included.
\<close>

locale exclusive_claim =
  fixes good claimable :: "'s \<Rightarrow> bool"
    and claim :: "'c \<Rightarrow> 's \<Rightarrow> 'e + 's"
  assumes claim_good: "good s \<Longrightarrow> claim c s = Inr s' \<Longrightarrow> good s'"
    and claim_needs: "good s \<Longrightarrow> claim c s = Inr s' \<Longrightarrow> claimable s"
    and claim_closes: "good s \<Longrightarrow> claim c s = Inr s' \<Longrightarrow> \<not> claimable s'"
begin

text \<open>Attempts that run one after the other: a failed one changes nothing.\<close>

fun winners :: "'c list \<Rightarrow> 's \<Rightarrow> 'c list" where
  "winners [] s = []"
| "winners (c # cs) s =
    (case claim c s of Inl e \<Rightarrow> winners cs s | Inr s' \<Rightarrow> c # winners cs s')"

lemma closed_fails: "good s \<Longrightarrow> \<not> claimable s \<Longrightarrow> \<exists>e. claim c s = Inl e"
  using claim_needs by (cases "claim c s") auto

lemma second_claim_fails: "good s \<Longrightarrow> claim c s = Inr s' \<Longrightarrow> \<exists>e. claim c' s' = Inl e"
  using claim_good claim_closes closed_fails by blast

lemma closed_no_winners: "good s \<Longrightarrow> \<not> claimable s \<Longrightarrow> winners cs s = []"
proof (induction cs)
  case (Cons c cs)
  then show ?case using closed_fails[of s c] by auto
qed simp

lemma at_most_one_winner: "good s \<Longrightarrow> length (winners cs s) \<le> 1"
proof (induction cs arbitrary: s)
  case (Cons c cs)
  then show ?case
    using claim_good[of s c] claim_closes[of s c] closed_no_winners[of _ cs]
    by (auto split: sum.splits)
qed simp

end

section \<open>Bounded counters\<close>

locale bounded_counter =
  fixes key :: "'r \<Rightarrow> nat"
    and used :: "'r \<Rightarrow> 'n::linordered_ab_group_add"
    and cap :: "'r \<Rightarrow> 'n"
    and add :: "'n \<Rightarrow> 'r \<Rightarrow> 'r"
  assumes add_key: "key (add q r) = key r"
    and add_used: "used (add q r) = used r + q"
    and add_cap: "cap (add q r) = cap r"
    and add_inverse: "add (- q) (add q r) = r"
begin

definition take_from :: "nat \<Rightarrow> 'n \<Rightarrow> 'r list \<Rightarrow> 'r list option" where
  "take_from i q rows = cas_rows (\<lambda>r. key r = i \<and> used r + q \<le> cap r) (add q) rows"

definition give_back :: "nat \<Rightarrow> 'n \<Rightarrow> 'r list \<Rightarrow> 'r list option" where
  "give_back i q rows = cas_rows (\<lambda>r. key r = i \<and> q \<le> used r) (add (- q)) rows"

definition bounded_rows :: "'r list \<Rightarrow> bool" where
  "bounded_rows rows \<longleftrightarrow> (\<forall>r\<in>set rows. 0 \<le> used r \<and> used r \<le> cap r)"

lemma take_bounded: "take_from i q rows = Some rows' \<Longrightarrow> 0 \<le> q \<Longrightarrow> bounded_rows rows \<Longrightarrow> bounded_rows rows'"
  by (auto simp: take_from_def bounded_rows_def cas_rows_Some_iff set_update_rows add_used add_cap)

lemma give_bounded:
  assumes "give_back i q rows = Some rows'" "0 \<le> q" "bounded_rows rows"
  shows "bounded_rows rows'"
proof -
  have "used r - q \<le> cap r" if "used r \<le> cap r" for r
    using that assms(2) by (simp add: diff_le_eq add_increasing2)
  then show ?thesis
    using assms by (auto simp: give_back_def bounded_rows_def cas_rows_Some_iff set_update_rows
        add_used add_cap le_diff_eq)
qed

lemma take_used:
  assumes "take_from i q rows = Some rows'" "distinct (map key rows)" "row_by key j rows = Some r"
  shows "row_by key j rows' = Some (if j = i then add q r else r)"
proof -
  from assms(1) obtain x where x: "x \<in> set rows" "key x = i" "used x + q \<le> cap x"
    and rows': "rows' = update_rows (\<lambda>r. key r = i \<and> used r + q \<le> cap r) (add q) rows"
    by (auto simp: take_from_def cas_rows_Some_iff)
  have r: "r \<in> set rows" "key r = j" using assms(3) by (auto dest: row_by_SomeD)
  have "j = i \<Longrightarrow> r = x" using x r assms(2) by (auto simp: distinct_map inj_on_def)
  then show ?thesis
    using assms(3) x r by (auto simp: rows' row_by_update_rows add_key)
qed

lemma take_then_give:
  assumes "take_from i q rows = Some rows'" "distinct (map key rows)" "bounded_rows rows"
  shows "give_back i q rows' = Some rows"
proof -
  from assms(1) obtain r where r: "r \<in> set rows" "key r = i" "used r + q \<le> cap r"
    and rows': "rows' = update_rows (\<lambda>r. key r = i \<and> used r + q \<le> cap r) (add q) rows"
    by (auto simp: take_from_def cas_rows_Some_iff)
  have once: "rows' = update_rows (\<lambda>x. key x = i) (\<lambda>_. add q r) rows"
    using update_key_once[OF assms(2) r(1,2), of "\<lambda>x. used x + q \<le> cap x"] r(3) rows' by simp
  have mem: "add q r \<in> set rows'" using r by (auto simp: rows' set_update_rows)
  have le: "q \<le> used (add q r)" using assms(3) r(1) by (auto simp: add_used bounded_rows_def)
  have undo: "update_rows (\<lambda>x. key x = i \<and> q \<le> used x) (add (- q)) rows' = rows"
    unfolding once using assms(2) r le
  proof (induction rows)
    case (Cons a rows)
    show ?case
    proof (cases "key a = i")
      case True
      then have "a = r" using Cons.prems by (auto simp: image_iff)
      have none: "\<And>x. x \<in> set rows \<Longrightarrow> key x \<noteq> i"
        using Cons.prems(1) True by (auto simp: image_iff)
      then have "update_rows (\<lambda>x. key x = i) h rows = rows"
        "update_rows (\<lambda>x. key x = i \<and> q \<le> used x) h rows = rows" for h
        by (auto intro!: update_rows_none)
      then show ?thesis
        using True \<open>a = r\<close> Cons.prems(4,5) by (simp add: add_key add_inverse)
    next
      case False
      then show ?thesis using Cons by auto
    qed
  qed simp
  have "\<exists>x\<in>set rows'. key x = i \<and> q \<le> used x"
    using mem le r(2) by (intro bexI[of _ "add q r"]) (simp_all add: add_key)
  then show ?thesis
    unfolding give_back_def cas_rows_Some_iff using undo by simp
qed

text \<open>Any number of takers and givers, each failing on its own when its guard does.\<close>

fun attempts :: "(nat \<times> 'n) list \<Rightarrow> 'r list \<Rightarrow> 'r list" where
  "attempts [] rows = rows"
| "attempts ((i, q) # qs) rows =
    (case (if 0 \<le> q then take_from i q rows else give_back i (- q) rows) of
       None \<Rightarrow> attempts qs rows | Some rows' \<Rightarrow> attempts qs rows')"

lemma attempts_bounded: "bounded_rows rows \<Longrightarrow> bounded_rows (attempts qs rows)"
proof (induction qs rows rule: attempts.induct)
  case (2 i q qs rows)
  then show ?case
    using take_bounded[of i q rows] give_bounded[of i "- q" rows]
    by (auto split: option.splits)
qed simp

end

section \<open>Posting to a ledger\<close>

locale ledger_posting =
  fixes ledger balance pending :: "'s \<Rightarrow> 'k \<Rightarrow> 'v::ab_group_add"
    and good :: "'s \<Rightarrow> bool"
    and line :: "'x \<Rightarrow> 's \<Rightarrow> 'e + 's"
    and line_key :: "'x \<Rightarrow> 'k"
    and settle :: "'k \<Rightarrow> 's \<Rightarrow> 'e + 's"
  assumes line_good: "line x s = Inr s' \<Longrightarrow> good s \<Longrightarrow> good s'"
    and line_gap: "line x s = Inr s' \<Longrightarrow> good s \<Longrightarrow>
      ledger s' k - pending s' k = ledger s k - pending s k"
    and line_balance: "line x s = Inr s' \<Longrightarrow> good s \<Longrightarrow> balance s' k = balance s k"
    and line_pending: "line x s = Inr s' \<Longrightarrow> good s \<Longrightarrow> k \<noteq> line_key x \<Longrightarrow>
      pending s' k = pending s k"
    and settle_good: "settle k s = Inr s' \<Longrightarrow> good s \<Longrightarrow> good s'"
    and settle_ledger: "settle k s = Inr s' \<Longrightarrow> good s \<Longrightarrow> ledger s' k' = ledger s k'"
    and settle_pending: "settle k s = Inr s' \<Longrightarrow> good s \<Longrightarrow> pending s' k' = pending s k'"
    and settle_balance: "settle k s = Inr s' \<Longrightarrow> good s \<Longrightarrow>
      balance s' k' = balance s k' + (if k' = k then pending s k else 0)"
begin

lemma lines_effect:
  assumes "rfold line xs s = Inr s'" "good s"
  shows "good s' \<and> (\<forall>k. ledger s' k - pending s' k = ledger s k - pending s k)
    \<and> (\<forall>k. balance s' k = balance s k)
    \<and> (\<forall>k. k \<notin> line_key ` set xs \<longrightarrow> pending s' k = pending s k)"
  using assms
proof (induction xs arbitrary: s)
  case (Cons x xs)
  then obtain s1 where s1: "line x s = Inr s1" "rfold line xs s1 = Inr s'" by auto
  have "good s1" using line_good[OF s1(1) Cons.prems(2)] .
  from Cons.IH[OF s1(2) this] show ?case
    using line_gap[OF s1(1) Cons.prems(2)] line_balance[OF s1(1) Cons.prems(2)]
      line_pending[OF s1(1) Cons.prems(2)] by auto
qed simp

lemma settles_effect:
  assumes "rfold settle ks s = Inr s'" "good s" "distinct ks"
  shows "good s' \<and> (\<forall>k. ledger s' k = ledger s k) \<and> (\<forall>k. pending s' k = pending s k)
    \<and> (\<forall>k. balance s' k = balance s k + (if k \<in> set ks then pending s k else 0))"
  using assms
proof (induction ks arbitrary: s)
  case (Cons a ks)
  then obtain s1 where s1: "settle a s = Inr s1" "rfold settle ks s1 = Inr s'" by auto
  have "good s1" using settle_good[OF s1(1) Cons.prems(2)] .
  from Cons.IH[OF s1(2) this] show ?case
    using settle_ledger[OF s1(1) Cons.prems(2)] settle_pending[OF s1(1) Cons.prems(2)]
      settle_balance[OF s1(1) Cons.prems(2)] Cons.prems(3) by auto
qed simp

text \<open>What is not yet settled is all that ledger and balances may differ by.\<close>

lemma posting_gap:
  assumes "rfold line xs s = Inr s1" "rfold settle ks s1 = Inr s2" "good s"
    and "\<And>k. pending s k = 0" "distinct ks" "line_key ` set xs \<subseteq> set ks"
  shows "good s2" and "ledger s2 k - balance s2 k = ledger s k - balance s k"
proof -
  note l = lines_effect[OF assms(1,3)]
  have "good s1" using l by blast
  note st = settles_effect[OF assms(2) this assms(5)]
  show "good s2" using st by blast
  have 1: "ledger s1 k - pending s1 k = ledger s k - 0" using l assms(4) by metis
  have 2: "balance s1 k = balance s k" "ledger s2 k = ledger s1 k" using l st by blast+
  have 3: "balance s2 k = balance s1 k + (if k \<in> set ks then pending s1 k else 0)" using st by blast
  have 4: "pending s1 k = 0" if "k \<notin> set ks" using that l assms(4,6) by (metis subsetD)
  have "balance s2 k = balance s k + pending s1 k" using 2(1) 3 4 by (cases "k \<in> set ks") simp_all
  then show "ledger s2 k - balance s2 k = ledger s k - balance s k"
    using 1 by (simp add: 2(2) algebra_simps diff_eq_eq)
qed

end

end
