(* ===== verification/Requisition.thy ===== *)
theory Requisition
  imports Numbering AuditLog Contracts
begin

text \<open>
  Purchase requisitions (\<^verbatim>\<open>app/services/purchase_requisition_service.py\<close>, input
  types of \<^verbatim>\<open>app/schemas/purchase_requisition.py\<close>).

  A handler takes the snapshot \<^verbatim>\<open>s\<close> of its plain reads and the live state \<^verbatim>\<open>d\<close>.
  A write of a loaded object (\<^verbatim>\<open>db.flush()\<close>) is an absolute UPDATE of the columns
  whose value changed since they were loaded, so it carries values computed from
  \<^verbatim>\<open>s\<close> into \<^verbatim>\<open>d\<close>; the statements written with \<^verbatim>\<open>update(...).where(...)\<close> test
  and change \<^verbatim>\<open>d\<close>.
\<close>

section \<open>Input\<close>

record pr_item_create =
  pic_material_id :: nat
  pic_requested_quantity :: decimal
  pic_estimated_unit_price :: decimal
  pic_required_date :: "date option"
  pic_remark :: "string option"

record pr_create =
  prc_apply_date :: "date option"
  prc_reason :: "string option"
  prc_items :: "pr_item_create list"

record pr_item_update =
  piu_id :: "nat option"
  piu_material_id :: nat
  piu_requested_quantity :: decimal
  piu_estimated_unit_price :: decimal
  piu_required_date :: "date option"
  piu_remark :: "string option"

record pr_update =
  pru_version :: nat
  pru_apply_date :: "date option"
  pru_reason :: "string option"
  pru_items :: "pr_item_update list"

text \<open>What the request schemas let through.\<close>

definition valid_pr_item_create :: "pr_item_create \<Rightarrow> bool" where
  "valid_pr_item_create i \<longleftrightarrow> 0 < pic_material_id i
    \<and> 0 < pic_requested_quantity i \<and> on_grid 4 (pic_requested_quantity i)
    \<and> 0 \<le> pic_estimated_unit_price i \<and> on_grid 4 (pic_estimated_unit_price i)
    \<and> opt_len 0 255 (pic_remark i)"

definition valid_pr_create :: "pr_create \<Rightarrow> bool" where
  "valid_pr_create c \<longleftrightarrow> opt_len 0 500 (prc_reason c) \<and> prc_items c \<noteq> [] \<and> list_all valid_pr_item_create (prc_items c)"

definition valid_pr_item_update :: "pr_item_update \<Rightarrow> bool" where
  "valid_pr_item_update i \<longleftrightarrow> 0 < piu_material_id i
    \<and> 0 < piu_requested_quantity i \<and> on_grid 4 (piu_requested_quantity i)
    \<and> 0 \<le> piu_estimated_unit_price i \<and> on_grid 4 (piu_estimated_unit_price i)
    \<and> opt_len 0 255 (piu_remark i)"

definition valid_pr_update :: "pr_update \<Rightarrow> bool" where
  "valid_pr_update u \<longleftrightarrow> 1 \<le> pru_version u \<and> opt_len 0 500 (pru_reason u) \<and> pru_items u \<noteq> []
    \<and> list_all valid_pr_item_update (pru_items u)"

section \<open>The status machine\<close>

primrec pr_transitions :: "pr_status \<Rightarrow> pr_status list" where
  "pr_transitions PR_DRAFT = [PR_PENDING, PR_CANCELLED]"
| "pr_transitions PR_PENDING = [PR_APPROVED, PR_REJECTED]"
| "pr_transitions PR_REJECTED = [PR_DRAFT]"
| "pr_transitions PR_APPROVED = [PR_CANCELLED]"
| "pr_transitions PR_CANCELLED = []"
| "pr_transitions PR_CONVERTED = []"

definition assert_pr_transition :: "purchase_requisition \<Rightarrow> pr_status \<Rightarrow> error + unit" where
  "assert_pr_transition pr target =
    check (target \<in> set (pr_transitions (pr_status pr)))
      (raise_code InvalidStatusTransitionException PR_INVALID_STATUS_TRANSITION)"

section \<open>Helpers\<close>

definition load_pr :: "nat \<Rightarrow> db \<Rightarrow> error + purchase_requisition" where
  "load_pr i s = require (get_pr s i) (raise_code NotFoundException PR_NOT_FOUND)"

definition pr_items :: "nat \<Rightarrow> db \<Rightarrow> purchase_requisition_item list" where
  "pr_items i s = sort_key pri_line_no
    (filter (\<lambda>it. pri_pr_id it = i) (purchase_requisition_items s))"

definition assert_pr_material_active :: "db \<Rightarrow> nat \<Rightarrow> error + unit" where
  "assert_pr_material_active s material_id =
    (case get_mat s material_id of
       None \<Rightarrow> Inl (raise_code NotFoundException PR_ITEM_NOT_FOUND)
     | Some m \<Rightarrow> check (mat_status m = ST_ACTIVE)
         (raise_code ConflictException MASTER_DATA_DISABLED))"

definition can_manage :: "purchase_requisition \<Rightarrow> current_user \<Rightarrow> bool" where
  "can_manage pr u \<longleftrightarrow> pr_applicant_id pr = cu_id u \<or> cu_role_code u = Some ROLE_ADMIN"

definition assert_self_or_admin :: "purchase_requisition \<Rightarrow> current_user \<Rightarrow> error + unit" where
  "assert_self_or_admin pr u =
    check (can_manage pr u) (raise_code PermissionDeniedException PR_NOT_APPLICANT)"

lemma load_pr_Inr [simp]: "load_pr i s = Inr pr \<longleftrightarrow> get_pr s i = Some pr"
  by (simp add: load_pr_def)

lemma assert_pr_transition_Inr [simp]:
  "assert_pr_transition pr t = Inr x \<longleftrightarrow> t \<in> set (pr_transitions (pr_status pr))"
  by (simp add: assert_pr_transition_def)

lemma assert_self_or_admin_Inr [simp]: "assert_self_or_admin pr u = Inr x \<longleftrightarrow> can_manage pr u"
  by (simp add: assert_self_or_admin_def)

text \<open>Returns whether the approval is an administrator's override.\<close>

definition assert_approver :: "db \<Rightarrow> purchase_requisition \<Rightarrow> current_user \<Rightarrow> error + bool" where
  "assert_approver s pr u =
    (if (case get_user s (cu_id u) of None \<Rightarrow> True | Some x \<Rightarrow> user_status x \<noteq> USER_ACTIVE)
     then Inl (raise_code PermissionDeniedException USER_DISABLED)
     else if (case get_dept s (pr_department_id pr) of
                None \<Rightarrow> True | Some dep \<Rightarrow> dept_status dep \<noteq> DEPT_ACTIVE)
     then Inl (raise_code ConflictException MASTER_DATA_DISABLED)
     else if cu_role_code u = Some ROLE_ADMIN then Inr True
     else if list_ex (\<lambda>m. dm_dept_id m = pr_department_id pr \<and> dm_user_id m = cu_id u)
               (department_managers s)
     then Inr False
     else Inl (raise_code PermissionDeniedException PR_NOT_APPROVER))"

definition assert_pr_version :: "purchase_requisition \<Rightarrow> nat \<Rightarrow> error + unit" where
  "assert_pr_version pr v =
    check (pr_version pr = v) (raise_code ConflictException PR_VERSION_CONFLICT)"

lemma assert_pr_version_Inr [simp]: "assert_pr_version pr v = Inr x \<longleftrightarrow> pr_version pr = v"
  by (simp add: assert_pr_version_def)

text \<open>The error after a conditional UPDATE that matched no row: a locking read of \<^verbatim>\<open>d\<close>.\<close>

definition pr_concurrent_change :: "db \<Rightarrow> nat \<Rightarrow> pr_status \<Rightarrow> error" where
  "pr_concurrent_change d i expected =
    (case get_pr d i of
       None \<Rightarrow> StaleData
     | Some pr \<Rightarrow> if pr_status pr \<noteq> expected
         then raise_code ConflictException PR_ALREADY_PROCESSED
         else raise_code ConflictException PR_VERSION_CONFLICT)"

definition assert_user_department_active :: "db \<Rightarrow> current_user \<Rightarrow> error + department" where
  "assert_user_department_active s u =
    (case (case cu_department_id u of None \<Rightarrow> None | Some i \<Rightarrow> get_dept s i) of
       None \<Rightarrow> Inl (raise_class ValidationException)
     | Some dep \<Rightarrow> if dept_status dep \<noteq> DEPT_ACTIVE then Inl (raise_class ValidationException)
         else Inr dep)"

text \<open>\<^verbatim>\<open>_recompute\<close>: the items with their amounts, and the header total.\<close>

definition recompute_item :: "purchase_requisition_item \<Rightarrow> error + purchase_requisition_item" where
  "recompute_item it =
    (if pri_requested_quantity it \<le> 0 then Inl (raise_class ValidationException)
     else if pri_estimated_unit_price it < 0 then Inl (raise_class ValidationException)
     else Inr (it\<lparr>pri_estimated_amount :=
       line_amount (pri_requested_quantity it) (pri_estimated_unit_price it)\<rparr>))"

definition recompute ::
    "purchase_requisition_item list \<Rightarrow> error + purchase_requisition_item list \<times> decimal" where
  "recompute items =
    rbind (rtraverse recompute_item items) (\<lambda>items'.
      let total = fold (\<lambda>it t. t + pri_estimated_amount it) items' 0
      in Inr (items', sum_amounts [total]))"

text \<open>
  The flush of recomputed amounts: \<^verbatim>\<open>old\<close> is the item as loaded, \<^verbatim>\<open>new\<close> the
  object; a row is written only when its amount changed.
\<close>

definition flush_amount ::
    "purchase_requisition_item \<times> purchase_requisition_item \<Rightarrow> db \<Rightarrow> error + db" where
  "flush_amount on d =
    (let old = fst on; new = snd on in
     if pri_estimated_amount new = pri_estimated_amount old then Inr d
     else if get_pri d (pri_id old) = None then Inl StaleData
     else Inr (d\<lparr>purchase_requisition_items :=
       update_rows (\<lambda>r. pri_id r = pri_id old)
         (\<lambda>r. r\<lparr>pri_estimated_amount := pri_estimated_amount new\<rparr>)
         (purchase_requisition_items d)\<rparr>))"

definition flush_amounts ::
    "purchase_requisition_item list \<Rightarrow> purchase_requisition_item list \<Rightarrow> db \<Rightarrow> error + db" where
  "flush_amounts olds news d = rfold flush_amount (zip olds news) d"

definition pr_where ::
    "nat \<Rightarrow> (purchase_requisition \<Rightarrow> bool) \<Rightarrow> (purchase_requisition \<Rightarrow> purchase_requisition) \<Rightarrow>
     db \<Rightarrow> db option" where
  "pr_where i p f d =
    map_option (\<lambda>rows. d\<lparr>purchase_requisitions := rows\<rparr>)
      (cas_rows (\<lambda>r. pr_id r = i \<and> p r) f (purchase_requisitions d))"

text \<open>The flush of the header object after the conditional UPDATE.\<close>

definition flush_pr ::
    "nat \<Rightarrow> (purchase_requisition \<Rightarrow> purchase_requisition) \<Rightarrow> db \<Rightarrow> db" where
  "flush_pr i f d = d\<lparr>purchase_requisitions :=
    update_rows (\<lambda>r. pr_id r = i) f (purchase_requisitions d)\<rparr>"

definition pr_audit ::
    "request_ctx \<Rightarrow> audit_action \<Rightarrow> current_user \<Rightarrow> purchase_requisition \<Rightarrow> db \<Rightarrow> db" where
  "pr_audit ctx action u pr d =
    write_audit ctx action ''pr'' None (Some (cu_username u)) (Some ''PURCHASE_REQUISITION'')
      (Some (pr_id pr)) (Some (pr_no pr)) d"

section \<open>Create\<close>

definition new_pr_item :: "nat \<Rightarrow> nat \<times> pr_item_create \<Rightarrow> purchase_requisition_item" where
  "new_pr_item pid lr =
    \<lparr>pri_id = 0, pri_pr_id = pid, pri_line_no = fst lr,
     pri_material_id = pic_material_id (snd lr),
     pri_requested_quantity = pic_requested_quantity (snd lr),
     pri_converted_quantity = 0,
     pri_estimated_unit_price = pic_estimated_unit_price (snd lr),
     pri_estimated_amount = 0,
     pri_required_date = pic_required_date (snd lr),
     pri_remark = pic_remark (snd lr)\<rparr>"

definition create_pr ::
    "request_ctx \<Rightarrow> current_user \<Rightarrow> pr_create \<Rightarrow> db \<Rightarrow> db \<Rightarrow> error + db" where
  "create_pr ctx u data s d =
    rbind (assert_user_department_active s u) (\<lambda>dep.
    let apply_date = (case prc_apply_date data of None \<Rightarrow> rq_today ctx | Some x \<Rightarrow> x);
        (no, d1) = next_daily_code SEQ_PURCHASE_REQUISITION ''PR'' (rq_today ctx) (Some apply_date) d;
        pid = auto_inc d1 T_purchase_requisitions;
        pr = \<lparr>pr_id = pid, pr_no = no, pr_applicant_id = cu_id u,
              pr_department_id = dept_id dep, pr_apply_date = apply_date,
              pr_reason = prc_reason data, pr_status = PR_DRAFT,
              pr_total_estimated_amount = 0, pr_submitted_at = None, pr_version = 1,
              pr_remark = None, pr_created_by = Some (cu_id u), pr_updated_by = Some (cu_id u)\<rparr>
    in rbind (insert_pr pr d1) (\<lambda>d2.
       rbind (rall (\<lambda>req. assert_pr_material_active s (pic_material_id req)) (prc_items data)) (\<lambda>_.
       rbind (rfold (\<lambda>lr. insert_pri (new_pr_item pid lr)) (enumerate 1 (prc_items data)) d2) (\<lambda>d3.
       let items = pr_items pid d3 in
       rbind (recompute items) (\<lambda>(items', total).
       rbind (flush_amounts items items' d3) (\<lambda>d4.
       let d5 = flush_pr pid (\<lambda>r. r\<lparr>pr_total_estimated_amount := total\<rparr>) d4
       in Inr (pr_audit ctx PR_CREATE u pr d5)))))))"

section \<open>Update\<close>

text \<open>
  In memory an item object is its loaded row, if it has one, with its current
  attributes.
\<close>

type_synonym item_object = "purchase_requisition_item option \<times> purchase_requisition_item"

definition loaded_as :: "nat \<Rightarrow> item_object \<Rightarrow> bool" where
  "loaded_as i ob = (case fst ob of None \<Rightarrow> False | Some r \<Rightarrow> pri_id r = i)"

definition set_item_fields ::
    "nat \<Rightarrow> pr_item_update \<Rightarrow> purchase_requisition_item \<Rightarrow> purchase_requisition_item" where
  "set_item_fields line_no req it = it
    \<lparr>pri_line_no := line_no,
     pri_material_id := piu_material_id req,
     pri_requested_quantity := piu_requested_quantity req,
     pri_estimated_unit_price := piu_estimated_unit_price req,
     pri_required_date := piu_required_date req,
     pri_remark := piu_remark req\<rparr>"

definition sync_item ::
    "db \<Rightarrow> nat \<Rightarrow> nat \<times> pr_item_update \<Rightarrow> item_object list \<Rightarrow> error + item_object list" where
  "sync_item s pid lr obs =
    (let line_no = fst lr; req = snd lr in
     case piu_id req of
       Some i \<Rightarrow>
         if \<not> list_ex (loaded_as i) obs
         then Inl (raise_code ConflictException PR_ITEM_NOT_FOUND)
         else rbind (assert_pr_material_active s (piu_material_id req)) (\<lambda>_.
           Inr (update_rows (loaded_as i) (\<lambda>ob. (fst ob, set_item_fields line_no req (snd ob))) obs))
     | None \<Rightarrow>
         rbind (assert_pr_material_active s (piu_material_id req)) (\<lambda>_.
           Inr (obs @ [(None, set_item_fields line_no req
             \<lparr>pri_id = 0, pri_pr_id = pid, pri_line_no = 0, pri_material_id = 0,
              pri_requested_quantity = 0, pri_converted_quantity = 0,
              pri_estimated_unit_price = 0, pri_estimated_amount = 0,
              pri_required_date = None, pri_remark = None\<rparr>)])))"

definition seen_ids :: "pr_item_update list \<Rightarrow> nat list" where
  "seen_ids reqs = List.map_filter piu_id reqs"

definition sync_items ::
    "db \<Rightarrow> nat \<Rightarrow> pr_item_update list \<Rightarrow> purchase_requisition_item list \<Rightarrow>
     error + item_object list" where
  "sync_items s pid reqs existing =
    rbind (rfold (sync_item s pid) (enumerate 1 reqs) (map (\<lambda>it. (Some it, it)) existing)) (\<lambda>obs.
      Inr (filter (\<lambda>ob. case fst ob of None \<Rightarrow> True | Some r \<Rightarrow> pri_id r \<in> set (seen_ids reqs)) obs))"

text \<open>
  The statements of the flush.  Their order is the ORM's (\<^verbatim>\<open>uow\<close>, a parameter: it
  permutes the statements); each is checked against the constraints at once.
\<close>

datatype item_stmt =
  UpdateItem purchase_requisition_item purchase_requisition_item
| InsertItem purchase_requisition_item
| DeleteItem nat

definition changed :: "'a \<Rightarrow> 'a \<Rightarrow> 'a \<Rightarrow> 'a" where
  "changed old new cur = (if new = old then cur else new)"

definition merge_item ::
    "purchase_requisition_item \<Rightarrow> purchase_requisition_item \<Rightarrow> purchase_requisition_item \<Rightarrow>
     purchase_requisition_item" where
  "merge_item old new cur = cur
    \<lparr>pri_line_no := changed (pri_line_no old) (pri_line_no new) (pri_line_no cur),
     pri_material_id := changed (pri_material_id old) (pri_material_id new) (pri_material_id cur),
     pri_requested_quantity :=
       changed (pri_requested_quantity old) (pri_requested_quantity new) (pri_requested_quantity cur),
     pri_estimated_unit_price :=
       changed (pri_estimated_unit_price old) (pri_estimated_unit_price new)
         (pri_estimated_unit_price cur),
     pri_estimated_amount :=
       changed (pri_estimated_amount old) (pri_estimated_amount new) (pri_estimated_amount cur),
     pri_required_date :=
       changed (pri_required_date old) (pri_required_date new) (pri_required_date cur),
     pri_remark := changed (pri_remark old) (pri_remark new) (pri_remark cur)\<rparr>"

primrec exec_item_stmt :: "item_stmt \<Rightarrow> db \<Rightarrow> error + db" where
  "exec_item_stmt (UpdateItem old new) d =
    (case get_pri d (pri_id old) of
       None \<Rightarrow> Inl StaleData
     | Some cur \<Rightarrow>
         let r = merge_item old new cur in
         if \<not> pri_checks r then Inl (DbError (CheckViolation ''purchase_requisition_items''))
         else if list_ex (\<lambda>x. pri_id x \<noteq> pri_id r \<and> pri_pr_id x = pri_pr_id r
                   \<and> pri_line_no x = pri_line_no r) (purchase_requisition_items d)
         then Inl (DbError (UniqueViolation ''uk_pri_line''))
         else Inr (d\<lparr>purchase_requisition_items :=
           update_rows (\<lambda>x. pri_id x = pri_id old) (\<lambda>_. r) (purchase_requisition_items d)\<rparr>))"
| "exec_item_stmt (InsertItem new) d = insert_pri new d"
| "exec_item_stmt (DeleteItem i) d =
    (if list_ex (\<lambda>x. pois_pr_item_id x = i) (purchase_order_item_sources d)
     then Inl (DbError (ForeignKeyViolation ''fk_pois_pri''))
     else Inr (d\<lparr>purchase_requisition_items :=
       filter (\<lambda>r. pri_id r \<noteq> i) (purchase_requisition_items d)\<rparr>))"

definition item_stmts ::
    "purchase_requisition_item list \<Rightarrow> item_object list \<Rightarrow> item_stmt list" where
  "item_stmts existing obs =
    List.map_filter (\<lambda>ob. case fst ob of
        None \<Rightarrow> Some (InsertItem (snd ob))
      | Some old \<Rightarrow> if snd ob = old then None else Some (UpdateItem old (snd ob))) obs
    @ map DeleteItem (filter (\<lambda>i. \<not> list_ex (loaded_as i) obs) (map pri_id existing))"

definition recompute_objects :: "item_object list \<Rightarrow> error + item_object list \<times> decimal" where
  "recompute_objects obs =
    rbind (recompute (map snd obs)) (\<lambda>(items', total). Inr (zip (map fst obs) items', total))"

definition update_pr ::
    "(item_stmt list \<Rightarrow> item_stmt list) \<Rightarrow> request_ctx \<Rightarrow> current_user \<Rightarrow> nat \<Rightarrow> pr_update \<Rightarrow>
     db \<Rightarrow> db \<Rightarrow> error + db" where
  "update_pr uow ctx u i data s d =
    rbind (load_pr i s) (\<lambda>pr.
    rbind (assert_self_or_admin pr u) (\<lambda>_.
    if pr_status pr \<noteq> PR_DRAFT then Inl (raise_code ConflictException PR_NOT_EDITABLE)
    else if pr_version pr \<noteq> pru_version data then Inl (raise_code ConflictException CONFLICT)
    else
      let existing = pr_items i s in
      rbind (sync_items s i (pru_items data) existing) (\<lambda>obs.
      let apply_date = (case pru_apply_date data of None \<Rightarrow> pr_apply_date pr | Some x \<Rightarrow> x);
          reason = (case pru_reason data of None \<Rightarrow> pr_reason pr | Some x \<Rightarrow> Some x)
      in rbind (recompute_objects obs) (\<lambda>(obs', total).
         let d1 = flush_pr i (\<lambda>r. r
               \<lparr>pr_apply_date := changed (pr_apply_date pr) apply_date (pr_apply_date r),
                pr_reason := changed (pr_reason pr) reason (pr_reason r),
                pr_total_estimated_amount :=
                  changed (pr_total_estimated_amount pr) total (pr_total_estimated_amount r)\<rparr>) d
         in rbind (rfold exec_item_stmt (uow (item_stmts existing obs')) d1) (\<lambda>d2.
            rbind (require (pr_where i
                (\<lambda>r. pr_version r = pru_version data \<and> pr_status r = PR_DRAFT)
                (\<lambda>r. r\<lparr>pr_apply_date := apply_date, pr_reason := reason,
                       pr_total_estimated_amount := total,
                       pr_updated_by := Some (cu_id u), pr_version := pr_version r + 1\<rparr>) d2)
              (raise_code ConflictException CONFLICT)) (\<lambda>d3.
            let d4 = flush_pr i (\<lambda>r. r\<lparr>pr_version := pru_version data + 1\<rparr>) d3
            in Inr (pr_audit ctx PR_UPDATE u pr d4)))))))"

section \<open>Submit and cancel\<close>

definition submit_pr ::
    "request_ctx \<Rightarrow> current_user \<Rightarrow> nat \<Rightarrow> db \<Rightarrow> db \<Rightarrow> error + db" where
  "submit_pr ctx u i s d =
    rbind (load_pr i s) (\<lambda>pr.
    rbind (assert_self_or_admin pr u) (\<lambda>_.
    rbind (assert_pr_transition pr PR_PENDING) (\<lambda>_.
    let items = pr_items i s in
    if items = [] then Inl (raise_code ConflictException PR_EMPTY_ITEMS)
    else
      rbind (rall (\<lambda>it. assert_pr_material_active s (pri_material_id it)) items) (\<lambda>_.
      rbind (recompute items) (\<lambda>(items', total).
      rbind (flush_amounts items items' d) (\<lambda>d1.
      rbind (require (pr_where i
          (\<lambda>r. pr_status r = PR_DRAFT)
          (\<lambda>r. r\<lparr>pr_status := PR_PENDING, pr_submitted_at := Some (rq_now ctx),
                 pr_total_estimated_amount := total,
                 pr_updated_by := Some (cu_id u), pr_version := pr_version r + 1\<rparr>) d1)
        (raise_code ConflictException PR_INVALID_STATUS_TRANSITION)) (\<lambda>d2.
      let d3 = flush_pr i (\<lambda>r. r\<lparr>pr_status := PR_PENDING, pr_submitted_at := Some (rq_now ctx),
                 pr_version := pr_version pr + 1\<rparr>) d2
      in Inr (pr_audit ctx PR_SUBMIT u pr d3))))))))"

text \<open>The sources of a requisition in orders that are not cancelled.\<close>

definition has_active_po :: "nat \<Rightarrow> db \<Rightarrow> bool" where
  "has_active_po i s =
    list_ex (\<lambda>po. po_status po \<noteq> PO_CANCELLED \<and>
      list_ex (\<lambda>poi. poi_po_id poi = po_id po \<and>
        list_ex (\<lambda>src. pois_po_item_id src = poi_id poi \<and>
          list_ex (\<lambda>pri. pri_id pri = pois_pr_item_id src \<and> pri_pr_id pri = i)
            (purchase_requisition_items s))
          (purchase_order_item_sources s))
        (purchase_order_items s))
      (purchase_orders s)"

definition cancel_pr ::
    "request_ctx \<Rightarrow> current_user \<Rightarrow> nat \<Rightarrow> db \<Rightarrow> db \<Rightarrow> error + db" where
  "cancel_pr ctx u i s d =
    rbind (load_pr i s) (\<lambda>pr.
    rbind (assert_self_or_admin pr u) (\<lambda>_.
    rbind (assert_pr_transition pr PR_CANCELLED) (\<lambda>_.
    if pr_status pr = PR_APPROVED \<and> has_active_po i s
    then Inl (raise_code ConflictException PR_CANCEL_HAS_ACTIVE_PO)
    else
      rbind (require (pr_where i
          (\<lambda>r. pr_status r \<in> {PR_DRAFT, PR_APPROVED})
          (\<lambda>r. r\<lparr>pr_status := PR_CANCELLED,
                 pr_updated_by := Some (cu_id u), pr_version := pr_version r + 1\<rparr>) d)
        (raise_code ConflictException PR_INVALID_STATUS_TRANSITION)) (\<lambda>d1.
      let d2 = flush_pr i (\<lambda>r. r\<lparr>pr_status := PR_CANCELLED, pr_version := pr_version pr + 1\<rparr>) d1
      in Inr (pr_audit ctx PR_CANCEL u pr d2)))))"

section \<open>Approval\<close>

definition write_approval_record ::
    "request_ctx \<Rightarrow> purchase_requisition \<Rightarrow> approval_action \<Rightarrow> pr_status \<Rightarrow> pr_status \<Rightarrow> nat \<Rightarrow>
     bool \<Rightarrow> string option \<Rightarrow> db \<Rightarrow> db" where
  "write_approval_record ctx pr action from_status to_status approver_id is_admin_override comment d =
    insert_ar
      \<lparr>ar_id = 0, ar_document_type = DOC_PURCHASE_REQUISITION,
       ar_document_id = pr_id pr, ar_document_no = Some (pr_no pr),
       ar_step_no = 1,
       ar_step_name = Some (if is_admin_override then ''ADMIN OVERRIDE'' else ''DEPARTMENT MANAGER''),
       ar_approver_id = approver_id, ar_action = action,
       ar_from_status = Some (pr_status_value from_status),
       ar_to_status = Some (pr_status_value to_status),
       ar_result_status = pr_status_value to_status,
       ar_comment = comment, ar_created_at = rq_now ctx\<rparr> d"

definition approve_pr ::
    "request_ctx \<Rightarrow> current_user \<Rightarrow> nat \<Rightarrow> nat \<Rightarrow> string option \<Rightarrow> db \<Rightarrow> db \<Rightarrow> error + db" where
  "approve_pr ctx u i version comment s d =
    rbind (load_pr i s) (\<lambda>pr.
    rbind (assert_pr_transition pr PR_APPROVED) (\<lambda>_.
    rbind (assert_pr_version pr version) (\<lambda>_.
    rbind (assert_approver s pr u) (\<lambda>is_admin_override.
    let items = pr_items i s in
    if items = [] then Inl (raise_code ConflictException PR_EMPTY_ITEMS)
    else
      rbind (rall (\<lambda>it. rbind (assert_pr_material_active s (pri_material_id it)) (\<lambda>_.
          check (\<not> pri_requested_quantity it \<le> 0 \<and> \<not> pri_estimated_unit_price it < 0)
            (raise_class ValidationException))) items) (\<lambda>_.
      rbind (recompute items) (\<lambda>(items', total).
      rbind (flush_amounts items items' d) (\<lambda>d1.
      rbind (require (pr_where i
          (\<lambda>r. pr_version r = version \<and> pr_status r = PR_PENDING)
          (\<lambda>r. r\<lparr>pr_status := PR_APPROVED, pr_total_estimated_amount := total,
                 pr_updated_by := Some (cu_id u), pr_version := pr_version r + 1\<rparr>) d1)
        (pr_concurrent_change d1 i PR_PENDING)) (\<lambda>d2.
      let d3 = flush_pr i (\<lambda>r. r\<lparr>pr_status := PR_APPROVED, pr_version := pr_version pr + 1\<rparr>) d2;
          d4 = write_approval_record ctx pr AA_APPROVE PR_PENDING PR_APPROVED (cu_id u)
                 is_admin_override comment d3
      in Inr (pr_audit ctx PR_APPROVE u pr d4)))))))))"

definition reject_pr ::
    "request_ctx \<Rightarrow> current_user \<Rightarrow> nat \<Rightarrow> nat \<Rightarrow> string \<Rightarrow> db \<Rightarrow> db \<Rightarrow> error + db" where
  "reject_pr ctx u i version comment s d =
    rbind (load_pr i s) (\<lambda>pr.
    rbind (assert_pr_transition pr PR_REJECTED) (\<lambda>_.
    rbind (assert_pr_version pr version) (\<lambda>_.
    rbind (assert_approver s pr u) (\<lambda>is_admin_override.
    rbind (require (pr_where i
        (\<lambda>r. pr_version r = version \<and> pr_status r = PR_PENDING)
        (\<lambda>r. r\<lparr>pr_status := PR_REJECTED,
               pr_updated_by := Some (cu_id u), pr_version := pr_version r + 1\<rparr>) d)
      (pr_concurrent_change d i PR_PENDING)) (\<lambda>d1.
    let d2 = flush_pr i (\<lambda>r. r\<lparr>pr_status := PR_REJECTED, pr_version := pr_version pr + 1\<rparr>) d1;
        d3 = write_approval_record ctx pr AA_REJECT PR_PENDING PR_REJECTED (cu_id u)
               is_admin_override (Some comment) d2
    in Inr (pr_audit ctx PR_REJECT u pr d3))))))"

definition revise_pr ::
    "request_ctx \<Rightarrow> current_user \<Rightarrow> nat \<Rightarrow> nat \<Rightarrow> db \<Rightarrow> db \<Rightarrow> error + db" where
  "revise_pr ctx u i version s d =
    rbind (load_pr i s) (\<lambda>pr.
    rbind (assert_pr_transition pr PR_DRAFT) (\<lambda>_.
    rbind (assert_self_or_admin pr u) (\<lambda>_.
    rbind (assert_pr_version pr version) (\<lambda>_.
    rbind (require (pr_where i
        (\<lambda>r. pr_version r = version \<and> pr_status r = PR_REJECTED)
        (\<lambda>r. r\<lparr>pr_status := PR_DRAFT, pr_submitted_at := None,
               pr_updated_by := Some (cu_id u), pr_version := pr_version r + 1\<rparr>) d)
      (pr_concurrent_change d i PR_REJECTED)) (\<lambda>d1.
    let d2 = flush_pr i (\<lambda>r. r\<lparr>pr_status := PR_DRAFT, pr_submitted_at := None,
               pr_version := pr_version pr + 1\<rparr>) d1
    in Inr (pr_audit ctx PR_REVISE u pr d2))))))"

section \<open>Reads\<close>

definition read_pr :: "current_user \<Rightarrow> nat \<Rightarrow> db \<Rightarrow> error + purchase_requisition" where
  "read_pr u i s =
    rbind (load_pr i s) (\<lambda>pr.
      if cu_role_code u = Some ROLE_APPLICANT \<and> pr_applicant_id pr \<noteq> cu_id u
      then Inl (raise_code PermissionDeniedException PR_NOT_APPLICANT) else Inr pr)"

text \<open>\<^verbatim>\<open>visible_pr_condition\<close>: the WHERE condition of the role.\<close>

definition visible_pr :: "current_user \<Rightarrow> db \<Rightarrow> purchase_requisition \<Rightarrow> bool" where
  "visible_pr u s pr =
    (if cu_role_code u = Some ROLE_APPLICANT then pr_applicant_id pr = cu_id u
     else if cu_role_code u = Some ROLE_DEPT_MANAGER then
       pr_applicant_id pr = cu_id u \<or>
       pr_department_id pr \<in> set (map dm_dept_id
         (filter (\<lambda>m. dm_user_id m = cu_id u) (department_managers s)))
     else True)"

text \<open>
  \<^verbatim>\<open>contains x t\<close> is the database's \<^verbatim>\<open>t LIKE '%x%'\<close>; it depends on the collation.
\<close>

record pr_filter =
  prf_pr_no :: "string option"
  prf_applicant :: "string option"
  prf_department_id :: "nat option"
  prf_status :: "pr_status option"
  prf_apply_date_from :: "date option"
  prf_apply_date_to :: "date option"

definition pr_matches ::
    "(string \<Rightarrow> string \<Rightarrow> bool) \<Rightarrow> db \<Rightarrow> pr_filter \<Rightarrow> purchase_requisition \<Rightarrow> bool" where
  "pr_matches contains s f pr \<longleftrightarrow>
     text_cond (\<lambda>x. contains x (pr_no pr)) (prf_pr_no f)
   \<and> text_cond (\<lambda>x. list_ex (\<lambda>usr. user_id usr = pr_applicant_id pr
        \<and> (contains x (user_username usr) \<or> contains x (user_real_name usr))) (users s))
       (prf_applicant f)
   \<and> opt_cond (\<lambda>x. pr_department_id pr = x) (prf_department_id f)
   \<and> opt_cond (\<lambda>x. pr_status pr = x) (prf_status f)
   \<and> opt_cond (\<lambda>x. x \<le> pr_apply_date pr) (prf_apply_date_from f)
   \<and> opt_cond (\<lambda>x. pr_apply_date pr \<le> x) (prf_apply_date_to f)"

definition list_prs ::
    "(string \<Rightarrow> string \<Rightarrow> bool) \<Rightarrow> current_user \<Rightarrow> nat \<Rightarrow> nat \<Rightarrow> pr_filter \<Rightarrow> db \<Rightarrow>
     purchase_requisition list \<times> nat" where
  "list_prs contains u page page_size f s =
    (let rows = filter (\<lambda>pr. visible_pr u s pr \<and> pr_matches contains s f pr)
           (purchase_requisitions s)
     in (page_of page page_size (rev (sort_key pr_id rows)), length rows))"

definition list_approvals ::
    "current_user \<Rightarrow> nat \<Rightarrow> db \<Rightarrow> error + approval_record list" where
  "list_approvals u i s =
    rbind (read_pr u i s) (\<lambda>_.
      Inr (sort_key ar_created_at (sort_key ar_id
        (filter (\<lambda>r. ar_document_type r = DOC_PURCHASE_REQUISITION \<and> ar_document_id r = i)
          (approval_records s)))))"

end
