(* ===== verification/Requisition_Facts.thy ===== *)
theory Requisition_Facts
  imports Requisition
begin

text \<open>
  What each handler of \<^verbatim>\<open>Requisition\<close> does to the tables: one effect lemma per
  handler, for every snapshot and every live state, and the status machine they
  refine.
\<close>

section \<open>Header rows\<close>

definition put_pr :: "purchase_requisition \<Rightarrow> db \<Rightarrow> db" where
  "put_pr r d = d\<lparr>purchase_requisitions :=
    update_rows (\<lambda>x. pr_id x = pr_id r) (\<lambda>_. r) (purchase_requisitions d)\<rparr>"

definition pr_ids_ok :: "db \<Rightarrow> bool" where
  "pr_ids_ok d \<longleftrightarrow> keyed pr_id (auto_inc d T_purchase_requisitions) (purchase_requisitions d)"

lemma get_put_pr:
  "get_pr d (pr_id r) \<noteq> None \<Longrightarrow>
    get_pr (put_pr r d) k = (if k = pr_id r then Some r else get_pr d k)"
  by (simp add: get_pr_def put_pr_def row_by_update_key)

lemma put_pr_ids: "map pr_id (purchase_requisitions (put_pr r d)) = map pr_id (purchase_requisitions d)"
  by (auto simp: put_pr_def intro: map_update_rows_same)

lemma put_pr_ids_ok [simp]: "pr_ids_ok (put_pr r d) = pr_ids_ok d"
proof -
  have "auto_inc (put_pr r d) = auto_inc d" by (simp add: put_pr_def)
  then show ?thesis unfolding pr_ids_ok_def using keyed_cong[OF put_pr_ids] by simp
qed

lemma claim_pr:
  assumes "pr_where i p f d = Some d1" "pr_ids_ok d" "\<And>r. pr_id (f r) = pr_id r"
    and "\<And>r. pr_id (g r) = pr_id r"
  obtains r where "get_pr d i = Some r" "p r" "flush_pr i g d1 = put_pr (g (f r)) d"
proof -
  from assms(1) obtain rows where rows: "cas_rows (\<lambda>r. pr_id r = i \<and> p r) f (purchase_requisitions d) = Some rows"
    and d1: "d1 = d\<lparr>purchase_requisitions := rows\<rparr>"
    by (auto simp: pr_where_def)
  from rows obtain r where r: "r \<in> set (purchase_requisitions d)" "pr_id r = i" "p r"
    and u: "rows = update_rows (\<lambda>r. pr_id r = i \<and> p r) f (purchase_requisitions d)"
    by (auto simp: cas_rows_Some_iff)
  have dist: "distinct (map pr_id (purchase_requisitions d))" using assms(2) by (simp add: pr_ids_ok_def keyed_distinct)
  have "flush_pr i g d1 = put_pr (g (f r)) d"
    using update_key_twice[where key = pr_id, OF dist r(1,2), of p f g] r(3) d1 u r(2)
    by (simp add: flush_pr_def put_pr_def assms(3,4))
  moreover have "get_pr d i = Some r"
    using dist r by (simp add: get_pr_def row_by_eq_distinct)
  ultimately show ?thesis using that r(3) by blast
qed

lemma get_pr_id: "get_pr d i = Some r \<Longrightarrow> pr_id r = i"
  by (auto simp: get_pr_def dest: row_by_SomeD)

lemma get_pr_cong: "purchase_requisitions d = purchase_requisitions d' \<Longrightarrow> get_pr d i = get_pr d' i"
  by (simp add: get_pr_def)

section \<open>The flush of amounts\<close>

lemma flush_amount_frame:
  "flush_amount on d = Inr d' \<Longrightarrow> \<exists>X. d' = d\<lparr>purchase_requisition_items := X\<rparr>"
  by (cases "pri_estimated_amount (snd on) = pri_estimated_amount (fst on)")
    (auto simp: flush_amount_def Let_def intro: exI[of _ "purchase_requisition_items d"])

lemma flush_amounts_frame:
  assumes "flush_amounts os ns d = Inr d'"
  shows "\<exists>X. d' = d\<lparr>purchase_requisition_items := X\<rparr>"
proof (rule rfold_rel[where R = "\<lambda>d d'. \<exists>X. d' = d\<lparr>purchase_requisition_items := X\<rparr>"])
  show "rfold flush_amount (zip os ns) d = Inr d'" using assms by (simp add: flush_amounts_def)
  show "\<exists>X. d = d\<lparr>purchase_requisition_items := X\<rparr>" for d :: db
    by (intro exI[of _ "purchase_requisition_items d"]) simp
qed (auto dest: flush_amount_frame)

lemma flush_amounts_same:
  assumes "map pri_estimated_amount os = map pri_estimated_amount ns"
  shows "flush_amounts os ns d = Inr d"
  using assms
proof (induction os arbitrary: ns)
  case (Cons a os)
  then show ?case by (cases ns) (auto simp: flush_amounts_def flush_amount_def)
qed (simp add: flush_amounts_def)

lemma flush_amounts_map_same:
  assumes "flush_amounts os ns d = Inr d'"
    and "\<And>r a. g (r\<lparr>pri_estimated_amount := a\<rparr>) = g r"
  shows "map g (purchase_requisition_items d') = map g (purchase_requisition_items d)"
proof (rule rfold_rel[where R = "\<lambda>d d'. map g (purchase_requisition_items d') =
    map g (purchase_requisition_items d)"])
  show "rfold flush_amount (zip os ns) d = Inr d'" using assms(1) by (simp add: flush_amounts_def)
  fix x d d' assume "flush_amount x d = Inr d'"
  then show "map g (purchase_requisition_items d') = map g (purchase_requisition_items d)"
    using assms(2) by (auto simp: flush_amount_def Let_def map_update_rows_same split: if_splits)
qed auto

section \<open>Effect of each handler\<close>

lemma submit_pr_effect:
  assumes "submit_pr ctx u i s d = Inr d'" "pr_ids_ok d"
  obtains pr r items' total d1 where
    "get_pr s i = Some pr" "can_manage pr u" "pr_status pr = PR_DRAFT"
    "pr_items i s \<noteq> []" "recompute (pr_items i s) = Inr (items', total)"
    "flush_amounts (pr_items i s) items' d = Inr d1"
    "get_pr d i = Some r" "pr_status r = PR_DRAFT"
    "d' = pr_audit ctx PR_SUBMIT u pr (put_pr (r\<lparr>pr_status := PR_PENDING,
       pr_submitted_at := Some (rq_now ctx), pr_total_estimated_amount := total,
       pr_updated_by := Some (cu_id u), pr_version := Suc (pr_version pr)\<rparr>) d1)"
proof -
  from assms(1)[unfolded submit_pr_def Let_def split_beta, simplified]
  obtain pr items' total d1 d2 where
    h: "get_pr s i = Some pr" "can_manage pr u" "PR_PENDING \<in> set (pr_transitions (pr_status pr))"
      "pr_items i s \<noteq> []"
      "recompute (pr_items i s) = Inr (items', total)" "flush_amounts (pr_items i s) items' d = Inr d1"
    "\<forall>x\<in>set (pr_items i s). assert_pr_material_active s (pri_material_id x) = Inr ()"
    and w: "pr_where i (\<lambda>r. pr_status r = PR_DRAFT)
        (\<lambda>r. r\<lparr>pr_status := PR_PENDING, pr_submitted_at := Some (rq_now ctx),
               pr_total_estimated_amount := total, pr_updated_by := Some (cu_id u),
               pr_version := Suc (pr_version r)\<rparr>) d1 = Some d2"
    and d': "pr_audit ctx PR_SUBMIT u pr (flush_pr i (\<lambda>r. r\<lparr>pr_status := PR_PENDING,
        pr_submitted_at := Some (rq_now ctx), pr_version := Suc (pr_version pr)\<rparr>) d2) = d'"
    (is "pr_audit _ _ _ _ (flush_pr i ?g d2) = d'")
    by blast
  have st: "pr_status pr = PR_DRAFT" using h(3) by (cases "pr_status pr") auto
  obtain X where X: "d1 = d\<lparr>purchase_requisition_items := X\<rparr>" using flush_amounts_frame[OF h(6)] by blast
  then have "pr_ids_ok d1" using assms(2) by (simp add: pr_ids_ok_def)
  then obtain r where r: "get_pr d1 i = Some r" "pr_status r = PR_DRAFT"
    and e: "flush_pr i ?g d2 = put_pr (?g (r\<lparr>pr_status := PR_PENDING,
       pr_submitted_at := Some (rq_now ctx), pr_total_estimated_amount := total,
       pr_updated_by := Some (cu_id u), pr_version := Suc (pr_version r)\<rparr>)) d1"
    by (rule claim_pr[OF w, where g = ?g]) simp_all
  have "get_pr d i = Some r" using r(1) X by (simp add: get_pr_def)
  moreover have "?g (r\<lparr>pr_status := PR_PENDING,
       pr_submitted_at := Some (rq_now ctx), pr_total_estimated_amount := total,
       pr_updated_by := Some (cu_id u), pr_version := Suc (pr_version r)\<rparr>) =
     r\<lparr>pr_status := PR_PENDING,
       pr_submitted_at := Some (rq_now ctx), pr_total_estimated_amount := total,
       pr_updated_by := Some (cu_id u), pr_version := Suc (pr_version pr)\<rparr>"
    by (cases r) simp
  ultimately show ?thesis
    by (intro that[OF h(1,2) st h(4-6) _ r(2)]) (simp_all only: e d'[symmetric])
qed

lemma cancel_pr_effect:
  assumes "cancel_pr ctx u i s d = Inr d'" "pr_ids_ok d"
  obtains pr r where
    "get_pr s i = Some pr" "can_manage pr u" "PR_CANCELLED \<in> set (pr_transitions (pr_status pr))"
    "pr_status pr = PR_APPROVED \<longrightarrow> \<not> has_active_po i s"
    "get_pr d i = Some r" "pr_status r = PR_DRAFT \<or> pr_status r = PR_APPROVED"
    "d' = pr_audit ctx PR_CANCEL u pr (put_pr (r\<lparr>pr_status := PR_CANCELLED,
       pr_updated_by := Some (cu_id u), pr_version := Suc (pr_version pr)\<rparr>) d)"
proof -
  from assms(1)[unfolded cancel_pr_def Let_def, simplified]
  obtain pr d2 where
    h: "get_pr s i = Some pr" "can_manage pr u" "PR_CANCELLED \<in> set (pr_transitions (pr_status pr))"
      "pr_status pr = PR_APPROVED \<longrightarrow> \<not> has_active_po i s"
    and w: "pr_where i (\<lambda>r. pr_status r = PR_DRAFT \<or> pr_status r = PR_APPROVED)
        (\<lambda>r. r\<lparr>pr_status := PR_CANCELLED, pr_updated_by := Some (cu_id u),
               pr_version := Suc (pr_version r)\<rparr>) d = Some d2"
    and d': "pr_audit ctx PR_CANCEL u pr (flush_pr i (\<lambda>r. r\<lparr>pr_status := PR_CANCELLED,
        pr_version := Suc (pr_version pr)\<rparr>) d2) = d'"
    (is "pr_audit _ _ _ _ (flush_pr i ?g d2) = d'")
    by blast
  obtain r where r: "get_pr d i = Some r" "pr_status r = PR_DRAFT \<or> pr_status r = PR_APPROVED"
    and e: "flush_pr i ?g d2 = put_pr (?g (r\<lparr>pr_status := PR_CANCELLED,
       pr_updated_by := Some (cu_id u), pr_version := Suc (pr_version r)\<rparr>)) d"
    by (rule claim_pr[OF w assms(2), where g = ?g]) simp_all
  have "?g (r\<lparr>pr_status := PR_CANCELLED,
       pr_updated_by := Some (cu_id u), pr_version := Suc (pr_version r)\<rparr>) =
     r\<lparr>pr_status := PR_CANCELLED,
       pr_updated_by := Some (cu_id u), pr_version := Suc (pr_version pr)\<rparr>"
    by (cases r) simp
  then show ?thesis
    by (intro that[OF h r]) (simp_all only: e d'[symmetric])
qed

lemma approve_pr_effect:
  assumes "approve_pr ctx u i v comment s d = Inr d'" "pr_ids_ok d"
  obtains pr r ov items' total d1 where
    "get_pr s i = Some pr" "pr_status pr = PR_PENDING" "pr_version pr = v"
    "assert_approver s pr u = Inr ov"
    "pr_items i s \<noteq> []" "recompute (pr_items i s) = Inr (items', total)"
    "flush_amounts (pr_items i s) items' d = Inr d1"
    "get_pr d i = Some r" "pr_version r = v \<and> pr_status r = PR_PENDING"
    "d' = pr_audit ctx PR_APPROVE u pr (write_approval_record ctx pr AA_APPROVE PR_PENDING PR_APPROVED
       (cu_id u) ov comment (put_pr (r\<lparr>pr_status := PR_APPROVED, pr_total_estimated_amount := total,
         pr_updated_by := Some (cu_id u), pr_version := Suc v\<rparr>) d1))"
proof -
  from assms(1)[unfolded approve_pr_def Let_def split_beta, simplified]
  obtain pr ov items' total d1 d2 where
    h: "get_pr s i = Some pr" "PR_APPROVED \<in> set (pr_transitions (pr_status pr))" "pr_version pr = v"
      "assert_approver s pr u = Inr ov" "pr_items i s \<noteq> []"
      "recompute (pr_items i s) = Inr (items', total)" "flush_amounts (pr_items i s) items' d = Inr d1"
    and w: "pr_where i (\<lambda>r. pr_version r = v \<and> pr_status r = PR_PENDING)
        (\<lambda>r. r\<lparr>pr_status := PR_APPROVED, pr_total_estimated_amount := total,
               pr_updated_by := Some (cu_id u), pr_version := Suc (pr_version r)\<rparr>) d1 = Some d2"
    and d': "pr_audit ctx PR_APPROVE u pr (write_approval_record ctx pr AA_APPROVE PR_PENDING PR_APPROVED
       (cu_id u) ov comment (flush_pr i (\<lambda>r. r\<lparr>pr_status := PR_APPROVED,
        pr_version := Suc (pr_version pr)\<rparr>) d2)) = d'"
    (is "pr_audit _ _ _ _ (write_approval_record _ _ _ _ _ _ _ _ (flush_pr i ?g d2)) = d'")
    by blast
  have st: "pr_status pr = PR_PENDING" using h(2) by (cases "pr_status pr") auto
  obtain X where X: "d1 = d\<lparr>purchase_requisition_items := X\<rparr>" using flush_amounts_frame[OF h(7)] by blast
  then have "pr_ids_ok d1" using assms(2) by (simp add: pr_ids_ok_def)
  then obtain r where r: "get_pr d1 i = Some r" "pr_version r = v \<and> pr_status r = PR_PENDING"
    and e: "flush_pr i ?g d2 = put_pr (?g (r\<lparr>pr_status := PR_APPROVED, pr_total_estimated_amount := total,
         pr_updated_by := Some (cu_id u), pr_version := Suc (pr_version r)\<rparr>)) d1"
    by (rule claim_pr[OF w, where g = ?g]) simp_all
  have "get_pr d i = Some r" using r(1) X by (simp add: get_pr_def)
  moreover have "?g (r\<lparr>pr_status := PR_APPROVED, pr_total_estimated_amount := total,
         pr_updated_by := Some (cu_id u), pr_version := Suc (pr_version r)\<rparr>) =
     r\<lparr>pr_status := PR_APPROVED, pr_total_estimated_amount := total,
         pr_updated_by := Some (cu_id u), pr_version := Suc v\<rparr>"
    using h(3) by (cases r) simp
  ultimately show ?thesis
    by (intro that[OF h(1) st h(3-7) _ r(2)]) (simp_all only: e d'[symmetric])
qed

lemma reject_pr_effect:
  assumes "reject_pr ctx u i v comment s d = Inr d'" "pr_ids_ok d"
  obtains pr r ov where
    "get_pr s i = Some pr" "pr_status pr = PR_PENDING" "pr_version pr = v"
    "assert_approver s pr u = Inr ov"
    "get_pr d i = Some r" "pr_version r = v \<and> pr_status r = PR_PENDING"
    "d' = pr_audit ctx PR_REJECT u pr (write_approval_record ctx pr AA_REJECT PR_PENDING PR_REJECTED
       (cu_id u) ov (Some comment) (put_pr (r\<lparr>pr_status := PR_REJECTED,
         pr_updated_by := Some (cu_id u), pr_version := Suc v\<rparr>) d))"
proof -
  from assms(1)[unfolded reject_pr_def Let_def split_beta, simplified]
  obtain pr ov d2 where
    h: "get_pr s i = Some pr" "PR_REJECTED \<in> set (pr_transitions (pr_status pr))" "pr_version pr = v"
      "assert_approver s pr u = Inr ov"
    and w: "pr_where i (\<lambda>r. pr_version r = v \<and> pr_status r = PR_PENDING)
        (\<lambda>r. r\<lparr>pr_status := PR_REJECTED,
               pr_updated_by := Some (cu_id u), pr_version := Suc (pr_version r)\<rparr>) d = Some d2"
    and d': "pr_audit ctx PR_REJECT u pr (write_approval_record ctx pr AA_REJECT PR_PENDING PR_REJECTED
       (cu_id u) ov (Some comment) (flush_pr i (\<lambda>r. r\<lparr>pr_status := PR_REJECTED,
        pr_version := Suc (pr_version pr)\<rparr>) d2)) = d'"
    (is "pr_audit _ _ _ _ (write_approval_record _ _ _ _ _ _ _ _ (flush_pr i ?g d2)) = d'")
    by blast
  have st: "pr_status pr = PR_PENDING" using h(2) by (cases "pr_status pr") auto
  obtain r where r: "get_pr d i = Some r" "pr_version r = v \<and> pr_status r = PR_PENDING"
    and e: "flush_pr i ?g d2 = put_pr (?g (r\<lparr>pr_status := PR_REJECTED,
         pr_updated_by := Some (cu_id u), pr_version := Suc (pr_version r)\<rparr>)) d"
    by (rule claim_pr[OF w assms(2), where g = ?g]) simp_all
  have "?g (r\<lparr>pr_status := PR_REJECTED,
         pr_updated_by := Some (cu_id u), pr_version := Suc (pr_version r)\<rparr>) =
     r\<lparr>pr_status := PR_REJECTED, pr_updated_by := Some (cu_id u), pr_version := Suc v\<rparr>"
    using h(3) by (cases r) simp
  then show ?thesis
    by (intro that[OF h(1) st h(3-4) r]) (simp_all only: e d'[symmetric])
qed

lemma revise_pr_effect:
  assumes "revise_pr ctx u i v s d = Inr d'" "pr_ids_ok d"
  obtains pr r where
    "get_pr s i = Some pr" "pr_status pr = PR_REJECTED" "can_manage pr u" "pr_version pr = v"
    "get_pr d i = Some r" "pr_version r = v \<and> pr_status r = PR_REJECTED"
    "d' = pr_audit ctx PR_REVISE u pr (put_pr (r\<lparr>pr_status := PR_DRAFT, pr_submitted_at := None,
         pr_updated_by := Some (cu_id u), pr_version := Suc v\<rparr>) d)"
proof -
  from assms(1)[unfolded revise_pr_def Let_def, simplified]
  obtain pr d2 where
    h: "get_pr s i = Some pr" "PR_DRAFT \<in> set (pr_transitions (pr_status pr))" "can_manage pr u"
      "pr_version pr = v"
    and w: "pr_where i (\<lambda>r. pr_version r = v \<and> pr_status r = PR_REJECTED)
        (\<lambda>r. r\<lparr>pr_status := PR_DRAFT, pr_submitted_at := None,
               pr_updated_by := Some (cu_id u), pr_version := Suc (pr_version r)\<rparr>) d = Some d2"
    and d': "pr_audit ctx PR_REVISE u pr (flush_pr i (\<lambda>r. r\<lparr>pr_status := PR_DRAFT,
        pr_submitted_at := None, pr_version := Suc (pr_version pr)\<rparr>) d2) = d'"
    (is "pr_audit _ _ _ _ (flush_pr i ?g d2) = d'")
    by blast
  have st: "pr_status pr = PR_REJECTED" using h(2) by (cases "pr_status pr") auto
  obtain r where r: "get_pr d i = Some r" "pr_version r = v \<and> pr_status r = PR_REJECTED"
    and e: "flush_pr i ?g d2 = put_pr (?g (r\<lparr>pr_status := PR_DRAFT, pr_submitted_at := None,
         pr_updated_by := Some (cu_id u), pr_version := Suc (pr_version r)\<rparr>)) d"
    by (rule claim_pr[OF w assms(2), where g = ?g]) simp_all
  have "?g (r\<lparr>pr_status := PR_DRAFT, pr_submitted_at := None,
         pr_updated_by := Some (cu_id u), pr_version := Suc (pr_version r)\<rparr>) =
     r\<lparr>pr_status := PR_DRAFT, pr_submitted_at := None,
         pr_updated_by := Some (cu_id u), pr_version := Suc v\<rparr>"
    using h(4) by (cases r) simp
  then show ?thesis
    by (intro that[OF h(1) st h(3-4) r]) (simp_all only: e d'[symmetric])
qed

section \<open>The item statements of an update\<close>

lemma insert_pri_Inr:
  assumes "insert_pri n d = Inr d'"
  shows "d' = d\<lparr>purchase_requisition_items := purchase_requisition_items d @
      [n\<lparr>pri_id := auto_inc d T_purchase_requisition_items\<rparr>],
    auto_inc := (auto_inc d)(T_purchase_requisition_items :=
      Suc (auto_inc d T_purchase_requisition_items))\<rparr>"
    and "pri_checks n"
    and "\<And>x. x \<in> set (purchase_requisition_items d) \<Longrightarrow>
      \<not> (pri_pr_id x = pri_pr_id n \<and> pri_line_no x = pri_line_no n)"
  using assms by (auto simp: insert_pri_def list_ex_iff split: if_splits)

lemma exec_item_stmt_frame:
  assumes "exec_item_stmt st d = Inr d'"
  shows "\<exists>X Y. d' = d\<lparr>purchase_requisition_items := X, auto_inc := Y\<rparr>
    \<and> (\<forall>t. t \<noteq> T_purchase_requisition_items \<longrightarrow> Y t = auto_inc d t)"
proof (cases st)
  case (UpdateItem old new)
  then obtain X where "d' = d\<lparr>purchase_requisition_items := X, auto_inc := auto_inc d\<rparr>"
    using assms by (auto simp: Let_def split: option.splits)
  then show ?thesis by blast
next
  case (InsertItem n)
  then have "d' = d\<lparr>purchase_requisition_items := purchase_requisition_items d @
      [n\<lparr>pri_id := auto_inc d T_purchase_requisition_items\<rparr>],
    auto_inc := (auto_inc d)(T_purchase_requisition_items :=
      Suc (auto_inc d T_purchase_requisition_items))\<rparr>"
    using insert_pri_Inr(1)[of n d d'] assms by simp
  moreover have "t \<noteq> T_purchase_requisition_items \<longrightarrow> ((auto_inc d)(T_purchase_requisition_items :=
      Suc (auto_inc d T_purchase_requisition_items))) t = auto_inc d t" for t by simp
  ultimately show ?thesis by blast
next
  case (DeleteItem j)
  then obtain X where "d' = d\<lparr>purchase_requisition_items := X, auto_inc := auto_inc d\<rparr>"
    using assms by auto
  then show ?thesis by blast
qed

lemma exec_item_stmts_frame:
  assumes "rfold exec_item_stmt sts d = Inr d'"
  shows "\<exists>X Y. d' = d\<lparr>purchase_requisition_items := X, auto_inc := Y\<rparr>
    \<and> (\<forall>t. t \<noteq> T_purchase_requisition_items \<longrightarrow> Y t = auto_inc d t)"
  using assms
proof (induction sts arbitrary: d)
  case Nil
  then have "d' = d\<lparr>purchase_requisition_items := purchase_requisition_items d,
      auto_inc := auto_inc d\<rparr>" by simp
  then show ?case by blast
next
  case (Cons st sts)
  then obtain d1 where d1: "exec_item_stmt st d = Inr d1" "rfold exec_item_stmt sts d1 = Inr d'" by auto
  obtain X Y where 1: "d1 = d\<lparr>purchase_requisition_items := X, auto_inc := Y\<rparr>"
    "\<And>t. t \<noteq> T_purchase_requisition_items \<Longrightarrow> Y t = auto_inc d t"
    using exec_item_stmt_frame[OF d1(1)] by blast
  obtain X' Y' where 2: "d' = d1\<lparr>purchase_requisition_items := X', auto_inc := Y'\<rparr>"
    "\<And>t. t \<noteq> T_purchase_requisition_items \<Longrightarrow> Y' t = auto_inc d1 t"
    using Cons.IH[OF d1(2)] by blast
  have "d' = d\<lparr>purchase_requisition_items := X', auto_inc := Y'\<rparr>" using 1(1) 2(1) by simp
  moreover have "\<forall>t. t \<noteq> T_purchase_requisition_items \<longrightarrow> Y' t = auto_inc d t" using 1 2 by simp
  ultimately show ?case by blast
qed

text \<open>A row after the statements, and the rows they add.\<close>

fun row_after :: "item_stmt list \<Rightarrow> purchase_requisition_item \<Rightarrow> purchase_requisition_item option" where
  "row_after [] r = Some r"
| "row_after (UpdateItem old new # sts) r =
    row_after sts (if pri_id r = pri_id old then merge_item old new r else r)"
| "row_after (InsertItem new # sts) r = row_after sts r"
| "row_after (DeleteItem j # sts) r = (if pri_id r = j then None else row_after sts r)"

fun inserted_rows :: "item_stmt list \<Rightarrow> nat \<Rightarrow> purchase_requisition_item list" where
  "inserted_rows [] k = []"
| "inserted_rows (InsertItem new # sts) k = new\<lparr>pri_id := k\<rparr> # inserted_rows sts (Suc k)"
| "inserted_rows (UpdateItem old new # sts) k = inserted_rows sts k"
| "inserted_rows (DeleteItem j # sts) k = inserted_rows sts k"

primrec stmt_id :: "item_stmt \<Rightarrow> nat option" where
  "stmt_id (UpdateItem old new) = Some (pri_id old)"
| "stmt_id (InsertItem new) = None"
| "stmt_id (DeleteItem j) = Some j"

definition pri_ids_ok :: "db \<Rightarrow> bool" where
  "pri_ids_ok d \<longleftrightarrow>
    keyed pri_id (auto_inc d T_purchase_requisition_items) (purchase_requisition_items d)"

lemma merge_item_id [simp]: "pri_id (merge_item old new r) = pri_id r"
  by (simp add: merge_item_def)

lemma row_after_untouched:
  "(\<And>st. st \<in> set sts \<Longrightarrow> stmt_id st \<noteq> Some (pri_id r)) \<Longrightarrow> row_after sts r = Some r"
proof (induction sts)
  case (Cons st sts)
  then show ?case by (cases st) force+
qed simp

lemma exec_item_stmts_rows:
  assumes "rfold exec_item_stmt sts d = Inr d'" "pri_ids_ok d"
    and "\<forall>st\<in>set sts. \<forall>j. stmt_id st = Some j \<longrightarrow> j < auto_inc d T_purchase_requisition_items"
  shows "purchase_requisition_items d' =
      List.map_filter (row_after sts) (purchase_requisition_items d)
      @ inserted_rows sts (auto_inc d T_purchase_requisition_items)"
    and "pri_ids_ok d'"
  using assms
proof (induction sts arbitrary: d)
  case Nil
  {
    case 1
    then show ?case by (simp add: List.map_filter_def)
  next
    case 2
    then show ?case by simp
  }
next
  case (Cons st sts)
  let ?T = T_purchase_requisition_items
  have step: "\<exists>d1. exec_item_stmt st d = Inr d1 \<and> rfold exec_item_stmt sts d1 = Inr d'
      \<and> pri_ids_ok d1 \<and> (\<forall>st'\<in>set sts. \<forall>j. stmt_id st' = Some j \<longrightarrow> j < auto_inc d1 ?T)
      \<and> List.map_filter (row_after sts) (purchase_requisition_items d1)
          @ inserted_rows sts (auto_inc d1 ?T) =
        List.map_filter (row_after (st # sts)) (purchase_requisition_items d)
          @ inserted_rows (st # sts) (auto_inc d ?T)"
    if pre: "rfold exec_item_stmt (st # sts) d = Inr d'" "pri_ids_ok d"
      "\<forall>st'\<in>set (st # sts). \<forall>j. stmt_id st' = Some j \<longrightarrow> j < auto_inc d ?T" for d
  proof -
    obtain d1 where d1: "exec_item_stmt st d = Inr d1" "rfold exec_item_stmt sts d1 = Inr d'"
      using pre(1) by auto
    show ?thesis
    proof (cases st)
      case (UpdateItem old new)
      obtain cur where cur: "get_pri d (pri_id old) = Some cur"
        and e: "d1 = d\<lparr>purchase_requisition_items := update_rows (\<lambda>x. pri_id x = pri_id old)
            (\<lambda>_. merge_item old new cur) (purchase_requisition_items d)\<rparr>"
        using d1(1) UpdateItem by (auto simp: Let_def split: option.splits)
      have c: "cur \<in> set (purchase_requisition_items d)" "pri_id cur = pri_id old"
        using cur by (auto simp: get_pri_def dest: row_by_SomeD)
      have same: "x = cur" if "x \<in> set (purchase_requisition_items d)" "pri_id x = pri_id old" for x
        using that c pre(2) unfolding pri_ids_ok_def by (metis keyed_unique)
      then have rows: "purchase_requisition_items d1 =
          map (\<lambda>r. if pri_id r = pri_id old then merge_item old new r else r) (purchase_requisition_items d)"
        unfolding e update_rows_def by auto
      have "map pri_id (purchase_requisition_items d1) = map pri_id (purchase_requisition_items d)"
        unfolding rows by simp
      moreover have "auto_inc d1 = auto_inc d" by (simp add: e)
      ultimately have "pri_ids_ok d1"
        using pre(2) keyed_cong unfolding pri_ids_ok_def by metis
      moreover have "List.map_filter (row_after sts) (purchase_requisition_items d1) =
          List.map_filter (row_after (st # sts)) (purchase_requisition_items d)"
        unfolding rows UpdateItem
        by (simp add: List.map_filter_def comp_def filter_map)
      ultimately show ?thesis using d1 pre(3) \<open>auto_inc d1 = auto_inc d\<close> UpdateItem
        by (intro exI[of _ d1]) auto
    next
      case (InsertItem new)
      let ?k = "auto_inc d ?T"
      have e: "d1 = d\<lparr>purchase_requisition_items := purchase_requisition_items d @ [new\<lparr>pri_id := ?k\<rparr>],
          auto_inc := (auto_inc d)(?T := Suc ?k)\<rparr>"
        using insert_pri_Inr(1) d1(1) InsertItem by simp
      have "pri_ids_ok d1" using pre(2) by (simp add: e pri_ids_ok_def keyed_append)
      moreover have "row_after sts (new\<lparr>pri_id := ?k\<rparr>) = Some (new\<lparr>pri_id := ?k\<rparr>)"
        using pre(3) by (intro row_after_untouched) fastforce
      ultimately show ?thesis using d1 pre(3) InsertItem
        by (intro exI[of _ d1]) (auto simp: e List.map_filter_def less_Suc_eq)
    next
      case (DeleteItem j)
      have e: "d1 = d\<lparr>purchase_requisition_items :=
          filter (\<lambda>r. pri_id r \<noteq> j) (purchase_requisition_items d)\<rparr>"
        using d1(1) DeleteItem by auto
      have "pri_ids_ok d1" using pre(2) by (simp add: e pri_ids_ok_def keyed_filter)
      moreover have "List.map_filter (row_after sts) (purchase_requisition_items d1) =
          List.map_filter (row_after (st # sts)) (purchase_requisition_items d)"
        unfolding e DeleteItem
        by (simp add: List.map_filter_def filter_map comp_def) (rule map_cong[OF filter_cong], auto)
      ultimately show ?thesis using d1 pre(3) DeleteItem
        by (intro exI[of _ d1]) (auto simp: e)
    qed
  qed
  {
    case 1
    from step[OF "1"] obtain d1 where "rfold exec_item_stmt sts d1 = Inr d'" "pri_ids_ok d1"
      "\<forall>st'\<in>set sts. \<forall>j. stmt_id st' = Some j \<longrightarrow> j < auto_inc d1 ?T"
      "List.map_filter (row_after sts) (purchase_requisition_items d1)
          @ inserted_rows sts (auto_inc d1 ?T) =
        List.map_filter (row_after (st # sts)) (purchase_requisition_items d)
          @ inserted_rows (st # sts) (auto_inc d ?T)" by blast
    then show ?case using Cons.IH(1) by simp
  next
    case 2
    from step[OF "2"] show ?case using Cons.IH(2) by blast
  }
qed

lemma exec_item_stmt_headers:
  "exec_item_stmt st (d\<lparr>purchase_requisitions := P\<rparr>) =
    map_sum id (\<lambda>d'. d'\<lparr>purchase_requisitions := P\<rparr>) (exec_item_stmt st d)"
  by (cases st) (auto simp: get_pri_def insert_pri_def Let_def split: option.splits)

lemma exec_item_stmts_headers:
  "rfold exec_item_stmt sts (d\<lparr>purchase_requisitions := P\<rparr>) =
    map_sum id (\<lambda>d'. d'\<lparr>purchase_requisitions := P\<rparr>) (rfold exec_item_stmt sts d)"
proof (induction sts arbitrary: d)
  case (Cons st sts)
  then show ?case
    by (cases "exec_item_stmt st d") (simp_all add: exec_item_stmt_headers)
qed simp

lemma put_flush_pr:
  assumes "\<And>r. pr_id (f r) = pr_id r" "pr_id r = i"
  shows "put_pr r (flush_pr i f d) = put_pr r d"
proof -
  have "update_rows (\<lambda>x. pr_id x = pr_id r) (\<lambda>_. r) (update_rows (\<lambda>r. pr_id r = i) f rows) =
      update_rows (\<lambda>x. pr_id x = pr_id r) (\<lambda>_. r) rows" for rows
    using assms by (induction rows) auto
  then show ?thesis by (simp add: put_pr_def flush_pr_def)
qed

lemma update_pr_effect:
  assumes "update_pr uow ctx u i data s d = Inr d'" "pr_ids_ok d"
  obtains pr r obs obs' total d1 where
    "get_pr s i = Some pr" "can_manage pr u" "pr_status pr = PR_DRAFT" "pr_version pr = pru_version data"
    "sync_items s i (pru_items data) (pr_items i s) = Inr obs"
    "recompute_objects obs = Inr (obs', total)"
    "rfold exec_item_stmt (uow (item_stmts (pr_items i s) obs')) d = Inr d1"
    "get_pr d i = Some r" "pr_version r = pru_version data \<and> pr_status r = PR_DRAFT"
    "d' = pr_audit ctx PR_UPDATE u pr (put_pr
      (r\<lparr>pr_apply_date := (case pru_apply_date data of None \<Rightarrow> pr_apply_date pr | Some x \<Rightarrow> x),
         pr_reason := (case pru_reason data of None \<Rightarrow> pr_reason pr | Some x \<Rightarrow> Some x),
         pr_total_estimated_amount := total,
         pr_updated_by := Some (cu_id u), pr_version := Suc (pru_version data)\<rparr>) d1)"
proof -
  from assms(1)[unfolded update_pr_def Let_def split_beta, simplified]
  obtain pr obs obs' total d2 d3 where
    h: "get_pr s i = Some pr" "can_manage pr u" "pr_status pr = PR_DRAFT"
      "pr_version pr = pru_version data"
      "sync_items s i (pru_items data) (pr_items i s) = Inr obs"
      "recompute_objects obs = Inr (obs', total)"
    and x: "rfold exec_item_stmt (uow (item_stmts (pr_items i s) obs'))
        (flush_pr i (\<lambda>r. r
         \<lparr>pr_apply_date := changed (pr_apply_date pr)
            (case pru_apply_date data of None \<Rightarrow> pr_apply_date pr | Some x \<Rightarrow> x) (pr_apply_date r),
          pr_reason := changed (pr_reason pr)
            (case pru_reason data of None \<Rightarrow> pr_reason pr | Some x \<Rightarrow> Some x) (pr_reason r),
          pr_total_estimated_amount :=
            changed (pr_total_estimated_amount pr) total (pr_total_estimated_amount r)\<rparr>) d) = Inr d2"
    (is "rfold _ _ (flush_pr i ?c d) = Inr d2")
    and w: "pr_where i (\<lambda>r. pr_version r = pru_version data \<and> pr_status r = PR_DRAFT)
        (\<lambda>r. r\<lparr>pr_apply_date := (case pru_apply_date data of None \<Rightarrow> pr_apply_date pr | Some x \<Rightarrow> x),
               pr_reason := (case pru_reason data of None \<Rightarrow> pr_reason pr | Some x \<Rightarrow> Some x),
               pr_total_estimated_amount := total, pr_updated_by := Some (cu_id u),
               pr_version := Suc (pr_version r)\<rparr>) d2 = Some d3"
    and d': "pr_audit ctx PR_UPDATE u pr
        (flush_pr i (\<lambda>r. r\<lparr>pr_version := Suc (pru_version data)\<rparr>) d3) = d'"
    (is "pr_audit _ _ _ _ (flush_pr i ?g d3) = d'")
    by blast
  define P where "P = purchase_requisitions (flush_pr i ?c d)"
  have fc: "flush_pr i ?c d = d\<lparr>purchase_requisitions := P\<rparr>" by (simp add: flush_pr_def P_def)
  from x obtain d1 where d1: "rfold exec_item_stmt (uow (item_stmts (pr_items i s) obs')) d = Inr d1"
    and d2: "d2 = d1\<lparr>purchase_requisitions := P\<rparr>"
    unfolding fc exec_item_stmts_headers
    by (cases "rfold exec_item_stmt (uow (item_stmts (pr_items i s) obs')) d") auto
  obtain X Y where xy: "d1 = d\<lparr>purchase_requisition_items := X, auto_inc := Y\<rparr>"
    "\<forall>t. t \<noteq> T_purchase_requisition_items \<longrightarrow> Y t = auto_inc d t"
    using exec_item_stmts_frame[OF d1] by blast
  have ids: "pr_ids_ok d2"
    using assms(2) xy by (simp add: pr_ids_ok_def d2 P_def flush_pr_def keyed_update)
  let ?F = "\<lambda>r. r\<lparr>pr_apply_date := (case pru_apply_date data of None \<Rightarrow> pr_apply_date pr | Some x \<Rightarrow> x),
               pr_reason := (case pru_reason data of None \<Rightarrow> pr_reason pr | Some x \<Rightarrow> Some x),
               pr_total_estimated_amount := total, pr_updated_by := Some (cu_id u),
               pr_version := Suc (pr_version r)\<rparr>"
  obtain r0 where r0: "get_pr d2 i = Some r0"
      "pr_version r0 = pru_version data \<and> pr_status r0 = PR_DRAFT"
    and e: "flush_pr i ?g d3 = put_pr (?g (?F r0)) d2"
    by (rule claim_pr[OF w ids, where g = ?g]) simp_all
  have "get_pr d2 i = map_option (\<lambda>r. if pr_id r = i then ?c r else r) (get_pr d i)"
    unfolding get_pr_def d2 P_def flush_pr_def by (simp add: row_by_update_rows)
  with r0(1) obtain r where r: "get_pr d i = Some r" "r0 = ?c r"
    using get_pr_id by (cases "get_pr d i") auto
  have row: "?g (?F r0) = r\<lparr>pr_apply_date := (case pru_apply_date data of None \<Rightarrow> pr_apply_date pr | Some x \<Rightarrow> x),
               pr_reason := (case pru_reason data of None \<Rightarrow> pr_reason pr | Some x \<Rightarrow> Some x),
               pr_total_estimated_amount := total, pr_updated_by := Some (cu_id u),
               pr_version := Suc (pru_version data)\<rparr>" (is "_ = ?R")
    using r0(2) unfolding r(2) by (cases r) simp
  have "put_pr ?R d2 = put_pr ?R d1"
  proof -
    have "d2 = flush_pr i ?c d1" unfolding d2 P_def flush_pr_def using xy by simp
    moreover have "pr_id ?R = i" using get_pr_id[OF r(1)] by simp
    ultimately show ?thesis using put_flush_pr[of ?c ?R i d1] by simp
  qed
  then have "d' = pr_audit ctx PR_UPDATE u pr (put_pr ?R d1)" using d' e row by simp
  then show ?thesis using that[OF h d1 r(1)] r0(2) r(2) by simp
qed

lemma insert_pr_Inr:
  assumes "insert_pr r d = Inr d'"
  shows "d' = d\<lparr>purchase_requisitions := purchase_requisitions d @
      [r\<lparr>pr_id := auto_inc d T_purchase_requisitions\<rparr>],
    auto_inc := (auto_inc d)(T_purchase_requisitions := Suc (auto_inc d T_purchase_requisitions))\<rparr>"
    and "\<And>x. x \<in> set (purchase_requisitions d) \<Longrightarrow> pr_no x \<noteq> pr_no r"
  using assms by (auto simp: insert_pr_def list_ex_iff split: if_splits)

lemma insert_pris_frame:
  assumes "rfold (\<lambda>x. insert_pri (n x)) xs d = Inr d'"
  shows "\<exists>X Y. d' = d\<lparr>purchase_requisition_items := X, auto_inc := Y\<rparr>
    \<and> (\<forall>t. t \<noteq> T_purchase_requisition_items \<longrightarrow> Y t = auto_inc d t)"
proof -
  have "rfold (\<lambda>x. insert_pri (n x)) xs d = rfold exec_item_stmt (map (\<lambda>x. InsertItem (n x)) xs) d"
    by (induction xs arbitrary: d) (auto simp: rbind_def split: sum.splits)
  then show ?thesis using exec_item_stmts_frame assms by metis
qed

lemma create_pr_effect:
  assumes "create_pr ctx u data s d = Inr d'" "pr_ids_ok d"
  obtains dep pr d1 d2 d3 d4 items' total where
    "assert_user_department_active s u = Inr dep"
    "pr_id pr = auto_inc d T_purchase_requisitions" "pr_status pr = PR_DRAFT" "pr_version pr = 1"
    "pr_applicant_id pr = cu_id u" "pr_department_id pr = dept_id dep" "pr_submitted_at pr = None"
    "\<exists>X Y. d1 = d\<lparr>number_sequences := X, auto_inc := Y\<rparr>"
    "\<And>t. t \<noteq> T_number_sequences \<Longrightarrow> auto_inc d1 t = auto_inc d t"
    "d2 = d1\<lparr>purchase_requisitions := purchase_requisitions d @ [pr],
       auto_inc := (auto_inc d1)(T_purchase_requisitions := Suc (auto_inc d T_purchase_requisitions))\<rparr>"
    "rfold (\<lambda>lr. insert_pri (new_pr_item (pr_id pr) lr)) (enumerate 1 (prc_items data)) d2 = Inr d3"
    "recompute (pr_items (pr_id pr) d3) = Inr (items', total)"
    "flush_amounts (pr_items (pr_id pr) d3) items' d3 = Inr d4"
    "d' = pr_audit ctx PR_CREATE u pr (put_pr (pr\<lparr>pr_total_estimated_amount := total\<rparr>) d4)"
proof -
  from assms(1) obtain dep where dep: "assert_user_department_active s u = Inr dep"
    by (auto simp: create_pr_def)
  let ?ad = "case prc_apply_date data of None \<Rightarrow> rq_today ctx | Some x \<Rightarrow> x"
  obtain no d1 where n: "next_daily_code SEQ_PURCHASE_REQUISITION ''PR'' (rq_today ctx) (Some ?ad) d = (no, d1)"
    by fastforce
  note f1 = next_daily_code_frame[OF n]
  define pr where "pr = \<lparr>pr_id = auto_inc d1 T_purchase_requisitions, pr_no = no, pr_applicant_id = cu_id u,
              pr_department_id = dept_id dep, pr_apply_date = ?ad,
              pr_reason = prc_reason data, pr_status = PR_DRAFT,
              pr_total_estimated_amount = 0, pr_submitted_at = None, pr_version = Suc 0,
              pr_remark = None, pr_created_by = Some (cu_id u), pr_updated_by = Some (cu_id u)\<rparr>"
  have ai: "auto_inc d1 T_purchase_requisitions = auto_inc d T_purchase_requisitions"
    using f1(2) by simp
  from assms(1)[unfolded create_pr_def Let_def split_beta, simplified dep n, simplified,
      folded pr_def]
  obtain d2 d3 items' total d4 where
    i: "insert_pr pr d1 = Inr d2"
    and r: "rfold (\<lambda>lr. insert_pri (new_pr_item (auto_inc d1 T_purchase_requisitions) lr))
        (enumerate (Suc 0) (prc_items data)) d2 = Inr d3"
    "recompute (pr_items (auto_inc d1 T_purchase_requisitions) d3) = Inr (items', total)"
    "flush_amounts (pr_items (auto_inc d1 T_purchase_requisitions) d3) items' d3 = Inr d4"
    and d': "pr_audit ctx PR_CREATE u pr (flush_pr (auto_inc d1 T_purchase_requisitions)
        (\<lambda>r. r\<lparr>pr_total_estimated_amount := total\<rparr>) d4) = d'"
    by blast
  have pid: "pr_id pr = auto_inc d T_purchase_requisitions" by (simp add: pr_def ai)
  have prs1: "purchase_requisitions d1 = purchase_requisitions d" using f1(1) by auto
  have "pr\<lparr>pr_id := auto_inc d1 T_purchase_requisitions\<rparr> = pr" using ai by (simp add: pr_def)
  then have d2: "d2 = d1\<lparr>purchase_requisitions := purchase_requisitions d @ [pr],
       auto_inc := (auto_inc d1)(T_purchase_requisitions := Suc (auto_inc d T_purchase_requisitions))\<rparr>"
    using insert_pr_Inr(1)[OF i] prs1 ai by simp
  obtain X Y where "d3 = d2\<lparr>purchase_requisition_items := X, auto_inc := Y\<rparr>"
    using insert_pris_frame[OF r(1)] by blast
  moreover obtain Z where "d4 = d3\<lparr>purchase_requisition_items := Z\<rparr>" using flush_amounts_frame[OF r(3)] by blast
  ultimately have prs4: "purchase_requisitions d4 = purchase_requisitions d @ [pr]" by (simp add: d2)
  have keyed: "keyed pr_id (Suc (auto_inc d T_purchase_requisitions)) (purchase_requisitions d4)"
    using assms(2) pid by (simp add: prs4 pr_ids_ok_def keyed_append)
  have "flush_pr (pr_id pr) (\<lambda>r. r\<lparr>pr_total_estimated_amount := total\<rparr>) d4 =
      put_pr (pr\<lparr>pr_total_estimated_amount := total\<rparr>) d4"
    using update_key_once[where key = pr_id, OF keyed_distinct[OF keyed], of pr "pr_id pr" "\<lambda>_. True"
        "\<lambda>r. r\<lparr>pr_total_estimated_amount := total\<rparr>"]
    by (simp add: flush_pr_def put_pr_def prs4)
  then have "d' = pr_audit ctx PR_CREATE u pr
      (put_pr (pr\<lparr>pr_total_estimated_amount := total\<rparr>) d4)"
    using d' pid ai by simp
  then show ?thesis
    using f1 by (intro that[OF dep pid _ _ _ _ _ _ _ d2]) (use r ai in \<open>auto simp: pr_def\<close>)
qed

end
