(* ===== verification/Example.thy ===== *)
theory Example
  imports Store AuditLog Money
begin

text \<open>
  A small database on which the witnesses of the properties run the handlers: one
  department with a manager, an administrator, an applicant, a buyer and a
  warehouse keeper, two materials, a supplier and a warehouse.  The witnesses are
  evaluated in the kernel, in unary where they render a date, so the year is small.
\<close>

definition ex_ctx :: request_ctx where
  "ex_ctx = \<lparr>rq_today = Date 26 9 1, rq_now = DateTime (Date 26 9 1) 1,
    rq_ip_address = None, rq_user_agent = None, rq_request_id = None\<rparr>"

definition ex_user :: "nat \<Rightarrow> string \<Rightarrow> nat \<Rightarrow> user" where
  "ex_user i name r = \<lparr>user_id = i, user_username = name, user_password_hash = ''h'',
    user_real_name = name, user_email = None, user_phone = None,
    user_department_id = Some 1, user_role_id = r, user_status = USER_ACTIVE,
    user_last_login_at = None, user_created_by = None, user_updated_by = None\<rparr>"

definition ex_role :: "nat \<Rightarrow> role_code \<Rightarrow> role" where
  "ex_role i c = \<lparr>role_id = i, role_role_code = c, role_name = ''r'', role_description = None,
    role_is_system = True, role_status = ST_ACTIVE\<rparr>"

definition ex_principal :: "nat \<Rightarrow> role_code \<Rightarrow> nat \<Rightarrow> current_user" where
  "ex_principal i c r = \<lparr>cu_id = i, cu_username = ''u'', cu_real_name = ''u'', cu_role_id = r,
    cu_role_code = Some c, cu_department_id = Some 1\<rparr>"

definition ex_admin :: current_user where "ex_admin = ex_principal 1 ROLE_ADMIN 1"
definition ex_applicant :: current_user where "ex_applicant = ex_principal 2 ROLE_APPLICANT 2"
definition ex_manager :: current_user where "ex_manager = ex_principal 3 ROLE_DEPT_MANAGER 3"
definition ex_buyer :: current_user where "ex_buyer = ex_principal 4 ROLE_BUYER 4"
definition ex_keeper :: current_user where "ex_keeper = ex_principal 5 ROLE_WAREHOUSE 5"

definition ex_material :: "nat \<Rightarrow> material" where
  "ex_material i = \<lparr>mat_id = i, mat_material_code = ''MAT'', mat_material_name = ''m'',
    mat_category = None, mat_specification = None, mat_unit = ''kg'', mat_status = ST_ACTIVE,
    mat_remark = None, mat_created_by = None, mat_updated_by = None\<rparr>"

definition ex_empty :: db where
  "ex_empty = \<lparr>
    departments = [\<lparr>dept_id = 1, dept_code = ''PUR'', dept_name = ''Purchasing'',
      dept_parent_id = None, dept_sort_order = 0, dept_status = DEPT_ACTIVE,
      dept_remark = None, dept_created_by = None, dept_updated_by = None\<rparr>],
    roles = [ex_role 1 ROLE_ADMIN, ex_role 2 ROLE_APPLICANT, ex_role 3 ROLE_DEPT_MANAGER,
      ex_role 4 ROLE_BUYER, ex_role 5 ROLE_WAREHOUSE],
    permissions = [\<lparr>perm_id = 1, perm_code = ''reconcile:self_approve_override'',
      perm_name = ''p'', perm_module = ''reconcile''\<rparr>],
    role_permissions = [\<lparr>rp_id = 1, rp_role_id = 1, rp_permission_id = 1\<rparr>],
    users = [ex_user 1 ''admin'' 1, ex_user 2 ''applicant'' 2, ex_user 3 ''manager'' 3,
      ex_user 4 ''buyer'' 4, ex_user 5 ''keeper'' 5],
    department_managers = [\<lparr>dm_id = 1, dm_dept_id = 1, dm_user_id = 3, dm_is_primary = True\<rparr>],
    materials = [ex_material 1, ex_material 2],
    suppliers = [\<lparr>sup_id = 1, sup_supplier_code = ''SUP'', sup_supplier_name = ''s'',
      sup_contact_person = None, sup_phone = None, sup_email = None, sup_address = None,
      sup_status = ST_ACTIVE, sup_remark = None, sup_created_by = None, sup_updated_by = None\<rparr>],
    warehouses = [\<lparr>wh_id = 1, wh_warehouse_code = ''WH'', wh_warehouse_name = ''w'',
      wh_status = ST_ACTIVE, wh_remark = None, wh_created_by = None, wh_updated_by = None\<rparr>],
    inventory_policies = [],
    purchase_requisitions = [], purchase_requisition_items = [],
    purchase_orders = [], purchase_order_items = [], purchase_order_item_sources = [],
    approval_records = [], purchase_receipts = [], purchase_receipt_items = [],
    inventory_balances = [], inventory_transactions = [],
    stock_reconciliations = [], stock_reconciliation_items = [],
    number_sequences = [], operation_logs = [],
    auto_inc = (\<lambda>_. 10)\<rparr>"

text \<open>A requisition of one line and an order that takes it over.\<close>

definition ex_pr_row :: "pr_status \<Rightarrow> decimal \<Rightarrow> nat \<Rightarrow> purchase_requisition" where
  "ex_pr_row st amt v = \<lparr>pr_id = 1, pr_no = ''PR-00260901-0001'', pr_applicant_id = 2,
    pr_department_id = 1, pr_apply_date = Date 26 9 1, pr_reason = None, pr_status = st,
    pr_total_estimated_amount = amt, pr_submitted_at = None, pr_version = v,
    pr_remark = None, pr_created_by = Some 2, pr_updated_by = Some 2\<rparr>"

definition ex_pr_item :: "nat \<Rightarrow> nat \<Rightarrow> nat \<Rightarrow> decimal \<Rightarrow> decimal \<Rightarrow> decimal \<Rightarrow> decimal \<Rightarrow>
    purchase_requisition_item" where
  "ex_pr_item i li m q c p a = \<lparr>pri_id = i, pri_pr_id = 1, pri_line_no = li, pri_material_id = m,
    pri_requested_quantity = q, pri_converted_quantity = c, pri_estimated_unit_price = p,
    pri_estimated_amount = a, pri_required_date = None, pri_remark = None\<rparr>"

definition ex_pr_db :: "pr_status \<Rightarrow> db" where
  "ex_pr_db st = ex_empty\<lparr>
    purchase_requisitions := [ex_pr_row st 125 1],
    purchase_requisition_items := [ex_pr_item 1 1 1 10 0 (25/2) 125]\<rparr>"

definition ex_po_row :: "po_status \<Rightarrow> nat \<Rightarrow> purchase_order" where
  "ex_po_row st v = \<lparr>po_id = 1, po_no = ''PO-00260831-0001'', po_supplier_id = 1, po_buyer_id = 4,
    po_order_date = Date 26 8 31, po_expected_date = None, po_status = st, po_total_amount = 40,
    po_version = v, po_remark = None, po_created_by = Some 4, po_updated_by = Some 4\<rparr>"

definition ex_po_item :: "nat \<Rightarrow> nat \<Rightarrow> decimal \<Rightarrow> decimal \<Rightarrow> decimal \<Rightarrow> purchase_order_item" where
  "ex_po_item i m q rec p = \<lparr>poi_id = i, poi_po_id = 1, poi_line_no = i, poi_material_id = m,
    poi_ordered_quantity = q, poi_received_quantity = rec, poi_unit_price = p,
    poi_amount = line_amount q p, poi_remark = None\<rparr>"

definition ex_po_db :: "po_status \<Rightarrow> db" where
  "ex_po_db st = ex_empty\<lparr>
    purchase_requisitions := [ex_pr_row PR_APPROVED 125 2],
    purchase_requisition_items := [ex_pr_item 1 1 1 10 4 (25/2) 125],
    purchase_orders := [ex_po_row st 1],
    purchase_order_items := [ex_po_item 1 1 4 0 10],
    purchase_order_item_sources := [\<lparr>pois_id = 1, pois_po_item_id = 1, pois_pr_item_id = 1,
      pois_quantity = 4\<rparr>]\<rparr>"

text \<open>The order received in full: a posted receipt, its ledger row and the balance.\<close>

definition ex_receipt :: "receipt_status \<Rightarrow> purchase_receipt" where
  "ex_receipt st = \<lparr>rcv_id = 1, rcv_receipt_no = ''RCV-00260831-0001'', rcv_po_id = 1,
    rcv_warehouse_id = 1, rcv_received_by = 5, rcv_received_at = DateTime (Date 26 8 31) 0,
    rcv_status = st, rcv_reversed_by = None, rcv_reversed_at = None,
    rcv_reverse_reason = None, rcv_remark = None\<rparr>"

definition ex_balance :: "nat \<Rightarrow> decimal \<Rightarrow> decimal \<Rightarrow> decimal \<Rightarrow> inventory_balance" where
  "ex_balance m q t a = \<lparr>ib_id = m, ib_warehouse_id = 1, ib_material_id = m, ib_quantity = q,
    ib_total_amount = t, ib_average_unit_cost = a, ib_version = 1, ib_last_transaction_at = None\<rparr>"

definition ex_txn :: "nat \<Rightarrow> nat \<Rightarrow> decimal \<Rightarrow> decimal \<Rightarrow> inventory_transaction" where
  "ex_txn i m q c = \<lparr>it_id = i, it_txn_no = ''TXN-00260831-000001'', it_transaction_type = PURCHASE_IN,
    it_warehouse_id = 1, it_material_id = m, it_quantity = q, it_unit_cost = c,
    it_amount = line_amount q c, it_balance_after = q, it_source_type = Some SRC_PURCHASE_RECEIPT,
    it_source_id = Some 1, it_source_item_id = Some i, it_reversed_transaction_id = None,
    it_transaction_at = DateTime (Date 26 8 31) 0, it_created_by = Some 5\<rparr>"

definition ex_received_db :: db where
  "ex_received_db = (ex_po_db PO_RECEIVED)\<lparr>
    purchase_order_items := [ex_po_item 1 1 4 4 10],
    purchase_receipts := [ex_receipt RCV_POSTED],
    purchase_receipt_items := [\<lparr>ri_id = 1, ri_receipt_id = 1, ri_po_item_id = 1, ri_line_no = 1,
      ri_material_id = 1, ri_received_quantity = 4, ri_unit_price = 10, ri_amount = 40,
      ri_remark = None\<rparr>],
    inventory_balances := [ex_balance 1 4 40 10],
    inventory_transactions := [ex_txn 1 1 4 10]\<rparr>"

text \<open>The state after a handler that returned.\<close>

definition committed :: "error + db \<Rightarrow> db" where
  "committed m = (case m of Inr d \<Rightarrow> d | Inl e \<Rightarrow> ex_empty)"

definition succeeds :: "error + 'a \<Rightarrow> bool" where
  "succeeds m = (case m of Inr d \<Rightarrow> True | Inl e \<Rightarrow> False)"

lemma succeeds_committed: "succeeds m \<Longrightarrow> m = Inr (committed m)"
  by (auto simp: succeeds_def committed_def split: sum.splits)

lemma succeeds_simps [simp]: "succeeds (Inr x)" "\<not> succeeds (Inl e)" "committed (Inr d) = d"
  by (simp_all add: succeeds_def committed_def)

end
