(* ===== verification/Requisition_Correct.thy ===== *)
theory Requisition_Correct
  imports Requisition_Facts Example
begin

text \<open>
  Correctness of the requisition handlers: the status machine and the version
  counter, the exclusive decision, the authority of approvers, the amounts.
\<close>

section \<open>Steps\<close>

text \<open>One committed request, whatever snapshot it has read.\<close>

inductive pr_step :: "(item_stmt list \<Rightarrow> item_stmt list) \<Rightarrow> db \<Rightarrow> db \<Rightarrow> bool"
  for uow where
  step_create: "create_pr ctx u data s d = Inr d' \<Longrightarrow> pr_step uow d d'"
| step_update: "update_pr uow ctx u i upd s d = Inr d' \<Longrightarrow> pr_step uow d d'"
| step_submit: "submit_pr ctx u i s d = Inr d' \<Longrightarrow> pr_step uow d d'"
| step_cancel: "cancel_pr ctx u i s d = Inr d' \<Longrightarrow> pr_step uow d d'"
| step_approve: "approve_pr ctx u i v c s d = Inr d' \<Longrightarrow> pr_step uow d d'"
| step_reject: "reject_pr ctx u i v cm s d = Inr d' \<Longrightarrow> pr_step uow d d'"
| step_revise: "revise_pr ctx u i v s d = Inr d' \<Longrightarrow> pr_step uow d d'"

text \<open>What a committed request may do to a header.\<close>

definition pr_row_step :: "purchase_requisition \<Rightarrow> purchase_requisition \<Rightarrow> bool" where
  "pr_row_step r r' \<longleftrightarrow> pr_id r' = pr_id r \<and> pr_no r' = pr_no r
    \<and> pr_applicant_id r' = pr_applicant_id r \<and> pr_department_id r' = pr_department_id r
    \<and> pr_created_by r' = pr_created_by r
    \<and> (pr_status r' = pr_status r \<or> pr_status r' \<in> set (pr_transitions (pr_status r)))"

lemma pr_row_step_refl [simp]: "pr_row_step r r"
  by (simp add: pr_row_step_def)

lemma write_approval_record_preserves [simp]:
  "purchase_requisitions (write_approval_record ctx pr a f t ap ov c d) = purchase_requisitions d"
  "purchase_requisition_items (write_approval_record ctx pr a f t ap ov c d) =
    purchase_requisition_items d"
  "tt \<noteq> T_approval_records \<Longrightarrow>
    auto_inc (write_approval_record ctx pr a f t ap ov c d) tt = auto_inc d tt"
  by (simp_all add: write_approval_record_def insert_ar_def)

lemma pr_audit_preserves [simp]:
  "purchase_requisitions (pr_audit ctx a u pr d) = purchase_requisitions d"
  "purchase_requisition_items (pr_audit ctx a u pr d) = purchase_requisition_items d"
  "approval_records (pr_audit ctx a u pr d) = approval_records d"
  "t \<noteq> T_operation_logs \<Longrightarrow> auto_inc (pr_audit ctx a u pr d) t = auto_inc d t"
  by (simp_all add: pr_audit_def)

lemma pr_audit_simps [simp]:
  "get_pr (pr_audit ctx a u pr d) i = get_pr d i"
  "pr_ids_ok (pr_audit ctx a u pr d) = pr_ids_ok d"
  "get_pr (write_approval_record ctx pr' aa f t ap ov c d) i = get_pr d i"
  "pr_ids_ok (write_approval_record ctx pr' aa f t ap ov c d) = pr_ids_ok d"
  by (simp_all add: get_pr_def pr_ids_ok_def)

text \<open>Every handler but \<^verbatim>\<open>create_pr\<close> replaces one header row of the live table.\<close>

lemma put_pr_row_step:
  assumes "get_pr d i = Some r" "pr_row_step r r'" "get_pr d j = Some q"
  shows "\<exists>q'. get_pr (put_pr r' d) j = Some q' \<and> pr_row_step q q'"
proof -
  have "pr_id r' = i" using assms(1,2) by (auto simp: pr_row_step_def dest: get_pr_id)
  then show ?thesis using assms by (auto simp: get_put_pr)
qed

lemma flush_amounts_pr [simp]:
  assumes "flush_amounts olds news d = Inr d'"
  shows "get_pr d' i = get_pr d i" "pr_ids_ok d' = pr_ids_ok d"
  using flush_amounts_frame[OF assms] by (auto simp: get_pr_def pr_ids_ok_def)

lemma exec_item_stmts_pr:
  assumes "rfold exec_item_stmt sts d = Inr d'"
  shows "get_pr d' i = get_pr d i" "pr_ids_ok d' = pr_ids_ok d"
  using exec_item_stmts_frame[OF assms] by (auto simp: get_pr_def pr_ids_ok_def)

lemma create_pr_rows:
  assumes "create_pr ctx u data s d = Inr d'" "pr_ids_ok d"
  shows "pr_ids_ok d'"
    and "get_pr d j = Some q \<Longrightarrow> get_pr d' j = Some q"
    and "\<exists>r. get_pr d' (auto_inc d T_purchase_requisitions) = Some r \<and> pr_status r = PR_DRAFT
      \<and> pr_version r = 1 \<and> pr_applicant_id r = cu_id u"
proof -
  from assms obtain dep pr d1 d2 d3 d4 items' total where
    e: "pr_id pr = auto_inc d T_purchase_requisitions" "pr_status pr = PR_DRAFT" "pr_version pr = 1"
      "pr_applicant_id pr = cu_id u"
    and d1: "\<exists>X Y. d1 = d\<lparr>number_sequences := X, auto_inc := Y\<rparr>"
    and d2: "d2 = d1\<lparr>purchase_requisitions := purchase_requisitions d @ [pr],
       auto_inc := (auto_inc d1)(T_purchase_requisitions := Suc (auto_inc d T_purchase_requisitions))\<rparr>"
    and d3: "rfold (\<lambda>lr. insert_pri (new_pr_item (pr_id pr) lr)) (enumerate 1 (prc_items data)) d2 = Inr d3"
    and d4: "flush_amounts (pr_items (pr_id pr) d3) items' d3 = Inr d4"
    and d': "d' = pr_audit ctx PR_CREATE u pr (put_pr (pr\<lparr>pr_total_estimated_amount := total\<rparr>) d4)"
    by (rule create_pr_effect) simp
  have d3': "purchase_requisitions d3 = purchase_requisitions d @ [pr]"
    "auto_inc d3 T_purchase_requisitions = Suc (auto_inc d T_purchase_requisitions)"
    using insert_pris_frame[OF d3] by (auto simp: d2)
  have ids3: "pr_ids_ok d3"
    using assms(2) e(1) by (simp add: pr_ids_ok_def d3' keyed_append)
  then show "pr_ids_ok d'" by (simp add: d' flush_amounts_pr[OF d4])
  have fresh: "get_pr d (pr_id pr) = None"
    using assms(2) e(1) by (simp add: get_pr_def pr_ids_ok_def keyed_fresh)
  then have get3: "get_pr d3 k = (if k = pr_id pr then Some pr else get_pr d k)" for k
    by (auto simp: get_pr_def d3' row_by_append split: option.splits)
  have get': "get_pr d' k = (if k = pr_id pr then Some (pr\<lparr>pr_total_estimated_amount := total\<rparr>) else get_pr d k)" for k
    using get3 by (simp add: d' get_put_pr flush_amounts_pr[OF d4])
  show "get_pr d j = Some q \<Longrightarrow> get_pr d' j = Some q" using get' fresh by auto
  show "\<exists>r. get_pr d' (auto_inc d T_purchase_requisitions) = Some r \<and> pr_status r = PR_DRAFT
      \<and> pr_version r = 1 \<and> pr_applicant_id r = cu_id u"
    using get' e by simp
qed

lemma update_pr_rows:
  assumes "update_pr uow ctx u i data s d = Inr d'" "pr_ids_ok d"
  obtains pr r r' where "get_pr s i = Some pr" "get_pr d i = Some r" "pr_status r = PR_DRAFT"
    "pr_version r = pru_version data" "can_manage pr u"
    "pr_row_step r r'" "pr_status r' = PR_DRAFT" "pr_version r' = Suc (pr_version r)"
    "\<And>j. get_pr d' j = (if j = i then Some r' else get_pr d j)" "pr_ids_ok d'"
proof -
  from assms obtain pr r obs obs' total d1 where
    h: "get_pr s i = Some pr" "can_manage pr u" "get_pr d i = Some r"
    "pr_version r = pru_version data \<and> pr_status r = PR_DRAFT"
    and x: "rfold exec_item_stmt (uow (item_stmts (pr_items i s) obs')) d = Inr d1"
    and d': "d' = pr_audit ctx PR_UPDATE u pr (put_pr
      (r\<lparr>pr_apply_date := (case pru_apply_date data of None \<Rightarrow> pr_apply_date pr | Some x \<Rightarrow> x),
         pr_reason := (case pru_reason data of None \<Rightarrow> pr_reason pr | Some x \<Rightarrow> Some x),
         pr_total_estimated_amount := total,
         pr_updated_by := Some (cu_id u), pr_version := Suc (pru_version data)\<rparr>) d1)"
      (is "_ = pr_audit _ _ _ _ (put_pr ?R d1)")
    by (rule update_pr_effect)
  have i: "pr_id r = i" using get_pr_id[OF h(3)] .
  have "get_pr d' j = (if j = i then Some ?R else get_pr d j)" for j
    using exec_item_stmts_pr[OF x] h(3) i by (simp add: d' get_put_pr)
  moreover have "pr_ids_ok d'" using exec_item_stmts_pr[OF x] assms(2) by (simp add: d')
  ultimately show ?thesis using that[of pr r ?R] h by (simp add: pr_row_step_def)
qed

lemma submit_pr_rows:
  assumes "submit_pr ctx u i s d = Inr d'" "pr_ids_ok d"
  obtains pr r r' where "get_pr s i = Some pr" "get_pr d i = Some r" "pr_status r = PR_DRAFT"
    "can_manage pr u" "pr_status pr = PR_DRAFT"
    "pr_row_step r r'" "pr_status r' = PR_PENDING" "pr_version r' = Suc (pr_version pr)"
    "pr_submitted_at r' = Some (rq_now ctx)"
    "\<And>j. get_pr d' j = (if j = i then Some r' else get_pr d j)" "pr_ids_ok d'"
proof -
  from assms obtain pr r items' total d1 where
    h: "get_pr s i = Some pr" "can_manage pr u" "pr_status pr = PR_DRAFT"
    "get_pr d i = Some r" "pr_status r = PR_DRAFT"
    and fl: "flush_amounts (pr_items i s) items' d = Inr d1"
    and d': "d' = pr_audit ctx PR_SUBMIT u pr (put_pr (r\<lparr>pr_status := PR_PENDING,
       pr_submitted_at := Some (rq_now ctx), pr_total_estimated_amount := total,
       pr_updated_by := Some (cu_id u), pr_version := Suc (pr_version pr)\<rparr>) d1)"
      (is "_ = pr_audit _ _ _ _ (put_pr ?R d1)")
    by (rule submit_pr_effect)
  have i: "pr_id r = i" using get_pr_id[OF h(4)] .
  have "get_pr d' j = (if j = i then Some ?R else get_pr d j)" for j
    using flush_amounts_pr[OF fl] h(4) i by (simp add: d' get_put_pr)
  moreover have "pr_ids_ok d'" using flush_amounts_pr[OF fl] assms(2) by (simp add: d')
  ultimately show ?thesis using that[of pr r ?R] h by (simp add: pr_row_step_def)
qed

lemma cancel_pr_rows:
  assumes "cancel_pr ctx u i s d = Inr d'" "pr_ids_ok d"
  obtains pr r r' where "get_pr s i = Some pr" "get_pr d i = Some r"
    "pr_status r = PR_DRAFT \<or> pr_status r = PR_APPROVED" "can_manage pr u"
    "pr_status pr = PR_APPROVED \<longrightarrow> \<not> has_active_po i s"
    "pr_row_step r r'" "pr_status r' = PR_CANCELLED" "pr_version r' = Suc (pr_version pr)"
    "\<And>j. get_pr d' j = (if j = i then Some r' else get_pr d j)" "pr_ids_ok d'"
proof -
  from assms obtain pr r where
    h: "get_pr s i = Some pr" "can_manage pr u" "pr_status pr = PR_APPROVED \<longrightarrow> \<not> has_active_po i s"
    "get_pr d i = Some r" "pr_status r = PR_DRAFT \<or> pr_status r = PR_APPROVED"
    and d': "d' = pr_audit ctx PR_CANCEL u pr (put_pr (r\<lparr>pr_status := PR_CANCELLED,
       pr_updated_by := Some (cu_id u), pr_version := Suc (pr_version pr)\<rparr>) d)"
      (is "_ = pr_audit _ _ _ _ (put_pr ?R d)")
    by (rule cancel_pr_effect)
  have i: "pr_id r = i" using get_pr_id[OF h(4)] .
  have "get_pr d' j = (if j = i then Some ?R else get_pr d j)" for j
    using h(4) i by (simp add: d' get_put_pr)
  moreover have "pr_ids_ok d'" using assms(2) by (simp add: d')
  moreover have "pr_row_step r ?R" using h(5) by (auto simp: pr_row_step_def)
  ultimately show ?thesis using that[of pr r ?R] h by simp
qed

lemma approve_pr_rows:
  assumes "approve_pr ctx u i v c s d = Inr d'" "pr_ids_ok d"
  obtains pr ov r r' where "get_pr s i = Some pr" "assert_approver s pr u = Inr ov"
    "get_pr d i = Some r" "pr_status r = PR_PENDING" "pr_version r = v"
    "pr_row_step r r'" "pr_status r' = PR_APPROVED" "pr_version r' = Suc v"
    "\<And>j. get_pr d' j = (if j = i then Some r' else get_pr d j)" "pr_ids_ok d'"
proof -
  from assms obtain pr r ov items' total d1 where
    h: "get_pr s i = Some pr" "assert_approver s pr u = Inr ov"
    "get_pr d i = Some r" "pr_version r = v \<and> pr_status r = PR_PENDING"
    and fl: "flush_amounts (pr_items i s) items' d = Inr d1"
    and d': "d' = pr_audit ctx PR_APPROVE u pr (write_approval_record ctx pr AA_APPROVE PR_PENDING PR_APPROVED
       (cu_id u) ov c (put_pr (r\<lparr>pr_status := PR_APPROVED, pr_total_estimated_amount := total,
         pr_updated_by := Some (cu_id u), pr_version := Suc v\<rparr>) d1))"
      (is "_ = pr_audit _ _ _ _ (write_approval_record _ _ _ _ _ _ _ _ (put_pr ?R d1))")
    by (rule approve_pr_effect)
  have i: "pr_id r = i" using get_pr_id[OF h(3)] .
  have "get_pr d' j = (if j = i then Some ?R else get_pr d j)" for j
    using flush_amounts_pr[OF fl] h(3) i by (simp add: d' get_put_pr)
  moreover have "pr_ids_ok d'" using flush_amounts_pr[OF fl] assms(2) by (simp add: d')
  ultimately show ?thesis using that[of pr ov r ?R] h by (simp add: pr_row_step_def)
qed

lemma reject_pr_rows:
  assumes "reject_pr ctx u i v c s d = Inr d'" "pr_ids_ok d"
  obtains pr ov r r' where "get_pr s i = Some pr" "assert_approver s pr u = Inr ov"
    "get_pr d i = Some r" "pr_status r = PR_PENDING" "pr_version r = v"
    "pr_row_step r r'" "pr_status r' = PR_REJECTED" "pr_version r' = Suc v"
    "\<And>j. get_pr d' j = (if j = i then Some r' else get_pr d j)" "pr_ids_ok d'"
proof -
  from assms obtain pr r ov where
    h: "get_pr s i = Some pr" "assert_approver s pr u = Inr ov"
    "get_pr d i = Some r" "pr_version r = v \<and> pr_status r = PR_PENDING"
    and d': "d' = pr_audit ctx PR_REJECT u pr (write_approval_record ctx pr AA_REJECT PR_PENDING PR_REJECTED
       (cu_id u) ov (Some c) (put_pr (r\<lparr>pr_status := PR_REJECTED,
         pr_updated_by := Some (cu_id u), pr_version := Suc v\<rparr>) d))"
      (is "_ = pr_audit _ _ _ _ (write_approval_record _ _ _ _ _ _ _ _ (put_pr ?R d))")
    by (rule reject_pr_effect)
  have i: "pr_id r = i" using get_pr_id[OF h(3)] .
  have "get_pr d' j = (if j = i then Some ?R else get_pr d j)" for j
    using h(3) i by (simp add: d' get_put_pr)
  moreover have "pr_ids_ok d'" using assms(2) by (simp add: d')
  ultimately show ?thesis using that[of pr ov r ?R] h by (simp add: pr_row_step_def)
qed

lemma revise_pr_rows:
  assumes "revise_pr ctx u i v s d = Inr d'" "pr_ids_ok d"
  obtains pr r r' where "get_pr s i = Some pr" "can_manage pr u"
    "get_pr d i = Some r" "pr_status r = PR_REJECTED" "pr_version r = v"
    "pr_row_step r r'" "pr_status r' = PR_DRAFT" "pr_version r' = Suc v" "pr_submitted_at r' = None"
    "\<And>j. get_pr d' j = (if j = i then Some r' else get_pr d j)" "pr_ids_ok d'"
proof -
  from assms obtain pr r where
    h: "get_pr s i = Some pr" "can_manage pr u"
    "get_pr d i = Some r" "pr_version r = v \<and> pr_status r = PR_REJECTED"
    and d': "d' = pr_audit ctx PR_REVISE u pr (put_pr (r\<lparr>pr_status := PR_DRAFT, pr_submitted_at := None,
         pr_updated_by := Some (cu_id u), pr_version := Suc v\<rparr>) d)"
      (is "_ = pr_audit _ _ _ _ (put_pr ?R d)")
    by (rule revise_pr_effect)
  have i: "pr_id r = i" using get_pr_id[OF h(3)] .
  have "get_pr d' j = (if j = i then Some ?R else get_pr d j)" for j
    using h(3) i by (simp add: d' get_put_pr)
  moreover have "pr_ids_ok d'" using assms(2) by (simp add: d')
  ultimately show ?thesis using that[of pr r ?R] h by (simp add: pr_row_step_def)
qed

text \<open>The status machine as one lemma on steps.\<close>

lemma pr_step_rows:
  assumes "pr_step uow d d'" "pr_ids_ok d"
  shows "pr_ids_ok d'"
    and "get_pr d j = Some q \<Longrightarrow> \<exists>q'. get_pr d' j = Some q' \<and> pr_row_step q q'"
proof -
  have "pr_ids_ok d' \<and> (\<forall>j q. get_pr d j = Some q \<longrightarrow> (\<exists>q'. get_pr d' j = Some q' \<and> pr_row_step q q'))"
    using assms
  proof (cases rule: pr_step.cases)
    case (step_create ctx u data s)
    then show ?thesis using create_pr_rows[OF _ assms(2)] by (metis pr_row_step_refl)
  next
    case (step_update ctx u i upd s)
    then show ?thesis by (rule update_pr_rows[OF _ assms(2)]) auto
  next
    case (step_submit ctx u i s)
    then show ?thesis by (rule submit_pr_rows[OF _ assms(2)]) auto
  next
    case (step_cancel ctx u i s)
    then show ?thesis by (rule cancel_pr_rows[OF _ assms(2)]) auto
  next
    case (step_approve ctx u i v c s)
    then show ?thesis by (rule approve_pr_rows[OF _ assms(2)]) auto
  next
    case (step_reject ctx u i v cm s)
    then show ?thesis by (rule reject_pr_rows[OF _ assms(2)]) auto
  next
    case (step_revise ctx u i v s)
    then show ?thesis by (rule revise_pr_rows[OF _ assms(2)]) auto
  qed
  then show "pr_ids_ok d'"
    and "get_pr d j = Some q \<Longrightarrow> \<exists>q'. get_pr d' j = Some q' \<and> pr_row_step q q'" by auto
qed

section \<open>Decisions on a pending requisition\<close>

datatype pr_decision =
  DecideApprove request_ctx current_user nat "string option" db
| DecideReject request_ctx current_user nat string db

primrec decide_pr :: "nat \<Rightarrow> pr_decision \<Rightarrow> db \<Rightarrow> error + db" where
  "decide_pr i (DecideApprove ctx u v c s) d = approve_pr ctx u i v c s d"
| "decide_pr i (DecideReject ctx u v c s) d = reject_pr ctx u i v c s d"

definition pr_open :: "nat \<Rightarrow> db \<Rightarrow> bool" where
  "pr_open i d \<longleftrightarrow> (\<exists>r. get_pr d i = Some r \<and> pr_status r = PR_PENDING)"

lemma decide_pr_effect:
  assumes "decide_pr i c d = Inr d'" "pr_ids_ok d"
  shows "pr_ids_ok d'" and "pr_open i d" and "\<not> pr_open i d'"
proof -
  have "pr_ids_ok d' \<and> pr_open i d \<and> \<not> pr_open i d'"
  proof (cases c)
    case (DecideApprove ctx u v cm s)
    then have "approve_pr ctx u i v cm s d = Inr d'" using assms(1) by simp
    then show ?thesis by (rule approve_pr_rows[OF _ assms(2)]) (auto simp: pr_open_def)
  next
    case (DecideReject ctx u v cm s)
    then have "reject_pr ctx u i v cm s d = Inr d'" using assms(1) by simp
    then show ?thesis by (rule reject_pr_rows[OF _ assms(2)]) (auto simp: pr_open_def)
  qed
  then show "pr_ids_ok d'" "pr_open i d" "\<not> pr_open i d'" by auto
qed

interpretation pr_decisions: exclusive_claim pr_ids_ok "pr_open i" "decide_pr i" for i
  by unfold_locales (auto dest: decide_pr_effect)

section \<open>Witness states\<close>

lemma ex_pr_db_ids: "pr_ids_ok (ex_pr_db st)"
  by (simp add: pr_ids_ok_def keyed_def ex_pr_db_def ex_pr_row_def ex_empty_def)

section \<open>Properties\<close>

text \<open>
  C5: whatever snapshot a request has read, the requisition handlers move a
  requisition only along \<^verbatim>\<open>_TRANSITIONS\<close>, and never change its number, applicant,
  department or creator.  No requisition disappears.
\<close>

theorem pr_status_machine:
  assumes "pr_step uow d d'" "pr_ids_ok d" "get_pr d i = Some r"
  shows "\<exists>r'. get_pr d' i = Some r' \<and> pr_no r' = pr_no r
    \<and> pr_applicant_id r' = pr_applicant_id r \<and> pr_department_id r' = pr_department_id r
    \<and> pr_created_by r' = pr_created_by r
    \<and> (pr_status r' = pr_status r \<or> pr_status r' \<in> set (pr_transitions (pr_status r)))"
  using pr_step_rows(2)[OF assms] by (auto simp: pr_row_step_def)

lemma ex_submit_succeeds:
  "succeeds (submit_pr ex_ctx ex_applicant 1 (ex_pr_db PR_DRAFT) (ex_pr_db PR_DRAFT))"
  by code_simp

theorem pr_status_machine_witness:
  "\<exists>r'. get_pr (committed (submit_pr ex_ctx ex_applicant 1 (ex_pr_db PR_DRAFT) (ex_pr_db PR_DRAFT))) 1
      = Some r' \<and> pr_no r' = ''PR-00260901-0001'' \<and> pr_applicant_id r' = 2"
proof -
  have "get_pr (ex_pr_db PR_DRAFT) 1 = Some (ex_pr_row PR_DRAFT 125 1)"
    by (simp add: get_pr_def ex_pr_db_def ex_pr_row_def)
  from pr_status_machine[OF step_submit[OF succeeds_committed[OF ex_submit_succeeds]] ex_pr_db_ids this]
  show ?thesis by (auto simp: ex_pr_row_def)
qed

text \<open>
  C6: of any number of concurrent approvals and rejections of one requisition, in
  any order and each with its own stale snapshot, at most one is committed.
\<close>

theorem pr_decided_once:
  assumes "pr_ids_ok d"
  shows "length (pr_decisions.winners i decisions d) \<le> 1"
  by (rule pr_decisions.at_most_one_winner[OF assms])

theorem pr_decided_once_witness:
  "length (pr_decisions.winners 1
      [DecideApprove ex_ctx ex_manager 1 None (ex_pr_db PR_PENDING),
       DecideReject ex_ctx ex_admin 1 ''late'' (ex_pr_db PR_PENDING)] (ex_pr_db PR_PENDING)) \<le> 1
   \<and> succeeds (decide_pr 1 (DecideApprove ex_ctx ex_manager 1 None (ex_pr_db PR_PENDING))
       (ex_pr_db PR_PENDING))"
proof
  show "length (pr_decisions.winners 1
      [DecideApprove ex_ctx ex_manager 1 None (ex_pr_db PR_PENDING),
       DecideReject ex_ctx ex_admin 1 ''late'' (ex_pr_db PR_PENDING)] (ex_pr_db PR_PENDING)) \<le> 1"
    by (rule pr_decided_once[OF ex_pr_db_ids])
  show "succeeds (decide_pr 1 (DecideApprove ex_ctx ex_manager 1 None (ex_pr_db PR_PENDING))
       (ex_pr_db PR_PENDING))"
    by code_simp
qed

text \<open>
  C7: an approval is committed only by an active user who is an administrator or a
  manager of the requisition's department, on the version that the approver saw;
  it appends one approval record that names the approver and the override.
\<close>

theorem pr_approval_authority:
  assumes "approve_pr ctx u i v c s d = Inr d'" "pr_ids_ok d"
  shows "\<exists>pr r usr rec. get_pr s i = Some pr \<and> get_pr d i = Some r
    \<and> pr_status r = PR_PENDING \<and> pr_version r = v
    \<and> get_user s (cu_id u) = Some usr \<and> user_status usr = USER_ACTIVE
    \<and> (cu_role_code u = Some ROLE_ADMIN
       \<or> (\<exists>m\<in>set (department_managers s). dm_dept_id m = pr_department_id pr \<and> dm_user_id m = cu_id u))
    \<and> approval_records d' = approval_records d @ [rec]
    \<and> ar_document_id rec = i \<and> ar_approver_id rec = cu_id u \<and> ar_action rec = AA_APPROVE
    \<and> ar_result_status rec = ''APPROVED'' \<and> ar_comment rec = c
    \<and> (ar_step_name rec = Some ''ADMIN OVERRIDE'' \<longleftrightarrow> cu_role_code u = Some ROLE_ADMIN)"
proof -
  from assms obtain pr r ov items' total d1 where
    h: "get_pr s i = Some pr" "assert_approver s pr u = Inr ov" "get_pr d i = Some r"
      "pr_version r = v \<and> pr_status r = PR_PENDING"
    and fl: "flush_amounts (pr_items i s) items' d = Inr d1"
    and d': "d' = pr_audit ctx PR_APPROVE u pr (write_approval_record ctx pr AA_APPROVE PR_PENDING PR_APPROVED
       (cu_id u) ov c (put_pr (r\<lparr>pr_status := PR_APPROVED, pr_total_estimated_amount := total,
         pr_updated_by := Some (cu_id u), pr_version := Suc v\<rparr>) d1))"
    by (rule approve_pr_effect)
  obtain usr where usr: "get_user s (cu_id u) = Some usr" "user_status usr = USER_ACTIVE"
    using h(2) by (auto simp: assert_approver_def split: option.splits if_splits)
  have auth: "ov \<longleftrightarrow> cu_role_code u = Some ROLE_ADMIN"
    "\<not> ov \<Longrightarrow> \<exists>m\<in>set (department_managers s). dm_dept_id m = pr_department_id pr \<and> dm_user_id m = cu_id u"
    using h(2) by (auto simp: assert_approver_def list_ex_iff split: option.splits if_splits)
  have "approval_records d1 = approval_records d" using flush_amounts_frame[OF fl] by auto
  then have "\<exists>rec. approval_records d' = approval_records d @ [rec]
    \<and> ar_document_id rec = i \<and> ar_approver_id rec = cu_id u \<and> ar_action rec = AA_APPROVE
    \<and> ar_result_status rec = ''APPROVED'' \<and> ar_comment rec = c
    \<and> (ar_step_name rec = Some ''ADMIN OVERRIDE'' \<longleftrightarrow> cu_role_code u = Some ROLE_ADMIN)"
    using auth(1) get_pr_id[OF h(1)]
    by (auto simp: d' write_approval_record_def insert_ar_def put_pr_def)
  then show ?thesis using h usr auth by blast
qed

theorem pr_approval_authority_witness:
  "\<exists>d'. approve_pr ex_ctx ex_manager 1 1 None (ex_pr_db PR_PENDING) (ex_pr_db PR_PENDING) = Inr d'
    \<and> length (approval_records d') = 1"
proof -
  have "succeeds (approve_pr ex_ctx ex_manager 1 1 None (ex_pr_db PR_PENDING) (ex_pr_db PR_PENDING))"
    by code_simp
  from succeeds_committed[OF this] pr_approval_authority[OF succeeds_committed[OF this] ex_pr_db_ids]
  show ?thesis by (auto simp: ex_pr_db_def ex_empty_def)
qed

text \<open>
  Submitting does not test the version.  A submission that read the draft before
  a concurrent edit was committed writes the total of the old lines into the header,
  and resets the version that the edit had advanced.
\<close>

definition ex_edit :: pr_update where
  "ex_edit = \<lparr>pru_version = 1, pru_apply_date = None, pru_reason = None, pru_items =
    [\<lparr>piu_id = Some 1, piu_material_id = 1, piu_requested_quantity = 20,
      piu_estimated_unit_price = 25/2, piu_required_date = None, piu_remark = None\<rparr>]\<rparr>"

definition ex_edited :: db where
  "ex_edited = committed (update_pr (\<lambda>x. x) ex_ctx ex_applicant 1 ex_edit
    (ex_pr_db PR_DRAFT) (ex_pr_db PR_DRAFT))"

definition header_totals :: "db \<Rightarrow> nat \<Rightarrow> (decimal \<times> decimal \<times> nat) option" where
  "header_totals d i = map_option (\<lambda>r. (pr_total_estimated_amount r,
    sum_list (map pri_estimated_amount (pr_items i d)), pr_version r)) (get_pr d i)"

theorem submit_stale_total:
  "succeeds (update_pr (\<lambda>x. x) ex_ctx ex_applicant 1 ex_edit (ex_pr_db PR_DRAFT) (ex_pr_db PR_DRAFT))
   \<and> header_totals ex_edited 1 = Some (250, 250, 2)
   \<and> succeeds (submit_pr ex_ctx ex_applicant 1 (ex_pr_db PR_DRAFT) ex_edited)
   \<and> header_totals (committed (submit_pr ex_ctx ex_applicant 1 (ex_pr_db PR_DRAFT) ex_edited)) 1
       = Some (125, 250, 2)"
  by (intro conjI; code_simp)

end
