(* ===== verification/Order.thy ===== *)
theory Order
  imports Numbering AuditLog Contracts
begin

text \<open>
  Purchase orders (\<^verbatim>\<open>app/services/purchase_order_service.py\<close>, input types of
  \<^verbatim>\<open>app/schemas/purchase_order.py\<close>): the conversion of approved requisition lines
  into order lines, confirmation and cancellation.

  As in \<^verbatim>\<open>Requisition\<close> a handler reads the snapshot \<^verbatim>\<open>s\<close> and changes the live state
  \<^verbatim>\<open>d\<close>.  The quantity already converted from a requisition line is taken and given
  back by conditional UPDATEs on the live row, an instance of \<^verbatim>\<open>bounded_counter\<close>.
\<close>

section \<open>Input\<close>

record po_source_create =
  psc_pr_item_id :: nat
  psc_quantity :: decimal

record po_item_create =
  poic_material_id :: nat
  poic_ordered_quantity :: decimal
  poic_unit_price :: decimal
  poic_remark :: "string option"
  poic_sources :: "po_source_create list"

record po_create =
  poc_supplier_id :: nat
  poc_order_date :: "date option"
  poc_expected_date :: "date option"
  poc_remark :: "string option"
  poc_items :: "po_item_create list"

definition valid_po_item_create :: "po_item_create \<Rightarrow> bool" where
  "valid_po_item_create i \<longleftrightarrow> 0 < poic_material_id i
    \<and> 0 < poic_ordered_quantity i \<and> on_grid 4 (poic_ordered_quantity i)
    \<and> 0 \<le> poic_unit_price i \<and> on_grid 4 (poic_unit_price i) \<and> opt_len 0 255 (poic_remark i)
    \<and> list_all (\<lambda>src. 0 < psc_pr_item_id src \<and> 0 < psc_quantity src
        \<and> on_grid 4 (psc_quantity src)) (poic_sources i)"

definition valid_po_create :: "po_create \<Rightarrow> bool" where
  "valid_po_create c \<longleftrightarrow> 0 < poc_supplier_id c \<and> opt_len 0 255 (poc_remark c) \<and> poc_items c \<noteq> []
    \<and> list_all valid_po_item_create (poc_items c)"

section \<open>The status machine\<close>

primrec po_transitions :: "po_status \<Rightarrow> po_status list" where
  "po_transitions PO_DRAFT = [PO_CONFIRMED, PO_CANCELLED]"
| "po_transitions PO_CONFIRMED = [PO_CANCELLED]"
| "po_transitions PO_PARTIALLY_RECEIVED = []"
| "po_transitions PO_RECEIVED = []"
| "po_transitions PO_CANCELLED = []"

definition assert_po_transition :: "purchase_order \<Rightarrow> po_status \<Rightarrow> error + unit" where
  "assert_po_transition po target =
    check (target \<in> set (po_transitions (po_status po)))
      (raise_code InvalidStatusTransitionException PO_INVALID_STATUS_TRANSITION)"

section \<open>Helpers\<close>

definition load_po :: "nat \<Rightarrow> db \<Rightarrow> error + purchase_order" where
  "load_po i s = require (get_po s i) (raise_code NotFoundException PO_NOT_FOUND)"

definition po_items :: "nat \<Rightarrow> db \<Rightarrow> purchase_order_item list" where
  "po_items i s = sort_key poi_line_no
    (filter (\<lambda>it. poi_po_id it = i) (purchase_order_items s))"

definition assert_po_version :: "purchase_order \<Rightarrow> nat \<Rightarrow> error + unit" where
  "assert_po_version po v =
    check (po_version po = v) (raise_code ConflictException PO_VERSION_CONFLICT)"

definition po_concurrent_change :: "db \<Rightarrow> nat \<Rightarrow> po_status \<Rightarrow> error" where
  "po_concurrent_change d i expected =
    (case get_po d i of
       None \<Rightarrow> StaleData
     | Some po \<Rightarrow> if po_status po \<noteq> expected
         then raise_code ConflictException PO_ALREADY_PROCESSED
         else raise_code ConflictException PO_VERSION_CONFLICT)"

definition assert_buyer_or_admin :: "purchase_order \<Rightarrow> current_user \<Rightarrow> error + unit" where
  "assert_buyer_or_admin po u =
    check (cu_role_code u = Some ROLE_ADMIN \<or> po_buyer_id po = cu_id u)
      (raise_code PermissionDeniedException PERMISSION_DENIED)"

definition assert_supplier_active :: "db \<Rightarrow> nat \<Rightarrow> error + supplier" where
  "assert_supplier_active s i =
    (case get_sup s i of
       None \<Rightarrow> Inl (raise_code NotFoundException NOT_FOUND)
     | Some sp \<Rightarrow> if sup_status sp \<noteq> ST_ACTIVE
         then Inl (raise_code ConflictException PO_SUPPLIER_DISABLED) else Inr sp)"

definition assert_po_material_active :: "db \<Rightarrow> nat \<Rightarrow> error + unit" where
  "assert_po_material_active s material_id =
    (case get_mat s material_id of
       None \<Rightarrow> Inl (raise_code NotFoundException PO_ITEM_NOT_FOUND)
     | Some m \<Rightarrow> check (mat_status m = ST_ACTIVE)
         (raise_code ConflictException MASTER_DATA_DISABLED))"

lemma load_po_Inr [simp]: "load_po i s = Inr po \<longleftrightarrow> get_po s i = Some po"
  by (simp add: load_po_def)

lemma assert_po_transition_Inr [simp]:
  "assert_po_transition po t = Inr x \<longleftrightarrow> t \<in> set (po_transitions (po_status po))"
  by (simp add: assert_po_transition_def)

lemma assert_po_version_Inr [simp]: "assert_po_version po v = Inr x \<longleftrightarrow> po_version po = v"
  by (simp add: assert_po_version_def)

lemma assert_buyer_or_admin_Inr [simp]:
  "assert_buyer_or_admin po u = Inr x \<longleftrightarrow>
    cu_role_code u = Some ROLE_ADMIN \<or> po_buyer_id po = cu_id u"
  by (simp add: assert_buyer_or_admin_def)

section \<open>Visibility\<close>

definition PO_FULL_SCOPE_ROLES :: "role_code list" where
  "PO_FULL_SCOPE_ROLES = [ROLE_ADMIN, ROLE_BUYER, ROLE_WAREHOUSE]"

text \<open>\<^verbatim>\<open>_visible_source_stmt\<close>: the order has a source whose requisition satisfies \<^verbatim>\<open>cond\<close>.\<close>

definition visible_source :: "(purchase_requisition \<Rightarrow> bool) \<Rightarrow> db \<Rightarrow> nat \<Rightarrow> bool" where
  "visible_source cond s i =
    list_ex (\<lambda>poi. poi_po_id poi = i \<and>
      list_ex (\<lambda>src. pois_po_item_id src = poi_id poi \<and>
        list_ex (\<lambda>pri. pri_id pri = pois_pr_item_id src \<and>
          list_ex (\<lambda>pr. pr_id pr = pri_pr_id pri \<and> cond pr) (purchase_requisitions s))
          (purchase_requisition_items s))
        (purchase_order_item_sources s))
      (purchase_order_items s)"

definition visible_po :: "current_user \<Rightarrow> db \<Rightarrow> nat \<Rightarrow> bool" where
  "visible_po u s i =
    (case cu_role_code u of
       None \<Rightarrow> False
     | Some r \<Rightarrow>
         if r \<in> set PO_FULL_SCOPE_ROLES then True
         else if r = ROLE_APPLICANT
         then visible_source (\<lambda>pr. pr_applicant_id pr = cu_id u) s i
         else if r = ROLE_DEPT_MANAGER
         then visible_source (\<lambda>pr. pr_department_id pr \<in> set (map dm_dept_id
           (filter (\<lambda>m. dm_user_id m = cu_id u) (department_managers s)))) s i
         else False)"

definition assert_po_visible :: "current_user \<Rightarrow> db \<Rightarrow> purchase_order \<Rightarrow> error + unit" where
  "assert_po_visible u s po =
    check (visible_po u s (po_id po)) (raise_code PermissionDeniedException PERMISSION_DENIED)"

section \<open>Statements on the live state\<close>

definition convert :: "decimal \<Rightarrow> purchase_requisition_item \<Rightarrow> purchase_requisition_item" where
  "convert q r = r\<lparr>pri_converted_quantity := pri_converted_quantity r + q\<rparr>"

definition take_converted :: "nat \<Rightarrow> decimal \<Rightarrow> db \<Rightarrow> db option" where
  "take_converted i q d =
    map_option (\<lambda>rows. d\<lparr>purchase_requisition_items := rows\<rparr>)
      (cas_rows (\<lambda>r. pri_id r = i
          \<and> pri_converted_quantity r + q \<le> pri_requested_quantity r) (convert q)
        (purchase_requisition_items d))"

definition give_converted :: "nat \<Rightarrow> decimal \<Rightarrow> db \<Rightarrow> db option" where
  "give_converted i q d =
    map_option (\<lambda>rows. d\<lparr>purchase_requisition_items := rows\<rparr>)
      (cas_rows (\<lambda>r. pri_id r = i \<and> q \<le> pri_converted_quantity r) (convert (- q))
        (purchase_requisition_items d))"

definition not_fully_converted :: "nat \<Rightarrow> db \<Rightarrow> bool" where
  "not_fully_converted i d = list_ex (\<lambda>it. pri_pr_id it = i
      \<and> pri_converted_quantity it < pri_requested_quantity it) (purchase_requisition_items d)"

definition flip_pr_to_converted :: "nat \<Rightarrow> db \<Rightarrow> db" where
  "flip_pr_to_converted i d =
    (if not_fully_converted i d then d
     else d\<lparr>purchase_requisitions := update_rows
       (\<lambda>r. pr_id r = i \<and> pr_status r = PR_APPROVED)
       (\<lambda>r. r\<lparr>pr_status := PR_CONVERTED\<rparr>) (purchase_requisitions d)\<rparr>)"

definition flip_pr_back_to_approved :: "nat \<Rightarrow> db \<Rightarrow> db" where
  "flip_pr_back_to_approved i d =
    (if not_fully_converted i d
     then d\<lparr>purchase_requisitions := update_rows
       (\<lambda>r. pr_id r = i \<and> pr_status r = PR_CONVERTED)
       (\<lambda>r. r\<lparr>pr_status := PR_APPROVED\<rparr>) (purchase_requisitions d)\<rparr>
     else d)"

definition po_where ::
    "nat \<Rightarrow> (purchase_order \<Rightarrow> bool) \<Rightarrow> (purchase_order \<Rightarrow> purchase_order) \<Rightarrow> db \<Rightarrow> db option" where
  "po_where i p f d =
    map_option (\<lambda>rows. d\<lparr>purchase_orders := rows\<rparr>)
      (cas_rows (\<lambda>r. po_id r = i \<and> p r) f (purchase_orders d))"

definition flush_po :: "nat \<Rightarrow> (purchase_order \<Rightarrow> purchase_order) \<Rightarrow> db \<Rightarrow> db" where
  "flush_po i f d = d\<lparr>purchase_orders :=
    update_rows (\<lambda>r. po_id r = i) f (purchase_orders d)\<rparr>"

definition po_audit ::
    "request_ctx \<Rightarrow> audit_action \<Rightarrow> current_user \<Rightarrow> purchase_order \<Rightarrow> db \<Rightarrow> db" where
  "po_audit ctx action u po d =
    write_audit ctx action ''po'' None (Some (cu_username u)) (Some ''PURCHASE_ORDER'')
      (Some (po_id po)) (Some (po_no po)) d"

section \<open>Create\<close>

text \<open>
  The requisitions of the sources.  Python iterates a set here: the order only
  decides which of several errors is reported.
\<close>

definition source_pr_items :: "db \<Rightarrow> po_create \<Rightarrow> error + purchase_requisition_item list" where
  "source_pr_items s data =
    rtraverse (\<lambda>src. require (get_pri s (psc_pr_item_id src))
        (raise_code NotFoundException PR_ITEM_NOT_FOUND))
      (concat (map poic_sources (poc_items data)))"

definition assert_pr_approved :: "db \<Rightarrow> nat \<Rightarrow> error + unit" where
  "assert_pr_approved s i =
    (case get_pr s i of
       None \<Rightarrow> Inl (raise_code NotFoundException PR_NOT_FOUND)
     | Some pr \<Rightarrow> check (pr_status pr = PR_APPROVED)
         (raise_code InvalidStatusTransitionException PR_INVALID_STATUS_TRANSITION))"

definition check_po_item :: "db \<Rightarrow> po_item_create \<Rightarrow> error + unit" where
  "check_po_item s item =
    rbind (assert_po_material_active s (poic_material_id item)) (\<lambda>_.
      if poic_ordered_quantity item \<le> 0 then Inl (raise_class ValidationException)
      else if poic_unit_price item < 0 then Inl (raise_class ValidationException)
      else check (sum_list (map psc_quantity (poic_sources item)) = poic_ordered_quantity item)
        (raise_code ConflictException PO_SOURCE_QUANTITY_MISMATCH))"

definition take_source :: "po_source_create \<Rightarrow> db \<Rightarrow> error + db" where
  "take_source src d =
    require (take_converted (psc_pr_item_id src) (psc_quantity src) d)
      (raise_code ConflictException PR_ITEM_CONVERT_EXCEEDED)"

definition new_source :: "nat \<Rightarrow> po_source_create \<Rightarrow> purchase_order_item_source" where
  "new_source poi src = \<lparr>pois_id = 0, pois_po_item_id = poi,
     pois_pr_item_id = psc_pr_item_id src, pois_quantity = psc_quantity src\<rparr>"

definition new_po_item :: "nat \<Rightarrow> nat \<times> po_item_create \<Rightarrow> purchase_order_item" where
  "new_po_item pid li =
    \<lparr>poi_id = 0, poi_po_id = pid, poi_line_no = fst li,
     poi_material_id = poic_material_id (snd li),
     poi_ordered_quantity = poic_ordered_quantity (snd li),
     poi_received_quantity = 0,
     poi_unit_price = poic_unit_price (snd li),
     poi_amount = line_amount (poic_ordered_quantity (snd li)) (poic_unit_price (snd li)),
     poi_remark = poic_remark (snd li)\<rparr>"

definition create_po_item :: "nat \<Rightarrow> nat \<times> po_item_create \<Rightarrow> db \<Rightarrow> error + db" where
  "create_po_item pid li d =
    (let poi = auto_inc d T_purchase_order_items in
     rbind (insert_poi (new_po_item pid li) d) (\<lambda>d1.
     rbind (rfold take_source (poic_sources (snd li)) d1) (\<lambda>d2.
     rfold (\<lambda>src. insert_pois (new_source poi src)) (poic_sources (snd li)) d2)))"

definition po_total :: "po_create \<Rightarrow> decimal" where
  "po_total data = sum_amounts [fold (\<lambda>item t. t +
     line_amount (poic_ordered_quantity item) (poic_unit_price item)) (poc_items data) 0]"

definition create_po ::
    "request_ctx \<Rightarrow> current_user \<Rightarrow> po_create \<Rightarrow> db \<Rightarrow> db \<Rightarrow> error + db" where
  "create_po ctx u data s d =
    (if poc_items data = [] then Inl (raise_code ConflictException PO_EMPTY_ITEMS)
     else
      rbind (assert_supplier_active s (poc_supplier_id data)) (\<lambda>sp.
      rbind (source_pr_items s data) (\<lambda>pris.
      let pr_ids = remdups (map pri_pr_id pris) in
      rbind (rall (assert_pr_approved s) pr_ids) (\<lambda>_.
      rbind (rall (check_po_item s) (poc_items data)) (\<lambda>_.
      let order_date = (case poc_order_date data of None \<Rightarrow> rq_today ctx | Some x \<Rightarrow> x);
          (no, d1) = next_daily_code SEQ_PURCHASE_ORDER ''PO'' (rq_today ctx) (Some order_date) d;
          pid = auto_inc d1 T_purchase_orders;
          po = \<lparr>po_id = pid, po_no = no, po_supplier_id = sup_id sp, po_buyer_id = cu_id u,
                po_order_date = order_date, po_expected_date = poc_expected_date data,
                po_status = PO_DRAFT, po_total_amount = 0, po_version = 1,
                po_remark = poc_remark data,
                po_created_by = Some (cu_id u), po_updated_by = Some (cu_id u)\<rparr>
      in rbind (insert_po po d1) (\<lambda>d2.
         rbind (rfold (create_po_item pid) (enumerate 1 (poc_items data)) d2) (\<lambda>d3.
         let d4 = flush_po pid (\<lambda>r. r\<lparr>po_total_amount := po_total data\<rparr>) d3;
             d5 = fold flip_pr_to_converted pr_ids d4
         in Inr (po_audit ctx PO_CREATE u po d5))))))))"

section \<open>Confirm and cancel\<close>

definition confirm_po ::
    "request_ctx \<Rightarrow> current_user \<Rightarrow> nat \<Rightarrow> nat \<Rightarrow> db \<Rightarrow> db \<Rightarrow> error + db" where
  "confirm_po ctx u i version s d =
    rbind (load_po i s) (\<lambda>po.
    rbind (assert_po_transition po PO_CONFIRMED) (\<lambda>_.
    rbind (assert_po_version po version) (\<lambda>_.
    rbind (assert_buyer_or_admin po u) (\<lambda>_.
    if po_items i s = [] then Inl (raise_code ConflictException PO_EMPTY_ITEMS)
    else
      rbind (rall (\<lambda>it. check (\<not> poi_unit_price it \<le> 0)
          (raise_code ConflictException PO_UNIT_PRICE_REQUIRED)) (po_items i s)) (\<lambda>_.
      rbind (require (po_where i
          (\<lambda>r. po_version r = version \<and> po_status r = PO_DRAFT)
          (\<lambda>r. r\<lparr>po_status := PO_CONFIRMED, po_updated_by := Some (cu_id u),
                 po_version := po_version r + 1\<rparr>) d)
        (po_concurrent_change d i PO_DRAFT)) (\<lambda>d1.
      let d2 = flush_po i (\<lambda>r. r\<lparr>po_status := PO_CONFIRMED, po_version := po_version po + 1\<rparr>) d1
      in Inr (po_audit ctx PO_CONFIRM u po d2)))))))"

definition po_sources :: "nat \<Rightarrow> db \<Rightarrow> purchase_order_item_source list" where
  "po_sources i s = filter (\<lambda>src. pois_po_item_id src \<in> set (map poi_id (po_items i s)))
    (purchase_order_item_sources s)"

definition give_source :: "purchase_order_item_source \<Rightarrow> db \<Rightarrow> error + db" where
  "give_source src d =
    require (give_converted (pois_pr_item_id src) (pois_quantity src) d)
      (raise_code ConflictException CONFLICT)"

definition source_pr_ids :: "db \<Rightarrow> purchase_order_item_source list \<Rightarrow> nat list" where
  "source_pr_ids s srcs = remdups (map pri_pr_id
    (filter (\<lambda>it. pri_id it \<in> set (map pois_pr_item_id srcs)) (purchase_requisition_items s)))"

definition cancel_po ::
    "request_ctx \<Rightarrow> current_user \<Rightarrow> nat \<Rightarrow> nat \<Rightarrow> db \<Rightarrow> db \<Rightarrow> error + db" where
  "cancel_po ctx u i version s d =
    rbind (load_po i s) (\<lambda>po.
    rbind (assert_po_transition po PO_CANCELLED) (\<lambda>_.
    rbind (assert_po_version po version) (\<lambda>_.
    rbind (assert_buyer_or_admin po u) (\<lambda>_.
    rbind (rall (\<lambda>it. check (\<not> 0 < poi_received_quantity it)
        (raise_code ConflictException PO_CANCEL_HAS_RECEIPT)) (po_items i s)) (\<lambda>_.
    rbind (require (po_where i
        (\<lambda>r. po_version r = version \<and> po_status r \<in> {PO_DRAFT, PO_CONFIRMED})
        (\<lambda>r. r\<lparr>po_status := PO_CANCELLED, po_updated_by := Some (cu_id u),
               po_version := po_version r + 1\<rparr>) d)
      (po_concurrent_change d i (po_status po))) (\<lambda>d1.
    let d2 = flush_po i (\<lambda>r. r\<lparr>po_status := PO_CANCELLED, po_version := po_version po + 1\<rparr>) d1;
        srcs = po_sources i s
    in rbind (rfold give_source srcs d2) (\<lambda>d3.
       let d4 = fold flip_pr_back_to_approved (source_pr_ids s srcs) d3
       in Inr (po_audit ctx PO_CANCEL u po d4))))))))"

section \<open>Reads\<close>

definition read_po :: "current_user \<Rightarrow> nat \<Rightarrow> db \<Rightarrow> error + purchase_order" where
  "read_po u i s =
    rbind (load_po i s) (\<lambda>po. rbind (assert_po_visible u s po) (\<lambda>_. Inr po))"

record po_filter =
  pof_po_no :: "string option"
  pof_supplier_id :: "nat option"
  pof_status :: "po_status option"
  pof_order_date_from :: "date option"
  pof_order_date_to :: "date option"

definition po_matches :: "(string \<Rightarrow> string \<Rightarrow> bool) \<Rightarrow> po_filter \<Rightarrow> purchase_order \<Rightarrow> bool" where
  "po_matches contains f po \<longleftrightarrow>
     text_cond (\<lambda>x. contains x (po_no po)) (pof_po_no f)
   \<and> opt_cond (\<lambda>x. po_supplier_id po = x) (pof_supplier_id f)
   \<and> opt_cond (\<lambda>x. po_status po = x) (pof_status f)
   \<and> opt_cond (\<lambda>x. x \<le> po_order_date po) (pof_order_date_from f)
   \<and> opt_cond (\<lambda>x. po_order_date po \<le> x) (pof_order_date_to f)"

definition list_pos ::
    "(string \<Rightarrow> string \<Rightarrow> bool) \<Rightarrow> current_user \<Rightarrow> nat \<Rightarrow> nat \<Rightarrow> po_filter \<Rightarrow> db \<Rightarrow>
     purchase_order list \<times> nat" where
  "list_pos contains u page page_size f s =
    (let rows = filter (\<lambda>po. visible_po u s (po_id po) \<and> po_matches contains f po)
           (purchase_orders s)
     in (page_of page page_size (rev (sort_key po_id rows)), length rows))"

interpretation converted: bounded_counter
  pri_id pri_converted_quantity pri_requested_quantity convert
  by unfold_locales (simp_all add: convert_def)

end
