(* ===== verification/Order_Facts.thy ===== *)
theory Order_Facts
  imports Order Requisition_Facts
begin

text \<open>
  What the handlers of \<^verbatim>\<open>Order\<close> do to the tables, for every snapshot and every
  live state, and the accounting between requisition lines and order sources.
\<close>

section \<open>Conversion accounts\<close>

text \<open>The quantity recorded as converted, and the quantity that live orders hold.\<close>

definition converted_of :: "db \<Rightarrow> nat \<Rightarrow> decimal" where
  "converted_of d j = sum_over (\<lambda>r. pri_id r = j) pri_converted_quantity (purchase_requisition_items d)"

definition active_source :: "db \<Rightarrow> purchase_order_item_source \<Rightarrow> bool" where
  "active_source d src =
    (case get_poi d (pois_po_item_id src) of
       None \<Rightarrow> False
     | Some poi \<Rightarrow> (case get_po d (poi_po_id poi) of
         None \<Rightarrow> False | Some po \<Rightarrow> po_status po \<noteq> PO_CANCELLED))"

definition sourced_of :: "db \<Rightarrow> nat \<Rightarrow> decimal" where
  "sourced_of d j = sum_over (\<lambda>src. pois_pr_item_id src = j \<and> active_source d src) pois_quantity
    (purchase_order_item_sources d)"

definition converted_accounts :: "db \<Rightarrow> bool" where
  "converted_accounts d \<longleftrightarrow> (\<forall>j. converted_of d j = sourced_of d j)"

text \<open>Keys and foreign keys of the order tables.\<close>

definition po_ids_ok :: "db \<Rightarrow> bool" where
  "po_ids_ok d \<longleftrightarrow> keyed po_id (auto_inc d T_purchase_orders) (purchase_orders d)
    \<and> keyed poi_id (auto_inc d T_purchase_order_items) (purchase_order_items d)
    \<and> keyed pri_id (auto_inc d T_purchase_requisition_items) (purchase_requisition_items d)
    \<and> (\<forall>src\<in>set (purchase_order_item_sources d). get_poi d (pois_po_item_id src) \<noteq> None)
    \<and> (\<forall>poi\<in>set (purchase_order_items d). get_po d (poi_po_id poi) \<noteq> None)"

lemma active_source_cong:
  assumes "map (\<lambda>r. (po_id r, po_status r)) (purchase_orders d') = map (\<lambda>r. (po_id r, po_status r)) (purchase_orders d)"
    and "map (\<lambda>r. (poi_id r, poi_po_id r)) (purchase_order_items d') =
      map (\<lambda>r. (poi_id r, poi_po_id r)) (purchase_order_items d)"
  shows "active_source d' = active_source d"
proof -
  have "map_option po_status (row_by po_id k xs) = map_option po_status (row_by po_id k ys)"
    if "map (\<lambda>r. (po_id r, po_status r)) xs = map (\<lambda>r. (po_id r, po_status r)) ys" for k xs ys
    using that by (induction xs arbitrary: ys) (auto simp: Cons_eq_map_conv)
  from this[OF assms(1)] have po: "map_option po_status (get_po d' k) = map_option po_status (get_po d k)" for k
    by (simp add: get_po_def)
  have "map_option poi_po_id (row_by poi_id k xs) = map_option poi_po_id (row_by poi_id k ys)"
    if "map (\<lambda>r. (poi_id r, poi_po_id r)) xs = map (\<lambda>r. (poi_id r, poi_po_id r)) ys" for k xs ys
    using that by (induction xs arbitrary: ys) (auto simp: Cons_eq_map_conv)
  from this[OF assms(2)] have poi: "map_option poi_po_id (get_poi d' k) = map_option poi_po_id (get_poi d k)" for k
    by (simp add: get_poi_def)
  show ?thesis
  proof
    fix src
    show "active_source d' src = active_source d src"
    proof (cases "get_poi d (pois_po_item_id src)")
      case None
      then have "get_poi d' (pois_po_item_id src) = None" using poi[of "pois_po_item_id src"] by simp
      then show ?thesis using None by (simp add: active_source_def)
    next
      case (Some x)
      then obtain x' where x': "get_poi d' (pois_po_item_id src) = Some x'" "poi_po_id x' = poi_po_id x"
        using poi[of "pois_po_item_id src"] by auto
      then show ?thesis using Some po[of "poi_po_id x"]
        by (cases "get_po d (poi_po_id x)"; cases "get_po d' (poi_po_id x)")
          (simp_all add: active_source_def)
    qed
  qed
qed

lemma converted_of_cong:
  "purchase_requisition_items d' = purchase_requisition_items d \<Longrightarrow> converted_of d' j = converted_of d j"
  by (simp add: converted_of_def)

section \<open>Taking and giving back\<close>

text \<open>What converting leaves of a requisition line.\<close>

definition pri_identity :: "purchase_requisition_item \<Rightarrow>
    nat \<times> nat \<times> nat \<times> nat \<times> decimal \<times> decimal \<times> decimal \<times> date option \<times> string option" where
  "pri_identity r = (pri_id r, pri_pr_id r, pri_line_no r, pri_material_id r, pri_requested_quantity r,
     pri_estimated_unit_price r, pri_estimated_amount r, pri_required_date r, pri_remark r)"

lemma pri_identity_convert [simp]: "pri_identity (convert q r) = pri_identity r"
  by (simp add: pri_identity_def convert_def)

lemma map_pri_id_of_identity:
  assumes "map pri_identity X = map pri_identity Y"
  shows "map pri_id X = map pri_id Y" and "map pri_pr_id X = map pri_pr_id Y"
proof -
  have "map fst (map pri_identity X) = map fst (map pri_identity Y)" using assms by simp
  then show "map pri_id X = map pri_id Y" by (simp add: comp_def pri_identity_def)
  have "map (fst \<circ> snd) (map pri_identity X) = map (fst \<circ> snd) (map pri_identity Y)" using assms by simp
  then show "map pri_pr_id X = map pri_pr_id Y" by (simp add: comp_def pri_identity_def)
qed

lemma converted_of_update:
  assumes "distinct (map pri_id (purchase_requisition_items d))"
    and "cas_rows (\<lambda>r. pri_id r = i \<and> p r) (convert q) (purchase_requisition_items d) = Some rows"
  shows "converted_of (d\<lparr>purchase_requisition_items := rows\<rparr>) j = converted_of d j + (if j = i then q else 0)"
proof -
  from assms(2) obtain r where r: "r \<in> set (purchase_requisition_items d)" "pri_id r = i" "p r"
    and rows: "rows = update_rows (\<lambda>r. pri_id r = i \<and> p r) (convert q) (purchase_requisition_items d)"
    by (auto simp: cas_rows_Some_iff)
  have once: "rows = update_rows (\<lambda>x. pri_id x = pri_id r) (\<lambda>_. convert q r) (purchase_requisition_items d)"
    using update_key_once[OF assms(1) r(1,2), of p "convert q"] r(2,3) rows by simp
  show ?thesis
  proof (cases "j = i")
    case True
    then show ?thesis
      using sum_over_update_key[OF assms(1) r(1), of "\<lambda>r. pri_id r = i" "\<lambda>_. convert q r" pri_converted_quantity] r(2)
      by (simp add: converted_of_def once converted.add_key converted.add_used)
  next
    case False
    then show ?thesis
      using sum_over_update_same[where q = "\<lambda>r. pri_id r = i \<and> p r" and f = "convert q"
          and p = "\<lambda>r. pri_id r = j" and g = pri_converted_quantity]
      by (auto simp: converted_of_def rows converted.add_key)
  qed
qed

lemma take_source_effect:
  assumes "take_source src d = Inr d'" "distinct (map pri_id (purchase_requisition_items d))"
  shows "\<exists>X. d' = d\<lparr>purchase_requisition_items := X\<rparr>"
    and "(\<And>q r. g (convert q r) = g r) \<Longrightarrow>
      map g (purchase_requisition_items d') = map g (purchase_requisition_items d)"
    and "converted_of d' j = converted_of d j + (if j = psc_pr_item_id src then psc_quantity src else 0)"
proof -
  from assms(1) obtain rows where rows: "cas_rows (\<lambda>r. pri_id r = psc_pr_item_id src
      \<and> pri_converted_quantity r + psc_quantity src \<le> pri_requested_quantity r)
      (convert (psc_quantity src)) (purchase_requisition_items d) = Some rows"
    and d': "d' = d\<lparr>purchase_requisition_items := rows\<rparr>"
    by (auto simp: take_source_def take_converted_def)
  show "\<exists>X. d' = d\<lparr>purchase_requisition_items := X\<rparr>" using d' by blast
  show "(\<And>q r. g (convert q r) = g r) \<Longrightarrow>
      map g (purchase_requisition_items d') = map g (purchase_requisition_items d)"
    using rows by (auto simp: d' cas_rows_Some_iff map_update_rows_same)
  show "converted_of d' j = converted_of d j + (if j = psc_pr_item_id src then psc_quantity src else 0)"
    unfolding d' using converted_of_update[OF assms(2) rows] by simp
qed

lemma give_source_effect:
  assumes "give_source src d = Inr d'" "distinct (map pri_id (purchase_requisition_items d))"
  shows "\<exists>X. d' = d\<lparr>purchase_requisition_items := X\<rparr>"
    and "(\<And>q r. g (convert q r) = g r) \<Longrightarrow>
      map g (purchase_requisition_items d') = map g (purchase_requisition_items d)"
    and "converted_of d' j = converted_of d j - (if j = pois_pr_item_id src then pois_quantity src else 0)"
proof -
  from assms(1) obtain rows where rows: "cas_rows (\<lambda>r. pri_id r = pois_pr_item_id src
      \<and> pois_quantity src \<le> pri_converted_quantity r)
      (convert (- pois_quantity src)) (purchase_requisition_items d) = Some rows"
    and d': "d' = d\<lparr>purchase_requisition_items := rows\<rparr>"
    by (auto simp: give_source_def give_converted_def)
  show "\<exists>X. d' = d\<lparr>purchase_requisition_items := X\<rparr>" using d' by blast
  show "(\<And>q r. g (convert q r) = g r) \<Longrightarrow>
      map g (purchase_requisition_items d') = map g (purchase_requisition_items d)"
    using rows by (auto simp: d' cas_rows_Some_iff map_update_rows_same)
  show "converted_of d' j = converted_of d j - (if j = pois_pr_item_id src then pois_quantity src else 0)"
    unfolding d' using converted_of_update[OF assms(2) rows] by simp
qed

lemma take_sources_effect:
  assumes "rfold take_source srcs d = Inr d'" "distinct (map pri_id (purchase_requisition_items d))"
  shows "\<exists>X. d' = d\<lparr>purchase_requisition_items := X\<rparr>"
    and "(\<And>q r. g (convert q r) = g r) \<Longrightarrow>
      map g (purchase_requisition_items d') = map g (purchase_requisition_items d)"
    and "converted_of d' j = converted_of d j + sum_over (\<lambda>x. psc_pr_item_id x = j) psc_quantity srcs"
proof -
  have "(\<exists>X. d' = d\<lparr>purchase_requisition_items := X\<rparr>)
    \<and> ((\<forall>q r. g (convert q r) = g r) \<longrightarrow>
      map g (purchase_requisition_items d') = map g (purchase_requisition_items d))
    \<and> converted_of d' j = converted_of d j + sum_over (\<lambda>x. psc_pr_item_id x = j) psc_quantity srcs"
    using assms
  proof (induction srcs arbitrary: d)
    case Nil
    then show ?case by (auto intro: exI[of _ "purchase_requisition_items d'"])
  next
    case (Cons src srcs)
    then obtain d1 where d1: "take_source src d = Inr d1" "rfold take_source srcs d1 = Inr d'" by auto
    note e = take_source_effect[OF d1(1) Cons.prems(2)]
    have dist: "distinct (map pri_id (purchase_requisition_items d1))"
      using e(2)[of pri_id] Cons.prems(2) by (simp add: converted.add_key)
    show ?case using Cons.IH[OF d1(2) dist] e by (auto simp: algebra_simps)
  qed
  then show "\<exists>X. d' = d\<lparr>purchase_requisition_items := X\<rparr>"
    "(\<And>q r. g (convert q r) = g r) \<Longrightarrow>
      map g (purchase_requisition_items d') = map g (purchase_requisition_items d)"
    "converted_of d' j = converted_of d j + sum_over (\<lambda>x. psc_pr_item_id x = j) psc_quantity srcs"
    by auto
qed

lemma give_sources_effect:
  assumes "rfold give_source srcs d = Inr d'" "distinct (map pri_id (purchase_requisition_items d))"
  shows "\<exists>X. d' = d\<lparr>purchase_requisition_items := X\<rparr>"
    and "(\<And>q r. g (convert q r) = g r) \<Longrightarrow>
      map g (purchase_requisition_items d') = map g (purchase_requisition_items d)"
    and "converted_of d' j = converted_of d j - sum_over (\<lambda>x. pois_pr_item_id x = j) pois_quantity srcs"
proof -
  have "(\<exists>X. d' = d\<lparr>purchase_requisition_items := X\<rparr>)
    \<and> ((\<forall>q r. g (convert q r) = g r) \<longrightarrow>
      map g (purchase_requisition_items d') = map g (purchase_requisition_items d))
    \<and> converted_of d' j = converted_of d j - sum_over (\<lambda>x. pois_pr_item_id x = j) pois_quantity srcs"
    using assms
  proof (induction srcs arbitrary: d)
    case Nil
    then show ?case by (auto intro: exI[of _ "purchase_requisition_items d'"])
  next
    case (Cons src srcs)
    then obtain d1 where d1: "give_source src d = Inr d1" "rfold give_source srcs d1 = Inr d'" by auto
    note e = give_source_effect[OF d1(1) Cons.prems(2)]
    have dist: "distinct (map pri_id (purchase_requisition_items d1))"
      using e(2)[of pri_id] Cons.prems(2) by (simp add: converted.add_key)
    show ?case using Cons.IH[OF d1(2) dist] e by (auto simp: algebra_simps)
  qed
  then show "\<exists>X. d' = d\<lparr>purchase_requisition_items := X\<rparr>"
    "(\<And>q r. g (convert q r) = g r) \<Longrightarrow>
      map g (purchase_requisition_items d') = map g (purchase_requisition_items d)"
    "converted_of d' j = converted_of d j - sum_over (\<lambda>x. pois_pr_item_id x = j) pois_quantity srcs"
    by auto
qed

section \<open>Rows that are inserted\<close>

lemma insert_po_Inr:
  assumes "insert_po r d = Inr d'"
  shows "d' = d\<lparr>purchase_orders := purchase_orders d @ [r\<lparr>po_id := auto_inc d T_purchase_orders\<rparr>],
      auto_inc := (auto_inc d)(T_purchase_orders := Suc (auto_inc d T_purchase_orders))\<rparr>"
    and "\<And>x. x \<in> set (purchase_orders d) \<Longrightarrow> po_no x \<noteq> po_no r"
  using assms by (auto simp: insert_po_def list_ex_iff split: if_splits)

lemma insert_poi_Inr:
  assumes "insert_poi r d = Inr d'"
  shows "d' = d\<lparr>purchase_order_items := purchase_order_items d @
        [r\<lparr>poi_id := auto_inc d T_purchase_order_items\<rparr>],
      auto_inc := (auto_inc d)(T_purchase_order_items := Suc (auto_inc d T_purchase_order_items))\<rparr>"
    and "poi_checks r"
  using assms by (auto simp: insert_poi_def list_ex_iff split: if_splits)

lemma insert_sources_effect:
  assumes "rfold (\<lambda>src. insert_pois (new_source poi src)) srcs d = Inr d'"
  shows "\<exists>ns Y. d' = d\<lparr>purchase_order_item_sources := purchase_order_item_sources d @ ns, auto_inc := Y\<rparr>
    \<and> map (\<lambda>x. x\<lparr>pois_id := 0\<rparr>) ns = map (new_source poi) srcs
    \<and> (\<forall>t. t \<noteq> T_purchase_order_item_sources \<longrightarrow> Y t = auto_inc d t)"
  using assms
proof (induction srcs arbitrary: d)
  case Nil
  have "d = d\<lparr>purchase_order_item_sources := purchase_order_item_sources d @ [], auto_inc := auto_inc d\<rparr>"
    by simp
  then show ?case using Nil by (metis list.simps(8) rfold.simps(1) sum.inject(2))
next
  case (Cons src srcs)
  then obtain d1 where d1: "insert_pois (new_source poi src) d = Inr d1"
    "rfold (\<lambda>src. insert_pois (new_source poi src)) srcs d1 = Inr d'" by auto
  let ?n = "(new_source poi src)\<lparr>pois_id := auto_inc d T_purchase_order_item_sources\<rparr>"
  have e: "d1 = d\<lparr>purchase_order_item_sources := purchase_order_item_sources d @ [?n],
      auto_inc := (auto_inc d)(T_purchase_order_item_sources := Suc (auto_inc d T_purchase_order_item_sources))\<rparr>"
    using d1(1) by (simp add: insert_pois_def split: if_splits)
  from Cons.IH[OF d1(2)] obtain ns Y where
    "d' = d1\<lparr>purchase_order_item_sources := purchase_order_item_sources d1 @ ns, auto_inc := Y\<rparr>"
    "map (\<lambda>x. x\<lparr>pois_id := 0\<rparr>) ns = map (new_source poi) srcs"
    "\<forall>t. t \<noteq> T_purchase_order_item_sources \<longrightarrow> Y t = auto_inc d1 t" by blast
  then show ?case
    by (intro exI[of _ "?n # ns"] exI[of _ Y]) (simp add: e new_source_def)
qed

lemma inserted_sources:
  assumes "map (\<lambda>x. x\<lparr>pois_id := 0\<rparr>) ns = map (new_source k) srcs"
  shows "\<forall>x\<in>set ns. pois_po_item_id x = k"
    and "sum_over (\<lambda>x. pois_pr_item_id x = j) pois_quantity ns =
      sum_over (\<lambda>x. psc_pr_item_id x = j) psc_quantity srcs"
proof -
  have "(\<forall>x\<in>set ns. pois_po_item_id x = k) \<and> sum_over (\<lambda>x. pois_pr_item_id x = j) pois_quantity ns =
      sum_over (\<lambda>x. psc_pr_item_id x = j) psc_quantity srcs"
    using assms
  proof (induction ns arbitrary: srcs)
    case (Cons n ns)
    then obtain src srcs' where srcs: "srcs = src # srcs'" "n\<lparr>pois_id := 0\<rparr> = new_source k src"
      "map (\<lambda>x. x\<lparr>pois_id := 0\<rparr>) ns = map (new_source k) srcs'" by (cases srcs) auto
    have "pois_po_item_id n = k \<and> pois_pr_item_id n = psc_pr_item_id src \<and> pois_quantity n = psc_quantity src"
      using srcs(2) by (cases n) (simp add: new_source_def)
    then show ?case using Cons.IH[OF srcs(3)] srcs(1) by simp
  qed simp
  then show "\<forall>x\<in>set ns. pois_po_item_id x = k"
    "sum_over (\<lambda>x. pois_pr_item_id x = j) pois_quantity ns =
      sum_over (\<lambda>x. psc_pr_item_id x = j) psc_quantity srcs" by auto
qed

lemma create_po_item_tables:
  assumes "create_po_item pid li d = Inr d'" "distinct (map pri_id (purchase_requisition_items d))"
  obtains n ns X Y where
    "d' = d\<lparr>purchase_requisition_items := X,
       purchase_order_items := purchase_order_items d @ [n],
       purchase_order_item_sources := purchase_order_item_sources d @ ns, auto_inc := Y\<rparr>"
    "n = (new_po_item pid li)\<lparr>poi_id := auto_inc d T_purchase_order_items\<rparr>" "poi_checks n"
    "map (\<lambda>x. x\<lparr>pois_id := 0\<rparr>) ns = map (new_source (poi_id n)) (poic_sources (snd li))"
    "Y T_purchase_order_items = Suc (auto_inc d T_purchase_order_items)"
    "\<forall>t. t \<noteq> T_purchase_order_items \<longrightarrow> t \<noteq> T_purchase_order_item_sources \<longrightarrow> Y t = auto_inc d t"
    "map pri_identity X = map pri_identity (purchase_requisition_items d)"
    "\<forall>j. converted_of d' j = converted_of d j +
      sum_over (\<lambda>x. psc_pr_item_id x = j) psc_quantity (poic_sources (snd li))"
proof -
  let ?k = "auto_inc d T_purchase_order_items"
  obtain d1 d2 where
    d1: "insert_poi (new_po_item pid li) d = Inr d1"
    and d2: "rfold take_source (poic_sources (snd li)) d1 = Inr d2"
    and d': "rfold (\<lambda>src. insert_pois (new_source ?k src)) (poic_sources (snd li)) d2 = Inr d'"
    using assms(1) by (auto simp: create_po_item_def Let_def)
  note e1 = insert_poi_Inr[OF d1]
  have "distinct (map pri_id (purchase_requisition_items d1))" using assms(2) by (simp add: e1(1))
  note e2 = take_sources_effect[OF d2 this]
  obtain X where X: "d2 = d1\<lparr>purchase_requisition_items := X\<rparr>" using e2(1) by blast
  from insert_sources_effect[OF d'] obtain ns Y where
    e3: "d' = d2\<lparr>purchase_order_item_sources := purchase_order_item_sources d2 @ ns, auto_inc := Y\<rparr>"
    "map (\<lambda>x. x\<lparr>pois_id := 0\<rparr>) ns = map (new_source ?k) (poic_sources (snd li))"
    "\<forall>t. t \<noteq> T_purchase_order_item_sources \<longrightarrow> Y t = auto_inc d2 t" by blast
  have same: "purchase_requisition_items d1 = purchase_requisition_items d" by (simp add: e1(1))
  have co: "converted_of d' j = converted_of d2 j" "converted_of d1 j = converted_of d j" for j
    by (rule converted_of_cong, simp add: e3(1)) (rule converted_of_cong, simp add: same)
  show ?thesis
  proof (rule that)
    show "d' = d\<lparr>purchase_requisition_items := X,
       purchase_order_items := purchase_order_items d @ [(new_po_item pid li)\<lparr>poi_id := ?k\<rparr>],
       purchase_order_item_sources := purchase_order_item_sources d @ ns, auto_inc := Y\<rparr>"
      by (simp add: e3(1) X e1(1))
    show "map pri_identity X = map pri_identity (purchase_requisition_items d)"
      using e2(2)[of pri_identity] by (simp add: X same)
    show "\<forall>j. converted_of d' j = converted_of d j +
      sum_over (\<lambda>x. psc_pr_item_id x = j) psc_quantity (poic_sources (snd li))"
      using e2(3) co by simp
  qed (use e3 e1(2) in \<open>auto simp: X e1(1) poi_checks_def\<close>)
qed

lemma po_ids_pri_distinct:
  "po_ids_ok d \<Longrightarrow> distinct (map pri_id (purchase_requisition_items d))"
  unfolding po_ids_ok_def by (blast dest: keyed_distinct)

lemma create_po_item_accounts:
  assumes "create_po_item pid li d = Inr d'" "po_ids_ok d"
    and "get_po d pid = Some po" "po_status po \<noteq> PO_CANCELLED"
  shows "po_ids_ok d'" and "purchase_orders d' = purchase_orders d"
    and "converted_of d' j - sourced_of d' j = converted_of d j - sourced_of d j"
proof -
  obtain n ns X Y where
    d': "d' = d\<lparr>purchase_requisition_items := X,
       purchase_order_items := purchase_order_items d @ [n],
       purchase_order_item_sources := purchase_order_item_sources d @ ns, auto_inc := Y\<rparr>"
    and n: "n = (new_po_item pid li)\<lparr>poi_id := auto_inc d T_purchase_order_items\<rparr>"
    and chk: "poi_checks n"
    and ns: "map (\<lambda>x. x\<lparr>pois_id := 0\<rparr>) ns = map (new_source (poi_id n)) (poic_sources (snd li))"
    and Y: "Y T_purchase_order_items = Suc (auto_inc d T_purchase_order_items)"
      "\<forall>t. t \<noteq> T_purchase_order_items \<longrightarrow> t \<noteq> T_purchase_order_item_sources \<longrightarrow> Y t = auto_inc d t"
    and Xi: "map pri_identity X = map pri_identity (purchase_requisition_items d)"
    and co: "\<forall>j. converted_of d' j = converted_of d j +
      sum_over (\<lambda>x. psc_pr_item_id x = j) psc_quantity (poic_sources (snd li))"
    by (rule create_po_item_tables[OF assms(1) po_ids_pri_distinct[OF assms(2)]])
  note X = map_pri_id_of_identity(1)[OF Xi]
  note ok = assms(2)[unfolded po_ids_ok_def]
  have nid: "poi_id n = auto_inc d T_purchase_order_items" "poi_po_id n = pid"
    by (simp_all add: n new_po_item_def)
  show pos: "purchase_orders d' = purchase_orders d" by (simp add: d')
  have tabs: "purchase_order_items d' = purchase_order_items d @ [n]"
    "purchase_order_item_sources d' = purchase_order_item_sources d @ ns" by (simp_all add: d')
  have get_po: "get_po d' k = get_po d k" for k by (simp add: get_po_def pos)
  have fresh: "get_poi d (poi_id n) = None" using ok nid by (simp add: get_poi_def keyed_fresh)
  have poi: "get_poi d' k = (if k = poi_id n then Some n else get_poi d k)" for k
    using fresh by (auto simp: get_poi_def d' row_by_append split: option.splits)
  have old: "active_source d' src = active_source d src"
    if "src \<in> set (purchase_order_item_sources d)" for src
  proof -
    have "pois_po_item_id src \<noteq> poi_id n" using ok that fresh by auto
    then show ?thesis by (simp add: active_source_def poi get_po split: option.split)
  qed
  have new: "active_source d' src" if "src \<in> set ns" for src
    using inserted_sources(1)[OF ns] that assms(3,4) nid(2) by (simp add: active_source_def poi get_po)
  show "po_ids_ok d'"
    unfolding po_ids_ok_def
  proof (intro conjI)
    show "keyed po_id (auto_inc d' T_purchase_orders) (purchase_orders d')"
      using ok by (simp add: d' Y)
    show "keyed poi_id (auto_inc d' T_purchase_order_items) (purchase_order_items d')"
      using ok nid(1) by (simp add: d' Y keyed_append)
    show "keyed pri_id (auto_inc d' T_purchase_requisition_items) (purchase_requisition_items d')"
      using ok X keyed_cong[OF X] by (simp add: d' Y)
    show "\<forall>src\<in>set (purchase_order_item_sources d'). get_poi d' (pois_po_item_id src) \<noteq> None"
      using ok inserted_sources(1)[OF ns] by (auto simp: poi tabs)
    show "\<forall>poi\<in>set (purchase_order_items d'). get_po d' (poi_po_id poi) \<noteq> None"
      using ok assms(3) nid(2) by (auto simp: get_po tabs)
  qed
  have "sourced_of d' j = sourced_of d j + sum_over (\<lambda>x. psc_pr_item_id x = j) psc_quantity (poic_sources (snd li))"
  proof -
    have "sum_over (\<lambda>src. pois_pr_item_id src = j \<and> active_source d' src) pois_quantity (purchase_order_item_sources d)
        = sourced_of d j"
      unfolding sourced_of_def by (rule sum_over_cong) (simp_all add: old)
    moreover have "sum_over (\<lambda>src. pois_pr_item_id src = j \<and> active_source d' src) pois_quantity ns =
        sum_over (\<lambda>src. pois_pr_item_id src = j) pois_quantity ns"
      by (rule sum_over_cong) (simp_all add: new)
    ultimately show ?thesis
      using inserted_sources(2)[OF ns, of j] by (simp add: sourced_of_def d')
  qed
  then show "converted_of d' j - sourced_of d' j = converted_of d j - sourced_of d j"
    using co by simp
qed

lemma create_po_items_accounts:
  assumes "rfold (create_po_item pid) lis d = Inr d'" "po_ids_ok d"
    and "get_po d pid = Some po" "po_status po \<noteq> PO_CANCELLED"
  shows "po_ids_ok d'" and "purchase_orders d' = purchase_orders d"
    and "converted_of d' j - sourced_of d' j = converted_of d j - sourced_of d j"
proof -
  let ?P = "\<lambda>x. po_ids_ok x \<and> purchase_orders x = purchase_orders d
    \<and> converted_of x j - sourced_of x j = converted_of d j - sourced_of d j"
  have "?P d'"
  proof (rule rfold_invariant[OF assms(1), where P = ?P])
    fix li s s' assume s: "?P s" "create_po_item pid li s = Inr s'"
    then have "get_po s pid = Some po" using assms(3) by (simp add: get_po_def)
    then show "?P s'" using create_po_item_accounts[OF s(2) _ _ assms(4)] s(1) by simp
  qed (use assms(2) in simp)
  then show "po_ids_ok d'" "purchase_orders d' = purchase_orders d"
    "converted_of d' j - sourced_of d' j = converted_of d j - sourced_of d j" by auto
qed

text \<open>The stored lines are the lines of the request, numbered from one.\<close>

lemma create_po_items_rows:
  assumes "rfold (create_po_item pid) lis d = Inr d'" "distinct (map pri_id (purchase_requisition_items d))"
  shows "\<exists>ns X Y Z. d' = d\<lparr>purchase_requisition_items := X,
       purchase_order_items := purchase_order_items d @ ns,
       purchase_order_item_sources := Y, auto_inc := Z\<rparr>
     \<and> map (\<lambda>x. x\<lparr>poi_id := 0\<rparr>) ns = map (new_po_item pid) lis
     \<and> list_all poi_checks ns
     \<and> map pri_identity X = map pri_identity (purchase_requisition_items d)
     \<and> (\<forall>t. t \<noteq> T_purchase_order_items \<longrightarrow> t \<noteq> T_purchase_order_item_sources \<longrightarrow> Z t = auto_inc d t)"
  using assms
proof (induction lis arbitrary: d)
  case Nil
  then show ?case
    by (intro exI[of _ "[]"] exI[of _ "purchase_requisition_items d"]
        exI[of _ "purchase_order_item_sources d"] exI[of _ "auto_inc d"]) simp
next
  case (Cons li lis)
  from Cons.prems(1) obtain d1 where d1: "create_po_item pid li d = Inr d1"
    "rfold (create_po_item pid) lis d1 = Inr d'" by auto
  obtain n ns X Y where
    e: "d1 = d\<lparr>purchase_requisition_items := X,
       purchase_order_items := purchase_order_items d @ [n],
       purchase_order_item_sources := purchase_order_item_sources d @ ns, auto_inc := Y\<rparr>"
    "n = (new_po_item pid li)\<lparr>poi_id := auto_inc d T_purchase_order_items\<rparr>" "poi_checks n"
    and ns: "map (\<lambda>x. x\<lparr>pois_id := 0\<rparr>) ns = map (new_source (poi_id n)) (poic_sources (snd li))"
    and Y1: "Y T_purchase_order_items = Suc (auto_inc d T_purchase_order_items)"
    and Y: "\<forall>t. t \<noteq> T_purchase_order_items \<longrightarrow> t \<noteq> T_purchase_order_item_sources \<longrightarrow> Y t = auto_inc d t"
    and X: "map pri_identity X = map pri_identity (purchase_requisition_items d)"
    and "\<forall>j. converted_of d1 j = converted_of d j +
      sum_over (\<lambda>x. psc_pr_item_id x = j) psc_quantity (poic_sources (snd li))"
    by (rule create_po_item_tables[OF d1(1) Cons.prems(2)])
  have "map pri_id X = map pri_id (purchase_requisition_items d)"
    using map_pri_id_of_identity(1)[OF X] .
  then have "distinct (map pri_id (purchase_requisition_items d1))" using Cons.prems(2) by (simp add: e(1))
  from Cons.IH[OF d1(2) this] obtain ns' X' Y' Z' where IH:
    "d' = d1\<lparr>purchase_requisition_items := X',
       purchase_order_items := purchase_order_items d1 @ ns',
       purchase_order_item_sources := Y', auto_inc := Z'\<rparr>"
    "map (\<lambda>x. x\<lparr>poi_id := 0\<rparr>) ns' = map (new_po_item pid) lis" "list_all poi_checks ns'"
    "map pri_identity X' = map pri_identity (purchase_requisition_items d1)"
    "\<forall>t. t \<noteq> T_purchase_order_items \<longrightarrow> t \<noteq> T_purchase_order_item_sources \<longrightarrow> Z' t = auto_inc d1 t"
    by blast
  have "d' = d\<lparr>purchase_requisition_items := X',
       purchase_order_items := purchase_order_items d @ n # ns',
       purchase_order_item_sources := Y', auto_inc := Z'\<rparr>"
    by (simp only: IH(1) e(1)) simp
  moreover have "map (\<lambda>x. x\<lparr>poi_id := 0\<rparr>) (n # ns') = map (new_po_item pid) (li # lis)"
    using IH(2) by (simp add: e(2) new_po_item_def)
  moreover have "list_all poi_checks (n # ns')" using IH(3) e(3) by simp
  moreover have "map pri_identity X' = map pri_identity (purchase_requisition_items d)"
    using IH(4) X by (simp add: e(1))
  moreover have "Z' t = auto_inc d t" if "t \<noteq> T_purchase_order_items" "t \<noteq> T_purchase_order_item_sources" for t
    using IH(5) Y that by (simp add: e(1))
  ultimately show ?case by blast
qed

section \<open>Order headers\<close>

definition put_po :: "purchase_order \<Rightarrow> db \<Rightarrow> db" where
  "put_po r d = d\<lparr>purchase_orders :=
    update_rows (\<lambda>x. po_id x = po_id r) (\<lambda>_. r) (purchase_orders d)\<rparr>"

lemma get_po_id: "get_po d i = Some r \<Longrightarrow> po_id r = i"
  by (auto simp: get_po_def dest: row_by_SomeD)

lemma get_put_po:
  "get_po d (po_id r) \<noteq> None \<Longrightarrow>
    get_po (put_po r d) k = (if k = po_id r then Some r else get_po d k)"
  by (simp add: get_po_def put_po_def row_by_update_key)

lemma put_po_frame: "\<exists>X. put_po r d = d\<lparr>purchase_orders := X\<rparr>"
  by (auto simp: put_po_def)

lemma put_po_preserves [simp]:
  "purchase_requisition_items (put_po r d) = purchase_requisition_items d"
  "purchase_requisitions (put_po r d) = purchase_requisitions d"
  "purchase_order_items (put_po r d) = purchase_order_items d"
  "purchase_order_item_sources (put_po r d) = purchase_order_item_sources d"
  "auto_inc (put_po r d) = auto_inc d"
  by (simp_all add: put_po_def)

lemma put_po_ids: "map po_id (purchase_orders (put_po r d)) = map po_id (purchase_orders d)"
  by (auto simp: put_po_def intro: map_update_rows_same)

lemma claim_po:
  assumes "po_where i p f d = Some d1" "distinct (map po_id (purchase_orders d))"
    and "\<And>r. po_id (f r) = po_id r" and "\<And>r. po_id (g r) = po_id r"
  obtains r where "get_po d i = Some r" "p r" "flush_po i g d1 = put_po (g (f r)) d"
proof -
  from assms(1) obtain rows where rows: "cas_rows (\<lambda>r. po_id r = i \<and> p r) f (purchase_orders d) = Some rows"
    and d1: "d1 = d\<lparr>purchase_orders := rows\<rparr>"
    by (auto simp: po_where_def)
  from rows obtain r where r: "r \<in> set (purchase_orders d)" "po_id r = i" "p r"
    and u: "rows = update_rows (\<lambda>r. po_id r = i \<and> p r) f (purchase_orders d)"
    by (auto simp: cas_rows_Some_iff)
  have "flush_po i g d1 = put_po (g (f r)) d"
    using update_key_twice[where key = po_id, OF assms(2) r(1,2), of p f g] r(3) d1 u r(2)
    by (simp add: flush_po_def put_po_def assms(3,4))
  moreover have "get_po d i = Some r"
    using assms(2) r by (simp add: get_po_def row_by_eq_distinct)
  ultimately show ?thesis using that r(3) by blast
qed

lemma po_audit_preserves [simp]:
  "purchase_requisitions (po_audit ctx a u po d) = purchase_requisitions d"
  "purchase_requisition_items (po_audit ctx a u po d) = purchase_requisition_items d"
  "purchase_orders (po_audit ctx a u po d) = purchase_orders d"
  "purchase_order_items (po_audit ctx a u po d) = purchase_order_items d"
  "purchase_order_item_sources (po_audit ctx a u po d) = purchase_order_item_sources d"
  "t \<noteq> T_operation_logs \<Longrightarrow> auto_inc (po_audit ctx a u po d) t = auto_inc d t"
  by (simp_all add: po_audit_def)

section \<open>Flipping the requisition headers\<close>

lemma not_fully_converted_cong:
  "purchase_requisition_items d' = purchase_requisition_items d \<Longrightarrow>
    not_fully_converted i d' = not_fully_converted i d"
  by (simp add: not_fully_converted_def)

lemma flip_frame:
  "\<exists>X. flip_pr_to_converted i d = d\<lparr>purchase_requisitions := X\<rparr>"
  "\<exists>X. flip_pr_back_to_approved i d = d\<lparr>purchase_requisitions := X\<rparr>"
proof -
  have "d = d\<lparr>purchase_requisitions := purchase_requisitions d\<rparr>" by simp
  then show "\<exists>X. flip_pr_to_converted i d = d\<lparr>purchase_requisitions := X\<rparr>"
    "\<exists>X. flip_pr_back_to_approved i d = d\<lparr>purchase_requisitions := X\<rparr>"
    unfolding flip_pr_to_converted_def flip_pr_back_to_approved_def by metis+
qed

lemma fold_flip_frame:
  "\<exists>X. fold flip_pr_to_converted is d = d\<lparr>purchase_requisitions := X\<rparr>"
  "\<exists>X. fold flip_pr_back_to_approved is d = d\<lparr>purchase_requisitions := X\<rparr>"
proof -
  have refl: "\<exists>X. d = d\<lparr>purchase_requisitions := X\<rparr>" for d :: db
    by (rule exI[of _ "purchase_requisitions d"]) simp
  show "\<exists>X. fold flip_pr_to_converted is d = d\<lparr>purchase_requisitions := X\<rparr>"
  proof (induction "is" arbitrary: d)
    case (Cons i "is")
    obtain X where X: "flip_pr_to_converted i d = d\<lparr>purchase_requisitions := X\<rparr>" using flip_frame by blast
    obtain Y where "fold flip_pr_to_converted is (flip_pr_to_converted i d) =
        (flip_pr_to_converted i d)\<lparr>purchase_requisitions := Y\<rparr>" using Cons by blast
    then show ?case by (intro exI[of _ Y]) (simp add: X)
  qed (simp add: refl)
  show "\<exists>X. fold flip_pr_back_to_approved is d = d\<lparr>purchase_requisitions := X\<rparr>"
  proof (induction "is" arbitrary: d)
    case (Cons i "is")
    obtain X where X: "flip_pr_back_to_approved i d = d\<lparr>purchase_requisitions := X\<rparr>" using flip_frame by blast
    obtain Y where "fold flip_pr_back_to_approved is (flip_pr_back_to_approved i d) =
        (flip_pr_back_to_approved i d)\<lparr>purchase_requisitions := Y\<rparr>" using Cons by blast
    then show ?case by (intro exI[of _ Y]) (simp add: X)
  qed (simp add: refl)
qed

lemma flip_pr_to_converted_row:
  "get_pr (flip_pr_to_converted i d) j = map_option
    (\<lambda>r. if j = i \<and> pr_status r = PR_APPROVED \<and> \<not> not_fully_converted i d
         then r\<lparr>pr_status := PR_CONVERTED\<rparr> else r) (get_pr d j)"
  by (cases "get_pr d j")
    (auto simp: flip_pr_to_converted_def get_pr_def row_by_update_rows dest: row_by_SomeD)

lemma flip_pr_back_to_approved_row:
  "get_pr (flip_pr_back_to_approved i d) j = map_option
    (\<lambda>r. if j = i \<and> pr_status r = PR_CONVERTED \<and> not_fully_converted i d
         then r\<lparr>pr_status := PR_APPROVED\<rparr> else r) (get_pr d j)"
  by (cases "get_pr d j")
    (auto simp: flip_pr_back_to_approved_def get_pr_def row_by_update_rows dest: row_by_SomeD)

lemma fold_flip_to_converted_row:
  "get_pr (fold flip_pr_to_converted is d) j = map_option
    (\<lambda>r. if j \<in> set is \<and> pr_status r = PR_APPROVED \<and> \<not> not_fully_converted j d
         then r\<lparr>pr_status := PR_CONVERTED\<rparr> else r) (get_pr d j)"
proof (induction "is" arbitrary: d)
  case (Cons i "is")
  have "not_fully_converted j (flip_pr_to_converted i d) = not_fully_converted j d"
    using flip_frame(1)[of i d] by (auto simp: not_fully_converted_def)
  then show ?case
    by (cases "get_pr d j") (simp_all add: Cons.IH flip_pr_to_converted_row)
qed (simp add: option.map_ident)

lemma fold_flip_back_row:
  "get_pr (fold flip_pr_back_to_approved is d) j = map_option
    (\<lambda>r. if j \<in> set is \<and> pr_status r = PR_CONVERTED \<and> not_fully_converted j d
         then r\<lparr>pr_status := PR_APPROVED\<rparr> else r) (get_pr d j)"
proof (induction "is" arbitrary: d)
  case (Cons i "is")
  have "not_fully_converted j (flip_pr_back_to_approved i d) = not_fully_converted j d"
    using flip_frame(2)[of i d] by (auto simp: not_fully_converted_def)
  then show ?case
    by (cases "get_pr d j") (simp_all add: Cons.IH flip_pr_back_to_approved_row)
qed (simp add: option.map_ident)

section \<open>Effect of each handler\<close>

lemma confirm_po_effect:
  assumes "confirm_po ctx u i v s d = Inr d'" "po_ids_ok d"
  obtains po r where
    "get_po s i = Some po" "po_status po = PO_DRAFT" "po_version po = v"
    "cu_role_code u = Some ROLE_ADMIN \<or> po_buyer_id po = cu_id u" "po_items i s \<noteq> []"
    "\<forall>it\<in>set (po_items i s). 0 < poi_unit_price it"
    "get_po d i = Some r" "po_version r = v \<and> po_status r = PO_DRAFT"
    "d' = po_audit ctx PO_CONFIRM u po (put_po (r\<lparr>po_status := PO_CONFIRMED,
       po_updated_by := Some (cu_id u), po_version := Suc v\<rparr>) d)"
proof -
  from assms(1)[unfolded confirm_po_def Let_def, simplified]
  obtain po d2 where
    h: "get_po s i = Some po" "PO_CONFIRMED \<in> set (po_transitions (po_status po))" "po_version po = v"
      "cu_role_code u = Some ROLE_ADMIN \<or> po_buyer_id po = cu_id u" "po_items i s \<noteq> []"
      "\<forall>it\<in>set (po_items i s). \<not> poi_unit_price it \<le> 0"
    and w: "po_where i (\<lambda>r. po_version r = v \<and> po_status r = PO_DRAFT)
        (\<lambda>r. r\<lparr>po_status := PO_CONFIRMED, po_updated_by := Some (cu_id u),
               po_version := Suc (po_version r)\<rparr>) d = Some d2"
    and d': "po_audit ctx PO_CONFIRM u po (flush_po i (\<lambda>r. r\<lparr>po_status := PO_CONFIRMED,
        po_version := Suc (po_version po)\<rparr>) d2) = d'"
    (is "po_audit _ _ _ _ (flush_po i ?g d2) = d'")
    by (auto simp: not_le)
  have st: "po_status po = PO_DRAFT" using h(2) by (cases "po_status po") auto
  have dist: "distinct (map po_id (purchase_orders d))"
    using assms(2) unfolding po_ids_ok_def by (blast dest: keyed_distinct)
  obtain r where r: "get_po d i = Some r" "po_version r = v \<and> po_status r = PO_DRAFT"
    and e: "flush_po i ?g d2 = put_po (?g (r\<lparr>po_status := PO_CONFIRMED, po_updated_by := Some (cu_id u),
               po_version := Suc (po_version r)\<rparr>)) d"
    by (rule claim_po[OF w dist, where g = ?g]) simp_all
  have "?g (r\<lparr>po_status := PO_CONFIRMED, po_updated_by := Some (cu_id u),
               po_version := Suc (po_version r)\<rparr>) =
     r\<lparr>po_status := PO_CONFIRMED, po_updated_by := Some (cu_id u), po_version := Suc v\<rparr>"
    using h(3) by (cases r) simp
  moreover have "\<forall>it\<in>set (po_items i s). 0 < poi_unit_price it" using h(6) by (simp add: not_le)
  ultimately show ?thesis
    by (intro that[OF h(1) st h(3-5) _ r]) (simp_all only: e d'[symmetric])
qed

lemma cancel_po_effect:
  assumes "cancel_po ctx u i v s d = Inr d'" "po_ids_ok d"
  obtains po r d3 where
    "get_po s i = Some po" "PO_CANCELLED \<in> set (po_transitions (po_status po))" "po_version po = v"
    "cu_role_code u = Some ROLE_ADMIN \<or> po_buyer_id po = cu_id u"
    "\<forall>it\<in>set (po_items i s). \<not> 0 < poi_received_quantity it"
    "get_po d i = Some r" "po_version r = v \<and> (po_status r = PO_DRAFT \<or> po_status r = PO_CONFIRMED)"
    "rfold give_source (po_sources i s) (put_po (r\<lparr>po_status := PO_CANCELLED,
       po_updated_by := Some (cu_id u), po_version := Suc v\<rparr>) d) = Inr d3"
    "d' = po_audit ctx PO_CANCEL u po
      (fold flip_pr_back_to_approved (source_pr_ids s (po_sources i s)) d3)"
proof -
  from assms(1)[unfolded cancel_po_def Let_def, simplified]
  obtain po d2 d3 where
    h: "get_po s i = Some po" "PO_CANCELLED \<in> set (po_transitions (po_status po))" "po_version po = v"
      "cu_role_code u = Some ROLE_ADMIN \<or> po_buyer_id po = cu_id u"
      "\<forall>it\<in>set (po_items i s). \<not> 0 < poi_received_quantity it"
    and w: "po_where i (\<lambda>r. po_version r = v \<and> (po_status r = PO_DRAFT \<or> po_status r = PO_CONFIRMED))
        (\<lambda>r. r\<lparr>po_status := PO_CANCELLED, po_updated_by := Some (cu_id u),
               po_version := Suc (po_version r)\<rparr>) d = Some d2"
    and g: "rfold give_source (po_sources i s) (flush_po i (\<lambda>r. r\<lparr>po_status := PO_CANCELLED,
        po_version := Suc (po_version po)\<rparr>) d2) = Inr d3"
      (is "rfold _ _ (flush_po i ?g d2) = _")
    and d': "po_audit ctx PO_CANCEL u po
      (fold flip_pr_back_to_approved (source_pr_ids s (po_sources i s)) d3) = d'"
    by (auto simp: not_le)
  have dist: "distinct (map po_id (purchase_orders d))"
    using assms(2) unfolding po_ids_ok_def by (blast dest: keyed_distinct)
  obtain r where r: "get_po d i = Some r"
      "po_version r = v \<and> (po_status r = PO_DRAFT \<or> po_status r = PO_CONFIRMED)"
    and e: "flush_po i ?g d2 = put_po (?g (r\<lparr>po_status := PO_CANCELLED, po_updated_by := Some (cu_id u),
               po_version := Suc (po_version r)\<rparr>)) d"
    by (rule claim_po[OF w dist, where g = ?g]) simp_all
  have "?g (r\<lparr>po_status := PO_CANCELLED, po_updated_by := Some (cu_id u),
               po_version := Suc (po_version r)\<rparr>) =
     r\<lparr>po_status := PO_CANCELLED, po_updated_by := Some (cu_id u), po_version := Suc v\<rparr>"
    using h(3) by (cases r) simp
  then show ?thesis
    by (intro that[OF h r]) (use g e d'[symmetric] in simp_all)
qed

lemma create_po_effect:
  assumes "create_po ctx u data s d = Inr d'" "po_ids_ok d"
  obtains sp pris po d1 d2 d3 where
    "assert_supplier_active s (poc_supplier_id data) = Inr sp"
    "source_pr_items s data = Inr pris"
    "\<forall>i\<in>set (map pri_pr_id pris). assert_pr_approved s i = Inr ()"
    "\<forall>it\<in>set (poc_items data). check_po_item s it = Inr ()"
    "poc_items data \<noteq> []"
    "\<exists>X Y. d1 = d\<lparr>number_sequences := X, auto_inc := Y\<rparr>"
    "\<forall>t. t \<noteq> T_number_sequences \<longrightarrow> auto_inc d1 t = auto_inc d t"
    "po_id po = auto_inc d T_purchase_orders" "po_status po = PO_DRAFT" "po_version po = 1"
    "po_buyer_id po = cu_id u" "po_supplier_id po = sup_id sp" "po_total_amount po = 0"
    "d2 = d1\<lparr>purchase_orders := purchase_orders d @ [po],
       auto_inc := (auto_inc d1)(T_purchase_orders := Suc (auto_inc d T_purchase_orders))\<rparr>"
    "rfold (create_po_item (po_id po)) (enumerate 1 (poc_items data)) d2 = Inr d3"
    "d' = po_audit ctx PO_CREATE u po (fold flip_pr_to_converted (remdups (map pri_pr_id pris))
       (put_po (po\<lparr>po_total_amount := po_total data\<rparr>) d3))"
    "\<forall>x\<in>set (purchase_orders d). po_no x \<noteq> po_no po"
    "po_ids_ok d2" "get_po d2 (po_id po) = Some po"
proof -
  let ?od = "case poc_order_date data of None \<Rightarrow> rq_today ctx | Some x \<Rightarrow> x"
  obtain no d1 where n: "next_daily_code SEQ_PURCHASE_ORDER ''PO'' (rq_today ctx) (Some ?od) d = (no, d1)"
    by fastforce
  note f1 = next_daily_code_frame[OF n]
  have ai: "auto_inc d1 T_purchase_orders = auto_inc d T_purchase_orders" using f1(2) by simp
  have ne: "poc_items data \<noteq> []" using assms(1) by (auto simp: create_po_def)
  from assms(1) obtain sp where sp: "assert_supplier_active s (poc_supplier_id data) = Inr sp"
    using ne by (auto simp: create_po_def)
  define po where "po = \<lparr>po_id = auto_inc d1 T_purchase_orders, po_no = no, po_supplier_id = sup_id sp,
      po_buyer_id = cu_id u, po_order_date = ?od, po_expected_date = poc_expected_date data,
      po_status = PO_DRAFT, po_total_amount = 0, po_version = Suc 0, po_remark = poc_remark data,
      po_created_by = Some (cu_id u), po_updated_by = Some (cu_id u)\<rparr>"
  from assms(1)[unfolded create_po_def Let_def split_beta, simplified sp n, simplified,
      folded po_def]
  obtain pris d2 d3 where
    p: "source_pr_items s data = Inr pris"
      "\<forall>i\<in>set (map pri_pr_id pris). assert_pr_approved s i = Inr ()"
      "\<forall>it\<in>set (poc_items data). check_po_item s it = Inr ()"
    and i: "insert_po po d1 = Inr d2"
    and r: "rfold (create_po_item (auto_inc d1 T_purchase_orders)) (enumerate (Suc 0) (poc_items data)) d2 = Inr d3"
    and d': "po_audit ctx PO_CREATE u po (fold flip_pr_to_converted (remdups (map pri_pr_id pris))
       (flush_po (auto_inc d1 T_purchase_orders) (\<lambda>r. r\<lparr>po_total_amount := po_total data\<rparr>) d3)) = d'"
    by auto
  have pid: "po_id po = auto_inc d T_purchase_orders" by (simp add: po_def ai)
  obtain X Y where fr: "d1 = d\<lparr>number_sequences := X, auto_inc := Y\<rparr>" using f1(1) by blast
  have "po\<lparr>po_id := auto_inc d1 T_purchase_orders\<rparr> = po" using ai by (simp add: po_def)
  then have d2: "d2 = d1\<lparr>purchase_orders := purchase_orders d @ [po],
       auto_inc := (auto_inc d1)(T_purchase_orders := Suc (auto_inc d T_purchase_orders))\<rparr>"
    using insert_po_Inr(1)[OF i] fr ai by simp
  have uniq: "\<forall>x\<in>set (purchase_orders d). po_no x \<noteq> po_no po"
    using insert_po_Inr(2)[OF i] fr by simp
  have fresh: "get_po d (po_id po) = None"
    using assms(2) pid by (simp add: get_po_def po_ids_ok_def keyed_fresh)
  have get2: "get_po d2 k = (if k = po_id po then Some po else get_po d k)" for k
    using fresh by (auto simp: get_po_def d2 row_by_append split: option.splits)
  have tabs2: "purchase_order_items d2 = purchase_order_items d"
    "purchase_order_item_sources d2 = purchase_order_item_sources d"
    "purchase_requisition_items d2 = purchase_requisition_items d"
    "purchase_orders d2 = purchase_orders d @ [po]" by (simp_all add: d2 fr)
  have inc2: "auto_inc d2 T_purchase_order_items = auto_inc d T_purchase_order_items"
    "auto_inc d2 T_purchase_requisition_items = auto_inc d T_purchase_requisition_items"
    "auto_inc d2 T_purchase_orders = Suc (auto_inc d T_purchase_orders)"
    using f1(2) by (simp_all add: d2)
  have ok2: "po_ids_ok d2"
    unfolding po_ids_ok_def
    using assms(2)[unfolded po_ids_ok_def] pid
    by (auto simp: tabs2 inc2 get2 get_poi_def keyed_append)
  note acc = create_po_items_accounts[OF r ok2, of po]
  have "purchase_orders d3 = purchase_orders d2"
    using acc(2) get2 ai pid by (simp add: po_def)
  then have prs3: "purchase_orders d3 = purchase_orders d @ [po]" by (simp add: d2)
  have "keyed po_id (Suc (auto_inc d T_purchase_orders)) (purchase_orders d3)"
    using assms(2) pid by (simp add: prs3 po_ids_ok_def keyed_append)
  then have dist: "distinct (map po_id (purchase_orders d3))" by (rule keyed_distinct)
  have "flush_po (po_id po) (\<lambda>r. r\<lparr>po_total_amount := po_total data\<rparr>) d3 =
      put_po (po\<lparr>po_total_amount := po_total data\<rparr>) d3"
    using update_key_once[where key = po_id, OF dist, of po "po_id po" "\<lambda>_. True"
        "\<lambda>r. r\<lparr>po_total_amount := po_total data\<rparr>"]
    by (simp add: flush_po_def put_po_def prs3)
  then have d'': "d' = po_audit ctx PO_CREATE u po (fold flip_pr_to_converted (remdups (map pri_pr_id pris))
       (put_po (po\<lparr>po_total_amount := po_total data\<rparr>) d3))"
    using d' pid ai by simp
  have r': "rfold (create_po_item (po_id po)) (enumerate 1 (poc_items data)) d2 = Inr d3"
    using r pid ai by simp
  show ?thesis
    by (rule that[OF sp p ne f1(1) _ pid _ _ _ _ _ d2 r' d'' uniq ok2])
      (simp_all add: po_def get2 f1(2))
qed

text \<open>The sources of a new order all belong to it.\<close>

lemma create_po_items_sources:
  assumes "rfold (create_po_item pid) lis d = Inr d'" "po_ids_ok d"
    and "get_po d pid = Some po" "po_status po \<noteq> PO_CANCELLED"
  shows "\<exists>ns. purchase_order_item_sources d' = purchase_order_item_sources d @ ns
      \<and> (\<forall>n\<in>set ns. \<exists>x. get_poi d' (pois_po_item_id n) = Some x \<and> poi_po_id x = pid)"
    and "\<And>k x. get_poi d k = Some x \<Longrightarrow> get_poi d' k = Some x"
proof -
  let ?P = "\<lambda>x. po_ids_ok x \<and> purchase_orders x = purchase_orders d
    \<and> (\<exists>ns. purchase_order_item_sources x = purchase_order_item_sources d @ ns
      \<and> (\<forall>n\<in>set ns. \<exists>y. get_poi x (pois_po_item_id n) = Some y \<and> poi_po_id y = pid))
    \<and> (\<forall>k y. get_poi d k = Some y \<longrightarrow> get_poi x k = Some y)"
  have "?P d'"
  proof (rule rfold_invariant[OF assms(1), where P = ?P])
    show "?P d" using assms(2) by simp
    fix li x x' assume x: "?P x" "create_po_item pid li x = Inr x'"
    then have "get_po x pid = Some po" using assms(3) by (simp add: get_po_def)
    note acc = create_po_item_accounts[OF x(2) _ this assms(4)]
    obtain n ns X Y where
      x': "x' = x\<lparr>purchase_requisition_items := X,
         purchase_order_items := purchase_order_items x @ [n],
         purchase_order_item_sources := purchase_order_item_sources x @ ns, auto_inc := Y\<rparr>"
      and n: "n = (new_po_item pid li)\<lparr>poi_id := auto_inc x T_purchase_order_items\<rparr>"
      and "poi_checks n"
      and ns: "map (\<lambda>x. x\<lparr>pois_id := 0\<rparr>) ns = map (new_source (poi_id n)) (poic_sources (snd li))"
      and "Y T_purchase_order_items = Suc (auto_inc x T_purchase_order_items)"
      "\<forall>t. t \<noteq> T_purchase_order_items \<longrightarrow> t \<noteq> T_purchase_order_item_sources \<longrightarrow> Y t = auto_inc x t"
      "map pri_identity X = map pri_identity (purchase_requisition_items x)"
      "\<forall>j. converted_of x' j = converted_of x j +
        sum_over (\<lambda>x. psc_pr_item_id x = j) psc_quantity (poic_sources (snd li))"
      by (rule create_po_item_tables[OF x(2) po_ids_pri_distinct[OF conjunct1[OF x(1)]]])
    have nid: "poi_id n = auto_inc x T_purchase_order_items" "poi_po_id n = pid"
      by (simp_all add: n new_po_item_def)
    have "get_poi x (poi_id n) = None" using x(1) nid(1) by (simp add: get_poi_def po_ids_ok_def keyed_fresh)
    then have get: "get_poi x' k = (if k = poi_id n then Some n else get_poi x k)" for k
      by (auto simp: get_poi_def x' row_by_append split: option.splits)
    obtain ms where ms: "purchase_order_item_sources x = purchase_order_item_sources d @ ms"
      "\<forall>m\<in>set ms. \<exists>y. get_poi x (pois_po_item_id m) = Some y \<and> poi_po_id y = pid" using x(1) by blast
    have srcs: "purchase_order_item_sources x' = purchase_order_item_sources d @ (ms @ ns)" by (simp add: x' ms(1))
    have new: "\<exists>y. get_poi x' (pois_po_item_id m) = Some y \<and> poi_po_id y = pid" if "m \<in> set (ms @ ns)" for m
      using that ms(2) inserted_sources(1)[OF ns] nid(2) by (auto simp: get)
    have old: "get_poi x' k = Some y" if "get_poi d k = Some y" for k y
      using x(1) that \<open>get_poi x (poi_id n) = None\<close> by (auto simp: get)
    have ok: "po_ids_ok x" and same: "purchase_orders x = purchase_orders d" using x(1) by blast+
    show "?P x'"
      by (intro conjI exI[of _ "ms @ ns"] ballI allI impI)
        (simp_all only: srcs new old acc(1)[OF ok] acc(2)[OF ok] same)
  qed
  then show "\<exists>ns. purchase_order_item_sources d' = purchase_order_item_sources d @ ns
      \<and> (\<forall>n\<in>set ns. \<exists>x. get_poi d' (pois_po_item_id n) = Some x \<and> poi_po_id x = pid)"
    "\<And>k x. get_poi d k = Some x \<Longrightarrow> get_poi d' k = Some x" by blast+
qed

end
