(* ===== verification/Order_Steps.thy ===== *)
theory Order_Steps
  imports Order_Facts
begin

text \<open>
  Committed requests on orders as a step relation: what a step does to the headers,
  to the accounts between requisition lines and orders, to the bounds of the
  converted quantities and to the converted flags.
\<close>

section \<open>Steps\<close>

text \<open>
  One committed request.  Lines and sources of an order are never changed after
  its creation, so a snapshot that holds the order holds its sources, within their
  CHECK, and the requisition lines they refer to; a line never changes its
  requisition.
\<close>

definition lines_agree :: "db \<Rightarrow> db \<Rightarrow> bool" where
  "lines_agree s d \<longleftrightarrow> (\<forall>r\<in>set (purchase_requisition_items s). \<forall>r'\<in>set (purchase_requisition_items d).
    pri_id r = pri_id r' \<longrightarrow> pri_pr_id r = pri_pr_id r')"

definition order_snapshot :: "nat \<Rightarrow> db \<Rightarrow> db \<Rightarrow> bool" where
  "order_snapshot i s d \<longleftrightarrow> po_sources i s = po_sources i d
    \<and> (\<forall>src\<in>set (po_sources i d). pois_checks src \<and> get_pri s (pois_pr_item_id src) \<noteq> None)
    \<and> lines_agree s d"

inductive po_step :: "db \<Rightarrow> db \<Rightarrow> bool" where
  step_create: "create_po ctx u data s d = Inr d' \<Longrightarrow> valid_po_create data \<Longrightarrow> lines_agree s d \<Longrightarrow>
    po_step d d'"
| step_confirm: "confirm_po ctx u i v s d = Inr d' \<Longrightarrow> po_step d d'"
| step_cancel: "cancel_po ctx u i v s d = Inr d' \<Longrightarrow> order_snapshot i s d \<Longrightarrow> po_step d d'"

lemma lines_agree_refl: "po_ids_ok d \<Longrightarrow> lines_agree d d"
  unfolding lines_agree_def po_ids_ok_def by (metis keyed_unique)

lemma po_ids_source:
  assumes "po_ids_ok d" "src \<in> set (purchase_order_item_sources d)"
  shows "\<exists>x. get_poi d (pois_po_item_id src) = Some x \<and> x \<in> set (purchase_order_items d)
    \<and> get_po d (poi_po_id x) \<noteq> None"
proof -
  have "get_poi d (pois_po_item_id src) \<noteq> None" using assms by (simp add: po_ids_ok_def)
  then obtain x where x: "get_poi d (pois_po_item_id src) = Some x" by blast
  then have "x \<in> set (purchase_order_items d)" by (auto simp: get_poi_def dest: row_by_SomeD)
  moreover from this have "get_po d (poi_po_id x) \<noteq> None" using assms(1) by (simp add: po_ids_ok_def)
  ultimately show ?thesis using x by blast
qed

definition po_row_step :: "purchase_order \<Rightarrow> purchase_order \<Rightarrow> bool" where
  "po_row_step r r' \<longleftrightarrow> po_id r' = po_id r \<and> po_no r' = po_no r
    \<and> po_supplier_id r' = po_supplier_id r \<and> po_buyer_id r' = po_buyer_id r
    \<and> po_total_amount r' = po_total_amount r
    \<and> (r' = r \<or> (po_status r' \<in> set (po_transitions (po_status r)) \<and> po_version r' = Suc (po_version r)))"

lemma po_row_step_refl [simp]: "po_row_step r r"
  by (simp add: po_row_step_def)

section \<open>Headers\<close>

lemma create_po_rows:
  assumes "create_po ctx u data s d = Inr d'" "po_ids_ok d"
  obtains r where "po_status r = PO_DRAFT" "po_version r = 1" "po_buyer_id r = cu_id u"
    "po_total_amount r = po_total data" "po_id r = auto_inc d T_purchase_orders"
    "get_po d (po_id r) = None"
    "\<And>k. get_po d' k = (if k = po_id r then Some r else get_po d k)" "po_ids_ok d'"
    "\<And>j. converted_of d' j - sourced_of d' j = converted_of d j - sourced_of d j"
proof -
  obtain sp pris po d1 d2 d3 where
    "assert_supplier_active s (poc_supplier_id data) = Inr sp"
    "source_pr_items s data = Inr pris"
    "\<forall>i\<in>set (map pri_pr_id pris). assert_pr_approved s i = Inr ()"
    "\<forall>it\<in>set (poc_items data). check_po_item s it = Inr ()" "poc_items data \<noteq> []"
    and d1: "\<exists>X Y. d1 = d\<lparr>number_sequences := X, auto_inc := Y\<rparr>"
    and "\<forall>t. t \<noteq> T_number_sequences \<longrightarrow> auto_inc d1 t = auto_inc d t"
    and po: "po_id po = auto_inc d T_purchase_orders" "po_status po = PO_DRAFT" "po_version po = 1"
      "po_buyer_id po = cu_id u" "po_supplier_id po = sup_id sp" "po_total_amount po = 0"
    and d2: "d2 = d1\<lparr>purchase_orders := purchase_orders d @ [po],
       auto_inc := (auto_inc d1)(T_purchase_orders := Suc (auto_inc d T_purchase_orders))\<rparr>"
    and d3: "rfold (create_po_item (po_id po)) (enumerate 1 (poc_items data)) d2 = Inr d3"
    and d': "d' = po_audit ctx PO_CREATE u po (fold flip_pr_to_converted (remdups (map pri_pr_id pris))
       (put_po (po\<lparr>po_total_amount := po_total data\<rparr>) d3))"
    and uniq: "\<forall>x\<in>set (purchase_orders d). po_no x \<noteq> po_no po"
    and ok2: "po_ids_ok d2" "get_po d2 (po_id po) = Some po"
    by (rule create_po_effect[OF assms])
  obtain X Y where fr1: "d1 = d\<lparr>number_sequences := X, auto_inc := Y\<rparr>" using d1 by blast
  let ?r = "po\<lparr>po_total_amount := po_total data\<rparr>"
  note acc = create_po_items_accounts[OF d3 ok2, simplified po(2), simplified]
  obtain Z where fr: "fold flip_pr_to_converted (remdups (map pri_pr_id pris)) (put_po ?r d3) =
      (put_po ?r d3)\<lparr>purchase_requisitions := Z\<rparr>" using fold_flip_frame(1) by blast
  have tabs: "purchase_orders d' = purchase_orders (put_po ?r d3)"
    "purchase_order_items d' = purchase_order_items d3"
    "purchase_order_item_sources d' = purchase_order_item_sources d3"
    "purchase_requisition_items d' = purchase_requisition_items d3"
    "t \<noteq> T_operation_logs \<Longrightarrow> auto_inc d' t = auto_inc d3 t" for t
    by (simp_all add: d' fr)
  have fresh: "get_po d (po_id po) = None"
    using assms(2) po(1) by (simp add: get_po_def po_ids_ok_def keyed_fresh)
  have get3: "get_po d3 k = (if k = po_id po then Some po else get_po d k)" for k
    using fresh by (auto simp: get_po_def acc(2) d2 row_by_append split: option.splits)
  have get': "get_po d' k = (if k = po_id po then Some ?r else get_po d k)" for k
  proof -
    have "get_po d' k = get_po (put_po ?r d3) k" by (simp add: get_po_def tabs(1))
    then show ?thesis using get3 by (simp add: get_put_po)
  qed
  have st: "map (\<lambda>r. (po_id r, po_status r)) (purchase_orders d') = map (\<lambda>r. (po_id r, po_status r)) (purchase_orders d3)"
  proof -
    have "x = po" if "x \<in> set (purchase_orders d3)" "po_id x = po_id po" for x
      using that acc(1) get3[of "po_id po"] unfolding po_ids_ok_def get_po_def
      by (metis keyed_row_by option.inject)
    then show ?thesis by (auto simp: tabs(1) put_po_def update_rows_def)
  qed
  have ids: "map po_id (purchase_orders d') = map po_id (purchase_orders d3)"
    using put_po_ids by (simp add: tabs(1))
  have ok': "po_ids_ok d'"
    using acc(1) keyed_cong[OF ids] get' get3
    unfolding po_ids_ok_def by (auto simp: tabs get_poi_def)
  have act: "active_source d' = active_source d3"
    by (rule active_source_cong[OF st]) (simp add: tabs(2))
  have "converted_of d' j - sourced_of d' j = converted_of d j - sourced_of d j" for j
  proof -
    have "active_source d2 src = active_source d src" if mem: "src \<in> set (purchase_order_item_sources d)" for src
    proof -
      obtain x where x: "get_poi d (pois_po_item_id src) = Some x" "get_po d (poi_po_id x) \<noteq> None"
        using po_ids_source[OF assms(2) mem] by blast
      then have "get_po d2 (poi_po_id x) = get_po d (poi_po_id x)"
        by (auto simp: get_po_def d2 row_by_append split: option.splits)
      then show ?thesis using x by (simp add: active_source_def get_poi_def d2 fr1)
    qed
    then have "sourced_of d2 j = sourced_of d j"
      unfolding sourced_of_def by (auto simp: d2 fr1 intro: sum_over_cong)
    moreover have "sourced_of d' j = sourced_of d3 j" "converted_of d' j = converted_of d3 j"
      "converted_of d2 j = converted_of d j"
      by (simp_all add: sourced_of_def act tabs converted_of_def d2 fr1)
    ultimately show ?thesis using acc(3)[of j] by simp
  qed
  then show ?thesis using that[of ?r] po fresh get' ok' by simp
qed

lemma confirm_po_rows:
  assumes "confirm_po ctx u i v s d = Inr d'" "po_ids_ok d"
  obtains r where "get_po d i = Some r" "po_status r = PO_DRAFT" "po_version r = v"
    "\<And>k. get_po d' k = (if k = i then Some (r\<lparr>po_status := PO_CONFIRMED,
       po_updated_by := Some (cu_id u), po_version := Suc v\<rparr>) else get_po d k)"
    "\<exists>X Y Z. d' = d\<lparr>purchase_orders := X, operation_logs := Y, auto_inc := Z\<rparr>"
    "po_ids_ok d'"
proof -
  from assms obtain po r where r: "get_po d i = Some r" "po_version r = v \<and> po_status r = PO_DRAFT"
    and d': "d' = po_audit ctx PO_CONFIRM u po (put_po (r\<lparr>po_status := PO_CONFIRMED,
       po_updated_by := Some (cu_id u), po_version := Suc v\<rparr>) d)" (is "_ = po_audit _ _ _ _ (put_po ?r d)")
    by (rule confirm_po_effect)
  have get': "get_po d' k = (if k = i then Some ?r else get_po d k)" for k
  proof -
    have "get_po d' k = get_po (put_po ?r d) k" by (simp add: get_po_def d')
    then show ?thesis using r(1) get_po_id[OF r(1)] by (simp add: get_put_po)
  qed
  have "po_ids_ok d'"
    using assms(2) keyed_cong[OF put_po_ids, of "auto_inc d T_purchase_orders" ?r d]
    unfolding po_ids_ok_def by (auto simp: get_poi_def get') (simp_all add: d')
  then show ?thesis
    by (intro that[OF r(1) _ _ get'])
      (use r in \<open>auto simp: d' po_audit_def write_audit_def insert_ol_def put_po_def\<close>)
qed

lemma sum_over_split:
  assumes "\<And>x. x \<in> set xs \<Longrightarrow> p x = (p1 x \<or> p2 x) \<and> \<not> (p1 x \<and> p2 x)"
  shows "sum_over p g xs = sum_over p1 g xs + (sum_over p2 g xs :: decimal)"
  using assms by (induction xs) (auto simp: algebra_simps)

lemma sum_over_filter: "sum_over p g (filter q xs) = sum_over (\<lambda>x. p x \<and> q x) g xs"
  by (induction xs) auto

lemma po_sources_iff:
  assumes "po_ids_ok d" "src \<in> set (purchase_order_item_sources d)"
    "get_poi d (pois_po_item_id src) = Some x"
  shows "pois_po_item_id src \<in> set (map poi_id (po_items i d)) \<longleftrightarrow> poi_po_id x = i"
proof -
  have k: "keyed poi_id (auto_inc d T_purchase_order_items) (purchase_order_items d)"
    using assms(1) by (simp add: po_ids_ok_def)
  have x: "x \<in> set (purchase_order_items d)" "poi_id x = pois_po_item_id src"
    using assms(3) by (auto simp: get_poi_def dest: row_by_SomeD)
  have "y = x" if "y \<in> set (purchase_order_items d)" "poi_id y = pois_po_item_id src" for y
    using keyed_unique[OF k that(1) x(1)] that(2) x(2) by simp
  then have "pois_po_item_id src \<in> poi_id ` set (po_items i d) \<Longrightarrow> poi_po_id x = i"
    by (auto simp: po_items_def)
  moreover have "poi_po_id x = i \<Longrightarrow> pois_po_item_id src \<in> poi_id ` set (po_items i d)"
    using x by (intro image_eqI[of _ _ x]) (simp_all add: po_items_def)
  ultimately show ?thesis by auto
qed

lemma cancelled_sources:
  assumes "po_ids_ok d" "get_po d i = Some r" "po_status r \<noteq> PO_CANCELLED"
    and "po_id r' = i" "po_status r' = PO_CANCELLED"
  shows "sourced_of d j = sourced_of (put_po r' d) j +
    sum_over (\<lambda>src. pois_pr_item_id src = j) pois_quantity (po_sources i d)"
proof -
  have get: "get_po (put_po r' d) k = (if k = i then Some r' else get_po d k)" for k
    using assms(2,4) by (simp add: get_put_po)
  have "sum_over (\<lambda>src. pois_pr_item_id src = j \<and> active_source d src) pois_quantity
        (purchase_order_item_sources d) =
      sum_over (\<lambda>src. pois_pr_item_id src = j \<and> active_source (put_po r' d) src) pois_quantity
        (purchase_order_item_sources d) +
      sum_over (\<lambda>src. pois_pr_item_id src = j
        \<and> pois_po_item_id src \<in> set (map poi_id (po_items i d))) pois_quantity
        (purchase_order_item_sources d)"
  proof (rule sum_over_split)
    fix src assume m: "src \<in> set (purchase_order_item_sources d)"
    obtain x where x: "get_poi d (pois_po_item_id src) = Some x" "get_po d (poi_po_id x) \<noteq> None"
      using po_ids_source[OF assms(1) m] by blast
    have x': "get_poi (put_po r' d) (pois_po_item_id src) = Some x"
      using x(1) by (simp add: get_poi_def)
    show "(pois_pr_item_id src = j \<and> active_source d src) =
        ((pois_pr_item_id src = j \<and> active_source (put_po r' d) src)
         \<or> (pois_pr_item_id src = j \<and> pois_po_item_id src \<in> set (map poi_id (po_items i d))))
        \<and> \<not> ((pois_pr_item_id src = j \<and> active_source (put_po r' d) src)
         \<and> (pois_pr_item_id src = j \<and> pois_po_item_id src \<in> set (map poi_id (po_items i d))))"
      unfolding po_sources_iff[OF assms(1) m x(1)] active_source_def x(1) x'
      using assms(2,3,5) by (cases "poi_po_id x = i") (simp_all add: get)
  qed
  then show ?thesis by (simp add: sourced_of_def po_sources_def sum_over_filter)
qed

lemma cancel_po_rows:
  assumes "cancel_po ctx u i v s d = Inr d'" "po_ids_ok d"
  obtains r d3 where "get_po d i = Some r" "po_status r = PO_DRAFT \<or> po_status r = PO_CONFIRMED"
    "po_version r = v"
    "\<And>k. get_po d' k = (if k = i then Some (r\<lparr>po_status := PO_CANCELLED,
       po_updated_by := Some (cu_id u), po_version := Suc v\<rparr>) else get_po d k)"
    "po_ids_ok d'"
    "rfold give_source (po_sources i s) (d\<lparr>purchase_orders := purchase_orders d'\<rparr>) = Inr d3"
    "purchase_requisition_items d' = purchase_requisition_items d3"
    "map pri_identity (purchase_requisition_items d') = map pri_identity (purchase_requisition_items d)"
    "\<And>k. get_pr d' k = get_pr (fold flip_pr_back_to_approved (source_pr_ids s (po_sources i s)) d3) k"
    "purchase_requisitions d3 = purchase_requisitions d"
    "purchase_order_items d' = purchase_order_items d"
    "purchase_order_item_sources d' = purchase_order_item_sources d"
    "\<And>j. converted_of d' j = converted_of d j -
      sum_over (\<lambda>src. pois_pr_item_id src = j) pois_quantity (po_sources i s)"
    "po_sources i s = po_sources i d \<Longrightarrow> \<forall>j. sourced_of d' j = sourced_of d j -
      sum_over (\<lambda>src. pois_pr_item_id src = j) pois_quantity (po_sources i s)"
proof -
  obtain po r d3 where r: "get_po d i = Some r"
      "po_version r = v \<and> (po_status r = PO_DRAFT \<or> po_status r = PO_CONFIRMED)"
    and g: "rfold give_source (po_sources i s) (put_po (r\<lparr>po_status := PO_CANCELLED,
       po_updated_by := Some (cu_id u), po_version := Suc v\<rparr>) d) = Inr d3"
      (is "rfold _ _ (put_po ?r d) = _")
    and d': "d' = po_audit ctx PO_CANCEL u po
      (fold flip_pr_back_to_approved (source_pr_ids s (po_sources i s)) d3)"
    using assms by (rule cancel_po_effect)
  have dist: "distinct (map pri_id (purchase_requisition_items (put_po ?r d)))"
    using po_ids_pri_distinct[OF assms(2)] by simp
  note e = give_sources_effect[OF g dist]
  obtain X where X: "d3 = (put_po ?r d)\<lparr>purchase_requisition_items := X\<rparr>" using e(1) by blast
  obtain Y where Y: "fold flip_pr_back_to_approved (source_pr_ids s (po_sources i s)) d3 =
      d3\<lparr>purchase_requisitions := Y\<rparr>" using fold_flip_frame(2) by blast
  have tabs: "purchase_orders d' = purchase_orders (put_po ?r d)"
    "purchase_order_items d' = purchase_order_items d"
    "purchase_order_item_sources d' = purchase_order_item_sources d"
    "purchase_requisition_items d' = purchase_requisition_items d3"
    "t \<noteq> T_operation_logs \<Longrightarrow> auto_inc d' t = auto_inc d t" for t
    unfolding d' Y by (simp_all add: X)
  have get': "get_po d' k = (if k = i then Some ?r else get_po d k)" for k
  proof -
    have "get_po d' k = get_po (put_po ?r d) k" by (simp add: get_po_def tabs(1))
    then show ?thesis using r(1) get_po_id[OF r(1)] by (simp add: get_put_po)
  qed
  have idn: "map pri_identity (purchase_requisition_items d') = map pri_identity (purchase_requisition_items d)"
    using e(2)[of pri_identity] by (simp add: tabs)
  have pos: "map po_id (purchase_orders d') = map po_id (purchase_orders d)"
    by (simp add: tabs(1) put_po_ids)
  have ok': "po_ids_ok d'"
    using assms(2) keyed_cong[OF pos] keyed_cong[OF map_pri_id_of_identity(1)[OF idn]]
    unfolding po_ids_ok_def by (auto simp: tabs(2,3,5) get_poi_def get')
  have same: "put_po ?r d = d\<lparr>purchase_orders := purchase_orders d'\<rparr>"
    by (simp add: tabs(1) put_po_def)
  have conv: "converted_of d' j = converted_of d j -
      sum_over (\<lambda>src. pois_pr_item_id src = j) pois_quantity (po_sources i s)" for j
    using e(3)[of j] by (simp add: converted_of_def tabs(4))
  have src: "\<forall>j. sourced_of d' j = sourced_of d j -
      sum_over (\<lambda>src. pois_pr_item_id src = j) pois_quantity (po_sources i s)"
    if "po_sources i s = po_sources i d"
  proof
    fix j
    have "active_source d' = active_source (put_po ?r d)"
      by (rule active_source_cong) (simp_all add: tabs)
    then have "sourced_of d' j = sourced_of (put_po ?r d) j" by (simp add: sourced_of_def tabs)
    then show "sourced_of d' j = sourced_of d j -
      sum_over (\<lambda>src. pois_pr_item_id src = j) pois_quantity (po_sources i s)"
      using cancelled_sources[OF assms(2) r(1), of ?r j] r(2) get_po_id[OF r(1)] that by auto
  qed
  show ?thesis
    by (rule that[OF r(1) _ _ get' ok' g[unfolded same] tabs(4) idn _ _ tabs(2,3) conv src])
      (use r in \<open>auto simp: get_pr_def d' X\<close>)
qed

section \<open>Bounds of the converted quantity\<close>

lemma take_source_bounded:
  assumes "take_source src d = Inr d'" "0 < psc_quantity src"
    "converted.bounded_rows (purchase_requisition_items d)"
  shows "converted.bounded_rows (purchase_requisition_items d')"
  using assms converted.take_bounded[of "psc_pr_item_id src" "psc_quantity src"]
  by (auto simp: take_source_def take_converted_def converted.take_from_def)

lemma give_source_bounded:
  assumes "give_source src d = Inr d'" "0 < pois_quantity src"
    "converted.bounded_rows (purchase_requisition_items d)"
  shows "converted.bounded_rows (purchase_requisition_items d')"
  using assms converted.give_bounded[of "pois_pr_item_id src" "pois_quantity src"]
  by (auto simp: give_source_def give_converted_def converted.give_back_def)

lemma create_po_item_bounded:
  assumes "create_po_item pid li d = Inr d'" "list_all (\<lambda>src. 0 < psc_quantity src) (poic_sources (snd li))"
    "converted.bounded_rows (purchase_requisition_items d)"
  shows "converted.bounded_rows (purchase_requisition_items d')"
proof -
  obtain d1 d2 where
    d1: "insert_poi (new_po_item pid li) d = Inr d1"
    and d2: "rfold take_source (poic_sources (snd li)) d1 = Inr d2"
    and d': "rfold (\<lambda>src. insert_pois (new_source (auto_inc d T_purchase_order_items) src))
      (poic_sources (snd li)) d2 = Inr d'"
    using assms(1) by (auto simp: create_po_item_def Let_def)
  have "converted.bounded_rows (purchase_requisition_items d1)"
    using insert_poi_Inr(1)[OF d1] assms(3) by simp
  with d2 have "converted.bounded_rows (purchase_requisition_items d2)"
    by (rule rfold_invariant[where P = "\<lambda>x. converted.bounded_rows (purchase_requisition_items x)"])
      (use assms(2) take_source_bounded in \<open>auto simp: list_all_iff\<close>)
  then show ?thesis using insert_sources_effect[OF d'] by auto
qed

lemma po_step_bounded:
  assumes "po_step d d'" "po_ids_ok d" "converted.bounded_rows (purchase_requisition_items d)"
  shows "converted.bounded_rows (purchase_requisition_items d')"
  using assms(1)
proof cases
  case (step_create ctx u data s)
  obtain sp pris po d1 d2 d3 where
    "assert_supplier_active s (poc_supplier_id data) = Inr sp"
    "source_pr_items s data = Inr pris"
    "\<forall>i\<in>set (map pri_pr_id pris). assert_pr_approved s i = Inr ()"
    "\<forall>it\<in>set (poc_items data). check_po_item s it = Inr ()" "poc_items data \<noteq> []"
    and d1: "\<exists>X Y. d1 = d\<lparr>number_sequences := X, auto_inc := Y\<rparr>"
    and "\<forall>t. t \<noteq> T_number_sequences \<longrightarrow> auto_inc d1 t = auto_inc d t"
    and po: "po_id po = auto_inc d T_purchase_orders" "po_status po = PO_DRAFT" "po_version po = 1"
      "po_buyer_id po = cu_id u" "po_supplier_id po = sup_id sp" "po_total_amount po = 0"
    and d2: "d2 = d1\<lparr>purchase_orders := purchase_orders d @ [po],
       auto_inc := (auto_inc d1)(T_purchase_orders := Suc (auto_inc d T_purchase_orders))\<rparr>"
    and d3: "rfold (create_po_item (po_id po)) (enumerate 1 (poc_items data)) d2 = Inr d3"
    and d': "d' = po_audit ctx PO_CREATE u po (fold flip_pr_to_converted (remdups (map pri_pr_id pris))
       (put_po (po\<lparr>po_total_amount := po_total data\<rparr>) d3))"
    and "\<forall>x\<in>set (purchase_orders d). po_no x \<noteq> po_no po"
    and "po_ids_ok d2" "get_po d2 (po_id po) = Some po"
    by (rule create_po_effect[OF step_create(1) assms(2)])
  have "converted.bounded_rows (purchase_requisition_items d2)" using assms(3) d1 d2 by auto
  with d3 have "converted.bounded_rows (purchase_requisition_items d3)"
  proof (rule rfold_invariant[where P = "\<lambda>x. converted.bounded_rows (purchase_requisition_items x)"])
    fix li x x' assume "li \<in> set (enumerate 1 (poc_items data))" "create_po_item (po_id po) li x = Inr x'"
      "converted.bounded_rows (purchase_requisition_items x)"
    moreover from this(1) have "snd li \<in> set (poc_items data)" by (metis enumerate_eq_zip set_zip_rightD surjective_pairing)
    ultimately show "converted.bounded_rows (purchase_requisition_items x')"
      using step_create(2) create_po_item_bounded
      by (auto simp: valid_po_create_def valid_po_item_create_def list_all_iff)
  qed
  moreover obtain Z where "fold flip_pr_to_converted (remdups (map pri_pr_id pris))
      (put_po (po\<lparr>po_total_amount := po_total data\<rparr>) d3) =
      (put_po (po\<lparr>po_total_amount := po_total data\<rparr>) d3)\<lparr>purchase_requisitions := Z\<rparr>"
    using fold_flip_frame(1) by blast
  ultimately show ?thesis by (simp add: d')
next
  case (step_confirm ctx u i v s)
  then show ?thesis by (rule confirm_po_rows[OF _ assms(2)]) (use assms(3) in auto)
next
  case (step_cancel ctx u i v s)
  from step_cancel(1) assms(2) obtain d3 where
    g: "rfold give_source (po_sources i s) (d\<lparr>purchase_orders := purchase_orders d'\<rparr>) = Inr d3"
    and e: "purchase_requisition_items d' = purchase_requisition_items d3"
    by (rule cancel_po_rows) blast
  from g have "converted.bounded_rows (purchase_requisition_items d3)"
    by (rule rfold_invariant[where P = "\<lambda>x. converted.bounded_rows (purchase_requisition_items x)"])
      (use assms(3) step_cancel(2) give_source_bounded in \<open>auto simp: order_snapshot_def pois_checks_def\<close>)
  then show ?thesis by (simp add: e)
qed

lemma po_step_accounts:
  assumes "po_step d d'" "po_ids_ok d"
  shows "po_ids_ok d'" and "converted_of d' j - sourced_of d' j = converted_of d j - sourced_of d j"
proof -
  have "po_ids_ok d' \<and> converted_of d' j - sourced_of d' j = converted_of d j - sourced_of d j"
    using assms(1)
  proof cases
    case (step_create ctx u data s)
    from step_create(1) show ?thesis by (rule create_po_rows[OF _ assms(2)]) simp
  next
    case (step_confirm ctx u i v s)
    then obtain r X Y Z where r: "get_po d i = Some r" "po_status r = PO_DRAFT"
      and get': "\<And>k. get_po d' k = (if k = i then Some (r\<lparr>po_status := PO_CONFIRMED,
       po_updated_by := Some (cu_id u), po_version := Suc v\<rparr>) else get_po d k)"
      and d': "d' = d\<lparr>purchase_orders := X, operation_logs := Y, auto_inc := Z\<rparr>" and ok: "po_ids_ok d'"
      by (rule confirm_po_rows[OF _ assms(2)]) blast
    have "active_source d' src = active_source d src" for src
    proof (cases "get_poi d (pois_po_item_id src)")
      case (Some x)
      then show ?thesis using r
        by (cases "poi_po_id x = i") (simp_all add: active_source_def get_poi_def d' get'[unfolded d'])
    qed (simp add: active_source_def get_poi_def d')
    then have "active_source d' = active_source d" by (rule ext)
    then show ?thesis using ok by (simp add: converted_of_def sourced_of_def d')
  next
    case (step_cancel ctx u i v s)
    from step_cancel(1) show ?thesis
      by (rule cancel_po_rows[OF _ assms(2)]) (use step_cancel(2) in \<open>simp add: order_snapshot_def\<close>)
  qed
  then show "po_ids_ok d'" "converted_of d' j - sourced_of d' j = converted_of d j - sourced_of d j" by auto
qed

section \<open>The converted flag of a requisition\<close>

text \<open>
  Lines keep their identity, only lines of the requisitions \<^verbatim>\<open>ids\<close> change, and
  their converted quantities move one way.
\<close>

definition lines_moved ::
    "(decimal \<Rightarrow> decimal \<Rightarrow> bool) \<Rightarrow> nat set \<Rightarrow> purchase_requisition_item list \<Rightarrow>
     purchase_requisition_item list \<Rightarrow> bool" where
  "lines_moved le ids = list_all2 (\<lambda>r r'. pri_identity r' = pri_identity r
    \<and> le (pri_converted_quantity r) (pri_converted_quantity r') \<and> (pri_pr_id r \<notin> ids \<longrightarrow> r' = r))"

lemma lines_moved_refl: "(\<And>x. le x x) \<Longrightarrow> lines_moved le ids rows rows"
  by (simp add: lines_moved_def list_all2_refl)

lemma lines_moved_trans:
  assumes "lines_moved le ids a b" "lines_moved le ids b c" "\<And>x y z. le x y \<Longrightarrow> le y z \<Longrightarrow> le x z"
  shows "lines_moved le ids a c"
  unfolding lines_moved_def
  by (rule list_all2_trans[OF _ assms(1,2)[unfolded lines_moved_def]])
    (use assms(3) in \<open>auto simp: pri_identity_def\<close>)

lemma lines_moved_update:
  assumes "\<And>r. r \<in> set rows \<Longrightarrow> p r \<Longrightarrow> pri_pr_id r \<in> ids" "\<And>x. le x x" "\<And>x. le x (x + q)"
  shows "lines_moved le ids rows (update_rows p (convert q) rows)"
  using assms(1)
proof (induction rows)
  case (Cons r rows)
  then have "lines_moved le ids rows (update_rows p (convert q) rows)" by simp
  then show ?case
    using Cons.prems[of r] assms(2,3) by (simp add: lines_moved_def converted.add_used)
qed (simp add: lines_moved_def)

text \<open>The lines named by \<^verbatim>\<open>js\<close> belong to the requisitions \<^verbatim>\<open>ids\<close>.\<close>

definition lines_of :: "nat set \<Rightarrow> nat set \<Rightarrow> purchase_requisition_item list \<Rightarrow> bool" where
  "lines_of js ids rows \<longleftrightarrow> (\<forall>r\<in>set rows. pri_id r \<in> js \<longrightarrow> pri_pr_id r \<in> ids)"

lemma lines_of_cong:
  assumes "map pri_identity rows' = map pri_identity rows"
  shows "lines_of js ids rows' = lines_of js ids rows"
proof -
  have "lines_of js ids rows = (\<forall>x\<in>set (map pri_identity rows). fst x \<in> js \<longrightarrow> fst (snd x) \<in> ids)" for rows
    by (simp add: lines_of_def pri_identity_def)
  then show ?thesis using assms by metis
qed

lemma take_source_moved:
  assumes "take_source src d = Inr d'" "0 < psc_quantity src" "psc_pr_item_id src \<in> js"
    "lines_of js ids (purchase_requisition_items d)"
  shows "lines_moved (\<le>) ids (purchase_requisition_items d) (purchase_requisition_items d')
    \<and> lines_of js ids (purchase_requisition_items d')"
proof -
  let ?p = "\<lambda>r. pri_id r = psc_pr_item_id src
      \<and> pri_converted_quantity r + psc_quantity src \<le> pri_requested_quantity r"
  have d': "purchase_requisition_items d' = update_rows ?p (convert (psc_quantity src)) (purchase_requisition_items d)"
    using assms(1) by (auto simp: take_source_def take_converted_def cas_rows_Some_iff)
  have "lines_moved (\<le>) ids (purchase_requisition_items d) (purchase_requisition_items d')"
    unfolding d' by (rule lines_moved_update) (use assms(2-4) in \<open>auto simp: lines_of_def\<close>)
  moreover have "map pri_identity (purchase_requisition_items d') = map pri_identity (purchase_requisition_items d)"
    unfolding d' by (rule map_update_rows_same) simp
  ultimately show ?thesis using assms(4) lines_of_cong by blast
qed

lemma give_source_moved:
  assumes "give_source src d = Inr d'" "0 < pois_quantity src" "pois_pr_item_id src \<in> js"
    "lines_of js ids (purchase_requisition_items d)"
  shows "lines_moved (\<ge>) ids (purchase_requisition_items d) (purchase_requisition_items d')
    \<and> lines_of js ids (purchase_requisition_items d')"
proof -
  let ?p = "\<lambda>r. pri_id r = pois_pr_item_id src \<and> pois_quantity src \<le> pri_converted_quantity r"
  have d': "purchase_requisition_items d' = update_rows ?p (convert (- pois_quantity src)) (purchase_requisition_items d)"
    using assms(1) by (auto simp: give_source_def give_converted_def cas_rows_Some_iff)
  have "lines_moved (\<ge>) ids (purchase_requisition_items d) (purchase_requisition_items d')"
    unfolding d' by (rule lines_moved_update) (use assms(2-4) in \<open>auto simp: lines_of_def\<close>)
  moreover have "map pri_identity (purchase_requisition_items d') = map pri_identity (purchase_requisition_items d)"
    unfolding d' by (rule map_update_rows_same) simp
  ultimately show ?thesis using assms(4) lines_of_cong by blast
qed

lemma moved_fold:
  assumes "rfold f xs d = Inr d'" "lines_of js ids (purchase_requisition_items d)"
    and "\<And>x. le x x" "\<And>x y z. le x y \<Longrightarrow> le y z \<Longrightarrow> le x z"
    and step: "\<And>x s s'. x \<in> set xs \<Longrightarrow> f x s = Inr s' \<Longrightarrow> lines_of js ids (purchase_requisition_items s) \<Longrightarrow>
      lines_moved le ids (purchase_requisition_items s) (purchase_requisition_items s')
      \<and> lines_of js ids (purchase_requisition_items s')"
  shows "lines_moved le ids (purchase_requisition_items d) (purchase_requisition_items d')
    \<and> lines_of js ids (purchase_requisition_items d')"
proof -
  let ?R = "\<lambda>s s'. lines_of js ids (purchase_requisition_items s) \<longrightarrow>
    lines_moved le ids (purchase_requisition_items s) (purchase_requisition_items s')
    \<and> lines_of js ids (purchase_requisition_items s')"
  have "?R d d'"
  proof (rule rfold_rel[OF assms(1), where R = ?R])
    show "?R s s" for s using lines_moved_refl[of le, OF assms(3)] by simp
    have trans: "lines_moved le ids a c" if "lines_moved le ids a b" "lines_moved le ids b c" for a b c
      using that by (rule lines_moved_trans) (rule assms(4))
    show "?R a c" if "?R a b" "?R b c" for a b c
      using that trans by blast
    show "?R s s'" if "x \<in> set xs" "f x s = Inr s'" for x s s'
      using step[OF that] by simp
  qed
  then show ?thesis using assms(2) by blast
qed

lemma lines_moved_nfc:
  assumes "lines_moved le ids rows rows'" "purchase_requisition_items d = rows"
    "purchase_requisition_items d' = rows'"
  shows "j \<notin> ids \<Longrightarrow> not_fully_converted j d' = not_fully_converted j d"
    and "le = (\<le>) \<Longrightarrow> not_fully_converted j d' \<Longrightarrow> not_fully_converted j d"
    and "le = (\<ge>) \<Longrightarrow> not_fully_converted j d \<Longrightarrow> not_fully_converted j d'"
proof -
  let ?p = "\<lambda>it. pri_pr_id it = j \<and> pri_converted_quantity it < pri_requested_quantity it"
  have "(j \<notin> ids \<longrightarrow> list_ex ?p rows' = list_ex ?p rows)
      \<and> (le = (\<le>) \<longrightarrow> list_ex ?p rows' \<longrightarrow> list_ex ?p rows)
      \<and> (le = (\<ge>) \<longrightarrow> list_ex ?p rows \<longrightarrow> list_ex ?p rows')"
    using assms(1) unfolding lines_moved_def
    by (induction rows rows' rule: list_all2_induct) (auto simp: pri_identity_def)
  then show "j \<notin> ids \<Longrightarrow> not_fully_converted j d' = not_fully_converted j d"
    "le = (\<le>) \<Longrightarrow> not_fully_converted j d' \<Longrightarrow> not_fully_converted j d"
    "le = (\<ge>) \<Longrightarrow> not_fully_converted j d \<Longrightarrow> not_fully_converted j d'"
    by (simp_all add: not_fully_converted_def assms(2,3))
qed

lemma create_po_item_moved:
  assumes "create_po_item pid li d = Inr d'"
    "\<forall>src\<in>set (poic_sources (snd li)). 0 < psc_quantity src \<and> psc_pr_item_id src \<in> js"
    "lines_of js ids (purchase_requisition_items d)"
  shows "lines_moved (\<le>) ids (purchase_requisition_items d) (purchase_requisition_items d')
    \<and> lines_of js ids (purchase_requisition_items d')"
proof -
  obtain d1 d2 where
    d1: "insert_poi (new_po_item pid li) d = Inr d1"
    and d2: "rfold take_source (poic_sources (snd li)) d1 = Inr d2"
    and d': "rfold (\<lambda>src. insert_pois (new_source (auto_inc d T_purchase_order_items) src))
      (poic_sources (snd li)) d2 = Inr d'"
    using assms(1) by (auto simp: create_po_item_def Let_def)
  have "purchase_requisition_items d1 = purchase_requisition_items d"
    using insert_poi_Inr(1)[OF d1] by simp
  moreover have "purchase_requisition_items d' = purchase_requisition_items d2"
    using insert_sources_effect[OF d'] by auto
  moreover have "lines_moved (\<le>) ids (purchase_requisition_items d1) (purchase_requisition_items d2)
    \<and> lines_of js ids (purchase_requisition_items d2)"
    by (rule moved_fold[OF d2])
      (use assms(2,3) calculation(1) take_source_moved in \<open>auto intro: order_trans\<close>)
  ultimately show ?thesis by simp
qed

text \<open>
  A requisition is CONVERTED exactly when nothing of its lines is left to convert,
  as long as it is APPROVED or CONVERTED at all.
\<close>

definition flag_ok :: "db \<Rightarrow> purchase_requisition \<Rightarrow> bool" where
  "flag_ok d r \<longleftrightarrow> (pr_status r = PR_CONVERTED \<longrightarrow> \<not> not_fully_converted (pr_id r) d)
    \<and> (pr_status r = PR_APPROVED \<longrightarrow> not_fully_converted (pr_id r) d)"

definition flags_ok :: "db \<Rightarrow> bool" where
  "flags_ok d \<longleftrightarrow> list_all (\<lambda>k. case get_pr d k of None \<Rightarrow> True | Some r \<Rightarrow> flag_ok d r)
    (map pr_id (purchase_requisitions d))"

lemma flags_ok_iff: "flags_ok d \<longleftrightarrow> (\<forall>k r. get_pr d k = Some r \<longrightarrow> flag_ok d r)"
proof -
  have "k \<in> set (map pr_id (purchase_requisitions d))" if "get_pr d k = Some r" for k r
    using that by (auto simp: get_pr_def dest: row_by_SomeD)
  then show ?thesis unfolding flags_ok_def list_all_iff by (auto split: option.splits)
qed

lemma flags_after_takes:
  assumes "flags_ok d" "lines_moved (\<le>) (set ids) (purchase_requisition_items d) (purchase_requisition_items d1)"
    and "purchase_requisitions d1 = purchase_requisitions d"
  shows "flags_ok (fold flip_pr_to_converted ids d1)"
  unfolding flags_ok_iff
proof (intro allI impI)
  fix k r' assume r': "get_pr (fold flip_pr_to_converted ids d1) k = Some r'"
  then obtain r where r: "get_pr d k = Some r"
    and e: "r' = (if k \<in> set ids \<and> pr_status r = PR_APPROVED \<and> \<not> not_fully_converted k d1
         then r\<lparr>pr_status := PR_CONVERTED\<rparr> else r)"
    using get_pr_cong[OF assms(3)] by (auto simp: fold_flip_to_converted_row)
  have ok: "flag_ok d r" using assms(1) r by (simp add: flags_ok_iff)
  obtain X where X: "fold flip_pr_to_converted ids d1 = d1\<lparr>purchase_requisitions := X\<rparr>"
    using fold_flip_frame(1) by blast
  have n: "not_fully_converted k (fold flip_pr_to_converted ids d1) = not_fully_converted k d1"
    unfolding X by (simp add: not_fully_converted_def)
  have k: "pr_id r = k" using get_pr_id[OF r] .
  note m = lines_moved_nfc[OF assms(2) refl refl, of k]
  show "flag_ok (fold flip_pr_to_converted ids d1) r'"
    using ok m(1,2) by (auto simp: flag_ok_def e n k)
qed

lemma flags_after_gives:
  assumes "flags_ok d" "lines_moved (\<ge>) (set ids) (purchase_requisition_items d) (purchase_requisition_items d1)"
    and "purchase_requisitions d1 = purchase_requisitions d"
  shows "flags_ok (fold flip_pr_back_to_approved ids d1)"
  unfolding flags_ok_iff
proof (intro allI impI)
  fix k r' assume r': "get_pr (fold flip_pr_back_to_approved ids d1) k = Some r'"
  then obtain r where r: "get_pr d k = Some r"
    and e: "r' = (if k \<in> set ids \<and> pr_status r = PR_CONVERTED \<and> not_fully_converted k d1
         then r\<lparr>pr_status := PR_APPROVED\<rparr> else r)"
    using get_pr_cong[OF assms(3)] by (auto simp: fold_flip_back_row)
  have ok: "flag_ok d r" using assms(1) r by (simp add: flags_ok_iff)
  obtain X where X: "fold flip_pr_back_to_approved ids d1 = d1\<lparr>purchase_requisitions := X\<rparr>"
    using fold_flip_frame(2) by blast
  have n: "not_fully_converted k (fold flip_pr_back_to_approved ids d1) = not_fully_converted k d1"
    unfolding X by (simp add: not_fully_converted_def)
  have k: "pr_id r = k" using get_pr_id[OF r] .
  note m = lines_moved_nfc[OF assms(2) refl refl, of k]
  show "flag_ok (fold flip_pr_back_to_approved ids d1) r'"
    using ok m(1,3) by (auto simp: flag_ok_def e n k)
qed

lemma list_all2_member:
  "list_all2 P xs ys \<Longrightarrow> x \<in> set xs \<Longrightarrow> \<exists>y\<in>set ys. P x y"
  by (induction xs ys rule: list_all2_induct) auto

lemma lines_agree_get:
  assumes "lines_agree s d" "get_pri s (pri_id r) = Some pri" "r \<in> set (purchase_requisition_items d)"
  shows "pri_pr_id pri = pri_pr_id r"
  using assms by (auto simp: lines_agree_def get_pri_def dest!: row_by_SomeD)

lemma source_lines_of:
  assumes "source_pr_items s data = Inr pris" "lines_agree s d"
  shows "lines_of (set (map psc_pr_item_id (concat (map poic_sources (poc_items data)))))
    (set (map pri_pr_id pris)) (purchase_requisition_items d)"
  unfolding lines_of_def
proof (intro ballI impI)
  fix r assume r: "r \<in> set (purchase_requisition_items d)"
    "pri_id r \<in> set (map psc_pr_item_id (concat (map poic_sources (poc_items data))))"
  have l: "list_all2 (\<lambda>src pri. get_pri s (psc_pr_item_id src) = Some pri)
      (concat (map poic_sources (poc_items data))) pris"
    using assms(1) by (simp add: source_pr_items_def rtraverse_Inr_iff)
  obtain src where src: "src \<in> set (concat (map poic_sources (poc_items data)))" "psc_pr_item_id src = pri_id r"
    using r(2) unfolding set_map by (metis imageE)
  then obtain pri where pri: "pri \<in> set pris" "get_pri s (pri_id r) = Some pri"
    using list_all2_member[OF l src(1)] src(2) by metis
  then have "pri_pr_id pri = pri_pr_id r" using lines_agree_get[OF assms(2) _ r(1)] by blast
  then show "pri_pr_id r \<in> set (map pri_pr_id pris)"
    using pri(1) unfolding set_map by (intro image_eqI[of _ _ pri]) simp_all
qed

lemma given_lines_of:
  assumes "order_snapshot i s d"
  shows "lines_of (set (map pois_pr_item_id (po_sources i s))) (set (source_pr_ids s (po_sources i s)))
    (purchase_requisition_items d)"
  unfolding lines_of_def
proof (intro ballI impI)
  fix r assume r: "r \<in> set (purchase_requisition_items d)"
    "pri_id r \<in> set (map pois_pr_item_id (po_sources i s))"
  then have "get_pri s (pri_id r) \<noteq> None" using assms by (auto simp: order_snapshot_def)
  then obtain pri where pri: "get_pri s (pri_id r) = Some pri" by blast
  have "pri_pr_id pri = pri_pr_id r"
    using assms lines_agree_get[OF _ pri r(1)] by (simp add: order_snapshot_def)
  moreover have "pri \<in> set (purchase_requisition_items s)" "pri_id pri = pri_id r"
    using pri by (auto simp: get_pri_def dest: row_by_SomeD)
  ultimately show "pri_pr_id r \<in> set (source_pr_ids s (po_sources i s))"
    using r(2) unfolding source_pr_ids_def set_remdups set_map[of pri_pr_id]
    by (intro image_eqI[of _ _ pri]) (simp_all del: set_map)
qed

lemma po_step_flags:
  assumes "po_step d d'" "po_ids_ok d" "flags_ok d"
  shows "flags_ok d'"
  using assms(1)
proof cases
  case (step_create ctx u data s)
  obtain sp pris po d1 d2 d3 where
    "assert_supplier_active s (poc_supplier_id data) = Inr sp"
    and pris: "source_pr_items s data = Inr pris"
    and "\<forall>i\<in>set (map pri_pr_id pris). assert_pr_approved s i = Inr ()"
    "\<forall>it\<in>set (poc_items data). check_po_item s it = Inr ()" "poc_items data \<noteq> []"
    and d1: "\<exists>X Y. d1 = d\<lparr>number_sequences := X, auto_inc := Y\<rparr>"
    and "\<forall>t. t \<noteq> T_number_sequences \<longrightarrow> auto_inc d1 t = auto_inc d t"
    and po: "po_id po = auto_inc d T_purchase_orders" "po_status po = PO_DRAFT" "po_version po = 1"
      "po_buyer_id po = cu_id u" "po_supplier_id po = sup_id sp" "po_total_amount po = 0"
    and d2: "d2 = d1\<lparr>purchase_orders := purchase_orders d @ [po],
       auto_inc := (auto_inc d1)(T_purchase_orders := Suc (auto_inc d T_purchase_orders))\<rparr>"
    and d3: "rfold (create_po_item (po_id po)) (enumerate 1 (poc_items data)) d2 = Inr d3"
    and d': "d' = po_audit ctx PO_CREATE u po (fold flip_pr_to_converted (remdups (map pri_pr_id pris))
       (put_po (po\<lparr>po_total_amount := po_total data\<rparr>) d3))"
    and "\<forall>x\<in>set (purchase_orders d). po_no x \<noteq> po_no po"
    and ok2: "po_ids_ok d2" "get_po d2 (po_id po) = Some po"
    by (rule create_po_effect[OF step_create(1) assms(2)])
  let ?js = "set (map psc_pr_item_id (concat (map poic_sources (poc_items data))))"
  let ?ids = "remdups (map pri_pr_id pris)"
  let ?d4 = "put_po (po\<lparr>po_total_amount := po_total data\<rparr>) d3"
  have d2d: "purchase_requisition_items d2 = purchase_requisition_items d"
    "purchase_requisitions d2 = purchase_requisitions d" using d1 d2 by auto
  have lines: "lines_of ?js (set ?ids) (purchase_requisition_items d2)"
    using source_lines_of[OF pris step_create(3)] d2d by simp
  have "lines_moved (\<le>) (set ?ids) (purchase_requisition_items d2) (purchase_requisition_items d3)
      \<and> lines_of ?js (set ?ids) (purchase_requisition_items d3)"
  proof (rule moved_fold[OF d3 lines])
    fix li x x' assume li: "li \<in> set (enumerate 1 (poc_items data))" "create_po_item (po_id po) li x = Inr x'"
      "lines_of ?js (set ?ids) (purchase_requisition_items x)"
    have "snd li \<in> set (poc_items data)"
      using li(1) by (metis enumerate_eq_zip set_zip_rightD surjective_pairing)
    then have "\<forall>src\<in>set (poic_sources (snd li)). 0 < psc_quantity src \<and> psc_pr_item_id src \<in> ?js"
      using step_create(2) by (auto simp: valid_po_create_def valid_po_item_create_def list_all_iff)
    then show "lines_moved (\<le>) (set ?ids) (purchase_requisition_items x) (purchase_requisition_items x')
      \<and> lines_of ?js (set ?ids) (purchase_requisition_items x')"
      using create_po_item_moved[OF li(2) _ li(3)] by blast
  qed auto
  moreover have "purchase_requisitions d3 = purchase_requisitions d2"
    using create_po_items_rows[OF d3 po_ids_pri_distinct[OF ok2(1)]] by auto
  ultimately have "flags_ok (fold flip_pr_to_converted ?ids ?d4)"
    by (intro flags_after_takes[OF assms(3)]) (simp_all add: d2d)
  then show ?thesis by (simp add: flags_ok_iff flag_ok_def d' get_pr_def not_fully_converted_def)
next
  case (step_confirm ctx u i v s)
  from step_confirm obtain X Y Z where "d' = d\<lparr>purchase_orders := X, operation_logs := Y, auto_inc := Z\<rparr>"
    by (rule confirm_po_rows[OF _ assms(2)]) blast
  then show ?thesis using assms(3) by (simp add: flags_ok_iff flag_ok_def get_pr_def not_fully_converted_def)
next
  case (step_cancel ctx u i v s)
  let ?js = "set (map pois_pr_item_id (po_sources i s))"
  let ?ids = "source_pr_ids s (po_sources i s)"
  let ?d0 = "d\<lparr>purchase_orders := purchase_orders d'\<rparr>"
  from step_cancel(1) obtain d3 where
    g: "rfold give_source (po_sources i s) ?d0 = Inr d3"
    and e: "purchase_requisition_items d' = purchase_requisition_items d3"
      "purchase_requisitions d3 = purchase_requisitions d"
      "\<And>k. get_pr d' k = get_pr (fold flip_pr_back_to_approved ?ids d3) k"
    by (rule cancel_po_rows[OF _ assms(2)]) blast
  have lines: "lines_of ?js (set ?ids) (purchase_requisition_items ?d0)"
    using given_lines_of[OF step_cancel(2)] by simp
  have "lines_moved (\<ge>) (set ?ids) (purchase_requisition_items ?d0) (purchase_requisition_items d3)
      \<and> lines_of ?js (set ?ids) (purchase_requisition_items d3)"
  proof (rule moved_fold[OF g lines])
    fix src x x' assume "src \<in> set (po_sources i s)" "give_source src x = Inr x'"
      "lines_of ?js (set ?ids) (purchase_requisition_items x)"
    then show "lines_moved (\<ge>) (set ?ids) (purchase_requisition_items x) (purchase_requisition_items x')
      \<and> lines_of ?js (set ?ids) (purchase_requisition_items x')"
      using give_source_moved[of src x x' ?js "set ?ids"] step_cancel(2)
      by (auto simp: order_snapshot_def pois_checks_def)
  qed auto
  then have "flags_ok (fold flip_pr_back_to_approved ?ids d3)"
    by (intro flags_after_gives[OF assms(3)]) (simp_all add: e(2))
  moreover obtain X where "fold flip_pr_back_to_approved ?ids d3 = d3\<lparr>purchase_requisitions := X\<rparr>"
    using fold_flip_frame(2) by blast
  ultimately show ?thesis
    by (simp add: flags_ok_iff flag_ok_def e(1,3) not_fully_converted_def)
qed

section \<open>An order cancelled at once\<close>

lemma create_po_lines:
  assumes "create_po ctx u data s d = Inr d'" "po_ids_ok d"
  shows "\<exists>ns. purchase_order_item_sources d' = purchase_order_item_sources d @ ns
      \<and> (\<forall>n\<in>set ns. \<exists>x. get_poi d' (pois_po_item_id n) = Some x
           \<and> poi_po_id x = auto_inc d T_purchase_orders)"
    and "get_poi d k = Some x \<Longrightarrow> get_poi d' k = Some x"
    and "map pri_identity (purchase_requisition_items d') = map pri_identity (purchase_requisition_items d)"
    and "\<exists>d1 ids. (\<forall>k. get_pr d' k = get_pr (fold flip_pr_to_converted ids d1) k)
      \<and> purchase_requisition_items d1 = purchase_requisition_items d'
      \<and> purchase_requisitions d1 = purchase_requisitions d"
    and "\<exists>ns. purchase_order_items d' = purchase_order_items d @ ns \<and> list_all poi_checks ns
      \<and> map (\<lambda>x. x\<lparr>poi_id := 0\<rparr>) ns =
        map (new_po_item (auto_inc d T_purchase_orders)) (enumerate 1 (poc_items data))"
proof -
  obtain sp pris po d1 d2 d3 where
    "assert_supplier_active s (poc_supplier_id data) = Inr sp"
    and pris: "source_pr_items s data = Inr pris"
    and "\<forall>i\<in>set (map pri_pr_id pris). assert_pr_approved s i = Inr ()"
    "\<forall>it\<in>set (poc_items data). check_po_item s it = Inr ()" "poc_items data \<noteq> []"
    and d1: "\<exists>X Y. d1 = d\<lparr>number_sequences := X, auto_inc := Y\<rparr>"
    and "\<forall>t. t \<noteq> T_number_sequences \<longrightarrow> auto_inc d1 t = auto_inc d t"
    and po: "po_id po = auto_inc d T_purchase_orders" "po_status po = PO_DRAFT" "po_version po = 1"
      "po_buyer_id po = cu_id u" "po_supplier_id po = sup_id sp" "po_total_amount po = 0"
    and d2: "d2 = d1\<lparr>purchase_orders := purchase_orders d @ [po],
       auto_inc := (auto_inc d1)(T_purchase_orders := Suc (auto_inc d T_purchase_orders))\<rparr>"
    and d3: "rfold (create_po_item (po_id po)) (enumerate 1 (poc_items data)) d2 = Inr d3"
    and d': "d' = po_audit ctx PO_CREATE u po (fold flip_pr_to_converted (remdups (map pri_pr_id pris))
       (put_po (po\<lparr>po_total_amount := po_total data\<rparr>) d3))"
    and "\<forall>x\<in>set (purchase_orders d). po_no x \<noteq> po_no po"
    and ok2: "po_ids_ok d2" "get_po d2 (po_id po) = Some po"
    by (rule create_po_effect[OF assms])
  let ?ids = "remdups (map pri_pr_id pris)" and ?d4 = "put_po (po\<lparr>po_total_amount := po_total data\<rparr>) d3"
  have d2d: "purchase_requisition_items d2 = purchase_requisition_items d"
    "purchase_requisitions d2 = purchase_requisitions d"
    "purchase_order_items d2 = purchase_order_items d"
    "purchase_order_item_sources d2 = purchase_order_item_sources d" using d1 d2 by auto
  obtain Z where Z: "fold flip_pr_to_converted ?ids ?d4 = ?d4\<lparr>purchase_requisitions := Z\<rparr>"
    using fold_flip_frame(1) by blast
  have tabs: "purchase_order_items d' = purchase_order_items d3"
    "purchase_order_item_sources d' = purchase_order_item_sources d3"
    "purchase_requisition_items d' = purchase_requisition_items d3" unfolding d' Z by simp_all
  have poi: "get_poi d' k = get_poi d3 k" "get_poi d2 k = get_poi d k" for k
    by (simp_all add: get_poi_def tabs d2d)
  note src = create_po_items_sources[OF d3 ok2, simplified po(2), simplified]
  show "\<exists>ns. purchase_order_item_sources d' = purchase_order_item_sources d @ ns
      \<and> (\<forall>n\<in>set ns. \<exists>x. get_poi d' (pois_po_item_id n) = Some x
           \<and> poi_po_id x = auto_inc d T_purchase_orders)"
    using src(1) by (simp add: tabs(2) poi d2d(4) po(1))
  show "get_poi d k = Some x \<Longrightarrow> get_poi d' k = Some x" using src(2) by (simp add: poi)
  obtain ns X Y W where rows: "d3 = d2\<lparr>purchase_requisition_items := X,
       purchase_order_items := purchase_order_items d2 @ ns,
       purchase_order_item_sources := Y, auto_inc := W\<rparr>"
     "map (\<lambda>x. x\<lparr>poi_id := 0\<rparr>) ns = map (new_po_item (po_id po)) (enumerate 1 (poc_items data))"
     "list_all poi_checks ns"
     "map pri_identity X = map pri_identity (purchase_requisition_items d2)"
    using create_po_items_rows[OF d3 po_ids_pri_distinct[OF ok2(1)]] by (elim exE conjE) (rule that)
  show "map pri_identity (purchase_requisition_items d') = map pri_identity (purchase_requisition_items d)"
    using rows(4) by (simp add: tabs(3) rows(1) d2d(1))
  show "\<exists>d1 ids. (\<forall>k. get_pr d' k = get_pr (fold flip_pr_to_converted ids d1) k)
      \<and> purchase_requisition_items d1 = purchase_requisition_items d'
      \<and> purchase_requisitions d1 = purchase_requisitions d"
  proof (intro exI conjI allI)
    show "get_pr d' k = get_pr (fold flip_pr_to_converted ?ids ?d4) k" for k
      by (simp add: d' get_pr_def)
    show "purchase_requisition_items ?d4 = purchase_requisition_items d'" by (simp add: tabs(3))
    show "purchase_requisitions ?d4 = purchase_requisitions d" by (simp add: rows(1) d2d(2))
  qed
  show "\<exists>ns. purchase_order_items d' = purchase_order_items d @ ns \<and> list_all poi_checks ns
      \<and> map (\<lambda>x. x\<lparr>poi_id := 0\<rparr>) ns =
        map (new_po_item (auto_inc d T_purchase_orders)) (enumerate 1 (poc_items data))"
    using rows(2,3) po(1) by (intro exI[of _ ns]) (simp add: tabs(1) rows(1) d2d(3))
qed

lemma pri_eqI:
  "pri_identity a = pri_identity b \<Longrightarrow> pri_converted_quantity a = pri_converted_quantity b \<Longrightarrow> a = b"
  by (cases a; cases b) (simp add: pri_identity_def)

lemma sum_over_key:
  fixes g :: "'r \<Rightarrow> 'n::comm_monoid_add"
  assumes "distinct (map key rows)" "r \<in> set rows"
  shows "sum_over (\<lambda>y. key y = key r) g rows = g r"
  using assms
proof (induction rows)
  case (Cons y rows)
  show ?case
  proof (cases "y = r")
    case True
    then have "key x \<noteq> key r" if "x \<in> set rows" for x using Cons.prems(1) that by (auto simp: image_iff)
    then have "sum_over (\<lambda>y. key y = key r) g rows = 0" by (rule sum_over_none)
    then show ?thesis using True by simp
  next
    case False
    then have "r \<in> set rows" "key y \<noteq> key r" using Cons.prems by (auto simp: image_iff)
    then show ?thesis using Cons by simp
  qed
qed simp

lemma pri_rows_eqI:
  assumes "map pri_identity (purchase_requisition_items a) = map pri_identity (purchase_requisition_items b)"
    and "\<And>j. converted_of a j = converted_of b j"
    and "distinct (map pri_id (purchase_requisition_items b))"
  shows "purchase_requisition_items a = purchase_requisition_items b"
proof -
  have one: "converted_of x (pri_id r) = pri_converted_quantity r"
    if "distinct (map pri_id (purchase_requisition_items x))" "r \<in> set (purchase_requisition_items x)" for x r
  proof -
    show ?thesis using sum_over_key[OF that] by (simp add: converted_of_def)
  qed
  note ids = map_pri_id_of_identity(1)[OF assms(1)]
  have len: "length (purchase_requisition_items a) = length (purchase_requisition_items b)"
    using map_eq_imp_length_eq[OF ids] .
  show ?thesis
  proof (rule nth_equalityI[OF len])
    fix n assume n: "n < length (purchase_requisition_items a)"
    let ?a = "purchase_requisition_items a ! n" and ?b = "purchase_requisition_items b ! n"
    have idn: "pri_identity ?a = pri_identity ?b"
      using assms(1) n len by (metis nth_map)
    then have "pri_id ?a = pri_id ?b" by (simp add: pri_identity_def)
    then have "pri_converted_quantity ?a = pri_converted_quantity ?b"
      using one[of a ?a] one[of b ?b] assms(2,3) ids n len by simp
    then show "?a = ?b" using idn by (rule pri_eqI[rotated])
  qed
qed

lemma create_cancel_restores:
  assumes "create_po ctx u data s d = Inr d1" "valid_po_create data" "po_ids_ok d" "flags_ok d"
    and "cancel_po ctx' u' (auto_inc d T_purchase_orders) v d1 d1 = Inr d2"
    and "order_snapshot (auto_inc d T_purchase_orders) d1 d1"
  shows "purchase_requisition_items d2 = purchase_requisition_items d"
    and "get_pr d2 k = get_pr d k"
proof -
  let ?pid = "auto_inc d T_purchase_orders"
  note l = create_po_lines[OF assms(1,3)]
  have ok1: "po_ids_ok d1" and acc1: "\<And>j. converted_of d1 j - sourced_of d1 j = converted_of d j - sourced_of d j"
    and get1: "\<And>k. k \<noteq> ?pid \<Longrightarrow> get_po d1 k = get_po d k"
    by (rule create_po_rows[OF assms(1,3)]; simp)+
  from assms(5) obtain r d3 where r: "get_po d1 ?pid = Some r"
    and get2: "\<And>k. get_po d2 k = (if k = ?pid then Some (r\<lparr>po_status := PO_CANCELLED,
       po_updated_by := Some (cu_id u'), po_version := Suc v\<rparr>) else get_po d1 k)"
    and ok2: "po_ids_ok d2"
    and g: "rfold give_source (po_sources ?pid d1) (d1\<lparr>purchase_orders := purchase_orders d2\<rparr>) = Inr d3"
    and e: "purchase_requisition_items d2 = purchase_requisition_items d3"
      "map pri_identity (purchase_requisition_items d2) = map pri_identity (purchase_requisition_items d1)"
      "\<And>k. get_pr d2 k = get_pr (fold flip_pr_back_to_approved (source_pr_ids d1 (po_sources ?pid d1)) d3) k"
      "purchase_requisitions d3 = purchase_requisitions d1"
      "purchase_order_items d2 = purchase_order_items d1"
      "purchase_order_item_sources d2 = purchase_order_item_sources d1"
    and acc2: "\<And>j. converted_of d2 j - sourced_of d2 j = converted_of d1 j - sourced_of d1 j"
    by (rule cancel_po_rows[OF _ ok1]) simp
  have poi2: "get_poi d2 k = get_poi d1 k" for k by (simp add: get_poi_def e(5))
  have fresh: "get_po d ?pid = None" using assms(3) by (simp add: get_po_def po_ids_ok_def keyed_fresh)
  have src: "sourced_of d2 j = sourced_of d j" for j
  proof -
    obtain ns where ns: "purchase_order_item_sources d1 = purchase_order_item_sources d @ ns"
      "\<forall>n\<in>set ns. \<exists>x. get_poi d1 (pois_po_item_id n) = Some x \<and> poi_po_id x = ?pid" using l(1) by blast
    have "active_source d2 n = False" if "n \<in> set ns" for n
      using ns(2) that by (auto simp: active_source_def poi2 get2)
    moreover have "active_source d2 m = active_source d m" if mem: "m \<in> set (purchase_order_item_sources d)" for m
    proof -
      obtain x where x: "get_poi d (pois_po_item_id m) = Some x" "get_po d (poi_po_id x) \<noteq> None"
        using po_ids_source[OF assms(3) mem] by blast
      then have "poi_po_id x \<noteq> ?pid" using fresh by auto
      then show ?thesis using l(2)[OF x(1)] x by (simp add: active_source_def poi2 get2 get1)
    qed
    ultimately show ?thesis
      unfolding sourced_of_def e(6) ns(1) sum_over_append
      using sum_over_none[of ns "\<lambda>x. pois_pr_item_id x = j \<and> active_source d2 x" pois_quantity]
      by (simp cong: sum_over_cong)
  qed
  have "converted_of d2 j = converted_of d j" for j using acc1[of j] acc2[of j] src[of j] by simp
  then show rows: "purchase_requisition_items d2 = purchase_requisition_items d"
    using e(2) l(3) po_ids_pri_distinct[OF assms(3)] by (intro pri_rows_eqI) simp_all
  obtain d0 ids where d0: "\<And>k. get_pr d1 k = get_pr (fold flip_pr_to_converted ids d0) k"
    "purchase_requisition_items d0 = purchase_requisition_items d1"
    "purchase_requisitions d0 = purchase_requisitions d" using l(4) by blast
  let ?ids = "source_pr_ids d1 (po_sources ?pid d1)"
  let ?js = "set (map pois_pr_item_id (po_sources ?pid d1))"
  have "lines_moved (\<ge>) (set ?ids) (purchase_requisition_items (d1\<lparr>purchase_orders := purchase_orders d2\<rparr>))
      (purchase_requisition_items d3)
      \<and> lines_of ?js (set ?ids) (purchase_requisition_items d3)"
  proof (rule moved_fold[OF g])
    show "lines_of ?js (set ?ids) (purchase_requisition_items (d1\<lparr>purchase_orders := purchase_orders d2\<rparr>))"
      using given_lines_of[OF assms(6)] by simp
    fix src x x' assume "src \<in> set (po_sources ?pid d1)" "give_source src x = Inr x'"
      "lines_of ?js (set ?ids) (purchase_requisition_items x)"
    then show "lines_moved (\<ge>) (set ?ids) (purchase_requisition_items x) (purchase_requisition_items x')
      \<and> lines_of ?js (set ?ids) (purchase_requisition_items x')"
      using give_source_moved[of src x x' ?js "set ?ids"] assms(6)
      by (auto simp: order_snapshot_def pois_checks_def)
  qed auto
  then have mv: "lines_moved (\<ge>) (set ?ids) (purchase_requisition_items d1) (purchase_requisition_items d3)" by simp
  have n3: "not_fully_converted k d3 = not_fully_converted k d"
    using rows by (simp add: not_fully_converted_def e(1))
  have n0: "not_fully_converted k d0 = not_fully_converted k d1"
    by (simp add: not_fully_converted_def d0(2))
  have other: "k \<notin> set ?ids \<Longrightarrow> not_fully_converted k d3 = not_fully_converted k d1"
    using lines_moved_nfc(1)[OF mv refl refl] by simp
  have pr1: "get_pr d1 k = map_option
    (\<lambda>r. if k \<in> set ids \<and> pr_status r = PR_APPROVED \<and> \<not> not_fully_converted k d1
         then r\<lparr>pr_status := PR_CONVERTED\<rparr> else r) (get_pr d k)"
    using d0(1) get_pr_cong[OF d0(3)] by (simp add: fold_flip_to_converted_row n0)
  have pr2: "get_pr d2 k = map_option
    (\<lambda>r. if k \<in> set ?ids \<and> pr_status r = PR_CONVERTED \<and> not_fully_converted k d
         then r\<lparr>pr_status := PR_APPROVED\<rparr> else r) (get_pr d1 k)"
    using e(3) get_pr_cong[OF e(4)] by (simp add: fold_flip_back_row n3)
  show "get_pr d2 k = get_pr d k"
  proof (cases "get_pr d k")
    case None
    then show ?thesis by (simp add: pr1 pr2)
  next
    case (Some q)
    then have "flag_ok d q" "pr_id q = k" using assms(4) get_pr_id by (auto simp: flags_ok_iff)
    then show ?thesis using Some other n3 by (cases q) (auto simp: pr1 pr2 flag_ok_def)
  qed
qed

section \<open>What an order is created from\<close>

lemma po_total_eq:
  "po_total data = sum_list (map (\<lambda>item. line_amount (poic_ordered_quantity item) (poic_unit_price item))
    (poc_items data))" (is "_ = sum_list (map ?f _)")
proof -
  have "fold (\<lambda>item t. t + ?f item) items t = t + sum_list (map ?f items)" for items t
    by (induction items arbitrary: t) (simp_all add: algebra_simps)
  from this[of "poc_items data" 0]
  have "po_total data = money (sum_list (map ?f (poc_items data)))"
    unfolding po_total_def sum_amounts_eq by (simp only: sum_list.Cons sum_list.Nil list.map add_0 add_0_right)
  moreover have "on_grid 2 (sum_list (map ?f (poc_items data)))"
    by (rule on_grid_sum_list) auto
  ultimately show ?thesis by simp
qed

lemma sum_list_stored_amounts:
  "map (\<lambda>x. x\<lparr>poi_id := 0\<rparr>) ns = map (new_po_item pid) (enumerate n items) \<Longrightarrow>
    sum_list (map poi_amount ns) =
      sum_list (map (\<lambda>item. line_amount (poic_ordered_quantity item) (poic_unit_price item)) items)"
proof (induction items arbitrary: ns n)
  case (Cons item items)
  then obtain x xs where ns: "ns = x # xs" "x\<lparr>poi_id := 0\<rparr> = new_po_item pid (n, item)"
    "map (\<lambda>x. x\<lparr>poi_id := 0\<rparr>) xs = map (new_po_item pid) (enumerate (Suc n) items)" by (cases ns) auto
  have "poi_amount x = line_amount (poic_ordered_quantity item) (poic_unit_price item)"
    using ns(2) by (cases x) (simp add: new_po_item_def)
  then show ?case using Cons.IH[OF ns(3)] ns(1) by simp
qed simp

lemma create_po_sources_approved:
  assumes "create_po ctx u data s d = Inr d'" "item \<in> set (poc_items data)"
  shows "sum_list (map psc_quantity (poic_sources item)) = poic_ordered_quantity item"
    and "src \<in> set (poic_sources item) \<Longrightarrow> \<exists>pri pr. get_pri s (psc_pr_item_id src) = Some pri
      \<and> get_pr s (pri_pr_id pri) = Some pr \<and> pr_status pr = PR_APPROVED"
    and "\<exists>m. get_mat s (poic_material_id item) = Some m \<and> mat_status m = ST_ACTIVE"
    and "\<exists>sp. get_sup s (poc_supplier_id data) = Some sp \<and> sup_status sp = ST_ACTIVE"
proof -
  from assms(1)[unfolded create_po_def Let_def split_beta, simplified]
  obtain sp pris where p: "assert_supplier_active s (poc_supplier_id data) = Inr sp"
    "source_pr_items s data = Inr pris"
    "\<forall>i\<in>set (map pri_pr_id pris). assert_pr_approved s i = Inr ()"
    "\<forall>it\<in>set (poc_items data). check_po_item s it = Inr ()" by auto
  note c = bspec[OF p(4) assms(2)]
  show "sum_list (map psc_quantity (poic_sources item)) = poic_ordered_quantity item"
    using c by (auto simp: check_po_item_def split: if_splits)
  show "\<exists>m. get_mat s (poic_material_id item) = Some m \<and> mat_status m = ST_ACTIVE"
    using c by (auto simp: check_po_item_def assert_po_material_active_def split: option.splits)
  show "\<exists>sp. get_sup s (poc_supplier_id data) = Some sp \<and> sup_status sp = ST_ACTIVE"
    using p(1) by (auto simp: assert_supplier_active_def split: option.splits if_splits)
  show "\<exists>pri pr. get_pri s (psc_pr_item_id src) = Some pri
      \<and> get_pr s (pri_pr_id pri) = Some pr \<and> pr_status pr = PR_APPROVED"
    if "src \<in> set (poic_sources item)"
  proof -
    have l: "list_all2 (\<lambda>src pri. get_pri s (psc_pr_item_id src) = Some pri)
        (concat (map poic_sources (poc_items data))) pris"
      using p(2) by (simp add: source_pr_items_def rtraverse_Inr_iff)
    have "src \<in> set (concat (map poic_sources (poc_items data)))" using that assms(2) by auto
    from list_all2_member[OF l this]
    obtain pri where "pri \<in> set pris" "get_pri s (psc_pr_item_id src) = Some pri" by blast
    moreover from this(1) have "assert_pr_approved s (pri_pr_id pri) = Inr ()" using p(3) by auto
    ultimately show ?thesis by (auto simp: assert_pr_approved_def split: option.splits)
  qed
qed

section \<open>Confirmation and cancellation claim the order\<close>

definition po_open :: "po_status list \<Rightarrow> nat \<Rightarrow> db \<Rightarrow> bool" where
  "po_open sts i d \<longleftrightarrow> (\<exists>r. get_po d i = Some r \<and> po_status r \<in> set sts)"

record po_claim =
  pcl_ctx :: request_ctx
  pcl_user :: current_user
  pcl_version :: nat
  pcl_snapshot :: db

definition claim_confirm :: "nat \<Rightarrow> po_claim \<Rightarrow> db \<Rightarrow> error + db" where
  "claim_confirm i c d = confirm_po (pcl_ctx c) (pcl_user c) i (pcl_version c) (pcl_snapshot c) d"

definition claim_cancel :: "nat \<Rightarrow> po_claim \<Rightarrow> db \<Rightarrow> error + db" where
  "claim_cancel i c d = cancel_po (pcl_ctx c) (pcl_user c) i (pcl_version c) (pcl_snapshot c) d"

interpretation po_confirms: exclusive_claim po_ids_ok "po_open [PO_DRAFT] i" "claim_confirm i" for i
proof
  fix s s' c assume s: "po_ids_ok s" "claim_confirm i c s = Inr s'"
  then have c: "confirm_po (pcl_ctx c) (pcl_user c) i (pcl_version c) (pcl_snapshot c) s = Inr s'"
    by (simp add: claim_confirm_def)
  show "po_ids_ok s'" by (rule confirm_po_rows[OF c s(1)])
  show "po_open [PO_DRAFT] i s" by (rule confirm_po_rows[OF c s(1)]) (simp add: po_open_def)
  show "\<not> po_open [PO_DRAFT] i s'" by (rule confirm_po_rows[OF c s(1)]) (simp add: po_open_def)
qed

interpretation po_cancels: exclusive_claim po_ids_ok "po_open [PO_DRAFT, PO_CONFIRMED] i" "claim_cancel i" for i
proof
  fix s s' c assume s: "po_ids_ok s" "claim_cancel i c s = Inr s'"
  then have c: "cancel_po (pcl_ctx c) (pcl_user c) i (pcl_version c) (pcl_snapshot c) s = Inr s'"
    by (simp add: claim_cancel_def)
  show "po_ids_ok s'" by (rule cancel_po_rows[OF c s(1)])
  show "po_open [PO_DRAFT, PO_CONFIRMED] i s"
    by (rule cancel_po_rows[OF c s(1)]) (auto simp: po_open_def)
  show "\<not> po_open [PO_DRAFT, PO_CONFIRMED] i s'"
    by (rule cancel_po_rows[OF c s(1)]) (simp add: po_open_def)
qed

end
