(* ===== verification/Order_Correct.thy ===== *)
theory Order_Correct
  imports Order_Steps Example
begin

text \<open>
  Correctness of the order handlers: the status machine, the accounts between
  requisition lines and orders, the converted flag, exclusive confirmation and
  cancellation, the stored lines, and cancellation as the inverse of creation.
\<close>

section \<open>Witness states\<close>

lemma ex_po_db_ids: "po_ids_ok (ex_po_db st)"
  by (simp add: po_ids_ok_def keyed_def get_po_def get_poi_def ex_po_db_def ex_po_row_def
      ex_po_item_def ex_pr_item_def ex_empty_def)

lemma ex_po_db_snapshot: "order_snapshot 1 (ex_po_db st) (ex_po_db st)"
  by (simp add: order_snapshot_def lines_agree_def po_sources_def po_items_def pois_checks_def
      get_pri_def ex_po_db_def ex_po_item_def ex_pr_item_def ex_empty_def)

lemma ex_cancel_succeeds:
  "succeeds (cancel_po ex_ctx ex_buyer 1 1 (ex_po_db PO_DRAFT) (ex_po_db PO_DRAFT))"
  by code_simp

lemmas ex_cancel_step = po_step.step_cancel[OF succeeds_committed[OF ex_cancel_succeeds] ex_po_db_snapshot]

text \<open>An order of two units more for the line that has six left.\<close>

definition ex_po_create :: po_create where
  "ex_po_create = \<lparr>poc_supplier_id = 1, poc_order_date = None, poc_expected_date = None,
    poc_remark = None, poc_items = [\<lparr>poic_material_id = 1, poic_ordered_quantity = 6,
      poic_unit_price = 5/2, poic_remark = None,
      poic_sources = [\<lparr>psc_pr_item_id = 1, psc_quantity = 6\<rparr>]\<rparr>]\<rparr>"

lemma ex_create_succeeds:
  "succeeds (create_po ex_ctx ex_buyer ex_po_create (ex_po_db PO_CONFIRMED) (ex_po_db PO_CONFIRMED))"
  by code_simp

lemma ex_po_create_valid: "valid_po_create ex_po_create"
  by code_simp

section \<open>Properties\<close>

text \<open>
  C10: whatever snapshot a request has read, the order handlers move an order only
  along \<^verbatim>\<open>_TRANSITIONS\<close>, each move advancing the version by one, and never change
  its number, supplier, buyer or total.  No order disappears.
\<close>

theorem po_status_machine:
  assumes "po_step d d'" "po_ids_ok d" "get_po d i = Some r"
  shows "\<exists>r'. get_po d' i = Some r' \<and> po_no r' = po_no r \<and> po_supplier_id r' = po_supplier_id r
    \<and> po_buyer_id r' = po_buyer_id r \<and> po_total_amount r' = po_total_amount r
    \<and> (r' = r \<or> (po_status r' \<in> set (po_transitions (po_status r)) \<and> po_version r' = Suc (po_version r)))"
  using assms(1)
proof cases
  case (step_create ctx u data s)
  from step_create(1) show ?thesis by (rule create_po_rows[OF _ assms(2)]) (use assms(3) in auto)
next
  case (step_confirm ctx u j v s)
  then show ?thesis by (rule confirm_po_rows[OF _ assms(2)]) (use assms(3) in auto)
next
  case (step_cancel ctx u j v s)
  from step_cancel(1) show ?thesis by (rule cancel_po_rows[OF _ assms(2)]) (use assms(3) in auto)
qed

theorem po_status_machine_witness:
  "\<exists>r'. get_po (committed (cancel_po ex_ctx ex_buyer 1 1 (ex_po_db PO_DRAFT) (ex_po_db PO_DRAFT))) 1
    = Some r' \<and> po_no r' = ''PO-00260831-0001'' \<and> po_buyer_id r' = 4"
proof -
  have "get_po (ex_po_db PO_DRAFT) 1 = Some (ex_po_row PO_DRAFT 1)"
    by (simp add: get_po_def ex_po_db_def ex_po_row_def)
  from po_status_machine[OF ex_cancel_step ex_po_db_ids this] show ?thesis
    by (auto simp: ex_po_row_def)
qed

text \<open>
  C8: the quantity converted from a requisition line is the quantity that the
  orders which are not cancelled hold of it.  Creating, confirming and cancelling
  keep this account, whatever snapshot they have read.
\<close>

theorem conversion_accounts:
  assumes "po_step d d'" "po_ids_ok d" "converted_accounts d"
  shows "converted_accounts d'"
proof -
  have "converted_of d' j = sourced_of d' j" for j
    using po_step_accounts(2)[OF assms(1,2), of j] assms(3) by (simp add: converted_accounts_def)
  then show ?thesis by (simp add: converted_accounts_def)
qed

theorem conversion_accounts_witness:
  "converted_accounts (committed (cancel_po ex_ctx ex_buyer 1 1 (ex_po_db PO_DRAFT) (ex_po_db PO_DRAFT)))"
  by (rule conversion_accounts[OF ex_cancel_step ex_po_db_ids])
    (simp add: converted_accounts_def converted_of_def sourced_of_def active_source_def get_po_def
      get_poi_def ex_po_db_def ex_po_row_def ex_po_item_def ex_pr_item_def ex_empty_def)

text \<open>
  C9: a requisition line is never over-converted, and never converted below zero:
  no interleaving of orders and cancellations, each with its own stale snapshot,
  leaves the bounds.
\<close>

theorem never_over_converted:
  assumes "po_step\<^sup>*\<^sup>* d d'" "po_ids_ok d"
    and "\<forall>r\<in>set (purchase_requisition_items d). 0 \<le> pri_converted_quantity r
      \<and> pri_converted_quantity r \<le> pri_requested_quantity r"
  shows "\<forall>r\<in>set (purchase_requisition_items d'). 0 \<le> pri_converted_quantity r
      \<and> pri_converted_quantity r \<le> pri_requested_quantity r"
proof -
  have "po_ids_ok d' \<and> converted.bounded_rows (purchase_requisition_items d')"
    using assms(1)
  proof (induction rule: rtranclp_induct)
    case base
    then show ?case using assms(2,3) by (simp add: converted.bounded_rows_def)
  next
    case (step x y)
    then show ?case using po_step_accounts(1) po_step_bounded by blast
  qed
  then show ?thesis by (simp add: converted.bounded_rows_def)
qed

theorem never_over_converted_witness:
  "list_all (\<lambda>r. 0 \<le> pri_converted_quantity r \<and> pri_converted_quantity r \<le> pri_requested_quantity r)
    (purchase_requisition_items
      (committed (cancel_po ex_ctx ex_buyer 1 1 (ex_po_db PO_DRAFT) (ex_po_db PO_DRAFT))))"
  unfolding list_all_iff
  by (rule never_over_converted[OF r_into_rtranclp[of po_step, OF ex_cancel_step] ex_po_db_ids])
    (simp add: ex_po_db_def ex_pr_item_def)

lemma ex_po_db_flags: "flags_ok (ex_po_db st)"
  by (simp add: flags_ok_def flag_ok_def get_pr_def not_fully_converted_def ex_po_db_def ex_pr_row_def
      ex_pr_item_def)



text \<open>
  C11: an order that is cancelled gives back exactly what its creation took: the
  requisition lines and the requisition headers are as before the creation.
\<close>

theorem create_then_cancel:
  assumes "create_po ctx u data s d = Inr d1" "valid_po_create data" "po_ids_ok d" "flags_ok d"
    and "cancel_po ctx' u' (auto_inc d T_purchase_orders) v d1 d1 = Inr d2"
    and "order_snapshot (auto_inc d T_purchase_orders) d1 d1"
  shows "purchase_requisition_items d2 = purchase_requisition_items d \<and> get_pr d2 k = get_pr d k"
  using create_cancel_restores[OF assms] by blast

lemma ex_create_cancel:
  "case create_po ex_ctx ex_buyer ex_po_create (ex_po_db PO_CONFIRMED) (ex_po_db PO_CONFIRMED) of
     Inl e \<Rightarrow> False
   | Inr d1 \<Rightarrow> succeeds (cancel_po ex_ctx ex_buyer 10 1 d1 d1) \<and> order_snapshot 10 d1 d1"
  by code_simp

theorem create_then_cancel_witness:
  "\<exists>d1 d2. create_po ex_ctx ex_buyer ex_po_create (ex_po_db PO_CONFIRMED) (ex_po_db PO_CONFIRMED) = Inr d1
    \<and> cancel_po ex_ctx ex_buyer 10 1 d1 d1 = Inr d2
    \<and> purchase_requisition_items d2 = [ex_pr_item 1 1 1 10 4 (25/2) 125]"
proof -
  obtain d1 where d1: "create_po ex_ctx ex_buyer ex_po_create (ex_po_db PO_CONFIRMED) (ex_po_db PO_CONFIRMED) = Inr d1"
    "succeeds (cancel_po ex_ctx ex_buyer 10 1 d1 d1)" "order_snapshot 10 d1 d1"
    using ex_create_cancel by (auto split: sum.splits)
  have "auto_inc (ex_po_db PO_CONFIRMED) T_purchase_orders = 10" by (simp add: ex_po_db_def ex_empty_def)
  then show ?thesis
    using create_then_cancel[OF d1(1) ex_po_create_valid ex_po_db_ids ex_po_db_flags, of ex_ctx ex_buyer 1
        "committed (cancel_po ex_ctx ex_buyer 10 1 d1 d1)"] d1 succeeds_committed[OF d1(2)]
    by (intro exI[of _ d1] exI[of _ "committed (cancel_po ex_ctx ex_buyer 10 1 d1 d1)"])
      (simp add: ex_po_db_def)
qed



text \<open>
  Of any number of concurrent cancellations of one order at most one is
  committed, so its quantities are given back at most once; the same holds for
  confirmations.
\<close>

theorem po_claimed_once:
  assumes "po_ids_ok d"
  shows "length (po_cancels.winners i cs d) \<le> 1 \<and> length (po_confirms.winners i cs d) \<le> 1"
  using po_cancels.at_most_one_winner[OF assms] po_confirms.at_most_one_winner[OF assms] by blast

definition ex_po_claim :: "po_status \<Rightarrow> po_claim" where
  "ex_po_claim st = \<lparr>pcl_ctx = ex_ctx, pcl_user = ex_buyer, pcl_version = 1, pcl_snapshot = ex_po_db st\<rparr>"

theorem po_claimed_once_witness:
  "length (po_cancels.winners 1 [ex_po_claim PO_DRAFT, ex_po_claim PO_DRAFT] (ex_po_db PO_DRAFT)) \<le> 1
   \<and> succeeds (claim_cancel 1 (ex_po_claim PO_DRAFT) (ex_po_db PO_DRAFT))"
proof
  show "length (po_cancels.winners 1 [ex_po_claim PO_DRAFT, ex_po_claim PO_DRAFT] (ex_po_db PO_DRAFT)) \<le> 1"
    using po_claimed_once[OF ex_po_db_ids] by blast
  show "succeeds (claim_cancel 1 (ex_po_claim PO_DRAFT) (ex_po_db PO_DRAFT))"
    using ex_cancel_succeeds by (simp add: claim_cancel_def ex_po_claim_def)
qed



end
