(* ===== verification/Session.thy ===== *)
theory Session
  imports AuditLog Numbering "HOL-Library.Sublist"
begin

text \<open>
  What the administrative services share: the flush of a loaded object, the
  rounding of a DECIMAL column, and the identity of the rows of a table that is
  never physically deleted from.

  A handler reads its object from the snapshot and assigns attributes; the flush
  is one UPDATE by primary key of the columns whose value differs from the loaded
  one, none when nothing differs, and \<^verbatim>\<open>StaleData\<close> when the row is gone.
\<close>

definition write_col :: "'a \<Rightarrow> 'a \<Rightarrow> 'a \<Rightarrow> 'a" where
  "write_col old new cur = (if new = old then cur else new)"

text \<open>\<^verbatim>\<open>if data.x is not None: obj.x = data.x\<close>, for a column that may and may not be NULL\<close>

definition given :: "'a option \<Rightarrow> 'a \<Rightarrow> 'a" where
  "given x old = (case x of None \<Rightarrow> old | Some v \<Rightarrow> v)"

definition given_opt :: "'a option \<Rightarrow> 'a option \<Rightarrow> 'a option" where
  "given_opt x old = (case x of None \<Rightarrow> old | Some v \<Rightarrow> Some v)"

definition flush_row ::
    "('r \<Rightarrow> nat) \<Rightarrow> ('r \<Rightarrow> 'r \<Rightarrow> 'r \<Rightarrow> 'r) \<Rightarrow> 'r \<Rightarrow> 'r \<Rightarrow> 'r list \<Rightarrow> error + 'r list" where
  "flush_row key merge old new rows =
    (if new = old then Inr rows
     else if list_ex (\<lambda>r. key r = key old) rows
     then Inr (update_rows (\<lambda>r. key r = key old) (merge old new) rows)
     else Inl StaleData)"

text \<open>A DECIMAL(18,4) column rounds the literal it is given, ties away from zero.\<close>

definition column4 :: "decimal \<Rightarrow> decimal" where
  "column4 v = quantize_half_up 4 v"

lemma write_col_same [simp]: "write_col x x c = c" "write_col x y x = y"
  by (simp_all add: write_col_def)

lemma given_simps [simp]:
  "given None x = x" "given (Some v) x = v" "given_opt None y = y" "given_opt (Some v) y = Some v"
  by (simp_all add: given_def given_opt_def)

lemma flush_row_Inr [rsimps]:
  "flush_row key merge old new rows = Inr rows' \<longleftrightarrow>
    (if new = old then rows' = rows
     else (\<exists>r\<in>set rows. key r = key old)
       \<and> rows' = update_rows (\<lambda>r. key r = key old) (merge old new) rows)"
  by (auto simp: flush_row_def list_ex_iff)

text \<open>A transaction that runs alone flushes exactly the object it has changed.\<close>

lemma flush_row_serial:
  assumes "distinct (map key rows)" and "row_by key k rows = Some old" and "key new = key old"
    and "merge old new old = new"
  shows "\<exists>rows'. flush_row key merge old new rows = Inr rows'
    \<and> row_by key k rows' = Some new
    \<and> (\<forall>j. j \<noteq> k \<longrightarrow> row_by key j rows' = row_by key j rows)"
proof -
  have old: "old \<in> set rows" "key old = k" using row_by_SomeD[OF assms(2)] by auto
  define rows' where "rows' = map (\<lambda>r. if key r = k then new else r) rows"
  have m: "update_rows (\<lambda>r. key r = k) (merge old new) rows = rows'"
    unfolding rows'_def update_rows_def
  proof (rule map_cong[OF refl])
    fix r assume "r \<in> set rows"
    then have "r = old" if "key r = k"
      using that old assms(1) by (metis row_by_distinct option.inject)
    then show "(if key r = k then merge old new r else r) = (if key r = k then new else r)"
      using assms(4) by auto
  qed
  have look: "row_by key j rows' = map_option (\<lambda>r. if key r = k then new else r) (row_by key j rows)"
    for j
    unfolding rows'_def using assms(3) old(2) by (induction rows) auto
  have other: "row_by key j rows' = row_by key j rows" if "j \<noteq> k" for j
    using look[of j] row_by_SomeD[of key j rows] that by (cases "row_by key j rows") auto
  show ?thesis
  proof (cases "new = old")
    case True
    then show ?thesis using assms(2) by (auto simp: flush_row_def)
  next
    case False
    then have "flush_row key merge old new rows = Inr rows'"
      using old m by (auto simp: flush_row_Inr)
    then show ?thesis using look[of k] other assms(2) old by auto
  qed
qed

section \<open>Tables that keep the identity of their rows\<close>

text \<open>
  The administrative tables have a business code beside the key (a material code,
  a user name, the pair of a policy).  \<^verbatim>\<open>identities\<close> is the list of keys with codes;
  \<^verbatim>\<open>ids_ok\<close> says that neither repeats and that the keys are below the next
  auto-increment value.
\<close>

definition identities :: "('r \<Rightarrow> nat) \<Rightarrow> ('r \<Rightarrow> 'c) \<Rightarrow> 'r list \<Rightarrow> (nat \<times> 'c) list" where
  "identities key code rows = map (\<lambda>r. (key r, code r)) rows"

definition ids_ok :: "('r \<Rightarrow> nat) \<Rightarrow> ('r \<Rightarrow> 'c) \<Rightarrow> nat \<Rightarrow> 'r list \<Rightarrow> bool" where
  "ids_ok key code next_id rows \<longleftrightarrow>
    distinct (map key rows) \<and> distinct (map code rows) \<and> list_all (\<lambda>r. key r < next_id) rows"

text \<open>One change of such a table: rows are edited in place, or one row is added.\<close>

definition table_grows ::
    "('r \<Rightarrow> nat) \<Rightarrow> ('r \<Rightarrow> 'c) \<Rightarrow> nat \<times> 'r list \<Rightarrow> nat \<times> 'r list \<Rightarrow> bool" where
  "table_grows key code old new \<longleftrightarrow>
    identities key code (snd new) = identities key code (snd old) \<and> fst new = fst old
  \<or> (\<exists>r. snd new = snd old @ [r] \<and> key r = fst old \<and> code r \<notin> code ` set (snd old)
        \<and> fst new = Suc (fst old))"

lemma table_grows_refl [simp]: "table_grows key code t t"
  by (simp add: table_grows_def)

lemma ids_ok_identities:
  "ids_ok key code n rows \<longleftrightarrow> distinct (map fst (identities key code rows))
    \<and> distinct (map snd (identities key code rows))
    \<and> (\<forall>i\<in>set (map fst (identities key code rows)). i < n)"
  by (auto simp: ids_ok_def identities_def comp_def list_all_iff)

lemma identities_update:
  "(\<And>r. p r \<Longrightarrow> key (f r) = key r \<and> code (f r) = code r) \<Longrightarrow>
    identities key code (update_rows p f rows) = identities key code rows"
  unfolding identities_def by (rule map_update_rows_same) auto

lemma table_grows_edit:
  assumes "\<And>r. p r \<Longrightarrow> key (f r) = key r \<and> code (f r) = code r"
  shows "table_grows key code (n, rows) (n, update_rows p f rows)"
  using identities_update[of p key f code rows] assms by (simp add: table_grows_def)

lemma flush_row_grows:
  assumes "flush_row key merge old new rows = Inr rows'"
    and "\<And>r. key (merge old new r) = key r \<and> code (merge old new r) = code r"
  shows "table_grows key code (n, rows) (n, rows')"
  using assms(1) table_grows_edit[of "\<lambda>r. key r = key old" key "merge old new" code n rows] assms(2)
  by (auto simp: flush_row_Inr split: if_splits)

lemma table_grows_ok:
  assumes "table_grows key code old new" and "ids_ok key code (fst old) (snd old)"
  shows "ids_ok key code (fst new) (snd new)
    \<and> prefix (identities key code (snd old)) (identities key code (snd new))"
proof -
  consider "identities key code (snd new) = identities key code (snd old)" "fst new = fst old"
    | r where "snd new = snd old @ [r]" "key r = fst old" "code r \<notin> code ` set (snd old)"
        "fst new = Suc (fst old)"
    using assms(1) unfolding table_grows_def by blast
  then show ?thesis
  proof cases
    case 1
    then show ?thesis using assms(2) by (simp add: ids_ok_identities)
  next
    case 2
    have "key r \<notin> key ` set (snd old)" and "list_all (\<lambda>x. key x < Suc (fst old)) (snd old)"
      using assms(2) 2(2) by (fastforce simp: ids_ok_def list_all_iff)+
    then show ?thesis using assms(2) 2 by (simp add: ids_ok_def identities_def)
  qed
qed

locale identity_table =
  fixes rows :: "db \<Rightarrow> 'r list" and key :: "'r \<Rightarrow> nat" and code :: "'r \<Rightarrow> 'c"
    and tbl :: db_table and step :: "db \<Rightarrow> db \<Rightarrow> bool"
  assumes step_grows: "step d d' \<Longrightarrow>
    table_grows key code (auto_inc d tbl, rows d) (auto_inc d' tbl, rows d')"
begin

lemma step_identities:
  assumes "step d d'" and "ids_ok key code (auto_inc d tbl) (rows d)"
  shows "ids_ok key code (auto_inc d' tbl) (rows d')
    \<and> prefix (identities key code (rows d)) (identities key code (rows d'))"
  using table_grows_ok[OF step_grows[OF assms(1)]] assms(2) by simp

lemma run_identities:
  assumes "step\<^sup>*\<^sup>* d d'" and "ids_ok key code (auto_inc d tbl) (rows d)"
  shows "ids_ok key code (auto_inc d' tbl) (rows d')
    \<and> prefix (identities key code (rows d)) (identities key code (rows d'))"
  using assms
proof (induction rule: rtranclp_induct)
  case (step d1 d2)
  then show ?case using step_identities[of d1 d2] prefix_order.order_trans by blast
qed simp

end

end
