(* ===== verification/Clock.thy ===== *)
theory Clock
  imports Calendar
begin

text \<open>
  The arithmetic of \<^verbatim>\<open>datetime.date\<close> and \<^verbatim>\<open>timedelta\<close> that the program uses: a
  date plus or minus days in the proleptic Gregorian calendar, and a timestamp
  plus minutes.
\<close>

definition leap_year :: "nat \<Rightarrow> bool" where
  "leap_year y \<longleftrightarrow> y mod 4 = 0 \<and> (y mod 100 \<noteq> 0 \<or> y mod 400 = 0)"

definition days_in_month :: "nat \<Rightarrow> nat \<Rightarrow> nat" where
  "days_in_month y m =
    (if m = 2 then (if leap_year y then 29 else 28)
     else if m \<in> {4, 6, 9, 11} then 30 else 31)"

definition valid_date :: "date \<Rightarrow> bool" where
  "valid_date d \<longleftrightarrow> 1 \<le> month d \<and> month d \<le> 12 \<and> 1 \<le> day d \<and> day d \<le> days_in_month (year d) (month d)"

definition next_day :: "date \<Rightarrow> date" where
  "next_day d =
    (if day d < days_in_month (year d) (month d) then Date (year d) (month d) (day d + 1)
     else if month d < 12 then Date (year d) (month d + 1) 1
     else Date (year d + 1) 1 1)"

definition prev_day :: "date \<Rightarrow> date" where
  "prev_day d =
    (if 1 < day d then Date (year d) (month d) (day d - 1)
     else if 1 < month d
     then Date (year d) (month d - 1) (days_in_month (year d) (month d - 1))
     else Date (year d - 1) 12 31)"

text \<open>\<^verbatim>\<open>d + timedelta(days=n)\<close> and \<^verbatim>\<open>d - timedelta(days=n)\<close>\<close>

primrec add_days :: "nat \<Rightarrow> date \<Rightarrow> date" where
  "add_days 0 d = d"
| "add_days (Suc n) d = next_day (add_days n d)"

primrec sub_days :: "nat \<Rightarrow> date \<Rightarrow> date" where
  "sub_days 0 d = d"
| "sub_days (Suc n) d = sub_days n (prev_day d)"

text \<open>\<^verbatim>\<open>t + timedelta(minutes=n)\<close>\<close>

definition add_minutes :: "nat \<Rightarrow> datetime \<Rightarrow> datetime" where
  "add_minutes n t =
    (let ms = dt_millis t + n * 60000
     in DateTime (add_days (ms div 86400000) (dt_date t)) (ms mod 86400000))"

lemma days_in_month_bounds: "28 \<le> days_in_month y m" "days_in_month y m \<le> 31"
  by (simp_all add: days_in_month_def)

lemma next_day_valid: "valid_date d \<Longrightarrow> valid_date (next_day d)"
  using days_in_month_bounds(1)[of "year d" "month d + 1"] days_in_month_bounds(1)[of "year d + 1" 1]
  by (auto simp: valid_date_def next_day_def)

lemma prev_day_valid: "valid_date d \<Longrightarrow> valid_date (prev_day d)"
proof -
  assume v: "valid_date d"
  have dec: "days_in_month y 12 = 31" for y by (simp add: days_in_month_def)
  show ?thesis
    using v days_in_month_bounds(1)[of "year d" "month d - 1"]
    unfolding valid_date_def prev_day_def by (simp add: dec split: if_splits) linarith
qed

text \<open>Going back a day and forth again; the year 0 has no predecessor.\<close>

lemma next_prev_day:
  assumes "valid_date d" and "0 < year d" shows "next_day (prev_day d) = d"
proof -
  have dec: "days_in_month y 12 = 31" for y by (simp add: days_in_month_def)
  consider "1 < day d" | "day d = 1" "1 < month d" | "day d = 1" "month d = 1"
    using assms(1) unfolding valid_date_def by linarith
  then show ?thesis
  proof cases
    case 1
    then have "day d - 1 < days_in_month (year d) (month d)"
      using assms(1) unfolding valid_date_def by linarith
    then show ?thesis using 1 by (cases d) (simp add: prev_day_def next_day_def)
  next
    case 2
    have "month d - 1 < 12" using assms(1) unfolding valid_date_def by linarith
    then show ?thesis using 2 by (cases d) (simp add: prev_day_def next_day_def)
  next
    case 3
    then show ?thesis using assms(2) by (cases d) (simp add: prev_day_def next_day_def dec)
  qed
qed

lemma next_day_less: "valid_date d \<Longrightarrow> d < next_day d"
  by (auto simp: next_day_def valid_date_def less_date_def less_eq_date_def)

lemma date_le_iff:
  "a \<le> b \<longleftrightarrow> year a < year b \<or> year a = year b \<and>
    (month a < month b \<or> month a = month b \<and> day a \<le> day b)"
  by (simp add: less_eq_date_def)

lemma date_less_iff:
  "a < b \<longleftrightarrow> year a < year b \<or> year a = year b \<and>
    (month a < month b \<or> month a = month b \<and> day a < day b)"
  unfolding less_date_def less_eq_date_def by linarith

lemma next_day_least:
  assumes "valid_date d" and "valid_date e" and "d < e" shows "next_day d \<le> e"
proof -
  consider "year d < year e" | "year d = year e" "month d < month e"
    | "year d = year e" "month d = month e" "day d < day e"
    using assms(3) unfolding date_less_iff by blast
  then show ?thesis
  proof cases
    case 1
    then show ?thesis using assms(2) by (auto simp: next_day_def valid_date_def date_le_iff)
  next
    case 2
    then show ?thesis using assms(2) unfolding next_day_def valid_date_def date_le_iff by simp linarith
  next
    case 3
    then have "day d < days_in_month (year d) (month d)"
      using assms(2) unfolding valid_date_def by simp
    then show ?thesis using 3 by (simp add: next_day_def date_le_iff)
  qed
qed

lemma add_days_valid: "valid_date d \<Longrightarrow> valid_date (add_days n d)"
  by (induction n) (simp_all add: next_day_valid)

lemma add_days_next: "add_days n (next_day d) = add_days (Suc n) d"
  by (induction n) simp_all

text \<open>Python refuses dates before year 1; above that, subtracting days is undone by adding them.\<close>

lemma year_prev_day_le: "year (prev_day d) \<le> year d"
  by (auto simp: prev_day_def)

lemma year_sub_days_le: "year (sub_days n d) \<le> year d"
proof (induction n arbitrary: d)
  case (Suc n)
  then show ?case using year_prev_day_le[of d] order_trans by fastforce
qed simp

lemma sub_days_valid: "valid_date d \<Longrightarrow> valid_date (sub_days n d)"
  by (induction n arbitrary: d) (simp_all add: prev_day_valid)

lemma add_sub_days:
  "\<lbrakk>valid_date d; 0 < year (sub_days n d)\<rbrakk> \<Longrightarrow> add_days n (sub_days n d) = d"
proof (induction n arbitrary: d)
  case (Suc n)
  have "0 < year d"
    using Suc.prems(2) year_sub_days_le[of n "prev_day d"] year_prev_day_le[of d] by simp
  then show ?case
    using Suc.IH[of "prev_day d"] Suc.prems prev_day_valid next_prev_day by simp
qed simp

lemma add_days_mono: "\<lbrakk>valid_date d; m \<le> n\<rbrakk> \<Longrightarrow> add_days m d \<le> add_days n d"
proof (induction n)
  case (Suc n)
  then show ?case
    using next_day_less[OF add_days_valid[of d n]] by (cases "m = Suc n") auto
qed simp

lemma add_days_strict: "\<lbrakk>valid_date d; m < n\<rbrakk> \<Longrightarrow> add_days m d < add_days n d"
  using add_days_mono[of d "Suc m" n] next_day_less[OF add_days_valid[of d m]] by auto

text \<open>Every valid date of an interval is one of the days counted from its start.\<close>

lemma day_in_interval:
  "\<lbrakk>valid_date d; valid_date e; d \<le> e; e \<le> add_days n d\<rbrakk> \<Longrightarrow> \<exists>k\<le>n. e = add_days k d"
proof (induction n)
  case (Suc n)
  show ?case
  proof (cases "e \<le> add_days n d")
    case True
    then show ?thesis using Suc by (meson le_SucI)
  next
    case False
    then have "next_day (add_days n d) \<le> e"
      using Suc.prems add_days_valid next_day_least by auto
    then show ?thesis using Suc.prems by (intro exI[of _ "Suc n"]) auto
  qed
qed auto

end
