(* ===== verification/Identity.thy ===== *)
theory Identity
  imports Session Clock
begin

text \<open>
  Users, roles, permissions and departments
  (\<^verbatim>\<open>app/services/user_service.py\<close>, \<^verbatim>\<open>role_service.py\<close>,
  \<^verbatim>\<open>department_service.py\<close> and their schemas).

  Parameters: \<^verbatim>\<open>same x y\<close> is the equality of text under the collation of the
  database (it ignores case, so it is not the equality of strings),
  \<^verbatim>\<open>contains\<close> its LIKE, and \<^verbatim>\<open>hash\<close> the salted hash that passlib gives for a
  password on this call.
\<close>

section \<open>INSERT and DELETE of the identity tables (app/models/system.py)\<close>

definition insert_dept :: "(string \<Rightarrow> string \<Rightarrow> bool) \<Rightarrow> department \<Rightarrow> db \<Rightarrow> error + db" where
  "insert_dept same r d =
    (if list_ex (\<lambda>x. same (dept_code x) (dept_code r)) (departments d)
     then Inl (DbError (UniqueViolation ''uk_dept_code''))
     else Inr (d\<lparr>departments := departments d @ [r\<lparr>dept_id := auto_inc d T_departments\<rparr>],
        auto_inc := (auto_inc d)(T_departments := Suc (auto_inc d T_departments))\<rparr>))"

definition insert_role :: "role \<Rightarrow> db \<Rightarrow> error + db" where
  "insert_role r d =
    (if list_ex (\<lambda>x. role_role_code x = role_role_code r) (roles d)
     then Inl (DbError (UniqueViolation ''uk_role_code''))
     else Inr (d\<lparr>roles := roles d @ [r\<lparr>role_id := auto_inc d T_roles\<rparr>],
        auto_inc := (auto_inc d)(T_roles := Suc (auto_inc d T_roles))\<rparr>))"

definition insert_rp :: "role_permission \<Rightarrow> db \<Rightarrow> error + db" where
  "insert_rp r d =
    (if list_ex (\<lambda>x. rp_role_id x = rp_role_id r \<and> rp_permission_id x = rp_permission_id r)
          (role_permissions d)
     then Inl (DbError (UniqueViolation ''uk_role_perm''))
     else Inr (d\<lparr>role_permissions :=
          role_permissions d @ [r\<lparr>rp_id := auto_inc d T_role_permissions\<rparr>],
        auto_inc := (auto_inc d)(T_role_permissions := Suc (auto_inc d T_role_permissions))\<rparr>))"

definition insert_account :: "(string \<Rightarrow> string \<Rightarrow> bool) \<Rightarrow> user \<Rightarrow> db \<Rightarrow> error + db" where
  "insert_account same r d =
    (if list_ex (\<lambda>x. same (user_username x) (user_username r)) (users d)
     then Inl (DbError (UniqueViolation ''uk_user_username''))
     else Inr (d\<lparr>users := users d @ [r\<lparr>user_id := auto_inc d T_users\<rparr>],
        auto_inc := (auto_inc d)(T_users := Suc (auto_inc d T_users))\<rparr>))"

text \<open>The foreign keys: a user RESTRICTs its role, the links of the role CASCADE.\<close>

definition delete_role_row :: "nat \<Rightarrow> db \<Rightarrow> error + db" where
  "delete_role_row i d =
    (if list_ex (\<lambda>u. user_role_id u = i) (users d)
     then Inl (DbError (ForeignKeyViolation ''fk_user_role''))
     else Inr (d\<lparr>roles := filter (\<lambda>r. role_id r \<noteq> i) (roles d),
        role_permissions := filter (\<lambda>l. rp_role_id l \<noteq> i) (role_permissions d)\<rparr>))"

section \<open>Users\<close>

record user_create =
  uc_username :: string
  uc_password :: string
  uc_real_name :: string
  uc_email :: "string option"
  uc_phone :: "string option"
  uc_department_id :: "nat option"
  uc_role_id :: nat

text \<open>
  \<^verbatim>\<open>uu_department_id\<close> tells an absent field (\<^verbatim>\<open>None\<close>) from an explicit null
  (\<^verbatim>\<open>Some None\<close>), as \<^verbatim>\<open>model_fields_set\<close> does.
\<close>

record user_update =
  uu_real_name :: "string option"
  uu_email :: "string option"
  uu_phone :: "string option"
  uu_department_id :: "nat option option"
  uu_role_id :: "nat option"
  uu_status :: "user_status option"
  uu_password :: "string option"

definition username_char :: "char \<Rightarrow> bool" where
  "username_char c \<longleftrightarrow> (let n = (of_char c :: nat) in
    (97 \<le> n \<and> n \<le> 122) \<or> (65 \<le> n \<and> n \<le> 90) \<or> (48 \<le> n \<and> n \<le> 57) \<or> n \<in> {95, 46, 45})"

definition valid_user_create :: "user_create \<Rightarrow> bool" where
  "valid_user_create x \<longleftrightarrow> text_len 2 64 (uc_username x) \<and> list_all username_char (uc_username x)
    \<and> text_len 6 128 (uc_password x) \<and> text_len 1 64 (uc_real_name x)
    \<and> opt_len 0 128 (uc_email x) \<and> opt_len 0 32 (uc_phone x) \<and> 0 < uc_role_id x"

definition valid_user_update :: "user_update \<Rightarrow> bool" where
  "valid_user_update x \<longleftrightarrow> opt_len 1 64 (uu_real_name x) \<and> opt_len 0 128 (uu_email x)
    \<and> opt_len 0 32 (uu_phone x) \<and> opt_cond (\<lambda>r. 0 < r) (uu_role_id x)
    \<and> opt_len 6 128 (uu_password x)"

definition load_user :: "nat \<Rightarrow> db \<Rightarrow> error + user" where
  "load_user i s = require (get_user s i) (raise_code NotFoundException NOT_FOUND)"

definition validate_user_refs :: "db \<Rightarrow> nat \<Rightarrow> nat option \<Rightarrow> error + unit" where
  "validate_user_refs s rid did =
    rbind (require (get_role s rid) (raise_code NotFoundException NOT_FOUND)) (\<lambda>_.
    case did of None \<Rightarrow> Inr ()
    | Some i \<Rightarrow> rbind (require (get_dept s i) (raise_code NotFoundException NOT_FOUND)) (\<lambda>_. Inr ()))"

definition create_user ::
    "(string \<Rightarrow> string \<Rightarrow> bool) \<Rightarrow> (string \<Rightarrow> string) \<Rightarrow> user_create \<Rightarrow> db \<Rightarrow> db \<Rightarrow> error + db" where
  "create_user same hash data s d =
    (if list_ex (\<lambda>u. same (user_username u) (uc_username data)) (users s)
     then Inl (raise_code ConflictException USERNAME_EXISTS)
     else rbind (validate_user_refs s (uc_role_id data) (uc_department_id data)) (\<lambda>_.
       insert_account same
         \<lparr>user_id = 0, user_username = uc_username data,
          user_password_hash = hash (uc_password data), user_real_name = uc_real_name data,
          user_email = uc_email data, user_phone = uc_phone data,
          user_department_id = uc_department_id data, user_role_id = uc_role_id data,
          user_status = USER_ACTIVE, user_last_login_at = None,
          user_created_by = None, user_updated_by = None\<rparr> d))"

definition merge_user :: "user \<Rightarrow> user \<Rightarrow> user \<Rightarrow> user" where
  "merge_user old new cur = cur
    \<lparr>user_password_hash := write_col (user_password_hash old) (user_password_hash new) (user_password_hash cur),
     user_real_name := write_col (user_real_name old) (user_real_name new) (user_real_name cur),
     user_email := write_col (user_email old) (user_email new) (user_email cur),
     user_phone := write_col (user_phone old) (user_phone new) (user_phone cur),
     user_department_id := write_col (user_department_id old) (user_department_id new) (user_department_id cur),
     user_role_id := write_col (user_role_id old) (user_role_id new) (user_role_id cur),
     user_status := write_col (user_status old) (user_status new) (user_status cur),
     user_last_login_at := write_col (user_last_login_at old) (user_last_login_at new) (user_last_login_at cur)\<rparr>"

definition flush_user :: "user \<Rightarrow> user \<Rightarrow> db \<Rightarrow> error + db" where
  "flush_user old new d =
    rbind (flush_row user_id merge_user old new (users d)) (\<lambda>rows. Inr (d\<lparr>users := rows\<rparr>))"

definition new_user_role :: "db \<Rightarrow> user \<Rightarrow> user_update \<Rightarrow> error + nat" where
  "new_user_role s u data =
    (case uu_role_id data of
       None \<Rightarrow> Inr (user_role_id u)
     | Some r \<Rightarrow> if r = user_role_id u then Inr r
         else rbind (validate_user_refs s r None) (\<lambda>_. Inr r))"

definition new_user_department :: "db \<Rightarrow> user \<Rightarrow> nat \<Rightarrow> user_update \<Rightarrow> error + nat option" where
  "new_user_department s u rid data =
    (case uu_department_id data of
       None \<Rightarrow> Inr (user_department_id u)
     | Some None \<Rightarrow> Inr None
     | Some (Some i) \<Rightarrow> if Some i = user_department_id u then Inr (Some i)
         else rbind (validate_user_refs s rid (Some i)) (\<lambda>_. Inr (Some i)))"

definition update_user ::
    "(string \<Rightarrow> string) \<Rightarrow> nat \<Rightarrow> user_update \<Rightarrow> db \<Rightarrow> db \<Rightarrow> error + db" where
  "update_user hash i data s d =
    rbind (load_user i s) (\<lambda>u.
    rbind (new_user_role s u data) (\<lambda>rid.
    rbind (new_user_department s u rid data) (\<lambda>did.
    let u' = u\<lparr>user_role_id := rid, user_department_id := did,
          user_real_name := given (uu_real_name data) (user_real_name u),
          user_email := given_opt (uu_email data) (user_email u),
          user_phone := given_opt (uu_phone data) (user_phone u),
          user_status := given (uu_status data) (user_status u),
          user_password_hash := given (map_option hash (uu_password data)) (user_password_hash u)\<rparr>
    in flush_user u u' d)))"

definition disable_user :: "nat \<Rightarrow> db \<Rightarrow> db \<Rightarrow> error + db" where
  "disable_user i s d =
    rbind (load_user i s) (\<lambda>u. flush_user u (u\<lparr>user_status := USER_DISABLED_ST\<rparr>) d)"

record user_filter =
  uf_keyword :: "string option"
  uf_status :: "user_status option"
  uf_department_id :: "nat option"

definition user_matches :: "(string \<Rightarrow> string \<Rightarrow> bool) \<Rightarrow> user_filter \<Rightarrow> user \<Rightarrow> bool" where
  "user_matches contains f u \<longleftrightarrow>
     text_cond (\<lambda>x. contains x (user_username u) \<or> contains x (user_real_name u)) (uf_keyword f)
   \<and> opt_cond (\<lambda>x. user_status u = x) (uf_status f)
   \<and> opt_cond (\<lambda>x. user_department_id u = Some x) (uf_department_id f)"

definition list_users ::
    "(string \<Rightarrow> string \<Rightarrow> bool) \<Rightarrow> nat \<Rightarrow> nat \<Rightarrow> user_filter \<Rightarrow> db \<Rightarrow> user list \<times> nat" where
  "list_users contains page page_size f s =
    (let rows = filter (user_matches contains f) (users s)
     in (page_of page page_size (sort_key user_id rows), length rows))"

section \<open>Roles and permissions\<close>

record role_create =
  rlc_role_code :: role_code
  rlc_role_name :: string
  rlc_description :: "string option"
  rlc_permission_ids :: "nat list"

record role_update =
  rlu_role_name :: "string option"
  rlu_description :: "string option"
  rlu_status :: "active_status option"

definition valid_role_create :: "role_create \<Rightarrow> bool" where
  "valid_role_create x \<longleftrightarrow> text_len 1 64 (rlc_role_name x) \<and> opt_len 0 255 (rlc_description x)"

definition valid_role_update :: "role_update \<Rightarrow> bool" where
  "valid_role_update x \<longleftrightarrow> opt_len 1 64 (rlu_role_name x) \<and> opt_len 0 255 (rlu_description x)"

definition list_roles :: "db \<Rightarrow> role list" where
  "list_roles s = sort_key role_id (roles s)"

definition read_role :: "nat \<Rightarrow> db \<Rightarrow> error + role" where
  "read_role i s = require (get_role s i) (raise_code NotFoundException NOT_FOUND)"

text \<open>
  \<^verbatim>\<open>_replace_permissions\<close>: the DELETE runs at once, the links are inserted in the
  order of the permission ids.
\<close>

definition drop_role_permissions :: "nat \<Rightarrow> db \<Rightarrow> db" where
  "drop_role_permissions i d =
    d\<lparr>role_permissions := filter (\<lambda>l. rp_role_id l \<noteq> i) (role_permissions d)\<rparr>"

definition permission_link :: "nat \<Rightarrow> nat \<Rightarrow> role_permission" where
  "permission_link rid pid = \<lparr>rp_id = 0, rp_role_id = rid, rp_permission_id = pid\<rparr>"

definition replace_permissions :: "nat \<Rightarrow> nat list \<Rightarrow> db \<Rightarrow> db \<Rightarrow> error + db" where
  "replace_permissions rid permission_ids s d =
    (let d1 = drop_role_permissions rid d;
         ids = sort (remdups permission_ids)
     in if ids = [] then Inr d1
        else rbind (check (list_all (\<lambda>i. i \<in> perm_id ` set (permissions s)) ids)
            (raise_code NotFoundException NOT_FOUND)) (\<lambda>_.
          rfold (\<lambda>pid. insert_rp (permission_link rid pid)) ids d1))"

definition create_role :: "role_create \<Rightarrow> db \<Rightarrow> db \<Rightarrow> error + db" where
  "create_role data s d =
    (if list_ex (\<lambda>r. role_role_code r = rlc_role_code data) (roles s)
     then Inl (raise_code ConflictException ROLE_CODE_EXISTS)
     else rbind (insert_role
         \<lparr>role_id = 0, role_role_code = rlc_role_code data, role_name = rlc_role_name data,
          role_description = rlc_description data, role_is_system = False,
          role_status = ST_ACTIVE\<rparr> d) (\<lambda>d1.
       if rlc_permission_ids data = [] then Inr d1
       else replace_permissions (auto_inc d T_roles) (rlc_permission_ids data) s d1))"

definition merge_role :: "role \<Rightarrow> role \<Rightarrow> role \<Rightarrow> role" where
  "merge_role old new cur = cur
    \<lparr>role_name := write_col (role_name old) (role_name new) (role_name cur),
     role_description := write_col (role_description old) (role_description new) (role_description cur),
     role_status := write_col (role_status old) (role_status new) (role_status cur)\<rparr>"

definition flush_role :: "role \<Rightarrow> role \<Rightarrow> db \<Rightarrow> error + db" where
  "flush_role old new d =
    rbind (flush_row role_id merge_role old new (roles d)) (\<lambda>rows. Inr (d\<lparr>roles := rows\<rparr>))"

definition update_role :: "nat \<Rightarrow> role_update \<Rightarrow> db \<Rightarrow> db \<Rightarrow> error + db" where
  "update_role i data s d =
    rbind (read_role i s) (\<lambda>r.
      flush_role r (r\<lparr>role_name := given (rlu_role_name data) (role_name r),
        role_description := given_opt (rlu_description data) (role_description r),
        role_status := given (rlu_status data) (role_status r)\<rparr>) d)"

definition delete_role :: "nat \<Rightarrow> db \<Rightarrow> db \<Rightarrow> error + db" where
  "delete_role i s d =
    rbind (read_role i s) (\<lambda>r.
    if role_is_system r then Inl (raise_code ConflictException CONFLICT)
    else if list_ex (\<lambda>u. user_role_id u = i) (users s)
    then Inl (raise_code ConflictException CONFLICT)
    else delete_role_row (role_id r) d)"

text \<open>The audit row of a permission change carries no request headers.\<close>

definition bare_ctx :: "request_ctx \<Rightarrow> request_ctx" where
  "bare_ctx ctx = ctx\<lparr>rq_ip_address := None, rq_user_agent := None, rq_request_id := None\<rparr>"

definition assign_permissions ::
    "request_ctx \<Rightarrow> current_user \<Rightarrow> nat \<Rightarrow> nat list \<Rightarrow> db \<Rightarrow> db \<Rightarrow> error + db" where
  "assign_permissions ctx operator i permission_ids s d =
    rbind (read_role i s) (\<lambda>r.
    rbind (replace_permissions (role_id r) permission_ids s d) (\<lambda>d1.
    Inr (write_audit (bare_ctx ctx) PERMISSION_CHANGE ''rbac'' (Some operator) None (Some ''role'')
      (Some (role_id r)) None d1)))"

text \<open>The order of a text column is that of the collation: the rank of a module is a parameter.\<close>

definition list_permissions :: "(string \<Rightarrow> nat) \<Rightarrow> db \<Rightarrow> permission list" where
  "list_permissions rank s =
    sort_key (\<lambda>p. rank (perm_module p)) (sort_key perm_id (permissions s))"

definition role_permission_ids :: "db \<Rightarrow> nat \<Rightarrow> nat list" where
  "role_permission_ids s i =
    map rp_permission_id (filter (\<lambda>l. rp_role_id l = i) (role_permissions s))"

section \<open>Departments\<close>

record department_create =
  dpc_dept_code :: string
  dpc_dept_name :: string
  dpc_parent_id :: "nat option"
  dpc_sort_order :: int
  dpc_remark :: "string option"

record department_update =
  dpu_dept_name :: "string option"
  dpu_parent_id :: "nat option"
  dpu_sort_order :: "int option"
  dpu_status :: "dept_status option"
  dpu_remark :: "string option"

definition valid_department_create :: "department_create \<Rightarrow> bool" where
  "valid_department_create x \<longleftrightarrow> text_len 1 32 (dpc_dept_code x) \<and> text_len 1 64 (dpc_dept_name x)
    \<and> opt_len 0 255 (dpc_remark x)"

definition valid_department_update :: "department_update \<Rightarrow> bool" where
  "valid_department_update x \<longleftrightarrow> opt_len 1 64 (dpu_dept_name x) \<and> opt_len 0 255 (dpu_remark x)"

definition list_departments :: "dept_status option \<Rightarrow> db \<Rightarrow> department list" where
  "list_departments status s =
    filter (\<lambda>r. opt_cond (\<lambda>x. dept_status r = x) status)
      (sort_key dept_sort_order (sort_key dept_id (departments s)))"

definition read_department :: "nat \<Rightarrow> db \<Rightarrow> error + department" where
  "read_department i s = require (get_dept s i) (raise_code NotFoundException NOT_FOUND)"

definition create_department ::
    "(string \<Rightarrow> string \<Rightarrow> bool) \<Rightarrow> department_create \<Rightarrow> db \<Rightarrow> db \<Rightarrow> error + db" where
  "create_department same data s d =
    (if list_ex (\<lambda>r. same (dept_code r) (dpc_dept_code data)) (departments s)
     then Inl (raise_code ConflictException DEPARTMENT_CODE_EXISTS)
     else rbind (case dpc_parent_id data of None \<Rightarrow> Inr ()
                 | Some p \<Rightarrow> rbind (read_department p s) (\<lambda>_. Inr ())) (\<lambda>_.
       insert_dept same
         \<lparr>dept_id = 0, dept_code = dpc_dept_code data, dept_name = dpc_dept_name data,
          dept_parent_id = dpc_parent_id data, dept_sort_order = dpc_sort_order data,
          dept_status = DEPT_ACTIVE, dept_remark = dpc_remark data,
          dept_created_by = None, dept_updated_by = None\<rparr> d))"

definition merge_department :: "department \<Rightarrow> department \<Rightarrow> department \<Rightarrow> department" where
  "merge_department old new cur = cur
    \<lparr>dept_name := write_col (dept_name old) (dept_name new) (dept_name cur),
     dept_parent_id := write_col (dept_parent_id old) (dept_parent_id new) (dept_parent_id cur),
     dept_sort_order := write_col (dept_sort_order old) (dept_sort_order new) (dept_sort_order cur),
     dept_status := write_col (dept_status old) (dept_status new) (dept_status cur),
     dept_remark := write_col (dept_remark old) (dept_remark new) (dept_remark cur)\<rparr>"

definition flush_department :: "department \<Rightarrow> department \<Rightarrow> db \<Rightarrow> error + db" where
  "flush_department old new d =
    rbind (flush_row dept_id merge_department old new (departments d))
      (\<lambda>rows. Inr (d\<lparr>departments := rows\<rparr>))"

definition new_parent :: "db \<Rightarrow> department \<Rightarrow> department_update \<Rightarrow> error + nat option" where
  "new_parent s r data =
    (case dpu_parent_id data of
       None \<Rightarrow> Inr (dept_parent_id r)
     | Some p \<Rightarrow>
         if p = dept_id r then Inl (raise_code ConflictException CONFLICT)
         else rbind (read_department p s) (\<lambda>_. Inr (Some p)))"

definition update_department :: "nat \<Rightarrow> department_update \<Rightarrow> db \<Rightarrow> db \<Rightarrow> error + db" where
  "update_department i data s d =
    rbind (read_department i s) (\<lambda>r.
    rbind (new_parent s r data) (\<lambda>parent.
      flush_department r (r\<lparr>dept_name := given (dpu_dept_name data) (dept_name r),
        dept_parent_id := parent,
        dept_sort_order := given (dpu_sort_order data) (dept_sort_order r),
        dept_status := given (dpu_status data) (dept_status r),
        dept_remark := given_opt (dpu_remark data) (dept_remark r)\<rparr>) d))"

definition disable_department :: "nat \<Rightarrow> db \<Rightarrow> db \<Rightarrow> error + db" where
  "disable_department i s d =
    rbind (read_department i s) (\<lambda>r.
    if list_ex (\<lambda>u. user_department_id u = Some i) (users s)
    then Inl (raise_code ConflictException CONFLICT)
    else flush_department r (r\<lparr>dept_status := DEPT_INACTIVE\<rparr>) d)"

end
