(* ===== verification/Auth.thy ===== *)
theory Auth
  imports Identity
begin

text \<open>
  Login and authorization (\<^verbatim>\<open>app/core/security.py\<close>,
  \<^verbatim>\<open>app/services/auth_service.py\<close>, \<^verbatim>\<open>app/api/v1/deps.py\<close>).

  The libraries are parameters, collected in \<^verbatim>\<open>security_env\<close>: passlib's verification
  (\<^verbatim>\<open>None\<close> is its \<^verbatim>\<open>ValueError\<close>), python-jose's \<^verbatim>\<open>encode\<close> and \<^verbatim>\<open>decode\<close> (\<^verbatim>\<open>None\<close> is
  \<^verbatim>\<open>JWTError\<close>; the time is an argument because an expired token is refused), the
  lifetime of a token from the settings, and the collation.
\<close>

record claims =
  cl_sub :: "string option"
  cl_uid :: "nat option"
  cl_role :: "role_code option"
  cl_iat :: datetime
  cl_exp :: datetime

record security_env =
  se_verify :: "string \<Rightarrow> string \<Rightarrow> bool option"
  se_encode :: "claims \<Rightarrow> string"
  se_decode :: "datetime \<Rightarrow> string \<Rightarrow> claims option"
  se_expire_minutes :: nat
  se_same :: "string \<Rightarrow> string \<Rightarrow> bool"

definition verify_password :: "security_env \<Rightarrow> string \<Rightarrow> string \<Rightarrow> bool" where
  "verify_password env plain hashed =
    (case se_verify env plain hashed of None \<Rightarrow> False | Some b \<Rightarrow> b)"

definition create_access_token ::
    "security_env \<Rightarrow> datetime \<Rightarrow> string \<Rightarrow> nat \<Rightarrow> role_code option \<Rightarrow> string" where
  "create_access_token env now subject uid r =
    se_encode env \<lparr>cl_sub = Some subject, cl_uid = Some uid, cl_role = r,
      cl_iat = now, cl_exp = add_minutes (se_expire_minutes env) now\<rparr>"

definition decode_access_token :: "security_env \<Rightarrow> datetime \<Rightarrow> string \<Rightarrow> error + claims" where
  "decode_access_token env now token =
    require (se_decode env now token) (raise_class UnauthorizedException)"

section \<open>Login\<close>

definition get_user_by_username :: "security_env \<Rightarrow> string \<Rightarrow> db \<Rightarrow> user option" where
  "get_user_by_username env username s =
    find (\<lambda>u. se_same env (user_username u) username) (users s)"

definition role_code_of :: "db \<Rightarrow> user \<Rightarrow> role_code option" where
  "role_code_of s u = map_option role_role_code (get_role s (user_role_id u))"

text \<open>\<^verbatim>\<open>_principal\<close>; the display names of the role and the department are left out.\<close>

definition principal_of :: "db \<Rightarrow> user \<Rightarrow> current_user" where
  "principal_of s u = \<lparr>cu_id = user_id u, cu_username = user_username u,
    cu_real_name = user_real_name u, cu_role_id = user_role_id u,
    cu_role_code = role_code_of s u, cu_department_id = user_department_id u\<rparr>"

definition login_ctx :: "request_ctx \<Rightarrow> request_ctx" where
  "login_ctx ctx = ctx\<lparr>rq_request_id := None\<rparr>"

text \<open>
  The failure is logged in a transaction of its own, so a state is returned with
  an error too; a disabled user leaves no trace.
\<close>

definition login ::
    "security_env \<Rightarrow> request_ctx \<Rightarrow> string \<Rightarrow> string \<Rightarrow> db \<Rightarrow> db \<Rightarrow> (error + string \<times> nat) \<times> db" where
  "login env ctx username password s d =
    (let failed = (Inl (raise_class InvalidCredentialsException),
           write_audit (login_ctx ctx) LOGIN_FAILED ''auth'' None (Some username) None None None d)
     in case get_user_by_username env username s of
       None \<Rightarrow> failed
     | Some u \<Rightarrow>
         if \<not> verify_password env password (user_password_hash u) then failed
         else if user_status u \<noteq> USER_ACTIVE then (Inl (raise_class UserDisabledException), d)
         else
           (case flush_user u (u\<lparr>user_last_login_at := Some (rq_now ctx)\<rparr>) d of
              Inl e \<Rightarrow> (Inl e, d)
            | Inr d1 \<Rightarrow>
                (Inr (create_access_token env (rq_now ctx) (user_username u) (user_id u)
                       (role_code_of s u), se_expire_minutes env * 60),
                 write_audit (login_ctx ctx) LOGIN ''auth'' (Some (principal_of s u)) None None None
                   None d1)))"

section \<open>The current user and the permission guard\<close>

record credentials =
  cr_scheme :: string
  cr_token :: string

definition lower_char :: "char \<Rightarrow> char" where
  "lower_char c = (if 65 \<le> (of_char c :: nat) \<and> (of_char c :: nat) \<le> 90
    then char_of ((of_char c :: nat) + 32) else c)"

definition extract_token :: "credentials option \<Rightarrow> error + string" where
  "extract_token cr =
    (case cr of
       None \<Rightarrow> Inl (raise_class UnauthorizedException)
     | Some c \<Rightarrow> if map lower_char (cr_scheme c) \<noteq> ''bearer''
         then Inl (raise_class UnauthorizedException) else Inr (cr_token c))"

definition get_current_user ::
    "security_env \<Rightarrow> datetime \<Rightarrow> credentials option \<Rightarrow> db \<Rightarrow> error + current_user" where
  "get_current_user env now cr s =
    rbind (extract_token cr) (\<lambda>token.
    rbind (decode_access_token env now token) (\<lambda>p.
    case (cl_sub p, cl_uid p) of
      (Some sub, Some uid) \<Rightarrow>
        if sub = [] \<or> uid = 0 then Inl (raise_class UnauthorizedException)
        else (case get_user s uid of
            None \<Rightarrow> Inl (raise_class UnauthorizedException)
          | Some u \<Rightarrow>
              if user_username u \<noteq> sub then Inl (raise_class UnauthorizedException)
              else if user_status u \<noteq> USER_ACTIVE then Inl (raise_class ForbiddenException)
              else Inr (principal_of s u))
    | _ \<Rightarrow> Inl (raise_class UnauthorizedException)))"

definition get_role_permissions :: "db \<Rightarrow> nat \<Rightarrow> string list" where
  "get_role_permissions s rid =
    concat (map (\<lambda>l. map perm_code (filter (\<lambda>p. perm_id p = rp_permission_id l) (permissions s)))
      (filter (\<lambda>l. rp_role_id l = rid) (role_permissions s)))"

definition require_perm :: "string \<Rightarrow> current_user \<Rightarrow> db \<Rightarrow> error + unit" where
  "require_perm code u s =
    check (code \<in> set (get_role_permissions s (cu_role_id u))) (raise_class PermissionDeniedException)"

end
