(* ===== verification/Seed.thy ===== *)
theory Seed
  imports Auth
begin

text \<open>
  The bootstrap data of \<^verbatim>\<open>app/db/init_data.py\<close>: departments, permission points,
  roles, the role-permission matrix, demo users and department managers, each
  added when it is missing.

  The Chinese display names are not interpreted anywhere; \<^verbatim>\<open>label\<close>, a parameter,
  gives the text for a code.  \<^verbatim>\<open>same\<close> is the equality of the collation and
  \<^verbatim>\<open>hash\<close> the password hash, as in the services.  The permission codes of a role
  are a set in the code, so the order of their links is not specified; here it is
  that of the literal.
\<close>

section \<open>Static data\<close>

text \<open>Code and sort order.\<close>

definition DEPARTMENTS :: "(string \<times> int) list" where
  "DEPARTMENTS = [
    (''RD'', 1), (''PUR'', 2), (''MFR'', 3), (''QA'', 4), (''WH'', 5), (''ADM'', 6)]"

text \<open>Code and module.\<close>

definition PERMISSIONS :: "(string \<times> string) list" where
  "PERMISSIONS = [
    (''material:view'', ''material''), (''material:create'', ''material''),
    (''material:update'', ''material''), (''material:delete'', ''material''),
    (''supplier:view'', ''supplier''), (''supplier:create'', ''supplier''),
    (''supplier:update'', ''supplier''), (''supplier:delete'', ''supplier''),
    (''warehouse:view'', ''warehouse''), (''warehouse:create'', ''warehouse''),
    (''warehouse:update'', ''warehouse''), (''warehouse:delete'', ''warehouse''),
    (''department:view'', ''department''), (''department:create'', ''department''),
    (''department:update'', ''department''), (''department:delete'', ''department''),
    (''user:view'', ''user''), (''user:create'', ''user''), (''user:update'', ''user''),
    (''user:delete'', ''user''), (''role:view'', ''role''), (''role:create'', ''role''),
    (''role:update'', ''role''), (''role:delete'', ''role''), (''role:assign'', ''role''),
    (''pr:view'', ''pr''), (''pr:create'', ''pr''), (''pr:update'', ''pr''),
    (''pr:delete'', ''pr''), (''pr:submit'', ''pr''), (''pr:approve'', ''pr''),
    (''pr:reject'', ''pr''), (''pr:cancel'', ''pr''), (''po:view'', ''po''),
    (''po:create'', ''po''), (''po:update'', ''po''), (''po:delete'', ''po''),
    (''po:confirm'', ''po''), (''po:cancel'', ''po''), (''receipt:view'', ''receipt''),
    (''receipt:create'', ''receipt''), (''receipt:reverse'', ''receipt''),
    (''inventory:view'', ''inventory''), (''inventory_txn:view'', ''inventory''),
    (''inventory_policy:view'', ''inventory_policy''),
    (''inventory_policy:create'', ''inventory_policy''),
    (''inventory_policy:update'', ''inventory_policy''), (''reconcile:view'', ''reconcile''),
    (''reconcile:create'', ''reconcile''), (''reconcile:update'', ''reconcile''),
    (''reconcile:submit'', ''reconcile''), (''reconcile:approve'', ''reconcile''),
    (''reconcile:reject'', ''reconcile''),
    (''reconcile:self_approve_override'', ''reconcile''), (''dashboard:view'', ''dashboard'')]"

definition ROLES :: "role_code list" where
  "ROLES = [ROLE_ADMIN, ROLE_APPLICANT, ROLE_DEPT_MANAGER, ROLE_BUYER, ROLE_WAREHOUSE]"

definition ALL_PERM_CODES :: "string list" where
  "ALL_PERM_CODES = map fst PERMISSIONS"

primrec ROLE_PERMISSIONS :: "role_code \<Rightarrow> string list" where
  "ROLE_PERMISSIONS ROLE_ADMIN = ALL_PERM_CODES"
| "ROLE_PERMISSIONS ROLE_APPLICANT = [
    ''pr:view'', ''pr:create'', ''pr:update'', ''pr:delete'', ''pr:submit'', ''pr:cancel'',
    ''po:view'', ''receipt:view'', ''inventory:view'', ''inventory_txn:view'',
    ''material:view'', ''supplier:view'', ''warehouse:view'', ''dashboard:view'']"
| "ROLE_PERMISSIONS ROLE_DEPT_MANAGER = [
    ''pr:view'', ''pr:create'', ''pr:update'', ''pr:delete'', ''pr:submit'', ''pr:approve'',
    ''pr:reject'', ''pr:cancel'', ''po:view'', ''receipt:view'', ''inventory:view'',
    ''inventory_txn:view'', ''material:view'', ''supplier:view'', ''warehouse:view'',
    ''user:view'', ''department:view'', ''dashboard:view'']"
| "ROLE_PERMISSIONS ROLE_BUYER = [
    ''material:view'', ''material:update'', ''supplier:view'', ''supplier:create'',
    ''supplier:update'', ''supplier:delete'', ''warehouse:view'', ''inventory_policy:view'',
    ''inventory_policy:create'', ''inventory_policy:update'', ''pr:view'', ''po:view'',
    ''po:create'', ''po:update'', ''po:delete'', ''po:confirm'', ''po:cancel'',
    ''receipt:view'', ''inventory:view'', ''inventory_txn:view'', ''dashboard:view'']"
| "ROLE_PERMISSIONS ROLE_WAREHOUSE = [
    ''warehouse:view'', ''po:view'', ''receipt:view'', ''receipt:create'', ''receipt:reverse'',
    ''inventory:view'', ''inventory_txn:view'', ''inventory_policy:view'', ''reconcile:view'',
    ''reconcile:create'', ''reconcile:update'', ''reconcile:submit'', ''dashboard:view'']"

text \<open>User name, password, department and role.\<close>

definition DEMO_USERS :: "(string \<times> string \<times> string \<times> role_code) list" where
  "DEMO_USERS = [
    (''admin'', ''admin123'', ''ADM'', ROLE_ADMIN),
    (''zhangsan'', ''demo123'', ''RD'', ROLE_APPLICANT),
    (''lisi'', ''demo123'', ''RD'', ROLE_DEPT_MANAGER),
    (''wangwu'', ''demo123'', ''PUR'', ROLE_BUYER),
    (''zhaoliu'', ''demo123'', ''WH'', ROLE_WAREHOUSE)]"

definition DEPARTMENT_MANAGERS :: "(string \<times> string \<times> bool) list" where
  "DEPARTMENT_MANAGERS = [(''RD'', ''lisi'', True)]"

section \<open>Seeding\<close>

record seed_stats =
  st_departments :: nat
  st_roles :: nat
  st_permissions :: nat
  st_role_permissions :: nat
  st_users :: nat
  st_dept_managers :: nat

definition no_stats :: seed_stats where
  "no_stats = \<lparr>st_departments = 0, st_roles = 0, st_permissions = 0, st_role_permissions = 0,
    st_users = 0, st_dept_managers = 0\<rparr>"

definition insert_perm :: "(string \<Rightarrow> string \<Rightarrow> bool) \<Rightarrow> permission \<Rightarrow> db \<Rightarrow> error + db" where
  "insert_perm same r d =
    (if list_ex (\<lambda>x. same (perm_code x) (perm_code r)) (permissions d)
     then Inl (DbError (UniqueViolation ''uk_perm_code''))
     else Inr (d\<lparr>permissions := permissions d @ [r\<lparr>perm_id := auto_inc d T_permissions\<rparr>],
        auto_inc := (auto_inc d)(T_permissions := Suc (auto_inc d T_permissions))\<rparr>))"

definition insert_dm :: "department_manager \<Rightarrow> db \<Rightarrow> error + db" where
  "insert_dm r d =
    (if list_ex (\<lambda>x. dm_dept_id x = dm_dept_id r \<and> dm_user_id x = dm_user_id r) (department_managers d)
     then Inl (DbError (UniqueViolation ''uk_deptmgr''))
     else Inr (d\<lparr>department_managers :=
          department_managers d @ [r\<lparr>dm_id := auto_inc d T_department_managers\<rparr>],
        auto_inc := (auto_inc d)(T_department_managers := Suc (auto_inc d T_department_managers))\<rparr>))"

text \<open>
  A dictionary lookup that fails (\<^verbatim>\<open>KeyError\<close>) and the \<^verbatim>\<open>ValueError\<close> of an unknown
  permission are exceptions that nobody catches.
\<close>

definition uncaught :: error where
  "uncaught = Raised AppException None (Some 500)"

text \<open>The dictionaries of the loops map a business code to the id of its row.\<close>

record seed_run =
  sr_depts :: "(string \<times> nat) list"
  sr_perms :: "(string \<times> nat) list"
  sr_roles :: "(role_code \<times> nat) list"
  sr_stats :: seed_stats
  sr_db :: db

definition find_dept :: "(string \<Rightarrow> string \<Rightarrow> bool) \<Rightarrow> db \<Rightarrow> string \<Rightarrow> department option" where
  "find_dept same d code = find (\<lambda>r. same (dept_code r) code) (departments d)"

definition find_perm :: "(string \<Rightarrow> string \<Rightarrow> bool) \<Rightarrow> db \<Rightarrow> string \<Rightarrow> permission option" where
  "find_perm same d code = find (\<lambda>r. same (perm_code r) code) (permissions d)"

definition find_role :: "db \<Rightarrow> role_code \<Rightarrow> role option" where
  "find_role d code = find (\<lambda>r. role_role_code r = code) (roles d)"

definition find_user :: "(string \<Rightarrow> string \<Rightarrow> bool) \<Rightarrow> db \<Rightarrow> string \<Rightarrow> user option" where
  "find_user same d name = find (\<lambda>u. same (user_username u) name) (users d)"

definition seed_department ::
    "(string \<Rightarrow> string \<Rightarrow> bool) \<Rightarrow> (string \<Rightarrow> string) \<Rightarrow> string \<times> int \<Rightarrow> seed_run \<Rightarrow> error + seed_run" where
  "seed_department same label e st =
    (case find_dept same (sr_db st) (fst e) of
       Some r \<Rightarrow> Inr (st\<lparr>sr_depts := (fst e, dept_id r) # sr_depts st\<rparr>)
     | None \<Rightarrow>
         rbind (insert_dept same
           \<lparr>dept_id = 0, dept_code = fst e, dept_name = label (fst e), dept_parent_id = None,
            dept_sort_order = snd e, dept_status = DEPT_ACTIVE, dept_remark = None,
            dept_created_by = None, dept_updated_by = None\<rparr> (sr_db st)) (\<lambda>d.
         Inr (st\<lparr>sr_depts := (fst e, auto_inc (sr_db st) T_departments) # sr_depts st,
           sr_stats := (sr_stats st)\<lparr>st_departments := st_departments (sr_stats st) + 1\<rparr>,
           sr_db := d\<rparr>)))"

definition seed_permission ::
    "(string \<Rightarrow> string \<Rightarrow> bool) \<Rightarrow> (string \<Rightarrow> string) \<Rightarrow> string \<times> string \<Rightarrow> seed_run \<Rightarrow> error + seed_run" where
  "seed_permission same label e st =
    (case find_perm same (sr_db st) (fst e) of
       Some r \<Rightarrow> Inr (st\<lparr>sr_perms := (fst e, perm_id r) # sr_perms st\<rparr>)
     | None \<Rightarrow>
         rbind (insert_perm same
           \<lparr>perm_id = 0, perm_code = fst e, perm_name = label (fst e), perm_module = snd e\<rparr>
           (sr_db st)) (\<lambda>d.
         Inr (st\<lparr>sr_perms := (fst e, auto_inc (sr_db st) T_permissions) # sr_perms st,
           sr_stats := (sr_stats st)\<lparr>st_permissions := st_permissions (sr_stats st) + 1\<rparr>,
           sr_db := d\<rparr>)))"

definition seed_role ::
    "(role_code \<Rightarrow> string \<times> string) \<Rightarrow> role_code \<Rightarrow> seed_run \<Rightarrow> error + seed_run" where
  "seed_role rlabel c st =
    (case find_role (sr_db st) c of
       Some r \<Rightarrow> Inr (st\<lparr>sr_roles := (c, role_id r) # sr_roles st\<rparr>)
     | None \<Rightarrow>
         rbind (insert_role
           \<lparr>role_id = 0, role_role_code = c, role_name = fst (rlabel c),
            role_description = Some (snd (rlabel c)), role_is_system = True,
            role_status = ST_ACTIVE\<rparr> (sr_db st)) (\<lambda>d.
         Inr (st\<lparr>sr_roles := (c, auto_inc (sr_db st) T_roles) # sr_roles st,
           sr_stats := (sr_stats st)\<lparr>st_roles := st_roles (sr_stats st) + 1\<rparr>,
           sr_db := d\<rparr>)))"

text \<open>One link of the matrix; \<^verbatim>\<open>existing\<close> was read before the first link of the role.\<close>

definition seed_link :: "nat \<Rightarrow> nat list \<Rightarrow> string \<Rightarrow> seed_run \<Rightarrow> error + seed_run" where
  "seed_link rid existing code st =
    rbind (require (map_of (sr_perms st) code) uncaught) (\<lambda>pid.
    if pid \<in> set existing then Inr st
    else rbind (insert_rp (permission_link rid pid) (sr_db st)) (\<lambda>d.
      Inr (st\<lparr>sr_stats := (sr_stats st)\<lparr>st_role_permissions := st_role_permissions (sr_stats st) + 1\<rparr>,
        sr_db := d\<rparr>)))"

definition seed_matrix_row :: "role_code \<Rightarrow> seed_run \<Rightarrow> error + seed_run" where
  "seed_matrix_row c st =
    (if \<not> list_all (\<lambda>p. p \<in> set ALL_PERM_CODES) (ROLE_PERMISSIONS c) then Inl uncaught
     else rbind (require (map_of (sr_roles st) c) uncaught) (\<lambda>rid.
       rfold (seed_link rid (role_permission_ids (sr_db st) rid)) (ROLE_PERMISSIONS c) st))"

definition seed_user ::
    "(string \<Rightarrow> string \<Rightarrow> bool) \<Rightarrow> (string \<Rightarrow> string) \<Rightarrow> (string \<Rightarrow> string) \<Rightarrow>
     string \<times> string \<times> string \<times> role_code \<Rightarrow> seed_run \<Rightarrow> error + seed_run" where
  "seed_user same label hash e st =
    (let (username, password, dcode, rcode) = e
     in case find_user same (sr_db st) username of
       Some _ \<Rightarrow> Inr st
     | None \<Rightarrow>
         rbind (require (map_of (sr_depts st) dcode) uncaught) (\<lambda>did.
         rbind (require (map_of (sr_roles st) rcode) uncaught) (\<lambda>rid.
         rbind (insert_account same
           \<lparr>user_id = 0, user_username = username, user_password_hash = hash password,
            user_real_name = label username, user_email = None, user_phone = None,
            user_department_id = Some did, user_role_id = rid, user_status = USER_ACTIVE,
            user_last_login_at = None, user_created_by = None, user_updated_by = None\<rparr>
           (sr_db st)) (\<lambda>d.
         Inr (st\<lparr>sr_stats := (sr_stats st)\<lparr>st_users := st_users (sr_stats st) + 1\<rparr>,
           sr_db := d\<rparr>)))))"

text \<open>\<^verbatim>\<open>users_by_username\<close> is a Python dictionary, so its key is compared exactly.\<close>

definition seed_manager ::
    "string \<times> string \<times> bool \<Rightarrow> seed_run \<Rightarrow> error + seed_run" where
  "seed_manager e st =
    (let (dcode, mgr_username, is_primary) = e
     in rbind (require (map_of (sr_depts st) dcode) uncaught) (\<lambda>did.
        rbind (require (find (\<lambda>u. user_username u = mgr_username) (users (sr_db st))) uncaught) (\<lambda>mgr.
        if list_ex (\<lambda>l. dm_dept_id l = did \<and> dm_user_id l = user_id mgr)
             (department_managers (sr_db st)) then Inr st
        else rbind (insert_dm \<lparr>dm_id = 0, dm_dept_id = did, dm_user_id = user_id mgr,
            dm_is_primary = is_primary\<rparr> (sr_db st)) (\<lambda>d.
          Inr (st\<lparr>sr_stats := (sr_stats st)\<lparr>st_dept_managers := st_dept_managers (sr_stats st) + 1\<rparr>,
            sr_db := d\<rparr>)))))"

definition seed ::
    "(string \<Rightarrow> string \<Rightarrow> bool) \<Rightarrow> (string \<Rightarrow> string) \<Rightarrow> (role_code \<Rightarrow> string \<times> string) \<Rightarrow>
     (string \<Rightarrow> string) \<Rightarrow> db \<Rightarrow> error + seed_stats \<times> db" where
  "seed same label rlabel hash d =
    rbind (rfold (seed_department same label) DEPARTMENTS
      \<lparr>sr_depts = [], sr_perms = [], sr_roles = [], sr_stats = no_stats, sr_db = d\<rparr>) (\<lambda>a.
    rbind (rfold (seed_permission same label) PERMISSIONS a) (\<lambda>b.
    rbind (rfold (seed_role rlabel) ROLES b) (\<lambda>c.
    rbind (rfold seed_matrix_row ROLES c) (\<lambda>e.
    rbind (rfold (seed_user same label hash) DEMO_USERS e) (\<lambda>f.
    rbind (rfold seed_manager DEPARTMENT_MANAGERS f) (\<lambda>g.
    Inr (sr_stats g, sr_db g)))))))"

end
