(* ===== verification/Seed_Facts.thy ===== *)
theory Seed_Facts
  imports Seed
begin

text \<open>
  Seeding: every step adds rows and never changes one, after it everything the
  static data names is there (\<^verbatim>\<open>seeded\<close>), and on a state where everything is there
  it changes nothing.
\<close>

section \<open>Rows are only added\<close>

definition adds_rows :: "db \<Rightarrow> db \<Rightarrow> bool" where
  "adds_rows d d' \<longleftrightarrow> prefix (departments d) (departments d') \<and> prefix (permissions d) (permissions d')
    \<and> prefix (roles d) (roles d') \<and> prefix (role_permissions d) (role_permissions d')
    \<and> prefix (users d) (users d') \<and> prefix (department_managers d) (department_managers d')"

lemma adds_rows_refl [simp]: "adds_rows d d"
  by (simp add: adds_rows_def)

lemma adds_rows_trans: "adds_rows a b \<Longrightarrow> adds_rows b c \<Longrightarrow> adds_rows a c"
  unfolding adds_rows_def by (meson prefix_order.order_trans)

named_theorems adds \<open>What a seeding step leaves in place\<close>

lemma insert_adds [adds]:
  "insert_dept same r d = Inr d' \<Longrightarrow> adds_rows d d'"
  "insert_perm same p d = Inr d' \<Longrightarrow> adds_rows d d'"
  "insert_role l d = Inr d' \<Longrightarrow> adds_rows d d'"
  "insert_rp k d = Inr d' \<Longrightarrow> adds_rows d d'"
  "insert_account same u d = Inr d' \<Longrightarrow> adds_rows d d'"
  "insert_dm m d = Inr d' \<Longrightarrow> adds_rows d d'"
  by (auto simp: insert_dept_def insert_perm_def insert_role_def insert_rp_def insert_account_def
      insert_dm_def adds_rows_def split: if_splits)

lemma find_append: "find P xs = Some r \<Longrightarrow> find P (xs @ ys) = Some r"
  by (induction xs) (auto split: if_splits)

lemma find_prefix: "prefix xs ys \<Longrightarrow> find P xs = Some r \<Longrightarrow> find P ys = Some r"
  by (auto simp: prefix_def find_append)

lemma find_append_new: "find P xs = None \<Longrightarrow> P r \<Longrightarrow> find P (xs @ [r]) = Some r"
  by (induction xs) (auto split: if_splits)

text \<open>What is found stays found.\<close>

lemma find_adds:
  assumes "adds_rows d d'"
  shows "find_dept same d c = Some r \<Longrightarrow> find_dept same d' c = Some r"
    and "find_perm same d c = Some p \<Longrightarrow> find_perm same d' c = Some p"
    and "find_role d k = Some l \<Longrightarrow> find_role d' k = Some l"
    and "find_user same d c = Some u \<Longrightarrow> find_user same d' c = Some u"
  using assms
  unfolding adds_rows_def find_dept_def find_perm_def find_role_def find_user_def
  by (auto intro: find_prefix)

lemma role_permission_ids_adds:
  "adds_rows d d' \<Longrightarrow> set (role_permission_ids d rid) \<subseteq> set (role_permission_ids d' rid)"
  by (auto simp: adds_rows_def role_permission_ids_def prefix_def)

section \<open>The dictionaries agree with the tables\<close>

definition dicts_ok :: "(string \<Rightarrow> string \<Rightarrow> bool) \<Rightarrow> seed_run \<Rightarrow> bool" where
  "dicts_ok same st \<longleftrightarrow>
     (\<forall>(c, i)\<in>set (sr_depts st). map_option dept_id (find_dept same (sr_db st) c) = Some i)
   \<and> (\<forall>(c, i)\<in>set (sr_perms st). map_option perm_id (find_perm same (sr_db st) c) = Some i)
   \<and> (\<forall>(c, i)\<in>set (sr_roles st). map_option role_id (find_role (sr_db st) c) = Some i)"

definition run_le :: "seed_run \<Rightarrow> seed_run \<Rightarrow> bool" where
  "run_le st st' \<longleftrightarrow> adds_rows (sr_db st) (sr_db st') \<and> set (sr_depts st) \<subseteq> set (sr_depts st')
    \<and> set (sr_perms st) \<subseteq> set (sr_perms st') \<and> set (sr_roles st) \<subseteq> set (sr_roles st')"

lemma run_le_refl [simp]: "run_le st st"
  by (simp add: run_le_def)

lemma run_le_trans: "run_le a b \<Longrightarrow> run_le b c \<Longrightarrow> run_le a c"
  unfolding run_le_def using adds_rows_trans by blast

lemma dicts_ok_mono:
  assumes "dicts_ok same st" and "adds_rows (sr_db st) (sr_db st')"
    and "sr_depts st' = sr_depts st" "sr_perms st' = sr_perms st" "sr_roles st' = sr_roles st"
  shows "dicts_ok same st'"
  using assms(1) find_adds[OF assms(2)] unfolding dicts_ok_def assms(3-5) by fastforce

text \<open>What one step of each loop does.\<close>

lemma seed_department_step:
  assumes "seed_department same label e st = Inr st'" and "dicts_ok same st" and "\<And>x. same x x"
  shows "run_le st st' \<and> dicts_ok same st' \<and> fst e \<in> fst ` set (sr_depts st')"
proof (cases "find_dept same (sr_db st) (fst e)")
  case (Some r)
  then show ?thesis
    using assms(1,2) by (auto simp: seed_department_def dicts_ok_def run_le_def)
next
  case None
  then obtain d where d: "insert_dept same
      \<lparr>dept_id = 0, dept_code = fst e, dept_name = label (fst e), dept_parent_id = None,
       dept_sort_order = snd e, dept_status = DEPT_ACTIVE, dept_remark = None,
       dept_created_by = None, dept_updated_by = None\<rparr> (sr_db st) = Inr d"
    and st': "st' = st\<lparr>sr_depts := (fst e, auto_inc (sr_db st) T_departments) # sr_depts st,
        sr_stats := (sr_stats st)\<lparr>st_departments := st_departments (sr_stats st) + 1\<rparr>, sr_db := d\<rparr>"
    using assms(1) by (auto simp: seed_department_def)
  have grows: "adds_rows (sr_db st) d" using insert_adds(1)[OF d] .
  have "dicts_ok same (st\<lparr>sr_db := d\<rparr>)" using dicts_ok_mono[OF assms(2)] grows by simp
  moreover have "map_option dept_id (find_dept same d (fst e)) = Some (auto_inc (sr_db st) T_departments)"
    using d None assms(3)
    by (auto simp: insert_dept_def find_dept_def find_append_new split: if_splits)
  ultimately show ?thesis
    using grows by (auto simp: st' dicts_ok_def run_le_def)
qed

lemma seed_permission_step:
  assumes "seed_permission same label e st = Inr st'" and "dicts_ok same st" and "\<And>x. same x x"
  shows "run_le st st' \<and> dicts_ok same st' \<and> fst e \<in> fst ` set (sr_perms st')"
proof (cases "find_perm same (sr_db st) (fst e)")
  case (Some r)
  then show ?thesis
    using assms(1,2) by (auto simp: seed_permission_def dicts_ok_def run_le_def)
next
  case None
  then obtain d where d: "insert_perm same
      \<lparr>perm_id = 0, perm_code = fst e, perm_name = label (fst e), perm_module = snd e\<rparr> (sr_db st) = Inr d"
    and st': "st' = st\<lparr>sr_perms := (fst e, auto_inc (sr_db st) T_permissions) # sr_perms st,
        sr_stats := (sr_stats st)\<lparr>st_permissions := st_permissions (sr_stats st) + 1\<rparr>, sr_db := d\<rparr>"
    using assms(1) by (auto simp: seed_permission_def)
  have grows: "adds_rows (sr_db st) d" using insert_adds(2)[OF d] .
  have "dicts_ok same (st\<lparr>sr_db := d\<rparr>)" using dicts_ok_mono[OF assms(2)] grows by simp
  moreover have "map_option perm_id (find_perm same d (fst e)) = Some (auto_inc (sr_db st) T_permissions)"
    using d None assms(3)
    by (auto simp: insert_perm_def find_perm_def find_append_new split: if_splits)
  ultimately show ?thesis
    using grows by (auto simp: st' dicts_ok_def run_le_def)
qed

lemma seed_role_step:
  assumes "seed_role rlabel c st = Inr st'" and "dicts_ok same st"
  shows "run_le st st' \<and> dicts_ok same st' \<and> c \<in> fst ` set (sr_roles st')"
proof (cases "find_role (sr_db st) c")
  case (Some r)
  then show ?thesis
    using assms(1,2) by (auto simp: seed_role_def dicts_ok_def run_le_def)
next
  case None
  then obtain d where d: "insert_role
      \<lparr>role_id = 0, role_role_code = c, role_name = fst (rlabel c),
       role_description = Some (snd (rlabel c)), role_is_system = True, role_status = ST_ACTIVE\<rparr>
       (sr_db st) = Inr d"
    and st': "st' = st\<lparr>sr_roles := (c, auto_inc (sr_db st) T_roles) # sr_roles st,
        sr_stats := (sr_stats st)\<lparr>st_roles := st_roles (sr_stats st) + 1\<rparr>, sr_db := d\<rparr>"
    using assms(1) by (auto simp: seed_role_def)
  have grows: "adds_rows (sr_db st) d" using insert_adds(3)[OF d] .
  have "dicts_ok same (st\<lparr>sr_db := d\<rparr>)" using dicts_ok_mono[OF assms(2)] grows by simp
  moreover have "map_option role_id (find_role d c) = Some (auto_inc (sr_db st) T_roles)"
    using d None by (auto simp: insert_role_def find_role_def find_append_new split: if_splits)
  ultimately show ?thesis
    using grows by (auto simp: st' dicts_ok_def run_le_def)
qed

text \<open>A loop of such steps reaches the goal of each of its elements.\<close>

lemma loop_goals:
  assumes "rfold f xs st = Inr st'" and "dicts_ok same st"
    and step: "\<And>x a b. x \<in> set xs \<Longrightarrow> f x a = Inr b \<Longrightarrow> dicts_ok same a \<Longrightarrow>
      run_le st a \<Longrightarrow> run_le a b \<and> dicts_ok same b \<and> G x b"
    and keep: "\<And>x a b. G x a \<Longrightarrow> run_le a b \<Longrightarrow> G x b"
  shows "run_le st st' \<and> dicts_ok same st' \<and> (\<forall>x\<in>set xs. G x st')"
proof -
  have "run_le a st' \<and> dicts_ok same st' \<and> (\<forall>x\<in>set ys. G x st')"
    if "rfold f ys a = Inr st'" "dicts_ok same a" "set ys \<subseteq> set xs" "run_le st a" for ys a
    using that
  proof (induction ys arbitrary: a)
    case (Cons y ys)
    then obtain b where b: "f y a = Inr b" "rfold f ys b = Inr st'" by auto
    then have 1: "run_le a b \<and> dicts_ok same b \<and> G y b"
      using step[of y a b] Cons.prems by auto
    then have "run_le b st' \<and> dicts_ok same st' \<and> (\<forall>x\<in>set ys. G x st')"
      using Cons.IH[OF b(2)] Cons.prems(3,4) run_le_trans[of st a b] by simp
    then show ?case using 1 keep run_le_trans[of a b st'] by auto
  qed simp
  then show ?thesis using assms(1,2) by simp
qed

definition linked :: "(string \<Rightarrow> string \<Rightarrow> bool) \<Rightarrow> db \<Rightarrow> nat \<Rightarrow> string \<Rightarrow> bool" where
  "linked same d rid code \<longleftrightarrow>
    (\<exists>p. find_perm same d code = Some p \<and> perm_id p \<in> set (role_permission_ids d rid))"

lemma linked_adds: "linked same d rid code \<Longrightarrow> adds_rows d d' \<Longrightarrow> linked same d' rid code"
  unfolding linked_def using find_adds(2) role_permission_ids_adds by blast

lemma seed_link_step:
  assumes "seed_link rid existing code st = Inr st'" and ok: "dicts_ok same st"
    and ex: "set existing \<subseteq> set (role_permission_ids (sr_db st) rid)"
  shows "run_le st st' \<and> dicts_ok same st' \<and> linked same (sr_db st') rid code"
proof -
  obtain pid where pid: "map_of (sr_perms st) code = Some pid"
    using assms(1) by (auto simp: seed_link_def)
  have "(code, pid) \<in> set (sr_perms st)" using map_of_SomeD[OF pid] .
  then obtain p where p: "find_perm same (sr_db st) code = Some p" "perm_id p = pid"
    using ok unfolding dicts_ok_def by fastforce
  show ?thesis
  proof (cases "pid \<in> set existing")
    case True
    then show ?thesis using assms pid p by (auto simp: seed_link_def linked_def)
  next
    case False
    then obtain d where d: "insert_rp (permission_link rid pid) (sr_db st) = Inr d"
      and st': "st' = st\<lparr>sr_stats := (sr_stats st)\<lparr>st_role_permissions :=
          st_role_permissions (sr_stats st) + 1\<rparr>, sr_db := d\<rparr>"
      using assms(1) pid by (auto simp: seed_link_def)
    have grows: "adds_rows (sr_db st) d" using insert_adds(4)[OF d] .
    have "pid \<in> set (role_permission_ids d rid)"
      using d
      by (auto simp: insert_rp_def permission_link_def role_permission_ids_def split: if_splits)
         (metis (mono_tags, lifting) image_eqI mem_Collect_eq role_permission.select_convs(2,3))
    then have "linked same d rid code"
      using find_adds(2)[OF grows p(1)] p(2) by (auto simp: linked_def)
    then show ?thesis
      using grows dicts_ok_mono[OF ok] by (simp add: st' run_le_def)
  qed
qed

definition row_linked :: "(string \<Rightarrow> string \<Rightarrow> bool) \<Rightarrow> role_code \<Rightarrow> db \<Rightarrow> bool" where
  "row_linked same c d \<longleftrightarrow>
    (\<exists>r. find_role d c = Some r \<and> (\<forall>code\<in>set (ROLE_PERMISSIONS c). linked same d (role_id r) code))"

lemma row_linked_adds: "row_linked same c d \<Longrightarrow> adds_rows d d' \<Longrightarrow> row_linked same c d'"
  unfolding row_linked_def using find_adds(3) linked_adds by blast

lemma seed_matrix_row_step:
  assumes "seed_matrix_row c st = Inr st'" and ok: "dicts_ok same st"
  shows "run_le st st' \<and> dicts_ok same st' \<and> row_linked same c (sr_db st')"
proof -
  obtain rid where rid: "map_of (sr_roles st) c = Some rid"
    and loop: "rfold (seed_link rid (role_permission_ids (sr_db st) rid)) (ROLE_PERMISSIONS c) st = Inr st'"
    using assms(1) by (auto simp: seed_matrix_row_def split: if_splits)
  have "(c, rid) \<in> set (sr_roles st)" using map_of_SomeD[OF rid] .
  then obtain r where r: "find_role (sr_db st) c = Some r" "role_id r = rid"
    using ok unfolding dicts_ok_def by fastforce
  have all: "run_le st st' \<and> dicts_ok same st'
      \<and> (\<forall>code\<in>set (ROLE_PERMISSIONS c). linked same (sr_db st') rid code)"
  proof (rule loop_goals[OF loop ok])
    fix code a b
    assume a: "seed_link rid (role_permission_ids (sr_db st) rid) code a = Inr b" "dicts_ok same a" "run_le st a"
    show "run_le a b \<and> dicts_ok same b \<and> linked same (sr_db b) rid code"
      by (rule seed_link_step[OF a(1,2)]) (use a(3) role_permission_ids_adds in \<open>auto simp: run_le_def\<close>)
  qed (auto simp: run_le_def intro: linked_adds)
  then show ?thesis
    using find_adds(3)[of "sr_db st" "sr_db st'"] r by (auto simp: row_linked_def run_le_def)
qed

lemma seed_user_step:
  assumes "seed_user same label hash e st = Inr st'" and ok: "dicts_ok same st" and "\<And>x. same x x"
  shows "run_le st st' \<and> dicts_ok same st' \<and> find_user same (sr_db st') (fst e) \<noteq> None"
proof (cases "find_user same (sr_db st) (fst e)")
  case (Some u)
  then show ?thesis using assms by (auto simp: seed_user_def split: prod.splits)
next
  case None
  then obtain r d where d: "insert_account same r (sr_db st) = Inr d"
    and r: "user_username r = fst e"
    and st': "st' = st\<lparr>sr_stats := (sr_stats st)\<lparr>st_users := st_users (sr_stats st) + 1\<rparr>, sr_db := d\<rparr>"
    using assms(1) by (auto simp: seed_user_def split: prod.splits)
  have grows: "adds_rows (sr_db st) d" using insert_adds(5)[OF d] .
  have "find_user same d (fst e) \<noteq> None"
    using d None assms(3)[of "fst e"] r
    by (auto simp: insert_account_def find_user_def find_append_new split: if_splits)
  then show ?thesis using grows dicts_ok_mono[OF ok] by (simp add: st' run_le_def)
qed

definition managed :: "(string \<Rightarrow> string \<Rightarrow> bool) \<Rightarrow> string \<times> string \<times> bool \<Rightarrow> db \<Rightarrow> bool" where
  "managed same e d \<longleftrightarrow> (\<exists>r u. find_dept same d (fst e) = Some r
    \<and> find (\<lambda>x. user_username x = fst (snd e)) (users d) = Some u
    \<and> (\<exists>l\<in>set (department_managers d). dm_dept_id l = dept_id r \<and> dm_user_id l = user_id u))"

lemma managed_adds: "managed same e d \<Longrightarrow> adds_rows d d' \<Longrightarrow> managed same e d'"
proof -
  assume "managed same e d" and grows: "adds_rows d d'"
  then obtain r u l where "find_dept same d (fst e) = Some r"
    and u: "find (\<lambda>x. user_username x = fst (snd e)) (users d) = Some u"
    and l: "l \<in> set (department_managers d)" "dm_dept_id l = dept_id r" "dm_user_id l = user_id u"
    unfolding managed_def by blast
  moreover have "find (\<lambda>x. user_username x = fst (snd e)) (users d') = Some u"
    using find_prefix[OF _ u] grows by (simp add: adds_rows_def)
  moreover have "l \<in> set (department_managers d')"
    using l(1) grows set_mono_prefix unfolding adds_rows_def by blast
  ultimately show "managed same e d'"
    unfolding managed_def using find_adds(1)[OF grows] by blast
qed

lemma seed_manager_step:
  assumes "seed_manager e st = Inr st'" and ok: "dicts_ok same st"
  shows "run_le st st' \<and> dicts_ok same st' \<and> managed same e (sr_db st')"
proof -
  obtain did mgr where did: "map_of (sr_depts st) (fst e) = Some did"
    and mgr: "find (\<lambda>u. user_username u = fst (snd e)) (users (sr_db st)) = Some mgr"
    using assms(1) by (auto simp: seed_manager_def split: prod.splits)
  obtain r where r: "find_dept same (sr_db st) (fst e) = Some r" "dept_id r = did"
    using ok map_of_SomeD[OF did] unfolding dicts_ok_def by fastforce
  show ?thesis
  proof (cases "list_ex (\<lambda>l. dm_dept_id l = did \<and> dm_user_id l = user_id mgr) (department_managers (sr_db st))")
    case True
    then show ?thesis
      using assms did mgr r by (auto simp: seed_manager_def managed_def list_ex_iff split: prod.splits)
  next
    case False
    then obtain l d where d: "insert_dm l (sr_db st) = Inr d"
      and l: "dm_dept_id l = did" "dm_user_id l = user_id mgr"
      and st': "st' = st\<lparr>sr_stats := (sr_stats st)\<lparr>st_dept_managers :=
          st_dept_managers (sr_stats st) + 1\<rparr>, sr_db := d\<rparr>"
      using assms(1) did mgr by (auto simp: seed_manager_def split: prod.splits)
    have grows: "adds_rows (sr_db st) d" using insert_adds(6)[OF d] .
    have u: "find (\<lambda>x. user_username x = fst (snd e)) (users d) = Some mgr"
      using find_prefix[OF _ mgr] grows by (simp add: adds_rows_def)
    have "\<exists>x\<in>set (department_managers d). dm_dept_id x = did \<and> dm_user_id x = user_id mgr"
      using d l by (auto simp: insert_dm_def split: if_splits)
    then have "managed same e d"
      unfolding managed_def using find_adds(1)[OF grows r(1)] r(2) u by auto
    then show ?thesis using grows dicts_ok_mono[OF ok] by (simp add: st' run_le_def)
  qed
qed

section \<open>Everything is there\<close>

definition seeded :: "(string \<Rightarrow> string \<Rightarrow> bool) \<Rightarrow> db \<Rightarrow> bool" where
  "seeded same d \<longleftrightarrow>
     (\<forall>e\<in>set DEPARTMENTS. find_dept same d (fst e) \<noteq> None)
   \<and> (\<forall>e\<in>set PERMISSIONS. find_perm same d (fst e) \<noteq> None)
   \<and> (\<forall>c\<in>set ROLES. row_linked same c d)
   \<and> (\<forall>e\<in>set DEMO_USERS. find_user same d (fst e) \<noteq> None)
   \<and> (\<forall>e\<in>set DEPARTMENT_MANAGERS. managed same e d)"

lemma seed_complete:
  assumes "seed same label rlabel hash d = Inr (stats, d')" and refl: "\<And>x. same x x"
  shows "seeded same d' \<and> adds_rows d d'"
proof -
  define st0 where "st0 = \<lparr>sr_depts = [], sr_perms = [], sr_roles = [], sr_stats = no_stats, sr_db = d\<rparr>"
  obtain a b c e f g where
    a: "rfold (seed_department same label) DEPARTMENTS st0 = Inr a" and
    b: "rfold (seed_permission same label) PERMISSIONS a = Inr b" and
    c: "rfold (seed_role rlabel) ROLES b = Inr c" and
    e: "rfold seed_matrix_row ROLES c = Inr e" and
    f: "rfold (seed_user same label hash) DEMO_USERS e = Inr f" and
    g: "rfold seed_manager DEPARTMENT_MANAGERS f = Inr g" and d': "d' = sr_db g"
    using assms(1) unfolding seed_def st0_def by auto
  have ok0: "dicts_ok same st0" by (simp add: st0_def dicts_ok_def)
  have A: "run_le st0 a \<and> dicts_ok same a \<and> (\<forall>x\<in>set DEPARTMENTS. fst x \<in> fst ` set (sr_depts a))"
    by (rule loop_goals[OF a ok0]) (use seed_department_step refl in \<open>auto simp: run_le_def\<close>)
  then have okA: "dicts_ok same a" by blast
  have B: "run_le a b \<and> dicts_ok same b \<and> (\<forall>x\<in>set PERMISSIONS. fst x \<in> fst ` set (sr_perms b))"
    by (rule loop_goals[OF b okA]) (use seed_permission_step refl in \<open>auto simp: run_le_def\<close>)
  then have okB: "dicts_ok same b" by blast
  have C: "run_le b c \<and> dicts_ok same c \<and> (\<forall>x\<in>set ROLES. x \<in> fst ` set (sr_roles c))"
    by (rule loop_goals[OF c okB]) (use seed_role_step in \<open>auto simp: run_le_def\<close>)
  then have okC: "dicts_ok same c" by blast
  have E: "run_le c e \<and> dicts_ok same e \<and> (\<forall>x\<in>set ROLES. row_linked same x (sr_db e))"
    by (rule loop_goals[OF e okC])
      (use seed_matrix_row_step in \<open>auto simp: run_le_def intro: row_linked_adds\<close>)
  then have okE: "dicts_ok same e" by blast
  have F: "run_le e f \<and> dicts_ok same f \<and> (\<forall>x\<in>set DEMO_USERS. find_user same (sr_db f) (fst x) \<noteq> None)"
    by (rule loop_goals[OF f okE])
      (use seed_user_step refl in \<open>auto simp: run_le_def dest: find_adds(4)\<close>)
  then have okF: "dicts_ok same f" by blast
  have G: "run_le f g \<and> dicts_ok same g \<and> (\<forall>x\<in>set DEPARTMENT_MANAGERS. managed same x (sr_db g))"
    by (rule loop_goals[OF g okF])
      (use seed_manager_step in \<open>auto simp: run_le_def intro: managed_adds\<close>)
  have le: "run_le a g" "run_le b g" "run_le e g" "run_le f g"
    using A B C E F G run_le_trans by meson+
  have dep: "find_dept same d' (fst x) \<noteq> None" if "x \<in> set DEPARTMENTS" for x
  proof -
    have "fst x \<in> fst ` set (sr_depts a)" using A that by blast
    then obtain i where "(fst x, i) \<in> set (sr_depts a)" by (metis imageE surjective_pairing)
    then have "(fst x, i) \<in> set (sr_depts g)" using le(1) by (auto simp: run_le_def)
    then show ?thesis using G unfolding dicts_ok_def d' by fastforce
  qed
  have perm: "find_perm same d' (fst x) \<noteq> None" if "x \<in> set PERMISSIONS" for x
  proof -
    have "fst x \<in> fst ` set (sr_perms b)" using B that by blast
    then obtain i where "(fst x, i) \<in> set (sr_perms b)" by (metis imageE surjective_pairing)
    then have "(fst x, i) \<in> set (sr_perms g)" using le(2) by (auto simp: run_le_def)
    then show ?thesis using G unfolding dicts_ok_def d' by fastforce
  qed
  have "row_linked same x d'" if "x \<in> set ROLES" for x
    using E that le(3) row_linked_adds unfolding run_le_def d' by blast
  moreover have "find_user same d' (fst x) \<noteq> None" if "x \<in> set DEMO_USERS" for x
    using F that le(4) find_adds(4)[of "sr_db f" d'] unfolding run_le_def d' by fastforce
  moreover have "adds_rows d d'"
    using A le(1) run_le_trans[of st0 a g] unfolding run_le_def d' st0_def by simp
  ultimately show ?thesis using dep perm G unfolding seeded_def d' by blast
qed

section \<open>Nothing to do\<close>

lemma quiet_loop:
  assumes "\<And>x a. x \<in> set xs \<Longrightarrow> P a \<Longrightarrow> \<exists>b. f x a = Inr b \<and> P b" and "P st"
  shows "\<exists>b. rfold f xs st = Inr b \<and> P b"
  using assms
proof (induction xs arbitrary: st)
  case (Cons x xs)
  then obtain b where "f x st = Inr b" "P b" by (meson list.set_intros(1))
  moreover have "\<exists>c. rfold f xs b = Inr c \<and> P c"
    using Cons.IH[OF _ \<open>P b\<close>] Cons.prems(1) by (meson list.set_intros(2))
  ultimately show ?case by auto
qed simp

definition idle :: "(string \<Rightarrow> string \<Rightarrow> bool) \<Rightarrow> db \<Rightarrow> seed_run \<Rightarrow> bool" where
  "idle same d st \<longleftrightarrow> dicts_ok same st \<and> sr_db st = d \<and> sr_stats st = no_stats"

lemma map_of_key: "k \<in> fst ` set xs \<Longrightarrow> \<exists>v. map_of xs k = Some v \<and> (k, v) \<in> set xs"
  by (meson map_of_SomeD map_of_eq_None_iff not_None_eq)

lemma idle_link:
  assumes "idle same d st" and "linked same d rid code" and "code \<in> fst ` set (sr_perms st)"
  shows "seed_link rid (role_permission_ids d rid) code st = Inr st"
proof -
  obtain pid where pid: "map_of (sr_perms st) code = Some pid" "(code, pid) \<in> set (sr_perms st)"
    using map_of_key[OF assms(3)] by blast
  then have "map_option perm_id (find_perm same d code) = Some pid"
    using assms(1) unfolding idle_def dicts_ok_def by fastforce
  then have "pid \<in> set (role_permission_ids d rid)"
    using assms(2) by (auto simp: linked_def)
  then show ?thesis using pid(1) by (simp add: seed_link_def)
qed

lemma idle_matrix_row:
  assumes "idle same d st" and "row_linked same c d" and "c \<in> fst ` set (sr_roles st)"
    and "set (ROLE_PERMISSIONS c) \<subseteq> set ALL_PERM_CODES"
    and "set ALL_PERM_CODES \<subseteq> fst ` set (sr_perms st)"
  shows "seed_matrix_row c st = Inr st"
proof -
  obtain rid where rid: "map_of (sr_roles st) c = Some rid" "(c, rid) \<in> set (sr_roles st)"
    using map_of_key[OF assms(3)] by blast
  then have "map_option role_id (find_role d c) = Some rid"
    using assms(1) unfolding idle_def dicts_ok_def by fastforce
  then have l: "linked same d rid code" if "code \<in> set (ROLE_PERMISSIONS c)" for code
    using assms(2) that unfolding row_linked_def by auto
  have "rfold (seed_link rid (role_permission_ids d rid)) codes st = Inr st"
    if "set codes \<subseteq> set (ROLE_PERMISSIONS c)" for codes
    using that
  proof (induction codes)
    case (Cons code codes)
    then show ?case
      using idle_link[OF assms(1) l[of code]] assms(4,5) by (simp add: subset_iff)
  qed simp
  moreover have "list_all (\<lambda>p. p \<in> set ALL_PERM_CODES) (ROLE_PERMISSIONS c)"
    using assms(4) by (auto simp: list_all_iff)
  moreover have "sr_db st = d" using assms(1) by (simp add: idle_def)
  ultimately show ?thesis using rid by (simp add: seed_matrix_row_def)
qed

lemma idle_manager:
  assumes "idle same d st" and "managed same e d" and "fst e \<in> fst ` set (sr_depts st)"
  shows "seed_manager e st = Inr st"
proof -
  obtain did where did: "map_of (sr_depts st) (fst e) = Some did" "(fst e, did) \<in> set (sr_depts st)"
    using map_of_key[OF assms(3)] by blast
  then have "map_option dept_id (find_dept same d (fst e)) = Some did"
    using assms(1) unfolding idle_def dicts_ok_def by fastforce
  then obtain r where r: "find_dept same d (fst e) = Some r" "dept_id r = did" by auto
  obtain u where u: "find (\<lambda>x. user_username x = fst (snd e)) (users d) = Some u"
    and l: "\<exists>l\<in>set (department_managers d). dm_dept_id l = did \<and> dm_user_id l = user_id u"
    using assms(2) r unfolding managed_def by auto
  have db: "sr_db st = d" using assms(1) by (simp add: idle_def)
  have l': "list_ex (\<lambda>l. dm_dept_id l = did \<and> dm_user_id l = user_id u) (department_managers d)"
    using l by (auto simp: list_ex_iff)
  show ?thesis
    using did(1) u l' by (cases e) (simp add: seed_manager_def db)
qed

lemma role_permissions_known: "set (ROLE_PERMISSIONS c) \<subseteq> set ALL_PERM_CODES"
  by (cases c) (simp_all add: ALL_PERM_CODES_def PERMISSIONS_def)

lemma seed_seeded:
  assumes "seeded same d" and refl: "\<And>x. same x x"
  shows "seed same label rlabel hash d = Inr (no_stats, d)"
proof -
  define st0 where "st0 = \<lparr>sr_depts = [], sr_perms = [], sr_roles = [], sr_stats = no_stats, sr_db = d\<rparr>"
  have i0: "idle same d st0" by (simp add: st0_def idle_def dicts_ok_def)
  have "\<exists>b. seed_department same label x a = Inr b \<and> idle same d b"
    if "x \<in> set DEPARTMENTS" "idle same d a" for x a
    using that assms unfolding seeded_def seed_department_def idle_def dicts_ok_def by fastforce
  then obtain a where a: "rfold (seed_department same label) DEPARTMENTS st0 = Inr a" "idle same d a"
    using quiet_loop[of DEPARTMENTS "idle same d" "seed_department same label" st0] i0 by blast
  have "\<exists>b. seed_permission same label x p = Inr b \<and> idle same d b"
    if "x \<in> set PERMISSIONS" "idle same d p" for x p
    using that assms unfolding seeded_def seed_permission_def idle_def dicts_ok_def by fastforce
  then obtain b where b: "rfold (seed_permission same label) PERMISSIONS a = Inr b" "idle same d b"
    using quiet_loop[of PERMISSIONS "idle same d" "seed_permission same label" a] a(2) by blast
  have "\<exists>b. seed_role rlabel x p = Inr b \<and> idle same d b"
    if "x \<in> set ROLES" "idle same d p" for x p
    using that assms(1) unfolding seeded_def row_linked_def seed_role_def idle_def dicts_ok_def
    by fastforce
  then obtain c where c: "rfold (seed_role rlabel) ROLES b = Inr c" "idle same d c"
    using quiet_loop[of ROLES "idle same d" "seed_role rlabel" b] b(2) by blast
  have A: "run_le st0 a \<and> dicts_ok same a \<and> (\<forall>x\<in>set DEPARTMENTS. fst x \<in> fst ` set (sr_depts a))"
    by (rule loop_goals[OF a(1)])
      (use i0 seed_department_step refl in \<open>auto simp: run_le_def idle_def\<close>)
  have B: "run_le a b \<and> dicts_ok same b \<and> (\<forall>x\<in>set PERMISSIONS. fst x \<in> fst ` set (sr_perms b))"
    by (rule loop_goals[OF b(1)])
      (use a(2) seed_permission_step refl in \<open>auto simp: run_le_def idle_def\<close>)
  have C: "run_le b c \<and> dicts_ok same c \<and> (\<forall>x\<in>set ROLES. x \<in> fst ` set (sr_roles c))"
    by (rule loop_goals[OF c(1)]) (use b(2) seed_role_step in \<open>auto simp: run_le_def idle_def\<close>)
  have perms: "set ALL_PERM_CODES \<subseteq> fst ` set (sr_perms c)"
  proof -
    have "fst x \<in> fst ` set (sr_perms c)" if "x \<in> set PERMISSIONS" for x
      using B C that unfolding run_le_def by blast
    then show ?thesis unfolding ALL_PERM_CODES_def by auto
  qed
  have depts: "fst x \<in> fst ` set (sr_depts c)" if "x \<in> set DEPARTMENTS" for x
  proof -
    have "set (sr_depts a) \<subseteq> set (sr_depts c)"
      using B C unfolding run_le_def by (meson order_trans)
    then have "fst ` set (sr_depts a) \<subseteq> fst ` set (sr_depts c)" by (rule image_mono)
    then show ?thesis using A that by blast
  qed
  have stays: "rfold f xs c = Inr c" if "\<And>x. x \<in> set xs \<Longrightarrow> f x c = Inr c" for f xs
    using that by (induction xs) (auto simp: rbind_def)
  have "rfold seed_matrix_row ROLES c = Inr c"
    by (rule stays)
      (use idle_matrix_row[OF c(2) _ _ role_permissions_known perms] assms(1) C in
        \<open>auto simp: seeded_def\<close>)
  moreover have "rfold (seed_user same label hash) DEMO_USERS c = Inr c"
    by (rule stays)
      (use assms(1) c(2) in \<open>auto simp: seeded_def seed_user_def idle_def\<close>)
  moreover have "rfold seed_manager DEPARTMENT_MANAGERS c = Inr c"
    by (rule stays)
      (use assms(1) idle_manager[OF c(2)] depts in \<open>auto simp: seeded_def DEPARTMENT_MANAGERS_def DEPARTMENTS_def\<close>)
  ultimately show ?thesis
    using a(1) b(1) c unfolding seed_def st0_def[symmetric] by (simp add: idle_def)
qed

end
