(* ===== verification/Seed_Matrix.thy ===== *)
theory Seed_Matrix
  imports Seed_Facts
begin

text \<open>
  Seeding a fresh database: it succeeds, and every role holds exactly the
  permissions of its row of the matrix.  The collation may identify texts, but
  not two codes of the static data.
\<close>

definition separates :: "(string \<Rightarrow> string \<Rightarrow> bool) \<Rightarrow> bool" where
  "separates same \<longleftrightarrow> (\<forall>x. same x x)
    \<and> (\<forall>x\<in>set ALL_PERM_CODES. \<forall>y\<in>set ALL_PERM_CODES. same x y \<longrightarrow> x = y)
    \<and> (\<forall>x\<in>set (map fst DEMO_USERS). \<forall>y\<in>set (map fst DEMO_USERS). same x y \<longrightarrow> x = y)"

text \<open>The rows of the permission tables are those of the static data.\<close>

definition perms_ok :: "db \<Rightarrow> bool" where
  "perms_ok d \<longleftrightarrow> distinct (map perm_id (permissions d))
    \<and> (\<forall>p\<in>set (permissions d). perm_id p < auto_inc d T_permissions \<and> perm_code p \<in> set ALL_PERM_CODES)"

definition roles_ok :: "db \<Rightarrow> bool" where
  "roles_ok d \<longleftrightarrow> distinct (map role_id (roles d)) \<and> (\<forall>r\<in>set (roles d). role_id r < auto_inc d T_roles)"

definition link_ok :: "db \<Rightarrow> role_permission \<Rightarrow> bool" where
  "link_ok d l \<longleftrightarrow> (\<exists>r p. find_role d (role_role_code r) = Some r \<and> role_id r = rp_role_id l
    \<and> p \<in> set (permissions d) \<and> perm_id p = rp_permission_id l
    \<and> perm_code p \<in> set (ROLE_PERMISSIONS (role_role_code r)))"

definition matrix_ok :: "db \<Rightarrow> bool" where
  "matrix_ok d \<longleftrightarrow> perms_ok d \<and> roles_ok d \<and> list_all (link_ok d) (role_permissions d)"

lemma link_ok_adds:
  assumes "link_ok d l" and "adds_rows d d'" shows "link_ok d' l"
proof -
  have "set (permissions d) \<subseteq> set (permissions d')"
    using assms(2) by (simp add: adds_rows_def set_mono_prefix)
  then show ?thesis
    using assms(1) find_adds(3)[OF assms(2)] unfolding link_ok_def by blast
qed

lemma find_perm_code:
  assumes "separates same" and "perms_ok d" and "code \<in> set ALL_PERM_CODES"
    and "find_perm same d code = Some p"
  shows "p \<in> set (permissions d) \<and> perm_code p = code"
  using assms unfolding separates_def perms_ok_def find_perm_def find_Some_iff
  by (metis nth_mem)

lemma perm_id_inj:
  "\<lbrakk>perms_ok d; p \<in> set (permissions d); q \<in> set (permissions d); perm_id p = perm_id q\<rbrakk> \<Longrightarrow> p = q"
  unfolding perms_ok_def by (meson distinct_map inj_onD)

lemma role_id_inj:
  "\<lbrakk>roles_ok d; r \<in> set (roles d); q \<in> set (roles d); role_id r = role_id q\<rbrakk> \<Longrightarrow> r = q"
  unfolding roles_ok_def by (meson distinct_map inj_onD)

text \<open>The state that every loop keeps.\<close>

definition seeding :: "(string \<Rightarrow> string \<Rightarrow> bool) \<Rightarrow> seed_run \<Rightarrow> bool" where
  "seeding same st \<longleftrightarrow> dicts_ok same st \<and> matrix_ok (sr_db st)"

lemma insert_perm_ok:
  assumes "insert_perm same p d = Inr d'" and "matrix_ok d" and "perm_code p \<in> set ALL_PERM_CODES"
  shows "matrix_ok d'"
proof -
  have d': "permissions d' = permissions d @ [p\<lparr>perm_id := auto_inc d T_permissions\<rparr>]"
    "roles d' = roles d" "role_permissions d' = role_permissions d"
    "auto_inc d' T_permissions = Suc (auto_inc d T_permissions)" "auto_inc d' T_roles = auto_inc d T_roles"
    using assms(1) by (auto simp: insert_perm_def split: if_splits)
  have "list_all (link_ok d') (role_permissions d')"
    using assms(2) link_ok_adds[OF _ insert_adds(2)[OF assms(1)]]
    by (auto simp: matrix_ok_def d' list_all_iff)
  then show ?thesis
    using assms(2,3) by (auto simp: matrix_ok_def perms_ok_def roles_ok_def d' less_Suc_eq)
qed

lemma insert_role_ok:
  assumes "insert_role r d = Inr d'" and "matrix_ok d"
  shows "matrix_ok d'"
proof -
  have d': "roles d' = roles d @ [r\<lparr>role_id := auto_inc d T_roles\<rparr>]"
    "permissions d' = permissions d" "role_permissions d' = role_permissions d"
    "auto_inc d' T_permissions = auto_inc d T_permissions" "auto_inc d' T_roles = Suc (auto_inc d T_roles)"
    using assms(1) by (auto simp: insert_role_def split: if_splits)
  have "list_all (link_ok d') (role_permissions d')"
    using assms(2) link_ok_adds[OF _ insert_adds(3)[OF assms(1)]]
    by (auto simp: matrix_ok_def d' list_all_iff)
  then show ?thesis
    using assms(2) by (auto simp: matrix_ok_def perms_ok_def roles_ok_def d' less_Suc_eq)
qed

text \<open>The tables of the matrix are not touched by the other steps.\<close>

lemma insert_other_ok:
  "insert_dept same x d = Inr d' \<Longrightarrow> matrix_ok d' = matrix_ok d"
  "insert_account same u d = Inr d' \<Longrightarrow> matrix_ok d' = matrix_ok d"
  "insert_dm m d = Inr d' \<Longrightarrow> matrix_ok d' = matrix_ok d"
  by (auto simp: insert_dept_def insert_account_def insert_dm_def matrix_ok_def perms_ok_def
      roles_ok_def link_ok_def[abs_def] find_role_def split: if_splits)

section \<open>No step fails\<close>

lemma not_found_iff: "find P xs = None \<longleftrightarrow> \<not> list_ex P xs"
  by (auto simp: find_None_iff list_ex_iff)

lemma insert_not_found:
  "find_dept same d (dept_code r) = None \<Longrightarrow> \<exists>d'. insert_dept same r d = Inr d'"
  "find_perm same d (perm_code p) = None \<Longrightarrow> \<exists>d'. insert_perm same p d = Inr d'"
  "find_role d (role_role_code l) = None \<Longrightarrow> \<exists>d'. insert_role l d = Inr d'"
  "find_user same d (user_username u) = None \<Longrightarrow> \<exists>d'. insert_account same u d = Inr d'"
  by (simp_all add: find_dept_def insert_dept_def find_perm_def insert_perm_def find_role_def
      insert_role_def find_user_def insert_account_def not_found_iff)

lemma department_total:
  assumes "seeding same st" and "separates same"
  shows "\<exists>b. seed_department same label e st = Inr b \<and> seeding same b"
proof -
  have "\<exists>b. seed_department same label e st = Inr b \<and> (sr_db b = sr_db st \<or> (\<exists>r. insert_dept same r (sr_db st) = Inr (sr_db b)))"
  proof (cases "find_dept same (sr_db st) (fst e)")
    case None
    then obtain d where "insert_dept same
      \<lparr>dept_id = 0, dept_code = fst e, dept_name = label (fst e), dept_parent_id = None,
       dept_sort_order = snd e, dept_status = DEPT_ACTIVE, dept_remark = None,
       dept_created_by = None, dept_updated_by = None\<rparr>
      (sr_db st) = Inr d"
      using insert_not_found by fastforce
    then show ?thesis using None by (auto simp: seed_department_def)
  qed (simp add: seed_department_def)
  then obtain b where b: "seed_department same label e st = Inr b" and db: "sr_db b = sr_db st \<or> (\<exists>r. insert_dept same r (sr_db st) = Inr (sr_db b))" by blast
  have "dicts_ok same b"
    using seed_department_step[OF b] assms by (simp add: seeding_def separates_def)
  then show ?thesis using b db assms(1) insert_other_ok(1) by (auto simp: seeding_def)
qed

lemma permission_total:
  assumes "seeding same st" and "separates same" and "e \<in> set PERMISSIONS"
  shows "\<exists>b. seed_permission same label e st = Inr b \<and> seeding same b"
proof -
  have code: "fst e \<in> set ALL_PERM_CODES" using assms(3) by (simp add: ALL_PERM_CODES_def)
  have "\<exists>b. seed_permission same label e st = Inr b \<and> (sr_db b = sr_db st
      \<or> (\<exists>r. perm_code r = fst e \<and> insert_perm same r (sr_db st) = Inr (sr_db b)))"
  proof (cases "find_perm same (sr_db st) (fst e)")
    case None
    then obtain d where "insert_perm same
      \<lparr>perm_id = 0, perm_code = fst e, perm_name = label (fst e), perm_module = snd e\<rparr>
      (sr_db st) = Inr d"
      using insert_not_found by fastforce
    then show ?thesis using None by (auto simp: seed_permission_def)
  qed (simp add: seed_permission_def)
  then obtain b where b: "seed_permission same label e st = Inr b" and db: "sr_db b = sr_db st
      \<or> (\<exists>r. perm_code r = fst e \<and> insert_perm same r (sr_db st) = Inr (sr_db b))" by blast
  have "dicts_ok same b"
    using seed_permission_step[OF b] assms by (simp add: seeding_def separates_def)
  then show ?thesis
    using b db assms(1) insert_perm_ok[of same _ "sr_db st" "sr_db b"] code by (auto simp: seeding_def)
qed

lemma role_total:
  assumes "seeding same st"
  shows "\<exists>b. seed_role rlabel c st = Inr b \<and> seeding same b"
proof -
  have "\<exists>b. seed_role rlabel c st = Inr b \<and> (sr_db b = sr_db st \<or> (\<exists>r. insert_role r (sr_db st) = Inr (sr_db b)))"
  proof (cases "find_role (sr_db st) c")
    case None
    then obtain d where "insert_role
      \<lparr>role_id = 0, role_role_code = c, role_name = fst (rlabel c),
       role_description = Some (snd (rlabel c)), role_is_system = True, role_status = ST_ACTIVE\<rparr>
      (sr_db st) = Inr d"
      using insert_not_found by fastforce
    then show ?thesis using None by (auto simp: seed_role_def)
  qed (simp add: seed_role_def)
  then obtain b where b: "seed_role rlabel c st = Inr b" and db: "sr_db b = sr_db st \<or> (\<exists>r. insert_role r (sr_db st) = Inr (sr_db b))" by blast
  have "dicts_ok same b"
    using seed_role_step[OF b] assms by (simp add: seeding_def)
  then show ?thesis using b db assms(1) insert_role_ok by (auto simp: seeding_def)
qed

text \<open>
  A link cannot be there already: the existing links were read before the loop,
  and two codes of a row are two permissions.
\<close>

lemma link_total:
  assumes ok: "seeding same st" and sep: "separates same"
    and pid: "map_of (sr_perms st) code = Some pid" and code: "code \<in> set (ROLE_PERMISSIONS c)"
    and r: "find_role (sr_db st) c = Some r" "role_id r = rid"
    and fresh: "pid \<in> set (role_permission_ids (sr_db st) rid) \<Longrightarrow> pid \<in> set existing"
  shows "\<exists>b. seed_link rid existing code st = Inr b \<and> seeding same b
    \<and> sr_perms b = sr_perms st \<and> find_role (sr_db b) c = Some r
    \<and> set (role_permission_ids (sr_db b) rid) \<subseteq> insert pid (set (role_permission_ids (sr_db st) rid))"
proof (cases "pid \<in> set existing")
  case True
  then show ?thesis using ok pid r by (auto simp: seed_link_def)
next
  case False
  then have "pid \<notin> set (role_permission_ids (sr_db st) rid)" using fresh by blast
  then obtain d where d: "insert_rp (permission_link rid pid) (sr_db st) = Inr d"
    by (auto simp: insert_rp_def permission_link_def role_permission_ids_def list_ex_iff image_iff)
  define b where "b = st\<lparr>sr_stats := (sr_stats st)\<lparr>st_role_permissions :=
      st_role_permissions (sr_stats st) + 1\<rparr>, sr_db := d\<rparr>"
  have b: "seed_link rid existing code st = Inr b"
    using False pid d by (simp add: seed_link_def b_def)
  have d': "role_permissions d = role_permissions (sr_db st) @
      [(permission_link rid pid)\<lparr>rp_id := auto_inc (sr_db st) T_role_permissions\<rparr>]"
    "permissions d = permissions (sr_db st)" "roles d = roles (sr_db st)"
    "auto_inc d T_permissions = auto_inc (sr_db st) T_permissions"
    "auto_inc d T_roles = auto_inc (sr_db st) T_roles"
    using d by (auto simp: insert_rp_def split: if_splits)
  have grows: "adds_rows (sr_db st) d" using insert_adds(4)[OF d] .
  have dicts: "dicts_ok same st" and pok: "perms_ok (sr_db st)"
    using ok by (auto simp: seeding_def matrix_ok_def)
  have "map_option perm_id (find_perm same (sr_db st) code) = Some pid"
    using dicts map_of_SomeD[OF pid] unfolding dicts_ok_def by fastforce
  moreover have "code \<in> set ALL_PERM_CODES" using code role_permissions_known by blast
  ultimately obtain p where p: "p \<in> set (permissions (sr_db st))" "perm_code p = code" "perm_id p = pid"
    using find_perm_code[OF sep pok] by auto
  have "role_role_code r = c" using r(1) by (auto simp: find_role_def find_Some_iff)
  then have "link_ok d ((permission_link rid pid)\<lparr>rp_id := auto_inc (sr_db st) T_role_permissions\<rparr>)"
    using r p code d' by (auto simp: link_ok_def permission_link_def find_role_def intro!: exI[of _ r])
  moreover have "list_all (link_ok d) (role_permissions (sr_db st))"
    using ok link_ok_adds[OF _ grows] by (auto simp: seeding_def matrix_ok_def list_all_iff)
  ultimately have "matrix_ok d"
    using ok by (simp add: seeding_def matrix_ok_def perms_ok_def roles_ok_def d')
  then have "seeding same b"
    using dicts_ok_mono[OF dicts, of b] grows by (simp add: seeding_def b_def)
  moreover have "find_role d c = Some r" using r(1) d' by (simp add: find_role_def)
  moreover have "set (role_permission_ids d rid) \<subseteq> insert pid (set (role_permission_ids (sr_db st) rid))"
    by (auto simp: role_permission_ids_def d' permission_link_def)
  ultimately show ?thesis using b by (auto simp: b_def)
qed

lemma pid_inj:
  assumes "seeding same st" and "separates same"
    and "map_of (sr_perms st) x = Some i" and "map_of (sr_perms st) y = Some i"
    and "x \<in> set ALL_PERM_CODES" and "y \<in> set ALL_PERM_CODES"
  shows "x = y"
proof -
  have dicts: "dicts_ok same st" and pok: "perms_ok (sr_db st)"
    using assms(1) by (auto simp: seeding_def matrix_ok_def)
  have "\<exists>p\<in>set (permissions (sr_db st)). perm_code p = z \<and> perm_id p = i"
    if "map_of (sr_perms st) z = Some i" "z \<in> set ALL_PERM_CODES" for z
  proof -
    have "map_option perm_id (find_perm same (sr_db st) z) = Some i"
      using dicts map_of_SomeD[OF that(1)] unfolding dicts_ok_def by fastforce
    then show ?thesis using find_perm_code[OF assms(2) pok that(2)] by auto
  qed
  then show ?thesis using assms(3-6) perm_id_inj[OF pok] by metis
qed

lemma links_total:
  assumes sep: "separates same" and sub: "set codes \<subseteq> set (ROLE_PERMISSIONS c)"
    and known: "set ALL_PERM_CODES \<subseteq> fst ` set (sr_perms st)" and dist: "distinct codes"
    and st: "seeding same st" "find_role (sr_db st) c = Some r" "role_id r = rid"
    and fresh: "\<And>x i. x \<in> set codes \<Longrightarrow> map_of (sr_perms st) x = Some i \<Longrightarrow>
      i \<in> set (role_permission_ids (sr_db st) rid) \<Longrightarrow> i \<in> set existing"
  shows "\<exists>b. rfold (seed_link rid existing) codes st = Inr b \<and> seeding same b"
  using sub known dist st fresh
proof (induction codes arbitrary: st)
  case (Cons y codes)
  have all: "z \<in> set ALL_PERM_CODES" if "z \<in> set (ROLE_PERMISSIONS c)" for z
    using that role_permissions_known by blast
  have "y \<in> fst ` set (sr_perms st)" using Cons.prems(1,2) all by auto
  then obtain i where i: "map_of (sr_perms st) y = Some i" using map_of_key by fastforce
  have fr: "i \<in> set (role_permission_ids (sr_db st) rid) \<Longrightarrow> i \<in> set existing"
    using Cons.prems(7)[OF _ i] by simp
  obtain b where b: "seed_link rid existing y st = Inr b" "seeding same b"
      "sr_perms b = sr_perms st" "find_role (sr_db b) c = Some r"
      "set (role_permission_ids (sr_db b) rid) \<subseteq> insert i (set (role_permission_ids (sr_db st) rid))"
    using link_total[OF Cons.prems(4) sep i _ Cons.prems(5,6) fr] Cons.prems(1) by auto
  have "\<exists>e. rfold (seed_link rid existing) codes b = Inr e \<and> seeding same e"
  proof (rule Cons.IH)
    fix x j
    assume x: "x \<in> set codes" and j: "map_of (sr_perms b) x = Some j"
      and links: "j \<in> set (role_permission_ids (sr_db b) rid)"
    have "j \<noteq> i"
      using pid_inj[OF Cons.prems(4) sep, of x j y] i j b(3) x Cons.prems(1,3) all by auto
    then show "j \<in> set existing" using links b(3,5) j x Cons.prems(7)[of x j] by auto
  qed (use Cons.prems b in auto)
  then show ?case using b(1) by auto
qed simp

lemma distinct_role_permissions: "distinct (ROLE_PERMISSIONS c)"
  by (cases c) (simp_all add: ALL_PERM_CODES_def PERMISSIONS_def)

lemma seed_link_dicts:
  "seed_link rid existing code st = Inr st' \<Longrightarrow>
    sr_depts st' = sr_depts st \<and> sr_perms st' = sr_perms st \<and> sr_roles st' = sr_roles st
    \<and> users (sr_db st') = users (sr_db st)"
  by (auto simp: seed_link_def insert_rp_def split: if_splits)

lemma seed_matrix_row_dicts:
  assumes "seed_matrix_row c st = Inr st'"
  shows "sr_depts st' = sr_depts st \<and> sr_perms st' = sr_perms st \<and> sr_roles st' = sr_roles st
    \<and> users (sr_db st') = users (sr_db st)"
proof -
  obtain rid where "rfold (seed_link rid (role_permission_ids (sr_db st) rid)) (ROLE_PERMISSIONS c) st = Inr st'"
    using assms by (auto simp: seed_matrix_row_def split: if_splits)
  then show ?thesis
    by (rule rfold_rel[where R = "\<lambda>a b. sr_depts b = sr_depts a \<and> sr_perms b = sr_perms a
        \<and> sr_roles b = sr_roles a \<and> users (sr_db b) = users (sr_db a)"])
      (auto dest: seed_link_dicts)
qed

lemma matrix_row_total:
  assumes st: "seeding same st" and sep: "separates same" and "c \<in> fst ` set (sr_roles st)"
    and "set ALL_PERM_CODES \<subseteq> fst ` set (sr_perms st)"
  shows "\<exists>b. seed_matrix_row c st = Inr b \<and> seeding same b"
proof -
  obtain rid where rid: "map_of (sr_roles st) c = Some rid" "(c, rid) \<in> set (sr_roles st)"
    using map_of_key[OF assms(3)] by blast
  then have "map_option role_id (find_role (sr_db st) c) = Some rid"
    using st unfolding seeding_def dicts_ok_def by fastforce
  then obtain r where r: "find_role (sr_db st) c = Some r" "role_id r = rid" by auto
  have "\<exists>b. rfold (seed_link rid (role_permission_ids (sr_db st) rid)) (ROLE_PERMISSIONS c) st = Inr b
      \<and> seeding same b"
    by (rule links_total[OF sep subset_refl assms(4) distinct_role_permissions st r]) simp
  moreover have "list_all (\<lambda>p. p \<in> set ALL_PERM_CODES) (ROLE_PERMISSIONS c)"
    using role_permissions_known by (auto simp: list_all_iff)
  ultimately show ?thesis using rid(1) by (simp add: seed_matrix_row_def)
qed

section \<open>A fresh database\<close>

definition fresh_identity :: "db \<Rightarrow> bool" where
  "fresh_identity d \<longleftrightarrow> permissions d = [] \<and> roles d = [] \<and> role_permissions d = [] \<and> users d = []"

text \<open>The dictionaries are filled, and every user is one of the static data.\<close>

definition staffed :: "(string \<Rightarrow> string \<Rightarrow> bool) \<Rightarrow> seed_run \<Rightarrow> bool" where
  "staffed same st \<longleftrightarrow> seeding same st
    \<and> fst ` set DEPARTMENTS \<subseteq> fst ` set (sr_depts st) \<and> set ROLES \<subseteq> fst ` set (sr_roles st)
    \<and> set (map user_username (users (sr_db st))) \<subseteq> set (map fst DEMO_USERS)"

lemma user_total:
  assumes st: "staffed same st" and sep: "separates same" and e: "e \<in> set DEMO_USERS"
  shows "\<exists>b. seed_user same label hash e st = Inr b \<and> staffed same b"
proof (cases "find_user same (sr_db st) (fst e)")
  case (Some u)
  then show ?thesis using st by (auto simp: seed_user_def split: prod.splits)
next
  case None
  obtain n p dc rc where en: "e = (n, p, dc, rc)" by (cases e) auto
  have "dc \<in> fst ` set DEPARTMENTS" and "rc \<in> set ROLES"
    using e by (auto simp: en DEMO_USERS_def DEPARTMENTS_def ROLES_def)
  then have keys: "dc \<in> fst ` set (sr_depts st)" "rc \<in> fst ` set (sr_roles st)"
    using st unfolding staffed_def by auto
  obtain did rid where "map_of (sr_depts st) dc = Some did" "map_of (sr_roles st) rc = Some rid"
    using map_of_key[OF keys(1)] map_of_key[OF keys(2)] by blast
  moreover obtain d where d: "insert_account same
      \<lparr>user_id = 0, user_username = n, user_password_hash = hash p, user_real_name = label n,
       user_email = None, user_phone = None, user_department_id = Some did, user_role_id = rid,
       user_status = USER_ACTIVE, user_last_login_at = None, user_created_by = None,
       user_updated_by = None\<rparr> (sr_db st) = Inr d"
    using insert_not_found(4) None by (fastforce simp: en)
  ultimately obtain b where b: "seed_user same label hash e st = Inr b" and db: "sr_db b = d"
    and dicts: "sr_depts b = sr_depts st" "sr_roles b = sr_roles st"
    using None by (auto simp: seed_user_def en)
  have "dicts_ok same b"
    using seed_user_step[OF b] st sep by (simp add: staffed_def seeding_def separates_def)
  moreover have "matrix_ok d"
    using insert_other_ok(2)[OF d] st by (simp add: staffed_def seeding_def)
  moreover have "set (map user_username (users d)) \<subseteq> set (map fst DEMO_USERS)"
  proof -
    have "n \<in> set (map fst DEMO_USERS)" using e en by force
    moreover have "map user_username (users d) = map user_username (users (sr_db st)) @ [n]"
      using d by (auto simp: insert_account_def split: if_splits)
    ultimately show ?thesis using st unfolding staffed_def by simp
  qed
  ultimately show ?thesis using b st dicts by (auto simp: staffed_def seeding_def db)
qed

lemma manager_total:
  assumes st: "staffed same st" and sep: "separates same" and e: "e \<in> set DEPARTMENT_MANAGERS"
    and found: "\<And>u. u \<in> set DEMO_USERS \<Longrightarrow> find_user same (sr_db st) (fst u) \<noteq> None"
  shows "\<exists>b. seed_manager e st = Inr b \<and> matrix_ok (sr_db b) \<and> adds_rows (sr_db st) (sr_db b)
    \<and> roles (sr_db b) = roles (sr_db st)"
proof -
  obtain dc n pr where en: "e = (dc, n, pr)" by (cases e) auto
  have "dc \<in> fst ` set DEPARTMENTS" and n: "n \<in> fst ` set DEMO_USERS"
    using e by (auto simp: en DEPARTMENT_MANAGERS_def DEMO_USERS_def DEPARTMENTS_def)
  then have "dc \<in> fst ` set (sr_depts st)" using st unfolding staffed_def by auto
  then obtain did where did: "map_of (sr_depts st) dc = Some did" using map_of_key by fastforce
  obtain x where "x \<in> set DEMO_USERS" "fst x = n" using n by auto
  then obtain v where v: "find_user same (sr_db st) n = Some v" using found[of x] by auto
  then have v': "v \<in> set (users (sr_db st))" "same (user_username v) n"
    by (auto simp: find_user_def find_Some_iff in_set_conv_nth)
  have "user_username v \<in> set (map fst DEMO_USERS)"
    using st v'(1) unfolding staffed_def by auto
  moreover have "n \<in> set (map fst DEMO_USERS)" using n by simp
  ultimately have "user_username v = n" using sep v'(2) unfolding separates_def by blast
  then obtain u where u: "find (\<lambda>x. user_username x = n) (users (sr_db st)) = Some u"
    using v'(1) by (cases "find (\<lambda>x. user_username x = n) (users (sr_db st))") (auto simp: find_None_iff)
  show ?thesis
  proof (cases "list_ex (\<lambda>l. dm_dept_id l = did \<and> dm_user_id l = user_id u) (department_managers (sr_db st))")
    case True
    then show ?thesis using did u st by (auto simp: seed_manager_def en staffed_def seeding_def)
  next
    case False
    then obtain d where d: "insert_dm \<lparr>dm_id = 0, dm_dept_id = did, dm_user_id = user_id u,
        dm_is_primary = pr\<rparr> (sr_db st) = Inr d"
      by (auto simp: insert_dm_def)
    have "matrix_ok d" "adds_rows (sr_db st) d" "roles d = roles (sr_db st)"
      using insert_other_ok(3)[OF d] st insert_adds(6)[OF d] d
      by (auto simp: staffed_def seeding_def insert_dm_def split: if_splits)
    then show ?thesis using False did u d by (auto simp: seed_manager_def en)
  qed
qed

text \<open>What the matrix state says of the permissions of a role.\<close>

lemma matrix_exact:
  assumes ok: "matrix_ok d" and sep: "separates same" and row: "row_linked same c d"
    and r: "find_role d c = Some r"
  shows "set (get_role_permissions d (role_id r)) = set (ROLE_PERMISSIONS c)"
proof
  have rc: "role_role_code r = c" "r \<in> set (roles d)"
    using r by (auto simp: find_role_def find_Some_iff)
  have pok: "perms_ok d" and rok: "roles_ok d" using ok by (auto simp: matrix_ok_def)
  show "set (get_role_permissions d (role_id r)) \<subseteq> set (ROLE_PERMISSIONS c)"
  proof
    fix x assume "x \<in> set (get_role_permissions d (role_id r))"
    then obtain l p where l: "l \<in> set (role_permissions d)" "rp_role_id l = role_id r"
      and p: "p \<in> set (permissions d)" "perm_id p = rp_permission_id l" "perm_code p = x"
      by (auto simp: get_role_permissions_def)
    obtain q w where q: "find_role d (role_role_code q) = Some q" "role_id q = rp_role_id l"
      and w: "w \<in> set (permissions d)" "perm_id w = rp_permission_id l"
        "perm_code w \<in> set (ROLE_PERMISSIONS (role_role_code q))"
      using ok l(1) unfolding matrix_ok_def link_ok_def list_all_iff by blast
    have "q \<in> set (roles d)" using q(1) by (auto simp: find_role_def find_Some_iff)
    then have "q = r" using role_id_inj[OF rok _ rc(2)] q(2) l(2) by simp
    moreover have "w = p" using perm_id_inj[OF pok w(1) p(1)] w(2) p(2) by simp
    ultimately show "x \<in> set (ROLE_PERMISSIONS c)" using w(3) p(3) rc(1) by simp
  qed
  show "set (ROLE_PERMISSIONS c) \<subseteq> set (get_role_permissions d (role_id r))"
  proof
    fix x assume x: "x \<in> set (ROLE_PERMISSIONS c)"
    then obtain p where p: "find_perm same d x = Some p"
      and l: "perm_id p \<in> set (role_permission_ids d (role_id r))"
      using row r unfolding row_linked_def linked_def by auto
    have "x \<in> set ALL_PERM_CODES" using x role_permissions_known by blast
    from find_perm_code[OF sep pok this p] l
    show "x \<in> set (get_role_permissions d (role_id r))"
      by (auto simp: get_role_permissions_def role_permission_ids_def)
  qed
qed

lemma keys_kept:
  assumes "\<forall>x\<in>set es. fst x \<in> fst ` set ks" and "set ks \<subseteq> set ks'"
  shows "fst ` set es \<subseteq> fst ` set ks'"
  using assms by blast

lemma users_kept:
  "rfold (seed_department same label) es st = Inr a \<Longrightarrow> users (sr_db a) = users (sr_db st)"
  "rfold (seed_permission same label) ps st = Inr b \<Longrightarrow> users (sr_db b) = users (sr_db st)"
  "rfold (seed_role rlabel) cs st = Inr c \<Longrightarrow> users (sr_db c) = users (sr_db st)"
  by (erule rfold_rel[where R = "\<lambda>x y. users (sr_db y) = users (sr_db x)"];
      force simp: seed_department_def insert_dept_def seed_permission_def insert_perm_def
        seed_role_def insert_role_def split: option.splits if_splits)+

lemma seed_fresh:
  assumes fresh: "fresh_identity d" and sep: "separates same"
  shows "\<exists>stats d'. seed same label rlabel hash d = Inr (stats, d') \<and> matrix_ok d'"
proof -
  have refl: "\<And>x. same x x" using sep by (simp add: separates_def)
  define st0 where "st0 = \<lparr>sr_depts = [], sr_perms = [], sr_roles = [], sr_stats = no_stats, sr_db = d\<rparr>"
  have s0: "seeding same st0"
    using fresh by (simp add: st0_def seeding_def dicts_ok_def matrix_ok_def perms_ok_def roles_ok_def
        fresh_identity_def)
  obtain a where a: "rfold (seed_department same label) DEPARTMENTS st0 = Inr a" "seeding same a"
    using quiet_loop[of DEPARTMENTS "seeding same" "seed_department same label" st0]
      department_total[OF _ sep] s0 by blast
  obtain b where b: "rfold (seed_permission same label) PERMISSIONS a = Inr b" "seeding same b"
    using quiet_loop[of PERMISSIONS "seeding same" "seed_permission same label" a]
      permission_total[OF _ sep] a(2) by blast
  obtain c where c: "rfold (seed_role rlabel) ROLES b = Inr c" "seeding same c"
    using quiet_loop[of ROLES "seeding same" "seed_role rlabel" b] role_total b(2) by blast
  have A: "run_le st0 a \<and> dicts_ok same a \<and> (\<forall>x\<in>set DEPARTMENTS. fst x \<in> fst ` set (sr_depts a))"
    by (rule loop_goals[OF a(1)])
      (use s0 seed_department_step refl in \<open>auto simp: run_le_def seeding_def\<close>)
  have B: "run_le a b \<and> dicts_ok same b \<and> (\<forall>x\<in>set PERMISSIONS. fst x \<in> fst ` set (sr_perms b))"
    by (rule loop_goals[OF b(1)])
      (use a(2) seed_permission_step refl in \<open>auto simp: run_le_def seeding_def\<close>)
  have C: "run_le b c \<and> dicts_ok same c \<and> (\<forall>x\<in>set ROLES. x \<in> fst ` set (sr_roles c))"
    by (rule loop_goals[OF c(1)]) (use b(2) seed_role_step in \<open>auto simp: run_le_def seeding_def\<close>)
  define P where "P st \<longleftrightarrow> seeding same st \<and> sr_perms st = sr_perms c \<and> sr_roles st = sr_roles c
    \<and> sr_depts st = sr_depts c \<and> users (sr_db st) = users (sr_db c)" for st
  have known: "set ALL_PERM_CODES \<subseteq> fst ` set (sr_perms c)"
    using keys_kept[of PERMISSIONS "sr_perms b" "sr_perms c"] B C
    by (auto simp: ALL_PERM_CODES_def run_le_def)
  have "\<exists>y. seed_matrix_row x st = Inr y \<and> P y" if "x \<in> set ROLES" "P st" for x st
  proof -
    have "x \<in> fst ` set (sr_roles st)" "set ALL_PERM_CODES \<subseteq> fst ` set (sr_perms st)"
      using that C known by (auto simp: P_def)
    with matrix_row_total[of same st x] that(2) sep
    have "\<exists>y. seed_matrix_row x st = Inr y \<and> seeding same y" unfolding P_def by blast
    then show ?thesis using seed_matrix_row_dicts[of x st] that(2) by (auto simp: P_def)
  qed
  then obtain e where e: "rfold seed_matrix_row ROLES c = Inr e" "P e"
    using quiet_loop[of ROLES P seed_matrix_row c] c(2) unfolding P_def by blast
  have "fst ` set DEPARTMENTS \<subseteq> fst ` set (sr_depts c)"
    using keys_kept[of DEPARTMENTS "sr_depts a" "sr_depts c"] A B C by (auto simp: run_le_def)
  moreover have "users (sr_db c) = []"
    using users_kept(1)[OF a(1)] users_kept(2)[OF b(1)] users_kept(3)[OF c(1)] fresh
    by (simp add: st0_def fresh_identity_def)
  ultimately have "staffed same e" using e(2) C unfolding staffed_def P_def by auto
  then obtain f where f: "rfold (seed_user same label hash) DEMO_USERS e = Inr f" "staffed same f"
    using quiet_loop[of DEMO_USERS "staffed same" "seed_user same label hash" e]
      user_total[OF _ sep] by blast
  have F: "run_le e f \<and> dicts_ok same f \<and> (\<forall>x\<in>set DEMO_USERS. find_user same (sr_db f) (fst x) \<noteq> None)"
    by (rule loop_goals[OF f(1)])
      (use e(2) seed_user_step refl in \<open>auto simp: run_le_def P_def seeding_def dest: find_adds(4)\<close>)
  obtain m where m: "DEPARTMENT_MANAGERS = [m]" by (simp add: DEPARTMENT_MANAGERS_def)
  have "m \<in> set DEPARTMENT_MANAGERS" by (simp add: m)
  then obtain g where g: "seed_manager m f = Inr g" "matrix_ok (sr_db g)"
    using manager_total[OF f(2) sep] F by blast
  have "rfold seed_manager DEPARTMENT_MANAGERS f = Inr g" unfolding m using g(1) by simp
  then show ?thesis
    using a(1) b(1) c(1) e(1) f(1) g(2) unfolding seed_def st0_def[symmetric] by simp
qed

end
