(* ===== verification/Seed_Correct.thy ===== *)
theory Seed_Correct
  imports Seed_Matrix Example
begin

text \<open>The properties of the bootstrap script, with their witnesses.\<close>

definition ex_fresh :: db where
  "ex_fresh = ex_empty\<lparr>permissions := [], roles := [], role_permissions := [], users := []\<rparr>"

lemma ex_fresh_identity: "fresh_identity ex_fresh"
  by (simp add: fresh_identity_def ex_fresh_def)

lemma separates_eq: "separates (=)"
  by (simp add: separates_def)

text \<open>
  C33: Running the seed again changes nothing.  After a run that committed, every
  row that was there before is there unchanged and in its place, and a second run
  commits with all its counters at zero and the same database.
\<close>

theorem seed_idempotent:
  assumes "\<And>x. same x x" and "seed same label rlabel hash d = Inr (stats, d')"
  shows "seed same label rlabel hash d' = Inr (no_stats, d') \<and> adds_rows d d'"
  using seed_complete[OF assms(2,1)] seed_seeded assms(1) by blast

theorem seed_idempotent_witness:
  "\<exists>stats d'. seed (=) id (\<lambda>c. ([], [])) id ex_fresh = Inr (stats, d')
    \<and> seed (=) id (\<lambda>c. ([], [])) id d' = Inr (no_stats, d')"
proof -
  obtain stats d' where "seed (=) id (\<lambda>c. ([], [])) id ex_fresh = Inr (stats, d')"
    using seed_fresh[OF ex_fresh_identity separates_eq] by blast
  with seed_idempotent[OF refl this] show ?thesis by blast
qed

text \<open>
  C34: A database whose identity tables are empty can always be seeded, and then
  the permissions of each role are exactly its row of the matrix; so only the
  administrator can both submit and approve a stock count, both confirm an order
  and post its receipt, or override the ban on approving one's own count.
\<close>

theorem seed_installs_matrix:
  assumes "fresh_identity d" and "separates same"
  shows "\<exists>stats d'. seed same label rlabel hash d = Inr (stats, d')
    \<and> (\<forall>c. \<exists>r. find_role d' c = Some r
         \<and> set (get_role_permissions d' (role_id r)) = set (ROLE_PERMISSIONS c)
         \<and> (c = ROLE_ADMIN
            \<or> \<not> {''reconcile:submit'', ''reconcile:approve''} \<subseteq> set (get_role_permissions d' (role_id r))
              \<and> \<not> {''po:confirm'', ''receipt:create''} \<subseteq> set (get_role_permissions d' (role_id r))
              \<and> ''reconcile:self_approve_override'' \<notin> set (get_role_permissions d' (role_id r))))"
proof -
  obtain stats d' where s: "seed same label rlabel hash d = Inr (stats, d')" and ok: "matrix_ok d'"
    using seed_fresh[OF assms] by blast
  have "seeded same d'" using seed_complete[OF s] assms(2) by (simp add: separates_def)
  have duties: "c = ROLE_ADMIN
      \<or> \<not> {''reconcile:submit'', ''reconcile:approve''} \<subseteq> set (ROLE_PERMISSIONS c)
        \<and> \<not> {''po:confirm'', ''receipt:create''} \<subseteq> set (ROLE_PERMISSIONS c)
        \<and> ''reconcile:self_approve_override'' \<notin> set (ROLE_PERMISSIONS c)" for c
    by (cases c) simp_all
  have "\<exists>r. find_role d' c = Some r
      \<and> set (get_role_permissions d' (role_id r)) = set (ROLE_PERMISSIONS c)" for c
  proof -
    have "c \<in> set ROLES" by (cases c) (simp_all add: ROLES_def)
    then have row: "row_linked same c d'" using \<open>seeded same d'\<close> by (simp add: seeded_def)
    then obtain r where "find_role d' c = Some r" by (auto simp: row_linked_def)
    then show ?thesis using matrix_exact[OF ok assms(2) row] by blast
  qed
  then show ?thesis using s duties by metis
qed

theorem seed_installs_matrix_witness:
  "fresh_identity ex_fresh \<and> separates (=) \<and>
    (\<exists>stats d'. seed (=) id (\<lambda>c. ([], [])) id ex_fresh = Inr (stats, d')
      \<and> (\<exists>r. find_role d' ROLE_WAREHOUSE = Some r
          \<and> ''receipt:create'' \<in> set (get_role_permissions d' (role_id r))))"
proof -
  obtain stats d' r where "seed (=) id (\<lambda>c. ([], [])) id ex_fresh = Inr (stats, d')"
    and "find_role d' ROLE_WAREHOUSE = Some r"
    and "set (get_role_permissions d' (role_id r)) = set (ROLE_PERMISSIONS ROLE_WAREHOUSE)"
    using seed_installs_matrix[OF ex_fresh_identity separates_eq] by metis
  then show ?thesis using ex_fresh_identity separates_eq by force
qed

end
