(* ===== verification/Inventory.thy ===== *)
theory Inventory
  imports Numbering AuditLog "HOL-Library.Product_Lexorder"
begin

text \<open>
  The inventory core (\<^verbatim>\<open>app/services/inventory_service.py\<close>): the append-only
  ledger \<^verbatim>\<open>inventory_transactions\<close> and the balance snapshot
  \<^verbatim>\<open>inventory_balances\<close>, with the moving-average cost.

  A balance row is read only after \<^verbatim>\<open>lock_balances\<close> has locked it exclusively, so
  the session's object and the live row are the same; the operations below take
  the key of the row, as the callers hold their locks by key.
\<close>

type_synonym balance_key = "nat \<times> nat"

section \<open>Operations\<close>

record balance_delta =
  bd_quantity :: decimal
  bd_amount :: decimal

definition balance_delta_init :: balance_delta where
  "balance_delta_init = \<lparr>bd_quantity = 0, bd_amount = 0\<rparr>"

definition sort_keys :: "balance_key list \<Rightarrow> balance_key list" where
  "sort_keys ks = sort (remdups ks)"

definition key_of_balance :: "inventory_balance \<Rightarrow> balance_key" where
  "key_of_balance b = (ib_warehouse_id b, ib_material_id b)"

definition balance_row :: "balance_key \<Rightarrow> db \<Rightarrow> inventory_balance option" where
  "balance_row k d = row_by key_of_balance k (inventory_balances d)"

text \<open>The upsert creates an empty row on first use and otherwise locks the row.\<close>

definition lock_balance :: "balance_key \<Rightarrow> db \<Rightarrow> db" where
  "lock_balance k d =
    (case balance_row k d of
       Some b \<Rightarrow> d
     | None \<Rightarrow> d\<lparr>inventory_balances := inventory_balances d @
                 [\<lparr>ib_id = auto_inc d T_inventory_balances,
                   ib_warehouse_id = fst k, ib_material_id = snd k,
                   ib_quantity = 0, ib_total_amount = 0, ib_average_unit_cost = 0,
                   ib_version = 0, ib_last_transaction_at = None\<rparr>],
               auto_inc := (auto_inc d)
                 (T_inventory_balances := Suc (auto_inc d T_inventory_balances))\<rparr>)"

definition lock_balances :: "balance_key list \<Rightarrow> db \<Rightarrow> balance_key list \<times> db" where
  "lock_balances ks d = (let ordered = sort_keys ks in (ordered, fold lock_balance ordered d))"

definition new_average :: "decimal \<Rightarrow> decimal \<Rightarrow> decimal" where
  "new_average total_amount quantity =
    (if quantity \<le> 0 then 0 else unit_cost (total_amount / quantity))"

text \<open>The flush of a changed balance object: UPDATE of its row, refused by the CHECKs.\<close>

definition save_balance :: "inventory_balance \<Rightarrow> db \<Rightarrow> error + db" where
  "save_balance b d =
    (if ib_checks b
     then Inr (d\<lparr>inventory_balances :=
        update_rows (\<lambda>x. key_of_balance x = key_of_balance b) (\<lambda>_. b) (inventory_balances d)\<rparr>)
     else Inl (DbError (CheckViolation ''inventory_balances'')))"

definition locked_balance :: "balance_key \<Rightarrow> db \<Rightarrow> error + inventory_balance" where
  "locked_balance k d = require (balance_row k d) (raise_class AppException)"

definition apply_inbound :: "balance_key \<Rightarrow> decimal \<Rightarrow> decimal \<Rightarrow> db \<Rightarrow> error + db" where
  "apply_inbound k quantity amount d =
    rbind (locked_balance k d) (\<lambda>balance.
      if quantity < 0 then Inl (raise_code ConflictException VALIDATION_ERROR)
      else
        let new_quantity = ib_quantity balance + quantity;
            new_total = money (ib_total_amount balance + amount)
        in if new_quantity < 0 \<or> new_total < 0
           then Inl (raise_code ConflictException INVENTORY_NEGATIVE)
           else save_balance (balance
             \<lparr>ib_quantity := new_quantity,
              ib_total_amount := new_total,
              ib_average_unit_cost := new_average new_total new_quantity,
              ib_version := ib_version balance + 1\<rparr>) d)"

definition apply_outbound :: "balance_key \<Rightarrow> decimal \<Rightarrow> decimal \<Rightarrow> db \<Rightarrow> error + db" where
  "apply_outbound k quantity amount d =
    rbind (locked_balance k d) (\<lambda>balance.
      if quantity \<le> 0 then Inl (raise_code ConflictException VALIDATION_ERROR)
      else
        let new_quantity = ib_quantity balance - quantity;
            new_total = money (ib_total_amount balance - amount)
        in if new_quantity < 0 then Inl (raise_code ConflictException INVENTORY_NEGATIVE)
           else if new_total < 0
           then Inl (raise_code ConflictException INVENTORY_BALANCE_MISMATCH)
           else save_balance (balance
             \<lparr>ib_quantity := new_quantity,
              ib_total_amount := new_total,
              ib_average_unit_cost := new_average new_total new_quantity,
              ib_version := ib_version balance + 1\<rparr>) d)"

text \<open>The callers then stamp the row: \<^verbatim>\<open>balance.last_transaction_at = ...\<close>.\<close>

definition touch_balance :: "balance_key \<Rightarrow> datetime \<Rightarrow> db \<Rightarrow> db" where
  "touch_balance k when d = d\<lparr>inventory_balances :=
    update_rows (\<lambda>x. key_of_balance x = k) (\<lambda>b. b\<lparr>ib_last_transaction_at := Some when\<rparr>)
      (inventory_balances d)\<rparr>"

definition next_txn_no :: "date \<Rightarrow> db \<Rightarrow> string \<times> db" where
  "next_txn_no when d =
    (let (seq, d') = next_sequence_value SEQ_INVENTORY_TRANSACTION when (Some when) d
     in (format_txn_no when seq, d'))"

text \<open>
  \<^verbatim>\<open>write_transaction\<close> takes the ledger row to append; its number and key are
  assigned here.
\<close>

definition write_transaction :: "inventory_transaction \<Rightarrow> db \<Rightarrow> error + db" where
  "write_transaction txn d =
    (let outbound = it_transaction_type txn \<in> set TXN_OUTBOUND_TYPES;
         quantity = it_quantity txn;
         amount = it_amount txn
     in if outbound \<and> 0 \<le> quantity then Inl (raise_code ConflictException VALIDATION_ERROR)
        else if \<not> outbound \<and> quantity \<le> 0 then Inl (raise_code ConflictException VALIDATION_ERROR)
        else if it_unit_cost txn < 0 then Inl (raise_code ConflictException VALIDATION_ERROR)
        else if (0 < quantity \<and> amount < 0) \<or> (quantity < 0 \<and> 0 < amount)
        then Inl (raise_code ConflictException VALIDATION_ERROR)
        else let (no, d') = next_txn_no (dt_date (it_transaction_at txn)) d
             in insert_it (txn\<lparr>it_txn_no := no\<rparr>) d')"

definition get_balance :: "nat \<Rightarrow> nat \<Rightarrow> db \<Rightarrow> error + inventory_balance" where
  "get_balance warehouse_id material_id d =
    require (balance_row (warehouse_id, material_id) d) (raise_code NotFoundException NOT_FOUND)"

section \<open>Ledger totals and the inventory invariant\<close>

definition key_of_txn :: "inventory_transaction \<Rightarrow> balance_key" where
  "key_of_txn t = (it_warehouse_id t, it_material_id t)"

definition ledger_quantity :: "db \<Rightarrow> balance_key \<Rightarrow> decimal" where
  "ledger_quantity d k = sum_over (\<lambda>t. key_of_txn t = k) it_quantity (inventory_transactions d)"

definition ledger_amount :: "db \<Rightarrow> balance_key \<Rightarrow> decimal" where
  "ledger_amount d k = sum_over (\<lambda>t. key_of_txn t = k) it_amount (inventory_transactions d)"

definition balance_quantity :: "db \<Rightarrow> balance_key \<Rightarrow> decimal" where
  "balance_quantity d k = (case balance_row k d of None \<Rightarrow> 0 | Some b \<Rightarrow> ib_quantity b)"

definition balance_amount :: "db \<Rightarrow> balance_key \<Rightarrow> decimal" where
  "balance_amount d k = (case balance_row k d of None \<Rightarrow> 0 | Some b \<Rightarrow> ib_total_amount b)"

text \<open>
  Well-formed stock tables: one balance row per key, every balance within its
  CHECKs with its amount in cents and its average derived from the totals, every
  ledger row within its CHECKs with its amount in cents.
\<close>

definition balance_ok :: "inventory_balance \<Rightarrow> bool" where
  "balance_ok b \<longleftrightarrow> ib_checks b \<and> on_grid 2 (ib_total_amount b)
    \<and> ib_average_unit_cost b = new_average (ib_total_amount b) (ib_quantity b)"

definition stock_ok :: "db \<Rightarrow> bool" where
  "stock_ok d \<longleftrightarrow> distinct (map key_of_balance (inventory_balances d))
    \<and> (\<forall>b\<in>set (inventory_balances d). balance_ok b)
    \<and> (\<forall>t\<in>set (inventory_transactions d). it_checks t \<and> on_grid 2 (it_amount t))"

text \<open>The ledger explains the balance: the reconciliation rule of the design.\<close>

definition reconciles :: "db \<Rightarrow> bool" where
  "reconciles d \<longleftrightarrow> (\<forall>k. ledger_quantity d k = balance_quantity d k)
    \<and> (\<forall>k. ledger_amount d k = balance_amount d k)"

section \<open>Locking\<close>

lemma sort_keys_props [simp]:
  "set (sort_keys ks) = set ks" "distinct (sort_keys ks)" "sorted (sort_keys ks)"
  by (simp_all add: sort_keys_def)

lemma balance_row_SomeD:
  "balance_row k d = Some b \<Longrightarrow> b \<in> set (inventory_balances d) \<and> key_of_balance b = k"
  by (auto simp: balance_row_def dest: row_by_SomeD)

lemma balance_row_cong:
  "inventory_balances d = inventory_balances d' \<Longrightarrow> balance_row k d = balance_row k d'"
  by (simp add: balance_row_def)

lemma lock_balance_frame:
  "\<exists>X Y. lock_balance k d = d\<lparr>inventory_balances := X, auto_inc := Y\<rparr>"
proof (cases "balance_row k d")
  case None
  then show ?thesis by (auto simp: lock_balance_def)
next
  case (Some b)
  then have "lock_balance k d = d\<lparr>inventory_balances := inventory_balances d, auto_inc := auto_inc d\<rparr>"
    by (simp add: lock_balance_def)
  then show ?thesis by blast
qed

lemma lock_balance_row:
  "balance_row k' (lock_balance k d) =
    (case balance_row k' d of
       Some b \<Rightarrow> Some b
     | None \<Rightarrow> if k' = k
         then Some \<lparr>ib_id = auto_inc d T_inventory_balances,
                   ib_warehouse_id = fst k, ib_material_id = snd k,
                   ib_quantity = 0, ib_total_amount = 0, ib_average_unit_cost = 0,
                   ib_version = 0, ib_last_transaction_at = None\<rparr>
         else None)"
  by (cases "balance_row k d")
    (auto simp: lock_balance_def balance_row_def row_by_append key_of_balance_def split: option.splits)

lemma lock_balance_quantity [simp]: "balance_quantity (lock_balance k d) k' = balance_quantity d k'"
  by (simp add: balance_quantity_def lock_balance_row split: option.splits)

lemma lock_balance_amount [simp]: "balance_amount (lock_balance k d) k' = balance_amount d k'"
  by (simp add: balance_amount_def lock_balance_row split: option.splits)

lemma lock_balance_txns [simp]: "inventory_transactions (lock_balance k d) = inventory_transactions d"
  using lock_balance_frame[of k d] by auto

lemma new_average_0 [simp]: "new_average x 0 = 0"
  by (simp add: new_average_def)

lemma new_average_nonneg: "0 \<le> t \<Longrightarrow> 0 \<le> new_average t q"
  by (simp add: new_average_def)

lemma lock_balance_stock_ok: "stock_ok d \<Longrightarrow> stock_ok (lock_balance k d)"
proof (cases "balance_row k d")
  case None
  assume ok: "stock_ok d"
  have "k \<notin> key_of_balance ` set (inventory_balances d)"
    using None by (simp add: balance_row_def row_by_None_iff)
  moreover have "balance_ok \<lparr>ib_id = i, ib_warehouse_id = fst k, ib_material_id = snd k,
       ib_quantity = 0, ib_total_amount = 0, ib_average_unit_cost = 0,
       ib_version = 0, ib_last_transaction_at = None\<rparr>" for i
    by (simp add: balance_ok_def ib_checks_def)
  ultimately show ?thesis
    using ok None by (auto simp: stock_ok_def lock_balance_def key_of_balance_def)
qed (simp add: lock_balance_def)

lemma fold_lock_balance_stock_ok: "stock_ok d \<Longrightarrow> stock_ok (fold lock_balance ks d)"
  by (induction ks arbitrary: d) (simp_all add: lock_balance_stock_ok)

lemma fold_lock_balance_quantity [simp]:
  "balance_quantity (fold lock_balance ks d) k = balance_quantity d k"
  by (induction ks arbitrary: d) simp_all

lemma fold_lock_balance_amount [simp]:
  "balance_amount (fold lock_balance ks d) k = balance_amount d k"
  by (induction ks arbitrary: d) simp_all

lemma fold_lock_balance_frame:
  "\<exists>X Y. fold lock_balance ks d = d\<lparr>inventory_balances := X, auto_inc := Y\<rparr>"
proof (induction ks arbitrary: d)
  case Nil
  have "fold lock_balance [] d = d\<lparr>inventory_balances := inventory_balances d, auto_inc := auto_inc d\<rparr>"
    by simp
  then show ?case by blast
next
  case (Cons k ks)
  obtain X Y where xy: "lock_balance k d = d\<lparr>inventory_balances := X, auto_inc := Y\<rparr>"
    using lock_balance_frame by blast
  obtain X' Y' where "fold lock_balance ks (lock_balance k d) =
      (lock_balance k d)\<lparr>inventory_balances := X', auto_inc := Y'\<rparr>"
    using Cons.IH by blast
  then have "fold lock_balance (k # ks) d = d\<lparr>inventory_balances := X', auto_inc := Y'\<rparr>"
    using xy by simp
  then show ?case by blast
qed

lemma fold_lock_balance_keeps:
  "balance_row k d = Some b \<Longrightarrow> balance_row k (fold lock_balance ks d) = Some b"
  by (induction ks arbitrary: d) (simp_all add: lock_balance_row)

lemma fold_lock_balance_locked:
  "k \<in> set ks \<Longrightarrow> balance_row k (fold lock_balance ks d) \<noteq> None"
proof (induction ks arbitrary: d)
  case (Cons k' ks)
  show ?case
  proof (cases "k = k'")
    case True
    then obtain b where "balance_row k (lock_balance k' d) = Some b"
      by (cases "balance_row k d") (auto simp: lock_balance_row)
    then show ?thesis using fold_lock_balance_keeps by fastforce
  next
    case False
    then show ?thesis using Cons by simp
  qed
qed simp

section \<open>Writing a balance\<close>

lemma save_balance_row:
  assumes "save_balance b d = Inr d'" "balance_row (key_of_balance b) d \<noteq> None"
  shows "balance_row k d' = (if k = key_of_balance b then Some b else balance_row k d)"
proof -
  have "d' = d\<lparr>inventory_balances :=
      update_rows (\<lambda>x. key_of_balance x = key_of_balance b) (\<lambda>_. b) (inventory_balances d)\<rparr>"
    using assms(1) by (simp add: save_balance_def split: if_splits)
  then have "balance_row k d' = map_option
      (\<lambda>x. if key_of_balance x = key_of_balance b then b else x) (balance_row k d)"
    by (simp add: balance_row_def row_by_update_rows)
  then show ?thesis
    using assms(2) balance_row_SomeD[of k d] by (cases "balance_row k d") auto
qed

lemma save_balance_frame:
  "save_balance b d = Inr d' \<Longrightarrow> \<exists>X. d' = d\<lparr>inventory_balances := X\<rparr>"
  by (auto simp: save_balance_def split: if_splits)

lemma save_balance_stock_ok:
  assumes "stock_ok d" "save_balance b d = Inr d'" "balance_ok b"
  shows "stock_ok d'"
proof -
  have d': "d' = d\<lparr>inventory_balances :=
      update_rows (\<lambda>x. key_of_balance x = key_of_balance b) (\<lambda>_. b) (inventory_balances d)\<rparr>"
    using assms(2) by (simp add: save_balance_def split: if_splits)
  have "map key_of_balance (inventory_balances d') = map key_of_balance (inventory_balances d)"
    using d' by (simp add: update_rows_def)
  then show ?thesis
    using assms d' by (auto simp: stock_ok_def set_update_rows)
qed

lemma apply_inbound_cases:
  assumes "apply_inbound k q a d = Inr d'"
  obtains b where "balance_row k d = Some b" "0 \<le> q"
    "0 \<le> ib_quantity b + q" "0 \<le> money (ib_total_amount b + a)"
    "save_balance (b\<lparr>ib_quantity := ib_quantity b + q,
              ib_total_amount := money (ib_total_amount b + a),
              ib_average_unit_cost := new_average (money (ib_total_amount b + a)) (ib_quantity b + q),
              ib_version := ib_version b + 1\<rparr>) d = Inr d'"
  using assms by (auto simp: apply_inbound_def locked_balance_def Let_def split: if_splits)

lemma apply_outbound_cases:
  assumes "apply_outbound k q a d = Inr d'"
  obtains b where "balance_row k d = Some b" "0 < q"
    "0 \<le> ib_quantity b - q" "0 \<le> money (ib_total_amount b - a)"
    "save_balance (b\<lparr>ib_quantity := ib_quantity b - q,
              ib_total_amount := money (ib_total_amount b - a),
              ib_average_unit_cost := new_average (money (ib_total_amount b - a)) (ib_quantity b - q),
              ib_version := ib_version b + 1\<rparr>) d = Inr d'"
  using assms by (auto simp: apply_outbound_def locked_balance_def Let_def split: if_splits)

lemma key_of_balance_update [simp]:
  "key_of_balance (b\<lparr>ib_quantity := q\<rparr>) = key_of_balance b"
  "key_of_balance (b\<lparr>ib_total_amount := a\<rparr>) = key_of_balance b"
  "key_of_balance (b\<lparr>ib_average_unit_cost := c\<rparr>) = key_of_balance b"
  "key_of_balance (b\<lparr>ib_version := v\<rparr>) = key_of_balance b"
  "key_of_balance (b\<lparr>ib_last_transaction_at := l\<rparr>) = key_of_balance b"
  by (simp_all add: key_of_balance_def)

lemma stock_ok_row: "stock_ok d \<Longrightarrow> balance_row k d = Some b \<Longrightarrow> balance_ok b"
  by (auto simp: stock_ok_def dest: balance_row_SomeD)

text \<open>The effect of a posting on the totals: exact, because all amounts are in cents.\<close>

lemma apply_inbound_effect:
  assumes "apply_inbound k q a d = Inr d'" "stock_ok d" "on_grid 2 a"
  shows "stock_ok d'"
    and "balance_quantity d' k' = balance_quantity d k' + (if k' = k then q else 0)"
    and "balance_amount d' k' = balance_amount d k' + (if k' = k then a else 0)"
    and "\<exists>X. d' = d\<lparr>inventory_balances := X\<rparr>"
    and "balance_row k' d' = None \<longleftrightarrow> balance_row k' d = None"
proof -
  from assms(1) obtain b where b: "balance_row k d = Some b" "0 \<le> q"
    "0 \<le> ib_quantity b + q" "0 \<le> money (ib_total_amount b + a)"
    and s: "save_balance (b\<lparr>ib_quantity := ib_quantity b + q,
              ib_total_amount := money (ib_total_amount b + a),
              ib_average_unit_cost := new_average (money (ib_total_amount b + a)) (ib_quantity b + q),
              ib_version := ib_version b + 1\<rparr>) d = Inr d'" (is "save_balance ?b d = _")
    by (rule apply_inbound_cases)
  have kb: "key_of_balance b = k" using b(1) balance_row_SomeD by blast
  have grid: "on_grid 2 (ib_total_amount b + a)"
    using stock_ok_row[OF assms(2) b(1)] assms(3) by (simp add: balance_ok_def grid)
  have "balance_ok ?b" using b by (simp add: balance_ok_def ib_checks_def new_average_nonneg)
  then show "stock_ok d'" using save_balance_stock_ok[OF assms(2) s] by blast
  have row: "balance_row k' d' = (if k' = k then Some ?b else balance_row k' d)" for k'
    using save_balance_row[OF s] b(1) kb by simp
  show "balance_quantity d' k' = balance_quantity d k' + (if k' = k then q else 0)"
    using b(1) by (simp add: balance_quantity_def row)
  show "balance_amount d' k' = balance_amount d k' + (if k' = k then a else 0)"
    using b(1) grid by (simp add: balance_amount_def row)
  show "\<exists>X. d' = d\<lparr>inventory_balances := X\<rparr>" using save_balance_frame[OF s] .
  show "balance_row k' d' = None \<longleftrightarrow> balance_row k' d = None" using b(1) row by simp
qed

lemma apply_outbound_effect:
  assumes "apply_outbound k q a d = Inr d'" "stock_ok d" "on_grid 2 a"
  shows "stock_ok d'"
    and "balance_quantity d' k' = balance_quantity d k' - (if k' = k then q else 0)"
    and "balance_amount d' k' = balance_amount d k' - (if k' = k then a else 0)"
    and "\<exists>X. d' = d\<lparr>inventory_balances := X\<rparr>"
    and "balance_row k' d' = None \<longleftrightarrow> balance_row k' d = None"
proof -
  from assms(1) obtain b where b: "balance_row k d = Some b" "0 < q"
    "0 \<le> ib_quantity b - q" "0 \<le> money (ib_total_amount b - a)"
    and s: "save_balance (b\<lparr>ib_quantity := ib_quantity b - q,
              ib_total_amount := money (ib_total_amount b - a),
              ib_average_unit_cost := new_average (money (ib_total_amount b - a)) (ib_quantity b - q),
              ib_version := ib_version b + 1\<rparr>) d = Inr d'" (is "save_balance ?b d = _")
    by (rule apply_outbound_cases)
  have kb: "key_of_balance b = k" using b(1) balance_row_SomeD by blast
  have grid: "on_grid 2 (ib_total_amount b - a)"
    using stock_ok_row[OF assms(2) b(1)] assms(3) by (simp add: balance_ok_def grid)
  have "balance_ok ?b" using b by (simp add: balance_ok_def ib_checks_def new_average_nonneg)
  then show "stock_ok d'" using save_balance_stock_ok[OF assms(2) s] by blast
  have row: "balance_row k' d' = (if k' = k then Some ?b else balance_row k' d)" for k'
    using save_balance_row[OF s] b(1) kb by simp
  show "balance_quantity d' k' = balance_quantity d k' - (if k' = k then q else 0)"
    using b(1) by (simp add: balance_quantity_def row)
  show "balance_amount d' k' = balance_amount d k' - (if k' = k then a else 0)"
    using b(1) grid by (simp add: balance_amount_def row)
  show "\<exists>X. d' = d\<lparr>inventory_balances := X\<rparr>" using save_balance_frame[OF s] .
  show "balance_row k' d' = None \<longleftrightarrow> balance_row k' d = None" using b(1) row by simp
qed

lemma touch_balance_row:
  "balance_row k' (touch_balance k w d) =
    map_option (\<lambda>b. if k' = k then b\<lparr>ib_last_transaction_at := Some w\<rparr> else b) (balance_row k' d)"
proof -
  have "balance_row k' (touch_balance k w d) = map_option
      (\<lambda>b. if key_of_balance b = k then b\<lparr>ib_last_transaction_at := Some w\<rparr> else b) (balance_row k' d)"
    by (simp add: balance_row_def touch_balance_def row_by_update_rows)
  then show ?thesis by (cases "balance_row k' d") (auto dest: balance_row_SomeD)
qed

lemma touch_balance_quantity [simp]: "balance_quantity (touch_balance k w d) k' = balance_quantity d k'"
  by (simp add: balance_quantity_def touch_balance_row split: option.splits)

lemma touch_balance_amount [simp]: "balance_amount (touch_balance k w d) k' = balance_amount d k'"
  by (simp add: balance_amount_def touch_balance_row split: option.splits)

lemma touch_balance_locked [simp]:
  "balance_row k' (touch_balance k w d) = None \<longleftrightarrow> balance_row k' d = None"
  by (simp add: touch_balance_row)

lemma touch_balance_frame: "\<exists>X. touch_balance k w d = d\<lparr>inventory_balances := X\<rparr>"
  by (auto simp: touch_balance_def)

lemma touch_balance_stock_ok: "stock_ok d \<Longrightarrow> stock_ok (touch_balance k w d)"
proof -
  assume ok: "stock_ok d"
  have "map key_of_balance (inventory_balances (touch_balance k w d)) =
      map key_of_balance (inventory_balances d)"
    by (simp add: touch_balance_def map_update_rows_same)
  then show ?thesis
    using ok by (auto simp: stock_ok_def touch_balance_def set_update_rows balance_ok_def ib_checks_def)
qed

section \<open>Appending to the ledger\<close>

lemma next_txn_no_frame:
  assumes "next_txn_no w d = (no, d')"
  shows "\<exists>X Y. d' = d\<lparr>number_sequences := X, auto_inc := Y\<rparr>"
  using assms next_sequence_value_frame by (auto simp: next_txn_no_def split: prod.splits)

definition signs_ok :: "inventory_transaction \<Rightarrow> bool" where
  "signs_ok t \<longleftrightarrow>
    (if it_transaction_type t \<in> set TXN_OUTBOUND_TYPES
     then it_quantity t < 0 \<and> it_amount t \<le> 0 else 0 < it_quantity t \<and> 0 \<le> it_amount t)
    \<and> 0 \<le> it_unit_cost t"

text \<open>
  The guards of \<^verbatim>\<open>write_transaction\<close> are exactly the CHECK constraint
  \<^verbatim>\<open>it_sign\<close>: the database never has to refuse what the service let through.
\<close>

lemma signs_ok_iff_checks: "signs_ok t \<longleftrightarrow> it_checks t"
  by (cases "it_transaction_type t") (auto simp: signs_ok_def it_checks_def TXN_OUTBOUND_TYPES_def)

lemma write_transaction_cases:
  assumes "write_transaction txn d = Inr d'"
  obtains no X Y where "it_checks txn"
    "d' = d\<lparr>inventory_transactions := inventory_transactions d @
        [txn\<lparr>it_txn_no := no, it_id := auto_inc d T_inventory_transactions\<rparr>],
      number_sequences := X, auto_inc := Y\<rparr>"
proof -
  obtain no d1 where n: "next_txn_no (dt_date (it_transaction_at txn)) d = (no, d1)"
    by fastforce
  obtain X Y where d1: "d1 = d\<lparr>number_sequences := X, auto_inc := Y\<rparr>"
    using next_txn_no_frame[OF n] by blast
  have ai: "auto_inc d1 T_inventory_transactions = auto_inc d T_inventory_transactions"
    using n by (auto simp: next_txn_no_def next_sequence_value_def upsert_sequence_def Let_def)
  have chk: "it_checks txn"
    using assms by (auto simp: signs_ok_iff_checks[symmetric] signs_ok_def write_transaction_def Let_def
        split: if_splits)
  have ins: "insert_it (txn\<lparr>it_txn_no := no\<rparr>) d1 = Inr d'"
    using assms n by (auto simp: write_transaction_def Let_def split: if_splits)
  show ?thesis
    by (rule that[OF chk, where no = no and X = X and Y = "(auto_inc d1)
          (T_inventory_transactions := Suc (auto_inc d1 T_inventory_transactions))"])
      (use ins ai d1 in \<open>auto simp: insert_it_def split: if_splits\<close>)
qed

lemma write_transaction_effect:
  assumes "write_transaction txn d = Inr d'"
  shows "ledger_quantity d' k = ledger_quantity d k + (if k = key_of_txn txn then it_quantity txn else 0)"
    and "ledger_amount d' k = ledger_amount d k + (if k = key_of_txn txn then it_amount txn else 0)"
    and "inventory_balances d' = inventory_balances d"
    and "stock_ok d \<Longrightarrow> on_grid 2 (it_amount txn) \<Longrightarrow> stock_ok d'"
    and "\<exists>X Y Z. d' = d\<lparr>inventory_transactions := X, number_sequences := Y, auto_inc := Z\<rparr>"
  using assms
  by (auto elim!: write_transaction_cases
      simp: ledger_quantity_def ledger_amount_def key_of_txn_def stock_ok_def it_checks_def)

text \<open>The ledger is append-only, and its keys grow.\<close>

definition ledger_prefix :: "db \<Rightarrow> db \<Rightarrow> bool" where
  "ledger_prefix d d' \<longleftrightarrow> take (length (inventory_transactions d)) (inventory_transactions d') =
    inventory_transactions d"

lemma ledger_prefix_refl [simp]: "ledger_prefix d d"
  by (simp add: ledger_prefix_def)

lemma ledger_prefix_iff:
  "ledger_prefix d d' \<longleftrightarrow> (\<exists>ts. inventory_transactions d' = inventory_transactions d @ ts)"
  by (metis append_eq_conv_conj append_take_drop_id ledger_prefix_def)

lemma ledger_prefix_trans: "ledger_prefix a b \<Longrightarrow> ledger_prefix b c \<Longrightarrow> ledger_prefix a c"
  by (auto simp: ledger_prefix_iff)

lemma ledger_prefix_same:
  "inventory_transactions d' = inventory_transactions d \<Longrightarrow> ledger_prefix d d'"
  by (simp add: ledger_prefix_def)

lemma write_transaction_prefix: "write_transaction txn d = Inr d' \<Longrightarrow> ledger_prefix d d'"
  by (auto elim!: write_transaction_cases simp: ledger_prefix_iff)

text \<open>\<^verbatim>\<open>reconciles\<close> computes: only keys that occur in the tables matter.\<close>

definition stock_keys :: "db \<Rightarrow> balance_key list" where
  "stock_keys d = remdups (map key_of_balance (inventory_balances d) @
    map key_of_txn (inventory_transactions d))"

lemma reconciles_code [code]:
  "reconciles d = list_all (\<lambda>k. ledger_quantity d k = balance_quantity d k
    \<and> ledger_amount d k = balance_amount d k) (stock_keys d)"
proof -
  have "ledger_quantity d k = 0 \<and> ledger_amount d k = 0 \<and> balance_quantity d k = 0 \<and> balance_amount d k = 0"
    if "k \<notin> set (stock_keys d)" for k
  proof -
    have "balance_row k d = None"
      using that by (simp add: balance_row_def row_by_None_iff stock_keys_def)
    moreover have "key_of_txn t \<noteq> k" if "t \<in> set (inventory_transactions d)" for t
      using that \<open>k \<notin> _\<close> by (auto simp: stock_keys_def)
    ultimately show ?thesis
      by (simp add: ledger_quantity_def ledger_amount_def sum_over_none balance_quantity_def
          balance_amount_def)
  qed
  then show ?thesis unfolding reconciles_def list_all_iff by metis
qed

end
