(* ===== verification/Masterdata.thy ===== *)
theory Masterdata
  imports Session Inventory
begin

text \<open>
  Master data: materials, suppliers, warehouses and stock policies
  (\<^verbatim>\<open>app/services/material_service.py\<close>, \<^verbatim>\<open>supplier_service.py\<close>,
  \<^verbatim>\<open>warehouse_service.py\<close>, \<^verbatim>\<open>inventory_policy_service.py\<close> and their schemas).

  Every handler gets the snapshot \<^verbatim>\<open>s\<close> that its SELECTs read and the live state \<^verbatim>\<open>d\<close>
  that it changes.  The user name for the audit log is an optional argument, as
  in the code.  \<^verbatim>\<open>same\<close> is the equality of text under the collation of the database.
\<close>

section \<open>Materials (app/services/material_service.py)\<close>

record material_create =
  mc_material_name :: string
  mc_category :: "string option"
  mc_specification :: "string option"
  mc_unit :: string
  mc_remark :: "string option"

record material_update =
  mu_material_name :: "string option"
  mu_category :: "string option"
  mu_specification :: "string option"
  mu_unit :: "string option"
  mu_remark :: "string option"

definition valid_material_create :: "material_create \<Rightarrow> bool" where
  "valid_material_create x \<longleftrightarrow> text_len 1 128 (mc_material_name x)
    \<and> opt_len 0 64 (mc_category x)
    \<and> opt_len 0 128 (mc_specification x)
    \<and> text_len 1 16 (mc_unit x)
    \<and> opt_len 0 255 (mc_remark x)"

definition valid_material_update :: "material_update \<Rightarrow> bool" where
  "valid_material_update x \<longleftrightarrow> opt_len 1 128 (mu_material_name x)
    \<and> opt_len 0 64 (mu_category x)
    \<and> opt_len 0 128 (mu_specification x)
    \<and> opt_len 1 16 (mu_unit x)
    \<and> opt_len 0 255 (mu_remark x)"

definition load_material :: "nat \<Rightarrow> db \<Rightarrow> error + material" where
  "load_material i s = require (get_mat s i) (raise_code NotFoundException NOT_FOUND)"

definition material_audit ::
    "request_ctx \<Rightarrow> audit_action \<Rightarrow> string option \<Rightarrow> nat \<Rightarrow> db \<Rightarrow> db" where
  "material_audit ctx action username i d =
    write_audit ctx action ''material'' None username (Some ''material'') (Some i) None d"

definition merge_material :: "material \<Rightarrow> material \<Rightarrow> material \<Rightarrow> material" where
  "merge_material old new cur = cur
    \<lparr>mat_material_name := write_col (mat_material_name old) (mat_material_name new) (mat_material_name cur),
     mat_category := write_col (mat_category old) (mat_category new) (mat_category cur),
     mat_specification := write_col (mat_specification old) (mat_specification new) (mat_specification cur),
     mat_unit := write_col (mat_unit old) (mat_unit new) (mat_unit cur),
     mat_remark := write_col (mat_remark old) (mat_remark new) (mat_remark cur),
     mat_status := write_col (mat_status old) (mat_status new) (mat_status cur)\<rparr>"

definition flush_material :: "material \<Rightarrow> material \<Rightarrow> db \<Rightarrow> error + db" where
  "flush_material old new d =
    rbind (flush_row mat_id merge_material old new (materials d)) (\<lambda>rows. Inr (d\<lparr>materials := rows\<rparr>))"

definition create_material ::
    "request_ctx \<Rightarrow> string option \<Rightarrow> material_create \<Rightarrow> db \<Rightarrow> error + db" where
  "create_material ctx username data d =
    (let (code, d1) = next_code SEQ_MATERIAL ''MAT'' (rq_today ctx) d;
         row = \<lparr>mat_id = 0, mat_material_code = code,
           mat_material_name = mc_material_name data,
           mat_category = mc_category data,
           mat_specification = mc_specification data,
           mat_unit = mc_unit data,
           mat_status = ST_ACTIVE,
           mat_remark = mc_remark data,
           mat_created_by = None,
           mat_updated_by = None\<rparr>
     in rbind (insert_mat row d1) (\<lambda>d2.
        Inr (material_audit ctx MATERIAL_CREATE username (auto_inc d1 T_materials) d2)))"

definition update_material ::
    "request_ctx \<Rightarrow> string option \<Rightarrow> nat \<Rightarrow> material_update \<Rightarrow> db \<Rightarrow> db \<Rightarrow> error + db" where
  "update_material ctx username i data s d =
    rbind (load_material i s) (\<lambda>m.
    let m' = m\<lparr>mat_material_name := given (mu_material_name data) (mat_material_name m),
          mat_category := given_opt (mu_category data) (mat_category m),
          mat_specification := given_opt (mu_specification data) (mat_specification m),
          mat_unit := given (mu_unit data) (mat_unit m),
          mat_remark := given_opt (mu_remark data) (mat_remark m)\<rparr>
    in rbind (flush_material m m' d) (\<lambda>d1.
       Inr (material_audit ctx MATERIAL_UPDATE username (mat_id m) d1)))"

definition disable_material ::
    "request_ctx \<Rightarrow> string option \<Rightarrow> nat \<Rightarrow> db \<Rightarrow> db \<Rightarrow> error + db" where
  "disable_material ctx username i s d =
    rbind (load_material i s) (\<lambda>m.
    rbind (flush_material m (m\<lparr>mat_status := ST_DISABLED\<rparr>) d) (\<lambda>d1.
    Inr (material_audit ctx MATERIAL_DISABLE username (mat_id m) d1)))"

definition enable_material ::
    "request_ctx \<Rightarrow> string option \<Rightarrow> nat \<Rightarrow> db \<Rightarrow> db \<Rightarrow> error + db" where
  "enable_material ctx username i s d =
    rbind (load_material i s) (\<lambda>m.
    rbind (flush_material m (m\<lparr>mat_status := ST_ACTIVE\<rparr>) d) (\<lambda>d1.
    Inr (material_audit ctx MATERIAL_ENABLE username (mat_id m) d1)))"

record material_filter =
  mf_code :: "string option"
  mf_name :: "string option"
  mf_category :: "string option"
  mf_status :: "active_status option"

definition material_matches ::
    "(string \<Rightarrow> string \<Rightarrow> bool) \<Rightarrow> (string \<Rightarrow> string \<Rightarrow> bool) \<Rightarrow> material_filter \<Rightarrow> material \<Rightarrow> bool" where
  "material_matches same contains f r \<longleftrightarrow>
     text_cond (\<lambda>x. contains x (mat_material_code r)) (mf_code f)
   \<and> text_cond (\<lambda>x. contains x (mat_material_name r)) (mf_name f)
   \<and> text_cond (\<lambda>x. case mat_category r of None \<Rightarrow> False | Some c \<Rightarrow> same c x) (mf_category f)
   \<and> opt_cond (\<lambda>x. mat_status r = x) (mf_status f)"

definition list_materials ::
    "(string \<Rightarrow> string \<Rightarrow> bool) \<Rightarrow> (string \<Rightarrow> string \<Rightarrow> bool) \<Rightarrow> nat \<Rightarrow> nat \<Rightarrow> material_filter \<Rightarrow> db \<Rightarrow> material list \<times> nat" where
  "list_materials same contains page page_size f s =
    (let rows = filter (material_matches same contains f) (materials s)
     in (page_of page page_size (sort_key mat_id rows), length rows))"

section \<open>Suppliers (app/services/supplier_service.py)\<close>

record supplier_create =
  sc_supplier_name :: string
  sc_contact_person :: "string option"
  sc_phone :: "string option"
  sc_email :: "string option"
  sc_address :: "string option"
  sc_remark :: "string option"

record supplier_update =
  su_supplier_name :: "string option"
  su_contact_person :: "string option"
  su_phone :: "string option"
  su_email :: "string option"
  su_address :: "string option"
  su_remark :: "string option"

definition valid_supplier_create :: "supplier_create \<Rightarrow> bool" where
  "valid_supplier_create x \<longleftrightarrow> text_len 1 128 (sc_supplier_name x)
    \<and> opt_len 0 64 (sc_contact_person x)
    \<and> opt_len 0 32 (sc_phone x)
    \<and> opt_len 0 128 (sc_email x)
    \<and> opt_len 0 255 (sc_address x)
    \<and> opt_len 0 255 (sc_remark x)"

definition valid_supplier_update :: "supplier_update \<Rightarrow> bool" where
  "valid_supplier_update x \<longleftrightarrow> opt_len 1 128 (su_supplier_name x)
    \<and> opt_len 0 64 (su_contact_person x)
    \<and> opt_len 0 32 (su_phone x)
    \<and> opt_len 0 128 (su_email x)
    \<and> opt_len 0 255 (su_address x)
    \<and> opt_len 0 255 (su_remark x)"

definition load_supplier :: "nat \<Rightarrow> db \<Rightarrow> error + supplier" where
  "load_supplier i s = require (get_sup s i) (raise_code NotFoundException NOT_FOUND)"

definition supplier_audit ::
    "request_ctx \<Rightarrow> audit_action \<Rightarrow> string option \<Rightarrow> nat \<Rightarrow> db \<Rightarrow> db" where
  "supplier_audit ctx action username i d =
    write_audit ctx action ''supplier'' None username (Some ''supplier'') (Some i) None d"

definition merge_supplier :: "supplier \<Rightarrow> supplier \<Rightarrow> supplier \<Rightarrow> supplier" where
  "merge_supplier old new cur = cur
    \<lparr>sup_supplier_name := write_col (sup_supplier_name old) (sup_supplier_name new) (sup_supplier_name cur),
     sup_contact_person := write_col (sup_contact_person old) (sup_contact_person new) (sup_contact_person cur),
     sup_phone := write_col (sup_phone old) (sup_phone new) (sup_phone cur),
     sup_email := write_col (sup_email old) (sup_email new) (sup_email cur),
     sup_address := write_col (sup_address old) (sup_address new) (sup_address cur),
     sup_remark := write_col (sup_remark old) (sup_remark new) (sup_remark cur),
     sup_status := write_col (sup_status old) (sup_status new) (sup_status cur)\<rparr>"

definition flush_supplier :: "supplier \<Rightarrow> supplier \<Rightarrow> db \<Rightarrow> error + db" where
  "flush_supplier old new d =
    rbind (flush_row sup_id merge_supplier old new (suppliers d)) (\<lambda>rows. Inr (d\<lparr>suppliers := rows\<rparr>))"

definition create_supplier ::
    "request_ctx \<Rightarrow> string option \<Rightarrow> supplier_create \<Rightarrow> db \<Rightarrow> error + db" where
  "create_supplier ctx username data d =
    (let (code, d1) = next_code SEQ_SUPPLIER ''SUP'' (rq_today ctx) d;
         row = \<lparr>sup_id = 0, sup_supplier_code = code,
           sup_supplier_name = sc_supplier_name data,
           sup_contact_person = sc_contact_person data,
           sup_phone = sc_phone data,
           sup_email = sc_email data,
           sup_address = sc_address data,
           sup_status = ST_ACTIVE,
           sup_remark = sc_remark data,
           sup_created_by = None,
           sup_updated_by = None\<rparr>
     in rbind (insert_sup row d1) (\<lambda>d2.
        Inr (supplier_audit ctx SUPPLIER_CREATE username (auto_inc d1 T_suppliers) d2)))"

definition update_supplier ::
    "request_ctx \<Rightarrow> string option \<Rightarrow> nat \<Rightarrow> supplier_update \<Rightarrow> db \<Rightarrow> db \<Rightarrow> error + db" where
  "update_supplier ctx username i data s d =
    rbind (load_supplier i s) (\<lambda>m.
    let m' = m\<lparr>sup_supplier_name := given (su_supplier_name data) (sup_supplier_name m),
          sup_contact_person := given_opt (su_contact_person data) (sup_contact_person m),
          sup_phone := given_opt (su_phone data) (sup_phone m),
          sup_email := given_opt (su_email data) (sup_email m),
          sup_address := given_opt (su_address data) (sup_address m),
          sup_remark := given_opt (su_remark data) (sup_remark m)\<rparr>
    in rbind (flush_supplier m m' d) (\<lambda>d1.
       Inr (supplier_audit ctx SUPPLIER_UPDATE username (sup_id m) d1)))"

definition disable_supplier ::
    "request_ctx \<Rightarrow> string option \<Rightarrow> nat \<Rightarrow> db \<Rightarrow> db \<Rightarrow> error + db" where
  "disable_supplier ctx username i s d =
    rbind (load_supplier i s) (\<lambda>m.
    rbind (flush_supplier m (m\<lparr>sup_status := ST_DISABLED\<rparr>) d) (\<lambda>d1.
    Inr (supplier_audit ctx SUPPLIER_DISABLE username (sup_id m) d1)))"

definition enable_supplier ::
    "request_ctx \<Rightarrow> string option \<Rightarrow> nat \<Rightarrow> db \<Rightarrow> db \<Rightarrow> error + db" where
  "enable_supplier ctx username i s d =
    rbind (load_supplier i s) (\<lambda>m.
    rbind (flush_supplier m (m\<lparr>sup_status := ST_ACTIVE\<rparr>) d) (\<lambda>d1.
    Inr (supplier_audit ctx SUPPLIER_ENABLE username (sup_id m) d1)))"

record supplier_filter =
  sf_code :: "string option"
  sf_name :: "string option"
  sf_status :: "active_status option"

definition supplier_matches ::
    "(string \<Rightarrow> string \<Rightarrow> bool) \<Rightarrow> supplier_filter \<Rightarrow> supplier \<Rightarrow> bool" where
  "supplier_matches contains f r \<longleftrightarrow>
     text_cond (\<lambda>x. contains x (sup_supplier_code r)) (sf_code f)
   \<and> text_cond (\<lambda>x. contains x (sup_supplier_name r)) (sf_name f)
   \<and> opt_cond (\<lambda>x. sup_status r = x) (sf_status f)"

definition list_suppliers ::
    "(string \<Rightarrow> string \<Rightarrow> bool) \<Rightarrow> nat \<Rightarrow> nat \<Rightarrow> supplier_filter \<Rightarrow> db \<Rightarrow> supplier list \<times> nat" where
  "list_suppliers contains page page_size f s =
    (let rows = filter (supplier_matches contains f) (suppliers s)
     in (page_of page page_size (sort_key sup_id rows), length rows))"

section \<open>Warehouses (app/services/warehouse_service.py)\<close>

record warehouse_create =
  wc_warehouse_name :: string
  wc_remark :: "string option"

record warehouse_update =
  wu_warehouse_name :: "string option"
  wu_remark :: "string option"

definition valid_warehouse_create :: "warehouse_create \<Rightarrow> bool" where
  "valid_warehouse_create x \<longleftrightarrow> text_len 1 64 (wc_warehouse_name x)
    \<and> opt_len 0 255 (wc_remark x)"

definition valid_warehouse_update :: "warehouse_update \<Rightarrow> bool" where
  "valid_warehouse_update x \<longleftrightarrow> opt_len 1 64 (wu_warehouse_name x)
    \<and> opt_len 0 255 (wu_remark x)"

definition load_warehouse :: "nat \<Rightarrow> db \<Rightarrow> error + warehouse" where
  "load_warehouse i s = require (get_wh s i) (raise_code NotFoundException NOT_FOUND)"

definition warehouse_audit ::
    "request_ctx \<Rightarrow> audit_action \<Rightarrow> string option \<Rightarrow> nat \<Rightarrow> db \<Rightarrow> db" where
  "warehouse_audit ctx action username i d =
    write_audit ctx action ''warehouse'' None username (Some ''warehouse'') (Some i) None d"

definition merge_warehouse :: "warehouse \<Rightarrow> warehouse \<Rightarrow> warehouse \<Rightarrow> warehouse" where
  "merge_warehouse old new cur = cur
    \<lparr>wh_warehouse_name := write_col (wh_warehouse_name old) (wh_warehouse_name new) (wh_warehouse_name cur),
     wh_remark := write_col (wh_remark old) (wh_remark new) (wh_remark cur),
     wh_status := write_col (wh_status old) (wh_status new) (wh_status cur)\<rparr>"

definition flush_warehouse :: "warehouse \<Rightarrow> warehouse \<Rightarrow> db \<Rightarrow> error + db" where
  "flush_warehouse old new d =
    rbind (flush_row wh_id merge_warehouse old new (warehouses d)) (\<lambda>rows. Inr (d\<lparr>warehouses := rows\<rparr>))"

definition create_warehouse ::
    "request_ctx \<Rightarrow> string option \<Rightarrow> warehouse_create \<Rightarrow> db \<Rightarrow> error + db" where
  "create_warehouse ctx username data d =
    (let (code, d1) = next_code SEQ_WAREHOUSE ''WH'' (rq_today ctx) d;
         row = \<lparr>wh_id = 0, wh_warehouse_code = code,
           wh_warehouse_name = wc_warehouse_name data,
           wh_status = ST_ACTIVE,
           wh_remark = wc_remark data,
           wh_created_by = None,
           wh_updated_by = None\<rparr>
     in rbind (insert_wh row d1) (\<lambda>d2.
        Inr (warehouse_audit ctx WAREHOUSE_CREATE username (auto_inc d1 T_warehouses) d2)))"

definition update_warehouse ::
    "request_ctx \<Rightarrow> string option \<Rightarrow> nat \<Rightarrow> warehouse_update \<Rightarrow> db \<Rightarrow> db \<Rightarrow> error + db" where
  "update_warehouse ctx username i data s d =
    rbind (load_warehouse i s) (\<lambda>m.
    let m' = m\<lparr>wh_warehouse_name := given (wu_warehouse_name data) (wh_warehouse_name m),
          wh_remark := given_opt (wu_remark data) (wh_remark m)\<rparr>
    in rbind (flush_warehouse m m' d) (\<lambda>d1.
       Inr (warehouse_audit ctx WAREHOUSE_UPDATE username (wh_id m) d1)))"

text \<open>\<^verbatim>\<open>_assert_no_stock\<close>\<close>

definition assert_no_stock :: "db \<Rightarrow> nat \<Rightarrow> error + unit" where
  "assert_no_stock s i =
    check (\<not> 0 < length (filter (\<lambda>b. ib_warehouse_id b = i \<and> ib_quantity b \<noteq> 0)
        (inventory_balances s)))
      (raise_code ConflictException WAREHOUSE_HAS_STOCK)"

definition disable_warehouse ::
    "request_ctx \<Rightarrow> string option \<Rightarrow> nat \<Rightarrow> db \<Rightarrow> db \<Rightarrow> error + db" where
  "disable_warehouse ctx username i s d =
    rbind (load_warehouse i s) (\<lambda>m.
    rbind (assert_no_stock s i) (\<lambda>_.
    rbind (flush_warehouse m (m\<lparr>wh_status := ST_DISABLED\<rparr>) d) (\<lambda>d1.
    Inr (warehouse_audit ctx WAREHOUSE_DISABLE username (wh_id m) d1))))"

definition enable_warehouse ::
    "request_ctx \<Rightarrow> string option \<Rightarrow> nat \<Rightarrow> db \<Rightarrow> db \<Rightarrow> error + db" where
  "enable_warehouse ctx username i s d =
    rbind (load_warehouse i s) (\<lambda>m.
    rbind (flush_warehouse m (m\<lparr>wh_status := ST_ACTIVE\<rparr>) d) (\<lambda>d1.
    Inr (warehouse_audit ctx WAREHOUSE_ENABLE username (wh_id m) d1)))"

record warehouse_filter =
  wf_code :: "string option"
  wf_name :: "string option"
  wf_status :: "active_status option"

definition warehouse_matches ::
    "(string \<Rightarrow> string \<Rightarrow> bool) \<Rightarrow> warehouse_filter \<Rightarrow> warehouse \<Rightarrow> bool" where
  "warehouse_matches contains f r \<longleftrightarrow>
     text_cond (\<lambda>x. contains x (wh_warehouse_code r)) (wf_code f)
   \<and> text_cond (\<lambda>x. contains x (wh_warehouse_name r)) (wf_name f)
   \<and> opt_cond (\<lambda>x. wh_status r = x) (wf_status f)"

definition list_warehouses ::
    "(string \<Rightarrow> string \<Rightarrow> bool) \<Rightarrow> nat \<Rightarrow> nat \<Rightarrow> warehouse_filter \<Rightarrow> db \<Rightarrow> warehouse list \<times> nat" where
  "list_warehouses contains page page_size f s =
    (let rows = filter (warehouse_matches contains f) (warehouses s)
     in (page_of page page_size (sort_key wh_id rows), length rows))"

section \<open>Stock policies (app/services/inventory_policy_service.py)\<close>

record policy_create =
  pc_warehouse_id :: nat
  pc_material_id :: nat
  pc_safety_stock :: decimal
  pc_reorder_point :: "decimal option"
  pc_max_stock :: "decimal option"
  pc_remark :: "string option"

record policy_update =
  pu_safety_stock :: "decimal option"
  pu_reorder_point :: "decimal option"
  pu_max_stock :: "decimal option"
  pu_remark :: "string option"

definition valid_policy_create :: "policy_create \<Rightarrow> bool" where
  "valid_policy_create x \<longleftrightarrow> 0 < pc_warehouse_id x \<and> 0 < pc_material_id x
    \<and> 0 \<le> pc_safety_stock x \<and> opt_cond (\<lambda>v. 0 \<le> v) (pc_reorder_point x)
    \<and> opt_cond (\<lambda>v. 0 < v) (pc_max_stock x) \<and> opt_len 0 255 (pc_remark x)"

definition valid_policy_update :: "policy_update \<Rightarrow> bool" where
  "valid_policy_update x \<longleftrightarrow> opt_cond (\<lambda>v. 0 \<le> v) (pu_safety_stock x)
    \<and> opt_cond (\<lambda>v. 0 \<le> v) (pu_reorder_point x)
    \<and> opt_cond (\<lambda>v. 0 < v) (pu_max_stock x) \<and> opt_len 0 255 (pu_remark x)"

definition load_policy :: "nat \<Rightarrow> db \<Rightarrow> error + inventory_policy" where
  "load_policy i s = require (get_pol s i) (raise_code NotFoundException NOT_FOUND)"

definition exceeds :: "decimal option \<Rightarrow> decimal option \<Rightarrow> bool" where
  "exceeds x y = (case (x, y) of (Some a, Some b) \<Rightarrow> b < a | _ \<Rightarrow> False)"

definition validate_ranges ::
    "decimal option \<Rightarrow> decimal option \<Rightarrow> decimal option \<Rightarrow> error + unit" where
  "validate_ranges safety_stock reorder_point max_stock =
    (if exceeds safety_stock reorder_point then Inl (raise_class ValidationException)
     else if exceeds reorder_point max_stock then Inl (raise_class ValidationException)
     else if exceeds safety_stock max_stock then Inl (raise_class ValidationException)
     else Inr ())"

definition validate_policy_refs :: "db \<Rightarrow> nat \<Rightarrow> nat \<Rightarrow> error + unit" where
  "validate_policy_refs s warehouse_id material_id =
    rbind (require (get_mat s material_id) (raise_code NotFoundException NOT_FOUND)) (\<lambda>m.
    if mat_status m \<noteq> ST_ACTIVE then Inl (raise_code ConflictException MASTER_DATA_DISABLED)
    else rbind (require (get_wh s warehouse_id) (raise_code NotFoundException NOT_FOUND)) (\<lambda>w.
      if wh_status w \<noteq> ST_ACTIVE then Inl (raise_code ConflictException MASTER_DATA_DISABLED)
      else Inr ()))"

definition check_policy_duplicate :: "db \<Rightarrow> nat \<Rightarrow> nat \<Rightarrow> error + unit" where
  "check_policy_duplicate s warehouse_id material_id =
    check (\<not> list_ex (\<lambda>p. pol_warehouse_id p = warehouse_id \<and> pol_material_id p = material_id)
        (inventory_policies s))
      (raise_code ConflictException INVENTORY_POLICY_DUPLICATE)"

definition policy_audit :: "request_ctx \<Rightarrow> string option \<Rightarrow> nat \<Rightarrow> db \<Rightarrow> db" where
  "policy_audit ctx username i d =
    write_audit ctx INVENTORY_POLICY_CHANGE ''inventory_policy'' None username
      (Some ''inventory_policy'') (Some i) None d"

definition create_policy ::
    "request_ctx \<Rightarrow> string option \<Rightarrow> policy_create \<Rightarrow> db \<Rightarrow> db \<Rightarrow> error + db" where
  "create_policy ctx username data s d =
    rbind (validate_policy_refs s (pc_warehouse_id data) (pc_material_id data)) (\<lambda>_.
    rbind (validate_ranges (Some (pc_safety_stock data)) (pc_reorder_point data)
        (pc_max_stock data)) (\<lambda>_.
    rbind (check_policy_duplicate s (pc_warehouse_id data) (pc_material_id data)) (\<lambda>_.
    rbind (insert_pol
       \<lparr>pol_id = 0, pol_warehouse_id = pc_warehouse_id data, pol_material_id = pc_material_id data,
        pol_safety_stock = column4 (pc_safety_stock data), pol_min_stock = None,
        pol_max_stock = map_option column4 (pc_max_stock data),
        pol_reorder_point = map_option column4 (pc_reorder_point data),
        pol_remark = pc_remark data\<rparr> d) (\<lambda>d1.
    Inr (policy_audit ctx username (auto_inc d T_inventory_policies) d1)))))"

definition merge_policy ::
    "inventory_policy \<Rightarrow> inventory_policy \<Rightarrow> inventory_policy \<Rightarrow> inventory_policy" where
  "merge_policy old new cur = cur
    \<lparr>pol_safety_stock := write_col (pol_safety_stock old) (pol_safety_stock new) (pol_safety_stock cur),
     pol_reorder_point :=
       write_col (pol_reorder_point old) (pol_reorder_point new) (pol_reorder_point cur),
     pol_max_stock := write_col (pol_max_stock old) (pol_max_stock new) (pol_max_stock cur),
     pol_remark := write_col (pol_remark old) (pol_remark new) (pol_remark cur)\<rparr>"

text \<open>The columns round what the UPDATE sets, and its row is refused by the CHECKs.\<close>

definition rounded_policy :: "inventory_policy \<Rightarrow> inventory_policy" where
  "rounded_policy p = p
    \<lparr>pol_safety_stock := column4 (pol_safety_stock p),
     pol_reorder_point := map_option column4 (pol_reorder_point p),
     pol_max_stock := map_option column4 (pol_max_stock p)\<rparr>"

definition flush_policy :: "inventory_policy \<Rightarrow> inventory_policy \<Rightarrow> db \<Rightarrow> error + db" where
  "flush_policy old new d =
    rbind (flush_row pol_id (\<lambda>a b c. rounded_policy (merge_policy a b c)) old new
        (inventory_policies d)) (\<lambda>rows.
    rbind (check (list_all (\<lambda>p. pol_id p = pol_id old \<longrightarrow> pol_checks p) rows)
        (DbError (CheckViolation ''inventory_policies''))) (\<lambda>_.
    Inr (d\<lparr>inventory_policies := rows\<rparr>)))"

definition update_policy ::
    "request_ctx \<Rightarrow> string option \<Rightarrow> nat \<Rightarrow> policy_update \<Rightarrow> db \<Rightarrow> db \<Rightarrow> error + db" where
  "update_policy ctx username i data s d =
    rbind (load_policy i s) (\<lambda>p.
    rbind (validate_policy_refs s (pol_warehouse_id p) (pol_material_id p)) (\<lambda>_.
    let new_safety = given (pu_safety_stock data) (pol_safety_stock p);
        new_reorder = given_opt (pu_reorder_point data) (pol_reorder_point p);
        new_max = given_opt (pu_max_stock data) (pol_max_stock p)
    in rbind (validate_ranges (Some new_safety) new_reorder new_max) (\<lambda>_.
    let p' = p\<lparr>pol_safety_stock := new_safety, pol_reorder_point := new_reorder,
               pol_max_stock := new_max, pol_remark := given_opt (pu_remark data) (pol_remark p)\<rparr>
    in rbind (flush_policy p p' d) (\<lambda>d1.
       Inr (policy_audit ctx username (pol_id p) d1)))))"

definition list_policies ::
    "nat \<Rightarrow> nat \<Rightarrow> nat option \<Rightarrow> nat option \<Rightarrow> db \<Rightarrow> inventory_policy list \<times> nat" where
  "list_policies page page_size warehouse_id material_id s =
    (let rows = filter (\<lambda>p. opt_cond (\<lambda>x. pol_warehouse_id p = x) warehouse_id
            \<and> opt_cond (\<lambda>x. pol_material_id p = x) material_id) (inventory_policies s)
     in (page_of page page_size (sort_key pol_id rows), length rows))"

end
