(* ===== verification/Receipt.thy ===== *)
theory Receipt
  imports Order Inventory
begin

text \<open>
  Purchase receipts (\<^verbatim>\<open>app/services/purchase_receipt_service.py\<close>, input types of
  \<^verbatim>\<open>app/schemas/purchase_receipt.py\<close>): receiving goods against an order and
  reversing a whole receipt.

  The received quantity of an order line is taken by a conditional UPDATE on the
  live row.  The session also changes its own object of the line, which it has
  read from the snapshot, and the next flush writes that absolute value back.
\<close>

section \<open>Input\<close>

record receipt_item_create =
  ric_po_item_id :: nat
  ric_received_quantity :: decimal
  ric_remark :: "string option"

record receipt_create =
  rcc_po_id :: nat
  rcc_warehouse_id :: nat
  rcc_receipt_date :: "date option"
  rcc_remark :: "string option"
  rcc_items :: "receipt_item_create list"

definition valid_receipt_create :: "receipt_create \<Rightarrow> bool" where
  "valid_receipt_create c \<longleftrightarrow> 0 < rcc_po_id c \<and> 0 < rcc_warehouse_id c \<and> opt_len 0 255 (rcc_remark c) \<and> rcc_items c \<noteq> []
    \<and> list_all (\<lambda>i. 0 < ric_po_item_id i \<and> 0 < ric_received_quantity i
        \<and> on_grid 4 (ric_received_quantity i) \<and> opt_len 0 255 (ric_remark i)) (rcc_items c)"

section \<open>Helpers\<close>

definition RECEIVABLE_STATUSES :: "po_status list" where
  "RECEIVABLE_STATUSES = [PO_CONFIRMED, PO_PARTIALLY_RECEIVED]"

definition load_receipt :: "nat \<Rightarrow> db \<Rightarrow> error + purchase_receipt" where
  "load_receipt i s = require (get_rcv s i) (raise_code NotFoundException RECEIPT_NOT_FOUND)"

definition receivable_po :: "db \<Rightarrow> nat \<Rightarrow> error + purchase_order" where
  "receivable_po s i =
    (case get_po s i of
       None \<Rightarrow> Inl (raise_code NotFoundException PO_NOT_FOUND)
     | Some po \<Rightarrow> if po_status po \<notin> set RECEIVABLE_STATUSES
         then Inl (raise_code ConflictException PO_NOT_RECEIVABLE) else Inr po)"

definition active_warehouse :: "db \<Rightarrow> nat \<Rightarrow> error + warehouse" where
  "active_warehouse s i =
    (case get_wh s i of
       None \<Rightarrow> Inl (raise_code NotFoundException NOT_FOUND)
     | Some w \<Rightarrow> if wh_status w \<noteq> ST_ACTIVE
         then Inl (raise_code ConflictException MASTER_DATA_DISABLED) else Inr w)"

definition assert_receipt_material_active :: "db \<Rightarrow> nat \<Rightarrow> error + unit" where
  "assert_receipt_material_active s material_id =
    (case get_mat s material_id of
       None \<Rightarrow> Inl (raise_code NotFoundException NOT_FOUND)
     | Some m \<Rightarrow> check (mat_status m = ST_ACTIVE)
         (raise_code ConflictException MASTER_DATA_DISABLED))"

text \<open>
  \<^verbatim>\<open>recompute_po_status\<close>: the SELECT returns the session's own objects of the
  lines, given here as \<^verbatim>\<open>items\<close>, and \<^verbatim>\<open>po\<close> is the session's order.
\<close>

definition derived_po_status :: "purchase_order_item list \<Rightarrow> po_status" where
  "derived_po_status items =
    (if list_all (\<lambda>i. poi_received_quantity i = 0) items then PO_CONFIRMED
     else if list_all (\<lambda>i. poi_received_quantity i = poi_ordered_quantity i) items then PO_RECEIVED
     else PO_PARTIALLY_RECEIVED)"

definition recompute_po_status :: "purchase_order_item list \<Rightarrow> purchase_order \<Rightarrow> db \<Rightarrow> db" where
  "recompute_po_status items po d =
    (if items = [] then d
     else let target = derived_po_status items
          in if target \<noteq> po_status po
             then flush_po (po_id po) (\<lambda>r. r\<lparr>po_status := target\<rparr>) d
             else d)"

section \<open>Visibility\<close>

definition visible_receipt_po :: "current_user \<Rightarrow> db \<Rightarrow> nat \<Rightarrow> bool" where
  "visible_receipt_po u s i =
    (if cu_role_code u \<in> {Some ROLE_ADMIN, Some ROLE_WAREHOUSE} then True
     else if cu_role_code u = Some ROLE_BUYER
     then (case get_po s i of None \<Rightarrow> False | Some po \<Rightarrow> po_buyer_id po = cu_id u)
     else visible_po u s i)"

definition assert_receipt_visible :: "current_user \<Rightarrow> db \<Rightarrow> purchase_receipt \<Rightarrow> error + unit" where
  "assert_receipt_visible u s receipt =
    check (visible_receipt_po u s (rcv_po_id receipt))
      (raise_code PermissionDeniedException PERMISSION_DENIED)"

section \<open>Statements on the live state\<close>

definition receive :: "decimal \<Rightarrow> purchase_order_item \<Rightarrow> purchase_order_item" where
  "receive q r = r\<lparr>poi_received_quantity := poi_received_quantity r + q\<rparr>"

definition take_received :: "nat \<Rightarrow> decimal \<Rightarrow> db \<Rightarrow> db option" where
  "take_received i q d =
    map_option (\<lambda>rows. d\<lparr>purchase_order_items := rows\<rparr>)
      (cas_rows (\<lambda>r. poi_id r = i \<and> poi_received_quantity r + q \<le> poi_ordered_quantity r)
        (receive q) (purchase_order_items d))"

definition give_received :: "nat \<Rightarrow> decimal \<Rightarrow> db \<Rightarrow> db option" where
  "give_received i q d =
    map_option (\<lambda>rows. d\<lparr>purchase_order_items := rows\<rparr>)
      (cas_rows (\<lambda>r. poi_id r = i \<and> q \<le> poi_received_quantity r)
        (receive (- q)) (purchase_order_items d))"

text \<open>The flush of the session's object: an absolute value, refused by the CHECK.\<close>

definition flush_received :: "nat \<Rightarrow> decimal \<Rightarrow> db \<Rightarrow> error + db" where
  "flush_received i v d =
    (let rows = update_rows (\<lambda>r. poi_id r = i) (\<lambda>r. r\<lparr>poi_received_quantity := v\<rparr>)
           (purchase_order_items d)
     in if list_all (\<lambda>r. poi_id r = i \<longrightarrow> poi_checks r) rows
        then Inr (d\<lparr>purchase_order_items := rows\<rparr>)
        else Inl (DbError (CheckViolation ''purchase_order_items'')))"

definition rcv_where ::
    "nat \<Rightarrow> (purchase_receipt \<Rightarrow> bool) \<Rightarrow> (purchase_receipt \<Rightarrow> purchase_receipt) \<Rightarrow> db \<Rightarrow> db option" where
  "rcv_where i p f d =
    map_option (\<lambda>rows. d\<lparr>purchase_receipts := rows\<rparr>)
      (cas_rows (\<lambda>r. rcv_id r = i \<and> p r) f (purchase_receipts d))"

definition receipt_audit ::
    "request_ctx \<Rightarrow> audit_action \<Rightarrow> current_user \<Rightarrow> nat \<Rightarrow> string \<Rightarrow> db \<Rightarrow> db" where
  "receipt_audit ctx action u i no d =
    write_audit ctx action ''receipt'' None (Some (cu_username u)) (Some ''PURCHASE_RECEIPT'')
      (Some i) (Some no) d"

text \<open>
  The locals of the two posting loops: the running quantity per key and the totals
  collected per key (the dicts \<^verbatim>\<open>running_qty\<close> and \<^verbatim>\<open>agg\<close>, read at locked keys only).
\<close>

record posting =
  rr_db :: db
  rr_running :: "balance_key \<Rightarrow> decimal"
  rr_agg :: "balance_key \<Rightarrow> balance_delta"

definition add_delta ::
    "balance_key \<Rightarrow> decimal \<Rightarrow> decimal \<Rightarrow> (balance_key \<Rightarrow> balance_delta) \<Rightarrow> balance_key \<Rightarrow> balance_delta" where
  "add_delta k q a agg = agg(k := \<lparr>bd_quantity = bd_quantity (agg k) + q,
     bd_amount = bd_amount (agg k) + a\<rparr>)"

definition start_posting :: "db \<Rightarrow> db \<Rightarrow> posting" where
  "start_posting locked d = \<lparr>rr_db = d, rr_running = balance_quantity locked,
     rr_agg = (\<lambda>_. balance_delta_init)\<rparr>"

section \<open>Create\<close>

primrec check_receipt_lines :: "nat list \<Rightarrow> receipt_item_create list \<Rightarrow> error + unit" where
  "check_receipt_lines seen [] = Inr ()"
| "check_receipt_lines seen (item # items) =
    (if ric_po_item_id item \<in> set seen
     then Inl (raise_code ConflictException RECEIPT_DUPLICATE_ITEM)
     else if ric_received_quantity item \<le> 0
     then Inl (raise_code ConflictException RECEIPT_QUANTITY_POSITIVE)
     else check_receipt_lines (ric_po_item_id item # seen) items)"

definition receipt_po_item ::
    "db \<Rightarrow> purchase_order \<Rightarrow> receipt_item_create \<Rightarrow> error + purchase_order_item" where
  "receipt_po_item s po item =
    (case get_poi s (ric_po_item_id item) of
       None \<Rightarrow> Inl (raise_code NotFoundException PO_ITEM_NOT_FOUND)
     | Some poi \<Rightarrow>
         if poi_po_id poi \<noteq> po_id po then Inl (raise_code ConflictException RECEIPT_ITEM_NOT_IN_PO)
         else rbind (assert_receipt_material_active s (poi_material_id poi)) (\<lambda>_. Inr poi))"

record receipt_header =
  rh_id :: nat
  rh_warehouse_id :: nat
  rh_at :: datetime
  rh_user_id :: nat

definition receive_line ::
    "receipt_header \<Rightarrow> nat \<times> receipt_item_create \<times> purchase_order_item \<Rightarrow> posting \<Rightarrow> error + posting" where
  "receive_line h line run =
    (let (line_no, item, poi) = line;
         qty = ric_received_quantity item;
         unit_price = poi_unit_price poi;
         amount = line_amount qty unit_price;
         key = (rh_warehouse_id h, poi_material_id poi);
         running = rr_running run key + qty
     in
      rbind (require (take_received (poi_id poi) qty (rr_db run))
        (raise_code ConflictException RECEIPT_EXCEEDS_REMAINING)) (\<lambda>d1.
      rbind (flush_received (poi_id poi) (poi_received_quantity poi + qty) d1) (\<lambda>d2.
      let ri = auto_inc d2 T_purchase_receipt_items in
      rbind (insert_ri \<lparr>ri_id = ri, ri_receipt_id = rh_id h, ri_po_item_id = poi_id poi,
          ri_line_no = line_no, ri_material_id = poi_material_id poi, ri_received_quantity = qty,
          ri_unit_price = unit_price, ri_amount = amount, ri_remark = ric_remark item\<rparr> d2) (\<lambda>d3.
      rbind (write_transaction \<lparr>it_id = 0, it_txn_no = [], it_transaction_type = PURCHASE_IN,
          it_warehouse_id = rh_warehouse_id h, it_material_id = poi_material_id poi,
          it_quantity = qty, it_unit_cost = unit_price, it_amount = amount,
          it_balance_after = running, it_source_type = Some SRC_PURCHASE_RECEIPT,
          it_source_id = Some (rh_id h), it_source_item_id = Some ri,
          it_reversed_transaction_id = None, it_transaction_at = rh_at h,
          it_created_by = Some (rh_user_id h)\<rparr> d3) (\<lambda>d4.
      Inr \<lparr>rr_db = d4, rr_running = (rr_running run)(key := running),
           rr_agg = add_delta key qty amount (rr_agg run)\<rparr>)))))"

definition post_inbound :: "datetime \<Rightarrow> balance_key \<Rightarrow> posting \<Rightarrow> error + posting" where
  "post_inbound when k run =
    rbind (apply_inbound k (bd_quantity (rr_agg run k)) (bd_amount (rr_agg run k)) (rr_db run))
      (\<lambda>d. Inr (run\<lparr>rr_db := touch_balance k when d\<rparr>))"

text \<open>The session's view of the order lines after the loop.\<close>

definition received_items :: "db \<Rightarrow> nat \<Rightarrow> receipt_item_create list \<Rightarrow> purchase_order_item list" where
  "received_items s i items =
    map (\<lambda>poi. case find (\<lambda>item. ric_po_item_id item = poi_id poi) items of
        None \<Rightarrow> poi | Some item \<Rightarrow> receive (ric_received_quantity item) poi)
      (filter (\<lambda>poi. poi_po_id poi = i) (purchase_order_items s))"

definition receipt_lines ::
    "receipt_item_create list \<Rightarrow> purchase_order_item list \<Rightarrow>
     (nat \<times> receipt_item_create \<times> purchase_order_item) list" where
  "receipt_lines items pois = enumerate 1 (sort_key (\<lambda>p. ric_po_item_id (fst p)) (zip items pois))"

definition create_receipt ::
    "request_ctx \<Rightarrow> current_user \<Rightarrow> receipt_create \<Rightarrow> db \<Rightarrow> db \<Rightarrow> error + db" where
  "create_receipt ctx u data s d =
    (if rcc_items data = [] then Inl (raise_code ConflictException RECEIPT_EMPTY_ITEMS)
     else
      rbind (receivable_po s (rcc_po_id data)) (\<lambda>po.
      rbind (active_warehouse s (rcc_warehouse_id data)) (\<lambda>wh.
      rbind (check_receipt_lines [] (rcc_items data)) (\<lambda>_.
      rbind (rtraverse (receipt_po_item s po) (rcc_items data)) (\<lambda>pois.
      let receipt_date = (case rcc_receipt_date data of None \<Rightarrow> rq_today ctx | Some x \<Rightarrow> x);
          received_at = DateTime receipt_date (dt_millis (rq_now ctx));
          (ks, d1) = lock_balances (map (\<lambda>poi. (wh_id wh, poi_material_id poi)) pois) d;
          (no, d2) = next_daily_code SEQ_PURCHASE_RECEIPT ''RCV'' (rq_today ctx) (Some receipt_date) d1;
          rid = auto_inc d2 T_purchase_receipts;
          h = \<lparr>rh_id = rid, rh_warehouse_id = wh_id wh, rh_at = received_at, rh_user_id = cu_id u\<rparr>
      in
      rbind (insert_rcv \<lparr>rcv_id = rid, rcv_receipt_no = no, rcv_po_id = po_id po,
          rcv_warehouse_id = wh_id wh, rcv_received_by = cu_id u, rcv_received_at = received_at,
          rcv_status = RCV_POSTED, rcv_reversed_by = None, rcv_reversed_at = None,
          rcv_reverse_reason = None, rcv_remark = rcc_remark data\<rparr> d2) (\<lambda>d3.
      rbind (rfold (receive_line h) (receipt_lines (rcc_items data) pois) (start_posting d1 d3)) (\<lambda>run1.
      rbind (rfold (post_inbound received_at) ks run1) (\<lambda>run2.
      Inr (receipt_audit ctx RECEIPT_POST u rid no
        (recompute_po_status (received_items s (po_id po) (rcc_items data)) po (rr_db run2)))))))))))"

section \<open>Reverse\<close>

definition original_txn :: "db \<Rightarrow> nat \<Rightarrow> nat \<Rightarrow> inventory_transaction option" where
  "original_txn s receipt ri = find (\<lambda>t. it_source_type t = Some SRC_PURCHASE_RECEIPT
      \<and> it_source_id t = Some receipt \<and> it_source_item_id t = Some ri) (inventory_transactions s)"

definition already_reversed :: "db \<Rightarrow> nat \<Rightarrow> bool" where
  "already_reversed s txn =
    list_ex (\<lambda>t. it_reversed_transaction_id t = Some txn) (inventory_transactions s)"

text \<open>
  The ledger is searched in the snapshot: the rows that this transaction has
  itself appended are reversals of other lines of the same receipt, which neither
  search can return.
\<close>

definition reverse_line ::
    "db \<Rightarrow> receipt_header \<Rightarrow> purchase_receipt_item \<Rightarrow> posting \<Rightarrow> error + posting" where
  "reverse_line s h ri run =
    (let qty = ri_received_quantity ri;
         key = (rh_warehouse_id h, ri_material_id ri);
         running = rr_running run key - qty
     in
      rbind (require (get_poi s (ri_po_item_id ri)) (raise_code NotFoundException PO_ITEM_NOT_FOUND)) (\<lambda>poi.
      rbind (require (give_received (poi_id poi) qty (rr_db run)) (raise_code ConflictException CONFLICT)) (\<lambda>d1.
      rbind (require (original_txn s (rh_id h) (ri_id ri))
        (raise_code ConflictException INVENTORY_BALANCE_MISMATCH)) (\<lambda>original.
      rbind (check (\<not> already_reversed s (it_id original))
        (raise_code ConflictException RECEIPT_ALREADY_REVERSED)) (\<lambda>_.
      rbind (flush_received (poi_id poi) (poi_received_quantity poi - qty) d1) (\<lambda>d2.
      rbind (write_transaction \<lparr>it_id = 0, it_txn_no = [], it_transaction_type = PURCHASE_IN_REVERSAL,
          it_warehouse_id = rh_warehouse_id h, it_material_id = ri_material_id ri,
          it_quantity = - qty, it_unit_cost = it_unit_cost original, it_amount = - it_amount original,
          it_balance_after = running, it_source_type = Some SRC_PURCHASE_RECEIPT_REVERSAL,
          it_source_id = Some (rh_id h), it_source_item_id = Some (ri_id ri),
          it_reversed_transaction_id = Some (it_id original), it_transaction_at = rh_at h,
          it_created_by = Some (rh_user_id h)\<rparr> d2) (\<lambda>d3.
      Inr \<lparr>rr_db = d3, rr_running = (rr_running run)(key := running),
           rr_agg = add_delta key qty (it_amount original) (rr_agg run)\<rparr>)))))))"

definition post_outbound :: "datetime \<Rightarrow> balance_key \<Rightarrow> posting \<Rightarrow> error + posting" where
  "post_outbound when k run =
    rbind (apply_outbound k (bd_quantity (rr_agg run k)) (bd_amount (rr_agg run k)) (rr_db run))
      (\<lambda>d. Inr (run\<lparr>rr_db := touch_balance k when d\<rparr>))"

definition receipt_items :: "nat \<Rightarrow> db \<Rightarrow> purchase_receipt_item list" where
  "receipt_items i s = sort_key ri_po_item_id
    (filter (\<lambda>ri. ri_receipt_id ri = i) (purchase_receipt_items s))"

definition reversed_items :: "db \<Rightarrow> nat \<Rightarrow> purchase_receipt_item list \<Rightarrow> purchase_order_item list" where
  "reversed_items s i items =
    map (\<lambda>poi. case find (\<lambda>ri. ri_po_item_id ri = poi_id poi) items of
        None \<Rightarrow> poi | Some ri \<Rightarrow> receive (- ri_received_quantity ri) poi)
      (filter (\<lambda>poi. poi_po_id poi = i) (purchase_order_items s))"

definition mark_reversed ::
    "nat \<Rightarrow> datetime \<Rightarrow> string \<Rightarrow> purchase_receipt \<Rightarrow> purchase_receipt" where
  "mark_reversed uid now reason r = r\<lparr>rcv_status := RCV_REVERSED, rcv_reversed_by := Some uid,
     rcv_reversed_at := Some now, rcv_reverse_reason := Some reason\<rparr>"

definition reverse_receipt ::
    "request_ctx \<Rightarrow> current_user \<Rightarrow> nat \<Rightarrow> string \<Rightarrow> db \<Rightarrow> db \<Rightarrow> error + db" where
  "reverse_receipt ctx u i reason s d =
    rbind (load_receipt i s) (\<lambda>receipt0.
    if rcv_status receipt0 = RCV_REVERSED
    then Inl (raise_code ConflictException RECEIPT_ALREADY_REVERSED)
    else if rcv_status receipt0 \<noteq> RCV_POSTED
    then Inl (raise_code ConflictException RECEIPT_NOT_POSTED)
    else
      let now = rq_now ctx in
      rbind (require (rcv_where i (\<lambda>r. rcv_status r = RCV_POSTED)
          (mark_reversed (cu_id u) now reason) d)
        (raise_code ConflictException RECEIPT_ALREADY_REVERSED)) (\<lambda>d1.
      rbind (require (get_rcv d1 i) StaleData) (\<lambda>receipt.
      let items = receipt_items i s;
          (ks, d2) = lock_balances (map (\<lambda>ri. (rcv_warehouse_id receipt, ri_material_id ri)) items) d1;
          h = \<lparr>rh_id = i, rh_warehouse_id = rcv_warehouse_id receipt, rh_at = now, rh_user_id = cu_id u\<rparr>
      in
      rbind (rfold (reverse_line s h) items (start_posting d2 d2)) (\<lambda>run1.
      rbind (rfold (post_outbound now) ks run1) (\<lambda>run2.
      let d3 = (case get_po s (rcv_po_id receipt) of
            None \<Rightarrow> rr_db run2
          | Some po \<Rightarrow> recompute_po_status (reversed_items s (po_id po) items) po (rr_db run2))
      in Inr (receipt_audit ctx RECEIPT_REVERSE u i (rcv_receipt_no receipt) d3))))))"

section \<open>Reads\<close>

definition read_receipt :: "current_user \<Rightarrow> nat \<Rightarrow> db \<Rightarrow> error + purchase_receipt" where
  "read_receipt u i s =
    rbind (load_receipt i s) (\<lambda>receipt. rbind (assert_receipt_visible u s receipt) (\<lambda>_. Inr receipt))"

record receipt_filter =
  rcf_receipt_no :: "string option"
  rcf_po_no :: "string option"
  rcf_po_id :: "nat option"
  rcf_warehouse_id :: "nat option"
  rcf_status :: "receipt_status option"
  rcf_date_from :: "date option"
  rcf_date_to :: "date option"

definition receipt_matches ::
    "(string \<Rightarrow> string \<Rightarrow> bool) \<Rightarrow> db \<Rightarrow> receipt_filter \<Rightarrow> purchase_receipt \<Rightarrow> bool" where
  "receipt_matches contains s f r \<longleftrightarrow>
     opt_cond (\<lambda>x. rcv_po_id r = x) (rcf_po_id f)
   \<and> text_cond (\<lambda>x. contains x (rcv_receipt_no r)) (rcf_receipt_no f)
   \<and> text_cond (\<lambda>x. list_ex (\<lambda>po. po_id po = rcv_po_id r \<and> contains x (po_no po)) (purchase_orders s))
       (rcf_po_no f)
   \<and> opt_cond (\<lambda>x. rcv_warehouse_id r = x) (rcf_warehouse_id f)
   \<and> opt_cond (\<lambda>x. rcv_status r = x) (rcf_status f)
   \<and> opt_cond (\<lambda>x. DateTime x 0 \<le> rcv_received_at r) (rcf_date_from f)
   \<and> opt_cond (\<lambda>x. rcv_received_at r \<le> DateTime x 86399999) (rcf_date_to f)"

definition list_receipts ::
    "(string \<Rightarrow> string \<Rightarrow> bool) \<Rightarrow> current_user \<Rightarrow> nat \<Rightarrow> nat \<Rightarrow> receipt_filter \<Rightarrow> db \<Rightarrow>
     purchase_receipt list \<times> nat" where
  "list_receipts contains u page page_size f s =
    (let rows = filter (\<lambda>r. visible_receipt_po u s (rcv_po_id r) \<and> receipt_matches contains s f r)
           (purchase_receipts s)
     in (page_of page page_size (rev (sort_key rcv_id rows)), length rows))"

interpretation received: bounded_counter
  poi_id poi_received_quantity poi_ordered_quantity receive
  by unfold_locales (simp_all add: receive_def)

end
