(* ===== verification/Reconciliation.thy ===== *)
theory Reconciliation
  imports Inventory Contracts
begin

text \<open>
  Stock counts (\<^verbatim>\<open>app/services/stock_reconciliation_service.py\<close>, input types of
  \<^verbatim>\<open>app/schemas/reconciliation.py\<close>): a draft freezes the book state of every
  counted material, an approval posts the differences to the ledger unless the
  book has moved since.
\<close>

section \<open>Input\<close>

record rc_line =
  rcl_material_id :: nat
  rcl_physical_quantity :: decimal
  rcl_valuation_rate :: "decimal option"
  rcl_remark :: "string option"

record rc_create =
  rnc_warehouse_id :: nat
  rnc_reason :: "string option"
  rnc_remark :: "string option"
  rnc_items :: "rc_line list"

record rc_update =
  rnu_version :: nat
  rnu_reason :: "string option"
  rnu_remark :: "string option"
  rnu_items :: "rc_line list"

record rc_approve =
  rna_approve_comment :: "string option"
  rna_override_self_approval :: bool
  rna_override_reason :: "string option"

definition valid_rc_line :: "rc_line \<Rightarrow> bool" where
  "valid_rc_line l \<longleftrightarrow> 0 < rcl_material_id l \<and> 0 \<le> rcl_physical_quantity l
    \<and> on_grid 4 (rcl_physical_quantity l) \<and> opt_cond (\<lambda>r. 0 \<le> r) (rcl_valuation_rate l)
    \<and> opt_len 0 255 (rcl_remark l)"

definition valid_rc_create :: "rc_create \<Rightarrow> bool" where
  "valid_rc_create c \<longleftrightarrow> 0 < rnc_warehouse_id c \<and> opt_len 0 500 (rnc_reason c)
    \<and> opt_len 0 255 (rnc_remark c) \<and> rnc_items c \<noteq> [] \<and> list_all valid_rc_line (rnc_items c)"

definition valid_rc_update :: "rc_update \<Rightarrow> bool" where
  "valid_rc_update c \<longleftrightarrow> 1 \<le> rnu_version c \<and> opt_len 0 500 (rnu_reason c)
    \<and> opt_len 0 255 (rnu_remark c) \<and> rnu_items c \<noteq> [] \<and> list_all valid_rc_line (rnu_items c)"

section \<open>Helpers\<close>

definition PERM_SELF_APPROVE_OVERRIDE :: string where
  "PERM_SELF_APPROVE_OVERRIDE = ''reconcile:self_approve_override''"

definition load_rc :: "nat \<Rightarrow> db \<Rightarrow> error + stock_reconciliation" where
  "load_rc i s = require (get_rc s i) (raise_class ReconciliationNotFoundException)"

definition rc_items :: "nat \<Rightarrow> db \<Rightarrow> stock_reconciliation_item list" where
  "rc_items i s = sort_key rci_line_no
    (filter (\<lambda>it. rci_reconciliation_id it = i) (stock_reconciliation_items s))"

definition has_permission :: "db \<Rightarrow> nat \<Rightarrow> string \<Rightarrow> bool" where
  "has_permission s rid c = list_ex (\<lambda>p. perm_code p = c \<and>
     list_ex (\<lambda>rp. rp_permission_id rp = perm_id p \<and> rp_role_id rp = rid) (role_permissions s))
     (permissions s)"

definition rc_active_warehouse :: "db \<Rightarrow> nat \<Rightarrow> error + warehouse" where
  "rc_active_warehouse s i =
    (case get_wh s i of
       None \<Rightarrow> Inl (raise_code NotFoundException NOT_FOUND)
     | Some w \<Rightarrow> if wh_status w \<noteq> ST_ACTIVE
         then Inl (raise_code ConflictException MASTER_DATA_DISABLED) else Inr w)"

definition assert_rc_material_active :: "db \<Rightarrow> nat \<Rightarrow> error + unit" where
  "assert_rc_material_active s material_id =
    (case get_mat s material_id of
       None \<Rightarrow> Inl (raise_code NotFoundException NOT_FOUND)
     | Some m \<Rightarrow> check (mat_status m = ST_ACTIVE)
         (raise_code ConflictException MASTER_DATA_DISABLED))"

text \<open>The ledger watermark of a key: the largest ledger id, if there is a ledger row.\<close>

definition max_id :: "nat list \<Rightarrow> nat option" where
  "max_id is = (if is = [] then None else Some (fold max is 0))"

definition ledger_watermark :: "db \<Rightarrow> balance_key \<Rightarrow> nat option" where
  "ledger_watermark s k = max_id (map it_id (filter (\<lambda>t. key_of_txn t = k) (inventory_transactions s)))"

record book_snapshot =
  bs_quantity :: decimal
  bs_total :: decimal
  bs_average :: decimal
  bs_watermark :: "nat option"

definition book_of :: "db \<Rightarrow> balance_key \<Rightarrow> book_snapshot" where
  "book_of s k =
    (case balance_row k s of
       None \<Rightarrow> \<lparr>bs_quantity = 0, bs_total = 0, bs_average = 0, bs_watermark = ledger_watermark s k\<rparr>
     | Some b \<Rightarrow> \<lparr>bs_quantity = ib_quantity b, bs_total = ib_total_amount b,
         bs_average = ib_average_unit_cost b, bs_watermark = ledger_watermark s k\<rparr>)"

text \<open>\<^verbatim>\<open>value.quantize(Decimal("0.0001"))\<close> rounds ties to even, unlike \<^verbatim>\<open>money\<close>.\<close>

definition q4 :: "decimal \<Rightarrow> decimal" where
  "q4 v = quantize_half_even 4 v"

definition amount_for ::
    "rc_line \<Rightarrow> decimal \<Rightarrow> decimal \<Rightarrow> error + decimal \<times> decimal option \<times> decimal" where
  "amount_for line snap_qty snap_avg =
    (let diff = q4 (q4 (rcl_physical_quantity line) - snap_qty) in
     if 0 < diff then
       (case rcl_valuation_rate line of
          None \<Rightarrow> Inl (raise_class ReconciliationValuationRateRequiredException)
        | Some rate \<Rightarrow>
            if rate \<le> 0 then Inl (raise_class ReconciliationValuationRateRequiredException)
            else Inr (diff, Some (q4 rate), money (diff * rate)))
     else if diff < 0 then Inr (diff, None, - money (- diff * snap_avg))
     else Inr (0, None, 0))"

definition new_rc_item ::
    "nat \<Rightarrow> nat \<Rightarrow> rc_line \<Rightarrow> book_snapshot \<Rightarrow> error + stock_reconciliation_item" where
  "new_rc_item doc line_no line b =
    rbind (amount_for line (bs_quantity b) (bs_average b)) (\<lambda>(diff, rate, amount).
      Inr \<lparr>rci_id = 0, rci_reconciliation_id = doc, rci_line_no = line_no,
        rci_material_id = rcl_material_id line,
        rci_book_quantity_snapshot = bs_quantity b,
        rci_book_total_amount_snapshot = bs_total b,
        rci_book_avg_cost_snapshot = bs_average b,
        rci_book_last_transaction_id_snapshot = bs_watermark b,
        rci_physical_quantity = q4 (rcl_physical_quantity line),
        rci_difference_quantity = diff, rci_valuation_rate = rate,
        rci_adjustment_amount = amount, rci_remark = rcl_remark line\<rparr>)"

definition rc_where ::
    "nat \<Rightarrow> (stock_reconciliation \<Rightarrow> bool) \<Rightarrow> (stock_reconciliation \<Rightarrow> stock_reconciliation) \<Rightarrow>
     db \<Rightarrow> db option" where
  "rc_where i p f d =
    map_option (\<lambda>rows. d\<lparr>stock_reconciliations := rows\<rparr>)
      (cas_rows (\<lambda>r. rc_id r = i \<and> p r) f (stock_reconciliations d))"

definition flush_rc ::
    "nat \<Rightarrow> (stock_reconciliation \<Rightarrow> stock_reconciliation) \<Rightarrow> db \<Rightarrow> db" where
  "flush_rc i f d = d\<lparr>stock_reconciliations :=
    update_rows (\<lambda>r. rc_id r = i) f (stock_reconciliations d)\<rparr>"

definition rc_audit ::
    "request_ctx \<Rightarrow> audit_action \<Rightarrow> current_user \<Rightarrow> nat \<Rightarrow> string \<Rightarrow> db \<Rightarrow> db" where
  "rc_audit ctx action u i no d =
    write_audit ctx action ''reconcile'' None (Some (cu_username u)) (Some ''STOCK_RECONCILIATION'')
      (Some i) (Some no) d"

section \<open>Create\<close>

primrec ensure_valid ::
    "db \<Rightarrow> nat \<Rightarrow> nat list \<Rightarrow> rc_line list \<Rightarrow> error + (rc_line \<times> book_snapshot) list" where
  "ensure_valid s wid seen [] = Inr []"
| "ensure_valid s wid seen (line # lines) =
    (if rcl_material_id line \<in> set seen then Inl (raise_code ConflictException CONFLICT)
     else if rcl_physical_quantity line < 0
     then Inl (raise_code ConflictException RECONCILIATION_PHYSICAL_NEGATIVE)
     else
      rbind (assert_rc_material_active s (rcl_material_id line)) (\<lambda>_.
      rbind (ensure_valid s wid (rcl_material_id line # seen) lines) (\<lambda>rest.
      Inr ((line, book_of s (wid, rcl_material_id line)) # rest))))"

definition create_reconciliation ::
    "request_ctx \<Rightarrow> current_user \<Rightarrow> rc_create \<Rightarrow> db \<Rightarrow> db \<Rightarrow> error + db" where
  "create_reconciliation ctx u data s d =
    rbind (rc_active_warehouse s (rnc_warehouse_id data)) (\<lambda>wh.
    if rnc_items data = [] then Inl (raise_code ConflictException RECONCILIATION_EMPTY_ITEMS)
    else
      rbind (ensure_valid s (wh_id wh) [] (rnc_items data)) (\<lambda>resolved.
      let today = rq_today ctx;
          (no, d1) = next_daily_code SEQ_STOCK_RECONCILIATION ''CNT'' today (Some today) d;
          rid = auto_inc d1 T_stock_reconciliations
      in
      rbind (insert_rc \<lparr>rc_id = rid, rc_reconciliation_no = no, rc_warehouse_id = wh_id wh,
          rc_counted_by = cu_id u, rc_counted_on = today, rc_status = RC_DRAFT,
          rc_reason = rnc_reason data, rc_remark = rnc_remark data, rc_submitted_at = None,
          rc_posted_at = None, rc_approved_by = None, rc_approve_comment = None,
          rc_override_self_approval = False, rc_override_reason = None, rc_version = 1\<rparr> d1) (\<lambda>d2.
      rbind (rtraverse (\<lambda>(n, line, b). new_rc_item rid n line b) (enumerate 1 resolved)) (\<lambda>items.
      rbind (rfold insert_rci items d2) (\<lambda>d3.
      Inr (rc_audit ctx STOCK_COUNT_CREATE u rid no d3))))))"

section \<open>Update\<close>

text \<open>A line object of the session: the row it was loaded from, if any, and its value now.\<close>

type_synonym rc_object = "stock_reconciliation_item option \<times> stock_reconciliation_item"

definition rebuild_line ::
    "db \<Rightarrow> stock_reconciliation \<Rightarrow> stock_reconciliation_item list \<Rightarrow> nat \<Rightarrow> rc_line \<Rightarrow>
     error + rc_object" where
  "rebuild_line s doc existing line_no line =
    (case find (\<lambda>it. rci_material_id it = rcl_material_id line) existing of
       None \<Rightarrow>
         rbind (assert_rc_material_active s (rcl_material_id line)) (\<lambda>_.
         rbind (new_rc_item (rc_id doc) line_no line
             (book_of s (rc_warehouse_id doc, rcl_material_id line))) (\<lambda>it. Inr (None, it)))
     | Some item \<Rightarrow>
         rbind (amount_for line (rci_book_quantity_snapshot item) (rci_book_avg_cost_snapshot item))
           (\<lambda>(diff, rate, amount). Inr (Some item, item
             \<lparr>rci_line_no := line_no, rci_physical_quantity := q4 (rcl_physical_quantity line),
              rci_difference_quantity := diff, rci_valuation_rate := rate,
              rci_adjustment_amount := amount, rci_remark := rcl_remark line\<rparr>)))"

primrec rebuild_lines ::
    "db \<Rightarrow> stock_reconciliation \<Rightarrow> stock_reconciliation_item list \<Rightarrow> nat list \<Rightarrow>
     (nat \<times> rc_line) list \<Rightarrow> error + rc_object list" where
  "rebuild_lines s doc existing seen [] = Inr []"
| "rebuild_lines s doc existing seen (nl # lines) =
    (if rcl_material_id (snd nl) \<in> set seen then Inl (raise_code ConflictException CONFLICT)
     else if rcl_physical_quantity (snd nl) < 0
     then Inl (raise_code ConflictException RECONCILIATION_PHYSICAL_NEGATIVE)
     else
      rbind (rebuild_line s doc existing (fst nl) (snd nl)) (\<lambda>ob.
      rbind (rebuild_lines s doc existing (rcl_material_id (snd nl) # seen) lines) (\<lambda>obs.
      Inr (ob # obs))))"

datatype rci_stmt =
  UpdateRci stock_reconciliation_item stock_reconciliation_item
| InsertRci stock_reconciliation_item
| DeleteRci nat

text \<open>An UPDATE sets the columns that the session has changed.\<close>

definition set_changed :: "'a \<Rightarrow> 'a \<Rightarrow> 'a \<Rightarrow> 'a" where
  "set_changed old new cur = (if new = old then cur else new)"

definition merge_rci ::
    "stock_reconciliation_item \<Rightarrow> stock_reconciliation_item \<Rightarrow> stock_reconciliation_item \<Rightarrow>
     stock_reconciliation_item" where
  "merge_rci old new cur = cur
    \<lparr>rci_line_no := set_changed (rci_line_no old) (rci_line_no new) (rci_line_no cur),
     rci_physical_quantity := set_changed (rci_physical_quantity old)
       (rci_physical_quantity new) (rci_physical_quantity cur),
     rci_difference_quantity := set_changed (rci_difference_quantity old)
       (rci_difference_quantity new) (rci_difference_quantity cur),
     rci_valuation_rate := set_changed (rci_valuation_rate old)
       (rci_valuation_rate new) (rci_valuation_rate cur),
     rci_adjustment_amount := set_changed (rci_adjustment_amount old)
       (rci_adjustment_amount new) (rci_adjustment_amount cur),
     rci_remark := set_changed (rci_remark old) (rci_remark new) (rci_remark cur)\<rparr>"

primrec exec_rci_stmt :: "rci_stmt \<Rightarrow> db \<Rightarrow> error + db" where
  "exec_rci_stmt (UpdateRci old new) d =
    (case get_rci d (rci_id old) of
       None \<Rightarrow> Inl StaleData
     | Some cur \<Rightarrow>
         let r = merge_rci old new cur in
         if \<not> rci_checks r then Inl (DbError (CheckViolation ''stock_reconciliation_items''))
         else if list_ex (\<lambda>x. rci_id x \<noteq> rci_id old
             \<and> rci_reconciliation_id x = rci_reconciliation_id r \<and> rci_line_no x = rci_line_no r)
             (stock_reconciliation_items d)
         then Inl (DbError (UniqueViolation ''uk_rc_line''))
         else Inr (d\<lparr>stock_reconciliation_items :=
           update_rows (\<lambda>x. rci_id x = rci_id old) (\<lambda>_. r) (stock_reconciliation_items d)\<rparr>))"
| "exec_rci_stmt (InsertRci new) d = insert_rci new d"
| "exec_rci_stmt (DeleteRci i) d =
    Inr (d\<lparr>stock_reconciliation_items :=
      filter (\<lambda>r. rci_id r \<noteq> i) (stock_reconciliation_items d)\<rparr>)"

definition rci_stmts ::
    "stock_reconciliation_item list \<Rightarrow> rc_object list \<Rightarrow> rci_stmt list" where
  "rci_stmts existing obs =
    List.map_filter (\<lambda>ob. case fst ob of
        None \<Rightarrow> Some (InsertRci (snd ob))
      | Some old \<Rightarrow> if snd ob = old then None else Some (UpdateRci old (snd ob))) obs
    @ map DeleteRci (filter (\<lambda>i. \<not> list_ex (\<lambda>ob. case fst ob of None \<Rightarrow> False
        | Some old \<Rightarrow> rci_id old = i) obs) (map rci_id existing))"

text \<open>\<^verbatim>\<open>uow\<close> is the order in which the ORM's flush emits the statements on the lines.\<close>

definition update_reconciliation ::
    "(rci_stmt list \<Rightarrow> rci_stmt list) \<Rightarrow> request_ctx \<Rightarrow> current_user \<Rightarrow> nat \<Rightarrow> rc_update \<Rightarrow>
     db \<Rightarrow> db \<Rightarrow> error + db" where
  "update_reconciliation uow ctx u i data s d =
    rbind (load_rc i s) (\<lambda>doc.
    if rc_status doc \<notin> {RC_DRAFT, RC_REJECTED}
    then Inl (raise_class ReconciliationInvalidStatusException)
    else if rnu_version data \<noteq> rc_version doc
    then Inl (raise_class ReconciliationVersionConflictException)
    else
      rbind (rc_active_warehouse s (rc_warehouse_id doc)) (\<lambda>_.
      let existing = rc_items i s in
      rbind (rebuild_lines s doc existing [] (enumerate 1 (rnu_items data))) (\<lambda>obs.
      rbind (require (rc_where i
          (\<lambda>r. rc_version r = rnu_version data \<and> rc_status r \<in> {RC_DRAFT, RC_REJECTED})
          (\<lambda>r. r\<lparr>rc_status := RC_DRAFT, rc_reason := rnu_reason data, rc_remark := rnu_remark data,
                 rc_approve_comment := None, rc_version := rc_version r + 1\<rparr>) d)
        (raise_class ReconciliationVersionConflictException)) (\<lambda>d1.
      let d2 = flush_rc i (\<lambda>r. r\<lparr>rc_status := RC_DRAFT, rc_version := rnu_version data + 1\<rparr>) d1
      in
      rbind (rfold exec_rci_stmt (uow (rci_stmts existing obs)) d2) (\<lambda>d3.
      Inr (rc_audit ctx STOCK_COUNT_CREATE u i (rc_reconciliation_no doc) d3))))))"

section \<open>Submit and reject\<close>

definition submit_reconciliation ::
    "request_ctx \<Rightarrow> current_user \<Rightarrow> nat \<Rightarrow> nat \<Rightarrow> db \<Rightarrow> db \<Rightarrow> error + db" where
  "submit_reconciliation ctx u i version s d =
    rbind (load_rc i s) (\<lambda>doc.
    if rc_status doc \<noteq> RC_DRAFT then Inl (raise_class ReconciliationInvalidStatusException)
    else if version \<noteq> rc_version doc
    then Inl (raise_class ReconciliationVersionConflictException)
    else if rc_items i s = [] then Inl (raise_code ConflictException RECONCILIATION_EMPTY_ITEMS)
    else
      rbind (require (rc_where i (\<lambda>r. rc_status r = RC_DRAFT)
          (\<lambda>r. r\<lparr>rc_status := RC_PENDING, rc_submitted_at := Some (rq_now ctx),
                 rc_version := rc_version r + 1\<rparr>) d)
        (raise_class ReconciliationAlreadyProcessedException)) (\<lambda>d1.
      Inr (rc_audit ctx STOCK_COUNT_SUBMIT u i (rc_reconciliation_no doc) d1)))"

definition reject_reconciliation ::
    "request_ctx \<Rightarrow> current_user \<Rightarrow> nat \<Rightarrow> string \<Rightarrow> db \<Rightarrow> db \<Rightarrow> error + db" where
  "reject_reconciliation ctx u i comment s d =
    rbind (load_rc i s) (\<lambda>doc.
    if rc_status doc \<noteq> RC_PENDING then Inl (raise_class ReconciliationInvalidStatusException)
    else
      rbind (require (rc_where i (\<lambda>r. rc_status r = RC_PENDING)
          (\<lambda>r. r\<lparr>rc_status := RC_REJECTED, rc_approve_comment := Some comment,
                 rc_version := rc_version r + 1\<rparr>) d)
        (raise_class ReconciliationAlreadyProcessedException)) (\<lambda>d1.
      Inr (rc_audit ctx STOCK_COUNT_REJECT u i (rc_reconciliation_no doc) d1)))"

section \<open>Approve\<close>

text \<open>The separation of duties: who may approve, and whether by an override.\<close>

definition self_approval ::
    "db \<Rightarrow> stock_reconciliation \<Rightarrow> current_user \<Rightarrow> rc_approve \<Rightarrow> error + bool" where
  "self_approval s doc u payload =
    (if rc_counted_by doc = cu_id u then
       if \<not> has_permission s (cu_role_id u) PERM_SELF_APPROVE_OVERRIDE
       then Inl (raise_class ReconciliationSelfApprovalException)
       else if \<not> rna_override_self_approval payload
       then Inl (raise_class ReconciliationSelfApprovalException)
       else if rna_override_reason payload \<in> {None, Some []}
       then Inl (raise_class ReconciliationOverrideReasonRequiredException)
       else Inr True
     else Inr False)"

definition check_rc_item :: "stock_reconciliation_item \<Rightarrow> error + unit" where
  "check_rc_item item =
    (if rci_physical_quantity item < 0
     then Inl (raise_code ConflictException RECONCILIATION_PHYSICAL_NEGATIVE)
     else check (\<not> (0 < rci_difference_quantity item
         \<and> (case rci_valuation_rate item of None \<Rightarrow> True | Some r \<Rightarrow> r \<le> 0)))
       (raise_class ReconciliationValuationRateRequiredException))"

definition value_or_0 :: "'a::zero option \<Rightarrow> 'a" where
  "value_or_0 x = (case x of None \<Rightarrow> 0 | Some v \<Rightarrow> v)"

text \<open>
  The snapshot guard of a line.  The watermark is read by a plain SELECT, so it
  is the watermark of the transaction's snapshot \<^verbatim>\<open>s\<close>; quantity and amount are
  those of the locked balance.
\<close>

definition snapshot_guard ::
    "db \<Rightarrow> balance_key \<Rightarrow> stock_reconciliation_item \<Rightarrow> inventory_balance \<Rightarrow> error + unit" where
  "snapshot_guard s k item balance =
    (if value_or_0 (ledger_watermark s k) \<noteq> value_or_0 (rci_book_last_transaction_id_snapshot item)
     then Inl (raise_class ReconciliationBalanceChangedException)
     else if ib_quantity balance \<noteq> rci_book_quantity_snapshot item
     then Inl (raise_class ReconciliationBalanceChangedException)
     else check (ib_total_amount balance = rci_book_total_amount_snapshot item)
       (raise_class ReconciliationBalanceChangedException))"

record adjust_header =
  ah_id :: nat
  ah_warehouse_id :: nat
  ah_now :: datetime
  ah_user_id :: nat

definition adjust_line ::
    "db \<Rightarrow> adjust_header \<Rightarrow> stock_reconciliation_item \<Rightarrow> (balance_key \<Rightarrow> decimal) \<times> db \<Rightarrow>
     error + (balance_key \<Rightarrow> decimal) \<times> db" where
  "adjust_line s h item run =
    (let (running, d) = run;
         diff = rci_difference_quantity item;
         k = (ah_warehouse_id h, rci_material_id item)
     in
     if diff = 0 then Inr run
     else
      rbind (locked_balance k d) (\<lambda>balance.
      rbind (snapshot_guard s k item balance) (\<lambda>_.
      let running' = running(k := running k + diff);
          amount = rci_adjustment_amount item
      in
      rbind (write_transaction \<lparr>it_id = 0, it_txn_no = [],
          it_transaction_type = (if 0 < diff then ADJUST_IN else ADJUST_OUT),
          it_warehouse_id = ah_warehouse_id h, it_material_id = rci_material_id item,
          it_quantity = diff,
          it_unit_cost = (if 0 < diff then value_or_0 (rci_valuation_rate item)
            else rci_book_avg_cost_snapshot item),
          it_amount = amount, it_balance_after = running' k,
          it_source_type = Some SRC_STOCK_RECONCILIATION, it_source_id = Some (ah_id h),
          it_source_item_id = Some (rci_id item), it_reversed_transaction_id = None,
          it_transaction_at = ah_now h, it_created_by = Some (ah_user_id h)\<rparr> d) (\<lambda>d1.
      rbind (if 0 < diff then apply_inbound k diff amount d1 else apply_outbound k (- diff) (- amount) d1)
        (\<lambda>d2. Inr (running', touch_balance k (ah_now h) d2))))))"

definition moving_keys :: "nat \<Rightarrow> stock_reconciliation_item list \<Rightarrow> balance_key list" where
  "moving_keys wid items = map (\<lambda>it. (wid, rci_material_id it))
    (filter (\<lambda>it. rci_difference_quantity it \<noteq> 0) items)"

definition approve_reconciliation ::
    "request_ctx \<Rightarrow> current_user \<Rightarrow> nat \<Rightarrow> rc_approve \<Rightarrow> db \<Rightarrow> db \<Rightarrow> error + db" where
  "approve_reconciliation ctx u i payload s d =
    rbind (load_rc i s) (\<lambda>doc0.
    if rc_status doc0 \<noteq> RC_PENDING then Inl (raise_class ReconciliationInvalidStatusException)
    else
      rbind (self_approval s doc0 u payload) (\<lambda>override.
      let items = rc_items i s; now = rq_now ctx in
      rbind (rall check_rc_item items) (\<lambda>_.
      rbind (require (rc_where i (\<lambda>r. rc_status r = RC_PENDING)
          (\<lambda>r. r\<lparr>rc_status := RC_POSTED, rc_posted_at := Some now, rc_approved_by := Some (cu_id u),
                 rc_approve_comment := rna_approve_comment payload,
                 rc_override_self_approval := override,
                 rc_override_reason := (if override then rna_override_reason payload else None),
                 rc_version := rc_version r + 1\<rparr>) d)
        (raise_class ReconciliationAlreadyProcessedException)) (\<lambda>d1.
      rbind (require (get_rc d1 i) StaleData) (\<lambda>doc.
      let (ks, d2) = lock_balances (moving_keys (rc_warehouse_id doc) items) d1;
          h = \<lparr>ah_id = i, ah_warehouse_id = rc_warehouse_id doc, ah_now = now, ah_user_id = cu_id u\<rparr>
      in
      rbind (rfold (adjust_line s h) items (balance_quantity d2, d2)) (\<lambda>run.
      Inr (rc_audit ctx STOCK_COUNT_APPROVE u i (rc_reconciliation_no doc) (snd run))))))))"

section \<open>Reads\<close>

definition read_reconciliation :: "nat \<Rightarrow> db \<Rightarrow> error + stock_reconciliation" where
  "read_reconciliation i s = load_rc i s"

record rc_filter =
  rnf_reconciliation_no :: "string option"
  rnf_warehouse_id :: "nat option"
  rnf_status :: "reconciliation_status option"
  rnf_counted_on_from :: "date option"
  rnf_counted_on_to :: "date option"

definition rc_matches ::
    "(string \<Rightarrow> string \<Rightarrow> bool) \<Rightarrow> rc_filter \<Rightarrow> stock_reconciliation \<Rightarrow> bool" where
  "rc_matches contains f r \<longleftrightarrow>
     text_cond (\<lambda>x. contains x (rc_reconciliation_no r)) (rnf_reconciliation_no f)
   \<and> opt_cond (\<lambda>x. rc_warehouse_id r = x) (rnf_warehouse_id f)
   \<and> opt_cond (\<lambda>x. rc_status r = x) (rnf_status f)
   \<and> opt_cond (\<lambda>x. x \<le> rc_counted_on r) (rnf_counted_on_from f)
   \<and> opt_cond (\<lambda>x. rc_counted_on r \<le> x) (rnf_counted_on_to f)"

text \<open>The rows of the page, the number of all matches, the number of lines per row.\<close>

definition list_reconciliations ::
    "(string \<Rightarrow> string \<Rightarrow> bool) \<Rightarrow> nat \<Rightarrow> nat \<Rightarrow> rc_filter \<Rightarrow> db \<Rightarrow>
     stock_reconciliation list \<times> nat \<times> (nat \<times> nat) list" where
  "list_reconciliations contains page page_size f s =
    (let rows = filter (rc_matches contains f) (stock_reconciliations s);
         shown = page_of page page_size (rev (sort_key rc_id rows));
         count = (\<lambda>i. length (filter (\<lambda>it. rci_reconciliation_id it = i) (stock_reconciliation_items s)))
     in (shown, length rows, filter (\<lambda>c. 0 < snd c) (map (\<lambda>r. (rc_id r, count (rc_id r))) shown)))"

end
