(* ===== verification/Api.thy ===== *)
theory Api
  imports Auth Masterdata Requisition Receipt Reconciliation
begin

text \<open>
  The HTTP interface (\<^verbatim>\<open>app/api/v1\<close>): who is calling, the permission guard, the
  validation of the payload, the service, and the answer.

  FastAPI resolves the dependencies of an endpoint before it validates the body, so
  a request is refused with 401, then 403, then 422.  The session of a request is
  one transaction whose first SELECT is that of \<^verbatim>\<open>get_current_user\<close>: the guard and
  the service read the same snapshot \<^verbatim>\<open>s\<close>.  An exception closes the session without
  a commit, so the live state stays as it was.
\<close>

section \<open>Requests and answers\<close>

text \<open>
  A request carries its clock and headers, the credentials, the libraries behind
  the login and the salted hash of this call.
\<close>

record http_request =
  hr_security :: security_env
  hr_hash :: "string \<Rightarrow> string"
  hr_ctx :: request_ctx
  hr_credentials :: "credentials option"

text \<open>The order in which the ORM flushes the lines of the two documents that replace lines\<close>

record flush_order =
  fo_pr :: "item_stmt list \<Rightarrow> item_stmt list"
  fo_count :: "rci_stmt list \<Rightarrow> rci_stmt list"

definition guarded ::
    "http_request \<Rightarrow> string \<Rightarrow> bool \<Rightarrow> (current_user \<Rightarrow> error + 'a) \<Rightarrow> db \<Rightarrow> error + 'a" where
  "guarded rq pcode valid handler s =
    rbind (get_current_user (hr_security rq) (rq_now (hr_ctx rq)) (hr_credentials rq) s) (\<lambda>u.
    rbind (require_perm pcode u s) (\<lambda>_.
    rbind (check valid (raise_class ValidationException)) (\<lambda>_.
    handler u)))"

text \<open>The answer to an error is that of the exception handlers, to a success code 0.\<close>

definition OK_RESPONSE :: error_response where
  "OK_RESPONSE = \<lparr>resp_status = 200, resp_code = error_code_value OK\<rparr>"

definition respond ::
    "(db_violation \<Rightarrow> bool) \<Rightarrow> db \<Rightarrow> error + db \<Rightarrow> error_response \<times> db" where
  "respond is_integrity_error d m =
    (case m of Inl err \<Rightarrow> (handle_error is_integrity_error err, d) | Inr d' \<Rightarrow> (OK_RESPONSE, d'))"

section \<open>Text in payloads\<close>

text \<open>\<^verbatim>\<open>str.strip()\<close> for the code points below 256\<close>

definition py_space :: "char \<Rightarrow> bool" where
  "py_space c \<longleftrightarrow> (let n = (of_char c :: nat) in
    (9 \<le> n \<and> n \<le> 13) \<or> (28 \<le> n \<and> n \<le> 32) \<or> n = 133 \<or> n = 160)"

definition py_strip :: "string \<Rightarrow> string" where
  "py_strip t = rev (dropWhile py_space (rev (dropWhile py_space t)))"

definition valid_reason :: "string \<Rightarrow> bool" where
  "valid_reason t \<longleftrightarrow> length t \<le> 1000 \<and> py_strip t \<noteq> []"

definition valid_rc_approve :: "rc_approve \<Rightarrow> bool" where
  "valid_rc_approve x \<longleftrightarrow> opt_len 0 1000 (rna_approve_comment x) \<and> opt_len 0 500 (rna_override_reason x)"

definition approve_in :: "rc_approve \<Rightarrow> rc_approve" where
  "approve_in x = x\<lparr>rna_override_reason :=
    (case rna_override_reason x of None \<Rightarrow> None
     | Some t \<Rightarrow> if py_strip t = [] then None else Some (py_strip t))\<rparr>"

section \<open>Purchase requisitions (app/api/v1/purchase_requisitions.py)\<close>

definition create_pr_endpoint ::
    "http_request \<Rightarrow> pr_create \<Rightarrow> db \<Rightarrow> db \<Rightarrow> error + db" where
  "create_pr_endpoint rq data s d =
    guarded rq ''pr:create'' (valid_pr_create data)
      (\<lambda>u. create_pr (hr_ctx rq) u data s d) s"

definition update_pr_endpoint ::
    "flush_order \<Rightarrow> http_request \<Rightarrow> nat \<Rightarrow> pr_update \<Rightarrow> db \<Rightarrow> db \<Rightarrow> error + db" where
  "update_pr_endpoint fo rq i data s d =
    guarded rq ''pr:update'' (valid_pr_update data)
      (\<lambda>u. update_pr (fo_pr fo) (hr_ctx rq) u i data s d) s"

definition submit_pr_endpoint ::
    "http_request \<Rightarrow> nat \<Rightarrow> db \<Rightarrow> db \<Rightarrow> error + db" where
  "submit_pr_endpoint rq i s d =
    guarded rq ''pr:submit'' (True)
      (\<lambda>u. submit_pr (hr_ctx rq) u i s d) s"

definition cancel_pr_endpoint ::
    "http_request \<Rightarrow> nat \<Rightarrow> db \<Rightarrow> db \<Rightarrow> error + db" where
  "cancel_pr_endpoint rq i s d =
    guarded rq ''pr:cancel'' (True)
      (\<lambda>u. cancel_pr (hr_ctx rq) u i s d) s"

definition approve_pr_endpoint ::
    "http_request \<Rightarrow> nat \<Rightarrow> nat \<Rightarrow> string option \<Rightarrow> db \<Rightarrow> db \<Rightarrow> error + db" where
  "approve_pr_endpoint rq i v comment s d =
    guarded rq ''pr:approve'' (1 \<le> v \<and> opt_len 0 1000 comment)
      (\<lambda>u. approve_pr (hr_ctx rq) u i v comment s d) s"

definition reject_pr_endpoint ::
    "http_request \<Rightarrow> nat \<Rightarrow> nat \<Rightarrow> string \<Rightarrow> db \<Rightarrow> db \<Rightarrow> error + db" where
  "reject_pr_endpoint rq i v comment s d =
    guarded rq ''pr:reject'' (1 \<le> v \<and> valid_reason comment)
      (\<lambda>u. reject_pr (hr_ctx rq) u i v (py_strip comment) s d) s"

definition revise_pr_endpoint ::
    "http_request \<Rightarrow> nat \<Rightarrow> nat \<Rightarrow> db \<Rightarrow> db \<Rightarrow> error + db" where
  "revise_pr_endpoint rq i v s d =
    guarded rq ''pr:update'' (1 \<le> v)
      (\<lambda>u. revise_pr (hr_ctx rq) u i v s d) s"

section \<open>Purchase orders (app/api/v1/purchase_orders.py)\<close>

definition create_po_endpoint ::
    "http_request \<Rightarrow> po_create \<Rightarrow> db \<Rightarrow> db \<Rightarrow> error + db" where
  "create_po_endpoint rq data s d =
    guarded rq ''po:create'' (valid_po_create data)
      (\<lambda>u. create_po (hr_ctx rq) u data s d) s"

definition confirm_po_endpoint ::
    "http_request \<Rightarrow> nat \<Rightarrow> nat \<Rightarrow> string option \<Rightarrow> db \<Rightarrow> db \<Rightarrow> error + db" where
  "confirm_po_endpoint rq i v comment s d =
    guarded rq ''po:confirm'' (1 \<le> v \<and> opt_len 0 500 comment)
      (\<lambda>u. confirm_po (hr_ctx rq) u i v s d) s"

definition cancel_po_endpoint ::
    "http_request \<Rightarrow> nat \<Rightarrow> nat \<Rightarrow> string option \<Rightarrow> db \<Rightarrow> db \<Rightarrow> error + db" where
  "cancel_po_endpoint rq i v reason s d =
    guarded rq ''po:cancel'' (1 \<le> v \<and> opt_len 0 500 reason)
      (\<lambda>u. cancel_po (hr_ctx rq) u i v s d) s"

section \<open>Purchase receipts (app/api/v1/purchase_receipts.py)\<close>

definition create_receipt_endpoint ::
    "http_request \<Rightarrow> receipt_create \<Rightarrow> db \<Rightarrow> db \<Rightarrow> error + db" where
  "create_receipt_endpoint rq data s d =
    guarded rq ''receipt:create'' (valid_receipt_create data)
      (\<lambda>u. create_receipt (hr_ctx rq) u data s d) s"

definition reverse_receipt_endpoint ::
    "http_request \<Rightarrow> nat \<Rightarrow> string \<Rightarrow> db \<Rightarrow> db \<Rightarrow> error + db" where
  "reverse_receipt_endpoint rq i reason s d =
    guarded rq ''receipt:reverse'' (valid_reason reason)
      (\<lambda>u. reverse_receipt (hr_ctx rq) u i (py_strip reason) s d) s"

section \<open>Stock counts (app/api/v1/stock_reconciliations.py)\<close>

definition create_reconciliation_endpoint ::
    "http_request \<Rightarrow> rc_create \<Rightarrow> db \<Rightarrow> db \<Rightarrow> error + db" where
  "create_reconciliation_endpoint rq data s d =
    guarded rq ''reconcile:create'' (valid_rc_create data)
      (\<lambda>u. create_reconciliation (hr_ctx rq) u data s d) s"

definition update_reconciliation_endpoint ::
    "flush_order \<Rightarrow> http_request \<Rightarrow> nat \<Rightarrow> rc_update \<Rightarrow> db \<Rightarrow> db \<Rightarrow> error + db" where
  "update_reconciliation_endpoint fo rq i data s d =
    guarded rq ''reconcile:update'' (valid_rc_update data)
      (\<lambda>u. update_reconciliation (fo_count fo) (hr_ctx rq) u i data s d) s"

definition submit_reconciliation_endpoint ::
    "http_request \<Rightarrow> nat \<Rightarrow> nat \<Rightarrow> db \<Rightarrow> db \<Rightarrow> error + db" where
  "submit_reconciliation_endpoint rq i v s d =
    guarded rq ''reconcile:submit'' (1 \<le> v)
      (\<lambda>u. submit_reconciliation (hr_ctx rq) u i v s d) s"

definition approve_reconciliation_endpoint ::
    "http_request \<Rightarrow> nat \<Rightarrow> rc_approve \<Rightarrow> db \<Rightarrow> db \<Rightarrow> error + db" where
  "approve_reconciliation_endpoint rq i data s d =
    guarded rq ''reconcile:approve'' (valid_rc_approve data)
      (\<lambda>u. approve_reconciliation (hr_ctx rq) u i (approve_in data) s d) s"

definition reject_reconciliation_endpoint ::
    "http_request \<Rightarrow> nat \<Rightarrow> string \<Rightarrow> db \<Rightarrow> db \<Rightarrow> error + db" where
  "reject_reconciliation_endpoint rq i comment s d =
    guarded rq ''reconcile:reject'' (valid_reason comment)
      (\<lambda>u. reject_reconciliation (hr_ctx rq) u i (py_strip comment) s d) s"

section \<open>Master data (app/api/v1/materials.py, suppliers.py, warehouses.py, inventory_policies.py)\<close>

definition create_material_endpoint ::
    "http_request \<Rightarrow> material_create \<Rightarrow> db \<Rightarrow> db \<Rightarrow> error + db" where
  "create_material_endpoint rq data s d =
    guarded rq ''material:create'' (valid_material_create data)
      (\<lambda>u. create_material (hr_ctx rq) (Some (cu_username u)) data d) s"

definition update_material_endpoint ::
    "http_request \<Rightarrow> nat \<Rightarrow> material_update \<Rightarrow> db \<Rightarrow> db \<Rightarrow> error + db" where
  "update_material_endpoint rq i data s d =
    guarded rq ''material:update'' (valid_material_update data)
      (\<lambda>u. update_material (hr_ctx rq) (Some (cu_username u)) i data s d) s"

definition disable_material_endpoint ::
    "http_request \<Rightarrow> nat \<Rightarrow> db \<Rightarrow> db \<Rightarrow> error + db" where
  "disable_material_endpoint rq i s d =
    guarded rq ''material:delete'' (True)
      (\<lambda>u. disable_material (hr_ctx rq) (Some (cu_username u)) i s d) s"

definition enable_material_endpoint ::
    "http_request \<Rightarrow> nat \<Rightarrow> db \<Rightarrow> db \<Rightarrow> error + db" where
  "enable_material_endpoint rq i s d =
    guarded rq ''material:update'' (True)
      (\<lambda>u. enable_material (hr_ctx rq) (Some (cu_username u)) i s d) s"

definition create_supplier_endpoint ::
    "http_request \<Rightarrow> supplier_create \<Rightarrow> db \<Rightarrow> db \<Rightarrow> error + db" where
  "create_supplier_endpoint rq data s d =
    guarded rq ''supplier:create'' (valid_supplier_create data)
      (\<lambda>u. create_supplier (hr_ctx rq) (Some (cu_username u)) data d) s"

definition update_supplier_endpoint ::
    "http_request \<Rightarrow> nat \<Rightarrow> supplier_update \<Rightarrow> db \<Rightarrow> db \<Rightarrow> error + db" where
  "update_supplier_endpoint rq i data s d =
    guarded rq ''supplier:update'' (valid_supplier_update data)
      (\<lambda>u. update_supplier (hr_ctx rq) (Some (cu_username u)) i data s d) s"

definition disable_supplier_endpoint ::
    "http_request \<Rightarrow> nat \<Rightarrow> db \<Rightarrow> db \<Rightarrow> error + db" where
  "disable_supplier_endpoint rq i s d =
    guarded rq ''supplier:delete'' (True)
      (\<lambda>u. disable_supplier (hr_ctx rq) (Some (cu_username u)) i s d) s"

definition enable_supplier_endpoint ::
    "http_request \<Rightarrow> nat \<Rightarrow> db \<Rightarrow> db \<Rightarrow> error + db" where
  "enable_supplier_endpoint rq i s d =
    guarded rq ''supplier:update'' (True)
      (\<lambda>u. enable_supplier (hr_ctx rq) (Some (cu_username u)) i s d) s"

definition create_warehouse_endpoint ::
    "http_request \<Rightarrow> warehouse_create \<Rightarrow> db \<Rightarrow> db \<Rightarrow> error + db" where
  "create_warehouse_endpoint rq data s d =
    guarded rq ''warehouse:create'' (valid_warehouse_create data)
      (\<lambda>u. create_warehouse (hr_ctx rq) (Some (cu_username u)) data d) s"

definition update_warehouse_endpoint ::
    "http_request \<Rightarrow> nat \<Rightarrow> warehouse_update \<Rightarrow> db \<Rightarrow> db \<Rightarrow> error + db" where
  "update_warehouse_endpoint rq i data s d =
    guarded rq ''warehouse:update'' (valid_warehouse_update data)
      (\<lambda>u. update_warehouse (hr_ctx rq) (Some (cu_username u)) i data s d) s"

definition disable_warehouse_endpoint ::
    "http_request \<Rightarrow> nat \<Rightarrow> db \<Rightarrow> db \<Rightarrow> error + db" where
  "disable_warehouse_endpoint rq i s d =
    guarded rq ''warehouse:delete'' (True)
      (\<lambda>u. disable_warehouse (hr_ctx rq) (Some (cu_username u)) i s d) s"

definition enable_warehouse_endpoint ::
    "http_request \<Rightarrow> nat \<Rightarrow> db \<Rightarrow> db \<Rightarrow> error + db" where
  "enable_warehouse_endpoint rq i s d =
    guarded rq ''warehouse:update'' (True)
      (\<lambda>u. enable_warehouse (hr_ctx rq) (Some (cu_username u)) i s d) s"

definition create_policy_endpoint ::
    "http_request \<Rightarrow> policy_create \<Rightarrow> db \<Rightarrow> db \<Rightarrow> error + db" where
  "create_policy_endpoint rq data s d =
    guarded rq ''inventory_policy:create'' (valid_policy_create data)
      (\<lambda>u. create_policy (hr_ctx rq) (Some (cu_username u)) data s d) s"

definition update_policy_endpoint ::
    "http_request \<Rightarrow> nat \<Rightarrow> policy_update \<Rightarrow> db \<Rightarrow> db \<Rightarrow> error + db" where
  "update_policy_endpoint rq i data s d =
    guarded rq ''inventory_policy:update'' (valid_policy_update data)
      (\<lambda>u. update_policy (hr_ctx rq) (Some (cu_username u)) i data s d) s"

section \<open>Users, roles, departments (app/api/v1/users.py, roles.py, departments.py)\<close>

definition create_user_endpoint ::
    "http_request \<Rightarrow> user_create \<Rightarrow> db \<Rightarrow> db \<Rightarrow> error + db" where
  "create_user_endpoint rq data s d =
    guarded rq ''user:create'' (valid_user_create data)
      (\<lambda>u. create_user (se_same (hr_security rq)) (hr_hash rq) data s d) s"

definition update_user_endpoint ::
    "http_request \<Rightarrow> nat \<Rightarrow> user_update \<Rightarrow> db \<Rightarrow> db \<Rightarrow> error + db" where
  "update_user_endpoint rq i data s d =
    guarded rq ''user:update'' (valid_user_update data)
      (\<lambda>u. update_user (hr_hash rq) i data s d) s"

definition disable_user_endpoint ::
    "http_request \<Rightarrow> nat \<Rightarrow> db \<Rightarrow> db \<Rightarrow> error + db" where
  "disable_user_endpoint rq i s d =
    guarded rq ''user:delete'' (True)
      (\<lambda>u. disable_user i s d) s"

definition create_role_endpoint ::
    "http_request \<Rightarrow> role_create \<Rightarrow> db \<Rightarrow> db \<Rightarrow> error + db" where
  "create_role_endpoint rq data s d =
    guarded rq ''role:create'' (valid_role_create data)
      (\<lambda>u. create_role data s d) s"

definition update_role_endpoint ::
    "http_request \<Rightarrow> nat \<Rightarrow> role_update \<Rightarrow> db \<Rightarrow> db \<Rightarrow> error + db" where
  "update_role_endpoint rq i data s d =
    guarded rq ''role:update'' (valid_role_update data)
      (\<lambda>u. update_role i data s d) s"

definition delete_role_endpoint ::
    "http_request \<Rightarrow> nat \<Rightarrow> db \<Rightarrow> db \<Rightarrow> error + db" where
  "delete_role_endpoint rq i s d =
    guarded rq ''role:delete'' (True)
      (\<lambda>u. delete_role i s d) s"

definition assign_permissions_endpoint ::
    "http_request \<Rightarrow> nat \<Rightarrow> nat list \<Rightarrow> db \<Rightarrow> db \<Rightarrow> error + db" where
  "assign_permissions_endpoint rq i ids s d =
    guarded rq ''role:assign'' (True)
      (\<lambda>u. assign_permissions (hr_ctx rq) u i ids s d) s"

definition create_department_endpoint ::
    "http_request \<Rightarrow> department_create \<Rightarrow> db \<Rightarrow> db \<Rightarrow> error + db" where
  "create_department_endpoint rq data s d =
    guarded rq ''department:create'' (valid_department_create data)
      (\<lambda>u. create_department (se_same (hr_security rq)) data s d) s"

definition update_department_endpoint ::
    "http_request \<Rightarrow> nat \<Rightarrow> department_update \<Rightarrow> db \<Rightarrow> db \<Rightarrow> error + db" where
  "update_department_endpoint rq i data s d =
    guarded rq ''department:update'' (valid_department_update data)
      (\<lambda>u. update_department i data s d) s"

definition disable_department_endpoint ::
    "http_request \<Rightarrow> nat \<Rightarrow> db \<Rightarrow> db \<Rightarrow> error + db" where
  "disable_department_endpoint rq i s d =
    guarded rq ''department:delete'' (True)
      (\<lambda>u. disable_department i s d) s"

section \<open>All changing requests\<close>

text \<open>The endpoints that change the state behind a permission guard; the login is apart.\<close>

datatype (plugins only: code) api_request =
  PostPr pr_create
| PutPr nat pr_update
| SubmitPr nat
| CancelPr nat
| ApprovePr nat nat "string option"
| RejectPr nat nat string
| RevisePr nat nat
| PostPo po_create
| ConfirmPo nat nat "string option"
| CancelPo nat nat "string option"
| PostReceipt receipt_create
| ReverseReceipt nat string
| PostCount rc_create
| PutCount nat rc_update
| SubmitCount nat nat
| ApproveCount nat rc_approve
| RejectCount nat string
| PostMaterial material_create
| PutMaterial nat material_update
| DisableMaterial nat
| EnableMaterial nat
| PostSupplier supplier_create
| PutSupplier nat supplier_update
| DisableSupplier nat
| EnableSupplier nat
| PostWarehouse warehouse_create
| PutWarehouse nat warehouse_update
| DisableWarehouse nat
| EnableWarehouse nat
| PostPolicy policy_create
| PutPolicy nat policy_update
| PostUser user_create
| PutUser nat user_update
| DeleteUser nat
| PostRole role_create
| PutRole nat role_update
| DeleteRole nat
| AssignPermissions nat "nat list"
| PostDepartment department_create
| PutDepartment nat department_update
| DeleteDepartment nat

primrec dispatch ::
    "flush_order \<Rightarrow> http_request \<Rightarrow> api_request \<Rightarrow> db \<Rightarrow> db \<Rightarrow> error + db" where
  "dispatch fo rq (PostPr data) s d = create_pr_endpoint rq data s d"
| "dispatch fo rq (PutPr i data) s d = update_pr_endpoint fo rq i data s d"
| "dispatch fo rq (SubmitPr i) s d = submit_pr_endpoint rq i s d"
| "dispatch fo rq (CancelPr i) s d = cancel_pr_endpoint rq i s d"
| "dispatch fo rq (ApprovePr i v comment) s d = approve_pr_endpoint rq i v comment s d"
| "dispatch fo rq (RejectPr i v comment) s d = reject_pr_endpoint rq i v comment s d"
| "dispatch fo rq (RevisePr i v) s d = revise_pr_endpoint rq i v s d"
| "dispatch fo rq (PostPo data) s d = create_po_endpoint rq data s d"
| "dispatch fo rq (ConfirmPo i v comment) s d = confirm_po_endpoint rq i v comment s d"
| "dispatch fo rq (CancelPo i v reason) s d = cancel_po_endpoint rq i v reason s d"
| "dispatch fo rq (PostReceipt data) s d = create_receipt_endpoint rq data s d"
| "dispatch fo rq (ReverseReceipt i reason) s d = reverse_receipt_endpoint rq i reason s d"
| "dispatch fo rq (PostCount data) s d = create_reconciliation_endpoint rq data s d"
| "dispatch fo rq (PutCount i data) s d = update_reconciliation_endpoint fo rq i data s d"
| "dispatch fo rq (SubmitCount i v) s d = submit_reconciliation_endpoint rq i v s d"
| "dispatch fo rq (ApproveCount i data) s d = approve_reconciliation_endpoint rq i data s d"
| "dispatch fo rq (RejectCount i comment) s d = reject_reconciliation_endpoint rq i comment s d"
| "dispatch fo rq (PostMaterial data) s d = create_material_endpoint rq data s d"
| "dispatch fo rq (PutMaterial i data) s d = update_material_endpoint rq i data s d"
| "dispatch fo rq (DisableMaterial i) s d = disable_material_endpoint rq i s d"
| "dispatch fo rq (EnableMaterial i) s d = enable_material_endpoint rq i s d"
| "dispatch fo rq (PostSupplier data) s d = create_supplier_endpoint rq data s d"
| "dispatch fo rq (PutSupplier i data) s d = update_supplier_endpoint rq i data s d"
| "dispatch fo rq (DisableSupplier i) s d = disable_supplier_endpoint rq i s d"
| "dispatch fo rq (EnableSupplier i) s d = enable_supplier_endpoint rq i s d"
| "dispatch fo rq (PostWarehouse data) s d = create_warehouse_endpoint rq data s d"
| "dispatch fo rq (PutWarehouse i data) s d = update_warehouse_endpoint rq i data s d"
| "dispatch fo rq (DisableWarehouse i) s d = disable_warehouse_endpoint rq i s d"
| "dispatch fo rq (EnableWarehouse i) s d = enable_warehouse_endpoint rq i s d"
| "dispatch fo rq (PostPolicy data) s d = create_policy_endpoint rq data s d"
| "dispatch fo rq (PutPolicy i data) s d = update_policy_endpoint rq i data s d"
| "dispatch fo rq (PostUser data) s d = create_user_endpoint rq data s d"
| "dispatch fo rq (PutUser i data) s d = update_user_endpoint rq i data s d"
| "dispatch fo rq (DeleteUser i) s d = disable_user_endpoint rq i s d"
| "dispatch fo rq (PostRole data) s d = create_role_endpoint rq data s d"
| "dispatch fo rq (PutRole i data) s d = update_role_endpoint rq i data s d"
| "dispatch fo rq (DeleteRole i) s d = delete_role_endpoint rq i s d"
| "dispatch fo rq (AssignPermissions i ids) s d = assign_permissions_endpoint rq i ids s d"
| "dispatch fo rq (PostDepartment data) s d = create_department_endpoint rq data s d"
| "dispatch fo rq (PutDepartment i data) s d = update_department_endpoint rq i data s d"
| "dispatch fo rq (DeleteDepartment i) s d = disable_department_endpoint rq i s d"

definition serve ::
    "(db_violation \<Rightarrow> bool) \<Rightarrow> flush_order \<Rightarrow> http_request \<Rightarrow> api_request \<Rightarrow> db \<Rightarrow> db \<Rightarrow>
     error_response \<times> db" where
  "serve is_integrity_error fo rq req s d = respond is_integrity_error d (dispatch fo rq req s d)"

definition valid_login :: "string \<Rightarrow> string \<Rightarrow> bool" where
  "valid_login username password \<longleftrightarrow> text_len 1 64 username \<and> text_len 1 128 password"

definition login_endpoint ::
    "(db_violation \<Rightarrow> bool) \<Rightarrow> http_request \<Rightarrow> string \<Rightarrow> string \<Rightarrow> db \<Rightarrow> db \<Rightarrow>
     (error_response \<times> (string \<times> nat) option) \<times> db" where
  "login_endpoint is_integrity_error rq username password s d =
    (if \<not> valid_login username password
     then ((handle_error is_integrity_error (raise_class ValidationException), None), d)
     else case login (hr_security rq) (hr_ctx rq) username password s d of
         (Inl err, d') \<Rightarrow> ((handle_error is_integrity_error err, None), d')
       | (Inr token, d') \<Rightarrow> ((OK_RESPONSE, Some token), d'))"

section \<open>What the endpoints ask for\<close>

text \<open>The access matrix of the interface: the permission code of each request.\<close>

primrec request_permission :: "api_request \<Rightarrow> string" where
  "request_permission (PostPr data) = ''pr:create''"
| "request_permission (PutPr i data) = ''pr:update''"
| "request_permission (SubmitPr i) = ''pr:submit''"
| "request_permission (CancelPr i) = ''pr:cancel''"
| "request_permission (ApprovePr i v comment) = ''pr:approve''"
| "request_permission (RejectPr i v comment) = ''pr:reject''"
| "request_permission (RevisePr i v) = ''pr:update''"
| "request_permission (PostPo data) = ''po:create''"
| "request_permission (ConfirmPo i v comment) = ''po:confirm''"
| "request_permission (CancelPo i v reason) = ''po:cancel''"
| "request_permission (PostReceipt data) = ''receipt:create''"
| "request_permission (ReverseReceipt i reason) = ''receipt:reverse''"
| "request_permission (PostCount data) = ''reconcile:create''"
| "request_permission (PutCount i data) = ''reconcile:update''"
| "request_permission (SubmitCount i v) = ''reconcile:submit''"
| "request_permission (ApproveCount i data) = ''reconcile:approve''"
| "request_permission (RejectCount i comment) = ''reconcile:reject''"
| "request_permission (PostMaterial data) = ''material:create''"
| "request_permission (PutMaterial i data) = ''material:update''"
| "request_permission (DisableMaterial i) = ''material:delete''"
| "request_permission (EnableMaterial i) = ''material:update''"
| "request_permission (PostSupplier data) = ''supplier:create''"
| "request_permission (PutSupplier i data) = ''supplier:update''"
| "request_permission (DisableSupplier i) = ''supplier:delete''"
| "request_permission (EnableSupplier i) = ''supplier:update''"
| "request_permission (PostWarehouse data) = ''warehouse:create''"
| "request_permission (PutWarehouse i data) = ''warehouse:update''"
| "request_permission (DisableWarehouse i) = ''warehouse:delete''"
| "request_permission (EnableWarehouse i) = ''warehouse:update''"
| "request_permission (PostPolicy data) = ''inventory_policy:create''"
| "request_permission (PutPolicy i data) = ''inventory_policy:update''"
| "request_permission (PostUser data) = ''user:create''"
| "request_permission (PutUser i data) = ''user:update''"
| "request_permission (DeleteUser i) = ''user:delete''"
| "request_permission (PostRole data) = ''role:create''"
| "request_permission (PutRole i data) = ''role:update''"
| "request_permission (DeleteRole i) = ''role:delete''"
| "request_permission (AssignPermissions i ids) = ''role:assign''"
| "request_permission (PostDepartment data) = ''department:create''"
| "request_permission (PutDepartment i data) = ''department:update''"
| "request_permission (DeleteDepartment i) = ''department:delete''"

primrec request_valid :: "api_request \<Rightarrow> bool" where
  "request_valid (PostPr data) \<longleftrightarrow> valid_pr_create data"
| "request_valid (PutPr i data) \<longleftrightarrow> valid_pr_update data"
| "request_valid (SubmitPr i) \<longleftrightarrow> True"
| "request_valid (CancelPr i) \<longleftrightarrow> True"
| "request_valid (ApprovePr i v comment) \<longleftrightarrow> 1 \<le> v \<and> opt_len 0 1000 comment"
| "request_valid (RejectPr i v comment) \<longleftrightarrow> 1 \<le> v \<and> valid_reason comment"
| "request_valid (RevisePr i v) \<longleftrightarrow> 1 \<le> v"
| "request_valid (PostPo data) \<longleftrightarrow> valid_po_create data"
| "request_valid (ConfirmPo i v comment) \<longleftrightarrow> 1 \<le> v \<and> opt_len 0 500 comment"
| "request_valid (CancelPo i v reason) \<longleftrightarrow> 1 \<le> v \<and> opt_len 0 500 reason"
| "request_valid (PostReceipt data) \<longleftrightarrow> valid_receipt_create data"
| "request_valid (ReverseReceipt i reason) \<longleftrightarrow> valid_reason reason"
| "request_valid (PostCount data) \<longleftrightarrow> valid_rc_create data"
| "request_valid (PutCount i data) \<longleftrightarrow> valid_rc_update data"
| "request_valid (SubmitCount i v) \<longleftrightarrow> 1 \<le> v"
| "request_valid (ApproveCount i data) \<longleftrightarrow> valid_rc_approve data"
| "request_valid (RejectCount i comment) \<longleftrightarrow> valid_reason comment"
| "request_valid (PostMaterial data) \<longleftrightarrow> valid_material_create data"
| "request_valid (PutMaterial i data) \<longleftrightarrow> valid_material_update data"
| "request_valid (DisableMaterial i) \<longleftrightarrow> True"
| "request_valid (EnableMaterial i) \<longleftrightarrow> True"
| "request_valid (PostSupplier data) \<longleftrightarrow> valid_supplier_create data"
| "request_valid (PutSupplier i data) \<longleftrightarrow> valid_supplier_update data"
| "request_valid (DisableSupplier i) \<longleftrightarrow> True"
| "request_valid (EnableSupplier i) \<longleftrightarrow> True"
| "request_valid (PostWarehouse data) \<longleftrightarrow> valid_warehouse_create data"
| "request_valid (PutWarehouse i data) \<longleftrightarrow> valid_warehouse_update data"
| "request_valid (DisableWarehouse i) \<longleftrightarrow> True"
| "request_valid (EnableWarehouse i) \<longleftrightarrow> True"
| "request_valid (PostPolicy data) \<longleftrightarrow> valid_policy_create data"
| "request_valid (PutPolicy i data) \<longleftrightarrow> valid_policy_update data"
| "request_valid (PostUser data) \<longleftrightarrow> valid_user_create data"
| "request_valid (PutUser i data) \<longleftrightarrow> valid_user_update data"
| "request_valid (DeleteUser i) \<longleftrightarrow> True"
| "request_valid (PostRole data) \<longleftrightarrow> valid_role_create data"
| "request_valid (PutRole i data) \<longleftrightarrow> valid_role_update data"
| "request_valid (DeleteRole i) \<longleftrightarrow> True"
| "request_valid (AssignPermissions i ids) \<longleftrightarrow> True"
| "request_valid (PostDepartment data) \<longleftrightarrow> valid_department_create data"
| "request_valid (PutDepartment i data) \<longleftrightarrow> valid_department_update data"
| "request_valid (DeleteDepartment i) \<longleftrightarrow> True"

lemmas endpoint_defs =
  create_pr_endpoint_def update_pr_endpoint_def submit_pr_endpoint_def cancel_pr_endpoint_def
  approve_pr_endpoint_def reject_pr_endpoint_def revise_pr_endpoint_def create_po_endpoint_def
  confirm_po_endpoint_def cancel_po_endpoint_def create_receipt_endpoint_def
  reverse_receipt_endpoint_def create_reconciliation_endpoint_def
  update_reconciliation_endpoint_def submit_reconciliation_endpoint_def
  approve_reconciliation_endpoint_def reject_reconciliation_endpoint_def
  create_material_endpoint_def update_material_endpoint_def disable_material_endpoint_def
  enable_material_endpoint_def create_supplier_endpoint_def update_supplier_endpoint_def
  disable_supplier_endpoint_def enable_supplier_endpoint_def create_warehouse_endpoint_def
  update_warehouse_endpoint_def disable_warehouse_endpoint_def enable_warehouse_endpoint_def
  create_policy_endpoint_def update_policy_endpoint_def create_user_endpoint_def
  update_user_endpoint_def disable_user_endpoint_def create_role_endpoint_def
  update_role_endpoint_def delete_role_endpoint_def assign_permissions_endpoint_def
  create_department_endpoint_def update_department_endpoint_def disable_department_endpoint_def

end
