(* ===== verification/Inventory_Queries.thy ===== *)
theory Inventory_Queries
  imports Inventory
begin

text \<open>
  The read side of the stock: \<^verbatim>\<open>list_balances\<close> and \<^verbatim>\<open>list_transactions\<close> of
  \<^verbatim>\<open>app/services/inventory_service.py\<close> with the joins of their statements, and
  the two endpoints of \<^verbatim>\<open>app/api/v1/inventory.py\<close> that resolve the document number
  of a ledger row.  \<^verbatim>\<open>contains x t\<close> is the database's \<^verbatim>\<open>t LIKE '%x%'\<close>.
\<close>

section \<open>Balances\<close>

record balance_row_out =
  br_warehouse_id :: nat
  br_warehouse_code :: string
  br_warehouse_name :: string
  br_material_id :: nat
  br_material_code :: string
  br_material_name :: string
  br_unit :: string
  br_quantity :: decimal
  br_average_unit_cost :: decimal
  br_total_amount :: decimal
  br_safety_stock :: "decimal option"
  br_is_below_safety_stock :: bool
  br_last_transaction_at :: "datetime option"

record balance_filter =
  bf_warehouse_id :: "nat option"
  bf_material_id :: "nat option"
  bf_material_code :: "string option"
  bf_material_name :: "string option"
  bf_below_safety_stock :: "bool option"

text \<open>The ON conditions of the joins; an outer join keeps a balance without a policy.\<close>

definition warehouses_of :: "inventory_balance \<Rightarrow> db \<Rightarrow> warehouse list" where
  "warehouses_of b s = filter (\<lambda>w. wh_id w = ib_warehouse_id b) (warehouses s)"

definition materials_of :: "inventory_balance \<Rightarrow> db \<Rightarrow> material list" where
  "materials_of b s = filter (\<lambda>m. mat_id m = ib_material_id b) (materials s)"

definition policies_of :: "inventory_balance \<Rightarrow> db \<Rightarrow> inventory_policy list" where
  "policies_of b s = filter (\<lambda>p. pol_warehouse_id p = ib_warehouse_id b
    \<and> pol_material_id p = ib_material_id b) (inventory_policies s)"

definition outer_safety :: "inventory_balance \<Rightarrow> db \<Rightarrow> decimal option list" where
  "outer_safety b s =
    (case policies_of b s of [] \<Rightarrow> [None] | ps \<Rightarrow> map (\<lambda>p. Some (pol_safety_stock p)) ps)"

definition below_safety :: "inventory_balance \<Rightarrow> decimal option \<Rightarrow> bool" where
  "below_safety b ss = (case ss of None \<Rightarrow> False | Some v \<Rightarrow> ib_quantity b < v)"

definition balance_joined ::
    "db \<Rightarrow> (inventory_balance \<times> warehouse \<times> material \<times> decimal option) list" where
  "balance_joined s = concat (map (\<lambda>b. concat (map (\<lambda>w. concat (map (\<lambda>m.
      map (\<lambda>ss. (b, w, m, ss)) (outer_safety b s))
    (materials_of b s))) (warehouses_of b s))) (inventory_balances s))"

definition balance_row_matches ::
    "(string \<Rightarrow> string \<Rightarrow> bool) \<Rightarrow> balance_filter \<Rightarrow>
     inventory_balance \<times> warehouse \<times> material \<times> decimal option \<Rightarrow> bool" where
  "balance_row_matches contains f = (\<lambda>(b, w, m, ss).
     opt_cond (\<lambda>x. ib_warehouse_id b = x) (bf_warehouse_id f)
   \<and> opt_cond (\<lambda>x. ib_material_id b = x) (bf_material_id f)
   \<and> text_cond (\<lambda>x. contains x (mat_material_code m)) (bf_material_code f)
   \<and> text_cond (\<lambda>x. contains x (mat_material_name m)) (bf_material_name f)
   \<and> opt_cond (\<lambda>x. below_safety b ss = x) (bf_below_safety_stock f))"

text \<open>
  The count is a statement of its own: it joins the policy only when the filter
  needs it and looks the material up in a subquery.
\<close>

definition balance_counted ::
    "balance_filter \<Rightarrow> db \<Rightarrow> (inventory_balance \<times> decimal option) list" where
  "balance_counted f s = concat (map (\<lambda>b. concat (map (\<lambda>w. concat (map (\<lambda>m.
      (case bf_below_safety_stock f of None \<Rightarrow> [(b, None)]
       | Some _ \<Rightarrow> map (\<lambda>ss. (b, ss)) (outer_safety b s)))
    (materials_of b s))) (warehouses_of b s))) (inventory_balances s))"

definition balance_count_matches ::
    "(string \<Rightarrow> string \<Rightarrow> bool) \<Rightarrow> balance_filter \<Rightarrow> db \<Rightarrow>
     inventory_balance \<times> decimal option \<Rightarrow> bool" where
  "balance_count_matches contains f s = (\<lambda>(b, ss).
     opt_cond (\<lambda>x. ib_warehouse_id b = x) (bf_warehouse_id f)
   \<and> opt_cond (\<lambda>x. ib_material_id b = x) (bf_material_id f)
   \<and> text_cond (\<lambda>x. ib_material_id b \<in> set (map mat_id
        (filter (\<lambda>m. contains x (mat_material_code m)) (materials s)))) (bf_material_code f)
   \<and> text_cond (\<lambda>x. ib_material_id b \<in> set (map mat_id
        (filter (\<lambda>m. contains x (mat_material_name m)) (materials s)))) (bf_material_name f)
   \<and> opt_cond (\<lambda>x. below_safety b ss = x) (bf_below_safety_stock f))"

definition balance_out ::
    "inventory_balance \<times> warehouse \<times> material \<times> decimal option \<Rightarrow> balance_row_out" where
  "balance_out = (\<lambda>(b, w, m, ss).
    \<lparr>br_warehouse_id = wh_id w, br_warehouse_code = wh_warehouse_code w,
     br_warehouse_name = wh_warehouse_name w, br_material_id = mat_id m,
     br_material_code = mat_material_code m, br_material_name = mat_material_name m,
     br_unit = mat_unit m, br_quantity = ib_quantity b,
     br_average_unit_cost = ib_average_unit_cost b, br_total_amount = ib_total_amount b,
     br_safety_stock = ss, br_is_below_safety_stock = below_safety b ss,
     br_last_transaction_at = ib_last_transaction_at b\<rparr>)"

definition list_balances ::
    "(string \<Rightarrow> string \<Rightarrow> bool) \<Rightarrow> nat \<Rightarrow> nat \<Rightarrow> balance_filter \<Rightarrow> db \<Rightarrow> balance_row_out list \<times> nat" where
  "list_balances contains page page_size f s =
    (let rows = filter (balance_row_matches contains f) (balance_joined s);
         total = length (filter (balance_count_matches contains f s) (balance_counted f s));
         ordered = sort_key (\<lambda>r. ib_warehouse_id (fst r)) (sort_key (\<lambda>r. ib_material_id (fst r)) rows)
     in (map balance_out (page_of page page_size ordered), total))"

section \<open>The ledger\<close>

record txn_filter =
  tf_warehouse_id :: "nat option"
  tf_material_id :: "nat option"
  tf_transaction_type :: "txn_type option"
  tf_reference_no :: "string option"
  tf_source_type :: "txn_source_type option"
  tf_source_id :: "nat option"
  tf_occurred_from :: "datetime option"
  tf_occurred_to :: "datetime option"

definition RECEIPT_SOURCES :: "txn_source_type option list" where
  "RECEIPT_SOURCES = [Some SRC_PURCHASE_RECEIPT, Some SRC_PURCHASE_RECEIPT_REVERSAL]"

definition txn_matches ::
    "(string \<Rightarrow> string \<Rightarrow> bool) \<Rightarrow> db \<Rightarrow> txn_filter \<Rightarrow> inventory_transaction \<Rightarrow> bool" where
  "txn_matches contains s f t \<longleftrightarrow>
     opt_cond (\<lambda>x. it_warehouse_id t = x) (tf_warehouse_id f)
   \<and> opt_cond (\<lambda>x. it_material_id t = x) (tf_material_id f)
   \<and> opt_cond (\<lambda>x. it_transaction_type t = x) (tf_transaction_type f)
   \<and> text_cond (\<lambda>x. contains x (it_txn_no t) \<or>
        (it_source_type t \<in> set RECEIPT_SOURCES \<and>
         list_ex (\<lambda>r. it_source_id t = Some (rcv_id r) \<and> contains x (rcv_receipt_no r))
           (purchase_receipts s))) (tf_reference_no f)
   \<and> opt_cond (\<lambda>x. it_source_type t = Some x) (tf_source_type f)
   \<and> opt_cond (\<lambda>x. it_source_id t = Some x) (tf_source_id f)
   \<and> opt_cond (\<lambda>x. x \<le> it_transaction_at t) (tf_occurred_from f)
   \<and> opt_cond (\<lambda>x. it_transaction_at t \<le> x) (tf_occurred_to f)"

definition list_transactions ::
    "(string \<Rightarrow> string \<Rightarrow> bool) \<Rightarrow> nat \<Rightarrow> nat \<Rightarrow> txn_filter \<Rightarrow> db \<Rightarrow>
     inventory_transaction list \<times> nat" where
  "list_transactions contains page page_size f s =
    (let rows = filter (txn_matches contains s f) (inventory_transactions s)
     in (page_of page page_size (rev (sort_key it_transaction_at (sort_key it_id rows))),
         length rows))"

text \<open>
  The number of the source document, resolved once per page: the keys of the
  receipts behind the receipt rows of the page, then a lookup by the source key
  of every row.
\<close>

definition receipt_keys :: "inventory_transaction list \<Rightarrow> nat list" where
  "receipt_keys rows = map (\<lambda>t. the (it_source_id t))
    (filter (\<lambda>t. it_source_type t \<in> set RECEIPT_SOURCES
      \<and> it_source_id t \<noteq> None \<and> it_source_id t \<noteq> Some 0) rows)"

definition receipt_numbers :: "db \<Rightarrow> nat list \<Rightarrow> (nat \<times> string) list" where
  "receipt_numbers s ids =
    map (\<lambda>r. (rcv_id r, rcv_receipt_no r)) (filter (\<lambda>r. rcv_id r \<in> set ids) (purchase_receipts s))"

definition reference_of :: "db \<Rightarrow> inventory_transaction list \<Rightarrow> inventory_transaction \<Rightarrow> string option" where
  "reference_of s rows t =
    (case it_source_id t of None \<Rightarrow> None
     | Some i \<Rightarrow> map_of (receipt_numbers s (receipt_keys rows)) i)"

definition txn_endpoint ::
    "(string \<Rightarrow> string \<Rightarrow> bool) \<Rightarrow> nat \<Rightarrow> nat \<Rightarrow> txn_filter \<Rightarrow> db \<Rightarrow>
     (inventory_transaction \<times> string option) list \<times> nat" where
  "txn_endpoint contains page page_size f s =
    (let (rows, total) = list_transactions contains page page_size f s
     in (map (\<lambda>t. (t, reference_of s rows t)) rows, total))"

section \<open>Facts\<close>

text \<open>What the foreign keys and unique indexes say of the rows that the queries join.\<close>

definition stock_refs_ok :: "db \<Rightarrow> bool" where
  "stock_refs_ok s \<longleftrightarrow> distinct (map wh_id (warehouses s)) \<and> distinct (map mat_id (materials s))
    \<and> distinct (map (\<lambda>p. (pol_warehouse_id p, pol_material_id p)) (inventory_policies s))
    \<and> list_all (\<lambda>b. ib_warehouse_id b \<in> wh_id ` set (warehouses s)
        \<and> ib_material_id b \<in> mat_id ` set (materials s)) (inventory_balances s)"

lemma filter_key_single:
  assumes "distinct (map key rows)" and "k \<in> key ` set rows"
  shows "\<exists>r. r \<in> set rows \<and> key r = k \<and> filter (\<lambda>x. key x = k) rows = [r]"
  using assms
proof (induction rows)
  case (Cons a rows)
  show ?case
  proof (cases "key a = k")
    case True
    then have "filter (\<lambda>x. key x = k) rows = []"
      using Cons.prems(1) by (auto simp: filter_empty_conv image_iff)
    then show ?thesis using True by simp
  next
    case False
    then show ?thesis using Cons by (auto simp: image_iff)
  qed
qed simp

lemma filter_key_at_most:
  "distinct (map key rows) \<Longrightarrow> filter (\<lambda>x. key x = k) rows = [] \<or> (\<exists>r. filter (\<lambda>x. key x = k) rows = [r])"
  using filter_key_single[of key rows k] by (cases "k \<in> key ` set rows") (auto simp: filter_empty_conv)

lemma joined_one:
  assumes "stock_refs_ok s" and "b \<in> set (inventory_balances s)"
  shows "\<exists>w m ss. warehouses_of b s = [w] \<and> materials_of b s = [m] \<and> m \<in> set (materials s)
    \<and> mat_id m = ib_material_id b \<and> outer_safety b s = [ss]"
proof -
  have w: "\<exists>w. warehouses_of b s = [w]"
    using filter_key_single[of wh_id "warehouses s" "ib_warehouse_id b"] assms
    by (auto simp: stock_refs_ok_def warehouses_of_def list_all_iff)
  have m: "\<exists>m. materials_of b s = [m] \<and> m \<in> set (materials s) \<and> mat_id m = ib_material_id b"
    using filter_key_single[of mat_id "materials s" "ib_material_id b"] assms
    by (fastforce simp: stock_refs_ok_def materials_of_def list_all_iff)
  have "policies_of b s = [] \<or> (\<exists>p. policies_of b s = [p])"
    using filter_key_at_most[of "\<lambda>p. (pol_warehouse_id p, pol_material_id p)" "inventory_policies s"
        "(ib_warehouse_id b, ib_material_id b)"] assms(1)
    by (simp add: stock_refs_ok_def policies_of_def)
  then have "\<exists>ss. outer_safety b s = [ss]" by (auto simp: outer_safety_def)
  then show ?thesis using w m by blast
qed

definition safety_of :: "db \<Rightarrow> inventory_balance \<Rightarrow> decimal option" where
  "safety_of s b = hd (outer_safety b s)"

lemma concat_map_single: "(\<And>x. x \<in> set xs \<Longrightarrow> f x = [g x]) \<Longrightarrow> concat (map f xs) = map g xs"
  by (induction xs) auto

lemma joined_eq:
  assumes "stock_refs_ok s"
  shows "balance_joined s = map (\<lambda>b. (b, hd (warehouses_of b s), hd (materials_of b s), safety_of s b))
    (inventory_balances s)"
  unfolding balance_joined_def
  by (rule concat_map_single) (use joined_one[OF assms] in \<open>fastforce simp: safety_of_def\<close>)

lemma counted_eq:
  assumes "stock_refs_ok s"
  shows "balance_counted f s = map (\<lambda>b. (b, case bf_below_safety_stock f of None \<Rightarrow> None | Some _ \<Rightarrow> safety_of s b))
    (inventory_balances s)"
  unfolding balance_counted_def
  by (rule concat_map_single) (use joined_one[OF assms] in \<open>fastforce simp: safety_of_def split: option.splits\<close>)

lemma count_agrees:
  assumes "stock_refs_ok s" and "b \<in> set (inventory_balances s)"
  shows "balance_count_matches contains f s (b, case bf_below_safety_stock f of None \<Rightarrow> None | Some _ \<Rightarrow> safety_of s b)
    = balance_row_matches contains f (b, hd (warehouses_of b s), hd (materials_of b s), safety_of s b)"
proof -
  obtain m where m: "materials_of b s = [m]" "m \<in> set (materials s)" "mat_id m = ib_material_id b"
    using joined_one[OF assms] by blast
  have "set (materials_of b s) = {m}" using m(1) by simp
  then have only: "x = m" if "x \<in> set (materials s)" "mat_id x = ib_material_id b" for x
    using that by (auto simp: materials_of_def)
  have sub: "ib_material_id b \<in> set (map mat_id (filter p (materials s))) \<longleftrightarrow> p m" for p
  proof
    assume "ib_material_id b \<in> set (map mat_id (filter p (materials s)))"
    then obtain x where "x \<in> set (materials s)" "p x" "mat_id x = ib_material_id b" by auto
    then show "p m" using only by simp
  next
    assume "p m"
    then have "m \<in> set (filter p (materials s))" using m(2) by simp
    then show "ib_material_id b \<in> set (map mat_id (filter p (materials s)))"
      by (metis imageI m(3) set_map)
  qed
  show ?thesis
    by (simp only: balance_count_matches_def balance_row_matches_def prod.case sub m(1) list.sel)
      (simp add: opt_cond_def split: option.splits)
qed

lemma balances_total:
  assumes "stock_refs_ok s"
  shows "length (filter (balance_count_matches contains f s) (balance_counted f s))
    = length (filter (balance_row_matches contains f) (balance_joined s))"
  unfolding joined_eq[OF assms] counted_eq[OF assms] filter_map length_map comp_def
  by (rule arg_cong[where f = length], rule filter_cong[OF refl]) (rule count_agrees[OF assms])

end
