(* ===== verification/Dashboard.thy ===== *)
theory Dashboard
  imports Inventory_Queries Requisition Receipt Clock
begin

text \<open>
  The dashboard (\<^verbatim>\<open>app/services/dashboard_service.py\<close>, \<^verbatim>\<open>app/schemas/dashboard.py\<close>).
  A metric is an aggregate of one statement, restricted to the rows the principal
  may see; the permission codes of the principal decide whether it is computed at
  all.  GROUP BY is \<^verbatim>\<open>group_by\<close>: one pair per key that occurs.
\<close>

definition group_by :: "('r \<Rightarrow> 'k) \<Rightarrow> ('r list \<Rightarrow> 'v) \<Rightarrow> 'r list \<Rightarrow> ('k \<times> 'v) list" where
  "group_by key agg rows =
    map (\<lambda>k. (k, agg (filter (\<lambda>r. key r = k) rows))) (remdups (map key rows))"

record principal =
  pc_user :: current_user
  pc_permissions :: "string list"

definition has_perm :: "principal \<Rightarrow> string \<Rightarrow> bool" where
  "has_perm u code \<longleftrightarrow> code \<in> set (pc_permissions u)"

definition PR_APPROVE_ROLES :: "role_code option list" where
  "PR_APPROVE_ROLES = [Some ROLE_ADMIN, Some ROLE_DEPT_MANAGER]"

definition PO_EXEC_ROLES :: "role_code option list" where
  "PO_EXEC_ROLES = [Some ROLE_ADMIN, Some ROLE_BUYER]"

definition PO_RECEIVE_TODO_ROLES :: "role_code option list" where
  "PO_RECEIVE_TODO_ROLES = [Some ROLE_ADMIN, Some ROLE_BUYER, Some ROLE_WAREHOUSE]"

definition RECENT_ACTIONS :: "audit_action list" where
  "RECENT_ACTIONS = [PR_CREATE, PR_SUBMIT, PR_APPROVE, PR_REJECT, PR_REVISE, PR_CANCEL,
    PO_CREATE, PO_CONFIRM, PO_CANCEL, RECEIPT_POST, RECEIPT_REVERSE]"

section \<open>Counters\<close>

definition count_pending_prs :: "db \<Rightarrow> principal \<Rightarrow> nat" where
  "count_pending_prs s u =
    (if \<not> has_perm u ''pr:view'' then 0
     else length (filter (\<lambda>pr. pr_status pr = PR_PENDING \<and> visible_pr (pc_user u) s pr)
       (purchase_requisitions s)))"

definition has_unconverted_item :: "db \<Rightarrow> nat \<Rightarrow> bool" where
  "has_unconverted_item s i =
    list_ex (\<lambda>it. pri_pr_id it = i \<and> pri_converted_quantity it < pri_requested_quantity it)
      (purchase_requisition_items s)"

definition count_pending_purchase :: "db \<Rightarrow> principal \<Rightarrow> nat" where
  "count_pending_purchase s u =
    (if \<not> has_perm u ''pr:view'' \<or> \<not> has_perm u ''po:view'' then 0
     else length (remdups (map pr_id (filter
       (\<lambda>pr. pr_status pr = PR_APPROVED \<and> has_unconverted_item s (pr_id pr)
         \<and> visible_pr (pc_user u) s pr) (purchase_requisitions s)))))"

definition count_draft_pos :: "db \<Rightarrow> principal \<Rightarrow> nat" where
  "count_draft_pos s u =
    (if \<not> has_perm u ''po:confirm'' then 0
     else let drafts = filter (\<lambda>po. po_status po = PO_DRAFT) (purchase_orders s)
       in if cu_role_code (pc_user u) = Some ROLE_BUYER
          then length (filter (\<lambda>po. po_buyer_id po = cu_id (pc_user u)) drafts)
          else if cu_role_code (pc_user u) = Some ROLE_ADMIN then length drafts
          else 0)"

definition count_pending_pos :: "db \<Rightarrow> principal \<Rightarrow> nat" where
  "count_pending_pos s u =
    (if \<not> has_perm u ''po:view'' then 0
     else length (filter (\<lambda>po. po_status po \<in> {PO_CONFIRMED, PO_PARTIALLY_RECEIVED}
         \<and> visible_po (pc_user u) s (po_id po)) (purchase_orders s)))"

definition low_stock_joined :: "db \<Rightarrow> (inventory_balance \<times> inventory_policy) list" where
  "low_stock_joined s = filter (\<lambda>(b, p). ib_quantity b < pol_safety_stock p)
    (concat (map (\<lambda>b. map (\<lambda>p. (b, p)) (policies_of b s)) (inventory_balances s)))"

definition count_low_stock :: "db \<Rightarrow> principal \<Rightarrow> nat" where
  "count_low_stock s u =
    (if \<not> has_perm u ''inventory:view'' then 0 else length (low_stock_joined s))"

definition sum_inventory_amount :: "db \<Rightarrow> principal \<Rightarrow> decimal" where
  "sum_inventory_amount s u =
    (if \<not> has_perm u ''inventory:view'' then 0
     else sum_list (map ib_total_amount (inventory_balances s)))"

record dashboard_summary_out =
  ds_pending_pr_count :: nat
  ds_pending_purchase_count :: nat
  ds_draft_po_count :: nat
  ds_pending_po_count :: nat
  ds_low_stock_count :: nat
  ds_inventory_total_amount :: decimal

definition dashboard_summary :: "db \<Rightarrow> principal \<Rightarrow> dashboard_summary_out" where
  "dashboard_summary s u =
    \<lparr>ds_pending_pr_count = count_pending_prs s u,
     ds_pending_purchase_count = count_pending_purchase s u,
     ds_draft_po_count = count_draft_pos s u,
     ds_pending_po_count = count_pending_pos s u,
     ds_low_stock_count = count_low_stock s u,
     ds_inventory_total_amount = sum_inventory_amount s u\<rparr>"

section \<open>The trend of requisitions\<close>

definition trend_rows :: "db \<Rightarrow> principal \<Rightarrow> date \<Rightarrow> date \<Rightarrow> purchase_requisition list" where
  "trend_rows s u start end_day =
    filter (\<lambda>pr. start \<le> pr_apply_date pr \<and> pr_apply_date pr \<le> end_day
      \<and> pr_status pr \<noteq> PR_CANCELLED \<and> visible_pr (pc_user u) s pr) (purchase_requisitions s)"

definition trend_groups ::
    "purchase_requisition list \<Rightarrow> (date \<times> nat \<times> decimal) list" where
  "trend_groups rows =
    group_by pr_apply_date (\<lambda>rs. (length rs, sum_list (map pr_total_estimated_amount rs))) rows"

definition pr_trend :: "date \<Rightarrow> nat \<Rightarrow> db \<Rightarrow> principal \<Rightarrow> (date \<times> nat \<times> decimal) list" where
  "pr_trend today days s u =
    (if \<not> has_perm u ''pr:view'' then []
     else let start = sub_days (days - 1) today;
              groups = trend_groups (trend_rows s u start today)
       in map (\<lambda>offset. let d = add_days offset start
            in (d, case map_of groups d of None \<Rightarrow> (0, 0) | Some v \<Rightarrow> v)) [0..<days])"

section \<open>The distribution of order states\<close>

definition ALL_PO_STATUS :: "po_status list" where
  "ALL_PO_STATUS = [PO_DRAFT, PO_CONFIRMED, PO_PARTIALLY_RECEIVED, PO_RECEIVED, PO_CANCELLED]"

definition po_status_distribution :: "db \<Rightarrow> principal \<Rightarrow> (po_status \<times> nat) list" where
  "po_status_distribution s u =
    (if \<not> has_perm u ''po:view'' then map (\<lambda>st. (st, 0)) ALL_PO_STATUS
     else let counts = group_by po_status length
            (filter (\<lambda>po. visible_po (pc_user u) s (po_id po)) (purchase_orders s))
       in map (\<lambda>st. (st, case map_of counts st of None \<Rightarrow> 0 | Some n \<Rightarrow> n)) ALL_PO_STATUS)"

section \<open>Low stock\<close>

record low_stock_row =
  ls_warehouse_id :: nat
  ls_warehouse_code :: string
  ls_warehouse_name :: string
  ls_material_id :: nat
  ls_material_code :: string
  ls_material_name :: string
  ls_unit :: string
  ls_quantity :: decimal
  ls_safety_stock :: decimal
  ls_shortage_quantity :: decimal

definition low_stock_rows :: "db \<Rightarrow> low_stock_row list" where
  "low_stock_rows s = concat (map (\<lambda>b. concat (map (\<lambda>w. concat (map (\<lambda>m. map (\<lambda>p.
        \<lparr>ls_warehouse_id = ib_warehouse_id b, ls_warehouse_code = wh_warehouse_code w,
         ls_warehouse_name = wh_warehouse_name w, ls_material_id = ib_material_id b,
         ls_material_code = mat_material_code m, ls_material_name = mat_material_name m,
         ls_unit = mat_unit m, ls_quantity = ib_quantity b,
         ls_safety_stock = pol_safety_stock p,
         ls_shortage_quantity = pol_safety_stock p - ib_quantity b\<rparr>)
      (filter (\<lambda>p. ib_quantity b < pol_safety_stock p) (policies_of b s)))
    (materials_of b s))) (warehouses_of b s))) (inventory_balances s))"

text \<open>Rows with the same shortage come in no particular order; here in that of the table.\<close>

definition low_stock_list :: "nat \<Rightarrow> db \<Rightarrow> principal \<Rightarrow> low_stock_row list" where
  "low_stock_list limit s u =
    (if \<not> has_perm u ''inventory:view'' then []
     else take limit (sort_key (\<lambda>r. - ls_shortage_quantity r) (low_stock_rows s)))"

section \<open>Things to do\<close>

definition todo :: "string \<Rightarrow> nat \<Rightarrow> (string \<times> nat) list" where
  "todo kind n = (if 0 < n then [(kind, n)] else [])"

definition dashboard_todos :: "db \<Rightarrow> principal \<Rightarrow> (string \<times> nat) list" where
  "dashboard_todos s u =
    (if cu_role_code (pc_user u) \<in> set PR_APPROVE_ROLES
     then todo ''PR_APPROVAL'' (count_pending_prs s u) else [])
    @ (if cu_role_code (pc_user u) \<in> set PO_EXEC_ROLES
       then todo ''PR_TO_PO'' (count_pending_purchase s u)
         @ todo ''PO_CONFIRM'' (count_draft_pos s u) else [])
    @ (if cu_role_code (pc_user u) \<in> set PO_RECEIVE_TODO_ROLES
       then todo ''PO_RECEIVE'' (count_pending_pos s u) else [])"

section \<open>Recent events\<close>

record activity_item =
  ai_id :: nat
  ai_action :: audit_action
  ai_operator_name :: "string option"
  ai_document_type :: "string option"
  ai_document_no :: "string option"
  ai_created_at :: datetime

definition activity_out :: "operation_log \<Rightarrow> activity_item" where
  "activity_out l = \<lparr>ai_id = ol_id l, ai_action = ol_action l,
    ai_operator_name = ol_username_snapshot l, ai_document_type = ol_document_type l,
    ai_document_no = ol_document_no l, ai_created_at = ol_created_at l\<rparr>"

definition recent_activities :: "nat \<Rightarrow> db \<Rightarrow> principal \<Rightarrow> activity_item list" where
  "recent_activities limit s u =
    (if \<not> has_perm u ''dashboard:view'' then []
     else map activity_out (take limit (rev (sort_key ol_id
       (filter (\<lambda>l. ol_action l \<in> set RECENT_ACTIONS) (operation_logs s))))))"

record inventory_activity =
  iv_id :: nat
  iv_txn_no :: string
  iv_transaction_type :: txn_type
  iv_material_id :: nat
  iv_material_code :: string
  iv_material_name :: string
  iv_unit :: string
  iv_warehouse_id :: nat
  iv_warehouse_name :: string
  iv_quantity :: decimal
  iv_source_type :: "txn_source_type option"
  iv_source_id :: "nat option"
  iv_reference_no :: "string option"
  iv_transaction_at :: datetime

definition ledger_joined ::
    "db \<Rightarrow> (inventory_transaction \<times> material \<times> warehouse) list" where
  "ledger_joined s = concat (map (\<lambda>t. concat (map (\<lambda>m. map (\<lambda>w. (t, m, w))
      (filter (\<lambda>w. wh_id w = it_warehouse_id t) (warehouses s)))
    (filter (\<lambda>m. mat_id m = it_material_id t) (materials s)))) (inventory_transactions s))"

definition activity_receipt_keys :: "inventory_transaction list \<Rightarrow> nat list" where
  "activity_receipt_keys rows = map (\<lambda>t. the (it_source_id t))
    (filter (\<lambda>t. it_source_type t \<in> set RECEIPT_SOURCES \<and> it_source_id t \<noteq> None) rows)"

definition activity_reference ::
    "db \<Rightarrow> inventory_transaction list \<Rightarrow> inventory_transaction \<Rightarrow> string option" where
  "activity_reference s rows t =
    (case it_source_id t of None \<Rightarrow> None
     | Some i \<Rightarrow> if i = 0 then None
         else map_of (receipt_numbers s (activity_receipt_keys rows)) i)"

definition inventory_activities :: "nat \<Rightarrow> db \<Rightarrow> principal \<Rightarrow> inventory_activity list" where
  "inventory_activities limit s u =
    (if \<not> has_perm u ''inventory_txn:view'' then []
     else let rows = take limit (rev (sort_key (\<lambda>r. it_id (fst r)) (ledger_joined s)))
       in map (\<lambda>(t, m, w).
         \<lparr>iv_id = it_id t, iv_txn_no = it_txn_no t, iv_transaction_type = it_transaction_type t,
          iv_material_id = it_material_id t, iv_material_code = mat_material_code m,
          iv_material_name = mat_material_name m, iv_unit = mat_unit m,
          iv_warehouse_id = it_warehouse_id t, iv_warehouse_name = wh_warehouse_name w,
          iv_quantity = it_quantity t, iv_source_type = it_source_type t,
          iv_source_id = it_source_id t,
          iv_reference_no = activity_reference s (map fst rows) t,
          iv_transaction_at = it_transaction_at t\<rparr>) rows)"

section \<open>Facts on grouping\<close>

lemma map_of_pairs: "map_of (map (\<lambda>k. (k, f k)) ks) k = (if k \<in> set ks then Some (f k) else None)"
  by (induction ks) auto

lemma map_of_group_by:
  "map_of (group_by key agg rows) k =
    (if k \<in> key ` set rows then Some (agg (filter (\<lambda>r. key r = k) rows)) else None)"
  by (simp add: group_by_def map_of_pairs)

lemma map_of_group_default:
  assumes "agg [] = z"
  shows "(case map_of (group_by key agg rows) k of None \<Rightarrow> z | Some v \<Rightarrow> v)
    = agg (filter (\<lambda>r. key r = k) rows)"
proof (cases "k \<in> key ` set rows")
  case False
  then have "filter (\<lambda>r. key r = k) rows = []" by (auto simp: filter_empty_conv)
  then show ?thesis using False assms by (simp add: map_of_group_by)
qed (simp add: map_of_group_by)

text \<open>Counts over a list of distinct keys that covers all rows add up to the number of rows.\<close>

lemma sum_counts:
  assumes "distinct ks" and "\<And>r. r \<in> set rows \<Longrightarrow> key r \<in> set ks"
  shows "sum_list (map (\<lambda>k. length (filter (\<lambda>r. key r = k) rows)) ks) = length rows"
  using assms(2)
proof (induction rows)
  case (Cons r rows)
  have one: "sum_list (map (\<lambda>k. if key r = k then Suc (g k) else g k) ks) = Suc (sum_list (map g ks))"
    for g :: "'a \<Rightarrow> nat"
    using assms(1) Cons.prems[of r]
    by (induction ks) (auto intro!: arg_cong[where f = sum_list] map_cong)
  have "length (filter (\<lambda>x. key x = k) (r # rows))
      = (if key r = k then Suc (length (filter (\<lambda>x. key x = k) rows))
         else length (filter (\<lambda>x. key x = k) rows))" for k
    by simp
  then show ?case
    by (simp only: one) (use Cons in simp)
qed simp

lemma sum_amounts:
  fixes amt :: "'r \<Rightarrow> 'n::comm_monoid_add"
  assumes "distinct ks" and "\<And>r. r \<in> set rows \<Longrightarrow> key r \<in> set ks"
  shows "sum_list (map (\<lambda>k. sum_list (map amt (filter (\<lambda>r. key r = k) rows))) ks) = sum_list (map amt rows)"
  using assms(2)
proof (induction rows)
  case (Cons r rows)
  have one: "sum_list (map (\<lambda>k. if key r = k then amt r + g k else g k) ks) = amt r + sum_list (map g ks)"
    for g :: "'a \<Rightarrow> 'n"
    using assms(1) Cons.prems[of r]
  proof (induction ks)
    case (Cons k ks)
    show ?case
    proof (cases "key r = k")
      case True
      then have "map (\<lambda>k. if key r = k then amt r + g k else g k) ks = map g ks"
        using Cons.prems(1) by (intro map_cong) auto
      then show ?thesis using True by (simp add: add.assoc del: map_eq_conv)
    next
      case False
      then show ?thesis using Cons by (simp add: ac_simps)
    qed
  qed simp
  have "sum_list (map amt (filter (\<lambda>x. key x = k) (r # rows)))
      = (if key r = k then amt r + sum_list (map amt (filter (\<lambda>x. key x = k) rows))
         else sum_list (map amt (filter (\<lambda>x. key x = k) rows)))" for k
    by simp
  then show ?case
    by (simp only: one) (use Cons in simp)
qed simp

end
