(* ===== verification/Api_Views.thy ===== *)
theory Api_Views
  imports Api Dashboard "HOL-Library.Char_ord" "HOL-Library.List_Lexorder"
begin

text \<open>
  The reading endpoints of \<^verbatim>\<open>app/api/v1\<close>: the projections of the rows onto the answer
  (\<^verbatim>\<open>_to_out\<close>) with the names they look up, the page envelope of
  \<^verbatim>\<open>app/core/response.py\<close>, and the guard of each page.  \<^verbatim>\<open>contains\<close>, \<^verbatim>\<open>same\<close> and \<^verbatim>\<open>rank\<close>
  are the LIKE, the equality and the order of text under the collation.
\<close>

section \<open>Envelope\<close>

record 'a page_result =
  pg_items :: "'a list"
  pg_total :: nat
  pg_page :: nat
  pg_page_size :: nat
  pg_total_pages :: nat

definition make_page :: "nat \<Rightarrow> nat \<Rightarrow> 'a list \<times> nat \<Rightarrow> 'a page_result" where
  "make_page page page_size rows_total =
    \<lparr>pg_items = fst rows_total, pg_total = snd rows_total, pg_page = page,
     pg_page_size = page_size,
     pg_total_pages = (if 0 < page_size then (snd rows_total + page_size - 1) div page_size else 0)\<rparr>"

text \<open>\<^verbatim>\<open>page: int = Query(1, ge=1)\<close>, \<^verbatim>\<open>page_size: int = Query(20, ge=1, le=200)\<close>\<close>

definition valid_page :: "nat \<Rightarrow> nat \<Rightarrow> bool" where
  "valid_page page page_size \<longleftrightarrow> 1 \<le> page \<and> 1 \<le> page_size \<and> page_size \<le> 200"

section \<open>Projections\<close>

text \<open>\<^verbatim>\<open>(u.real_name or u.username) if u else None\<close>\<close>

definition user_display :: "db \<Rightarrow> nat \<Rightarrow> string option" where
  "user_display s i = map_option
    (\<lambda>u. if user_real_name u = [] then user_username u else user_real_name u) (get_user s i)"

definition opt_user_display :: "db \<Rightarrow> nat option \<Rightarrow> string option" where
  "opt_user_display s i = (case i of None \<Rightarrow> None | Some j \<Rightarrow> user_display s j)"

record pr_item_out =
  prio_id :: nat
  prio_line_no :: nat
  prio_material_id :: nat
  prio_material_code :: "string option"
  prio_material_name :: "string option"
  prio_requested_quantity :: decimal
  prio_converted_quantity :: decimal
  prio_estimated_unit_price :: decimal
  prio_estimated_amount :: decimal
  prio_required_date :: "date option"
  prio_remark :: "string option"

definition pr_item_to_out :: "db \<Rightarrow> purchase_requisition_item \<Rightarrow> pr_item_out" where
  "pr_item_to_out s it = (let mat = get_mat s (pri_material_id it) in
    \<lparr>prio_id = pri_id it, prio_line_no = pri_line_no it,
     prio_material_id = pri_material_id it,
     prio_material_code = map_option mat_material_code mat,
     prio_material_name = map_option mat_material_name mat,
     prio_requested_quantity = pri_requested_quantity it,
     prio_converted_quantity = pri_converted_quantity it,
     prio_estimated_unit_price = pri_estimated_unit_price it,
     prio_estimated_amount = pri_estimated_amount it,
     prio_required_date = pri_required_date it, prio_remark = pri_remark it\<rparr>)"

record pr_out =
  pro_id :: nat
  pro_pr_no :: string
  pro_applicant_id :: nat
  pro_applicant_name :: "string option"
  pro_department_id :: nat
  pro_department_name :: "string option"
  pro_apply_date :: date
  pro_reason :: "string option"
  pro_status :: pr_status
  pro_total_estimated_amount :: decimal
  pro_submitted_at :: "datetime option"
  pro_version :: nat
  pro_remark :: "string option"
  pro_items :: "pr_item_out list"

definition pr_to_out :: "db \<Rightarrow> bool \<Rightarrow> purchase_requisition \<Rightarrow> pr_out" where
  "pr_to_out s with_items pr =
    \<lparr>pro_id = pr_id pr, pro_pr_no = pr_no pr, pro_applicant_id = pr_applicant_id pr,
     pro_applicant_name = user_display s (pr_applicant_id pr),
     pro_department_id = pr_department_id pr,
     pro_department_name = map_option dept_name (get_dept s (pr_department_id pr)),
     pro_apply_date = pr_apply_date pr, pro_reason = pr_reason pr, pro_status = pr_status pr,
     pro_total_estimated_amount = pr_total_estimated_amount pr,
     pro_submitted_at = pr_submitted_at pr, pro_version = pr_version pr,
     pro_remark = pr_remark pr,
     pro_items = (if with_items then map (pr_item_to_out s) (pr_items (pr_id pr) s) else [])\<rparr>"

record approval_out =
  aro_id :: nat
  aro_document_type :: document_type
  aro_document_no :: "string option"
  aro_step_name :: "string option"
  aro_approver_id :: nat
  aro_approver_name :: "string option"
  aro_action :: approval_action
  aro_from_status :: "string option"
  aro_to_status :: "string option"
  aro_comment :: "string option"
  aro_created_at :: datetime

definition approval_to_out :: "db \<Rightarrow> approval_record \<Rightarrow> approval_out" where
  "approval_to_out s r =
    \<lparr>aro_id = ar_id r, aro_document_type = ar_document_type r,
     aro_document_no = ar_document_no r, aro_step_name = ar_step_name r,
     aro_approver_id = ar_approver_id r,
     aro_approver_name = user_display s (ar_approver_id r), aro_action = ar_action r,
     aro_from_status = ar_from_status r, aro_to_status = ar_to_status r,
     aro_comment = ar_comment r, aro_created_at = ar_created_at r\<rparr>"

record po_source_out =
  psro_id :: nat
  psro_pr_item_id :: nat
  psro_quantity :: decimal
  psro_pr_no :: "string option"
  psro_pr_item_line_no :: "nat option"
  psro_material_code :: "string option"
  psro_material_name :: "string option"

definition po_source_to_out ::
    "db \<Rightarrow> purchase_order_item \<Rightarrow> purchase_order_item_source \<Rightarrow> po_source_out" where
  "po_source_to_out s poi src =
    (let pri = get_pri s (pois_pr_item_id src);
         pr = (case pri of None \<Rightarrow> None | Some x \<Rightarrow> get_pr s (pri_pr_id x));
         mat = get_mat s (poi_material_id poi)
     in \<lparr>psro_id = pois_id src, psro_pr_item_id = pois_pr_item_id src,
     psro_quantity = pois_quantity src, psro_pr_no = map_option pr_no pr,
     psro_pr_item_line_no = map_option pri_line_no pri,
     psro_material_code = map_option mat_material_code mat,
     psro_material_name = map_option mat_material_name mat\<rparr>)"

record po_item_out =
  poio_id :: nat
  poio_line_no :: nat
  poio_material_id :: nat
  poio_material_code :: "string option"
  poio_material_name :: "string option"
  poio_ordered_quantity :: decimal
  poio_received_quantity :: decimal
  poio_unit_price :: decimal
  poio_amount :: decimal
  poio_remark :: "string option"
  poio_sources :: "po_source_out list"

definition po_item_to_out :: "db \<Rightarrow> purchase_order_item \<Rightarrow> po_item_out" where
  "po_item_to_out s it = (let mat = get_mat s (poi_material_id it) in
    \<lparr>poio_id = poi_id it, poio_line_no = poi_line_no it,
     poio_material_id = poi_material_id it,
     poio_material_code = map_option mat_material_code mat,
     poio_material_name = map_option mat_material_name mat,
     poio_ordered_quantity = poi_ordered_quantity it,
     poio_received_quantity = poi_received_quantity it, poio_unit_price = poi_unit_price it,
     poio_amount = poi_amount it, poio_remark = poi_remark it,
     poio_sources = map (po_source_to_out s it) (filter (\<lambda>src. pois_po_item_id src = poi_id it) (purchase_order_item_sources s))\<rparr>)"

record po_out =
  poo_id :: nat
  poo_po_no :: string
  poo_supplier_id :: nat
  poo_supplier_name :: "string option"
  poo_buyer_id :: nat
  poo_buyer_name :: "string option"
  poo_order_date :: date
  poo_expected_date :: "date option"
  poo_status :: po_status
  poo_total_amount :: decimal
  poo_version :: nat
  poo_remark :: "string option"
  poo_items :: "po_item_out list"

definition po_to_out :: "db \<Rightarrow> bool \<Rightarrow> purchase_order \<Rightarrow> po_out" where
  "po_to_out s with_items po =
    \<lparr>poo_id = po_id po, poo_po_no = po_no po, poo_supplier_id = po_supplier_id po,
     poo_supplier_name = map_option sup_supplier_name (get_sup s (po_supplier_id po)),
     poo_buyer_id = po_buyer_id po, poo_buyer_name = user_display s (po_buyer_id po),
     poo_order_date = po_order_date po, poo_expected_date = po_expected_date po,
     poo_status = po_status po, poo_total_amount = po_total_amount po,
     poo_version = po_version po, poo_remark = po_remark po,
     poo_items = (if with_items then map (po_item_to_out s) (po_items (po_id po) s) else [])\<rparr>"

record receipt_item_out =
  rio_id :: nat
  rio_line_no :: nat
  rio_po_item_id :: nat
  rio_material_id :: nat
  rio_material_code :: "string option"
  rio_material_name :: "string option"
  rio_unit :: "string option"
  rio_ordered_quantity :: "decimal option"
  rio_received_quantity :: decimal
  rio_unit_price :: decimal
  rio_amount :: decimal
  rio_remark :: "string option"

definition receipt_item_to_out :: "db \<Rightarrow> purchase_receipt_item \<Rightarrow> receipt_item_out" where
  "receipt_item_to_out s ri = (let mat = get_mat s (ri_material_id ri) in
    \<lparr>rio_id = ri_id ri, rio_line_no = ri_line_no ri, rio_po_item_id = ri_po_item_id ri,
     rio_material_id = ri_material_id ri,
     rio_material_code = map_option mat_material_code mat,
     rio_material_name = map_option mat_material_name mat, rio_unit = map_option mat_unit mat,
     rio_ordered_quantity = map_option poi_ordered_quantity (get_poi s (ri_po_item_id ri)),
     rio_received_quantity = ri_received_quantity ri, rio_unit_price = ri_unit_price ri,
     rio_amount = ri_amount ri, rio_remark = ri_remark ri\<rparr>)"

record receipt_out =
  reo_id :: nat
  reo_receipt_no :: string
  reo_po_id :: nat
  reo_po_no :: "string option"
  reo_supplier_name :: "string option"
  reo_warehouse_id :: nat
  reo_warehouse_code :: "string option"
  reo_warehouse_name :: "string option"
  reo_received_by :: nat
  reo_received_by_name :: "string option"
  reo_received_at :: datetime
  reo_status :: receipt_status
  reo_remark :: "string option"
  reo_reversed_by :: "nat option"
  reo_reversed_by_name :: "string option"
  reo_reversed_at :: "datetime option"
  reo_reverse_reason :: "string option"
  reo_items :: "receipt_item_out list"

definition receipt_to_out :: "db \<Rightarrow> bool \<Rightarrow> purchase_receipt \<Rightarrow> receipt_out" where
  "receipt_to_out s with_items r =
    (let po = get_po s (rcv_po_id r);
         sup = (case po of None \<Rightarrow> None | Some x \<Rightarrow> get_sup s (po_supplier_id x));
         wh = get_wh s (rcv_warehouse_id r)
     in \<lparr>reo_id = rcv_id r, reo_receipt_no = rcv_receipt_no r, reo_po_id = rcv_po_id r,
     reo_po_no = map_option po_no po, reo_supplier_name = map_option sup_supplier_name sup,
     reo_warehouse_id = rcv_warehouse_id r,
     reo_warehouse_code = map_option wh_warehouse_code wh,
     reo_warehouse_name = map_option wh_warehouse_name wh,
     reo_received_by = rcv_received_by r,
     reo_received_by_name = user_display s (rcv_received_by r),
     reo_received_at = rcv_received_at r, reo_status = rcv_status r,
     reo_remark = rcv_remark r, reo_reversed_by = rcv_reversed_by r,
     reo_reversed_by_name = opt_user_display s (rcv_reversed_by r),
     reo_reversed_at = rcv_reversed_at r, reo_reverse_reason = rcv_reverse_reason r,
     reo_items = (if with_items then map (receipt_item_to_out s) (sort_key ri_line_no (receipt_items (rcv_id r) s)) else [])\<rparr>)"

record count_item_out =
  cio_id :: nat
  cio_line_no :: nat
  cio_material_id :: nat
  cio_material_code :: "string option"
  cio_material_name :: "string option"
  cio_unit :: "string option"
  cio_book_quantity_snapshot :: decimal
  cio_book_total_amount_snapshot :: decimal
  cio_book_avg_cost_snapshot :: decimal
  cio_physical_quantity :: decimal
  cio_difference_quantity :: decimal
  cio_valuation_rate :: "decimal option"
  cio_adjustment_amount :: decimal
  cio_remark :: "string option"

definition count_item_to_out :: "db \<Rightarrow> stock_reconciliation_item \<Rightarrow> count_item_out" where
  "count_item_to_out s it = (let mat = get_mat s (rci_material_id it) in
    \<lparr>cio_id = rci_id it, cio_line_no = rci_line_no it, cio_material_id = rci_material_id it,
     cio_material_code = map_option mat_material_code mat,
     cio_material_name = map_option mat_material_name mat, cio_unit = map_option mat_unit mat,
     cio_book_quantity_snapshot = rci_book_quantity_snapshot it,
     cio_book_total_amount_snapshot = rci_book_total_amount_snapshot it,
     cio_book_avg_cost_snapshot = rci_book_avg_cost_snapshot it,
     cio_physical_quantity = rci_physical_quantity it,
     cio_difference_quantity = rci_difference_quantity it,
     cio_valuation_rate = rci_valuation_rate it,
     cio_adjustment_amount = rci_adjustment_amount it, cio_remark = rci_remark it\<rparr>)"

record count_out =
  cto_id :: nat
  cto_reconciliation_no :: string
  cto_warehouse_id :: nat
  cto_warehouse_code :: "string option"
  cto_warehouse_name :: "string option"
  cto_counted_by :: nat
  cto_counted_by_name :: "string option"
  cto_counted_on :: date
  cto_status :: reconciliation_status
  cto_reason :: "string option"
  cto_remark :: "string option"
  cto_submitted_at :: "datetime option"
  cto_posted_at :: "datetime option"
  cto_approved_by :: "nat option"
  cto_approved_by_name :: "string option"
  cto_approve_comment :: "string option"
  cto_override_self_approval :: bool
  cto_override_reason :: "string option"
  cto_version :: nat
  cto_item_count :: nat
  cto_items :: "count_item_out list"

definition count_to_out ::
    "db \<Rightarrow> bool \<Rightarrow> nat option \<Rightarrow> stock_reconciliation \<Rightarrow> count_out" where
  "count_to_out s with_items item_count r =
    (let wh = get_wh s (rc_warehouse_id r);
         items = (if with_items then map (count_item_to_out s) (rc_items (rc_id r) s) else [])
     in \<lparr>cto_id = rc_id r, cto_reconciliation_no = rc_reconciliation_no r,
     cto_warehouse_id = rc_warehouse_id r,
     cto_warehouse_code = map_option wh_warehouse_code wh,
     cto_warehouse_name = map_option wh_warehouse_name wh, cto_counted_by = rc_counted_by r,
     cto_counted_by_name = user_display s (rc_counted_by r), cto_counted_on = rc_counted_on r,
     cto_status = rc_status r, cto_reason = rc_reason r, cto_remark = rc_remark r,
     cto_submitted_at = rc_submitted_at r, cto_posted_at = rc_posted_at r,
     cto_approved_by = rc_approved_by r,
     cto_approved_by_name = opt_user_display s (rc_approved_by r),
     cto_approve_comment = rc_approve_comment r,
     cto_override_self_approval = rc_override_self_approval r,
     cto_override_reason = rc_override_reason r, cto_version = rc_version r,
     cto_item_count = (case item_count of None \<Rightarrow> length items | Some n \<Rightarrow> n),
     cto_items = items\<rparr>)"

record txn_out =
  txo_id :: nat
  txo_txn_no :: string
  txo_transaction_type :: txn_type
  txo_warehouse_id :: nat
  txo_warehouse_code :: "string option"
  txo_warehouse_name :: "string option"
  txo_material_id :: nat
  txo_material_code :: "string option"
  txo_material_name :: "string option"
  txo_unit :: "string option"
  txo_quantity :: decimal
  txo_unit_cost :: decimal
  txo_amount :: decimal
  txo_balance_after :: decimal
  txo_source_type :: "txn_source_type option"
  txo_source_id :: "nat option"
  txo_source_item_id :: "nat option"
  txo_reference_no :: "string option"
  txo_reversed_transaction_id :: "nat option"
  txo_operator_id :: "nat option"
  txo_operator_name :: "string option"
  txo_transaction_at :: datetime

definition txn_to_out :: "db \<Rightarrow> inventory_transaction \<Rightarrow> string option \<Rightarrow> txn_out" where
  "txn_to_out s t receipt_no =
    (let wh = get_wh s (it_warehouse_id t); mat = get_mat s (it_material_id t)
     in \<lparr>txo_id = it_id t, txo_txn_no = it_txn_no t, txo_transaction_type = it_transaction_type t,
     txo_warehouse_id = it_warehouse_id t,
     txo_warehouse_code = map_option wh_warehouse_code wh,
     txo_warehouse_name = map_option wh_warehouse_name wh, txo_material_id = it_material_id t,
     txo_material_code = map_option mat_material_code mat,
     txo_material_name = map_option mat_material_name mat, txo_unit = map_option mat_unit mat,
     txo_quantity = it_quantity t, txo_unit_cost = it_unit_cost t, txo_amount = it_amount t,
     txo_balance_after = it_balance_after t, txo_source_type = it_source_type t,
     txo_source_id = it_source_id t, txo_source_item_id = it_source_item_id t,
     txo_reference_no = receipt_no,
     txo_reversed_transaction_id = it_reversed_transaction_id t,
     txo_operator_id = it_created_by t,
     txo_operator_name = opt_user_display s (it_created_by t),
     txo_transaction_at = it_transaction_at t\<rparr>)"

record user_out =
  uso_id :: nat
  uso_username :: string
  uso_real_name :: string
  uso_email :: "string option"
  uso_phone :: "string option"
  uso_department_id :: "nat option"
  uso_department_name :: "string option"
  uso_role_id :: nat
  uso_role_code :: "role_code option"
  uso_role_name :: "string option"
  uso_status :: user_status
  uso_last_login_at :: "datetime option"

definition user_to_out :: "db \<Rightarrow> user \<Rightarrow> user_out" where
  "user_to_out s u =
    \<lparr>uso_id = user_id u, uso_username = user_username u, uso_real_name = user_real_name u,
     uso_email = user_email u, uso_phone = user_phone u,
     uso_department_id = user_department_id u,
     uso_department_name = (case user_department_id u of None \<Rightarrow> None | Some i \<Rightarrow> map_option dept_name (get_dept s i)),
     uso_role_id = user_role_id u, uso_role_code = role_code_of s u,
     uso_role_name = map_option role_name (get_role s (user_role_id u)),
     uso_status = user_status u, uso_last_login_at = user_last_login_at u\<rparr>"

definition role_to_out :: "db \<Rightarrow> role \<Rightarrow> role \<times> nat list" where
  "role_to_out s r = (r, sort (role_permission_ids s (role_id r)))"

section \<open>The principal with its permissions\<close>

definition sorted_permissions :: "db \<Rightarrow> current_user \<Rightarrow> string list" where
  "sorted_permissions s u = sort (remdups (get_role_permissions s (cu_role_id u)))"

definition me_endpoint :: "http_request \<Rightarrow> db \<Rightarrow> error + principal" where
  "me_endpoint rq s =
    rbind (get_current_user (hr_security rq) (rq_now (hr_ctx rq)) (hr_credentials rq) s) (\<lambda>u.
      Inr \<lparr>pc_user = u, pc_permissions = sorted_permissions s u\<rparr>)"

definition dashboard_principal :: "db \<Rightarrow> current_user \<Rightarrow> principal" where
  "dashboard_principal s u = \<lparr>pc_user = u, pc_permissions = sorted_permissions s u\<rparr>"

section \<open>Pages\<close>

definition list_prs_endpoint ::
    "(string \<Rightarrow> string \<Rightarrow> bool) \<Rightarrow> http_request \<Rightarrow> nat \<Rightarrow> nat \<Rightarrow> pr_filter \<Rightarrow> db \<Rightarrow>
     error + pr_out page_result" where
  "list_prs_endpoint contains rq page page_size f s =
    guarded rq ''pr:view'' (valid_page page page_size)
      (\<lambda>u. let (rows, total) = list_prs contains u page page_size f s
       in Inr (make_page page page_size (map (pr_to_out s False) rows, total))) s"

definition list_pos_endpoint ::
    "(string \<Rightarrow> string \<Rightarrow> bool) \<Rightarrow> http_request \<Rightarrow> nat \<Rightarrow> nat \<Rightarrow> po_filter \<Rightarrow> db \<Rightarrow>
     error + po_out page_result" where
  "list_pos_endpoint contains rq page page_size f s =
    guarded rq ''po:view'' (valid_page page page_size)
      (\<lambda>u. let (rows, total) = list_pos contains u page page_size f s
       in Inr (make_page page page_size (map (po_to_out s False) rows, total))) s"

definition list_receipts_endpoint ::
    "(string \<Rightarrow> string \<Rightarrow> bool) \<Rightarrow> http_request \<Rightarrow> nat \<Rightarrow> nat \<Rightarrow> receipt_filter \<Rightarrow> db \<Rightarrow>
     error + receipt_out page_result" where
  "list_receipts_endpoint contains rq page page_size f s =
    guarded rq ''receipt:view'' (valid_page page page_size)
      (\<lambda>u. let (rows, total) = list_receipts contains u page page_size f s
       in Inr (make_page page page_size (map (receipt_to_out s False) rows, total))) s"

definition list_reconciliations_endpoint ::
    "(string \<Rightarrow> string \<Rightarrow> bool) \<Rightarrow> http_request \<Rightarrow> nat \<Rightarrow> nat \<Rightarrow> rc_filter \<Rightarrow> db \<Rightarrow>
     error + count_out page_result" where
  "list_reconciliations_endpoint contains rq page page_size f s =
    guarded rq ''reconcile:view'' (valid_page page page_size)
      (\<lambda>u. let (rows, total, counts) = list_reconciliations contains page page_size f s
       in Inr (make_page page page_size
         (map (\<lambda>r. count_to_out s False
            (Some (case map_of counts (rc_id r) of None \<Rightarrow> 0 | Some n \<Rightarrow> n)) r) rows, total))) s"

definition list_transactions_endpoint ::
    "(string \<Rightarrow> string \<Rightarrow> bool) \<Rightarrow> http_request \<Rightarrow> nat \<Rightarrow> nat \<Rightarrow> txn_filter \<Rightarrow> db \<Rightarrow>
     error + txn_out page_result" where
  "list_transactions_endpoint contains rq page page_size f s =
    guarded rq ''inventory_txn:view'' (valid_page page page_size)
      (\<lambda>u. let (rows, total) = txn_endpoint contains page page_size f s
       in Inr (make_page page page_size (map (\<lambda>(t, no). txn_to_out s t no) rows, total))) s"

definition list_balances_endpoint ::
    "(string \<Rightarrow> string \<Rightarrow> bool) \<Rightarrow> http_request \<Rightarrow> nat \<Rightarrow> nat \<Rightarrow> balance_filter \<Rightarrow> db \<Rightarrow>
     error + balance_row_out page_result" where
  "list_balances_endpoint contains rq page page_size f s =
    guarded rq ''inventory:view'' (valid_page page page_size)
      (\<lambda>u. Inr (make_page page page_size (list_balances contains page page_size f s))) s"

definition list_materials_endpoint ::
    "(string \<Rightarrow> string \<Rightarrow> bool) \<Rightarrow> (string \<Rightarrow> string \<Rightarrow> bool) \<Rightarrow> http_request \<Rightarrow> nat \<Rightarrow> nat \<Rightarrow>
     material_filter \<Rightarrow> db \<Rightarrow> error + material page_result" where
  "list_materials_endpoint same contains rq page page_size f s =
    guarded rq ''material:view'' (valid_page page page_size)
      (\<lambda>u. Inr (make_page page page_size (list_materials same contains page page_size f s))) s"

definition list_suppliers_endpoint ::
    "(string \<Rightarrow> string \<Rightarrow> bool) \<Rightarrow> http_request \<Rightarrow> nat \<Rightarrow> nat \<Rightarrow> supplier_filter \<Rightarrow> db \<Rightarrow>
     error + supplier page_result" where
  "list_suppliers_endpoint contains rq page page_size f s =
    guarded rq ''supplier:view'' (valid_page page page_size)
      (\<lambda>u. Inr (make_page page page_size (list_suppliers contains page page_size f s))) s"

definition list_warehouses_endpoint ::
    "(string \<Rightarrow> string \<Rightarrow> bool) \<Rightarrow> http_request \<Rightarrow> nat \<Rightarrow> nat \<Rightarrow> warehouse_filter \<Rightarrow> db \<Rightarrow>
     error + warehouse page_result" where
  "list_warehouses_endpoint contains rq page page_size f s =
    guarded rq ''warehouse:view'' (valid_page page page_size)
      (\<lambda>u. Inr (make_page page page_size (list_warehouses contains page page_size f s))) s"

definition list_policies_endpoint ::
    "http_request \<Rightarrow> nat \<Rightarrow> nat \<Rightarrow> nat option \<Rightarrow> nat option \<Rightarrow> db \<Rightarrow>
     error + inventory_policy page_result" where
  "list_policies_endpoint rq page page_size wid mid s =
    guarded rq ''inventory_policy:view'' (valid_page page page_size \<and> opt_cond (\<lambda>x. 0 < x) wid \<and> opt_cond (\<lambda>x. 0 < x) mid)
      (\<lambda>u. Inr (make_page page page_size (list_policies page page_size wid mid s))) s"

definition list_users_endpoint ::
    "(string \<Rightarrow> string \<Rightarrow> bool) \<Rightarrow> http_request \<Rightarrow> nat \<Rightarrow> nat \<Rightarrow> user_filter \<Rightarrow> db \<Rightarrow>
     error + user_out page_result" where
  "list_users_endpoint contains rq page page_size f s =
    guarded rq ''user:view'' (valid_page page page_size)
      (\<lambda>u. let (rows, total) = list_users contains page page_size f s
       in Inr (make_page page page_size (map (user_to_out s) rows, total))) s"

definition list_roles_endpoint ::
    "http_request \<Rightarrow> db \<Rightarrow> error + (role \<times> nat list) list" where
  "list_roles_endpoint rq s =
    guarded rq ''role:view'' (True)
      (\<lambda>u. Inr (map (role_to_out s) (list_roles s))) s"

definition list_permissions_endpoint ::
    "(string \<Rightarrow> nat) \<Rightarrow> http_request \<Rightarrow> db \<Rightarrow> error + permission list" where
  "list_permissions_endpoint rank rq s =
    guarded rq ''role:view'' (True)
      (\<lambda>u. Inr (list_permissions rank s)) s"

definition list_departments_endpoint ::
    "http_request \<Rightarrow> dept_status option \<Rightarrow> db \<Rightarrow> error + department list" where
  "list_departments_endpoint rq status s =
    guarded rq ''department:view'' (True)
      (\<lambda>u. Inr (list_departments status s)) s"

section \<open>Details\<close>

definition get_pr_endpoint ::
    "http_request \<Rightarrow> nat \<Rightarrow> db \<Rightarrow> error + pr_out" where
  "get_pr_endpoint rq i s =
    guarded rq ''pr:view'' (True)
      (\<lambda>u. rbind (read_pr u i s) (\<lambda>r. Inr (pr_to_out s True r))) s"

definition list_approvals_endpoint ::
    "http_request \<Rightarrow> nat \<Rightarrow> db \<Rightarrow> error + approval_out list" where
  "list_approvals_endpoint rq i s =
    guarded rq ''pr:view'' (True)
      (\<lambda>u. rbind (list_approvals u i s) (\<lambda>r. Inr (map (approval_to_out s) r))) s"

definition get_po_endpoint ::
    "http_request \<Rightarrow> nat \<Rightarrow> db \<Rightarrow> error + po_out" where
  "get_po_endpoint rq i s =
    guarded rq ''po:view'' (True)
      (\<lambda>u. rbind (read_po u i s) (\<lambda>r. Inr (po_to_out s True r))) s"

definition get_receipt_endpoint ::
    "http_request \<Rightarrow> nat \<Rightarrow> db \<Rightarrow> error + receipt_out" where
  "get_receipt_endpoint rq i s =
    guarded rq ''receipt:view'' (True)
      (\<lambda>u. rbind (read_receipt u i s) (\<lambda>r. Inr (receipt_to_out s True r))) s"

definition get_reconciliation_endpoint ::
    "http_request \<Rightarrow> nat \<Rightarrow> db \<Rightarrow> error + count_out" where
  "get_reconciliation_endpoint rq i s =
    guarded rq ''reconcile:view'' (True)
      (\<lambda>u. rbind (read_reconciliation i s) (\<lambda>r. Inr (count_to_out s True None r))) s"

definition get_material_endpoint ::
    "http_request \<Rightarrow> nat \<Rightarrow> db \<Rightarrow> error + material" where
  "get_material_endpoint rq i s =
    guarded rq ''material:view'' (True)
      (\<lambda>u. rbind (load_material i s) (\<lambda>r. Inr (r))) s"

definition get_supplier_endpoint ::
    "http_request \<Rightarrow> nat \<Rightarrow> db \<Rightarrow> error + supplier" where
  "get_supplier_endpoint rq i s =
    guarded rq ''supplier:view'' (True)
      (\<lambda>u. rbind (load_supplier i s) (\<lambda>r. Inr (r))) s"

definition get_warehouse_endpoint ::
    "http_request \<Rightarrow> nat \<Rightarrow> db \<Rightarrow> error + warehouse" where
  "get_warehouse_endpoint rq i s =
    guarded rq ''warehouse:view'' (True)
      (\<lambda>u. rbind (load_warehouse i s) (\<lambda>r. Inr (r))) s"

definition get_policy_endpoint ::
    "http_request \<Rightarrow> nat \<Rightarrow> db \<Rightarrow> error + inventory_policy" where
  "get_policy_endpoint rq i s =
    guarded rq ''inventory_policy:view'' (True)
      (\<lambda>u. rbind (load_policy i s) (\<lambda>r. Inr (r))) s"

definition get_role_endpoint ::
    "http_request \<Rightarrow> nat \<Rightarrow> db \<Rightarrow> error + role \<times> nat list" where
  "get_role_endpoint rq i s =
    guarded rq ''role:view'' (True)
      (\<lambda>u. rbind (read_role i s) (\<lambda>r. Inr (role_to_out s r))) s"

definition get_department_endpoint ::
    "http_request \<Rightarrow> nat \<Rightarrow> db \<Rightarrow> error + department" where
  "get_department_endpoint rq i s =
    guarded rq ''department:view'' (True)
      (\<lambda>u. rbind (read_department i s) (\<lambda>r. Inr (r))) s"

section \<open>Dashboard\<close>

definition summary_endpoint ::
    "http_request \<Rightarrow> db \<Rightarrow> error + dashboard_summary_out" where
  "summary_endpoint rq s =
    guarded rq ''dashboard:view'' (True)
      (\<lambda>u. Inr (dashboard_summary s (dashboard_principal s u))) s"

definition pr_trend_endpoint ::
    "http_request \<Rightarrow> nat \<Rightarrow> db \<Rightarrow> error + (date \<times> nat \<times> decimal) list" where
  "pr_trend_endpoint rq days s =
    guarded rq ''dashboard:view'' (1 \<le> days \<and> days \<le> 365)
      (\<lambda>u. Inr (pr_trend (rq_today (hr_ctx rq)) days s (dashboard_principal s u))) s"

definition po_status_endpoint ::
    "http_request \<Rightarrow> db \<Rightarrow> error + (po_status \<times> nat) list" where
  "po_status_endpoint rq s =
    guarded rq ''dashboard:view'' (True)
      (\<lambda>u. Inr (po_status_distribution s (dashboard_principal s u))) s"

definition low_stock_endpoint ::
    "http_request \<Rightarrow> nat \<Rightarrow> db \<Rightarrow> error + low_stock_row list" where
  "low_stock_endpoint rq limit s =
    guarded rq ''dashboard:view'' (1 \<le> limit \<and> limit \<le> 50)
      (\<lambda>u. Inr (low_stock_list limit s (dashboard_principal s u))) s"

definition todos_endpoint ::
    "http_request \<Rightarrow> db \<Rightarrow> error + (string \<times> nat) list" where
  "todos_endpoint rq s =
    guarded rq ''dashboard:view'' (True)
      (\<lambda>u. Inr (dashboard_todos s (dashboard_principal s u))) s"

definition recent_activities_endpoint ::
    "http_request \<Rightarrow> nat \<Rightarrow> db \<Rightarrow> error + activity_item list" where
  "recent_activities_endpoint rq limit s =
    guarded rq ''dashboard:view'' (1 \<le> limit \<and> limit \<le> 50)
      (\<lambda>u. Inr (recent_activities limit s (dashboard_principal s u))) s"

definition inventory_activities_endpoint ::
    "http_request \<Rightarrow> nat \<Rightarrow> db \<Rightarrow> error + inventory_activity list" where
  "inventory_activities_endpoint rq limit s =
    guarded rq ''dashboard:view'' (1 \<le> limit \<and> limit \<le> 50)
      (\<lambda>u. Inr (inventory_activities limit s (dashboard_principal s u))) s"

end
