(* ===== verification/Receipt_Facts.thy ===== *)
theory Receipt_Facts
  imports Receipt Order_Facts
begin

text \<open>
  What the loops and the handlers of \<^verbatim>\<open>Receipt\<close> do to the tables, for every snapshot
  and every live state.  The two loops of a posting, lines first and then the
  balances in lock order, are the contract \<^verbatim>\<open>ledger_posting\<close>, interpreted here for
  quantities and for amounts, inbound and outbound.
\<close>

section \<open>Single statements\<close>

lemma take_received_frame:
  "take_received i q d = Some d' \<Longrightarrow> \<exists>X. d' = d\<lparr>purchase_order_items := X\<rparr>"
  by (auto simp: take_received_def)

lemma give_received_frame:
  "give_received i q d = Some d' \<Longrightarrow> \<exists>X. d' = d\<lparr>purchase_order_items := X\<rparr>"
  by (auto simp: give_received_def)

lemma flush_received_frame:
  "flush_received i v d = Inr d' \<Longrightarrow> \<exists>X. d' = d\<lparr>purchase_order_items := X\<rparr>"
  by (auto simp: flush_received_def Let_def split: if_splits)

lemma insert_ri_Inr:
  assumes "insert_ri r d = Inr d'"
  shows "d' = d\<lparr>purchase_receipt_items := purchase_receipt_items d @
        [r\<lparr>ri_id := auto_inc d T_purchase_receipt_items\<rparr>],
      auto_inc := (auto_inc d)(T_purchase_receipt_items := Suc (auto_inc d T_purchase_receipt_items))\<rparr>"
    and "ri_checks r"
  using assms by (auto simp: insert_ri_def split: if_splits)

lemma insert_rcv_Inr:
  assumes "insert_rcv r d = Inr d'"
  shows "d' = d\<lparr>purchase_receipts := purchase_receipts d @ [r\<lparr>rcv_id := auto_inc d T_purchase_receipts\<rparr>],
      auto_inc := (auto_inc d)(T_purchase_receipts := Suc (auto_inc d T_purchase_receipts))\<rparr>"
    and "\<And>x. x \<in> set (purchase_receipts d) \<Longrightarrow> rcv_receipt_no x \<noteq> rcv_receipt_no r"
  using assms by (auto simp: insert_rcv_def list_ex_iff split: if_splits)

lemma write_transaction_auto_inc:
  assumes "write_transaction txn d = Inr d'" "x \<noteq> T_number_sequences" "x \<noteq> T_inventory_transactions"
  shows "auto_inc d' x = auto_inc d x"
proof -
  obtain no d1 where n: "next_txn_no (dt_date (it_transaction_at txn)) d = (no, d1)" by fastforce
  have "insert_it (txn\<lparr>it_txn_no := no\<rparr>) d1 = Inr d'"
    using assms(1) n by (auto simp: write_transaction_def Let_def split: if_splits)
  then have "auto_inc d' x = auto_inc d1 x" using assms(3) by (auto simp: insert_it_def split: if_splits)
  moreover have "auto_inc d1 x = auto_inc d x"
    using n assms(2) by (auto simp: next_txn_no_def next_sequence_value_def upsert_sequence_def Let_def)
  ultimately show ?thesis by simp
qed

text \<open>What the inventory sees of a change: nothing, when both tables stay.\<close>

lemma stock_unchanged:
  assumes "inventory_balances d' = inventory_balances d" "inventory_transactions d' = inventory_transactions d"
  shows "ledger_quantity d' k = ledger_quantity d k" "ledger_amount d' k = ledger_amount d k"
    "balance_quantity d' k = balance_quantity d k" "balance_amount d' k = balance_amount d k"
    "stock_ok d' = stock_ok d" "reconciles d' = reconciles d" "ledger_prefix d d'"
  using assms
  by (simp_all add: ledger_quantity_def ledger_amount_def balance_quantity_def balance_amount_def
      balance_row_def stock_ok_def reconciles_def ledger_prefix_def)

lemma balances_unchanged:
  assumes "inventory_balances d' = inventory_balances d"
  shows "balance_quantity d' k = balance_quantity d k" "balance_amount d' k = balance_amount d k"
  using assms by (simp_all add: balance_quantity_def balance_amount_def balance_row_def)

section \<open>The lines of a posting\<close>

definition line_key :: "receipt_header \<Rightarrow> nat \<times> receipt_item_create \<times> purchase_order_item \<Rightarrow> balance_key" where
  "line_key h line = (rh_warehouse_id h, poi_material_id (snd (snd line)))"

lemma receive_line_cases:
  assumes "receive_line h (n, item, poi) run = Inr run'"
  obtains d1 d2 d3 d4 txn where
    "take_received (poi_id poi) (ric_received_quantity item) (rr_db run) = Some d1"
    "flush_received (poi_id poi) (poi_received_quantity poi + ric_received_quantity item) d1 = Inr d2"
    "insert_ri \<lparr>ri_id = auto_inc d2 T_purchase_receipt_items, ri_receipt_id = rh_id h,
       ri_po_item_id = poi_id poi, ri_line_no = n, ri_material_id = poi_material_id poi,
       ri_received_quantity = ric_received_quantity item, ri_unit_price = poi_unit_price poi,
       ri_amount = line_amount (ric_received_quantity item) (poi_unit_price poi),
       ri_remark = ric_remark item\<rparr> d2 = Inr d3"
    "write_transaction txn d3 = Inr d4"
    "it_quantity txn = ric_received_quantity item"
    "it_amount txn = line_amount (ric_received_quantity item) (poi_unit_price poi)"
    "key_of_txn txn = (rh_warehouse_id h, poi_material_id poi)"
    "it_transaction_type txn = PURCHASE_IN" "it_source_type txn = Some SRC_PURCHASE_RECEIPT"
    "it_source_id txn = Some (rh_id h)"
    "it_source_item_id txn = Some (auto_inc d2 T_purchase_receipt_items)"
    "it_reversed_transaction_id txn = None"
    "run' = \<lparr>rr_db = d4,
       rr_running = (rr_running run)((rh_warehouse_id h, poi_material_id poi) :=
         rr_running run (rh_warehouse_id h, poi_material_id poi) + ric_received_quantity item),
       rr_agg = add_delta (rh_warehouse_id h, poi_material_id poi) (ric_received_quantity item)
         (line_amount (ric_received_quantity item) (poi_unit_price poi)) (rr_agg run)\<rparr>"
  using assms
  by (auto simp: receive_line_def Let_def key_of_txn_def intro!: that)

lemma receive_line_effect:
  assumes "receive_line h line run = Inr run'"
  shows "\<exists>X Y Z W V. rr_db run' = (rr_db run)\<lparr>purchase_order_items := X, purchase_receipt_items := Y,
      inventory_transactions := Z, number_sequences := W, auto_inc := V\<rparr>"
    and "ledger_quantity (rr_db run') k = ledger_quantity (rr_db run) k +
      (if k = line_key h line then ric_received_quantity (fst (snd line)) else 0)"
    and "ledger_amount (rr_db run') k = ledger_amount (rr_db run) k +
      (if k = line_key h line then line_amount (ric_received_quantity (fst (snd line)))
        (poi_unit_price (snd (snd line))) else 0)"
    and "rr_agg run' = add_delta (line_key h line) (ric_received_quantity (fst (snd line)))
      (line_amount (ric_received_quantity (fst (snd line))) (poi_unit_price (snd (snd line)))) (rr_agg run)"
    and "stock_ok (rr_db run) \<Longrightarrow> stock_ok (rr_db run')"
    and "ledger_prefix (rr_db run) (rr_db run')"
proof -
  obtain n item poi where line: "line = (n, item, poi)" by (cases line) auto
  obtain d1 d2 d3 d4 txn where
    1: "take_received (poi_id poi) (ric_received_quantity item) (rr_db run) = Some d1"
    and 2: "flush_received (poi_id poi) (poi_received_quantity poi + ric_received_quantity item) d1 = Inr d2"
    and 3: "insert_ri \<lparr>ri_id = auto_inc d2 T_purchase_receipt_items, ri_receipt_id = rh_id h,
       ri_po_item_id = poi_id poi, ri_line_no = n, ri_material_id = poi_material_id poi,
       ri_received_quantity = ric_received_quantity item, ri_unit_price = poi_unit_price poi,
       ri_amount = line_amount (ric_received_quantity item) (poi_unit_price poi),
       ri_remark = ric_remark item\<rparr> d2 = Inr d3"
    and 4: "write_transaction txn d3 = Inr d4"
    and t: "it_quantity txn = ric_received_quantity item"
    "it_amount txn = line_amount (ric_received_quantity item) (poi_unit_price poi)"
    "key_of_txn txn = (rh_warehouse_id h, poi_material_id poi)"
    and "it_transaction_type txn = PURCHASE_IN" "it_source_type txn = Some SRC_PURCHASE_RECEIPT"
    "it_source_id txn = Some (rh_id h)"
    "it_source_item_id txn = Some (auto_inc d2 T_purchase_receipt_items)"
    "it_reversed_transaction_id txn = None"
    and run': "run' = \<lparr>rr_db = d4,
       rr_running = (rr_running run)((rh_warehouse_id h, poi_material_id poi) :=
         rr_running run (rh_warehouse_id h, poi_material_id poi) + ric_received_quantity item),
       rr_agg = add_delta (rh_warehouse_id h, poi_material_id poi) (ric_received_quantity item)
         (line_amount (ric_received_quantity item) (poi_unit_price poi)) (rr_agg run)\<rparr>"
    by (rule receive_line_cases[OF assms[unfolded line]])
  obtain X1 where X1: "d1 = (rr_db run)\<lparr>purchase_order_items := X1\<rparr>" using take_received_frame[OF 1] by blast
  obtain X2 where X2: "d2 = d1\<lparr>purchase_order_items := X2\<rparr>" using flush_received_frame[OF 2] by blast
  note e3 = insert_ri_Inr(1)[OF 3]
  note e4 = write_transaction_effect[OF 4]
  obtain X Y Z where X: "d4 = d3\<lparr>inventory_transactions := X, number_sequences := Y, auto_inc := Z\<rparr>"
    using e4(5) by blast
  have same: "inventory_transactions d3 = inventory_transactions (rr_db run)"
    "inventory_balances d3 = inventory_balances (rr_db run)" by (simp_all add: e3 X2 X1)
  note st = stock_unchanged[OF same(2,1)]
  show "\<exists>X Y Z W V. rr_db run' = (rr_db run)\<lparr>purchase_order_items := X, purchase_receipt_items := Y,
      inventory_transactions := Z, number_sequences := W, auto_inc := V\<rparr>"
    unfolding run' posting.simps X e3 X2 X1 by (intro exI) simp
  show "ledger_quantity (rr_db run') k = ledger_quantity (rr_db run) k +
      (if k = line_key h line then ric_received_quantity (fst (snd line)) else 0)"
    using e4(1)[of k] by (simp add: run' st t line line_key_def)
  show "ledger_amount (rr_db run') k = ledger_amount (rr_db run) k +
      (if k = line_key h line then line_amount (ric_received_quantity (fst (snd line)))
        (poi_unit_price (snd (snd line))) else 0)"
    using e4(2)[of k] by (simp add: run' st t line line_key_def)
  show "rr_agg run' = add_delta (line_key h line) (ric_received_quantity (fst (snd line)))
      (line_amount (ric_received_quantity (fst (snd line))) (poi_unit_price (snd (snd line)))) (rr_agg run)"
    by (simp add: run' line line_key_def)
  show "stock_ok (rr_db run) \<Longrightarrow> stock_ok (rr_db run')"
    using e4(4) st(5) t(2) by (simp add: run')
  show "ledger_prefix (rr_db run) (rr_db run')"
    using write_transaction_prefix[OF 4] st(7) by (auto simp: run' intro: ledger_prefix_trans)
qed

lemma receive_line_balances:
  assumes "receive_line h line run = Inr run'"
  shows "inventory_balances (rr_db run') = inventory_balances (rr_db run)"
  using receive_line_effect(1)[OF assms] by auto

lemma reverse_line_cases:
  assumes "reverse_line s h ri run = Inr run'"
  obtains poi d1 d2 d3 original txn where
    "get_poi s (ri_po_item_id ri) = Some poi"
    "give_received (poi_id poi) (ri_received_quantity ri) (rr_db run) = Some d1"
    "original_txn s (rh_id h) (ri_id ri) = Some original"
    "\<not> already_reversed s (it_id original)"
    "flush_received (poi_id poi) (poi_received_quantity poi - ri_received_quantity ri) d1 = Inr d2"
    "write_transaction txn d2 = Inr d3"
    "it_quantity txn = - ri_received_quantity ri" "it_amount txn = - it_amount original"
    "it_unit_cost txn = it_unit_cost original"
    "key_of_txn txn = (rh_warehouse_id h, ri_material_id ri)"
    "it_transaction_type txn = PURCHASE_IN_REVERSAL"
    "it_reversed_transaction_id txn = Some (it_id original)"
    "run' = \<lparr>rr_db = d3,
       rr_running = (rr_running run)((rh_warehouse_id h, ri_material_id ri) :=
         rr_running run (rh_warehouse_id h, ri_material_id ri) - ri_received_quantity ri),
       rr_agg = add_delta (rh_warehouse_id h, ri_material_id ri) (ri_received_quantity ri)
         (it_amount original) (rr_agg run)\<rparr>"
  using assms
  by (auto simp: reverse_line_def Let_def key_of_txn_def intro!: that)

definition reversal_key :: "receipt_header \<Rightarrow> purchase_receipt_item \<Rightarrow> balance_key" where
  "reversal_key h ri = (rh_warehouse_id h, ri_material_id ri)"

definition reversal_amount :: "db \<Rightarrow> receipt_header \<Rightarrow> purchase_receipt_item \<Rightarrow> decimal" where
  "reversal_amount s h ri =
    (case original_txn s (rh_id h) (ri_id ri) of None \<Rightarrow> 0 | Some t \<Rightarrow> it_amount t)"

lemma original_txn_mem: "original_txn s i j = Some t \<Longrightarrow> t \<in> set (inventory_transactions s)"
  by (auto simp: original_txn_def find_Some_iff)

lemma reverse_line_effect:
  assumes "reverse_line s h ri run = Inr run'"
  shows "\<exists>X Z W V. rr_db run' = (rr_db run)\<lparr>purchase_order_items := X,
      inventory_transactions := Z, number_sequences := W, auto_inc := V\<rparr>"
    and "ledger_quantity (rr_db run') k = ledger_quantity (rr_db run) k -
      (if k = reversal_key h ri then ri_received_quantity ri else 0)"
    and "ledger_amount (rr_db run') k = ledger_amount (rr_db run) k -
      (if k = reversal_key h ri then reversal_amount s h ri else 0)"
    and "rr_agg run' = add_delta (reversal_key h ri) (ri_received_quantity ri)
      (reversal_amount s h ri) (rr_agg run)"
    and "stock_ok s \<Longrightarrow> on_grid 2 (reversal_amount s h ri)"
    and "stock_ok s \<Longrightarrow> stock_ok (rr_db run) \<Longrightarrow> stock_ok (rr_db run')"
    and "ledger_prefix (rr_db run) (rr_db run')"
proof -
  obtain poi d1 d2 d3 original txn where
    "get_poi s (ri_po_item_id ri) = Some poi"
    and 1: "give_received (poi_id poi) (ri_received_quantity ri) (rr_db run) = Some d1"
    and orig: "original_txn s (rh_id h) (ri_id ri) = Some original"
    and "\<not> already_reversed s (it_id original)"
    and 2: "flush_received (poi_id poi) (poi_received_quantity poi - ri_received_quantity ri) d1 = Inr d2"
    and 3: "write_transaction txn d2 = Inr d3"
    and t: "it_quantity txn = - ri_received_quantity ri" "it_amount txn = - it_amount original"
    "it_unit_cost txn = it_unit_cost original"
    "key_of_txn txn = (rh_warehouse_id h, ri_material_id ri)"
    and "it_transaction_type txn = PURCHASE_IN_REVERSAL"
    "it_reversed_transaction_id txn = Some (it_id original)"
    and run': "run' = \<lparr>rr_db = d3,
       rr_running = (rr_running run)((rh_warehouse_id h, ri_material_id ri) :=
         rr_running run (rh_warehouse_id h, ri_material_id ri) - ri_received_quantity ri),
       rr_agg = add_delta (rh_warehouse_id h, ri_material_id ri) (ri_received_quantity ri)
         (it_amount original) (rr_agg run)\<rparr>"
    by (rule reverse_line_cases[OF assms])
  obtain X1 where X1: "d1 = (rr_db run)\<lparr>purchase_order_items := X1\<rparr>" using give_received_frame[OF 1] by blast
  obtain X2 where X2: "d2 = d1\<lparr>purchase_order_items := X2\<rparr>" using flush_received_frame[OF 2] by blast
  note e3 = write_transaction_effect[OF 3]
  obtain X Y Z where X: "d3 = d2\<lparr>inventory_transactions := X, number_sequences := Y, auto_inc := Z\<rparr>"
    using e3(5) by blast
  have same: "inventory_transactions d2 = inventory_transactions (rr_db run)"
    "inventory_balances d2 = inventory_balances (rr_db run)" by (simp_all add: X2 X1)
  note st = stock_unchanged[OF same(2,1)]
  have ra: "reversal_amount s h ri = it_amount original" by (simp add: reversal_amount_def orig)
  show "\<exists>X Z W V. rr_db run' = (rr_db run)\<lparr>purchase_order_items := X,
      inventory_transactions := Z, number_sequences := W, auto_inc := V\<rparr>"
    unfolding run' posting.simps X X2 X1 by (intro exI) simp
  show "ledger_quantity (rr_db run') k = ledger_quantity (rr_db run) k -
      (if k = reversal_key h ri then ri_received_quantity ri else 0)"
    using e3(1)[of k] by (simp add: run' st t reversal_key_def)
  show "ledger_amount (rr_db run') k = ledger_amount (rr_db run) k -
      (if k = reversal_key h ri then reversal_amount s h ri else 0)"
    using e3(2)[of k] by (simp add: run' st t reversal_key_def ra)
  show "rr_agg run' = add_delta (reversal_key h ri) (ri_received_quantity ri)
      (reversal_amount s h ri) (rr_agg run)"
    by (simp add: run' ra reversal_key_def)
  show grid: "stock_ok s \<Longrightarrow> on_grid 2 (reversal_amount s h ri)"
    using original_txn_mem[OF orig] by (simp add: ra stock_ok_def)
  show "stock_ok s \<Longrightarrow> stock_ok (rr_db run) \<Longrightarrow> stock_ok (rr_db run')"
    using e3(4) st(5) t(2) grid by (simp add: run' ra)
  show "ledger_prefix (rr_db run) (rr_db run')"
    using write_transaction_prefix[OF 3] st(7) by (auto simp: run' intro: ledger_prefix_trans)
qed

section \<open>The balances of a posting\<close>

definition posting_ok :: "posting \<Rightarrow> bool" where
  "posting_ok run \<longleftrightarrow> stock_ok (rr_db run) \<and> (\<forall>k. on_grid 2 (bd_amount (rr_agg run k)))"

lemma add_delta_simps:
  "bd_quantity (add_delta k q a agg k') = bd_quantity (agg k') + (if k' = k then q else 0)"
  "bd_amount (add_delta k q a agg k') = bd_amount (agg k') + (if k' = k then a else 0)"
  by (simp_all add: add_delta_def)

lemma posting_okD:
  "posting_ok run \<Longrightarrow> stock_ok (rr_db run)" "posting_ok run \<Longrightarrow> on_grid 2 (bd_amount (rr_agg run k))"
  unfolding posting_ok_def by blast+

lemma posting_okI:
  "stock_ok (rr_db run) \<Longrightarrow> (\<And>k. on_grid 2 (bd_amount (rr_agg run k))) \<Longrightarrow> posting_ok run"
  unfolding posting_ok_def by blast

lemma post_inbound_effect:
  assumes "post_inbound w k run = Inr run'" "posting_ok run"
  shows "posting_ok run'" and "rr_agg run' = rr_agg run"
    and "\<exists>X. rr_db run' = (rr_db run)\<lparr>inventory_balances := X\<rparr>"
    and "balance_quantity (rr_db run') k' = balance_quantity (rr_db run) k' +
      (if k' = k then bd_quantity (rr_agg run k) else 0)"
    and "balance_amount (rr_db run') k' = balance_amount (rr_db run) k' +
      (if k' = k then bd_amount (rr_agg run k) else 0)"
proof -
  obtain d where a: "apply_inbound k (bd_quantity (rr_agg run k)) (bd_amount (rr_agg run k)) (rr_db run) = Inr d"
    and run': "run' = run\<lparr>rr_db := touch_balance k w d\<rparr>"
    using assms(1) by (auto simp: post_inbound_def)
  note ok = posting_okD(1)[OF assms(2)] posting_okD(2)[OF assms(2), of k]
  note e = apply_inbound_effect[OF a ok]
  obtain X where X: "d = (rr_db run)\<lparr>inventory_balances := X\<rparr>" using e(4) by blast
  obtain Y where Y: "touch_balance k w d = d\<lparr>inventory_balances := Y\<rparr>" using touch_balance_frame by blast
  show "rr_agg run' = rr_agg run" by (simp add: run')
  show "posting_ok run'"
    by (rule posting_okI)
      (simp_all add: run' touch_balance_stock_ok[OF e(1)] posting_okD(2)[OF assms(2)])
  show "\<exists>X. rr_db run' = (rr_db run)\<lparr>inventory_balances := X\<rparr>"
  proof (intro exI)
    have "rr_db run' = touch_balance k w d" by (simp add: run')
    also have "\<dots> = (rr_db run)\<lparr>inventory_balances := Y\<rparr>" by (subst Y) (simp add: X)
    finally show "rr_db run' = (rr_db run)\<lparr>inventory_balances := Y\<rparr>" .
  qed
  show "balance_quantity (rr_db run') k' = balance_quantity (rr_db run) k' +
      (if k' = k then bd_quantity (rr_agg run k) else 0)" using e(2) by (simp add: run')
  show "balance_amount (rr_db run') k' = balance_amount (rr_db run) k' +
      (if k' = k then bd_amount (rr_agg run k) else 0)" using e(3) by (simp add: run')
qed

lemma post_outbound_effect:
  assumes "post_outbound w k run = Inr run'" "posting_ok run"
  shows "posting_ok run'" and "rr_agg run' = rr_agg run"
    and "\<exists>X. rr_db run' = (rr_db run)\<lparr>inventory_balances := X\<rparr>"
    and "balance_quantity (rr_db run') k' = balance_quantity (rr_db run) k' -
      (if k' = k then bd_quantity (rr_agg run k) else 0)"
    and "balance_amount (rr_db run') k' = balance_amount (rr_db run) k' -
      (if k' = k then bd_amount (rr_agg run k) else 0)"
proof -
  obtain d where a: "apply_outbound k (bd_quantity (rr_agg run k)) (bd_amount (rr_agg run k)) (rr_db run) = Inr d"
    and run': "run' = run\<lparr>rr_db := touch_balance k w d\<rparr>"
    using assms(1) by (auto simp: post_outbound_def)
  note ok = posting_okD(1)[OF assms(2)] posting_okD(2)[OF assms(2), of k]
  note e = apply_outbound_effect[OF a ok]
  obtain X where X: "d = (rr_db run)\<lparr>inventory_balances := X\<rparr>" using e(4) by blast
  obtain Y where Y: "touch_balance k w d = d\<lparr>inventory_balances := Y\<rparr>" using touch_balance_frame by blast
  show "rr_agg run' = rr_agg run" by (simp add: run')
  show "posting_ok run'"
    by (rule posting_okI)
      (simp_all add: run' touch_balance_stock_ok[OF e(1)] posting_okD(2)[OF assms(2)])
  show "\<exists>X. rr_db run' = (rr_db run)\<lparr>inventory_balances := X\<rparr>"
  proof (intro exI)
    have "rr_db run' = touch_balance k w d" by (simp add: run')
    also have "\<dots> = (rr_db run)\<lparr>inventory_balances := Y\<rparr>" by (subst Y) (simp add: X)
    finally show "rr_db run' = (rr_db run)\<lparr>inventory_balances := Y\<rparr>" .
  qed
  show "balance_quantity (rr_db run') k' = balance_quantity (rr_db run) k' -
      (if k' = k then bd_quantity (rr_agg run k) else 0)" using e(2) by (simp add: run')
  show "balance_amount (rr_db run') k' = balance_amount (rr_db run) k' -
      (if k' = k then bd_amount (rr_agg run k) else 0)" using e(3) by (simp add: run')
qed

lemma add_delta_grid:
  "(\<And>k. on_grid 2 (bd_amount (agg k))) \<Longrightarrow> on_grid 2 a \<Longrightarrow> on_grid 2 (bd_amount (add_delta k' q a agg k))"
  by (simp only: add_delta_simps) (simp add: on_grid_add)

lemma receive_line_ok: "receive_line h line run = Inr run' \<Longrightarrow> posting_ok run \<Longrightarrow> posting_ok run'"
  by (rule posting_okI)
    (simp_all only: receive_line_effect(4,5) posting_okD add_delta_grid line_amount_grid)

lemma reverse_line_ok:
  "reverse_line s h ri run = Inr run' \<Longrightarrow> stock_ok s \<Longrightarrow> posting_ok run \<Longrightarrow> posting_ok run'"
  by (rule posting_okI)
    (simp_all only: reverse_line_effect(4,5,6) posting_okD add_delta_grid)

text \<open>Appending leaves the balances, writing a balance leaves the ledger.\<close>

lemma ledger_of_frame:
  "inventory_transactions d' = inventory_transactions d \<Longrightarrow> ledger_quantity d' k = ledger_quantity d k"
  "inventory_transactions d' = inventory_transactions d \<Longrightarrow> ledger_amount d' k = ledger_amount d k"
  by (simp_all add: ledger_quantity_def ledger_amount_def)

lemma reverse_line_balances:
  "reverse_line s h ri run = Inr run' \<Longrightarrow> inventory_balances (rr_db run') = inventory_balances (rr_db run)"
  using reverse_line_effect(1)[of s h ri run run'] by auto

lemma post_inbound_ledger:
  "post_inbound w k run = Inr run' \<Longrightarrow> posting_ok run \<Longrightarrow>
    inventory_transactions (rr_db run') = inventory_transactions (rr_db run)"
  using post_inbound_effect(3)[of w k run run'] by auto

lemma post_outbound_ledger:
  "post_outbound w k run = Inr run' \<Longrightarrow> posting_ok run \<Longrightarrow>
    inventory_transactions (rr_db run') = inventory_transactions (rr_db run)"
  using post_outbound_effect(3)[of w k run run'] by auto

section \<open>The postings are ledger postings\<close>

interpretation inbound_quantity: ledger_posting
  "\<lambda>r. ledger_quantity (rr_db r)" "\<lambda>r. balance_quantity (rr_db r)" "\<lambda>r k. bd_quantity (rr_agg r k)"
  posting_ok "receive_line h" "line_key h" "post_inbound w" for h w
proof (unfold_locales, goal_cases)
  case (1 x r r')
  then show ?case by (blast intro: receive_line_ok)
next
  case (2 x r r' k)
  show ?case
    by (simp only: receive_line_effect(2,4)[OF 2(1)] add_delta_simps)
next
  case (3 x r r' k)
  show ?case by (simp only: balances_unchanged[OF receive_line_balances[OF 3(1)]])
next
  case (4 x r r' k)
  then show ?case by (simp only: receive_line_effect(4)[OF 4(1)] add_delta_simps) simp
next
  case (5 k r r')
  then show ?case by (blast intro: post_inbound_effect(1))
next
  case (6 k r r' k')
  show ?case using 6 by (intro ledger_of_frame post_inbound_ledger) blast+
next
  case (7 k r r' k')
  then show ?case by (metis post_inbound_effect(2))
next
  case (8 k r r' k')
  then have "posting_ok r" by blast
  from post_inbound_effect(4)[OF 8(1) this, of k'] show ?case by simp
qed

interpretation inbound_amount: ledger_posting
  "\<lambda>r. ledger_amount (rr_db r)" "\<lambda>r. balance_amount (rr_db r)" "\<lambda>r k. bd_amount (rr_agg r k)"
  posting_ok "receive_line h" "line_key h" "post_inbound w" for h w
proof (unfold_locales, goal_cases)
  case (1 x r r')
  then show ?case by (blast intro: receive_line_ok)
next
  case (2 x r r' k)
  show ?case
    by (simp only: receive_line_effect(3,4)[OF 2(1)] add_delta_simps)
next
  case (3 x r r' k)
  show ?case by (simp only: balances_unchanged[OF receive_line_balances[OF 3(1)]])
next
  case (4 x r r' k)
  then show ?case by (simp only: receive_line_effect(4)[OF 4(1)] add_delta_simps) simp
next
  case (5 k r r')
  then show ?case by (blast intro: post_inbound_effect(1))
next
  case (6 k r r' k')
  show ?case using 6 by (intro ledger_of_frame post_inbound_ledger) blast+
next
  case (7 k r r' k')
  then show ?case by (metis post_inbound_effect(2))
next
  case (8 k r r' k')
  then have "posting_ok r" by blast
  from post_inbound_effect(5)[OF 8(1) this, of k'] show ?case by simp
qed

interpretation outbound_quantity: ledger_posting
  "\<lambda>r. ledger_quantity (rr_db r)" "\<lambda>r. balance_quantity (rr_db r)" "\<lambda>r k. - bd_quantity (rr_agg r k)"
  "\<lambda>r. stock_ok s \<and> posting_ok r" "reverse_line s h" "reversal_key h" "post_outbound w" for s h w
proof (unfold_locales, goal_cases)
  case (1 x r r')
  then show ?case by (blast intro: reverse_line_ok)
next
  case (2 x r r' k)
  show ?case
    by (simp only: reverse_line_effect(2,4)[OF 2(1)] add_delta_simps)
next
  case (3 x r r' k)
  show ?case by (simp only: balances_unchanged[OF reverse_line_balances[OF 3(1)]])
next
  case (4 x r r' k)
  then show ?case by (simp only: reverse_line_effect(4)[OF 4(1)] add_delta_simps) simp
next
  case (5 k r r')
  then show ?case by (blast intro: post_outbound_effect(1))
next
  case (6 k r r' k')
  show ?case using 6 by (intro ledger_of_frame post_outbound_ledger) blast+
next
  case (7 k r r' k')
  then show ?case by (metis post_outbound_effect(2))
next
  case (8 k r r' k')
  then have "posting_ok r" by blast
  from post_outbound_effect(4)[OF 8(1) this, of k'] show ?case by simp
qed

interpretation outbound_amount: ledger_posting
  "\<lambda>r. ledger_amount (rr_db r)" "\<lambda>r. balance_amount (rr_db r)" "\<lambda>r k. - bd_amount (rr_agg r k)"
  "\<lambda>r. stock_ok s \<and> posting_ok r" "reverse_line s h" "reversal_key h" "post_outbound w" for s h w
proof (unfold_locales, goal_cases)
  case (1 x r r')
  then show ?case by (blast intro: reverse_line_ok)
next
  case (2 x r r' k)
  show ?case
    by (simp only: reverse_line_effect(3,4)[OF 2(1)] add_delta_simps)
next
  case (3 x r r' k)
  show ?case by (simp only: balances_unchanged[OF reverse_line_balances[OF 3(1)]])
next
  case (4 x r r' k)
  then show ?case by (simp only: reverse_line_effect(4)[OF 4(1)] add_delta_simps) simp
next
  case (5 k r r')
  then show ?case by (blast intro: post_outbound_effect(1))
next
  case (6 k r r' k')
  show ?case using 6 by (intro ledger_of_frame post_outbound_ledger) blast+
next
  case (7 k r r' k')
  then show ?case by (metis post_outbound_effect(2))
next
  case (8 k r r' k')
  then have "posting_ok r" by blast
  from post_outbound_effect(5)[OF 8(1) this, of k'] show ?case by simp
qed

end
