(* ===== verification/Receipt_Steps.thy ===== *)
theory Receipt_Steps
  imports Receipt_Facts Order_Steps "HOL-Library.Multiset"
begin

text \<open>
  The receipt handlers taken apart: what a committed \<^verbatim>\<open>create_receipt\<close> and a
  committed \<^verbatim>\<open>reverse_receipt\<close> have read, done and left alone.
\<close>

section \<open>The handlers, step by step\<close>

definition receipt_day :: "request_ctx \<Rightarrow> receipt_create \<Rightarrow> date" where
  "receipt_day ctx data = (case rcc_receipt_date data of None \<Rightarrow> rq_today ctx | Some x \<Rightarrow> x)"

lemma create_receipt_cases:
  assumes "create_receipt ctx u data s d = Inr d'"
  obtains po wh pois ks d1 no d2 d3 h rcv run1 run2 where
    "rcc_items data \<noteq> []"
    "receivable_po s (rcc_po_id data) = Inr po"
    "active_warehouse s (rcc_warehouse_id data) = Inr wh"
    "check_receipt_lines [] (rcc_items data) = Inr ()"
    "rtraverse (receipt_po_item s po) (rcc_items data) = Inr pois"
    "lock_balances (map (\<lambda>poi. (wh_id wh, poi_material_id poi)) pois) d = (ks, d1)"
    "next_daily_code SEQ_PURCHASE_RECEIPT ''RCV'' (rq_today ctx) (Some (receipt_day ctx data)) d1 = (no, d2)"
    "h = \<lparr>rh_id = auto_inc d2 T_purchase_receipts, rh_warehouse_id = wh_id wh,
       rh_at = DateTime (receipt_day ctx data) (dt_millis (rq_now ctx)), rh_user_id = cu_id u\<rparr>"
    "rcv = \<lparr>rcv_id = rh_id h, rcv_receipt_no = no, rcv_po_id = po_id po,
          rcv_warehouse_id = wh_id wh, rcv_received_by = cu_id u, rcv_received_at = rh_at h,
          rcv_status = RCV_POSTED, rcv_reversed_by = None, rcv_reversed_at = None,
          rcv_reverse_reason = None, rcv_remark = rcc_remark data\<rparr>"
    "insert_rcv rcv d2 = Inr d3"
    "rfold (receive_line h) (receipt_lines (rcc_items data) pois) (start_posting d1 d3) = Inr run1"
    "rfold (post_inbound (rh_at h)) ks run1 = Inr run2"
    "d' = receipt_audit ctx RECEIPT_POST u (rh_id h) no
        (recompute_po_status (received_items s (po_id po) (rcc_items data)) po (rr_db run2))"
proof -
  from assms[unfolded create_receipt_def Let_def split_beta] obtain po wh pois where
    1: "rcc_items data \<noteq> []" "receivable_po s (rcc_po_id data) = Inr po"
    "active_warehouse s (rcc_warehouse_id data) = Inr wh"
    "check_receipt_lines [] (rcc_items data) = Inr ()"
    "rtraverse (receipt_po_item s po) (rcc_items data) = Inr pois"
    by auto
  obtain ks d1 where 2: "lock_balances (map (\<lambda>poi. (wh_id wh, poi_material_id poi)) pois) d = (ks, d1)"
    by fastforce
  obtain no d2 where 3: "next_daily_code SEQ_PURCHASE_RECEIPT ''RCV'' (rq_today ctx)
      (Some (receipt_day ctx data)) d1 = (no, d2)"
    by fastforce
  from assms 1 2 3 show ?thesis
    by (auto simp: create_receipt_def Let_def receipt_day_def[symmetric] intro!: that)
qed

lemma reverse_receipt_cases:
  assumes "reverse_receipt ctx u i reason s d = Inr d'"
  obtains r0 d1 r ks d2 h run1 run2 d3 where
    "get_rcv s i = Some r0" "rcv_status r0 = RCV_POSTED"
    "rcv_where i (\<lambda>r. rcv_status r = RCV_POSTED) (mark_reversed (cu_id u) (rq_now ctx) reason) d = Some d1"
    "get_rcv d1 i = Some r"
    "lock_balances (map (\<lambda>ri. (rcv_warehouse_id r, ri_material_id ri)) (receipt_items i s)) d1 = (ks, d2)"
    "h = \<lparr>rh_id = i, rh_warehouse_id = rcv_warehouse_id r, rh_at = rq_now ctx, rh_user_id = cu_id u\<rparr>"
    "rfold (reverse_line s h) (receipt_items i s) (start_posting d2 d2) = Inr run1"
    "rfold (post_outbound (rq_now ctx)) ks run1 = Inr run2"
    "d3 = (case get_po s (rcv_po_id r) of None \<Rightarrow> rr_db run2
        | Some po \<Rightarrow> recompute_po_status (reversed_items s (po_id po) (receipt_items i s)) po (rr_db run2))"
    "d' = receipt_audit ctx RECEIPT_REVERSE u i (rcv_receipt_no r) d3"
proof -
  from assms[unfolded reverse_receipt_def Let_def split_beta] obtain r0 d1 r where
    1: "get_rcv s i = Some r0" "rcv_status r0 \<noteq> RCV_REVERSED" "rcv_status r0 = RCV_POSTED"
    "rcv_where i (\<lambda>r. rcv_status r = RCV_POSTED) (mark_reversed (cu_id u) (rq_now ctx) reason) d = Some d1"
    "get_rcv d1 i = Some r"
    by (auto simp: load_receipt_def)
  obtain ks d2 where 2: "lock_balances (map (\<lambda>ri. (rcv_warehouse_id r, ri_material_id ri)) (receipt_items i s)) d1 = (ks, d2)"
    by fastforce
  from assms 1 2 show ?thesis
    by (auto simp: reverse_receipt_def load_receipt_def Let_def intro!: that)
qed

section \<open>Totals of lists\<close>

lemma sum_over_mset: "sum_over p g xs = sum_mset (image_mset g (filter_mset p (mset xs)))"
  by (induction xs) auto

lemma sum_over_sort_key [simp]: "sum_over p g (sort_key f xs) = sum_over p g xs"
  by (simp add: sum_over_mset)

lemma sum_over_enumerate:
  "sum_over (\<lambda>x. p (snd x)) (\<lambda>x. g (snd x)) (enumerate n xs) = sum_over p g xs"
  by (induction xs arbitrary: n) simp_all

lemma sum_over_zip:
  assumes "list_all2 P xs ys" "\<And>x y. P x y \<Longrightarrow> p (x, y) = p' x" "\<And>x y. P x y \<Longrightarrow> g (x, y) = g' x"
  shows "sum_over p g (zip xs ys) = sum_over p' g' xs"
  using assms by (induction xs ys rule: list_all2_induct) simp_all

lemma set_receipt_lines: "snd ` set (receipt_lines items pois) = set (zip items pois)"
proof -
  let ?xs = "sort_key (\<lambda>p. ric_po_item_id (fst p)) (zip items pois)"
  have "snd ` set (enumerate 1 ?xs) = set (map snd (enumerate 1 ?xs))" unfolding set_map ..
  then show ?thesis unfolding receipt_lines_def map_snd_enumerate by simp
qed

section \<open>What the checks of the handlers establish\<close>

lemma receipt_po_item_Inr:
  "receipt_po_item s po item = Inr poi \<longleftrightarrow> get_poi s (ric_po_item_id item) = Some poi
    \<and> poi_po_id poi = po_id po \<and> (\<exists>m. get_mat s (poi_material_id poi) = Some m \<and> mat_status m = ST_ACTIVE)"
  by (auto simp: receipt_po_item_def assert_receipt_material_active_def split: option.splits)

lemma active_warehouse_Inr:
  "active_warehouse s i = Inr wh \<longleftrightarrow> get_wh s i = Some wh \<and> wh_status wh = ST_ACTIVE"
  by (auto simp: active_warehouse_def split: option.splits)

lemma receivable_po_Inr:
  "receivable_po s i = Inr po \<longleftrightarrow> get_po s i = Some po \<and> po_status po \<in> set RECEIVABLE_STATUSES"
  by (auto simp: receivable_po_def split: option.splits)

lemma get_wh_id: "get_wh s i = Some w \<Longrightarrow> wh_id w = i"
  by (auto simp: get_wh_def dest: row_by_SomeD)

lemma get_poi_id: "get_poi s i = Some r \<Longrightarrow> poi_id r = i"
  by (auto simp: get_poi_def dest: row_by_SomeD)

lemma check_receipt_lines_Inr:
  "check_receipt_lines seen items = Inr () \<longleftrightarrow> distinct (map ric_po_item_id items)
    \<and> set seen \<inter> ric_po_item_id ` set items = {} \<and> list_all (\<lambda>i. 0 < ric_received_quantity i) items"
  by (induction items arbitrary: seen) auto

lemma lock_balances_effect:
  assumes "lock_balances ks0 d = (ks, d1)"
  shows "set ks = set ks0" "distinct ks" "sorted ks"
    and "stock_ok d \<Longrightarrow> stock_ok d1"
    and "balance_quantity d1 = balance_quantity d" "balance_amount d1 = balance_amount d"
    and "\<exists>X Y. d1 = d\<lparr>inventory_balances := X, auto_inc := Y\<rparr>"
    and "k \<in> set ks0 \<Longrightarrow> balance_row k d1 \<noteq> None"
    and "x \<noteq> T_inventory_balances \<Longrightarrow> auto_inc d1 x = auto_inc d x"
proof -
  have ks: "ks = sort_keys ks0" and d1: "d1 = fold lock_balance ks d"
    using assms by (auto simp: lock_balances_def Let_def)
  show "set ks = set ks0" "distinct ks" "sorted ks" by (simp_all add: ks)
  show "stock_ok d \<Longrightarrow> stock_ok d1" by (simp add: d1 fold_lock_balance_stock_ok)
  show "balance_quantity d1 = balance_quantity d" "balance_amount d1 = balance_amount d"
    by (simp_all add: d1 fun_eq_iff)
  show "\<exists>X Y. d1 = d\<lparr>inventory_balances := X, auto_inc := Y\<rparr>"
    unfolding d1 by (rule fold_lock_balance_frame)
  show "k \<in> set ks0 \<Longrightarrow> balance_row k d1 \<noteq> None"
    unfolding d1 by (rule fold_lock_balance_locked) (simp add: ks)
  have "auto_inc (fold lock_balance xs d) x = auto_inc d x" if "x \<noteq> T_inventory_balances" for xs
    using that by (induction xs arbitrary: d) (simp_all add: lock_balance_def split: option.splits)
  then show "x \<noteq> T_inventory_balances \<Longrightarrow> auto_inc d1 x = auto_inc d x" by (simp add: d1)
qed

lemma recompute_po_status_frame: "\<exists>X. recompute_po_status items po d = d\<lparr>purchase_orders := X\<rparr>"
proof -
  have "\<exists>X. d = d\<lparr>purchase_orders := X\<rparr>" by (rule exI[of _ "purchase_orders d"]) simp
  moreover have "\<exists>X. flush_po i f d = d\<lparr>purchase_orders := X\<rparr>" for i f
    unfolding flush_po_def by blast
  ultimately show ?thesis unfolding recompute_po_status_def Let_def by (simp only: split: if_split) blast
qed

section \<open>The two loops as a whole\<close>

lemma receive_lines_effect:
  assumes "rfold (receive_line h) lines run = Inr run'"
  shows "(\<exists>X Y Z W V. rr_db run' = (rr_db run)\<lparr>purchase_order_items := X, purchase_receipt_items := Y,
      inventory_transactions := Z, number_sequences := W, auto_inc := V\<rparr>)
    \<and> ledger_prefix (rr_db run) (rr_db run')
    \<and> ledger_quantity (rr_db run') k = ledger_quantity (rr_db run) k +
      sum_over (\<lambda>l. line_key h l = k) (\<lambda>l. ric_received_quantity (fst (snd l))) lines
    \<and> ledger_amount (rr_db run') k = ledger_amount (rr_db run) k +
      sum_over (\<lambda>l. line_key h l = k) (\<lambda>l. line_amount (ric_received_quantity (fst (snd l)))
        (poi_unit_price (snd (snd l)))) lines"
  using assms
proof (induction lines arbitrary: run)
  case Nil
  have run': "run' = run" using Nil by simp
  have "\<exists>A B C D E. rr_db run = (rr_db run)\<lparr>purchase_order_items := A, purchase_receipt_items := B, inventory_transactions := C, number_sequences := D, auto_inc := E\<rparr>"
    by (intro exI[of _ "purchase_order_items (rr_db run)"]
        exI[of _ "purchase_receipt_items (rr_db run)"]
        exI[of _ "inventory_transactions (rr_db run)"]
        exI[of _ "number_sequences (rr_db run)"]
        exI[of _ "auto_inc (rr_db run)"]) simp
  then show ?case unfolding run' by (intro conjI) (assumption, simp_all)
next
  case (Cons line lines)
  then obtain r1 where r1: "receive_line h line run = Inr r1" "rfold (receive_line h) lines r1 = Inr run'"
    by auto
  note e = receive_line_effect[OF r1(1)]
  note IH = Cons.IH[OF r1(2)]
  obtain X Y Z W V where f1: "rr_db r1 = (rr_db run)\<lparr>purchase_order_items := X,
      purchase_receipt_items := Y, inventory_transactions := Z, number_sequences := W, auto_inc := V\<rparr>"
    using e(1) by blast
  obtain X' Y' Z' W' V' where f2: "rr_db run' = (rr_db r1)\<lparr>purchase_order_items := X',
      purchase_receipt_items := Y', inventory_transactions := Z', number_sequences := W', auto_inc := V'\<rparr>"
    using IH by blast
  have frame: "rr_db run' = (rr_db run)\<lparr>purchase_order_items := X', purchase_receipt_items := Y',
      inventory_transactions := Z', number_sequences := W', auto_inc := V'\<rparr>"
    unfolding f2 f1 by simp
  have "ledger_prefix (rr_db run) (rr_db run')"
    using e(6) IH ledger_prefix_trans by blast
  moreover have "ledger_quantity (rr_db run') k = ledger_quantity (rr_db run) k +
      sum_over (\<lambda>l. line_key h l = k) (\<lambda>l. ric_received_quantity (fst (snd l))) (line # lines)"
    using conjunct1[OF conjunct2[OF conjunct2[OF IH]]] e(2)[of k] by simp
  moreover have "ledger_amount (rr_db run') k = ledger_amount (rr_db run) k +
      sum_over (\<lambda>l. line_key h l = k) (\<lambda>l. line_amount (ric_received_quantity (fst (snd l)))
        (poi_unit_price (snd (snd l)))) (line # lines)"
    using conjunct2[OF conjunct2[OF conjunct2[OF IH]]] e(3)[of k] by simp
  ultimately show ?case using frame by blast
qed

lemma reverse_lines_effect:
  assumes "rfold (reverse_line s h) ris run = Inr run'"
  shows "(\<exists>X Z W V. rr_db run' = (rr_db run)\<lparr>purchase_order_items := X,
      inventory_transactions := Z, number_sequences := W, auto_inc := V\<rparr>)
    \<and> ledger_prefix (rr_db run) (rr_db run')
    \<and> ledger_quantity (rr_db run') k = ledger_quantity (rr_db run) k -
      sum_over (\<lambda>ri. reversal_key h ri = k) ri_received_quantity ris
    \<and> ledger_amount (rr_db run') k = ledger_amount (rr_db run) k -
      sum_over (\<lambda>ri. reversal_key h ri = k) (reversal_amount s h) ris"
  using assms
proof (induction ris arbitrary: run)
  case Nil
  have run': "run' = run" using Nil by simp
  have "\<exists>A B C D. rr_db run = (rr_db run)\<lparr>purchase_order_items := A, inventory_transactions := B, number_sequences := C, auto_inc := D\<rparr>"
    by (intro exI[of _ "purchase_order_items (rr_db run)"]
        exI[of _ "inventory_transactions (rr_db run)"]
        exI[of _ "number_sequences (rr_db run)"]
        exI[of _ "auto_inc (rr_db run)"]) simp
  then show ?case unfolding run' by (intro conjI) (assumption, simp_all)
next
  case (Cons ri ris)
  then obtain r1 where r1: "reverse_line s h ri run = Inr r1" "rfold (reverse_line s h) ris r1 = Inr run'"
    by auto
  note e = reverse_line_effect[OF r1(1)]
  note IH = Cons.IH[OF r1(2)]
  obtain X Z W V where f1: "rr_db r1 = (rr_db run)\<lparr>purchase_order_items := X,
      inventory_transactions := Z, number_sequences := W, auto_inc := V\<rparr>"
    using e(1) by blast
  obtain X' Z' W' V' where f2: "rr_db run' = (rr_db r1)\<lparr>purchase_order_items := X',
      inventory_transactions := Z', number_sequences := W', auto_inc := V'\<rparr>"
    using IH by blast
  have frame: "rr_db run' = (rr_db run)\<lparr>purchase_order_items := X',
      inventory_transactions := Z', number_sequences := W', auto_inc := V'\<rparr>"
    unfolding f2 f1 by simp
  have "ledger_prefix (rr_db run) (rr_db run')"
    using e(7) IH ledger_prefix_trans by blast
  moreover have "ledger_quantity (rr_db run') k = ledger_quantity (rr_db run) k -
      sum_over (\<lambda>ri. reversal_key h ri = k) ri_received_quantity (ri # ris)"
    using conjunct1[OF conjunct2[OF conjunct2[OF IH]]] e(2)[of k] by simp
  moreover have "ledger_amount (rr_db run') k = ledger_amount (rr_db run) k -
      sum_over (\<lambda>ri. reversal_key h ri = k) (reversal_amount s h) (ri # ris)"
    using conjunct2[OF conjunct2[OF conjunct2[OF IH]]] e(3)[of k] by simp
  ultimately show ?case using frame by blast
qed

lemma post_frame:
  "post_inbound w k run = Inr run' \<Longrightarrow> \<exists>X. rr_db run' = (rr_db run)\<lparr>inventory_balances := X\<rparr>"
  "post_outbound w k run = Inr run' \<Longrightarrow> \<exists>X. rr_db run' = (rr_db run)\<lparr>inventory_balances := X\<rparr>"
proof -
  have *: "\<exists>X. touch_balance k w d = (rr_db run)\<lparr>inventory_balances := X\<rparr>"
    if sv: "save_balance b (rr_db run) = Inr d" for b d
  proof -
    obtain X where X: "d = (rr_db run)\<lparr>inventory_balances := X\<rparr>" using save_balance_frame[OF sv] by blast
    obtain Y where Y: "touch_balance k w d = d\<lparr>inventory_balances := Y\<rparr>" using touch_balance_frame by blast
    show ?thesis by (rule exI[of _ Y], subst Y) (simp add: X)
  qed
  show "post_inbound w k run = Inr run' \<Longrightarrow> \<exists>X. rr_db run' = (rr_db run)\<lparr>inventory_balances := X\<rparr>"
    unfolding post_inbound_def by (auto elim!: apply_inbound_cases dest!: *)
  show "post_outbound w k run = Inr run' \<Longrightarrow> \<exists>X. rr_db run' = (rr_db run)\<lparr>inventory_balances := X\<rparr>"
    unfolding post_outbound_def by (auto elim!: apply_outbound_cases dest!: *)
qed

lemma balances_frame_refl: "\<exists>X. d = d\<lparr>inventory_balances := X\<rparr>"
  by (rule exI[of _ "inventory_balances d"]) simp

lemma balances_frame_trans:
  "\<exists>X. d' = d\<lparr>inventory_balances := X\<rparr> \<Longrightarrow> \<exists>X. d'' = d'\<lparr>inventory_balances := X\<rparr> \<Longrightarrow>
    \<exists>X. d'' = d\<lparr>inventory_balances := X\<rparr>"
  by auto

lemma posts_frame:
  "rfold (post_inbound w) ks run = Inr run' \<Longrightarrow> \<exists>X. rr_db run' = (rr_db run)\<lparr>inventory_balances := X\<rparr>"
  "rfold (post_outbound w) ks run = Inr run' \<Longrightarrow> \<exists>X. rr_db run' = (rr_db run)\<lparr>inventory_balances := X\<rparr>"
proof -
  show "rfold (post_inbound w) ks run = Inr run' \<Longrightarrow> \<exists>X. rr_db run' = (rr_db run)\<lparr>inventory_balances := X\<rparr>"
    by (erule rfold_rel[where R = "\<lambda>a b. \<exists>X. rr_db b = (rr_db a)\<lparr>inventory_balances := X\<rparr>"])
      (blast intro: balances_frame_refl balances_frame_trans post_frame(1))+
  show "rfold (post_outbound w) ks run = Inr run' \<Longrightarrow> \<exists>X. rr_db run' = (rr_db run)\<lparr>inventory_balances := X\<rparr>"
    by (erule rfold_rel[where R = "\<lambda>a b. \<exists>X. rr_db b = (rr_db a)\<lparr>inventory_balances := X\<rparr>"])
      (blast intro: balances_frame_refl balances_frame_trans post_frame(2))+
qed

section \<open>What a receipt brings in, what a reversal takes out\<close>

text \<open>
  Computed from the request and the tables it reads: the material and the price of
  an order line, the goods of a request per key, the goods and the original
  amounts of a receipt per key.
\<close>

definition receipt_key :: "db \<Rightarrow> receipt_create \<Rightarrow> receipt_item_create \<Rightarrow> balance_key" where
  "receipt_key s data item = (rcc_warehouse_id data,
    case get_poi s (ric_po_item_id item) of None \<Rightarrow> 0 | Some poi \<Rightarrow> poi_material_id poi)"

definition receipt_value :: "db \<Rightarrow> receipt_item_create \<Rightarrow> decimal" where
  "receipt_value s item = line_amount (ric_received_quantity item)
    (case get_poi s (ric_po_item_id item) of None \<Rightarrow> 0 | Some poi \<Rightarrow> poi_unit_price poi)"

definition incoming_quantity :: "db \<Rightarrow> receipt_create \<Rightarrow> balance_key \<Rightarrow> decimal" where
  "incoming_quantity s data k =
    sum_over (\<lambda>item. receipt_key s data item = k) ric_received_quantity (rcc_items data)"

definition incoming_amount :: "db \<Rightarrow> receipt_create \<Rightarrow> balance_key \<Rightarrow> decimal" where
  "incoming_amount s data k =
    sum_over (\<lambda>item. receipt_key s data item = k) (receipt_value s) (rcc_items data)"

definition outgoing_quantity :: "db \<Rightarrow> nat \<Rightarrow> nat \<Rightarrow> balance_key \<Rightarrow> decimal" where
  "outgoing_quantity s i w k =
    sum_over (\<lambda>ri. (w, ri_material_id ri) = k) ri_received_quantity (receipt_items i s)"

definition outgoing_amount :: "db \<Rightarrow> nat \<Rightarrow> nat \<Rightarrow> balance_key \<Rightarrow> decimal" where
  "outgoing_amount s i w k = sum_over (\<lambda>ri. (w, ri_material_id ri) = k)
    (\<lambda>ri. case original_txn s i (ri_id ri) of None \<Rightarrow> 0 | Some t \<Rightarrow> it_amount t) (receipt_items i s)"

lemma receipt_lines_sums:
  assumes l2: "list_all2 (\<lambda>x y. get_poi s (ric_po_item_id x) = Some y) (rcc_items data) pois"
    and "rh_warehouse_id h = rcc_warehouse_id data"
  shows "sum_over (\<lambda>l. line_key h l = k) (\<lambda>l. ric_received_quantity (fst (snd l)))
      (receipt_lines (rcc_items data) pois) = incoming_quantity s data k"
    and "sum_over (\<lambda>l. line_key h l = k) (\<lambda>l. line_amount (ric_received_quantity (fst (snd l)))
        (poi_unit_price (snd (snd l)))) (receipt_lines (rcc_items data) pois) = incoming_amount s data k"
proof -
  let ?xs = "sort_key (\<lambda>p. ric_po_item_id (fst p)) (zip (rcc_items data) pois)"
  have "sum_over (\<lambda>l. line_key h l = k) (\<lambda>l. g (snd l)) (receipt_lines (rcc_items data) pois) =
      sum_over (\<lambda>p. (rh_warehouse_id h, poi_material_id (snd p)) = k) g (zip (rcc_items data) pois)" for g
    using sum_over_enumerate[of "\<lambda>p. (rh_warehouse_id h, poi_material_id (snd p)) = k" g 1 ?xs]
    by (simp add: receipt_lines_def line_key_def)
  note * = this[of "\<lambda>p. ric_received_quantity (fst p)"]
    this[of "\<lambda>p. line_amount (ric_received_quantity (fst p)) (poi_unit_price (snd p))"]
  show "sum_over (\<lambda>l. line_key h l = k) (\<lambda>l. ric_received_quantity (fst (snd l)))
      (receipt_lines (rcc_items data) pois) = incoming_quantity s data k"
    unfolding *(1) incoming_quantity_def
    by (rule sum_over_zip[OF l2]) (simp_all add: receipt_key_def assms(2))
  show "sum_over (\<lambda>l. line_key h l = k) (\<lambda>l. line_amount (ric_received_quantity (fst (snd l)))
        (poi_unit_price (snd (snd l)))) (receipt_lines (rcc_items data) pois) = incoming_amount s data k"
    unfolding *(2) incoming_amount_def
    by (rule sum_over_zip[OF l2]) (simp_all add: receipt_key_def receipt_value_def assms(2))
qed

section \<open>The stock after a receipt\<close>

lemma start_posting_simps [simp]:
  "rr_db (start_posting l d) = d" "rr_agg (start_posting l d) k = \<lparr>bd_quantity = 0, bd_amount = 0\<rparr>"
  by (simp_all add: start_posting_def balance_delta_init_def)

lemma start_posting_ok: "stock_ok d \<Longrightarrow> posting_ok (start_posting l d)"
  by (rule posting_okI) simp_all

lemma receipt_line_keys:
  assumes "rh_warehouse_id h = w"
  shows "line_key h ` set (receipt_lines items pois) \<subseteq> set (map (\<lambda>poi. (w, poi_material_id poi)) pois)"
proof -
  have "line_key h ` set (receipt_lines items pois) =
      (\<lambda>p. (w, poi_material_id (snd p))) ` (snd ` set (receipt_lines items pois))"
    unfolding image_image by (simp add: line_key_def assms)
  also have "\<dots> \<subseteq> set (map (\<lambda>poi. (w, poi_material_id poi)) pois)"
    unfolding set_receipt_lines by (auto dest: set_zip_rightD)
  finally show ?thesis .
qed

lemma create_receipt_stock:
  assumes "create_receipt ctx u data s d = Inr d'" "stock_ok d"
  shows "stock_ok d'" "ledger_prefix d d'"
    and "ledger_quantity d' k = ledger_quantity d k + incoming_quantity s data k"
    and "ledger_amount d' k = ledger_amount d k + incoming_amount s data k"
    and "balance_quantity d' k = balance_quantity d k + incoming_quantity s data k"
    and "balance_amount d' k = balance_amount d k + incoming_amount s data k"
proof -
  obtain po wh pois ks d1 no d2 d3 h rcv run1 run2 where
    wh: "active_warehouse s (rcc_warehouse_id data) = Inr wh"
    and pois: "rtraverse (receipt_po_item s po) (rcc_items data) = Inr pois"
    and lock: "lock_balances (map (\<lambda>poi. (wh_id wh, poi_material_id poi)) pois) d = (ks, d1)"
    and no: "next_daily_code SEQ_PURCHASE_RECEIPT ''RCV'' (rq_today ctx) (Some (receipt_day ctx data)) d1 = (no, d2)"
    and h: "h = \<lparr>rh_id = auto_inc d2 T_purchase_receipts, rh_warehouse_id = wh_id wh,
       rh_at = DateTime (receipt_day ctx data) (dt_millis (rq_now ctx)), rh_user_id = cu_id u\<rparr>"
    and ins: "insert_rcv rcv d2 = Inr d3"
    and lines: "rfold (receive_line h) (receipt_lines (rcc_items data) pois) (start_posting d1 d3) = Inr run1"
    and posts: "rfold (post_inbound (rh_at h)) ks run1 = Inr run2"
    and d': "d' = receipt_audit ctx RECEIPT_POST u (rh_id h) no
        (recompute_po_status (received_items s (po_id po) (rcc_items data)) po (rr_db run2))"
    by (rule create_receipt_cases[OF assms(1)])
  note l = lock_balances_effect[OF lock]
  obtain X Y where X: "d1 = d\<lparr>inventory_balances := X, auto_inc := Y\<rparr>" using l(7) by blast
  obtain A B where A: "d2 = d1\<lparr>number_sequences := A, auto_inc := B\<rparr>" using next_daily_code_frame(1)[OF no] by blast
  note d3 = insert_rcv_Inr(1)[OF ins]
  have t: "inventory_balances d3 = inventory_balances d1" "inventory_transactions d3 = inventory_transactions d"
    by (simp_all add: d3 A X)
  have t1: "inventory_transactions d3 = inventory_transactions d1" by (simp add: d3 A)
  note e3 = stock_unchanged[OF t(1) t1]
  obtain P where P: "recompute_po_status (received_items s (po_id po) (rcc_items data)) po (rr_db run2) =
      (rr_db run2)\<lparr>purchase_orders := P\<rparr>" using recompute_po_status_frame by blast
  have td: "inventory_balances d' = inventory_balances (rr_db run2)"
    "inventory_transactions d' = inventory_transactions (rr_db run2)"
    by (simp_all add: d' receipt_audit_def P)
  note ed = stock_unchanged[OF td]
  have ok3: "stock_ok d3" using l(4)[OF assms(2)] e3(5) by simp
  note ok = start_posting_ok[OF ok3, of d1]
  have rw: "rh_warehouse_id h = wh_id wh" "wh_id wh = rcc_warehouse_id data"
    using wh get_wh_id by (auto simp: h active_warehouse_Inr)
  have sub: "line_key h ` set (receipt_lines (rcc_items data) pois) \<subseteq> set ks"
    using receipt_line_keys[OF rw(1)] l(1) by blast
  have z: "bd_quantity (rr_agg (start_posting d1 d3) k) = 0" "bd_amount (rr_agg (start_posting d1 d3) k) = 0" for k
    by simp_all
  note gq = inbound_quantity.posting_gap[OF lines posts ok z(1) l(2) sub]
  note ga = inbound_amount.posting_gap(2)[OF lines posts ok z(2) l(2) sub]
  note le = receive_lines_effect[OF lines]
  obtain Q where Q: "rr_db run2 = (rr_db run1)\<lparr>inventory_balances := Q\<rparr>" using posts_frame(1)[OF posts] by blast
  have t2: "inventory_transactions (rr_db run2) = inventory_transactions (rr_db run1)" by (simp add: Q)
  have "list_all2 (\<lambda>x y. get_poi s (ric_po_item_id x) = Some y) (rcc_items data) pois"
    using pois[unfolded rtraverse_Inr_iff] by (rule list_all2_mono) (simp add: receipt_po_item_Inr)
  note sums = receipt_lines_sums[OF this rw(1)[unfolded rw(2)]]
  show "stock_ok d'" using posting_okD(1)[OF gq(1)] ed(5) by simp
  have lq: "ledger_quantity d' k = ledger_quantity d k + incoming_quantity s data k" for k
    using le[of k] sums(1)[of k] ledger_of_frame(1)[OF t2, of k] ledger_of_frame(1)[OF t(2), of k] ed(1)[of k] by simp
  have la: "ledger_amount d' k = ledger_amount d k + incoming_amount s data k" for k
    using le[of k] sums(2)[of k] ledger_of_frame(2)[OF t2, of k] ledger_of_frame(2)[OF t(2), of k] ed(2)[of k] by simp
  show "ledger_quantity d' k = ledger_quantity d k + incoming_quantity s data k"
    "ledger_amount d' k = ledger_amount d k + incoming_amount s data k" using lq la by blast+
  show "balance_quantity d' k = balance_quantity d k + incoming_quantity s data k"
    using gq(2)[of k] lq[of k] ed(1,3)[of k] e3(3)[of k] ledger_of_frame(1)[OF t(2), of k] fun_cong[OF l(5), of k]
    by simp
  show "balance_amount d' k = balance_amount d k + incoming_amount s data k"
    using ga[of k] la[of k] ed(2,4)[of k] e3(4)[of k] ledger_of_frame(2)[OF t(2), of k] fun_cong[OF l(6), of k]
    by simp
  have "ledger_prefix d d3" using t(2) by (rule ledger_prefix_same)
  moreover have "ledger_prefix d3 (rr_db run1)" using le by simp
  moreover have "ledger_prefix (rr_db run1) (rr_db run2)" using t2 by (rule ledger_prefix_same)
  ultimately show "ledger_prefix d d'" using ed(7) ledger_prefix_trans by blast
qed

section \<open>The stock after a reversal\<close>

lemma rcv_where_frame: "rcv_where i p f d = Some d1 \<Longrightarrow> \<exists>X. d1 = d\<lparr>purchase_receipts := X\<rparr>"
  by (auto simp: rcv_where_def)

lemma reversal_recompute_frame:
  "\<exists>P. (case get_po s j of None \<Rightarrow> d
     | Some po \<Rightarrow> recompute_po_status (f po) po d) = d\<lparr>purchase_orders := P\<rparr>"
proof (cases "get_po s j")
  case None
  then show ?thesis by (intro exI[of _ "purchase_orders d"]) simp
next
  case (Some po)
  then show ?thesis using recompute_po_status_frame[of "f po" po d] by simp
qed

lemma reverse_receipt_stock:
  assumes "reverse_receipt ctx u i reason s d = Inr d'" "stock_ok d" "stock_ok s"
  shows "stock_ok d'" and "ledger_prefix d d'"
    and "\<exists>r. r \<in> set (purchase_receipts d) \<and> rcv_id r = i \<and> rcv_status r = RCV_POSTED"
    and "\<exists>r. get_rcv d' i = Some r \<and>
      ledger_quantity d' k = ledger_quantity d k - outgoing_quantity s i (rcv_warehouse_id r) k
    \<and> ledger_amount d' k = ledger_amount d k - outgoing_amount s i (rcv_warehouse_id r) k
    \<and> balance_quantity d' k = balance_quantity d k - outgoing_quantity s i (rcv_warehouse_id r) k
    \<and> balance_amount d' k = balance_amount d k - outgoing_amount s i (rcv_warehouse_id r) k"
proof -
  obtain r0 d1 r ks d2 h run1 run2 d3 where
    claim: "rcv_where i (\<lambda>r. rcv_status r = RCV_POSTED) (mark_reversed (cu_id u) (rq_now ctx) reason) d = Some d1"
    and r: "get_rcv d1 i = Some r"
    and lock: "lock_balances (map (\<lambda>ri. (rcv_warehouse_id r, ri_material_id ri)) (receipt_items i s)) d1 = (ks, d2)"
    and h: "h = \<lparr>rh_id = i, rh_warehouse_id = rcv_warehouse_id r, rh_at = rq_now ctx, rh_user_id = cu_id u\<rparr>"
    and lines: "rfold (reverse_line s h) (receipt_items i s) (start_posting d2 d2) = Inr run1"
    and posts: "rfold (post_outbound (rq_now ctx)) ks run1 = Inr run2"
    and d3: "d3 = (case get_po s (rcv_po_id r) of None \<Rightarrow> rr_db run2
        | Some po \<Rightarrow> recompute_po_status (reversed_items s (po_id po) (receipt_items i s)) po (rr_db run2))"
    and d': "d' = receipt_audit ctx RECEIPT_REVERSE u i (rcv_receipt_no r) d3"
    by (rule reverse_receipt_cases[OF assms(1)])
  show "\<exists>r. r \<in> set (purchase_receipts d) \<and> rcv_id r = i \<and> rcv_status r = RCV_POSTED"
    using claim by (auto simp: rcv_where_def cas_rows_Some_iff)
  obtain R where R: "d1 = d\<lparr>purchase_receipts := R\<rparr>" using rcv_where_frame[OF claim] by blast
  note l = lock_balances_effect[OF lock]
  obtain X Y where X: "d2 = d1\<lparr>inventory_balances := X, auto_inc := Y\<rparr>" using l(7) by blast
  have e1: "inventory_balances d1 = inventory_balances d" "inventory_transactions d1 = inventory_transactions d"
    by (simp_all add: R)
  note e1 = stock_unchanged[OF e1]
  have t2: "inventory_transactions d2 = inventory_transactions d" by (simp add: X R)
  have ok2: "stock_ok d2" using l(4) e1(5) assms(2) by simp
  note ok = conjI[OF assms(3) start_posting_ok[OF ok2, of d2]]
  have key: "reversal_key h ri = (rcv_warehouse_id r, ri_material_id ri)" for ri
    by (simp add: reversal_key_def h)
  have sub: "reversal_key h ` set (receipt_items i s) \<subseteq> set ks"
    using l(1) by (auto simp: key)
  have z: "- bd_quantity (rr_agg (start_posting d2 d2) k) = 0" "- bd_amount (rr_agg (start_posting d2 d2) k) = 0" for k
    by simp_all
  note gq = outbound_quantity.posting_gap[OF lines posts ok z(1) l(2) sub]
  note ga = outbound_amount.posting_gap(2)[OF lines posts ok z(2) l(2) sub]
  note le = reverse_lines_effect[OF lines]
  obtain Q where Q: "rr_db run2 = (rr_db run1)\<lparr>inventory_balances := Q\<rparr>" using posts_frame(2)[OF posts] by blast
  have t3: "inventory_transactions (rr_db run2) = inventory_transactions (rr_db run1)" by (simp add: Q)
  obtain P where P: "d3 = (rr_db run2)\<lparr>purchase_orders := P\<rparr>"
    using reversal_recompute_frame[where s = s and j = "rcv_po_id r" and d = "rr_db run2" and
        f = "\<lambda>po. reversed_items s (po_id po) (receipt_items i s)"] unfolding d3 by blast
  have td: "inventory_balances d' = inventory_balances (rr_db run2)"
    "inventory_transactions d' = inventory_transactions (rr_db run2)"
    by (simp_all add: d' receipt_audit_def P)
  note ed = stock_unchanged[OF td]
  obtain A B C D where A: "rr_db run1 = d2\<lparr>purchase_order_items := A, inventory_transactions := B,
      number_sequences := C, auto_inc := D\<rparr>"
    using conjunct1[OF le] unfolding start_posting_simps by blast
  have "purchase_receipts d' = purchase_receipts d1"
    by (simp add: d' receipt_audit_def P Q A X)
  then have r': "get_rcv d' i = Some r" using r by (simp add: get_rcv_def)
  show "stock_ok d'" using posting_okD(1)[OF conjunct2[OF gq(1)]] ed(5) by simp
  have sums: "sum_over (\<lambda>ri. reversal_key h ri = k) ri_received_quantity (receipt_items i s) =
      outgoing_quantity s i (rcv_warehouse_id r) k"
    "sum_over (\<lambda>ri. reversal_key h ri = k) (reversal_amount s h) (receipt_items i s) =
      outgoing_amount s i (rcv_warehouse_id r) k"
    by (simp_all add: outgoing_quantity_def outgoing_amount_def reversal_key_def reversal_amount_def[abs_def] h)
  have lq: "ledger_quantity d' k = ledger_quantity d k - outgoing_quantity s i (rcv_warehouse_id r) k"
    using le[of k] sums(1) ledger_of_frame(1)[OF t3, of k] ledger_of_frame(1)[OF t2, of k] ed(1)[of k] by simp
  have la: "ledger_amount d' k = ledger_amount d k - outgoing_amount s i (rcv_warehouse_id r) k"
    using le[of k] sums(2) ledger_of_frame(2)[OF t3, of k] ledger_of_frame(2)[OF t2, of k] ed(2)[of k] by simp
  have "balance_quantity d' k = balance_quantity d k - outgoing_quantity s i (rcv_warehouse_id r) k"
    using gq(2)[of k] lq ed(1,3)[of k] ledger_of_frame(1)[OF t2, of k] fun_cong[OF l(5), of k] e1(3)[of k] by simp
  moreover have "balance_amount d' k = balance_amount d k - outgoing_amount s i (rcv_warehouse_id r) k"
    using ga[of k] la ed(2,4)[of k] ledger_of_frame(2)[OF t2, of k] fun_cong[OF l(6), of k] e1(4)[of k] by simp
  ultimately show "\<exists>r. get_rcv d' i = Some r \<and>
      ledger_quantity d' k = ledger_quantity d k - outgoing_quantity s i (rcv_warehouse_id r) k
    \<and> ledger_amount d' k = ledger_amount d k - outgoing_amount s i (rcv_warehouse_id r) k
    \<and> balance_quantity d' k = balance_quantity d k - outgoing_quantity s i (rcv_warehouse_id r) k
    \<and> balance_amount d' k = balance_amount d k - outgoing_amount s i (rcv_warehouse_id r) k"
    using r' lq la by blast
  have "ledger_prefix d d2" using t2 by (rule ledger_prefix_same)
  moreover have "ledger_prefix d2 (rr_db run1)" using le by simp
  moreover have "ledger_prefix (rr_db run1) (rr_db run2)" using t3 by (rule ledger_prefix_same)
  ultimately show "ledger_prefix d d'" using ed(7) ledger_prefix_trans by blast
qed

end
