(* ===== verification/Reconciliation_Facts.thy ===== *)
theory Reconciliation_Facts
  imports Reconciliation Receipt_Steps
begin

text \<open>
  What the reconciliation handlers do to the tables: one counted line, all lines of an
  approval, and the claims on the document row.
\<close>

section \<open>One counted line\<close>

definition count_key :: "nat \<Rightarrow> stock_reconciliation_item \<Rightarrow> balance_key" where
  "count_key w item = (w, rci_material_id item)"

lemma adjust_line_skip: "rci_difference_quantity item = 0 \<Longrightarrow> adjust_line s h item run = Inr run"
  by (cases run) (simp add: adjust_line_def)

lemma adjust_line_cases:
  assumes "adjust_line s h item (running, d) = Inr (running', d')" "rci_difference_quantity item \<noteq> 0"
  obtains b txn d1 d2 where
    "balance_row (count_key (ah_warehouse_id h) item) d = Some b"
    "snapshot_guard s (count_key (ah_warehouse_id h) item) item b = Inr ()"
    "write_transaction txn d = Inr d1"
    "it_quantity txn = rci_difference_quantity item" "it_amount txn = rci_adjustment_amount item"
    "key_of_txn txn = count_key (ah_warehouse_id h) item"
    "it_transaction_type txn = (if 0 < rci_difference_quantity item then ADJUST_IN else ADJUST_OUT)"
    "it_source_id txn = Some (ah_id h)" "it_source_item_id txn = Some (rci_id item)"
    "if 0 < rci_difference_quantity item
     then apply_inbound (count_key (ah_warehouse_id h) item) (rci_difference_quantity item)
       (rci_adjustment_amount item) d1 = Inr d2
     else apply_outbound (count_key (ah_warehouse_id h) item) (- rci_difference_quantity item)
       (- rci_adjustment_amount item) d1 = Inr d2"
    "d' = touch_balance (count_key (ah_warehouse_id h) item) (ah_now h) d2"
  using assms
  by (auto simp: adjust_line_def Let_def locked_balance_def count_key_def key_of_txn_def
      intro!: that split: if_splits)

lemma snapshot_guard_Inr:
  "snapshot_guard s k item b = Inr () \<longleftrightarrow>
    value_or_0 (ledger_watermark s k) = value_or_0 (rci_book_last_transaction_id_snapshot item)
    \<and> ib_quantity b = rci_book_quantity_snapshot item
    \<and> ib_total_amount b = rci_book_total_amount_snapshot item"
  by (auto simp: snapshot_guard_def)

lemma adjust_line_effect:
  assumes "adjust_line s h item (running, d) = Inr (running', d')"
    and "stock_ok d" "on_grid 2 (rci_adjustment_amount item)"
    and "rci_difference_quantity item = 0 \<Longrightarrow> rci_adjustment_amount item = 0"
  shows "stock_ok d'" "ledger_prefix d d'"
    and "\<exists>X Y Z W. d' = d\<lparr>inventory_balances := X, inventory_transactions := Y,
      number_sequences := Z, auto_inc := W\<rparr>"
    and "ledger_quantity d' k = ledger_quantity d k +
      (if k = count_key (ah_warehouse_id h) item then rci_difference_quantity item else 0)"
    and "ledger_amount d' k = ledger_amount d k +
      (if k = count_key (ah_warehouse_id h) item then rci_adjustment_amount item else 0)"
    and "balance_quantity d' k = balance_quantity d k +
      (if k = count_key (ah_warehouse_id h) item then rci_difference_quantity item else 0)"
    and "balance_amount d' k = balance_amount d k +
      (if k = count_key (ah_warehouse_id h) item then rci_adjustment_amount item else 0)"
proof -
  have *: "stock_ok d' \<and> ledger_prefix d d' \<and> (\<exists>X Y Z W. d' = d\<lparr>inventory_balances := X,
      inventory_transactions := Y, number_sequences := Z, auto_inc := W\<rparr>)
    \<and> (\<forall>k. ledger_quantity d' k = ledger_quantity d k +
      (if k = count_key (ah_warehouse_id h) item then rci_difference_quantity item else 0))
    \<and> (\<forall>k. ledger_amount d' k = ledger_amount d k +
      (if k = count_key (ah_warehouse_id h) item then rci_adjustment_amount item else 0))
    \<and> (\<forall>k. balance_quantity d' k = balance_quantity d k +
      (if k = count_key (ah_warehouse_id h) item then rci_difference_quantity item else 0))
    \<and> (\<forall>k. balance_amount d' k = balance_amount d k +
      (if k = count_key (ah_warehouse_id h) item then rci_adjustment_amount item else 0))"
  proof (cases "rci_difference_quantity item = 0")
    case True
    then have d': "d' = d" using assms(1) by (simp add: adjust_line_def)
    have "\<exists>X Y Z W. d = d\<lparr>inventory_balances := X, inventory_transactions := Y,
      number_sequences := Z, auto_inc := W\<rparr>"
      by (intro exI[of _ "inventory_balances d"] exI[of _ "inventory_transactions d"]
          exI[of _ "number_sequences d"] exI[of _ "auto_inc d"]) simp
    then show ?thesis unfolding d' using assms(2) True assms(4) by (intro conjI) simp_all
  next
    case False
    let ?k = "count_key (ah_warehouse_id h) item"
    obtain b txn d1 d2 where
      "balance_row ?k d = Some b" "snapshot_guard s ?k item b = Inr ()"
      and w: "write_transaction txn d = Inr d1"
      and t: "it_quantity txn = rci_difference_quantity item" "it_amount txn = rci_adjustment_amount item"
      "key_of_txn txn = ?k"
      and "it_transaction_type txn = (if 0 < rci_difference_quantity item then ADJUST_IN else ADJUST_OUT)"
      "it_source_id txn = Some (ah_id h)" "it_source_item_id txn = Some (rci_id item)"
      and a: "if 0 < rci_difference_quantity item
       then apply_inbound ?k (rci_difference_quantity item) (rci_adjustment_amount item) d1 = Inr d2
       else apply_outbound ?k (- rci_difference_quantity item) (- rci_adjustment_amount item) d1 = Inr d2"
      and d': "d' = touch_balance ?k (ah_now h) d2"
      by (rule adjust_line_cases[OF assms(1) False])
    note e = write_transaction_effect[OF w]
    have ok1: "stock_ok d1" using e(4)[OF assms(2)] assms(3) t(2) by simp
    note b1 = balances_unchanged[OF e(3)]
    obtain X Y Z where X: "d1 = d\<lparr>inventory_transactions := X, number_sequences := Y, auto_inc := Z\<rparr>"
      using e(5) by blast
    have ap: "stock_ok d2 \<and> (\<exists>V. d2 = d1\<lparr>inventory_balances := V\<rparr>)
      \<and> (\<forall>k. balance_quantity d2 k = balance_quantity d1 k + (if k = ?k then rci_difference_quantity item else 0))
      \<and> (\<forall>k. balance_amount d2 k = balance_amount d1 k + (if k = ?k then rci_adjustment_amount item else 0))"
    proof (cases "0 < rci_difference_quantity item")
      case True
      then have "apply_inbound ?k (rci_difference_quantity item) (rci_adjustment_amount item) d1 = Inr d2"
        using a by simp
      from apply_inbound_effect[OF this ok1 assms(3)] show ?thesis by blast
    next
      case False
      then have o: "apply_outbound ?k (- rci_difference_quantity item) (- rci_adjustment_amount item) d1 = Inr d2"
        using a by simp
      have g: "on_grid 2 (- rci_adjustment_amount item)" using assms(3) by simp
      note e = apply_outbound_effect[OF o ok1 g]
      have "balance_quantity d2 k = balance_quantity d1 k + (if k = ?k then rci_difference_quantity item else 0)"
        "balance_amount d2 k = balance_amount d1 k + (if k = ?k then rci_adjustment_amount item else 0)" for k
        using e(2)[of k] e(3)[of k] by simp_all
      then show ?thesis using e(1,4) by blast
    qed
    obtain V where V: "d2 = d1\<lparr>inventory_balances := V\<rparr>" using ap by blast
    obtain U where U: "d' = d2\<lparr>inventory_balances := U\<rparr>" using d' touch_balance_frame by blast
    have it': "inventory_transactions d' = inventory_transactions d1" by (simp add: U V)
    have "d' = d\<lparr>inventory_balances := U, inventory_transactions := X, number_sequences := Y, auto_inc := Z\<rparr>"
      unfolding U V X by simp
    moreover have "stock_ok d'" unfolding d' using ap touch_balance_stock_ok by blast
    moreover have "ledger_prefix d d'"
      using write_transaction_prefix[OF w] ledger_prefix_same[OF it'] ledger_prefix_trans by blast
    moreover have "ledger_quantity d' k = ledger_quantity d k + (if k = ?k then rci_difference_quantity item else 0)"
      "ledger_amount d' k = ledger_amount d k + (if k = ?k then rci_adjustment_amount item else 0)"
      "balance_quantity d' k = balance_quantity d k + (if k = ?k then rci_difference_quantity item else 0)"
      "balance_amount d' k = balance_amount d k + (if k = ?k then rci_adjustment_amount item else 0)" for k
    proof -
      have q: "balance_quantity d2 k = balance_quantity d1 k + (if k = ?k then rci_difference_quantity item else 0)"
        "balance_amount d2 k = balance_amount d1 k + (if k = ?k then rci_adjustment_amount item else 0)"
        using ap by blast+
      show "ledger_quantity d' k = ledger_quantity d k + (if k = ?k then rci_difference_quantity item else 0)"
        "ledger_amount d' k = ledger_amount d k + (if k = ?k then rci_adjustment_amount item else 0)"
        by (simp_all add: e(1,2) ledger_of_frame[OF it', of k] t)
      show "balance_quantity d' k = balance_quantity d k + (if k = ?k then rci_difference_quantity item else 0)"
        "balance_amount d' k = balance_amount d k + (if k = ?k then rci_adjustment_amount item else 0)"
        by (simp_all only: d' touch_balance_quantity touch_balance_amount q b1)
    qed
    ultimately show ?thesis by blast
  qed
  show "stock_ok d'" "ledger_prefix d d'" using * by blast+
  show "\<exists>X Y Z W. d' = d\<lparr>inventory_balances := X, inventory_transactions := Y,
      number_sequences := Z, auto_inc := W\<rparr>" using * by blast
  show "ledger_quantity d' k = ledger_quantity d k +
      (if k = count_key (ah_warehouse_id h) item then rci_difference_quantity item else 0)" using * by blast
  show "ledger_amount d' k = ledger_amount d k +
      (if k = count_key (ah_warehouse_id h) item then rci_adjustment_amount item else 0)" using * by blast
  show "balance_quantity d' k = balance_quantity d k +
      (if k = count_key (ah_warehouse_id h) item then rci_difference_quantity item else 0)" using * by blast
  show "balance_amount d' k = balance_amount d k +
      (if k = count_key (ah_warehouse_id h) item then rci_adjustment_amount item else 0)" using * by blast
qed

section \<open>All counted lines\<close>

text \<open>
  A line as \<^verbatim>\<open>_amount_for\<close> derives it: without a difference there is no money, and the
  difference is what was counted less what the books said.
\<close>

definition money_ok :: "stock_reconciliation_item \<Rightarrow> bool" where
  "money_ok item \<longleftrightarrow> on_grid 2 (rci_adjustment_amount item)
    \<and> (rci_difference_quantity item = 0 \<longrightarrow> rci_adjustment_amount item = 0)"

definition count_ok :: "stock_reconciliation_item \<Rightarrow> bool" where
  "count_ok item \<longleftrightarrow> money_ok item
    \<and> rci_difference_quantity item = rci_physical_quantity item - rci_book_quantity_snapshot item"

lemma count_ok_money: "count_ok item \<Longrightarrow> money_ok item"
  by (simp add: count_ok_def)

lemma adjust_lines_effect:
  assumes "rfold (adjust_line s h) items run = Inr run'" "stock_ok (snd run)" "\<forall>it\<in>set items. money_ok it"
  shows "stock_ok (snd run') \<and> ledger_prefix (snd run) (snd run')
    \<and> (\<exists>X Y Z W. snd run' = (snd run)\<lparr>inventory_balances := X, inventory_transactions := Y,
      number_sequences := Z, auto_inc := W\<rparr>)
    \<and> (\<forall>k. ledger_quantity (snd run') k = ledger_quantity (snd run) k +
      sum_over (\<lambda>it. count_key (ah_warehouse_id h) it = k) rci_difference_quantity items)
    \<and> (\<forall>k. ledger_amount (snd run') k = ledger_amount (snd run) k +
      sum_over (\<lambda>it. count_key (ah_warehouse_id h) it = k) rci_adjustment_amount items)
    \<and> (\<forall>k. balance_quantity (snd run') k = balance_quantity (snd run) k +
      sum_over (\<lambda>it. count_key (ah_warehouse_id h) it = k) rci_difference_quantity items)
    \<and> (\<forall>k. balance_amount (snd run') k = balance_amount (snd run) k +
      sum_over (\<lambda>it. count_key (ah_warehouse_id h) it = k) rci_adjustment_amount items)"
  using assms
proof (induction items arbitrary: run)
  case Nil
  then have run': "run' = run" by simp
  have "\<exists>X Y Z W. snd run = (snd run)\<lparr>inventory_balances := X, inventory_transactions := Y,
      number_sequences := Z, auto_inc := W\<rparr>"
    by (intro exI[of _ "inventory_balances (snd run)"] exI[of _ "inventory_transactions (snd run)"]
          exI[of _ "number_sequences (snd run)"] exI[of _ "auto_inc (snd run)"]) simp
  then show ?case unfolding run' using Nil(2) by (intro conjI) simp_all
next
  case (Cons it items)
  obtain r0 d0 where run: "run = (r0, d0)" by (cases run)
  obtain r1 d1 where l: "adjust_line s h it (r0, d0) = Inr (r1, d1)"
    and rest: "rfold (adjust_line s h) items (r1, d1) = Inr run'"
    using Cons.prems(1) by (auto simp: run)
  have it: "on_grid 2 (rci_adjustment_amount it)" "rci_difference_quantity it = 0 \<Longrightarrow> rci_adjustment_amount it = 0"
    using Cons.prems(3) by (simp_all add: money_ok_def)
  have ok0: "stock_ok d0" using Cons.prems(2) by (simp add: run)
  note e = adjust_line_effect[OF l ok0 it]
  have ok1: "stock_ok (snd (r1, d1))" using e(1) by simp
  have c: "\<forall>it\<in>set items. money_ok it" using Cons.prems(3) by simp
  note IH = Cons.IH[OF rest ok1 c]
  obtain X Y Z W where f1: "d1 = d0\<lparr>inventory_balances := X, inventory_transactions := Y,
      number_sequences := Z, auto_inc := W\<rparr>" using e(3) by blast
  obtain X' Y' Z' W' where f2: "snd run' = d1\<lparr>inventory_balances := X', inventory_transactions := Y',
      number_sequences := Z', auto_inc := W'\<rparr>" using IH by (simp only: snd_conv) blast
  have "snd run' = d0\<lparr>inventory_balances := X', inventory_transactions := Y',
      number_sequences := Z', auto_inc := W'\<rparr>" unfolding f2 f1 by simp
  moreover have "stock_ok (snd run')" using IH by blast
  moreover have "ledger_prefix d0 (snd run')" using e(2) IH ledger_prefix_trans by (metis snd_conv)
  moreover have "ledger_quantity (snd run') k = ledger_quantity d0 k +
      sum_over (\<lambda>it. count_key (ah_warehouse_id h) it = k) rci_difference_quantity (it # items)"
    "ledger_amount (snd run') k = ledger_amount d0 k +
      sum_over (\<lambda>it. count_key (ah_warehouse_id h) it = k) rci_adjustment_amount (it # items)"
    "balance_quantity (snd run') k = balance_quantity d0 k +
      sum_over (\<lambda>it. count_key (ah_warehouse_id h) it = k) rci_difference_quantity (it # items)"
    "balance_amount (snd run') k = balance_amount d0 k +
      sum_over (\<lambda>it. count_key (ah_warehouse_id h) it = k) rci_adjustment_amount (it # items)" for k
  proof -
    have i: "ledger_quantity (snd run') k = ledger_quantity d1 k +
        sum_over (\<lambda>it. count_key (ah_warehouse_id h) it = k) rci_difference_quantity items"
      "ledger_amount (snd run') k = ledger_amount d1 k +
        sum_over (\<lambda>it. count_key (ah_warehouse_id h) it = k) rci_adjustment_amount items"
      "balance_quantity (snd run') k = balance_quantity d1 k +
        sum_over (\<lambda>it. count_key (ah_warehouse_id h) it = k) rci_difference_quantity items"
      "balance_amount (snd run') k = balance_amount d1 k +
        sum_over (\<lambda>it. count_key (ah_warehouse_id h) it = k) rci_adjustment_amount items"
      using IH unfolding snd_conv by blast+
    show "ledger_quantity (snd run') k = ledger_quantity d0 k +
      sum_over (\<lambda>it. count_key (ah_warehouse_id h) it = k) rci_difference_quantity (it # items)"
      by (simp add: i e(4)[of k] eq_commute[of k])
    show "ledger_amount (snd run') k = ledger_amount d0 k +
      sum_over (\<lambda>it. count_key (ah_warehouse_id h) it = k) rci_adjustment_amount (it # items)"
      by (simp add: i e(5)[of k] eq_commute[of k])
    show "balance_quantity (snd run') k = balance_quantity d0 k +
      sum_over (\<lambda>it. count_key (ah_warehouse_id h) it = k) rci_difference_quantity (it # items)"
      by (simp add: i e(6)[of k] eq_commute[of k])
    show "balance_amount (snd run') k = balance_amount d0 k +
      sum_over (\<lambda>it. count_key (ah_warehouse_id h) it = k) rci_adjustment_amount (it # items)"
      by (simp add: i e(7)[of k] eq_commute[of k])
  qed
  ultimately show ?case unfolding run snd_conv by blast
qed

text \<open>With one line per material, every moving line has passed its guard on the locked balance.\<close>

lemma adjust_lines_guards:
  assumes "rfold (adjust_line s h) items run = Inr run'" "distinct (map rci_material_id items)"
    and "stock_ok (snd run)" "\<forall>it\<in>set items. money_ok it"
    and "it \<in> set items" "rci_difference_quantity it \<noteq> 0"
  shows "value_or_0 (ledger_watermark s (count_key (ah_warehouse_id h) it)) =
      value_or_0 (rci_book_last_transaction_id_snapshot it)
    \<and> balance_quantity (snd run) (count_key (ah_warehouse_id h) it) = rci_book_quantity_snapshot it
    \<and> balance_amount (snd run) (count_key (ah_warehouse_id h) it) = rci_book_total_amount_snapshot it"
  using assms
proof (induction items arbitrary: run)
  case (Cons x items)
  obtain r0 d0 where run: "run = (r0, d0)" by (cases run)
  obtain r1 d1 where l: "adjust_line s h x (r0, d0) = Inr (r1, d1)"
    and rest: "rfold (adjust_line s h) items (r1, d1) = Inr run'"
    using Cons.prems(1) by (auto simp: run)
  have okx: "on_grid 2 (rci_adjustment_amount x)" "rci_difference_quantity x = 0 \<Longrightarrow> rci_adjustment_amount x = 0"
    using Cons.prems(4) by (simp_all add: money_ok_def)
  have ok0: "stock_ok d0" using Cons.prems(3) by (simp add: run)
  note e = adjust_line_effect[OF l ok0 okx]
  show ?case
  proof (cases "it = x")
    case True
    let ?k = "count_key (ah_warehouse_id h) x"
    obtain b txn d2 d3 where b: "balance_row ?k d0 = Some b" "snapshot_guard s ?k x b = Inr ()"
      and "write_transaction txn d0 = Inr d2"
      "it_quantity txn = rci_difference_quantity x" "it_amount txn = rci_adjustment_amount x"
      "key_of_txn txn = ?k"
      "it_transaction_type txn = (if 0 < rci_difference_quantity x then ADJUST_IN else ADJUST_OUT)"
      "it_source_id txn = Some (ah_id h)" "it_source_item_id txn = Some (rci_id x)"
      "if 0 < rci_difference_quantity x
       then apply_inbound ?k (rci_difference_quantity x) (rci_adjustment_amount x) d2 = Inr d3
       else apply_outbound ?k (- rci_difference_quantity x) (- rci_adjustment_amount x) d2 = Inr d3"
      "d1 = touch_balance ?k (ah_now h) d3"
      by (rule adjust_line_cases[OF l Cons.prems(6)[unfolded True]])
    show ?thesis
      using b by (simp add: True run snapshot_guard_Inr balance_quantity_def balance_amount_def)
  next
    case False
    then have it: "it \<in> set items" using Cons.prems(5) by simp
    then have "rci_material_id it \<noteq> rci_material_id x" using Cons.prems(2) by (auto simp: image_iff)
    then have ne: "count_key (ah_warehouse_id h) it \<noteq> count_key (ah_warehouse_id h) x"
      by (simp add: count_key_def)
    have "\<forall>it\<in>set items. money_ok it" "distinct (map rci_material_id items)" "stock_ok (snd (r1, d1))"
      using Cons.prems(2,4) e(1) by simp_all
    from Cons.IH[OF rest this(2,3,1) it Cons.prems(6)] e(6,7)[of "count_key (ah_warehouse_id h) it"] ne
    show ?thesis by (simp add: run)
  qed
qed simp

lemma apply_frame:
  "apply_inbound k q a d = Inr d' \<Longrightarrow> \<exists>X. d' = d\<lparr>inventory_balances := X\<rparr>"
  "apply_outbound k q a d = Inr d' \<Longrightarrow> \<exists>X. d' = d\<lparr>inventory_balances := X\<rparr>"
  by (erule apply_inbound_cases, erule save_balance_frame)
    (erule apply_outbound_cases, erule save_balance_frame)

lemma adjust_line_frame:
  assumes "adjust_line s h item run = Inr run'"
  shows "stock_reconciliations (snd run') = stock_reconciliations (snd run)
    \<and> stock_reconciliation_items (snd run') = stock_reconciliation_items (snd run)"
proof (cases "rci_difference_quantity item = 0")
  case True
  then show ?thesis using assms by (simp add: adjust_line_def split_beta)
next
  case False
  obtain r d r' d' where run: "run = (r, d)" "run' = (r', d')" by (cases run, cases run')
  let ?k = "count_key (ah_warehouse_id h) item"
  obtain b txn d1 d2 where
    "balance_row ?k d = Some b" "snapshot_guard s ?k item b = Inr ()"
    and w: "write_transaction txn d = Inr d1"
    and "it_quantity txn = rci_difference_quantity item" "it_amount txn = rci_adjustment_amount item"
    "key_of_txn txn = ?k"
    and "it_transaction_type txn = (if 0 < rci_difference_quantity item then ADJUST_IN else ADJUST_OUT)"
    "it_source_id txn = Some (ah_id h)" "it_source_item_id txn = Some (rci_id item)"
    and a: "if 0 < rci_difference_quantity item
     then apply_inbound ?k (rci_difference_quantity item) (rci_adjustment_amount item) d1 = Inr d2
     else apply_outbound ?k (- rci_difference_quantity item) (- rci_adjustment_amount item) d1 = Inr d2"
    and d': "d' = touch_balance ?k (ah_now h) d2"
    by (rule adjust_line_cases[OF assms[unfolded run] False])
  obtain X Y Z where 1: "d1 = d\<lparr>inventory_transactions := X, number_sequences := Y, auto_inc := Z\<rparr>"
    using write_transaction_effect(5)[OF w] by blast
  obtain V where 2: "d2 = d1\<lparr>inventory_balances := V\<rparr>"
    using a apply_frame by (cases "0 < rci_difference_quantity item") (simp_all, blast+)
  obtain U where 3: "d' = d2\<lparr>inventory_balances := U\<rparr>" using d' touch_balance_frame by blast
  show ?thesis by (simp add: run 3 2 1)
qed

lemma adjust_lines_frame:
  assumes "rfold (adjust_line s h) items run = Inr run'"
  shows "stock_reconciliations (snd run') = stock_reconciliations (snd run)
    \<and> stock_reconciliation_items (snd run') = stock_reconciliation_items (snd run)"
  by (rule rfold_rel[OF assms, where R = "\<lambda>a b. stock_reconciliations (snd b) = stock_reconciliations (snd a)
    \<and> stock_reconciliation_items (snd b) = stock_reconciliation_items (snd a)"]) (simp_all add: adjust_line_frame)

section \<open>The claim of an approval\<close>

text \<open>The document as the claim of an approval leaves it.\<close>

definition mark_posted ::
    "datetime \<Rightarrow> nat \<Rightarrow> rc_approve \<Rightarrow> bool \<Rightarrow> stock_reconciliation \<Rightarrow> stock_reconciliation" where
  "mark_posted now uid payload override r = r\<lparr>rc_status := RC_POSTED, rc_posted_at := Some now,
    rc_approved_by := Some uid, rc_approve_comment := rna_approve_comment payload,
    rc_override_self_approval := override,
    rc_override_reason := (if override then rna_override_reason payload else None),
    rc_version := rc_version r + 1\<rparr>"

lemma mark_posted_simps [simp]:
  "rc_id (mark_posted n u p ov r) = rc_id r" "rc_status (mark_posted n u p ov r) = RC_POSTED"
  "rc_warehouse_id (mark_posted n u p ov r) = rc_warehouse_id r"
  "rc_counted_by (mark_posted n u p ov r) = rc_counted_by r"
  "rc_reconciliation_no (mark_posted n u p ov r) = rc_reconciliation_no r"
  "rc_version (mark_posted n u p ov r) = rc_version r + 1"
  "rc_approved_by (mark_posted n u p ov r) = Some u"
  "rc_override_self_approval (mark_posted n u p ov r) = ov"
  "rc_override_reason (mark_posted n u p ov r) = (if ov then rna_override_reason p else None)"
  by (simp_all add: mark_posted_def)

lemma rc_where_eq:
  "rc_where i p f d = Some d1 \<longleftrightarrow> (\<exists>r\<in>set (stock_reconciliations d). rc_id r = i \<and> p r)
    \<and> d1 = d\<lparr>stock_reconciliations := update_rows (\<lambda>r. rc_id r = i \<and> p r) f (stock_reconciliations d)\<rparr>"
  by (auto simp: rc_where_def cas_rows_Some_iff)

lemma load_rc_Inr [simp]: "load_rc i s = Inr doc \<longleftrightarrow> get_rc s i = Some doc"
  by (simp add: load_rc_def)

lemma approve_cases:
  assumes "approve_reconciliation ctx u i payload s d = Inr d'"
  obtains doc0 override d1 doc ks d2 run where
    "get_rc s i = Some doc0" "rc_status doc0 = RC_PENDING" "self_approval s doc0 u payload = Inr override"
    "\<forall>it\<in>set (rc_items i s). check_rc_item it = Inr ()"
    "rc_where i (\<lambda>r. rc_status r = RC_PENDING) (mark_posted (rq_now ctx) (cu_id u) payload override) d = Some d1"
    "get_rc d1 i = Some doc"
    "lock_balances (moving_keys (rc_warehouse_id doc) (rc_items i s)) d1 = (ks, d2)"
    "rfold (adjust_line s \<lparr>ah_id = i, ah_warehouse_id = rc_warehouse_id doc, ah_now = rq_now ctx,
      ah_user_id = cu_id u\<rparr>) (rc_items i s) (balance_quantity d2, d2) = Inr run"
    "d' = rc_audit ctx STOCK_COUNT_APPROVE u i (rc_reconciliation_no doc) (snd run)"
  using assms unfolding approve_reconciliation_def Let_def mark_posted_def[symmetric] split_beta
  by (auto intro!: that[OF _ _ _ _ _ _ prod.collapse[symmetric]] split: if_splits)

lemma rc_audit_simps [simp]:
  "inventory_balances (rc_audit c a u i no d) = inventory_balances d"
  "inventory_transactions (rc_audit c a u i no d) = inventory_transactions d"
  "stock_reconciliations (rc_audit c a u i no d) = stock_reconciliations d"
  "stock_reconciliation_items (rc_audit c a u i no d) = stock_reconciliation_items d"
  "purchase_orders (rc_audit c a u i no d) = purchase_orders d"
  "purchase_order_items (rc_audit c a u i no d) = purchase_order_items d"
  "purchase_receipts (rc_audit c a u i no d) = purchase_receipts d"
  "purchase_receipt_items (rc_audit c a u i no d) = purchase_receipt_items d"
  by (simp_all add: rc_audit_def)

text \<open>The totals only look at the two stock tables.\<close>

lemma balance_row_frame:
  "inventory_balances d' = inventory_balances d \<Longrightarrow> balance_row k d' = balance_row k d"
  by (simp add: balance_row_def)

lemma stock_frame:
  assumes "inventory_balances d' = inventory_balances d" "inventory_transactions d' = inventory_transactions d"
  shows "stock_ok d' = stock_ok d" "ledger_quantity d' k = ledger_quantity d k"
    "ledger_amount d' k = ledger_amount d k" "balance_quantity d' k = balance_quantity d k"
    "balance_amount d' k = balance_amount d k" "ledger_prefix x d' = ledger_prefix x d"
    "ledger_prefix d' x = ledger_prefix d x" "balance_row k d' = balance_row k d"
    "ledger_watermark d' k = ledger_watermark d k"
  using assms by (simp_all add: stock_ok_def ledger_quantity_def ledger_amount_def
      balance_quantity_def balance_amount_def balance_row_def ledger_prefix_def ledger_watermark_def)

definition counted_quantity :: "db \<Rightarrow> nat \<Rightarrow> nat \<Rightarrow> balance_key \<Rightarrow> decimal" where
  "counted_quantity s i w k =
    sum_over (\<lambda>it. count_key w it = k) rci_difference_quantity (rc_items i s)"

definition counted_amount :: "db \<Rightarrow> nat \<Rightarrow> nat \<Rightarrow> balance_key \<Rightarrow> decimal" where
  "counted_amount s i w k =
    sum_over (\<lambda>it. count_key w it = k) rci_adjustment_amount (rc_items i s)"

lemma approve_document:
  assumes "approve_reconciliation ctx u i payload s d = Inr d'"
  obtains doc0 override doc where
    "get_rc s i = Some doc0" "rc_status doc0 = RC_PENDING" "self_approval s doc0 u payload = Inr override"
    "\<forall>it\<in>set (rc_items i s). check_rc_item it = Inr ()"
    "\<exists>r\<in>set (stock_reconciliations d). rc_id r = i \<and> rc_status r = RC_PENDING"
    "get_rc d i = Some doc"
    "stock_reconciliations d' = update_rows (\<lambda>r. rc_id r = i \<and> rc_status r = RC_PENDING)
      (mark_posted (rq_now ctx) (cu_id u) payload override) (stock_reconciliations d)"
    "stock_ok d \<and> (\<forall>it\<in>set (rc_items i s). money_ok it) \<longrightarrow> stock_ok d' \<and> ledger_prefix d d'
      \<and> (\<forall>k. ledger_quantity d' k = ledger_quantity d k + counted_quantity s i (rc_warehouse_id doc) k)
      \<and> (\<forall>k. ledger_amount d' k = ledger_amount d k + counted_amount s i (rc_warehouse_id doc) k)
      \<and> (\<forall>k. balance_quantity d' k = balance_quantity d k + counted_quantity s i (rc_warehouse_id doc) k)
      \<and> (\<forall>k. balance_amount d' k = balance_amount d k + counted_amount s i (rc_warehouse_id doc) k)"
    "stock_ok d \<and> (\<forall>it\<in>set (rc_items i s). money_ok it) \<and> distinct (map rci_material_id (rc_items i s)) \<longrightarrow>
      (\<forall>it\<in>set (rc_items i s). rci_difference_quantity it \<noteq> 0 \<longrightarrow>
        value_or_0 (ledger_watermark s (count_key (rc_warehouse_id doc) it)) =
          value_or_0 (rci_book_last_transaction_id_snapshot it)
        \<and> balance_quantity d (count_key (rc_warehouse_id doc) it) = rci_book_quantity_snapshot it
        \<and> balance_amount d (count_key (rc_warehouse_id doc) it) = rci_book_total_amount_snapshot it)"
proof -
  obtain doc0 override d1 doc1 ks d2 run where
    1: "get_rc s i = Some doc0" "rc_status doc0 = RC_PENDING" "self_approval s doc0 u payload = Inr override"
    "\<forall>it\<in>set (rc_items i s). check_rc_item it = Inr ()"
    and w: "rc_where i (\<lambda>r. rc_status r = RC_PENDING) (mark_posted (rq_now ctx) (cu_id u) payload override) d = Some d1"
    and g: "get_rc d1 i = Some doc1"
    and l: "lock_balances (moving_keys (rc_warehouse_id doc1) (rc_items i s)) d1 = (ks, d2)"
    and f: "rfold (adjust_line s \<lparr>ah_id = i, ah_warehouse_id = rc_warehouse_id doc1, ah_now = rq_now ctx,
      ah_user_id = cu_id u\<rparr>) (rc_items i s) (balance_quantity d2, d2) = Inr run" (is "rfold (adjust_line s ?h) _ _ = _")
    and d': "d' = rc_audit ctx STOCK_COUNT_APPROVE u i (rc_reconciliation_no doc1) (snd run)"
    by (rule approve_cases[OF assms])
  note le = lock_balances_effect[OF l]
  have ex: "\<exists>r\<in>set (stock_reconciliations d). rc_id r = i \<and> rc_status r = RC_PENDING"
    and d1: "d1 = d\<lparr>stock_reconciliations := update_rows (\<lambda>r. rc_id r = i \<and> rc_status r = RC_PENDING)
      (mark_posted (rq_now ctx) (cu_id u) payload override) (stock_reconciliations d)\<rparr>"
    using w by (auto simp: rc_where_eq)
  obtain X Y where d2: "d2 = d1\<lparr>inventory_balances := X, auto_inc := Y\<rparr>" using le(7) by blast
  have rows: "get_rc d1 i = map_option (\<lambda>r. if rc_id r = i \<and> rc_status r = RC_PENDING
      then mark_posted (rq_now ctx) (cu_id u) payload override r else r) (get_rc d i)"
    unfolding get_rc_def by (simp add: d1 row_by_update_rows)
  then obtain doc where doc: "get_rc d i = Some doc" "rc_warehouse_id doc = rc_warehouse_id doc1"
    using g by (cases "get_rc d i") (auto split: if_splits)
  have frame: "stock_reconciliations (snd run) = stock_reconciliations d2"
    using adjust_lines_frame[OF f] by simp
  have t1: "stock_ok d1 = stock_ok d" "ledger_quantity d1 k = ledger_quantity d k"
    "ledger_amount d1 k = ledger_amount d k" "balance_quantity d1 k = balance_quantity d k"
    "balance_amount d1 k = balance_amount d k" "ledger_prefix d1 x = ledger_prefix d x" for k x
    by (rule stock_frame; simp add: d1)+
  have l2: "ledger_quantity d2 k = ledger_quantity d1 k" "ledger_amount d2 k = ledger_amount d1 k"
    "ledger_prefix d2 x = ledger_prefix d1 x" for k x
    by (simp_all add: d2 ledger_quantity_def ledger_amount_def ledger_prefix_def)
  have t': "stock_ok d' = stock_ok (snd run)" "ledger_quantity d' k = ledger_quantity (snd run) k"
    "ledger_amount d' k = ledger_amount (snd run) k" "balance_quantity d' k = balance_quantity (snd run) k"
    "balance_amount d' k = balance_amount (snd run) k" "ledger_prefix x d' = ledger_prefix x (snd run)" for k x
    by (rule stock_frame; simp add: d')+
  have eff: "stock_ok d' \<and> ledger_prefix d d'
      \<and> (\<forall>k. ledger_quantity d' k = ledger_quantity d k + counted_quantity s i (rc_warehouse_id doc) k)
      \<and> (\<forall>k. ledger_amount d' k = ledger_amount d k + counted_amount s i (rc_warehouse_id doc) k)
      \<and> (\<forall>k. balance_quantity d' k = balance_quantity d k + counted_quantity s i (rc_warehouse_id doc) k)
      \<and> (\<forall>k. balance_amount d' k = balance_amount d k + counted_amount s i (rc_warehouse_id doc) k)"
    if ok: "stock_ok d" "\<forall>it\<in>set (rc_items i s). money_ok it"
  proof -
    have "stock_ok (snd (balance_quantity d2, d2))" using ok(1) le(4) t1(1) by simp
    note e = adjust_lines_effect[OF f this ok(2)]
    show ?thesis
      using e unfolding t' snd_conv l2 le(5,6) t1 doc(2) counted_quantity_def counted_amount_def
        adjust_header.simps by blast
  qed
  have gd: "\<forall>it\<in>set (rc_items i s). rci_difference_quantity it \<noteq> 0 \<longrightarrow>
        value_or_0 (ledger_watermark s (count_key (rc_warehouse_id doc) it)) =
          value_or_0 (rci_book_last_transaction_id_snapshot it)
        \<and> balance_quantity d (count_key (rc_warehouse_id doc) it) = rci_book_quantity_snapshot it
        \<and> balance_amount d (count_key (rc_warehouse_id doc) it) = rci_book_total_amount_snapshot it"
    if ok: "stock_ok d" "\<forall>it\<in>set (rc_items i s). money_ok it" "distinct (map rci_material_id (rc_items i s))"
  proof (intro ballI impI)
    fix it assume it: "it \<in> set (rc_items i s)" "rci_difference_quantity it \<noteq> 0"
    have "stock_ok (snd (balance_quantity d2, d2))" using ok(1) le(4) t1(1) by simp
    note e = adjust_lines_guards[OF f ok(3) this ok(2) it]
    show "value_or_0 (ledger_watermark s (count_key (rc_warehouse_id doc) it)) =
          value_or_0 (rci_book_last_transaction_id_snapshot it)
        \<and> balance_quantity d (count_key (rc_warehouse_id doc) it) = rci_book_quantity_snapshot it
        \<and> balance_amount d (count_key (rc_warehouse_id doc) it) = rci_book_total_amount_snapshot it"
      using e by (simp add: le(5,6) t1 doc(2))
  qed
  have rc: "stock_reconciliations d' = update_rows (\<lambda>r. rc_id r = i \<and> rc_status r = RC_PENDING)
      (mark_posted (rq_now ctx) (cu_id u) payload override) (stock_reconciliations d)"
    by (simp add: d' frame d2 d1)
  show ?thesis
    by (rule that[OF 1 ex doc(1) rc]) (use eff gd in blast)+
qed

end
