(* ===== verification/Reconciliation_Steps.thy ===== *)
theory Reconciliation_Steps
  imports Reconciliation_Facts
begin

text \<open>
  What each reconciliation handler does to the document rows and the stock tables, and the
  lines that a draft starts with.
\<close>

section \<open>Handlers that leave the stock alone\<close>

definition same_stock :: "db \<Rightarrow> db \<Rightarrow> bool" where
  "same_stock d d' \<longleftrightarrow> inventory_balances d' = inventory_balances d
    \<and> inventory_transactions d' = inventory_transactions d"

definition mark_pending :: "datetime \<Rightarrow> stock_reconciliation \<Rightarrow> stock_reconciliation" where
  "mark_pending now r = r\<lparr>rc_status := RC_PENDING, rc_submitted_at := Some now,
    rc_version := rc_version r + 1\<rparr>"

definition mark_rejected :: "string \<Rightarrow> stock_reconciliation \<Rightarrow> stock_reconciliation" where
  "mark_rejected comment r = r\<lparr>rc_status := RC_REJECTED, rc_approve_comment := Some comment,
    rc_version := rc_version r + 1\<rparr>"

definition mark_draft :: "rc_update \<Rightarrow> stock_reconciliation \<Rightarrow> stock_reconciliation" where
  "mark_draft data r = r\<lparr>rc_status := RC_DRAFT, rc_reason := rnu_reason data,
    rc_remark := rnu_remark data, rc_approve_comment := None, rc_version := rc_version r + 1\<rparr>"

lemma mark_status [simp]:
  "rc_status (mark_pending n r) = RC_PENDING" "rc_status (mark_rejected c r) = RC_REJECTED"
  "rc_status (mark_draft u r) = RC_DRAFT" "rc_id (mark_pending n r) = rc_id r"
  "rc_id (mark_rejected c r) = rc_id r" "rc_id (mark_draft u r) = rc_id r"
  by (simp_all add: mark_pending_def mark_rejected_def mark_draft_def)

lemma submit_document:
  assumes "submit_reconciliation ctx u i version s d = Inr d'"
  shows "\<exists>r\<in>set (stock_reconciliations d). rc_id r = i \<and> rc_status r = RC_DRAFT"
    and "stock_reconciliations d' = update_rows (\<lambda>r. rc_id r = i \<and> rc_status r = RC_DRAFT)
      (mark_pending (rq_now ctx)) (stock_reconciliations d)"
    and "same_stock d d'" and "rc_items i s \<noteq> []"
    and "\<exists>r. get_rc s i = Some r \<and> rc_status r = RC_DRAFT \<and> rc_version r = version"
  using assms unfolding submit_reconciliation_def mark_pending_def[symmetric]
  by (auto simp: rc_where_eq same_stock_def split: if_splits)

lemma reject_document:
  assumes "reject_reconciliation ctx u i comment s d = Inr d'"
  shows "\<exists>r\<in>set (stock_reconciliations d). rc_id r = i \<and> rc_status r = RC_PENDING"
    and "stock_reconciliations d' = update_rows (\<lambda>r. rc_id r = i \<and> rc_status r = RC_PENDING)
      (mark_rejected comment) (stock_reconciliations d)"
    and "same_stock d d'"
  using assms unfolding reject_reconciliation_def mark_rejected_def[symmetric]
  by (auto simp: rc_where_eq same_stock_def split: if_splits)

lemma exec_rci_stmt_frame:
  "exec_rci_stmt st d = Inr d' \<Longrightarrow> \<exists>X Y. d' = d\<lparr>stock_reconciliation_items := X, auto_inc := Y\<rparr>"
proof (cases st)
  case (DeleteRci j)
  assume "exec_rci_stmt st d = Inr d'"
  then have d': "d' = d\<lparr>stock_reconciliation_items :=
      filter (\<lambda>r. rci_id r \<noteq> j) (stock_reconciliation_items d)\<rparr>"
    by (simp add: DeleteRci)
  show ?thesis
    by (intro exI[of _ "stock_reconciliation_items d'"] exI[of _ "auto_inc d"]) (simp add: d')
next
  case (UpdateRci old new)
  assume "exec_rci_stmt st d = Inr d'"
  then obtain X where "d' = d\<lparr>stock_reconciliation_items := X\<rparr>"
    by (auto simp: UpdateRci Let_def split: option.splits if_splits)
  then have "d' = d\<lparr>stock_reconciliation_items := X, auto_inc := auto_inc d\<rparr>" by simp
  then show ?thesis by blast
qed (auto simp: insert_rci_def split: if_splits)

lemma items_frame_rfold:
  assumes "rfold f xs d = Inr d'"
    and "\<And>x d d'. f x d = Inr d' \<Longrightarrow> \<exists>X Y. d' = d\<lparr>stock_reconciliation_items := X, auto_inc := Y\<rparr>"
  shows "\<exists>X Y. d' = d\<lparr>stock_reconciliation_items := X, auto_inc := Y\<rparr>"
  using assms(1)
proof (induction xs arbitrary: d)
  case Nil
  then show ?case by (intro exI[of _ "stock_reconciliation_items d"] exI[of _ "auto_inc d"]) simp
next
  case (Cons x xs)
  then obtain d1 where 1: "f x d = Inr d1" "rfold f xs d1 = Inr d'" by auto
  obtain X Y where "d1 = d\<lparr>stock_reconciliation_items := X, auto_inc := Y\<rparr>" using assms(2)[OF 1(1)] by blast
  moreover obtain X' Y' where "d' = d1\<lparr>stock_reconciliation_items := X', auto_inc := Y'\<rparr>"
    using Cons.IH[OF 1(2)] by blast
  ultimately have "d' = d\<lparr>stock_reconciliation_items := X', auto_inc := Y'\<rparr>" by simp
  then show ?case by blast
qed

lemma update_cases:
  assumes "update_reconciliation uow ctx u i data s d = Inr d'"
  obtains doc obs d1 d3 where
    "get_rc s i = Some doc" "rc_status doc \<in> {RC_DRAFT, RC_REJECTED}" "rnu_version data = rc_version doc"
    "rebuild_lines s doc (rc_items i s) [] (enumerate 1 (rnu_items data)) = Inr obs"
    "rc_where i (\<lambda>r. rc_version r = rnu_version data \<and> rc_status r \<in> {RC_DRAFT, RC_REJECTED})
      (mark_draft data) d = Some d1"
    "rfold exec_rci_stmt (uow (rci_stmts (rc_items i s) obs))
      (flush_rc i (\<lambda>r. r\<lparr>rc_status := RC_DRAFT, rc_version := rnu_version data + 1\<rparr>) d1) = Inr d3"
    "d' = rc_audit ctx STOCK_COUNT_CREATE u i (rc_reconciliation_no doc) d3"
  using assms unfolding update_reconciliation_def Let_def mark_draft_def[symmetric]
  by (auto intro!: that simp del: insert_iff split: if_splits)

lemma update_document:
  assumes "update_reconciliation uow ctx u i data s d = Inr d'"
  shows "\<exists>r\<in>set (stock_reconciliations d). rc_id r = i \<and> rc_version r = rnu_version data
      \<and> rc_status r \<in> {RC_DRAFT, RC_REJECTED}"
    and "stock_reconciliations d' =
      update_rows (\<lambda>r. rc_id r = i) (\<lambda>r. r\<lparr>rc_status := RC_DRAFT, rc_version := rnu_version data + 1\<rparr>)
       (update_rows (\<lambda>r. rc_id r = i \<and> rc_version r = rnu_version data \<and> rc_status r \<in> {RC_DRAFT, RC_REJECTED})
         (mark_draft data) (stock_reconciliations d))"
    and "same_stock d d'"
proof -
  obtain doc obs d1 d3 where
    "get_rc s i = Some doc" "rc_status doc \<in> {RC_DRAFT, RC_REJECTED}" "rnu_version data = rc_version doc"
    "rebuild_lines s doc (rc_items i s) [] (enumerate 1 (rnu_items data)) = Inr obs"
    and w: "rc_where i (\<lambda>r. rc_version r = rnu_version data
      \<and> rc_status r \<in> {RC_DRAFT, RC_REJECTED}) (mark_draft data) d = Some d1"
    and f: "rfold exec_rci_stmt (uow (rci_stmts (rc_items i s) obs))
      (flush_rc i (\<lambda>r. r\<lparr>rc_status := RC_DRAFT, rc_version := rnu_version data + 1\<rparr>) d1) = Inr d3"
    and d': "d' = rc_audit ctx STOCK_COUNT_CREATE u i (rc_reconciliation_no doc) d3"
    by (rule update_cases[OF assms])
  obtain X Y where d3: "d3 = (flush_rc i (\<lambda>r. r\<lparr>rc_status := RC_DRAFT, rc_version := rnu_version data + 1\<rparr>) d1)
      \<lparr>stock_reconciliation_items := X, auto_inc := Y\<rparr>"
    using items_frame_rfold[OF f] exec_rci_stmt_frame by blast
  show "\<exists>r\<in>set (stock_reconciliations d). rc_id r = i \<and> rc_version r = rnu_version data
      \<and> rc_status r \<in> {RC_DRAFT, RC_REJECTED}"
    using w by (auto simp: rc_where_eq)
  have d1: "d1 = d\<lparr>stock_reconciliations := update_rows (\<lambda>r. rc_id r = i \<and> rc_version r = rnu_version data
      \<and> rc_status r \<in> {RC_DRAFT, RC_REJECTED}) (mark_draft data) (stock_reconciliations d)\<rparr>"
    using w by (simp add: rc_where_eq)
  show "stock_reconciliations d' =
      update_rows (\<lambda>r. rc_id r = i) (\<lambda>r. r\<lparr>rc_status := RC_DRAFT, rc_version := rnu_version data + 1\<rparr>)
       (update_rows (\<lambda>r. rc_id r = i \<and> rc_version r = rnu_version data \<and> rc_status r \<in> {RC_DRAFT, RC_REJECTED})
         (mark_draft data) (stock_reconciliations d))"
    by (simp add: d' d3 flush_rc_def d1)
  show "same_stock d d'" by (simp add: same_stock_def d' d3 flush_rc_def d1)
qed

section \<open>A new draft\<close>

lemma ensure_valid_Inr:
  "ensure_valid s w seen lines = Inr rs \<longleftrightarrow> distinct (map rcl_material_id lines)
    \<and> set seen \<inter> rcl_material_id ` set lines = {}
    \<and> (\<forall>l\<in>set lines. 0 \<le> rcl_physical_quantity l \<and> assert_rc_material_active s (rcl_material_id l) = Inr ())
    \<and> rs = map (\<lambda>l. (l, book_of s (w, rcl_material_id l))) lines"
  by (induction lines arbitrary: seen rs) auto

lemma insert_rci_Inr:
  "insert_rci r d = Inr d' \<longleftrightarrow> rci_checks r
    \<and> (\<forall>x\<in>set (stock_reconciliation_items d). rci_reconciliation_id x = rci_reconciliation_id r \<longrightarrow>
        rci_line_no x \<noteq> rci_line_no r \<and> rci_material_id x \<noteq> rci_material_id r)
    \<and> d' = d\<lparr>stock_reconciliation_items := stock_reconciliation_items d @
          [r\<lparr>rci_id := auto_inc d T_stock_reconciliation_items\<rparr>],
        auto_inc := (auto_inc d)(T_stock_reconciliation_items := Suc (auto_inc d T_stock_reconciliation_items))\<rparr>"
  by (auto simp: insert_rci_def list_ex_iff)

lemma insert_rcis:
  assumes "rfold insert_rci rows d = Inr d'"
  shows "stock_reconciliation_items d' = stock_reconciliation_items d @
      map (\<lambda>(n, r). r\<lparr>rci_id := n\<rparr>) (enumerate (auto_inc d T_stock_reconciliation_items) rows)
    \<and> (\<forall>r\<in>set rows. rci_checks r)"
  using assms
proof (induction rows arbitrary: d)
  case (Cons r rows)
  then obtain d1 where "insert_rci r d = Inr d1" "rfold insert_rci rows d1 = Inr d'" by auto
  then show ?case using Cons.IH[of d1] by (simp add: insert_rci_Inr)
qed simp

text \<open>The facts of a line that the session derives: the parts of its snapshot and the counted value.\<close>

lemma amount_for_Inr:
  assumes "amount_for line q avg = Inr (diff, rate, amount)"
  shows "diff = q4 (q4 (rcl_physical_quantity line) - q)" "on_grid 2 amount"
    "diff = 0 \<Longrightarrow> amount = 0" "0 < diff \<Longrightarrow> 0 \<le> amount" "diff < 0 \<Longrightarrow> amount = - money (- diff * avg)"
  using assms by (auto simp: amount_for_def Let_def split: if_splits option.splits)

lemma new_rc_item_Inr:
  assumes "new_rc_item doc n line b = Inr item"
  shows "rci_reconciliation_id item = doc" "rci_line_no item = n" "rci_material_id item = rcl_material_id line"
    "rci_book_quantity_snapshot item = bs_quantity b" "rci_book_total_amount_snapshot item = bs_total b"
    "rci_book_avg_cost_snapshot item = bs_average b" "rci_book_last_transaction_id_snapshot item = bs_watermark b"
    "rci_physical_quantity item = q4 (rcl_physical_quantity line)"
    "amount_for line (bs_quantity b) (bs_average b) =
      Inr (rci_difference_quantity item, rci_valuation_rate item, rci_adjustment_amount item)"
  using assms by (auto simp: new_rc_item_def)

lemma q4_exact: "on_grid 4 v \<Longrightarrow> q4 v = v"
  by (simp add: q4_def)

lemma q4_grid [simp]: "on_grid 4 (q4 v)"
  by (simp add: q4_def)

lemma new_rc_item_count_ok:
  assumes "new_rc_item doc n line b = Inr item" "on_grid 4 (bs_quantity b)"
  shows "count_ok item"
  using new_rc_item_Inr[OF assms(1)] amount_for_Inr[OF new_rc_item_Inr(9)[OF assms(1)]]
    q4_exact[OF on_grid_diff[OF q4_grid assms(2)]] by (auto simp: count_ok_def money_ok_def)

lemma create_cases:
  assumes "create_reconciliation ctx u data s d = Inr d'"
  obtains wh no d1 d2 items d3 where
    "rc_active_warehouse s (rnc_warehouse_id data) = Inr wh" "rnc_items data \<noteq> []"
    "distinct (map rcl_material_id (rnc_items data))"
    "\<forall>l\<in>set (rnc_items data). 0 \<le> rcl_physical_quantity l
      \<and> assert_rc_material_active s (rcl_material_id l) = Inr ()"
    "next_daily_code SEQ_STOCK_RECONCILIATION ''CNT'' (rq_today ctx) (Some (rq_today ctx)) d = (no, d1)"
    "insert_rc \<lparr>rc_id = auto_inc d1 T_stock_reconciliations, rc_reconciliation_no = no,
      rc_warehouse_id = wh_id wh, rc_counted_by = cu_id u, rc_counted_on = rq_today ctx, rc_status = RC_DRAFT,
      rc_reason = rnc_reason data, rc_remark = rnc_remark data, rc_submitted_at = None, rc_posted_at = None,
      rc_approved_by = None, rc_approve_comment = None, rc_override_self_approval = False,
      rc_override_reason = None, rc_version = 1\<rparr> d1 = Inr d2"
    "rtraverse (\<lambda>(n, line, b). new_rc_item (auto_inc d1 T_stock_reconciliations) n line b)
      (enumerate 1 (map (\<lambda>l. (l, book_of s (wh_id wh, rcl_material_id l))) (rnc_items data))) = Inr items"
    "rfold insert_rci items d2 = Inr d3"
    "d' = rc_audit ctx STOCK_COUNT_CREATE u (auto_inc d1 T_stock_reconciliations) no d3"
  using assms unfolding create_reconciliation_def Let_def case_prod_unfold
  by (auto simp: ensure_valid_Inr case_prod_unfold simp del: One_nat_def
      intro!: that[OF _ _ _ _ prod.collapse[symmetric]] split: if_splits)

text \<open>The lines of a new draft, each with the book state that the session has read.\<close>

definition counts_book :: "db \<Rightarrow> nat \<Rightarrow> stock_reconciliation_item \<Rightarrow> bool" where
  "counts_book s w it \<longleftrightarrow> (let b = book_of s (count_key w it) in
     rci_book_quantity_snapshot it = bs_quantity b \<and> rci_book_total_amount_snapshot it = bs_total b
     \<and> rci_book_avg_cost_snapshot it = bs_average b
     \<and> rci_book_last_transaction_id_snapshot it = bs_watermark b)"

lemma create_document:
  assumes "create_reconciliation ctx u data s d = Inr d'"
  obtains no items where
    "stock_reconciliations d' = stock_reconciliations d @
      [\<lparr>rc_id = auto_inc d T_stock_reconciliations, rc_reconciliation_no = no,
        rc_warehouse_id = rnc_warehouse_id data, rc_counted_by = cu_id u, rc_counted_on = rq_today ctx,
        rc_status = RC_DRAFT, rc_reason = rnc_reason data, rc_remark = rnc_remark data,
        rc_submitted_at = None, rc_posted_at = None, rc_approved_by = None, rc_approve_comment = None,
        rc_override_self_approval = False, rc_override_reason = None, rc_version = 1\<rparr>]"
    "\<exists>n. stock_reconciliation_items d' = stock_reconciliation_items d @
      map (\<lambda>(n, r). r\<lparr>rci_id := n\<rparr>) (enumerate n items)"
    "list_all2 (\<lambda>(n, l) it. new_rc_item (auto_inc d T_stock_reconciliations) n l
      (book_of s (rnc_warehouse_id data, rcl_material_id l)) = Inr it) (enumerate 1 (rnc_items data)) items"
    "\<forall>it\<in>set items. rci_checks it" "distinct (map rcl_material_id (rnc_items data))" "rnc_items data \<noteq> []"
    "same_stock d d'"
proof -
  obtain wh no d1 d2 items d3 where
    wh: "rc_active_warehouse s (rnc_warehouse_id data) = Inr wh" and ne: "rnc_items data \<noteq> []"
    and dist: "distinct (map rcl_material_id (rnc_items data))"
    and "\<forall>l\<in>set (rnc_items data). 0 \<le> rcl_physical_quantity l
      \<and> assert_rc_material_active s (rcl_material_id l) = Inr ()"
    and n: "next_daily_code SEQ_STOCK_RECONCILIATION ''CNT'' (rq_today ctx) (Some (rq_today ctx)) d = (no, d1)"
    and i: "insert_rc \<lparr>rc_id = auto_inc d1 T_stock_reconciliations, rc_reconciliation_no = no,
      rc_warehouse_id = wh_id wh, rc_counted_by = cu_id u, rc_counted_on = rq_today ctx, rc_status = RC_DRAFT,
      rc_reason = rnc_reason data, rc_remark = rnc_remark data, rc_submitted_at = None, rc_posted_at = None,
      rc_approved_by = None, rc_approve_comment = None, rc_override_self_approval = False,
      rc_override_reason = None, rc_version = 1\<rparr> d1 = Inr d2"
    and t: "rtraverse (\<lambda>(n, line, b). new_rc_item (auto_inc d1 T_stock_reconciliations) n line b)
      (enumerate 1 (map (\<lambda>l. (l, book_of s (wh_id wh, rcl_material_id l))) (rnc_items data))) = Inr items"
    and f: "rfold insert_rci items d2 = Inr d3"
    and d': "d' = rc_audit ctx STOCK_COUNT_CREATE u (auto_inc d1 T_stock_reconciliations) no d3"
    by (rule create_cases[OF assms])
  have w: "wh_id wh = rnc_warehouse_id data"
    using wh by (auto simp: rc_active_warehouse_def get_wh_def dest!: row_by_SomeD split: option.splits if_splits)
  obtain X Y where d1: "d1 = d\<lparr>number_sequences := X, auto_inc := Y\<rparr>"
    using next_daily_code_frame(1)[OF n] by blast
  have inc: "auto_inc d1 T_stock_reconciliations = auto_inc d T_stock_reconciliations"
    using next_daily_code_frame(2)[OF n] by simp
  obtain d2: "stock_reconciliations d2 = stock_reconciliations d @
      [\<lparr>rc_id = auto_inc d T_stock_reconciliations, rc_reconciliation_no = no,
        rc_warehouse_id = rnc_warehouse_id data, rc_counted_by = cu_id u, rc_counted_on = rq_today ctx,
        rc_status = RC_DRAFT, rc_reason = rnc_reason data, rc_remark = rnc_remark data,
        rc_submitted_at = None, rc_posted_at = None, rc_approved_by = None, rc_approve_comment = None,
        rc_override_self_approval = False, rc_override_reason = None, rc_version = 1\<rparr>]"
    "stock_reconciliation_items d2 = stock_reconciliation_items d"
    "inventory_balances d2 = inventory_balances d" "inventory_transactions d2 = inventory_transactions d"
    using i inc by (auto simp: insert_rc_def d1 w split: if_splits)
  obtain P Q where d3: "d3 = d2\<lparr>stock_reconciliation_items := P, auto_inc := Q\<rparr>"
    using items_frame_rfold[OF f] by (auto simp: insert_rci_Inr)
  note it = insert_rcis[OF f]
  have l: "list_all2 (\<lambda>(n, l) it. new_rc_item (auto_inc d T_stock_reconciliations) n l
      (book_of s (rnc_warehouse_id data, rcl_material_id l)) = Inr it) (enumerate 1 (rnc_items data)) items"
    using t unfolding rtraverse_Inr_iff enumerate_map_upt inc w
    by (auto simp: enumerate_eq_zip zip_map2 list_all2_map1 case_prod_unfold)
  show ?thesis
  proof (rule that[OF _ _ l conjunct2[OF it] dist ne])
    show "stock_reconciliations d' = stock_reconciliations d @
      [\<lparr>rc_id = auto_inc d T_stock_reconciliations, rc_reconciliation_no = no,
        rc_warehouse_id = rnc_warehouse_id data, rc_counted_by = cu_id u, rc_counted_on = rq_today ctx,
        rc_status = RC_DRAFT, rc_reason = rnc_reason data, rc_remark = rnc_remark data,
        rc_submitted_at = None, rc_posted_at = None, rc_approved_by = None, rc_approve_comment = None,
        rc_override_self_approval = False, rc_override_reason = None, rc_version = 1\<rparr>]"
      by (simp add: d' d3 d2)
    show "\<exists>n. stock_reconciliation_items d' = stock_reconciliation_items d @
      map (\<lambda>(n, r). r\<lparr>rci_id := n\<rparr>) (enumerate n items)" using it by (auto simp: d' d2)
    show "same_stock d d'" by (simp add: same_stock_def d' d3 d2)
  qed
qed

end
