(* ===== verification/Stock_View.thy ===== *)
theory Stock_View
  imports Requisition_Facts Order Reconciliation_Steps
begin

text \<open>
  The part of the database that stock keeping is about: balances, ledger, counts and
  their key counters.  The requisition and order handlers leave it as it is.
\<close>

definition stock_view :: "db \<Rightarrow> inventory_balance list \<times> inventory_transaction list
    \<times> stock_reconciliation list \<times> stock_reconciliation_item list \<times> nat \<times> nat" where
  "stock_view d = (inventory_balances d, inventory_transactions d, stock_reconciliations d,
     stock_reconciliation_items d, auto_inc d T_stock_reconciliations, auto_inc d T_stock_reconciliation_items)"

named_theorems view \<open>Statements that leave the stock view alone\<close>

lemma rfold_same:
  assumes "rfold f xs d = Inr d'" "\<And>x d d'. f x d = Inr d' \<Longrightarrow> v d' = v d"
  shows "v d' = v d"
  by (rule rfold_rel[OF assms(1), where R = "\<lambda>a b. v b = v a"]) (auto intro: assms(2))

lemma fold_same: "(\<And>x d. v (f x d) = v d) \<Longrightarrow> v (fold f xs d) = v d"
  by (induction xs arbitrary: d) simp_all

section \<open>Statements\<close>

lemma stock_view_simps [simp]:
  "stock_view (d\<lparr>purchase_requisitions := a\<rparr>) = stock_view d"
  "stock_view (d\<lparr>purchase_requisition_items := b\<rparr>) = stock_view d"
  "stock_view (d\<lparr>purchase_orders := c\<rparr>) = stock_view d"
  "stock_view (d\<lparr>purchase_order_items := e\<rparr>) = stock_view d"
  "stock_view (d\<lparr>purchase_order_item_sources := g\<rparr>) = stock_view d"
  "stock_view (write_audit ctx ac m us un t io no d) = stock_view d"
  "stock_view (pr_audit ctx ac u pr d) = stock_view d"
  "stock_view (po_audit ctx ac u po d) = stock_view d"
  "stock_view (insert_ar ar d) = stock_view d"
  "stock_view (write_approval_record ctx pr aa fs ts ap ov cm d) = stock_view d"
  "stock_view (flush_pr i f d) = stock_view d" "stock_view (flush_po i h d) = stock_view d"
  "stock_view (flip_pr_to_converted i d) = stock_view d"
  "stock_view (flip_pr_back_to_approved i d) = stock_view d"
  by (simp_all add: stock_view_def pr_audit_def po_audit_def insert_ar_def write_approval_record_def
      flush_pr_def flush_po_def flip_pr_to_converted_def flip_pr_back_to_approved_def)

lemma view_inserts [view]:
  "insert_pr a d = Inr d' \<Longrightarrow> stock_view d' = stock_view d"
  "insert_pri b d = Inr d' \<Longrightarrow> stock_view d' = stock_view d"
  "insert_po c d = Inr d' \<Longrightarrow> stock_view d' = stock_view d"
  "insert_poi e d = Inr d' \<Longrightarrow> stock_view d' = stock_view d"
  "insert_pois g d = Inr d' \<Longrightarrow> stock_view d' = stock_view d"
  by (auto simp: insert_pr_def insert_pri_def insert_po_def insert_poi_def insert_pois_def stock_view_def
      split: if_splits)

lemma view_number [view]: "next_daily_code key p today dt d = (no, d') \<Longrightarrow> stock_view d' = stock_view d"
  using next_daily_code_frame[of key p today dt d no d'] by (auto simp: stock_view_def)

lemma view_number_snd [simp]: "stock_view (snd (next_daily_code key p today dt d)) = stock_view d"
  by (rule view_number) (rule prod.collapse[symmetric])

lemma view_where [view]:
  "pr_where i p f d = Some d' \<Longrightarrow> stock_view d' = stock_view d"
  "po_where i q g d = Some d' \<Longrightarrow> stock_view d' = stock_view d"
  "take_converted i a d = Some d' \<Longrightarrow> stock_view d' = stock_view d"
  "give_converted i a d = Some d' \<Longrightarrow> stock_view d' = stock_view d"
  "take_source src d = Inr d' \<Longrightarrow> stock_view d' = stock_view d"
  "give_source s2 d = Inr d' \<Longrightarrow> stock_view d' = stock_view d"
  by (auto simp: pr_where_def po_where_def take_converted_def give_converted_def take_source_def give_source_def)

lemma view_amounts [view]: "flush_amounts os ns d = Inr d' \<Longrightarrow> stock_view d' = stock_view d"
  using flush_amounts_frame[of os ns d d'] by auto

lemma view_item_stmt: "exec_item_stmt st d = Inr d' \<Longrightarrow> stock_view d' = stock_view d"
  by (cases st) (auto simp: Let_def view split: option.splits if_splits)

lemma view_source_loops [view]:
  "rfold take_source xs d = Inr d' \<Longrightarrow> stock_view d' = stock_view d"
  "rfold (\<lambda>src. insert_pois (new_source poi src)) xs d = Inr d' \<Longrightarrow> stock_view d' = stock_view d"
  by (erule rfold_same, erule view_where, erule rfold_same, erule view_inserts)

lemma view_po_item: "create_po_item pid li d = Inr d' \<Longrightarrow> stock_view d' = stock_view d"
  by (auto simp: create_po_item_def Let_def dest!: view)

lemma view_loops [view]:
  "rfold exec_item_stmt sts d = Inr d' \<Longrightarrow> stock_view d' = stock_view d"
  "rfold (create_po_item pid) lis d = Inr d' \<Longrightarrow> stock_view d' = stock_view d"
  "rfold give_source srcs d = Inr d' \<Longrightarrow> stock_view d' = stock_view d"
  "rfold (\<lambda>lr. insert_pri (new_pr_item pid lr)) lrs d = Inr d' \<Longrightarrow> stock_view d' = stock_view d"
  by (erule rfold_same, erule view_item_stmt, erule rfold_same, erule view_po_item,
      erule rfold_same, erule view_where, erule rfold_same, erule view_inserts)

lemma view_flips [simp]:
  "stock_view (fold flip_pr_to_converted is d) = stock_view d"
  "stock_view (fold flip_pr_back_to_approved is d) = stock_view d"
  by (rule fold_same, simp)+

section \<open>Handlers\<close>

lemma view_pr_handlers:
  "create_pr ctx u pc s d = Inr d' \<Longrightarrow> stock_view d' = stock_view d"
  "update_pr uow ctx u i pu s d = Inr d' \<Longrightarrow> stock_view d' = stock_view d"
  "submit_pr ctx u i s d = Inr d' \<Longrightarrow> stock_view d' = stock_view d"
  "cancel_pr ctx u i s d = Inr d' \<Longrightarrow> stock_view d' = stock_view d"
  "approve_pr ctx u i v c s d = Inr d' \<Longrightarrow> stock_view d' = stock_view d"
  "reject_pr ctx u i v cm s d = Inr d' \<Longrightarrow> stock_view d' = stock_view d"
  "revise_pr ctx u i v s d = Inr d' \<Longrightarrow> stock_view d' = stock_view d"
        apply (auto simp: create_pr_def Let_def split_beta dest!: view)[1]
       apply (auto simp: update_pr_def Let_def split_beta dest!: view split: if_splits)[1]
      apply (auto simp: submit_pr_def Let_def split_beta dest!: view split: if_splits)[1]
     apply (auto simp: cancel_pr_def Let_def dest!: view split: if_splits)[1]
    apply (auto simp: approve_pr_def Let_def split_beta dest!: view split: if_splits)[1]
   apply (auto simp: reject_pr_def Let_def dest!: view)[1]
  apply (auto simp: revise_pr_def Let_def dest!: view)[1]
  done

lemma view_po_handlers:
  "create_po ctx u pc s d = Inr d' \<Longrightarrow> stock_view d' = stock_view d"
  "confirm_po ctx u i v s d = Inr d' \<Longrightarrow> stock_view d' = stock_view d"
  "cancel_po ctx u i v s d = Inr d' \<Longrightarrow> stock_view d' = stock_view d"
    apply (auto simp: create_po_def Let_def split_beta dest!: view split: if_splits)[1]
   apply (auto simp: confirm_po_def Let_def dest!: view split: if_splits)[1]
  apply (auto simp: cancel_po_def Let_def dest!: view)[1]
  done

section \<open>Receipts leave the counts alone\<close>

definition count_view :: "db \<Rightarrow> stock_reconciliation list \<times> stock_reconciliation_item list \<times> nat \<times> nat" where
  "count_view d = (stock_reconciliations d, stock_reconciliation_items d,
     auto_inc d T_stock_reconciliations, auto_inc d T_stock_reconciliation_items)"

named_theorems cview \<open>Statements that leave the counts alone\<close>

lemma count_view_simps [simp]:
  "count_view (d\<lparr>inventory_balances := a\<rparr>) = count_view d"
  "count_view (d\<lparr>purchase_order_items := b\<rparr>) = count_view d"
  "count_view (d\<lparr>purchase_orders := c\<rparr>) = count_view d"
  "count_view (d\<lparr>purchase_receipts := e\<rparr>) = count_view d"
  "count_view (receipt_audit ctx ac u i no d) = count_view d"
  "count_view (touch_balance k w d) = count_view d"
  by (simp_all add: count_view_def receipt_audit_def touch_balance_def)

lemma count_view_recompute [simp]: "count_view (recompute_po_status items po d) = count_view d"
  using recompute_po_status_frame[of items po d] by auto

lemma cview_statements [cview]:
  "lock_balances ks0 d = (ks, d') \<Longrightarrow> count_view d' = count_view d"
  "next_daily_code key p today dt d = (no, d') \<Longrightarrow> count_view d' = count_view d"
  "write_transaction txn d = Inr d' \<Longrightarrow> count_view d' = count_view d"
  "insert_rcv rcv d = Inr d' \<Longrightarrow> count_view d' = count_view d"
  "insert_ri ri d = Inr d' \<Longrightarrow> count_view d' = count_view d"
  "take_received i q d = Some d' \<Longrightarrow> count_view d' = count_view d"
  "give_received i q d = Some d' \<Longrightarrow> count_view d' = count_view d"
  "flush_received i q d = Inr d' \<Longrightarrow> count_view d' = count_view d"
  "rcv_where i pp f d = Some d' \<Longrightarrow> count_view d' = count_view d"
  "apply_inbound k q a d = Inr d' \<Longrightarrow> count_view d' = count_view d"
  "apply_outbound k q a d = Inr d' \<Longrightarrow> count_view d' = count_view d"
proof -
  assume l: "lock_balances ks0 d = (ks, d')"
  show "count_view d' = count_view d"
    using lock_balances_effect(7)[OF l] lock_balances_effect(9)[OF l, of T_stock_reconciliations]
      lock_balances_effect(9)[OF l, of T_stock_reconciliation_items] by (auto simp: count_view_def)
next
  assume "next_daily_code key p today dt d = (no, d')"
  then show "count_view d' = count_view d"
    using next_daily_code_frame[of key p today dt d no d'] by (auto simp: count_view_def)
next
  assume w: "write_transaction txn d = Inr d'"
  show "count_view d' = count_view d"
    using write_transaction_effect(5)[OF w] write_transaction_auto_inc[OF w, of T_stock_reconciliations]
      write_transaction_auto_inc[OF w, of T_stock_reconciliation_items] by (auto simp: count_view_def)
next
  assume "apply_inbound k q a d = Inr d'"
  then show "count_view d' = count_view d" using apply_frame(1) by fastforce
next
  assume "apply_outbound k q a d = Inr d'"
  then show "count_view d' = count_view d" using apply_frame(2) by fastforce
qed (auto simp: insert_rcv_def insert_ri_def take_received_def give_received_def flush_received_def
      rcv_where_def count_view_def Let_def split: if_splits)

lemma cview_lines:
  "receive_line h l run = Inr run' \<Longrightarrow> count_view (rr_db run') = count_view (rr_db run)"
  "reverse_line s h ri run = Inr run' \<Longrightarrow> count_view (rr_db run') = count_view (rr_db run)"
  "post_inbound w k run = Inr run' \<Longrightarrow> count_view (rr_db run') = count_view (rr_db run)"
  "post_outbound w k run = Inr run' \<Longrightarrow> count_view (rr_db run') = count_view (rr_db run)"
  by (auto simp: receive_line_def reverse_line_def post_inbound_def post_outbound_def Let_def split_beta
      dest!: cview)

lemma cview_loops [cview]:
  "rfold (receive_line h) ls run = Inr run' \<Longrightarrow> count_view (rr_db run') = count_view (rr_db run)"
  "rfold (reverse_line s h) ris run = Inr run' \<Longrightarrow> count_view (rr_db run') = count_view (rr_db run)"
  "rfold (post_inbound w) ks run = Inr run' \<Longrightarrow> count_view (rr_db run') = count_view (rr_db run)"
  "rfold (post_outbound w) ks run = Inr run' \<Longrightarrow> count_view (rr_db run') = count_view (rr_db run)"
  by (erule rfold_same[where v = "\<lambda>r. count_view (rr_db r)"], erule cview_lines)+

lemma cview_receipts:
  "create_receipt ctx u data s d = Inr d' \<Longrightarrow> count_view d' = count_view d"
  "reverse_receipt ctx u i reason s d = Inr d' \<Longrightarrow> count_view d' = count_view d"
  by (erule create_receipt_cases, auto dest!: cview)
    (erule reverse_receipt_cases, auto dest!: cview split: option.splits)

lemma cview_adjust:
  assumes "rfold (adjust_line s h) items run = Inr run'"
  shows "count_view (snd run') = count_view (snd run)"
  by (rule rfold_same[OF assms, where v = "\<lambda>r. count_view (snd r)"])
    (auto simp: adjust_line_def Let_def split_beta dest!: cview split: if_splits)

end
