(* ===== verification/Count_Lines.thy ===== *)
theory Count_Lines
  imports Stock_View
begin

text \<open>
  The lines of the counts: revising a document rewrites its own lines only and keeps
  what every line has to satisfy.
\<close>

definition count_lines :: "nat \<Rightarrow> db \<Rightarrow> stock_reconciliation_item list" where
  "count_lines i d = filter (\<lambda>it. rci_reconciliation_id it = i) (stock_reconciliation_items d)"

lemma set_rc_items [simp]: "set (rc_items i d) = set (count_lines i d)"
  by (simp add: rc_items_def count_lines_def)

lemma rc_items_cong: "count_lines i s = count_lines i d \<Longrightarrow> rc_items i s = rc_items i d"
  by (simp add: rc_items_def count_lines_def)

definition lines_ok :: "db \<Rightarrow> bool" where
  "lines_ok d \<longleftrightarrow> keyed rci_id (auto_inc d T_stock_reconciliation_items) (stock_reconciliation_items d)
    \<and> (\<forall>it\<in>set (stock_reconciliation_items d). money_ok it)"

section \<open>Rebuilding the lines\<close>

lemma rebuild_lines_Inr:
  "rebuild_lines s doc ex seen nls = Inr obs \<Longrightarrow>
    list_all2 (\<lambda>nl ob. rebuild_line s doc ex (fst nl) (snd nl) = Inr ob) nls obs
    \<and> distinct (map (\<lambda>nl. rcl_material_id (snd nl)) nls)
    \<and> set seen \<inter> (\<lambda>nl. rcl_material_id (snd nl)) ` set nls = {}"
proof (induction nls arbitrary: seen obs)
  case (Cons nl nls)
  then obtain ob rest where 1: "rebuild_line s doc ex (fst nl) (snd nl) = Inr ob"
    "rebuild_lines s doc ex (rcl_material_id (snd nl) # seen) nls = Inr rest" "obs = ob # rest"
    and "rcl_material_id (snd nl) \<notin> set seen" by (auto split: if_splits)
  then show ?case using Cons.IH[OF 1(2)] by auto
qed simp

definition ob_ok :: "nat \<Rightarrow> stock_reconciliation_item list \<Rightarrow> rc_object \<Rightarrow> bool" where
  "ob_ok i ex ob \<longleftrightarrow> rci_reconciliation_id (snd ob) = i \<and> money_ok (snd ob)
    \<and> (case fst ob of None \<Rightarrow> True | Some old \<Rightarrow> old \<in> set ex \<and> rci_id (snd ob) = rci_id old
        \<and> rci_material_id old = rci_material_id (snd ob) \<and> merge_rci old (snd ob) old = snd ob)"

lemma merge_rci_self: "merge_rci old new new = new"
  by (simp add: merge_rci_def set_changed_def)

lemma rebuild_line_ok:
  assumes "rebuild_line s doc ex n l = Inr ob" "rc_id doc = i" "\<forall>it\<in>set ex. rci_reconciliation_id it = i"
  shows "ob_ok i ex ob" "rci_material_id (snd ob) = rcl_material_id l"
proof -
  have "ob_ok i ex ob \<and> rci_material_id (snd ob) = rcl_material_id l"
  proof (cases "find (\<lambda>it. rci_material_id it = rcl_material_id l) ex")
    case None
    then obtain it where it: "new_rc_item (rc_id doc) n l (book_of s (rc_warehouse_id doc, rcl_material_id l)) = Inr it"
      "ob = (None, it)" using assms(1) by (auto simp: rebuild_line_def)
    note e = new_rc_item_Inr[OF it(1)]
    show ?thesis using e(1,3) amount_for_Inr(2,3)[OF e(9)] assms(2) by (simp add: it(2) ob_ok_def money_ok_def)
  next
    case (Some old)
    then have old: "old \<in> set ex" "rci_material_id old = rcl_material_id l"
      by (auto simp: find_Some_iff)
    obtain diff rate amount where a: "amount_for l (rci_book_quantity_snapshot old)
        (rci_book_avg_cost_snapshot old) = Inr (diff, rate, amount)"
      and ob: "ob = (Some old, old\<lparr>rci_line_no := n, rci_physical_quantity := q4 (rcl_physical_quantity l),
              rci_difference_quantity := diff, rci_valuation_rate := rate,
              rci_adjustment_amount := amount, rci_remark := rcl_remark l\<rparr>)"
      using assms(1) Some by (auto simp: rebuild_line_def)
    show ?thesis
      using old amount_for_Inr(2,3)[OF a] assms(3)
      by (simp add: ob ob_ok_def money_ok_def merge_rci_def set_changed_def)
  qed
  then show "ob_ok i ex ob" "rci_material_id (snd ob) = rcl_material_id l" by auto
qed

lemma rebuild_lines_ok:
  assumes "rebuild_lines s doc ex [] nls = Inr obs" "rc_id doc = i" "\<forall>it\<in>set ex. rci_reconciliation_id it = i"
  shows "\<forall>ob\<in>set obs. ob_ok i ex ob" "distinct (map (\<lambda>ob. rci_material_id (snd ob)) obs)"
proof -
  note r = rebuild_lines_Inr[OF assms(1)]
  then have l: "list_all2 (\<lambda>nl ob. rebuild_line s doc ex (fst nl) (snd nl) = Inr ob) nls obs" by blast
  show "\<forall>ob\<in>set obs. ob_ok i ex ob"
  proof
    fix ob assume "ob \<in> set obs"
    then obtain j where "j < length obs" "obs ! j = ob" by (auto simp: in_set_conv_nth)
    then have "rebuild_line s doc ex (fst (nls ! j)) (snd (nls ! j)) = Inr ob"
      using l by (auto simp: list_all2_conv_all_nth)
    then show "ob_ok i ex ob" by (rule rebuild_line_ok(1)[OF _ assms(2,3)])
  qed
  have "map (\<lambda>ob. rci_material_id (snd ob)) obs = map (\<lambda>nl. rcl_material_id (snd nl)) nls"
  proof (rule nth_equalityI)
    fix j assume "j < length (map (\<lambda>ob. rci_material_id (snd ob)) obs)"
    then have j: "j < length obs" "j < length nls"
      "rebuild_line s doc ex (fst (nls ! j)) (snd (nls ! j)) = Inr (obs ! j)"
      using l by (auto simp: list_all2_conv_all_nth)
    show "map (\<lambda>ob. rci_material_id (snd ob)) obs ! j = map (\<lambda>nl. rcl_material_id (snd nl)) nls ! j"
      using rebuild_line_ok(2)[OF j(3) assms(2,3)] j(1,2) by simp
  qed (use l in \<open>simp add: list_all2_lengthD\<close>)
  then show "distinct (map (\<lambda>ob. rci_material_id (snd ob)) obs)" using r by simp
qed

text \<open>An existing line belongs to at most one object of the session.\<close>

lemma object_unique:
  assumes "\<forall>ob\<in>set obs. ob_ok i ex ob" "distinct (map (\<lambda>ob. rci_material_id (snd ob)) obs)"
    and "distinct (map rci_id ex)" "ob \<in> set obs" "ob' \<in> set obs"
    and "fst ob = Some old" "fst ob' = Some old'" "rci_id old = rci_id old'"
  shows "ob = ob'"
proof -
  have 1: "old \<in> set ex" "old' \<in> set ex" "rci_material_id old = rci_material_id (snd ob)"
    "rci_material_id old' = rci_material_id (snd ob')"
    using assms(1,4-7) by (auto simp: ob_ok_def)
  then have "old = old'" using assms(3,8) by (auto simp: distinct_map inj_on_def)
  then have "rci_material_id (snd ob) = rci_material_id (snd ob')" using 1(3,4) by simp
  then show ?thesis using assms(2,4,5) by (auto simp: distinct_map inj_on_def)
qed

section \<open>Executing the statements\<close>

text \<open>
  What holds between two statements of a revision of document \<^verbatim>\<open>i\<close> whose lines were
  \<^verbatim>\<open>ex\<close>: the lines of the others are as in \<^verbatim>\<open>d0\<close>, and a row of an existing line is still
  the loaded one or already the new one.
\<close>

definition revising :: "nat \<Rightarrow> stock_reconciliation_item list \<Rightarrow> rc_object list \<Rightarrow> db \<Rightarrow> db \<Rightarrow> bool" where
  "revising i ex obs d0 d \<longleftrightarrow> lines_ok d
    \<and> (\<forall>j. j \<noteq> i \<longrightarrow> count_lines j d = count_lines j d0)
    \<and> (\<forall>it\<in>set ex. rci_id it < auto_inc d T_stock_reconciliation_items)
    \<and> (\<forall>x\<in>set (stock_reconciliation_items d). rci_id x \<in> rci_id ` set ex \<longrightarrow> rci_reconciliation_id x = i)
    \<and> (\<forall>x\<in>set (stock_reconciliation_items d). \<forall>ob\<in>set obs. \<forall>old. fst ob = Some old \<longrightarrow>
        rci_id x = rci_id old \<longrightarrow> x = old \<or> x = snd ob)"

lemma filter_update_other:
  assumes "\<And>x. x \<in> set rows \<Longrightarrow> p x \<Longrightarrow> \<not> q x" "\<And>x. x \<in> set rows \<Longrightarrow> p x \<Longrightarrow> \<not> q (f x)"
  shows "filter q (update_rows p f rows) = filter q rows"
  using assms by (induction rows) auto

lemma revising_update:
  assumes r: "revising i ex obs d0 d" and ob: "(Some old, new) \<in> set obs"
    and e: "exec_rci_stmt (UpdateRci old new) d = Inr d'"
    and ok: "\<forall>ob\<in>set obs. ob_ok i ex ob"
    and uniq: "\<And>ob ob' a b. ob \<in> set obs \<Longrightarrow> ob' \<in> set obs \<Longrightarrow> fst ob = Some a \<Longrightarrow> fst ob' = Some b \<Longrightarrow>
      rci_id a = rci_id b \<Longrightarrow> ob = ob'"
  shows "revising i ex obs d0 d'"
proof -
  from e obtain cur where cur: "get_rci d (rci_id old) = Some cur"
    and d': "d' = d\<lparr>stock_reconciliation_items :=
      update_rows (\<lambda>x. rci_id x = rci_id old) (\<lambda>_. merge_rci old new cur) (stock_reconciliation_items d)\<rparr>"
    by (auto simp: Let_def split: option.splits if_splits)
  have o: "rci_reconciliation_id new = i" "money_ok new" "old \<in> set ex" "rci_id new = rci_id old"
    "merge_rci old new old = new"
    using ok ob by (force simp: ob_ok_def)+
  have "cur \<in> set (stock_reconciliation_items d)" "rci_id cur = rci_id old"
    using cur by (auto simp: get_rci_def dest: row_by_SomeD)
  then have "cur = old \<or> cur = new" using r ob by (force simp: revising_def)
  then have m: "merge_rci old new cur = new" using o(5) merge_rci_self by auto
  have rows: "stock_reconciliation_items d' = update_rows (\<lambda>x. rci_id x = rci_id old) (\<lambda>_. new)
      (stock_reconciliation_items d)" "auto_inc d' = auto_inc d"
    by (simp_all add: d' m)
  have mem: "x = new \<or> (x \<in> set (stock_reconciliation_items d) \<and> rci_id x \<noteq> rci_id old)"
    if "x \<in> set (stock_reconciliation_items d')" for x
    using that by (auto simp: rows set_update_rows split: if_splits)
  have ids: "map rci_id (stock_reconciliation_items d') = map rci_id (stock_reconciliation_items d)"
    unfolding rows by (rule map_update_rows_same) (simp add: o)
  have "lines_ok d'"
    using r mem o(2) keyed_cong[OF ids] by (auto simp: lines_ok_def revising_def rows(2))
  moreover have "count_lines j d' = count_lines j d" if "j \<noteq> i" for j
    unfolding count_lines_def rows
  proof (rule filter_update_other)
    fix x assume "x \<in> set (stock_reconciliation_items d)" "rci_id x = rci_id old"
    then have "rci_reconciliation_id x = i" using r o(3) by (auto simp: revising_def)
    then show "\<not> rci_reconciliation_id x = j" using that by simp
  next
    show "\<not> rci_reconciliation_id new = j" using o(1) that by simp
  qed
  moreover have "x = a \<or> x = snd ob'"
    if x: "x \<in> set (stock_reconciliation_items d')" and ob': "ob' \<in> set obs" "fst ob' = Some a" "rci_id x = rci_id a" for x ob' a
  proof (cases "x = new")
    case True
    then have "ob' = (Some old, new)" using uniq[OF ob'(1) ob ob'(2), of old] ob'(3) o(4) by simp
    then show ?thesis using True by simp
  next
    case False
    then show ?thesis using mem[OF x] r ob' by (auto simp: revising_def)
  qed
  moreover have "rci_reconciliation_id x = i"
    if "x \<in> set (stock_reconciliation_items d')" "rci_id x \<in> rci_id ` set ex" for x
    using r mem[OF that(1)] o(1) that(2) by (auto simp: revising_def)
  moreover have "\<forall>it\<in>set ex. rci_id it < auto_inc d' T_stock_reconciliation_items"
    using r by (simp add: revising_def rows(2))
  moreover have "\<forall>j. j \<noteq> i \<longrightarrow> count_lines j d = count_lines j d0" using r by (simp add: revising_def)
  ultimately show ?thesis unfolding revising_def by auto
qed

lemma revising_insert:
  assumes r: "revising i ex obs d0 d" and ob: "(None, new) \<in> set obs" "ob_ok i ex (None, new)"
    and e: "insert_rci new d = Inr d'" and ok: "\<forall>ob\<in>set obs. ob_ok i ex ob"
  shows "revising i ex obs d0 d'"
proof -
  let ?n = "auto_inc d T_stock_reconciliation_items" and ?x = "new\<lparr>rci_id := auto_inc d T_stock_reconciliation_items\<rparr>"
  have d': "stock_reconciliation_items d' = stock_reconciliation_items d @ [?x]"
    "auto_inc d' T_stock_reconciliation_items = Suc ?n"
    using e by (auto simp: insert_rci_Inr)
  have o: "rci_reconciliation_id ?x = i" "money_ok ?x" using ob(2) by (auto simp: ob_ok_def money_ok_def)
  have k: "keyed rci_id ?n (stock_reconciliation_items d)" using r by (simp add: revising_def lines_ok_def)
  have "lines_ok d'" using r o(2) keyed_append[OF k, of ?x] by (auto simp: revising_def lines_ok_def d')
  moreover have "count_lines j d' = count_lines j d" if "j \<noteq> i" for j using o(1) that by (simp add: count_lines_def d')
  moreover have "rci_id it < auto_inc d' T_stock_reconciliation_items" if "it \<in> set ex" for it
    using r that by (auto simp: revising_def d' less_Suc_eq)
  moreover have "x = a \<or> x = snd ob'"
    if x: "x \<in> set (stock_reconciliation_items d')" and ob': "ob' \<in> set obs" "fst ob' = Some a" "rci_id x = rci_id a" for x ob' a
  proof -
    have "a \<in> set ex" using ok ob'(1,2) by (auto simp: ob_ok_def)
    then have "rci_id a < ?n" using r by (auto simp: revising_def)
    then have "x \<noteq> ?x" using ob'(3) by auto
    then show ?thesis using r x ob' by (auto simp: revising_def d')
  qed
  moreover have "rci_reconciliation_id x = i"
    if "x \<in> set (stock_reconciliation_items d')" "rci_id x \<in> rci_id ` set ex" for x
    using r o(1) that by (auto simp: revising_def d')
  ultimately show ?thesis using r by (auto simp: revising_def)
qed

lemma revising_delete:
  assumes r: "revising i ex obs d0 d" and "j \<in> rci_id ` set ex"
  shows "revising i ex obs d0 (d\<lparr>stock_reconciliation_items :=
      filter (\<lambda>r. rci_id r \<noteq> j) (stock_reconciliation_items d)\<rparr>)" (is "revising i ex obs d0 ?d")
proof -
  have "count_lines k ?d = count_lines k d" if "k \<noteq> i" for k
  proof -
    have "rci_id x \<noteq> j" if "x \<in> set (stock_reconciliation_items d)" "rci_reconciliation_id x = k" for x
      using r assms(2) that \<open>k \<noteq> i\<close> by (auto simp: revising_def)
    then show ?thesis by (auto simp: count_lines_def intro!: filter_cong)
  qed
  then show ?thesis using r keyed_filter by (auto simp: revising_def lines_ok_def)
qed

definition stmt_of_object :: "rc_object \<Rightarrow> rci_stmt option" where
  "stmt_of_object ob = (case fst ob of
        None \<Rightarrow> Some (InsertRci (snd ob))
      | Some old \<Rightarrow> if snd ob = old then None else Some (UpdateRci old (snd ob)))"

lemma rci_stmts_cases:
  assumes "st \<in> set (rci_stmts ex obs)"
  obtains (upd) old new where "st = UpdateRci old new" "(Some old, new) \<in> set obs"
  | (ins) new where "st = InsertRci new" "(None, new) \<in> set obs"
  | (del) j where "st = DeleteRci j" "j \<in> rci_id ` set ex"
proof -
  have "st \<in> set (List.map_filter stmt_of_object obs) \<or> (\<exists>j. st = DeleteRci j \<and> j \<in> rci_id ` set ex)"
    using assms unfolding rci_stmts_def stmt_of_object_def[abs_def] set_append set_map set_filter by blast
  then show ?thesis
  proof
    assume "st \<in> set (List.map_filter stmt_of_object obs)"
    then obtain ob where "ob \<in> set obs" "stmt_of_object ob = Some st"
      by (auto simp: map_filter_def)
    then obtain a b where ob: "(a, b) \<in> set obs" "stmt_of_object (a, b) = Some st"
      by (metis prod.collapse)
    show ?thesis
    proof (cases a)
      case None
      then show ?thesis using ins ob by (auto simp: stmt_of_object_def)
    next
      case (Some old)
      then show ?thesis using upd ob by (auto simp: stmt_of_object_def split: if_splits)
    qed
  qed (use del in blast)
qed

lemma rebuilt_lines_kept:
  assumes f: "rfold exec_rci_stmt (uow (rci_stmts ex obs)) d = Inr d'"
    and uow: "\<And>sts. set (uow sts) \<subseteq> set sts"
    and rb: "rebuild_lines s doc ex [] nls = Inr obs" "rc_id doc = i"
    and ex: "set ex = set (count_lines i d)" and ok: "lines_ok d"
  shows "lines_ok d'" "j \<noteq> i \<Longrightarrow> count_lines j d' = count_lines j d"
proof -
  have exi: "\<forall>it\<in>set ex. rci_reconciliation_id it = i" by (auto simp: ex count_lines_def)
  note obs = rebuild_lines_ok[OF rb exi]
  have k: "keyed rci_id (auto_inc d T_stock_reconciliation_items) (stock_reconciliation_items d)"
    using ok by (simp add: lines_ok_def)
  have same: "x = y" if "x \<in> set (stock_reconciliation_items d)" "y \<in> set (stock_reconciliation_items d)"
    "rci_id x = rci_id y" for x y
    using keyed_unique[OF k that] .
  have sub: "x \<in> set (stock_reconciliation_items d)" if "x \<in> set ex" for x
    using that by (auto simp: ex count_lines_def)
  have uniq: "ob = ob'" if "ob \<in> set obs" "ob' \<in> set obs" "fst ob = Some a" "fst ob' = Some b" "rci_id a = rci_id b"
    for ob ob' a b
  proof -
    have "a \<in> set ex" "b \<in> set ex" and m: "rci_material_id a = rci_material_id (snd ob)"
      "rci_material_id b = rci_material_id (snd ob')"
      using obs(1) that(1-4) by (auto simp: ob_ok_def)
    then have "a = b" using same[OF sub sub] that(5) by blast
    then have "rci_material_id (snd ob) = rci_material_id (snd ob')" using m by simp
    then show ?thesis using obs(2) that(1,2) by (auto simp: distinct_map inj_on_def)
  qed
  have start: "revising i ex obs d d"
  proof -
    have "x = old" if "x \<in> set (stock_reconciliation_items d)" "ob \<in> set obs" "fst ob = Some old"
      "rci_id x = rci_id old" for x ob old
      using same[OF that(1) sub that(4)] obs(1) that(2,3) by (auto simp: ob_ok_def)
    moreover have "rci_reconciliation_id x = i"
      if "x \<in> set (stock_reconciliation_items d)" "rci_id x \<in> rci_id ` set ex" for x
      using same[OF that(1) sub] that(2) exi by auto
    moreover have "rci_id it < auto_inc d T_stock_reconciliation_items" if "it \<in> set ex" for it
      using keyed_below[OF k sub[OF that]] .
    ultimately show ?thesis using ok by (auto simp: revising_def)
  qed
  have "revising i ex obs d d'"
  proof (rule rfold_invariant[OF f, where P = "revising i ex obs d", OF start])
    fix st a b assume "st \<in> set (uow (rci_stmts ex obs))" and r: "revising i ex obs d a"
      and e: "exec_rci_stmt st a = Inr b"
    then have "st \<in> set (rci_stmts ex obs)" using uow by blast
    then show "revising i ex obs d b"
    proof (cases rule: rci_stmts_cases)
      case (upd old new)
      show ?thesis by (rule revising_update[OF r upd(2) e[unfolded upd(1)] obs(1) uniq])
    next
      case (ins new)
      show ?thesis
        using revising_insert[OF r ins(2) _ _ obs(1)] e ins obs(1) by auto
    next
      case (del j)
      then show ?thesis using revising_delete[OF r del(2)] e by auto
    qed
  qed
  then show "lines_ok d'" "j \<noteq> i \<Longrightarrow> count_lines j d' = count_lines j d" by (auto simp: revising_def)
qed

end
