(* ===== verification/Reconciliation_Life.thy ===== *)
theory Reconciliation_Life
  imports Reconciliation_Steps
begin

text \<open>
  The life of a count: the step relation of its handlers and what one step does to the
  row of a document, for any snapshot.
\<close>

section \<open>Steps of a document\<close>

inductive rc_step :: "(rci_stmt list \<Rightarrow> rci_stmt list) \<Rightarrow> db \<Rightarrow> db \<Rightarrow> bool" for uow where
  step_count: "create_reconciliation ctx u data s d = Inr d' \<Longrightarrow> rc_step uow d d'"
| step_recount: "update_reconciliation uow ctx u i upd s d = Inr d' \<Longrightarrow> rc_step uow d d'"
| step_submit_count: "submit_reconciliation ctx u i v s d = Inr d' \<Longrightarrow> rc_step uow d d'"
| step_reject_count: "reject_reconciliation ctx u i c s d = Inr d' \<Longrightarrow> rc_step uow d d'"
| step_approve_count: "approve_reconciliation ctx u i p s d = Inr d' \<Longrightarrow> rc_step uow d d'"

text \<open>The life of a document: a draft is submitted, decided, and revised when rejected.\<close>

fun rc_transitions :: "reconciliation_status \<Rightarrow> reconciliation_status list" where
  "rc_transitions RC_DRAFT = [RC_PENDING]"
| "rc_transitions RC_PENDING = [RC_POSTED, RC_REJECTED]"
| "rc_transitions RC_REJECTED = [RC_DRAFT]"
| "rc_transitions RC_POSTED = []"

definition rc_ids_ok :: "db \<Rightarrow> bool" where
  "rc_ids_ok d \<longleftrightarrow> keyed rc_id (auto_inc d T_stock_reconciliations) (stock_reconciliations d)"

lemma row_by_claim:
  assumes "distinct (map key rows)" "\<exists>x\<in>set rows. key x = i \<and> p x" "\<And>x. key (f x) = key x"
    and "row_by key j rows = Some r"
  shows "row_by key j (update_rows (\<lambda>x. key x = i \<and> p x) f rows) = Some (if j = i then f r else r)
    \<and> (j = i \<longrightarrow> p r)"
proof -
  have r: "r \<in> set rows" "key r = j" using assms(4) by (auto dest: row_by_SomeD)
  have pr: "j = i \<Longrightarrow> p r" using assms(1,2) r by (auto simp: distinct_map inj_on_def)
  then show ?thesis using r assms(3,4) by (auto simp: row_by_update_rows)
qed

lemma approve_rows:
  assumes "approve_reconciliation ctx u i payload s d = Inr d'"
  shows "\<exists>override doc0. get_rc s i = Some doc0 \<and> rc_status doc0 = RC_PENDING
    \<and> self_approval s doc0 u payload = Inr override
    \<and> (\<exists>r\<in>set (stock_reconciliations d). rc_id r = i \<and> rc_status r = RC_PENDING)
    \<and> stock_reconciliations d' = update_rows (\<lambda>r. rc_id r = i \<and> rc_status r = RC_PENDING)
      (mark_posted (rq_now ctx) (cu_id u) payload override) (stock_reconciliations d)"
  by (rule approve_document[OF assms]) blast

lemma recount_row:
  assumes "update_reconciliation uow ctx u k upd s d = Inr d'" "rc_ids_ok d" "get_rc d i = Some r"
  shows "get_rc d' i = Some (if i = k then (mark_draft upd r)\<lparr>rc_status := RC_DRAFT,
      rc_version := rnu_version upd + 1\<rparr> else r)
    \<and> (i = k \<longrightarrow> rc_version r = rnu_version upd \<and> rc_status r \<in> {RC_DRAFT, RC_REJECTED})"
proof -
  note e = update_document[OF assms(1)]
  let ?p = "\<lambda>r. rc_version r = rnu_version upd \<and> rc_status r \<in> {RC_DRAFT, RC_REJECTED}"
  let ?rows = "update_rows (\<lambda>r. rc_id r = k \<and> ?p r) (mark_draft upd) (stock_reconciliations d)"
  have m: "row_by rc_id i ?rows = Some (if i = k then mark_draft upd r else r) \<and> (i = k \<longrightarrow> ?p r)"
    using row_by_claim[where key = rc_id and p = ?p, OF _ e(1) _ assms(3)[unfolded get_rc_def]] assms(2)
    by (simp add: rc_ids_ok_def keyed_def)
  have id: "rc_id r = i" using assms(3) by (auto simp: get_rc_def dest: row_by_SomeD)
  have "get_rc d' i = Some (if i = k then (mark_draft upd r)\<lparr>rc_status := RC_DRAFT,
      rc_version := rnu_version upd + 1\<rparr> else r)"
    unfolding get_rc_def e(2)
    by (subst row_by_update_rows) (use m id in \<open>auto simp: mark_draft_def\<close>)
  then show ?thesis using m by simp
qed

lemma rc_row_step:
  assumes "rc_step uow d d'" "rc_ids_ok d" "get_rc d i = Some r"
  shows "\<exists>r'. get_rc d' i = Some r' \<and> rc_reconciliation_no r' = rc_reconciliation_no r
    \<and> rc_warehouse_id r' = rc_warehouse_id r \<and> rc_counted_by r' = rc_counted_by r
    \<and> (r' = r \<or> (rc_version r' = rc_version r + 1
        \<and> (rc_status r' \<in> set (rc_transitions (rc_status r)) \<or> rc_status r = RC_DRAFT \<and> rc_status r' = RC_DRAFT)))"
  using assms(1)
proof cases
  case (step_count ctx u data s)
  show ?thesis
    by (rule create_document[OF step_count]) (use assms(3) in \<open>simp add: get_rc_def row_by_append\<close>)
next
  case (step_recount ctx u k upd s)
  note row = recount_row[OF step_recount assms(2,3)]
  then show ?thesis by (auto simp: mark_draft_def)
next
  case (step_submit_count ctx u k v s)
  note e = submit_document[OF step_submit_count]
  have "row_by rc_id i (stock_reconciliations d') = Some (if i = k then mark_pending (rq_now ctx) r else r)
      \<and> (i = k \<longrightarrow> rc_status r = RC_DRAFT)"
    unfolding e(2) using row_by_claim[OF _ e(1) _ assms(3)[unfolded get_rc_def]] assms(2)
    by (simp add: rc_ids_ok_def keyed_def)
  then show ?thesis by (auto simp: get_rc_def mark_pending_def)
next
  case (step_reject_count ctx u k c s)
  note e = reject_document[OF step_reject_count]
  have "row_by rc_id i (stock_reconciliations d') = Some (if i = k then mark_rejected c r else r)
      \<and> (i = k \<longrightarrow> rc_status r = RC_PENDING)"
    unfolding e(2) using row_by_claim[OF _ e(1) _ assms(3)[unfolded get_rc_def]] assms(2)
    by (simp add: rc_ids_ok_def keyed_def)
  then show ?thesis by (auto simp: get_rc_def mark_rejected_def)
next
  case (step_approve_count ctx u k p s)
  then have ap: "approve_reconciliation ctx u k p s d = Inr d'" .
  from approve_rows[OF ap] obtain ov where
    e: "\<exists>r\<in>set (stock_reconciliations d). rc_id r = k \<and> rc_status r = RC_PENDING"
    "stock_reconciliations d' = update_rows (\<lambda>r. rc_id r = k \<and> rc_status r = RC_PENDING)
      (mark_posted (rq_now ctx) (cu_id u) p ov) (stock_reconciliations d)" by blast
  have "row_by rc_id i (stock_reconciliations d') = Some (if i = k then mark_posted (rq_now ctx) (cu_id u) p ov r else r)
      \<and> (i = k \<longrightarrow> rc_status r = RC_PENDING)"
    unfolding e(2) using row_by_claim[OF _ e(1) _ assms(3)[unfolded get_rc_def]] assms(2)
    by (simp add: rc_ids_ok_def keyed_def)
  then show ?thesis by (auto simp: get_rc_def)
qed

end
