(* ===== verification/Stock_History.thy ===== *)
theory Stock_History
  imports Count_Lines Reconciliation_Life
begin

text \<open>
  All stock-relevant handlers together.  A run is the list of the states committed so
  far, the newest first; a request works on the newest state with the snapshot its
  transaction has read, which is any state of the run.
\<close>

section \<open>Runs\<close>

inductive erp_step ::
    "(item_stmt list \<Rightarrow> item_stmt list) \<Rightarrow> (rci_stmt list \<Rightarrow> rci_stmt list) \<Rightarrow> db \<Rightarrow> db \<Rightarrow> db \<Rightarrow> bool"
  for uowp uowc s d where
  erp_create_pr: "create_pr ctx u pc s d = Inr d' \<Longrightarrow> erp_step uowp uowc s d d'"
| erp_update_pr: "update_pr uowp ctx u i pu s d = Inr d' \<Longrightarrow> erp_step uowp uowc s d d'"
| erp_submit_pr: "submit_pr ctx u i s d = Inr d' \<Longrightarrow> erp_step uowp uowc s d d'"
| erp_cancel_pr: "cancel_pr ctx u i s d = Inr d' \<Longrightarrow> erp_step uowp uowc s d d'"
| erp_approve_pr: "approve_pr ctx u i v c s d = Inr d' \<Longrightarrow> erp_step uowp uowc s d d'"
| erp_reject_pr: "reject_pr ctx u i v cm s d = Inr d' \<Longrightarrow> erp_step uowp uowc s d d'"
| erp_revise_pr: "revise_pr ctx u i v s d = Inr d' \<Longrightarrow> erp_step uowp uowc s d d'"
| erp_create_po: "create_po ctx u poc s d = Inr d' \<Longrightarrow> erp_step uowp uowc s d d'"
| erp_confirm_po: "confirm_po ctx u i v s d = Inr d' \<Longrightarrow> erp_step uowp uowc s d d'"
| erp_cancel_po: "cancel_po ctx u i v s d = Inr d' \<Longrightarrow> erp_step uowp uowc s d d'"
| erp_receive: "create_receipt ctx u rcc s d = Inr d' \<Longrightarrow> erp_step uowp uowc s d d'"
| erp_reverse: "reverse_receipt ctx u i reason s d = Inr d' \<Longrightarrow> erp_step uowp uowc s d d'"
| erp_count: "create_reconciliation ctx u rnc s d = Inr d' \<Longrightarrow> erp_step uowp uowc s d d'"
| erp_recount: "update_reconciliation uowc ctx u i rnu s d = Inr d' \<Longrightarrow> erp_step uowp uowc s d d'"
| erp_submit: "submit_reconciliation ctx u i v s d = Inr d' \<Longrightarrow> erp_step uowp uowc s d d'"
| erp_reject: "reject_reconciliation ctx u i cm s d = Inr d' \<Longrightarrow> erp_step uowp uowc s d d'"
| erp_approve: "approve_reconciliation ctx u i rna s d = Inr d' \<Longrightarrow> erp_step uowp uowc s d d'"

inductive erp_run ::
    "(item_stmt list \<Rightarrow> item_stmt list) \<Rightarrow> (rci_stmt list \<Rightarrow> rci_stmt list) \<Rightarrow> db \<Rightarrow> db list \<Rightarrow> bool"
  for uowp uowc d0 where
  run_start: "erp_run uowp uowc d0 [d0]"
| run_step: "erp_run uowp uowc d0 (d # h) \<Longrightarrow> s \<in> set (d # h) \<Longrightarrow> erp_step uowp uowc s d d' \<Longrightarrow>
    erp_run uowp uowc d0 (d' # d # h)"

section \<open>The invariant\<close>

definition books_ok :: "db \<Rightarrow> bool" where
  "books_ok d \<longleftrightarrow> stock_ok d \<and> reconciles d \<and> lines_ok d \<and> rc_ids_ok d"

lemma reconcilesD: "reconciles d \<Longrightarrow> ledger_quantity d k = balance_quantity d k \<and> ledger_amount d k = balance_amount d k"
  unfolding reconciles_def by blast

text \<open>What a snapshot still tells: a count of the same version has the same lines.\<close>

definition knows :: "db \<Rightarrow> db \<Rightarrow> bool" where
  "knows s d \<longleftrightarrow> (\<forall>i r. get_rc s i = Some r \<longrightarrow> (\<exists>r'. get_rc d i = Some r' \<and> rc_version r \<le> rc_version r'
    \<and> (rc_version r' = rc_version r \<longrightarrow> count_lines i d = count_lines i s)))"

lemma knows_refl: "knows d d"
  by (simp add: knows_def)

lemma knows_trans: "knows a b \<Longrightarrow> knows b c \<Longrightarrow> knows a c"
proof -
  assume ab: "knows a b" and bc: "knows b c"
  show ?thesis unfolding knows_def
  proof (intro allI impI)
    fix i r assume r: "get_rc a i = Some r"
    obtain r1 where 1: "get_rc b i = Some r1" "rc_version r \<le> rc_version r1"
      "rc_version r1 = rc_version r \<longrightarrow> count_lines i b = count_lines i a"
      using ab r unfolding knows_def by blast
    obtain r2 where 2: "get_rc c i = Some r2" "rc_version r1 \<le> rc_version r2"
      "rc_version r2 = rc_version r1 \<longrightarrow> count_lines i c = count_lines i b"
      using bc 1(1) unfolding knows_def by blast
    have "rc_version r2 = rc_version r \<longrightarrow> count_lines i c = count_lines i a" using 1 2 by simp
    then show "\<exists>r'. get_rc c i = Some r' \<and> rc_version r \<le> rc_version r'
      \<and> (rc_version r' = rc_version r \<longrightarrow> count_lines i c = count_lines i a)"
      using 1(2) 2(1,2) by (intro exI[of _ r2]) simp
  qed
qed

text \<open>Steps outside of stock keeping, and steps that only touch stock.\<close>

lemma view_step:
  assumes "stock_view d' = stock_view d" "books_ok d"
  shows "books_ok d'" "knows d d'"
proof -
  have t: "inventory_balances d' = inventory_balances d" "inventory_transactions d' = inventory_transactions d"
    "stock_reconciliations d' = stock_reconciliations d"
    "stock_reconciliation_items d' = stock_reconciliation_items d"
    "auto_inc d' T_stock_reconciliations = auto_inc d T_stock_reconciliations"
    "auto_inc d' T_stock_reconciliation_items = auto_inc d T_stock_reconciliation_items"
    using assms(1) by (simp_all add: stock_view_def)
  show "books_ok d'"
    using assms(2) stock_frame[OF t(1,2)] by (simp add: books_ok_def reconciles_def lines_ok_def rc_ids_ok_def t)
  show "knows d d'" by (simp add: knows_def get_rc_def count_lines_def t)
qed

lemma cview_step:
  assumes "count_view d' = count_view d"
  shows "lines_ok d' = lines_ok d" "rc_ids_ok d' = rc_ids_ok d" "knows d d'"
proof -
  have t: "stock_reconciliations d' = stock_reconciliations d"
    "stock_reconciliation_items d' = stock_reconciliation_items d"
    "auto_inc d' T_stock_reconciliations = auto_inc d T_stock_reconciliations"
    "auto_inc d' T_stock_reconciliation_items = auto_inc d T_stock_reconciliation_items"
    using assms by (simp_all add: count_view_def)
  show "lines_ok d' = lines_ok d" "rc_ids_ok d' = rc_ids_ok d" by (simp_all add: lines_ok_def rc_ids_ok_def t)
  show "knows d d'" by (simp add: knows_def get_rc_def count_lines_def t)
qed

lemma same_stock_books: "same_stock d d' \<Longrightarrow> stock_ok d' = stock_ok d \<and> reconciles d' = reconciles d"
  using stock_frame[of d' d] by (auto simp: same_stock_def reconciles_def)

lemma receive_step:
  assumes "create_receipt ctx u data s d = Inr d'" "books_ok d"
  shows "books_ok d'" "knows d d'"
proof -
  have ok: "stock_ok d" using assms(2) by (simp add: books_ok_def)
  note e = create_receipt_stock[OF assms(1) ok]
  note c = cview_step[OF cview_receipts(1)[OF assms(1)]]
  have "reconciles d'" using assms(2) by (simp add: books_ok_def reconciles_def e(3-6))
  then show "books_ok d'" using assms(2) e(1) c by (simp add: books_ok_def)
  show "knows d d'" by (rule c(3))
qed

lemma reverse_step:
  assumes "reverse_receipt ctx u i reason s d = Inr d'" "books_ok d" "books_ok s"
  shows "books_ok d'" "knows d d'"
proof -
  have ok: "stock_ok d" "stock_ok s" using assms(2,3) by (simp_all add: books_ok_def)
  note e = reverse_receipt_stock[OF assms(1) ok]
  note c = cview_step[OF cview_receipts(2)[OF assms(1)]]
  have "ledger_quantity d' k = balance_quantity d' k \<and> ledger_amount d' k = balance_amount d' k" for k
    using e(4)[of k] reconcilesD[of d k] assms(2) by (auto simp: books_ok_def)
  then have "reconciles d'" by (simp add: reconciles_def)
  then show "books_ok d'" using assms(2) e(1) c by (simp add: books_ok_def)
  show "knows d d'" by (rule c(3))
qed

section \<open>Steps of the counts\<close>

lemma kept_versions:
  assumes "rc_step uow d d'" "rc_ids_ok d"
    and "\<And>i r r'. get_rc d i = Some r \<Longrightarrow> get_rc d' i = Some r' \<Longrightarrow> rc_version r' = rc_version r \<Longrightarrow>
      count_lines i d' = count_lines i d"
  shows "knows d d'"
  unfolding knows_def
proof (intro allI impI)
  fix i r assume r: "get_rc d i = Some r"
  obtain r' where "get_rc d' i = Some r'" "rc_version r \<le> rc_version r'"
    using rc_row_step[OF assms(1,2) r] by fastforce
  then show "\<exists>r'. get_rc d' i = Some r' \<and> rc_version r \<le> rc_version r'
      \<and> (rc_version r' = rc_version r \<longrightarrow> count_lines i d' = count_lines i d)"
    using assms(3)[OF r] by blast
qed

lemma same_items_lines: "stock_reconciliation_items d' = stock_reconciliation_items d \<Longrightarrow> count_lines i d' = count_lines i d"
  by (simp add: count_lines_def)

lemma insert_counts:
  assumes "rfold insert_rci rows d = Inr d'" "lines_ok d" "\<forall>it\<in>set rows. money_ok it"
    "\<forall>it\<in>set rows. rci_reconciliation_id it = i"
  shows "lines_ok d' \<and> (\<forall>j. j \<noteq> i \<longrightarrow> count_lines j d' = count_lines j d)
    \<and> stock_reconciliations d' = stock_reconciliations d
    \<and> auto_inc d' T_stock_reconciliations = auto_inc d T_stock_reconciliations"
  using assms
proof (induction rows arbitrary: d)
  case (Cons r rows)
  then obtain d1 where 1: "insert_rci r d = Inr d1" "rfold insert_rci rows d1 = Inr d'" by auto
  have d1: "stock_reconciliation_items d1 = stock_reconciliation_items d @
      [r\<lparr>rci_id := auto_inc d T_stock_reconciliation_items\<rparr>]"
    "auto_inc d1 T_stock_reconciliation_items = Suc (auto_inc d T_stock_reconciliation_items)"
    "stock_reconciliations d1 = stock_reconciliations d"
    "auto_inc d1 T_stock_reconciliations = auto_inc d T_stock_reconciliations"
    using 1(1) by (auto simp: insert_rci_Inr)
  have "lines_ok d1"
    using Cons.prems(2,3) by (auto simp: lines_ok_def d1 money_ok_def intro!: keyed_append)
  from Cons.IH[OF 1(2) this] Cons.prems(3,4)
  show ?case by (simp add: d1 count_lines_def)
qed simp

lemma count_step:
  assumes "create_reconciliation ctx u data s d = Inr d'" "books_ok d"
  shows "books_ok d'" "knows d d'"
proof -
  obtain wh no d1 d2 items d3 where
    "rc_active_warehouse s (rnc_warehouse_id data) = Inr wh" "rnc_items data \<noteq> []"
    "distinct (map rcl_material_id (rnc_items data))"
    "\<forall>l\<in>set (rnc_items data). 0 \<le> rcl_physical_quantity l
      \<and> assert_rc_material_active s (rcl_material_id l) = Inr ()"
    and n: "next_daily_code SEQ_STOCK_RECONCILIATION ''CNT'' (rq_today ctx) (Some (rq_today ctx)) d = (no, d1)"
    and i: "insert_rc \<lparr>rc_id = auto_inc d1 T_stock_reconciliations, rc_reconciliation_no = no,
      rc_warehouse_id = wh_id wh, rc_counted_by = cu_id u, rc_counted_on = rq_today ctx, rc_status = RC_DRAFT,
      rc_reason = rnc_reason data, rc_remark = rnc_remark data, rc_submitted_at = None, rc_posted_at = None,
      rc_approved_by = None, rc_approve_comment = None, rc_override_self_approval = False,
      rc_override_reason = None, rc_version = 1\<rparr> d1 = Inr d2"
    and t: "rtraverse (\<lambda>(n, line, b). new_rc_item (auto_inc d1 T_stock_reconciliations) n line b)
      (enumerate 1 (map (\<lambda>l. (l, book_of s (wh_id wh, rcl_material_id l))) (rnc_items data))) = Inr items"
    and f: "rfold insert_rci items d2 = Inr d3"
    and d': "d' = rc_audit ctx STOCK_COUNT_CREATE u (auto_inc d1 T_stock_reconciliations) no d3"
    by (rule create_cases[OF assms(1)])
  let ?n = "auto_inc d T_stock_reconciliations"
  have 1: "stock_reconciliations d1 = stock_reconciliations d" "stock_reconciliation_items d1 = stock_reconciliation_items d"
    "auto_inc d1 T_stock_reconciliations = ?n"
    "auto_inc d1 T_stock_reconciliation_items = auto_inc d T_stock_reconciliation_items"
    using next_daily_code_frame[OF n] by auto
  obtain doc where 2: "stock_reconciliations d2 = stock_reconciliations d @ [doc]" "rc_id doc = ?n"
    "stock_reconciliation_items d2 = stock_reconciliation_items d"
    "auto_inc d2 T_stock_reconciliations = Suc ?n"
    "auto_inc d2 T_stock_reconciliation_items = auto_inc d T_stock_reconciliation_items"
    using i 1 by (auto simp: insert_rc_def split: if_splits)
  have items: "money_ok it \<and> rci_reconciliation_id it = ?n" if it: "it \<in> set items" for it
  proof -
    obtain n l b where "new_rc_item ?n n l b = Inr it"
      using t it unfolding rtraverse_Inr_iff list_all2_conv_all_nth in_set_conv_nth 1(3) by (auto simp: split_beta)
    note e = new_rc_item_Inr[OF this]
    show ?thesis using e(1) amount_for_Inr(2,3)[OF e(9)] by (simp add: money_ok_def)
  qed
  have ok: "lines_ok d2" using assms(2) by (simp add: books_ok_def lines_ok_def 2)
  have 3: "lines_ok d3" "\<And>j. j \<noteq> ?n \<Longrightarrow> count_lines j d3 = count_lines j d2"
    "stock_reconciliations d3 = stock_reconciliations d2"
    "auto_inc d3 T_stock_reconciliations = auto_inc d2 T_stock_reconciliations"
    using insert_counts[OF f ok, of ?n] items by auto
  have ids: "rc_ids_ok d" using assms(2) by (simp add: books_ok_def)
  have l': "lines_ok d'" using 3(1) by (simp add: d' lines_ok_def rc_audit_def)
  have r': "rc_ids_ok d'"
    using ids keyed_append[of rc_id ?n "stock_reconciliations d" doc] 2
    by (simp add: d' rc_ids_ok_def rc_audit_def 3)
  have "same_stock d d'" by (rule create_document[OF assms(1)])
  then show "books_ok d'" using assms(2) same_stock_books l' r' by (simp add: books_ok_def)
  show "knows d d'"
  proof (rule kept_versions[OF step_count[OF assms(1)] ids])
    fix j r assume "get_rc d j = Some r"
    then have "j < ?n" using ids by (auto simp: get_rc_def rc_ids_ok_def dest!: row_by_SomeD intro: keyed_below)
    then show "count_lines j d' = count_lines j d" using 3(2)[of j] by (simp add: d' count_lines_def 2)
  qed
qed

lemma rc_audit_inc [simp]:
  "t \<noteq> T_operation_logs \<Longrightarrow> auto_inc (rc_audit c a u i no d) t = auto_inc d t"
  by (simp add: rc_audit_def)

lemma rc_ids_update:
  assumes "stock_reconciliations d' = update_rows p f (stock_reconciliations d)"
    and "\<And>r. rc_id (f r) = rc_id r"
    and "auto_inc d' T_stock_reconciliations = auto_inc d T_stock_reconciliations"
  shows "rc_ids_ok d' = rc_ids_ok d"
  using assms by (simp add: rc_ids_ok_def keyed_update)

lemma submit_step:
  assumes "submit_reconciliation ctx u i v s d = Inr d'" "books_ok d"
  shows "books_ok d'" "knows d d'"
proof -
  note e = submit_document[OF assms(1)]
  have t: "stock_reconciliation_items d' = stock_reconciliation_items d"
    "auto_inc d' T_stock_reconciliations = auto_inc d T_stock_reconciliations"
    "auto_inc d' T_stock_reconciliation_items = auto_inc d T_stock_reconciliation_items"
    using assms(1) unfolding submit_reconciliation_def by (auto simp: rc_where_eq split: if_splits)
  show "books_ok d'"
    using assms(2) same_stock_books[OF e(3)] rc_ids_update[OF e(2) _ t(2)]
    by (simp add: books_ok_def lines_ok_def t)
  show "knows d d'"
    by (rule kept_versions[OF step_submit_count[OF assms(1)]])
      (use assms(2) in \<open>simp_all add: books_ok_def same_items_lines[OF t(1)]\<close>)
qed

lemma reject_step:
  assumes "reject_reconciliation ctx u i cm s d = Inr d'" "books_ok d"
  shows "books_ok d'" "knows d d'"
proof -
  note e = reject_document[OF assms(1)]
  have t: "stock_reconciliation_items d' = stock_reconciliation_items d"
    "auto_inc d' T_stock_reconciliations = auto_inc d T_stock_reconciliations"
    "auto_inc d' T_stock_reconciliation_items = auto_inc d T_stock_reconciliation_items"
    using assms(1) unfolding reject_reconciliation_def by (auto simp: rc_where_eq split: if_splits)
  show "books_ok d'"
    using assms(2) same_stock_books[OF e(3)] rc_ids_update[OF e(2) _ t(2)]
    by (simp add: books_ok_def lines_ok_def t)
  show "knows d d'"
    by (rule kept_versions[OF step_reject_count[OF assms(1)]])
      (use assms(2) in \<open>simp_all add: books_ok_def same_items_lines[OF t(1)]\<close>)
qed

lemma approve_step:
  assumes "approve_reconciliation ctx u i p s d = Inr d'" "books_ok d" "books_ok s"
  shows "books_ok d'" "knows d d'"
proof -
  obtain doc0 override d1 doc1 ks d2 run where
    "get_rc s i = Some doc0" "rc_status doc0 = RC_PENDING" "self_approval s doc0 u p = Inr override"
    "\<forall>it\<in>set (rc_items i s). check_rc_item it = Inr ()"
    and w: "rc_where i (\<lambda>r. rc_status r = RC_PENDING) (mark_posted (rq_now ctx) (cu_id u) p override) d = Some d1"
    and "get_rc d1 i = Some doc1"
    and l: "lock_balances (moving_keys (rc_warehouse_id doc1) (rc_items i s)) d1 = (ks, d2)"
    and f: "rfold (adjust_line s \<lparr>ah_id = i, ah_warehouse_id = rc_warehouse_id doc1, ah_now = rq_now ctx,
      ah_user_id = cu_id u\<rparr>) (rc_items i s) (balance_quantity d2, d2) = Inr run"
    and d': "d' = rc_audit ctx STOCK_COUNT_APPROVE u i (rc_reconciliation_no doc1) (snd run)"
    by (rule approve_cases[OF assms(1)])
  have c: "count_view (snd run) = count_view d1"
    using cview_adjust[OF f] cview_statements(1)[OF l] by simp
  have d1: "d1 = d\<lparr>stock_reconciliations := update_rows (\<lambda>r. rc_id r = i \<and> rc_status r = RC_PENDING)
      (mark_posted (rq_now ctx) (cu_id u) p override) (stock_reconciliations d)\<rparr>"
    using w by (auto simp: rc_where_eq)
  have t: "stock_reconciliation_items d' = stock_reconciliation_items d"
    "auto_inc d' T_stock_reconciliations = auto_inc d T_stock_reconciliations"
    "auto_inc d' T_stock_reconciliation_items = auto_inc d T_stock_reconciliation_items"
    "stock_reconciliations d' = update_rows (\<lambda>r. rc_id r = i \<and> rc_status r = RC_PENDING)
      (mark_posted (rq_now ctx) (cu_id u) p override) (stock_reconciliations d)"
    using c by (simp_all add: d' count_view_def d1)
  have m: "\<forall>it\<in>set (rc_items i s). money_ok it"
    using assms(3) by (auto simp: books_ok_def lines_ok_def count_lines_def)
  have pre: "stock_ok d \<and> (\<forall>it\<in>set (rc_items i s). money_ok it)"
    using m assms(2) by (simp only: books_ok_def)
  have "\<exists>w. stock_ok d' \<and> (\<forall>k. ledger_quantity d' k = ledger_quantity d k + counted_quantity s i w k)
    \<and> (\<forall>k. ledger_amount d' k = ledger_amount d k + counted_amount s i w k)
    \<and> (\<forall>k. balance_quantity d' k = balance_quantity d k + counted_quantity s i w k)
    \<and> (\<forall>k. balance_amount d' k = balance_amount d k + counted_amount s i w k)"
    by (rule approve_document[OF assms(1)]) (use pre in blast)
  then have "stock_ok d' \<and> reconciles d'"
    using assms(2) unfolding books_ok_def reconciles_def by (elim exE conjE) (simp only: simp_thms)
  then show "books_ok d'"
    using assms(2) rc_ids_update[OF t(4) _ t(2)] by (simp add: books_ok_def lines_ok_def t)
  show "knows d d'"
    by (rule kept_versions[OF step_approve_count[OF assms(1)]])
      (use assms(2) in \<open>simp_all add: books_ok_def same_items_lines[OF t(1)]\<close>)
qed

lemma rci_stmt_inc:
  "exec_rci_stmt st d = Inr d' \<Longrightarrow> auto_inc d' T_stock_reconciliations = auto_inc d T_stock_reconciliations"
  by (cases st) (auto simp: insert_rci_Inr Let_def split: option.splits if_splits)

lemma recount_step:
  assumes "update_reconciliation uow ctx u i data s d = Inr d'" "books_ok d" "knows s d"
    and uow: "\<And>sts. set (uow sts) \<subseteq> set sts"
  shows "books_ok d'" "knows d d'"
proof -
  let ?g = "\<lambda>r. r\<lparr>rc_status := RC_DRAFT, rc_version := rnu_version data + 1\<rparr>"
  obtain doc obs d1 d3 where doc: "get_rc s i = Some doc" "rc_status doc \<in> {RC_DRAFT, RC_REJECTED}"
    "rnu_version data = rc_version doc"
    and rb: "rebuild_lines s doc (rc_items i s) [] (enumerate 1 (rnu_items data)) = Inr obs"
    and w: "rc_where i (\<lambda>r. rc_version r = rnu_version data \<and> rc_status r \<in> {RC_DRAFT, RC_REJECTED})
      (mark_draft data) d = Some d1"
    and f: "rfold exec_rci_stmt (uow (rci_stmts (rc_items i s) obs)) (flush_rc i ?g d1) = Inr d3"
    and d': "d' = rc_audit ctx STOCK_COUNT_CREATE u i (rc_reconciliation_no doc) d3"
    by (rule update_cases[OF assms(1)])
  have ids: "rc_ids_ok d" and lok: "lines_ok d" using assms(2) by (simp_all add: books_ok_def)
  have fl: "stock_reconciliation_items (flush_rc i ?g d1) = stock_reconciliation_items d"
    "auto_inc (flush_rc i ?g d1) = auto_inc d"
    using w by (auto simp: rc_where_eq flush_rc_def)
  obtain r where r: "get_rc d i = Some r" "rc_version doc \<le> rc_version r"
    "rc_version r = rc_version doc \<longrightarrow> count_lines i d = count_lines i s"
    using assms(3) doc(1) unfolding knows_def by blast
  have "rc_version r = rnu_version data" using recount_row[OF assms(1) ids r(1)] by simp
  then have "count_lines i d = count_lines i s" using r(3) doc(3) by simp
  then have ex: "set (rc_items i s) = set (count_lines i (flush_rc i ?g d1))"
    unfolding set_rc_items same_items_lines[OF fl(1)] by simp
  have di: "rc_id doc = i" using doc(1) by (auto simp: get_rc_def dest: row_by_SomeD)
  have lok': "lines_ok (flush_rc i ?g d1)" using lok unfolding lines_ok_def fl .
  note k = rebuilt_lines_kept[OF f uow rb di ex lok']
  have l': "lines_ok d'" using k(1) by (simp add: d' lines_ok_def)
  have "auto_inc d3 T_stock_reconciliations = auto_inc (flush_rc i ?g d1) T_stock_reconciliations"
    by (rule rfold_same[OF f, where v = "\<lambda>d. auto_inc d T_stock_reconciliations"]) (rule rci_stmt_inc)
  then have inc: "auto_inc d3 T_stock_reconciliations = auto_inc d T_stock_reconciliations"
    by (simp only: fl)
  note e = update_document[OF assms(1)]
  have "keyed rc_id (auto_inc d T_stock_reconciliations) (stock_reconciliations d')"
    unfolding e(2) using ids by (subst keyed_update, simp)+ (simp add: rc_ids_ok_def)
  then have r': "rc_ids_ok d'" by (simp add: rc_ids_ok_def d' inc)
  show "books_ok d'" using assms(2) same_stock_books[OF e(3)] l' r' by (simp add: books_ok_def)
  show "knows d d'"
  proof (rule kept_versions[OF step_recount[OF assms(1)] ids])
    fix j x x' assume x: "get_rc d j = Some x" "get_rc d' j = Some x'" "rc_version x' = rc_version x"
    then have "j \<noteq> i" using recount_row[OF assms(1) ids x(1)] by auto
    then have "count_lines j d3 = count_lines j d" using k(2) same_items_lines[OF fl(1), of j] by metis
    then show "count_lines j d' = count_lines j d" by (simp add: d' count_lines_def)
  qed
qed

section \<open>Every reachable state\<close>

lemma erp_step_books:
  assumes "erp_step uowp uowc s d d'" "books_ok d" "books_ok s" "knows s d"
    and uow: "\<And>sts. set (uowc sts) \<subseteq> set sts"
  shows "books_ok d' \<and> knows d d'"
  using assms(1)
proof cases
  case (erp_receive ctx u rcc)
  then show ?thesis using receive_step assms(2) by blast
next
  case (erp_reverse ctx u i reason)
  then show ?thesis using reverse_step assms(2,3) by blast
next
  case (erp_count ctx u rnc)
  then show ?thesis using count_step assms(2) by blast
next
  case (erp_recount ctx u i rnu)
  then show ?thesis using recount_step[OF erp_recount assms(2,4) uow] by blast
next
  case (erp_submit ctx u i v)
  then show ?thesis using submit_step assms(2) by blast
next
  case (erp_reject ctx u i cm)
  then show ?thesis using reject_step assms(2) by blast
next
  case (erp_approve ctx u i rna)
  then show ?thesis using approve_step assms(2,3) by blast
next
  case (erp_create_pr ctx u pc)
  from view_step[OF view_pr_handlers(1)[OF this] assms(2)] show ?thesis by blast
next
  case (erp_update_pr ctx u i pu)
  from view_step[OF view_pr_handlers(2)[OF this] assms(2)] show ?thesis by blast
next
  case (erp_submit_pr ctx u i)
  from view_step[OF view_pr_handlers(3)[OF this] assms(2)] show ?thesis by blast
next
  case (erp_cancel_pr ctx u i)
  from view_step[OF view_pr_handlers(4)[OF this] assms(2)] show ?thesis by blast
next
  case (erp_approve_pr ctx u i v c)
  from view_step[OF view_pr_handlers(5)[OF this] assms(2)] show ?thesis by blast
next
  case (erp_reject_pr ctx u i v cm)
  from view_step[OF view_pr_handlers(6)[OF this] assms(2)] show ?thesis by blast
next
  case (erp_revise_pr ctx u i v)
  from view_step[OF view_pr_handlers(7)[OF this] assms(2)] show ?thesis by blast
next
  case (erp_create_po ctx u poc)
  from view_step[OF view_po_handlers(1)[OF this] assms(2)] show ?thesis by blast
next
  case (erp_confirm_po ctx u i v)
  from view_step[OF view_po_handlers(2)[OF this] assms(2)] show ?thesis by blast
next
  case (erp_cancel_po ctx u i v)
  from view_step[OF view_po_handlers(3)[OF this] assms(2)] show ?thesis by blast
qed

lemma run_books:
  assumes "erp_run uowp uowc d0 h" "books_ok d0" and uow: "\<And>sts. set (uowc sts) \<subseteq> set sts"
  shows "h \<noteq> [] \<and> (\<forall>s\<in>set h. books_ok s \<and> knows s (hd h))"
  using assms(1)
proof induction
  case run_start
  then show ?case using assms(2) by (simp add: knows_refl)
next
  case (run_step d h s d')
  have "books_ok d" "books_ok s" "knows s d" using run_step.IH run_step.hyps(2) by auto
  from erp_step_books[OF run_step.hyps(3) this uow] have n: "books_ok d'" "knows d d'" by auto
  have "books_ok x \<and> knows x d'" if "x \<in> set (d # h)" for x
    using run_step.IH that knows_trans[OF _ n(2)] by auto
  then show ?case using n(1) by (auto simp: knows_refl)
qed

end
