(* ===== verification/Admin_Steps.thy ===== *)
theory Admin_Steps
  imports Masterdata Auth
begin

text \<open>
  The administrative handlers as one step relation, whatever snapshot each of
  them has read, and what they have in common: no row of a material, supplier,
  warehouse, policy, user or department ever disappears or changes its code.
\<close>

section \<open>Growth of the tables\<close>

definition grows_mat :: "db \<Rightarrow> db \<Rightarrow> bool" where
  "grows_mat d d' = table_grows mat_id mat_material_code
    (auto_inc d T_materials, materials d) (auto_inc d' T_materials, materials d')"

definition grows_sup :: "db \<Rightarrow> db \<Rightarrow> bool" where
  "grows_sup d d' = table_grows sup_id sup_supplier_code
    (auto_inc d T_suppliers, suppliers d) (auto_inc d' T_suppliers, suppliers d')"

definition grows_wh :: "db \<Rightarrow> db \<Rightarrow> bool" where
  "grows_wh d d' = table_grows wh_id wh_warehouse_code
    (auto_inc d T_warehouses, warehouses d) (auto_inc d' T_warehouses, warehouses d')"

definition policy_pair :: "inventory_policy \<Rightarrow> nat \<times> nat" where
  "policy_pair p = (pol_warehouse_id p, pol_material_id p)"

definition grows_pol :: "db \<Rightarrow> db \<Rightarrow> bool" where
  "grows_pol d d' = table_grows pol_id policy_pair
    (auto_inc d T_inventory_policies, inventory_policies d)
    (auto_inc d' T_inventory_policies, inventory_policies d')"

definition grows_user :: "db \<Rightarrow> db \<Rightarrow> bool" where
  "grows_user d d' = table_grows user_id user_username
    (auto_inc d T_users, users d) (auto_inc d' T_users, users d')"

definition grows_dept :: "db \<Rightarrow> db \<Rightarrow> bool" where
  "grows_dept d d' = table_grows dept_id dept_code
    (auto_inc d T_departments, departments d) (auto_inc d' T_departments, departments d')"

lemmas grows_defs = grows_mat_def grows_sup_def grows_wh_def grows_pol_def grows_user_def grows_dept_def

definition admin_grows :: "db \<Rightarrow> db \<Rightarrow> bool" where
  "admin_grows d d' \<longleftrightarrow> grows_mat d d' \<and> grows_sup d d' \<and> grows_wh d d' \<and> grows_pol d d'
    \<and> grows_user d d' \<and> grows_dept d d'"

text \<open>The log and the number sequences are apart from these tables.\<close>

lemma admin_grows_audit [simp]:
  "admin_grows d (write_audit c a m u n t i no d') = admin_grows d d'"
  by (simp add: admin_grows_def grows_defs)

lemma upsert_sequence_frame:
  "materials (upsert_sequence k dt d) = materials d" "suppliers (upsert_sequence k dt d) = suppliers d"
  "warehouses (upsert_sequence k dt d) = warehouses d"
  "inventory_policies (upsert_sequence k dt d) = inventory_policies d"
  "users (upsert_sequence k dt d) = users d" "departments (upsert_sequence k dt d) = departments d"
  "t \<noteq> T_number_sequences \<Longrightarrow> auto_inc (upsert_sequence k dt d) t = auto_inc d t"
  by (simp_all add: upsert_sequence_def)

lemma next_code_db: "next_code k p dt d = (c, d') \<Longrightarrow> \<exists>dt'. d' = upsert_sequence k dt' d"
  by (auto simp: next_code_def next_sequence_value_def Let_def)

lemma admin_grows_numbering:
  "next_code k p dt d = (c, d1) \<Longrightarrow> admin_grows d1 d' = admin_grows d d'"
  by (auto dest!: next_code_db simp: admin_grows_def grows_defs upsert_sequence_frame)

text \<open>One INSERT.\<close>

lemma table_grows_insert:
  "\<lbrakk>key r = n; code r \<notin> code ` set rows\<rbrakk> \<Longrightarrow> table_grows key code (n, rows) (Suc n, rows @ [r])"
  by (simp add: table_grows_def)

lemma insert_grows:
  "insert_mat r1 d = Inr d' \<Longrightarrow> admin_grows d d'"
  "insert_sup r2 d = Inr d' \<Longrightarrow> admin_grows d d'"
  "insert_wh r3 d = Inr d' \<Longrightarrow> admin_grows d d'"
  "insert_pol r4 d = Inr d' \<Longrightarrow> admin_grows d d'"
  by (auto simp: insert_mat_def insert_sup_def insert_wh_def insert_pol_def admin_grows_def grows_defs
      policy_pair_def list_ex_iff image_iff split: if_splits intro!: table_grows_insert) blast+

lemma insert_text_grows:
  assumes "\<And>x. same x x"
  shows "insert_account same r d = Inr d' \<Longrightarrow> admin_grows d d'"
    and "insert_dept same r' d = Inr d' \<Longrightarrow> admin_grows d d'"
proof -
  have "\<forall>x. same x x" using assms by blast
  then show "insert_account same r d = Inr d' \<Longrightarrow> admin_grows d d'"
    and "insert_dept same r' d = Inr d' \<Longrightarrow> admin_grows d d'"
    by (auto simp: insert_account_def insert_dept_def admin_grows_def grows_defs
        list_ex_iff image_iff split: if_splits intro!: table_grows_insert) metis+
qed

text \<open>One flush.\<close>

lemma flush_grows:
  "flush_material m m' d = Inr d' \<Longrightarrow> admin_grows d d'"
  "flush_supplier p p' d = Inr d' \<Longrightarrow> admin_grows d d'"
  "flush_warehouse w w' d = Inr d' \<Longrightarrow> admin_grows d d'"
  "flush_policy q q' d = Inr d' \<Longrightarrow> admin_grows d d'"
  "flush_user u u' d = Inr d' \<Longrightarrow> admin_grows d d'"
  "flush_department e e' d = Inr d' \<Longrightarrow> admin_grows d d'"
  "flush_role l l' d = Inr d' \<Longrightarrow> admin_grows d d'"
  by (auto simp: flush_material_def flush_supplier_def flush_warehouse_def flush_policy_def
      flush_user_def flush_department_def flush_role_def admin_grows_def grows_defs
      merge_material_def merge_supplier_def merge_warehouse_def merge_policy_def rounded_policy_def
      merge_user_def merge_department_def policy_pair_def
      intro!: flush_row_grows)

text \<open>Roles and their links are other tables.\<close>

lemma role_tables_grow:
  "insert_role r d = Inr d' \<Longrightarrow> admin_grows d d'"
  "delete_role_row i d = Inr d' \<Longrightarrow> admin_grows d d'"
  "insert_rp l d = Inr d' \<Longrightarrow> admin_grows d d'"
  by (auto simp: insert_role_def delete_role_row_def insert_rp_def
      admin_grows_def grows_defs split: if_splits)

definition identity_view :: "db \<Rightarrow> _" where
  "identity_view d = ((auto_inc d T_materials, materials d), (auto_inc d T_suppliers, suppliers d),
     (auto_inc d T_warehouses, warehouses d), (auto_inc d T_inventory_policies, inventory_policies d),
     (auto_inc d T_users, users d), (auto_inc d T_departments, departments d))"

lemma identity_view_grows: "identity_view d' = identity_view d \<Longrightarrow> admin_grows d0 d' = admin_grows d0 d"
  by (simp add: identity_view_def admin_grows_def grows_defs)

lemma replace_permissions_view:
  assumes "replace_permissions i ids s d = Inr d'"
  shows "identity_view d' = identity_view d"
proof -
  have drop: "identity_view (drop_role_permissions i d) = identity_view d"
    by (simp add: drop_role_permissions_def identity_view_def)
  have ins: "identity_view b = identity_view a" if "insert_rp l a = Inr b" for l a b
    using that by (auto simp: insert_rp_def identity_view_def split: if_splits)
  show ?thesis
  proof (cases "sort (remdups ids) = []")
    case True
    then show ?thesis using assms drop by (simp add: replace_permissions_def)
  next
    case False
    then have "rfold (\<lambda>pid. insert_rp (permission_link i pid)) (sort (remdups ids))
        (drop_role_permissions i d) = Inr d'"
      using assms by (simp add: replace_permissions_def Let_def)
    then have "identity_view d' = identity_view (drop_role_permissions i d)"
      by (rule rfold_rel[where R = "\<lambda>a b. identity_view b = identity_view a"]) (auto dest: ins)
    then show ?thesis using drop by simp
  qed
qed

section \<open>The step relation\<close>

inductive admin_step :: "(string \<Rightarrow> string \<Rightarrow> bool) \<Rightarrow> db \<Rightarrow> db \<Rightarrow> bool" for same where
  do_create_material: "create_material ctx un data d = Inr d' \<Longrightarrow> admin_step same d d'"
| do_update_material: "update_material ctx un i data s d = Inr d' \<Longrightarrow> admin_step same d d'"
| do_disable_material: "disable_material ctx un i s d = Inr d' \<Longrightarrow> admin_step same d d'"
| do_enable_material: "enable_material ctx un i s d = Inr d' \<Longrightarrow> admin_step same d d'"
| do_create_supplier: "create_supplier ctx un data d = Inr d' \<Longrightarrow> admin_step same d d'"
| do_update_supplier: "update_supplier ctx un i data s d = Inr d' \<Longrightarrow> admin_step same d d'"
| do_disable_supplier: "disable_supplier ctx un i s d = Inr d' \<Longrightarrow> admin_step same d d'"
| do_enable_supplier: "enable_supplier ctx un i s d = Inr d' \<Longrightarrow> admin_step same d d'"
| do_create_warehouse: "create_warehouse ctx un data d = Inr d' \<Longrightarrow> admin_step same d d'"
| do_update_warehouse: "update_warehouse ctx un i data s d = Inr d' \<Longrightarrow> admin_step same d d'"
| do_disable_warehouse: "disable_warehouse ctx un i s d = Inr d' \<Longrightarrow> admin_step same d d'"
| do_enable_warehouse: "enable_warehouse ctx un i s d = Inr d' \<Longrightarrow> admin_step same d d'"
| do_create_policy: "create_policy ctx un data s d = Inr d' \<Longrightarrow> admin_step same d d'"
| do_update_policy: "update_policy ctx un i data s d = Inr d' \<Longrightarrow> admin_step same d d'"
| do_create_user: "create_user same hash data s d = Inr d' \<Longrightarrow> admin_step same d d'"
| do_update_user: "update_user hash i data s d = Inr d' \<Longrightarrow> admin_step same d d'"
| do_disable_user: "disable_user i s d = Inr d' \<Longrightarrow> admin_step same d d'"
| do_create_role: "create_role data s d = Inr d' \<Longrightarrow> admin_step same d d'"
| do_update_role: "update_role i data s d = Inr d' \<Longrightarrow> admin_step same d d'"
| do_delete_role: "delete_role i s d = Inr d' \<Longrightarrow> admin_step same d d'"
| do_assign_permissions: "assign_permissions ctx u i ids s d = Inr d' \<Longrightarrow> admin_step same d d'"
| do_create_department: "create_department same data s d = Inr d' \<Longrightarrow> admin_step same d d'"
| do_update_department: "update_department i data s d = Inr d' \<Longrightarrow> admin_step same d d'"
| do_disable_department: "disable_department i s d = Inr d' \<Longrightarrow> admin_step same d d'"
| do_login: "login env ctx n p s d = (res, d') \<Longrightarrow> admin_step same d d'"

section \<open>Every step lets the tables grow\<close>

lemma material_grows:
  "create_material ctx un data d = Inr d' \<Longrightarrow> admin_grows d d'"
  "update_material ctx un i upd s d = Inr d' \<Longrightarrow> admin_grows d d'"
  "disable_material ctx un i s d = Inr d' \<Longrightarrow> admin_grows d d'"
  "enable_material ctx un i s d = Inr d' \<Longrightarrow> admin_grows d d'"
  by (auto simp: create_material_def update_material_def disable_material_def enable_material_def material_audit_def Let_def
      admin_grows_numbering split: prod.splits dest: insert_grows flush_grows)

lemma supplier_grows:
  "create_supplier ctx un data d = Inr d' \<Longrightarrow> admin_grows d d'"
  "update_supplier ctx un i upd s d = Inr d' \<Longrightarrow> admin_grows d d'"
  "disable_supplier ctx un i s d = Inr d' \<Longrightarrow> admin_grows d d'"
  "enable_supplier ctx un i s d = Inr d' \<Longrightarrow> admin_grows d d'"
  by (auto simp: create_supplier_def update_supplier_def disable_supplier_def enable_supplier_def supplier_audit_def Let_def
      admin_grows_numbering split: prod.splits dest: insert_grows flush_grows)

lemma warehouse_grows:
  "create_warehouse ctx un data d = Inr d' \<Longrightarrow> admin_grows d d'"
  "update_warehouse ctx un i upd s d = Inr d' \<Longrightarrow> admin_grows d d'"
  "disable_warehouse ctx un i s d = Inr d' \<Longrightarrow> admin_grows d d'"
  "enable_warehouse ctx un i s d = Inr d' \<Longrightarrow> admin_grows d d'"
  by (auto simp: create_warehouse_def update_warehouse_def disable_warehouse_def enable_warehouse_def warehouse_audit_def Let_def
      admin_grows_numbering split: prod.splits dest: insert_grows flush_grows)

lemma policy_grows:
  "create_policy ctx un data s d = Inr d' \<Longrightarrow> admin_grows d d'"
  "update_policy ctx un i upd s d = Inr d' \<Longrightarrow> admin_grows d d'"
  by (auto simp: create_policy_def update_policy_def policy_audit_def Let_def
      dest: insert_grows flush_grows)

lemma user_grows:
  assumes "\<And>x. same x x"
  shows "create_user same hash data s d = Inr d' \<Longrightarrow> admin_grows d d'"
    and "update_user hash i upd s d = Inr d' \<Longrightarrow> admin_grows d d'"
    and "disable_user i s d = Inr d' \<Longrightarrow> admin_grows d d'"
  by (auto simp: create_user_def update_user_def disable_user_def Let_def
      dest: insert_text_grows(1)[OF assms] flush_grows split: if_splits)

lemma department_grows:
  assumes "\<And>x. same x x"
  shows "create_department same data s d = Inr d' \<Longrightarrow> admin_grows d d'"
    and "update_department i upd s d = Inr d' \<Longrightarrow> admin_grows d d'"
    and "disable_department i s d = Inr d' \<Longrightarrow> admin_grows d d'"
  by (auto simp: create_department_def update_department_def disable_department_def
      dest: insert_text_grows(2)[OF assms] flush_grows split: if_splits)

lemma role_grows:
  "create_role data s d = Inr d' \<Longrightarrow> admin_grows d d'"
  "update_role i upd s d = Inr d' \<Longrightarrow> admin_grows d d'"
  "delete_role i s d = Inr d' \<Longrightarrow> admin_grows d d'"
  "assign_permissions ctx u i ids s d = Inr d' \<Longrightarrow> admin_grows d d'"
proof -
  have refl: "admin_grows d d" by (simp add: admin_grows_def grows_defs)
  show "create_role data s d = Inr d' \<Longrightarrow> admin_grows d d'"
    using role_tables_grow(1)[of _ d]
    by (auto simp: create_role_def identity_view_grows[OF replace_permissions_view] split: if_splits)
  show "update_role i upd s d = Inr d' \<Longrightarrow> admin_grows d d'"
    by (auto simp: update_role_def dest: flush_grows(7))
  show "delete_role i s d = Inr d' \<Longrightarrow> admin_grows d d'"
    by (auto simp: delete_role_def dest: role_tables_grow(2) split: if_splits)
  show "assign_permissions ctx u i ids s d = Inr d' \<Longrightarrow> admin_grows d d'"
    using refl by (auto simp: assign_permissions_def identity_view_grows[OF replace_permissions_view])
qed

lemma login_grows:
  assumes "login env ctx n p s d = (res, d')" shows "admin_grows d d'"
proof -
  have refl: "admin_grows d d" by (simp add: admin_grows_def grows_defs)
  show ?thesis
  proof (cases "get_user_by_username env n s")
    case None
    then show ?thesis using assms refl by (auto simp: login_def)
  next
    case (Some u)
    show ?thesis
    proof (cases "verify_password env p (user_password_hash u) \<and> user_status u = USER_ACTIVE")
      case False
      then show ?thesis using assms refl Some by (auto simp: login_def split: if_splits)
    next
      case True
      then show ?thesis
        using assms refl Some flush_grows(5)[of u "u\<lparr>user_last_login_at := Some (rq_now ctx)\<rparr>" d]
        by (auto simp: login_def split: sum.splits)
    qed
  qed
qed

lemma admin_step_grows:
  assumes "admin_step same d d'" and "\<And>x. same x x" shows "admin_grows d d'"
  using assms(1)
  by cases (erule material_grows supplier_grows warehouse_grows policy_grows
      user_grows[OF assms(2)] department_grows[OF assms(2)] role_grows login_grows)+

end
