(* ===== verification/Master_View.thy ===== *)
theory Master_View
  imports Stock_History Admin_Steps
begin

text \<open>
  The administrative part of the database: people, roles, permissions, master data
  and policies.  The handlers of requisitions, orders, receipts and counts read it
  and never change it.
\<close>

definition master_view :: "db \<Rightarrow> _" where
  "master_view d = (identity_view d, roles d, permissions d, role_permissions d, department_managers d)"

named_theorems mview \<open>Statements that leave the administrative part alone\<close>

lemma master_viewI:
  assumes "departments d' = departments d" "roles d' = roles d" "permissions d' = permissions d"
    "role_permissions d' = role_permissions d" "users d' = users d"
    "department_managers d' = department_managers d" "materials d' = materials d"
    "suppliers d' = suppliers d" "warehouses d' = warehouses d"
    "inventory_policies d' = inventory_policies d"
    "\<And>t. t \<in> {T_departments, T_users, T_materials, T_suppliers, T_warehouses, T_inventory_policies} \<Longrightarrow>
      auto_inc d' t = auto_inc d t"
  shows "master_view d' = master_view d"
  using assms by (simp add: master_view_def identity_view_def)

section \<open>Statements\<close>

lemma master_view_simps [simp]:
  "master_view (d\<lparr>purchase_requisitions := a\<rparr>) = master_view d"
  "master_view (d\<lparr>purchase_requisition_items := b\<rparr>) = master_view d"
  "master_view (d\<lparr>purchase_orders := c\<rparr>) = master_view d"
  "master_view (d\<lparr>purchase_order_items := e\<rparr>) = master_view d"
  "master_view (d\<lparr>purchase_order_item_sources := g\<rparr>) = master_view d"
  "master_view (d\<lparr>purchase_receipts := ll\<rparr>) = master_view d"
  "master_view (d\<lparr>inventory_balances := jj\<rparr>) = master_view d"
  "master_view (d\<lparr>stock_reconciliations := kk\<rparr>) = master_view d"
  "master_view (d\<lparr>stock_reconciliation_items := mm\<rparr>) = master_view d"
  "master_view (write_audit ctx ac m us un t io no d) = master_view d"
  "master_view (insert_ar ar d) = master_view d"
  by (simp_all add: master_view_def identity_view_def insert_ar_def)

lemma master_view_wrappers [simp]:
  "master_view (pr_audit ctx ac u pr d) = master_view d"
  "master_view (po_audit ctx ac u po d) = master_view d"
  "master_view (receipt_audit ctx ac u i no d) = master_view d"
  "master_view (rc_audit ctx ac u i no d) = master_view d"
  "master_view (write_approval_record ctx pr aa fs ts ap ov cm d) = master_view d"
  "master_view (flush_pr i f d) = master_view d" "master_view (flush_po i h d) = master_view d"
  "master_view (flush_rc i kk d) = master_view d"
  "master_view (flip_pr_to_converted i d) = master_view d"
  "master_view (flip_pr_back_to_approved i d) = master_view d"
  "master_view (touch_balance k w d) = master_view d"
  "master_view (recompute_po_status items po d) = master_view d"
  using recompute_po_status_frame[of items po d]
  by (auto simp: pr_audit_def po_audit_def receipt_audit_def rc_audit_def write_approval_record_def
      flush_pr_def flush_po_def flush_rc_def flip_pr_to_converted_def flip_pr_back_to_approved_def
      touch_balance_def)

lemma mview_inserts [mview]:
  "insert_pr a d = Inr d' \<Longrightarrow> master_view d' = master_view d"
  "insert_pri b d = Inr d' \<Longrightarrow> master_view d' = master_view d"
  "insert_po c d = Inr d' \<Longrightarrow> master_view d' = master_view d"
  "insert_poi e d = Inr d' \<Longrightarrow> master_view d' = master_view d"
  "insert_pois g d = Inr d' \<Longrightarrow> master_view d' = master_view d"
  "insert_rcv rcv d = Inr d' \<Longrightarrow> master_view d' = master_view d"
  "insert_ri ri d = Inr d' \<Longrightarrow> master_view d' = master_view d"
  "insert_rc rc d = Inr d' \<Longrightarrow> master_view d' = master_view d"
  "insert_rci rci d = Inr d' \<Longrightarrow> master_view d' = master_view d"
  by (auto simp: insert_pr_def insert_pri_def insert_po_def insert_poi_def insert_pois_def
      insert_rcv_def insert_ri_def insert_rc_def insert_rci_def master_view_def identity_view_def
      split: if_splits)

lemma mview_number [mview]: "next_daily_code key p today dt d = (no, d') \<Longrightarrow> master_view d' = master_view d"
proof (rule master_viewI)
  assume n: "next_daily_code key p today dt d = (no, d')"
  show "auto_inc d' t = auto_inc d t"
    if "t \<in> {T_departments, T_users, T_materials, T_suppliers, T_warehouses, T_inventory_policies}" for t
    by (rule next_daily_code_frame(2)[OF n]) (use that in auto)
qed (auto dest!: next_daily_code_frame(1))

lemma mview_number_snd [simp]: "master_view (snd (next_daily_code key p today dt d)) = master_view d"
  by (rule mview_number) (rule prod.collapse[symmetric])

lemma mview_where [mview]:
  "pr_where i p f d = Some d' \<Longrightarrow> master_view d' = master_view d"
  "po_where i q g d = Some d' \<Longrightarrow> master_view d' = master_view d"
  "rcv_where i pp ff d = Some d' \<Longrightarrow> master_view d' = master_view d"
  "rc_where i qq gg d = Some d' \<Longrightarrow> master_view d' = master_view d"
  "take_converted i a d = Some d' \<Longrightarrow> master_view d' = master_view d"
  "give_converted i a d = Some d' \<Longrightarrow> master_view d' = master_view d"
  "take_received i a d = Some d' \<Longrightarrow> master_view d' = master_view d"
  "give_received i a d = Some d' \<Longrightarrow> master_view d' = master_view d"
  "flush_received i a d = Inr d' \<Longrightarrow> master_view d' = master_view d"
  "take_source src d = Inr d' \<Longrightarrow> master_view d' = master_view d"
  "give_source s2 d = Inr d' \<Longrightarrow> master_view d' = master_view d"
  by (auto simp: pr_where_def po_where_def rcv_where_def rc_where_def take_converted_def give_converted_def
      take_received_def give_received_def flush_received_def take_source_def give_source_def Let_def
      split: if_splits)

lemma mview_stock [mview]:
  "lock_balances ks0 d = (ks, d') \<Longrightarrow> master_view d' = master_view d"
  "write_transaction txn d = Inr d' \<Longrightarrow> master_view d' = master_view d"
  "apply_inbound k q a d = Inr d' \<Longrightarrow> master_view d' = master_view d"
  "apply_outbound k q a d = Inr d' \<Longrightarrow> master_view d' = master_view d"
proof -
  assume l: "lock_balances ks0 d = (ks, d')"
  obtain X Y where "d' = d\<lparr>inventory_balances := X, auto_inc := Y\<rparr>" using lock_balances_effect(7)[OF l] by blast
  then show "master_view d' = master_view d"
    by (intro master_viewI) (use lock_balances_effect(9)[OF l] in auto)
next
  assume w: "write_transaction txn d = Inr d'"
  obtain X Y Z where "d' = d\<lparr>inventory_transactions := X, number_sequences := Y, auto_inc := Z\<rparr>"
    using write_transaction_effect(5)[OF w] by blast
  then show "master_view d' = master_view d"
    by (intro master_viewI) (use write_transaction_auto_inc[OF w] in auto)
next
  assume "apply_inbound k q a d = Inr d'"
  then show "master_view d' = master_view d" using apply_frame(1) by fastforce
next
  assume "apply_outbound k q a d = Inr d'"
  then show "master_view d' = master_view d" using apply_frame(2) by fastforce
qed

lemma mview_lock_snd [simp]: "master_view (snd (lock_balances ks0 d)) = master_view d"
  by (rule mview_stock(1)) (rule prod.collapse[symmetric])

lemma mview_amounts [mview]: "flush_amounts os ns d = Inr d' \<Longrightarrow> master_view d' = master_view d"
  using flush_amounts_frame[of os ns d d'] by auto

lemma mview_stmts:
  "exec_item_stmt st d = Inr d' \<Longrightarrow> master_view d' = master_view d"
  "exec_rci_stmt ct d = Inr d' \<Longrightarrow> master_view d' = master_view d"
  by (cases st, auto simp: Let_def mview split: option.splits if_splits)
    (cases ct, auto simp: Let_def mview split: option.splits if_splits)

lemma mview_source_loops [mview]:
  "rfold take_source xs d = Inr d' \<Longrightarrow> master_view d' = master_view d"
  "rfold (\<lambda>src. insert_pois (new_source poi src)) xs d = Inr d' \<Longrightarrow> master_view d' = master_view d"
  by (erule rfold_same, erule mview_where, erule rfold_same, erule mview_inserts)

lemma mview_po_item: "create_po_item pid li d = Inr d' \<Longrightarrow> master_view d' = master_view d"
  by (auto simp: create_po_item_def Let_def dest!: mview)

lemma mview_loops [mview]:
  "rfold exec_item_stmt sts d = Inr d' \<Longrightarrow> master_view d' = master_view d"
  "rfold (create_po_item pid) lis d = Inr d' \<Longrightarrow> master_view d' = master_view d"
  "rfold give_source srcs d = Inr d' \<Longrightarrow> master_view d' = master_view d"
  "rfold (\<lambda>lr. insert_pri (new_pr_item pid lr)) lrs d = Inr d' \<Longrightarrow> master_view d' = master_view d"
  "rfold insert_rci cs d = Inr d' \<Longrightarrow> master_view d' = master_view d"
  "rfold exec_rci_stmt cts d = Inr d' \<Longrightarrow> master_view d' = master_view d"
  by (erule rfold_same, erule mview_stmts, erule rfold_same, erule mview_po_item,
      erule rfold_same, erule mview_where, erule rfold_same, erule mview_inserts,
      erule rfold_same, erule mview_inserts, erule rfold_same, erule mview_stmts)

lemma mview_flips [simp]:
  "master_view (fold flip_pr_to_converted is d) = master_view d"
  "master_view (fold flip_pr_back_to_approved is d) = master_view d"
  by (rule fold_same, simp)+

lemma mview_lines:
  "receive_line h l run = Inr run' \<Longrightarrow> master_view (rr_db run') = master_view (rr_db run)"
  "reverse_line s h ri run = Inr run' \<Longrightarrow> master_view (rr_db run') = master_view (rr_db run)"
  "post_inbound w k run = Inr run' \<Longrightarrow> master_view (rr_db run') = master_view (rr_db run)"
  "post_outbound w k run = Inr run' \<Longrightarrow> master_view (rr_db run') = master_view (rr_db run)"
  by (auto simp: receive_line_def reverse_line_def post_inbound_def post_outbound_def Let_def split_beta
      dest!: mview)

lemma mview_line_loops [mview]:
  "rfold (receive_line h) ls run = Inr run' \<Longrightarrow> master_view (rr_db run') = master_view (rr_db run)"
  "rfold (reverse_line s h) ris run = Inr run' \<Longrightarrow> master_view (rr_db run') = master_view (rr_db run)"
  "rfold (post_inbound w) ks run = Inr run' \<Longrightarrow> master_view (rr_db run') = master_view (rr_db run)"
  "rfold (post_outbound w) ks run = Inr run' \<Longrightarrow> master_view (rr_db run') = master_view (rr_db run)"
  by (erule rfold_same[where v = "\<lambda>r. master_view (rr_db r)"], erule mview_lines)+

lemma mview_adjust [mview]:
  assumes "rfold (adjust_line s h) items run = Inr run'"
  shows "master_view (snd run') = master_view (snd run)"
  by (rule rfold_same[OF assms, where v = "\<lambda>r. master_view (snd r)"])
    (auto simp: adjust_line_def Let_def split_beta dest!: mview split: if_splits)

section \<open>Handlers\<close>

lemma mview_pr_handlers:
  "create_pr ctx u pc s d = Inr d' \<Longrightarrow> master_view d' = master_view d"
  "update_pr uow ctx u i pu s d = Inr d' \<Longrightarrow> master_view d' = master_view d"
  "submit_pr ctx u i s d = Inr d' \<Longrightarrow> master_view d' = master_view d"
  "cancel_pr ctx u i s d = Inr d' \<Longrightarrow> master_view d' = master_view d"
  "approve_pr ctx u i v c s d = Inr d' \<Longrightarrow> master_view d' = master_view d"
  "reject_pr ctx u i v cm s d = Inr d' \<Longrightarrow> master_view d' = master_view d"
  "revise_pr ctx u i v s d = Inr d' \<Longrightarrow> master_view d' = master_view d"
        apply (auto simp: create_pr_def Let_def split_beta dest!: mview)[1]
       apply (auto simp: update_pr_def Let_def split_beta dest!: mview split: if_splits)[1]
      apply (auto simp: submit_pr_def Let_def split_beta dest!: mview split: if_splits)[1]
     apply (auto simp: cancel_pr_def Let_def dest!: mview split: if_splits)[1]
    apply (auto simp: approve_pr_def Let_def split_beta dest!: mview split: if_splits)[1]
   apply (auto simp: reject_pr_def Let_def dest!: mview)[1]
  apply (auto simp: revise_pr_def Let_def dest!: mview)[1]
  done

lemma mview_po_handlers:
  "create_po ctx u pc s d = Inr d' \<Longrightarrow> master_view d' = master_view d"
  "confirm_po ctx u i v s d = Inr d' \<Longrightarrow> master_view d' = master_view d"
  "cancel_po ctx u i v s d = Inr d' \<Longrightarrow> master_view d' = master_view d"
    apply (auto simp: create_po_def Let_def split_beta dest!: mview split: if_splits)[1]
   apply (auto simp: confirm_po_def Let_def dest!: mview split: if_splits)[1]
  apply (auto simp: cancel_po_def Let_def dest!: mview)[1]
  done

lemma mview_receipts:
  "create_receipt ctx u data s d = Inr d' \<Longrightarrow> master_view d' = master_view d"
  "reverse_receipt ctx u i reason s d = Inr d' \<Longrightarrow> master_view d' = master_view d"
  by (erule create_receipt_cases, auto dest!: mview)
    (erule reverse_receipt_cases, auto dest!: mview split: option.splits)

lemma mview_counts:
  "create_reconciliation ctx u rnc s d = Inr d' \<Longrightarrow> master_view d' = master_view d"
  "update_reconciliation uowc ctx u i rnu s d = Inr d' \<Longrightarrow> master_view d' = master_view d"
  "submit_reconciliation ctx u i v s d = Inr d' \<Longrightarrow> master_view d' = master_view d"
  "reject_reconciliation ctx u i cm s d = Inr d' \<Longrightarrow> master_view d' = master_view d"
  "approve_reconciliation ctx u i rna s d = Inr d' \<Longrightarrow> master_view d' = master_view d"
      apply (auto simp: create_reconciliation_def Let_def split_beta dest!: mview split: if_splits)[1]
     apply (auto simp: update_reconciliation_def Let_def split_beta dest!: mview split: if_splits)[1]
    apply (auto simp: submit_reconciliation_def Let_def dest!: mview split: if_splits)[1]
   apply (auto simp: reject_reconciliation_def Let_def dest!: mview split: if_splits)[1]
  apply (auto simp: approve_reconciliation_def Let_def split_beta dest!: mview split: if_splits)[1]
  done

lemma erp_step_master:
  "erp_step uowp uowc s d d' \<Longrightarrow> master_view d' = master_view d"
  by (erule erp_step.cases; hypsubst)
    (erule mview_pr_handlers mview_po_handlers mview_receipts mview_counts)+

end
