(* ===== verification/Receipt_Accounts.thy ===== *)
theory Receipt_Accounts
  imports Receipt_Steps
begin

text \<open>
  The order lines under receipts and reversals: which rows the two loops write, that
  every order line stays within its bounds, and, when the order lines have not
  changed since the snapshot, that the received quantities are the sums of the
  posted receipts.
\<close>

section \<open>One line\<close>

definition line_qty :: "nat \<times> receipt_item_create \<times> purchase_order_item \<Rightarrow> decimal" where
  "line_qty l = ric_received_quantity (fst (snd l))"

definition line_poi :: "nat \<times> receipt_item_create \<times> purchase_order_item \<Rightarrow> nat" where
  "line_poi l = poi_id (snd (snd l))"

definition set_received :: "decimal \<Rightarrow> purchase_order_item \<Rightarrow> purchase_order_item" where
  "set_received v r = r\<lparr>poi_received_quantity := v\<rparr>"

lemma set_received_simps [simp]:
  "poi_id (set_received v r) = poi_id r" "poi_po_id (set_received v r) = poi_po_id r"
  "poi_received_quantity (set_received v r) = v" "set_received v (set_received w r) = set_received v r"
  "set_received v (receive q r) = set_received v r" "poi_id (receive q r) = poi_id r"
  "poi_po_id (receive q r) = poi_po_id r"
  by (simp_all add: set_received_def receive_def)

text \<open>The row that a line adds to the receipt, and the row that it adds to the ledger.\<close>

definition new_receipt_item ::
    "receipt_header \<Rightarrow> nat \<Rightarrow> nat \<times> receipt_item_create \<times> purchase_order_item \<Rightarrow> purchase_receipt_item" where
  "new_receipt_item h ri l = \<lparr>ri_id = ri, ri_receipt_id = rh_id h, ri_po_item_id = line_poi l,
     ri_line_no = fst l, ri_material_id = poi_material_id (snd (snd l)),
     ri_received_quantity = line_qty l, ri_unit_price = poi_unit_price (snd (snd l)),
     ri_amount = line_amount (line_qty l) (poi_unit_price (snd (snd l))),
     ri_remark = ric_remark (fst (snd l))\<rparr>"

definition books_receipt ::
    "receipt_header \<Rightarrow> purchase_receipt_item \<Rightarrow> inventory_transaction \<Rightarrow> bool" where
  "books_receipt h ri t \<longleftrightarrow> it_transaction_type t = PURCHASE_IN
    \<and> it_source_type t = Some SRC_PURCHASE_RECEIPT \<and> it_source_id t = Some (rh_id h)
    \<and> it_source_item_id t = Some (ri_id ri) \<and> it_quantity t = ri_received_quantity ri
    \<and> it_amount t = ri_amount ri \<and> key_of_txn t = (rh_warehouse_id h, ri_material_id ri)
    \<and> it_reversed_transaction_id t = None"

lemma flush_received_rows:
  assumes "flush_received i v d = Inr d'"
  shows "purchase_order_items d' = update_rows (\<lambda>r. poi_id r = i) (set_received v) (purchase_order_items d)"
    and "\<And>r. r \<in> set (purchase_order_items d') \<Longrightarrow> poi_id r = i \<Longrightarrow> poi_checks r"
  using assms by (auto simp: flush_received_def Let_def list_all_iff set_received_def[abs_def] split: if_splits)

lemma set_received_after_cas:
  "update_rows (\<lambda>r. poi_id r = i) (set_received v) (update_rows (\<lambda>r. poi_id r = i \<and> p r) (receive q) rows) =
    update_rows (\<lambda>r. poi_id r = i) (set_received v) rows"
  by (induction rows) simp_all

lemma checks_after_flush:
  assumes "\<forall>r\<in>set rows. poi_checks r" "rows' = update_rows (\<lambda>r. poi_id r = i) f rows"
    and "\<And>r. poi_id (f r) = poi_id r" "\<And>r. r \<in> set rows' \<Longrightarrow> poi_id r = i \<Longrightarrow> poi_checks r"
  shows "\<forall>r\<in>set rows'. poi_checks r"
proof
  fix r assume r: "r \<in> set rows'"
  then obtain x where x: "x \<in> set rows" "r = (if poi_id x = i then f x else x)"
    using assms(2) by (auto simp: set_update_rows)
  show "poi_checks r"
    using x assms(1,3) assms(4)[OF r] by (cases "poi_id x = i") auto
qed

lemma receive_line_rows:
  assumes "receive_line h line run = Inr run'"
  shows "purchase_order_items (rr_db run') = update_rows (\<lambda>r. poi_id r = line_poi line)
      (set_received (poi_received_quantity (snd (snd line)) + line_qty line)) (purchase_order_items (rr_db run))"
    and "\<forall>r\<in>set (purchase_order_items (rr_db run)). poi_checks r \<Longrightarrow>
      \<forall>r\<in>set (purchase_order_items (rr_db run')). poi_checks r"
    and "\<exists>r\<in>set (purchase_order_items (rr_db run)). poi_id r = line_poi line
      \<and> poi_received_quantity r + line_qty line \<le> poi_ordered_quantity r"
    and "purchase_receipt_items (rr_db run') = purchase_receipt_items (rr_db run) @
      [new_receipt_item h (auto_inc (rr_db run) T_purchase_receipt_items) line]"
    and "auto_inc (rr_db run') T_purchase_receipt_items = Suc (auto_inc (rr_db run) T_purchase_receipt_items)"
    and "auto_inc (rr_db run') T_purchase_receipts = auto_inc (rr_db run) T_purchase_receipts"
    and "\<exists>t. inventory_transactions (rr_db run') = inventory_transactions (rr_db run) @ [t]
      \<and> books_receipt h (new_receipt_item h (auto_inc (rr_db run) T_purchase_receipt_items) line) t"
proof -
  obtain n item poi where line: "line = (n, item, poi)" by (cases line) auto
  obtain d1 d2 d3 d4 txn where
    1: "take_received (poi_id poi) (ric_received_quantity item) (rr_db run) = Some d1"
    and 2: "flush_received (poi_id poi) (poi_received_quantity poi + ric_received_quantity item) d1 = Inr d2"
    and 3: "insert_ri \<lparr>ri_id = auto_inc d2 T_purchase_receipt_items, ri_receipt_id = rh_id h,
       ri_po_item_id = poi_id poi, ri_line_no = n, ri_material_id = poi_material_id poi,
       ri_received_quantity = ric_received_quantity item, ri_unit_price = poi_unit_price poi,
       ri_amount = line_amount (ric_received_quantity item) (poi_unit_price poi),
       ri_remark = ric_remark item\<rparr> d2 = Inr d3"
    and 4: "write_transaction txn d3 = Inr d4"
    and t: "it_quantity txn = ric_received_quantity item"
    "it_amount txn = line_amount (ric_received_quantity item) (poi_unit_price poi)"
    "key_of_txn txn = (rh_warehouse_id h, poi_material_id poi)"
    "it_transaction_type txn = PURCHASE_IN" "it_source_type txn = Some SRC_PURCHASE_RECEIPT"
    "it_source_id txn = Some (rh_id h)"
    "it_source_item_id txn = Some (auto_inc d2 T_purchase_receipt_items)"
    "it_reversed_transaction_id txn = None"
    and run': "run' = \<lparr>rr_db = d4,
       rr_running = (rr_running run)((rh_warehouse_id h, poi_material_id poi) :=
         rr_running run (rh_warehouse_id h, poi_material_id poi) + ric_received_quantity item),
       rr_agg = add_delta (rh_warehouse_id h, poi_material_id poi) (ric_received_quantity item)
         (line_amount (ric_received_quantity item) (poi_unit_price poi)) (rr_agg run)\<rparr>"
    by (rule receive_line_cases[OF assms[unfolded line]])
  from 1 have d1: "d1 = (rr_db run)\<lparr>purchase_order_items := update_rows (\<lambda>r. poi_id r = poi_id poi \<and>
      poi_received_quantity r + ric_received_quantity item \<le> poi_ordered_quantity r)
      (receive (ric_received_quantity item)) (purchase_order_items (rr_db run))\<rparr>"
    and guard: "\<exists>r\<in>set (purchase_order_items (rr_db run)). poi_id r = poi_id poi \<and>
      poi_received_quantity r + ric_received_quantity item \<le> poi_ordered_quantity r"
    by (auto simp: take_received_def cas_rows_Some_iff)
  obtain X where X: "d2 = d1\<lparr>purchase_order_items := X\<rparr>" using flush_received_frame[OF 2] by blast
  note f = flush_received_rows[OF 2]
  note d3 = insert_ri_Inr(1)[OF 3]
  obtain no Y Z where d4: "d4 = d3\<lparr>inventory_transactions := inventory_transactions d3 @
        [txn\<lparr>it_txn_no := no, it_id := auto_inc d3 T_inventory_transactions\<rparr>],
      number_sequences := Y, auto_inc := Z\<rparr>"
    by (rule write_transaction_cases[OF 4])
  note inc = write_transaction_auto_inc[OF 4]
  have i2: "auto_inc d2 = auto_inc (rr_db run)" by (simp add: X d1)
  have db: "rr_db run' = d4" by (simp add: run')
  have items: "purchase_order_items d4 = purchase_order_items d2" by (simp add: d4 d3)
  have rows: "purchase_order_items d2 = update_rows (\<lambda>r. poi_id r = poi_id poi)
      (set_received (poi_received_quantity poi + ric_received_quantity item)) (purchase_order_items (rr_db run))"
    unfolding f(1) by (simp add: d1 set_received_after_cas)
  then show rows': "purchase_order_items (rr_db run') = update_rows (\<lambda>r. poi_id r = line_poi line)
      (set_received (poi_received_quantity (snd (snd line)) + line_qty line)) (purchase_order_items (rr_db run))"
    by (simp add: db items line line_poi_def line_qty_def)
  show "\<forall>r\<in>set (purchase_order_items (rr_db run)). poi_checks r \<Longrightarrow>
      \<forall>r\<in>set (purchase_order_items (rr_db run')). poi_checks r"
    unfolding db items using checks_after_flush[OF _ rows] f(2) by simp
  show "\<exists>r\<in>set (purchase_order_items (rr_db run)). poi_id r = line_poi line
      \<and> poi_received_quantity r + line_qty line \<le> poi_ordered_quantity r"
    using guard by (simp add: line line_poi_def line_qty_def)
  show "purchase_receipt_items (rr_db run') = purchase_receipt_items (rr_db run) @
      [new_receipt_item h (auto_inc (rr_db run) T_purchase_receipt_items) line]"
    by (simp add: db d4 d3 X d1 line new_receipt_item_def line_poi_def line_qty_def)
  show "auto_inc (rr_db run') T_purchase_receipt_items = Suc (auto_inc (rr_db run) T_purchase_receipt_items)"
    "auto_inc (rr_db run') T_purchase_receipts = auto_inc (rr_db run) T_purchase_receipts"
    by (simp_all add: db inc d3 i2)
  show "\<exists>t. inventory_transactions (rr_db run') = inventory_transactions (rr_db run) @ [t]
      \<and> books_receipt h (new_receipt_item h (auto_inc (rr_db run) T_purchase_receipt_items) line) t"
    using t by (simp add: db d4 d3 X d1 line books_receipt_def new_receipt_item_def line_poi_def line_qty_def key_of_txn_def)
qed

lemma reverse_line_rows:
  assumes "reverse_line s h ri run = Inr run'"
  shows "\<exists>poi. get_poi s (ri_po_item_id ri) = Some poi \<and>
      purchase_order_items (rr_db run') = update_rows (\<lambda>r. poi_id r = ri_po_item_id ri)
        (set_received (poi_received_quantity poi - ri_received_quantity ri)) (purchase_order_items (rr_db run))"
    and "\<forall>r\<in>set (purchase_order_items (rr_db run)). poi_checks r \<Longrightarrow>
      \<forall>r\<in>set (purchase_order_items (rr_db run')). poi_checks r"
    and "\<exists>t o'. inventory_transactions (rr_db run') = inventory_transactions (rr_db run) @ [t]
      \<and> original_txn s (rh_id h) (ri_id ri) = Some o' \<and> \<not> already_reversed s (it_id o')
      \<and> it_transaction_type t = PURCHASE_IN_REVERSAL \<and> it_reversed_transaction_id t = Some (it_id o')
      \<and> it_quantity t = - ri_received_quantity ri \<and> it_amount t = - it_amount o'
      \<and> it_unit_cost t = it_unit_cost o'"
    and "auto_inc (rr_db run') T_purchase_receipts = auto_inc (rr_db run) T_purchase_receipts"
proof -
  obtain poi d1 d2 d3 original txn where
    poi: "get_poi s (ri_po_item_id ri) = Some poi"
    and 1: "give_received (poi_id poi) (ri_received_quantity ri) (rr_db run) = Some d1"
    and orig: "original_txn s (rh_id h) (ri_id ri) = Some original"
    "\<not> already_reversed s (it_id original)"
    and 2: "flush_received (poi_id poi) (poi_received_quantity poi - ri_received_quantity ri) d1 = Inr d2"
    and 3: "write_transaction txn d2 = Inr d3"
    and t: "it_quantity txn = - ri_received_quantity ri" "it_amount txn = - it_amount original"
    "it_unit_cost txn = it_unit_cost original"
    and "key_of_txn txn = (rh_warehouse_id h, ri_material_id ri)"
    and t': "it_transaction_type txn = PURCHASE_IN_REVERSAL"
    "it_reversed_transaction_id txn = Some (it_id original)"
    and run': "run' = \<lparr>rr_db = d3,
       rr_running = (rr_running run)((rh_warehouse_id h, ri_material_id ri) :=
         rr_running run (rh_warehouse_id h, ri_material_id ri) - ri_received_quantity ri),
       rr_agg = add_delta (rh_warehouse_id h, ri_material_id ri) (ri_received_quantity ri)
         (it_amount original) (rr_agg run)\<rparr>"
    by (rule reverse_line_cases[OF assms])
  have pid: "poi_id poi = ri_po_item_id ri" using get_poi_id[OF poi] .
  from 1 have d1: "d1 = (rr_db run)\<lparr>purchase_order_items := update_rows (\<lambda>r. poi_id r = poi_id poi \<and>
      ri_received_quantity ri \<le> poi_received_quantity r)
      (receive (- ri_received_quantity ri)) (purchase_order_items (rr_db run))\<rparr>"
    by (auto simp: give_received_def cas_rows_Some_iff)
  obtain X where X: "d2 = d1\<lparr>purchase_order_items := X\<rparr>" using flush_received_frame[OF 2] by blast
  note f = flush_received_rows[OF 2]
  obtain no Y Z where d3: "d3 = d2\<lparr>inventory_transactions := inventory_transactions d2 @
        [txn\<lparr>it_txn_no := no, it_id := auto_inc d2 T_inventory_transactions\<rparr>],
      number_sequences := Y, auto_inc := Z\<rparr>"
    by (rule write_transaction_cases[OF 3])
  have db: "rr_db run' = d3" by (simp add: run')
  have items: "purchase_order_items d3 = purchase_order_items d2" by (simp add: d3)
  have rows: "purchase_order_items d2 = update_rows (\<lambda>r. poi_id r = poi_id poi)
      (set_received (poi_received_quantity poi - ri_received_quantity ri)) (purchase_order_items (rr_db run))"
    unfolding f(1) by (simp add: d1 set_received_after_cas)
  then show "\<exists>poi. get_poi s (ri_po_item_id ri) = Some poi \<and>
      purchase_order_items (rr_db run') = update_rows (\<lambda>r. poi_id r = ri_po_item_id ri)
        (set_received (poi_received_quantity poi - ri_received_quantity ri)) (purchase_order_items (rr_db run))"
    using poi by (intro exI[of _ poi]) (simp add: db items pid)
  show "\<forall>r\<in>set (purchase_order_items (rr_db run)). poi_checks r \<Longrightarrow>
      \<forall>r\<in>set (purchase_order_items (rr_db run')). poi_checks r"
    unfolding db items using checks_after_flush[OF _ rows] f(2) by simp
  show "\<exists>t o'. inventory_transactions (rr_db run') = inventory_transactions (rr_db run) @ [t]
      \<and> original_txn s (rh_id h) (ri_id ri) = Some o' \<and> \<not> already_reversed s (it_id o')
      \<and> it_transaction_type t = PURCHASE_IN_REVERSAL \<and> it_reversed_transaction_id t = Some (it_id o')
      \<and> it_quantity t = - ri_received_quantity ri \<and> it_amount t = - it_amount o'
      \<and> it_unit_cost t = it_unit_cost o'"
    using orig t t' by (simp add: db d3 X d1)
  show "auto_inc (rr_db run') T_purchase_receipts = auto_inc (rr_db run) T_purchase_receipts"
    using write_transaction_auto_inc[OF 3, of T_purchase_receipts] by (simp add: db X d1)
qed

section \<open>All lines\<close>

text \<open>The received quantities of some order lines written over by absolute values.\<close>

definition overwrite :: "(nat \<times> decimal) list \<Rightarrow> purchase_order_item list \<Rightarrow> purchase_order_item list" where
  "overwrite ws rows = map (\<lambda>r. case map_of ws (poi_id r) of None \<Rightarrow> r | Some v \<Rightarrow> set_received v r) rows"

lemma overwrite_Nil [simp]: "overwrite [] rows = rows"
  by (simp add: overwrite_def)

lemma overwrite_Cons:
  assumes "i \<notin> fst ` set ws"
  shows "overwrite ws (update_rows (\<lambda>r. poi_id r = i) (set_received v) rows) = overwrite ((i, v) # ws) rows"
proof -
  have "map_of ws i = None" using assms by (simp add: map_of_eq_None_iff)
  then show ?thesis by (auto simp: overwrite_def update_rows_def split: option.splits)
qed

definition received_writes ::
    "(nat \<times> receipt_item_create \<times> purchase_order_item) list \<Rightarrow> (nat \<times> decimal) list" where
  "received_writes lines = map (\<lambda>l. (line_poi l, poi_received_quantity (snd (snd l)) + line_qty l)) lines"

lemma receive_lines_rows:
  assumes "rfold (receive_line h) lines run = Inr run'" "distinct (map line_poi lines)"
  shows "purchase_order_items (rr_db run') = overwrite (received_writes lines) (purchase_order_items (rr_db run))"
  using assms
proof (induction lines arbitrary: run)
  case (Cons l lines)
  then obtain r1 where r1: "receive_line h l run = Inr r1" "rfold (receive_line h) lines r1 = Inr run'" by auto
  have "line_poi l \<notin> fst ` set (received_writes lines)"
    using Cons.prems(2) by (auto simp: received_writes_def)
  from Cons.IH[OF r1(2)] Cons.prems(2) overwrite_Cons[OF this] show ?case
    by (simp add: receive_line_rows(1)[OF r1(1)] received_writes_def)
qed (simp add: received_writes_def)

lemma receive_lines_checks:
  assumes "rfold (receive_line h) lines run = Inr run'" "\<forall>r\<in>set (purchase_order_items (rr_db run)). poi_checks r"
  shows "\<forall>r\<in>set (purchase_order_items (rr_db run')). poi_checks r"
  using rfold_invariant[OF assms(1), of "\<lambda>x. \<forall>r\<in>set (purchase_order_items (rr_db x)). poi_checks r"]
    assms(2) receive_line_rows(2) by blast

lemma receive_lines_booked:
  assumes "rfold (receive_line h) lines run = Inr run'"
  shows "\<exists>ris ts. purchase_receipt_items (rr_db run') = purchase_receipt_items (rr_db run) @ ris
    \<and> inventory_transactions (rr_db run') = inventory_transactions (rr_db run) @ ts
    \<and> ris = map (\<lambda>(n, l). new_receipt_item h n l)
        (enumerate (auto_inc (rr_db run) T_purchase_receipt_items) lines)
    \<and> list_all2 (books_receipt h) ris ts
    \<and> auto_inc (rr_db run') T_purchase_receipts = auto_inc (rr_db run) T_purchase_receipts
    \<and> auto_inc (rr_db run') T_purchase_receipt_items =
        auto_inc (rr_db run) T_purchase_receipt_items + length lines"
  using assms
proof (induction lines arbitrary: run)
  case Nil
  then show ?case by simp
next
  case (Cons l lines)
  then obtain r1 where r1: "receive_line h l run = Inr r1" "rfold (receive_line h) lines r1 = Inr run'" by auto
  note e = receive_line_rows(4-6)[OF r1(1)]
  obtain t where t: "inventory_transactions (rr_db r1) = inventory_transactions (rr_db run) @ [t]"
    "books_receipt h (new_receipt_item h (auto_inc (rr_db run) T_purchase_receipt_items) l) t"
    using receive_line_rows(7)[OF r1(1)] by blast
  obtain ris ts where IH: "purchase_receipt_items (rr_db run') = purchase_receipt_items (rr_db r1) @ ris"
    "inventory_transactions (rr_db run') = inventory_transactions (rr_db r1) @ ts"
    "ris = map (\<lambda>(n, l). new_receipt_item h n l) (enumerate (auto_inc (rr_db r1) T_purchase_receipt_items) lines)"
    "list_all2 (books_receipt h) ris ts"
    "auto_inc (rr_db run') T_purchase_receipts = auto_inc (rr_db r1) T_purchase_receipts"
    "auto_inc (rr_db run') T_purchase_receipt_items = auto_inc (rr_db r1) T_purchase_receipt_items + length lines"
    using Cons.IH[OF r1(2)] by blast
  show ?case
    by (intro exI[of _ "new_receipt_item h (auto_inc (rr_db run) T_purchase_receipt_items) l # ris"]
        exI[of _ "t # ts"]) (use IH(4) in \<open>simp add: IH(1-3,5,6) e t\<close>)
qed

text \<open>The values that the reversal of a receipt writes.\<close>

definition reversal_writes :: "db \<Rightarrow> purchase_receipt_item list \<Rightarrow> (nat \<times> decimal) list" where
  "reversal_writes s ris = map (\<lambda>ri. (ri_po_item_id ri,
     (case get_poi s (ri_po_item_id ri) of None \<Rightarrow> 0 | Some poi \<Rightarrow> poi_received_quantity poi)
       - ri_received_quantity ri)) ris"

lemma reverse_lines_rows:
  assumes "rfold (reverse_line s h) ris run = Inr run'" "distinct (map ri_po_item_id ris)"
  shows "purchase_order_items (rr_db run') = overwrite (reversal_writes s ris) (purchase_order_items (rr_db run))"
  using assms
proof (induction ris arbitrary: run)
  case (Cons l ris)
  then obtain r1 where r1: "reverse_line s h l run = Inr r1" "rfold (reverse_line s h) ris r1 = Inr run'" by auto
  obtain poi where poi: "get_poi s (ri_po_item_id l) = Some poi"
    "purchase_order_items (rr_db r1) = update_rows (\<lambda>r. poi_id r = ri_po_item_id l)
        (set_received (poi_received_quantity poi - ri_received_quantity l)) (purchase_order_items (rr_db run))"
    using reverse_line_rows(1)[OF r1(1)] by blast
  have "ri_po_item_id l \<notin> fst ` set (reversal_writes s ris)"
    using Cons.prems(2) by (auto simp: reversal_writes_def)
  from Cons.IH[OF r1(2)] Cons.prems(2) overwrite_Cons[OF this] show ?case
    by (simp add: poi reversal_writes_def)
qed (simp add: reversal_writes_def)

lemma reverse_lines_checks:
  assumes "rfold (reverse_line s h) ris run = Inr run'" "\<forall>r\<in>set (purchase_order_items (rr_db run)). poi_checks r"
  shows "\<forall>r\<in>set (purchase_order_items (rr_db run')). poi_checks r"
  using rfold_invariant[OF assms(1), of "\<lambda>x. \<forall>r\<in>set (purchase_order_items (rr_db x)). poi_checks r"]
    assms(2) reverse_line_rows(2) by blast

section \<open>The tables after a handler\<close>

lemma recompute_po_status_orders:
  "purchase_orders (recompute_po_status items po d) =
    (if items = [] \<or> derived_po_status items = po_status po then purchase_orders d
     else update_rows (\<lambda>r. po_id r = po_id po) (\<lambda>r. r\<lparr>po_status := derived_po_status items\<rparr>) (purchase_orders d))"
  by (simp add: recompute_po_status_def flush_po_def Let_def)

lemma create_receipt_tables:
  assumes "create_receipt ctx u data s d = Inr d'"
  obtains po pois h lines no ris ts where
    "get_po s (rcc_po_id data) = Some po" "po_status po \<in> set RECEIVABLE_STATUSES"
    "list_all2 (\<lambda>x y. get_poi s (ric_po_item_id x) = Some y \<and> poi_po_id y = po_id po) (rcc_items data) pois"
    "distinct (map ric_po_item_id (rcc_items data))"
    "list_all (\<lambda>i. 0 < ric_received_quantity i) (rcc_items data)"
    "rh_id h = auto_inc d T_purchase_receipts" "rh_warehouse_id h = rcc_warehouse_id data"
    "rh_user_id h = cu_id u"
    "lines = receipt_lines (rcc_items data) pois" "distinct (map line_poi lines)"
    "purchase_order_items d' = overwrite (received_writes lines) (purchase_order_items d)"
    "purchase_receipts d' = purchase_receipts d @ [\<lparr>rcv_id = rh_id h, rcv_receipt_no = no,
       rcv_po_id = po_id po, rcv_warehouse_id = rh_warehouse_id h, rcv_received_by = cu_id u,
       rcv_received_at = rh_at h, rcv_status = RCV_POSTED, rcv_reversed_by = None, rcv_reversed_at = None,
       rcv_reverse_reason = None, rcv_remark = rcc_remark data\<rparr>]"
    "purchase_receipt_items d' = purchase_receipt_items d @ ris"
    "inventory_transactions d' = inventory_transactions d @ ts"
    "ris = map (\<lambda>(n, l). new_receipt_item h n l) (enumerate (auto_inc d T_purchase_receipt_items) lines)"
    "list_all2 (books_receipt h) ris ts"
    "purchase_orders d' = purchase_orders (recompute_po_status
       (received_items s (po_id po) (rcc_items data)) po d)"
    "auto_inc d' T_purchase_receipts = Suc (rh_id h)"
    "(\<forall>r\<in>set (purchase_order_items d). poi_checks r) \<longrightarrow> (\<forall>r\<in>set (purchase_order_items d'). poi_checks r)"
proof -
  obtain po wh pois ks d1 no d2 d3 h rcv run1 run2 where
    po: "receivable_po s (rcc_po_id data) = Inr po"
    and wh: "active_warehouse s (rcc_warehouse_id data) = Inr wh"
    and chk: "check_receipt_lines [] (rcc_items data) = Inr ()"
    and pois: "rtraverse (receipt_po_item s po) (rcc_items data) = Inr pois"
    and lock: "lock_balances (map (\<lambda>poi. (wh_id wh, poi_material_id poi)) pois) d = (ks, d1)"
    and no: "next_daily_code SEQ_PURCHASE_RECEIPT ''RCV'' (rq_today ctx) (Some (receipt_day ctx data)) d1 = (no, d2)"
    and h: "h = \<lparr>rh_id = auto_inc d2 T_purchase_receipts, rh_warehouse_id = wh_id wh,
       rh_at = DateTime (receipt_day ctx data) (dt_millis (rq_now ctx)), rh_user_id = cu_id u\<rparr>"
    and rcv: "rcv = \<lparr>rcv_id = rh_id h, rcv_receipt_no = no, rcv_po_id = po_id po,
          rcv_warehouse_id = wh_id wh, rcv_received_by = cu_id u, rcv_received_at = rh_at h,
          rcv_status = RCV_POSTED, rcv_reversed_by = None, rcv_reversed_at = None,
          rcv_reverse_reason = None, rcv_remark = rcc_remark data\<rparr>"
    and ins: "insert_rcv rcv d2 = Inr d3"
    and lines: "rfold (receive_line h) (receipt_lines (rcc_items data) pois) (start_posting d1 d3) = Inr run1"
    and posts: "rfold (post_inbound (rh_at h)) ks run1 = Inr run2"
    and d': "d' = receipt_audit ctx RECEIPT_POST u (rh_id h) no
        (recompute_po_status (received_items s (po_id po) (rcc_items data)) po (rr_db run2))"
    by (rule create_receipt_cases[OF assms])
  note l = lock_balances_effect[OF lock]
  obtain X Y where X: "d1 = d\<lparr>inventory_balances := X, auto_inc := Y\<rparr>" using l(7) by blast
  obtain A B where A: "d2 = d1\<lparr>number_sequences := A, auto_inc := B\<rparr>" using next_daily_code_frame(1)[OF no] by blast
  note inc = next_daily_code_frame(2)[OF no] l(9)
  note d3 = insert_rcv_Inr(1)[OF ins]
  obtain Q where Q: "rr_db run2 = (rr_db run1)\<lparr>inventory_balances := Q\<rparr>" using posts_frame(1)[OF posts] by blast
  obtain ris ts where bk: "purchase_receipt_items (rr_db run1) = purchase_receipt_items d3 @ ris"
    "inventory_transactions (rr_db run1) = inventory_transactions d3 @ ts"
    "ris = map (\<lambda>(n, l). new_receipt_item h n l)
      (enumerate (auto_inc d3 T_purchase_receipt_items) (receipt_lines (rcc_items data) pois))"
    "list_all2 (books_receipt h) ris ts"
    "auto_inc (rr_db run1) T_purchase_receipts = auto_inc d3 T_purchase_receipts"
    using receive_lines_booked[OF lines] unfolding start_posting_simps by blast
  obtain P1 P2 P3 P4 P5 where P: "rr_db run1 = d3\<lparr>purchase_order_items := P1, purchase_receipt_items := P2,
      inventory_transactions := P3, number_sequences := P4, auto_inc := P5\<rparr>"
    using conjunct1[OF receive_lines_effect[OF lines]] unfolding start_posting_simps by blast
  let ?its = "received_items s (po_id po) (rcc_items data)"
  obtain R where R: "recompute_po_status ?its po (rr_db run2) = (rr_db run2)\<lparr>purchase_orders := R\<rparr>"
    using recompute_po_status_frame by blast
  have l2: "list_all2 (\<lambda>x y. get_poi s (ric_po_item_id x) = Some y \<and> poi_po_id y = po_id po) (rcc_items data) pois"
    using pois[unfolded rtraverse_Inr_iff] by (rule list_all2_mono) (simp add: receipt_po_item_Inr)
  have c: "distinct (map ric_po_item_id (rcc_items data))"
    "list_all (\<lambda>i. 0 < ric_received_quantity i) (rcc_items data)"
    using chk by (simp_all add: check_receipt_lines_Inr)
  have rw: "rh_warehouse_id h = rcc_warehouse_id data" using wh get_wh_id by (auto simp: h active_warehouse_Inr)
  have ids: "map line_poi (receipt_lines (rcc_items data) pois) =
      map (\<lambda>p. poi_id (snd p)) (sort_key (\<lambda>p. ric_po_item_id (fst p)) (zip (rcc_items data) pois))"
    by (simp add: receipt_lines_def line_poi_def[abs_def] comp_def flip: map_map[of "\<lambda>p. poi_id (snd p)" snd, unfolded comp_def])
  have "map (\<lambda>p. poi_id (snd p)) (zip (rcc_items data) pois) = map ric_po_item_id (rcc_items data)"
    using l2 by (induction rule: list_all2_induct) (auto dest: get_poi_id)
  then have "distinct (map (\<lambda>p. poi_id (snd p)) (zip (rcc_items data) pois))" using c(1) by simp
  then have dist: "distinct (map line_poi (receipt_lines (rcc_items data) pois))"
    unfolding ids by (simp add: distinct_map)
  have td: "purchase_order_items d' = purchase_order_items (rr_db run2)"
    "purchase_receipts d' = purchase_receipts (rr_db run2)"
    "purchase_receipt_items d' = purchase_receipt_items (rr_db run2)"
    "inventory_transactions d' = inventory_transactions (rr_db run2)"
    "auto_inc d' T_purchase_receipts = auto_inc (rr_db run2) T_purchase_receipts"
    by (simp_all add: d' receipt_audit_def R)
  show thesis
  proof (rule that[OF _ _ l2 c _ rw _ refl dist])
    show "get_po s (rcc_po_id data) = Some po" "po_status po \<in> set RECEIVABLE_STATUSES"
      using po by (simp_all add: receivable_po_Inr)
    show "rh_id h = auto_inc d T_purchase_receipts" "rh_user_id h = cu_id u" by (simp_all add: h inc)
    show "purchase_order_items d' =
        overwrite (received_writes (receipt_lines (rcc_items data) pois)) (purchase_order_items d)"
      using receive_lines_rows[OF lines dist] by (simp add: td Q d3 A X)
    show "purchase_receipts d' = purchase_receipts d @ [\<lparr>rcv_id = rh_id h, rcv_receipt_no = no,
       rcv_po_id = po_id po, rcv_warehouse_id = rh_warehouse_id h, rcv_received_by = cu_id u,
       rcv_received_at = rh_at h, rcv_status = RCV_POSTED, rcv_reversed_by = None, rcv_reversed_at = None,
       rcv_reverse_reason = None, rcv_remark = rcc_remark data\<rparr>]"
      by (simp add: td Q P d3 A X rcv h)
    show "purchase_receipt_items d' = purchase_receipt_items d @ ris"
      "inventory_transactions d' = inventory_transactions d @ ts"
      by (simp_all add: td Q bk d3 A X)
    show "ris = map (\<lambda>(n, l). new_receipt_item h n l)
        (enumerate (auto_inc d T_purchase_receipt_items) (receipt_lines (rcc_items data) pois))"
      by (simp add: bk(3) d3 inc)
    show "list_all2 (books_receipt h) ris ts" by (rule bk(4))
    show "purchase_orders d' = purchase_orders (recompute_po_status ?its po d)"
      unfolding recompute_po_status_orders by (simp add: d' receipt_audit_def recompute_po_status_orders Q P d3 A X)
    show "auto_inc d' T_purchase_receipts = Suc (rh_id h)"
      by (simp add: td Q bk(5) d3 h)
    show "(\<forall>r\<in>set (purchase_order_items d). poi_checks r) \<longrightarrow> (\<forall>r\<in>set (purchase_order_items d'). poi_checks r)"
      using receive_lines_checks[OF lines] by (simp add: td Q d3 A X)
  qed
qed

definition books_reversal ::
    "db \<Rightarrow> nat \<Rightarrow> purchase_receipt_item \<Rightarrow> inventory_transaction \<Rightarrow> bool" where
  "books_reversal s i ri t \<longleftrightarrow> (case original_txn s i (ri_id ri) of None \<Rightarrow> False
     | Some x \<Rightarrow> \<not> already_reversed s (it_id x) \<and> it_transaction_type t = PURCHASE_IN_REVERSAL
        \<and> it_reversed_transaction_id t = Some (it_id x) \<and> it_quantity t = - ri_received_quantity ri
        \<and> it_amount t = - it_amount x \<and> it_unit_cost t = it_unit_cost x)"

lemma reverse_lines_booked:
  assumes "rfold (reverse_line s h) ris run = Inr run'"
  shows "\<exists>ts. inventory_transactions (rr_db run') = inventory_transactions (rr_db run) @ ts
    \<and> list_all2 (books_reversal s (rh_id h)) ris ts"
  using assms
proof (induction ris arbitrary: run)
  case Nil
  then show ?case by simp
next
  case (Cons l ris)
  then obtain r1 where r1: "reverse_line s h l run = Inr r1" "rfold (reverse_line s h) ris r1 = Inr run'" by auto
  obtain t where t: "inventory_transactions (rr_db r1) = inventory_transactions (rr_db run) @ [t]"
    "books_reversal s (rh_id h) l t"
    using reverse_line_rows(3)[OF r1(1)] by (auto simp: books_reversal_def)
  obtain ts where ts: "inventory_transactions (rr_db run') = inventory_transactions (rr_db r1) @ ts"
    "list_all2 (books_reversal s (rh_id h)) ris ts"
    using Cons.IH[OF r1(2)] by blast
  show ?case by (rule exI[of _ "t # ts"]) (simp add: t ts)
qed

lemma reverse_lines_auto_inc:
  "rfold (reverse_line s h) ris run = Inr run' \<Longrightarrow>
    auto_inc (rr_db run') T_purchase_receipts = auto_inc (rr_db run) T_purchase_receipts"
  by (erule rfold_rel[where R = "\<lambda>a b. auto_inc (rr_db b) T_purchase_receipts =
      auto_inc (rr_db a) T_purchase_receipts"]) (simp_all add: reverse_line_rows(4))

lemma reverse_receipt_tables:
  assumes "reverse_receipt ctx u i reason s d = Inr d'"
  obtains r0 r ts where
    "get_rcv s i = Some r0" "rcv_status r0 = RCV_POSTED"
    "\<exists>x\<in>set (purchase_receipts d). rcv_id x = i \<and> rcv_status x = RCV_POSTED"
    "purchase_receipts d' = update_rows (\<lambda>x. rcv_id x = i \<and> rcv_status x = RCV_POSTED)
      (mark_reversed (cu_id u) (rq_now ctx) reason) (purchase_receipts d)"
    "get_rcv d' i = Some r"
    "distinct (map ri_po_item_id (receipt_items i s)) \<longrightarrow> purchase_order_items d' =
      overwrite (reversal_writes s (receipt_items i s)) (purchase_order_items d)"
    "(\<forall>r\<in>set (purchase_order_items d). poi_checks r) \<longrightarrow> (\<forall>r\<in>set (purchase_order_items d'). poi_checks r)"
    "purchase_receipt_items d' = purchase_receipt_items d"
    "inventory_transactions d' = inventory_transactions d @ ts"
    "list_all2 (books_reversal s i) (receipt_items i s) ts"
    "purchase_orders d' = (case get_po s (rcv_po_id r) of None \<Rightarrow> purchase_orders d
      | Some po \<Rightarrow> purchase_orders (recompute_po_status
          (reversed_items s (po_id po) (receipt_items i s)) po d))"
    "auto_inc d' T_purchase_receipts = auto_inc d T_purchase_receipts"
proof -
  obtain r0 d1 r ks d2 h run1 run2 d3 where
    r0: "get_rcv s i = Some r0" "rcv_status r0 = RCV_POSTED"
    and claim: "rcv_where i (\<lambda>r. rcv_status r = RCV_POSTED) (mark_reversed (cu_id u) (rq_now ctx) reason) d = Some d1"
    and r: "get_rcv d1 i = Some r"
    and lock: "lock_balances (map (\<lambda>ri. (rcv_warehouse_id r, ri_material_id ri)) (receipt_items i s)) d1 = (ks, d2)"
    and h: "h = \<lparr>rh_id = i, rh_warehouse_id = rcv_warehouse_id r, rh_at = rq_now ctx, rh_user_id = cu_id u\<rparr>"
    and lines: "rfold (reverse_line s h) (receipt_items i s) (start_posting d2 d2) = Inr run1"
    and posts: "rfold (post_outbound (rq_now ctx)) ks run1 = Inr run2"
    and d3: "d3 = (case get_po s (rcv_po_id r) of None \<Rightarrow> rr_db run2
        | Some po \<Rightarrow> recompute_po_status (reversed_items s (po_id po) (receipt_items i s)) po (rr_db run2))"
    and d': "d' = receipt_audit ctx RECEIPT_REVERSE u i (rcv_receipt_no r) d3"
    by (rule reverse_receipt_cases[OF assms])
  have R: "d1 = d\<lparr>purchase_receipts := update_rows (\<lambda>x. rcv_id x = i \<and> rcv_status x = RCV_POSTED)
      (mark_reversed (cu_id u) (rq_now ctx) reason) (purchase_receipts d)\<rparr>"
    and ex: "\<exists>x\<in>set (purchase_receipts d). rcv_id x = i \<and> rcv_status x = RCV_POSTED"
    using claim by (auto simp: rcv_where_def cas_rows_Some_iff)
  obtain X Y where X: "d2 = d1\<lparr>inventory_balances := X, auto_inc := Y\<rparr>"
    using lock_balances_effect(7)[OF lock] by blast
  obtain Q where Q: "rr_db run2 = (rr_db run1)\<lparr>inventory_balances := Q\<rparr>" using posts_frame(2)[OF posts] by blast
  obtain P where P: "d3 = (rr_db run2)\<lparr>purchase_orders := P\<rparr>"
    using reversal_recompute_frame[where s = s and j = "rcv_po_id r" and d = "rr_db run2" and
        f = "\<lambda>po. reversed_items s (po_id po) (receipt_items i s)"] unfolding d3 by blast
  obtain A B C D where A: "rr_db run1 = d2\<lparr>purchase_order_items := A, inventory_transactions := B,
      number_sequences := C, auto_inc := D\<rparr>"
    using conjunct1[OF reverse_lines_effect[OF lines]] unfolding start_posting_simps by blast
  obtain ts where ts: "inventory_transactions (rr_db run1) = inventory_transactions d2 @ ts"
    "list_all2 (books_reversal s i) (receipt_items i s) ts"
    using reverse_lines_booked[OF lines] by (auto simp: h)
  have td: "purchase_order_items d' = purchase_order_items (rr_db run2)"
    "purchase_receipts d' = purchase_receipts (rr_db run2)"
    "purchase_receipt_items d' = purchase_receipt_items (rr_db run2)"
    "inventory_transactions d' = inventory_transactions (rr_db run2)"
    by (simp_all add: d' receipt_audit_def P)
  have orders: "purchase_orders (rr_db run2) = purchase_orders d" by (simp add: Q A X R)
  have po': "purchase_orders d' = purchase_orders d3" by (simp add: d' receipt_audit_def)
  have receipts: "purchase_receipts d' = purchase_receipts d1" by (simp add: td Q A X)
  show thesis
  proof (rule that[OF r0 ex])
    show "purchase_receipts d' = update_rows (\<lambda>x. rcv_id x = i \<and> rcv_status x = RCV_POSTED)
      (mark_reversed (cu_id u) (rq_now ctx) reason) (purchase_receipts d)"
      by (simp add: receipts R)
    show "get_rcv d' i = Some r" using r by (simp add: get_rcv_def receipts)
    show "distinct (map ri_po_item_id (receipt_items i s)) \<longrightarrow> purchase_order_items d' =
      overwrite (reversal_writes s (receipt_items i s)) (purchase_order_items d)"
      using reverse_lines_rows[OF lines] by (simp add: td Q X R)
    show "(\<forall>r\<in>set (purchase_order_items d). poi_checks r) \<longrightarrow> (\<forall>r\<in>set (purchase_order_items d'). poi_checks r)"
      using reverse_lines_checks[OF lines] by (simp add: td Q X R)
    show "purchase_receipt_items d' = purchase_receipt_items d" by (simp add: td Q A X R)
    show "inventory_transactions d' = inventory_transactions d @ ts" by (simp add: td Q ts X R)
    show "list_all2 (books_reversal s i) (receipt_items i s) ts" by (rule ts(2))
    show "purchase_orders d' = (case get_po s (rcv_po_id r) of None \<Rightarrow> purchase_orders d
      | Some po \<Rightarrow> purchase_orders (recompute_po_status
          (reversed_items s (po_id po) (receipt_items i s)) po d))"
      unfolding po' d3 recompute_po_status_orders orders[symmetric]
      by (simp add: recompute_po_status_orders split: option.splits)
    show "auto_inc d' T_purchase_receipts = auto_inc d T_purchase_receipts"
      using reverse_lines_auto_inc[OF lines] lock_balances_effect(9)[OF lock]
      by (simp add: d' receipt_audit_def P Q R)
  qed
qed

section \<open>Received quantities are the sums of the posted receipts\<close>

definition posted :: "db \<Rightarrow> nat \<Rightarrow> bool" where
  "posted d i = list_ex (\<lambda>r. rcv_id r = i \<and> rcv_status r = RCV_POSTED) (purchase_receipts d)"

definition received_total :: "db \<Rightarrow> nat \<Rightarrow> decimal" where
  "received_total d j = sum_over (\<lambda>ri. ri_po_item_id ri = j \<and> posted d (ri_receipt_id ri))
    ri_received_quantity (purchase_receipt_items d)"

definition received_accounts :: "db \<Rightarrow> bool" where
  "received_accounts d \<longleftrightarrow>
    list_all (\<lambda>r. poi_received_quantity r = received_total d (poi_id r)) (purchase_order_items d)"

text \<open>The keys of the tables that receipts write, the unique index \<^verbatim>\<open>uk_ri_poi\<close> among them.\<close>

definition receipt_ids_ok :: "db \<Rightarrow> bool" where
  "receipt_ids_ok d \<longleftrightarrow> distinct (map poi_id (purchase_order_items d))
    \<and> keyed rcv_id (auto_inc d T_purchase_receipts) (purchase_receipts d)
    \<and> list_all (\<lambda>ri. ri_receipt_id ri < auto_inc d T_purchase_receipts) (purchase_receipt_items d)
    \<and> distinct (map (\<lambda>ri. (ri_receipt_id ri, ri_po_item_id ri)) (purchase_receipt_items d))"

definition receive_item :: "receipt_item_create list \<Rightarrow> purchase_order_item \<Rightarrow> purchase_order_item" where
  "receive_item items r = (case find (\<lambda>item. ric_po_item_id item = poi_id r) items of
      None \<Rightarrow> r | Some item \<Rightarrow> receive (ric_received_quantity item) r)"

lemma received_items_eq:
  "received_items s i items = map (receive_item items) (filter (\<lambda>r. poi_po_id r = i) (purchase_order_items s))"
  by (simp add: received_items_def receive_item_def[abs_def])

lemma receive_item_simps [simp]:
  "poi_id (receive_item items r) = poi_id r" "poi_po_id (receive_item items r) = poi_po_id r"
  by (simp_all add: receive_item_def split: option.splits)

lemma find_sum_over:
  assumes "distinct (map key xs)"
  shows "sum_over (\<lambda>x. key x = j) g xs = (case find (\<lambda>x. key x = j) xs of None \<Rightarrow> 0 | Some x \<Rightarrow> g x)"
  using assms
proof (induction xs)
  case (Cons x xs)
  have "key x \<notin> key ` set xs" using Cons.prems by simp
  then have "sum_over (\<lambda>y. key y = key x) g xs = 0" by (intro sum_over_none) (auto simp: image_iff)
  then show ?case using Cons by auto
qed simp

lemma receive_item_received:
  assumes "distinct (map ric_po_item_id items)"
  shows "poi_received_quantity (receive_item items r) = poi_received_quantity r +
    sum_over (\<lambda>item. ric_po_item_id item = poi_id r) ric_received_quantity items"
  using find_sum_over[OF assms, of "poi_id r" ric_received_quantity]
  by (simp add: receive_item_def receive_def split: option.splits)

lemma received_writes_find:
  assumes "list_all2 (\<lambda>x y. get_poi s (ric_po_item_id x) = Some y \<and> Q x y) items pois"
    and "distinct (map line_poi (receipt_lines items pois))"
  shows "map_of (received_writes (receipt_lines items pois)) j =
    map_option (\<lambda>item. (case get_poi s j of None \<Rightarrow> 0 | Some poi \<Rightarrow> poi_received_quantity poi)
      + ric_received_quantity item) (find (\<lambda>item. ric_po_item_id item = j) items)"
proof -
  let ?f = "\<lambda>p. (poi_id (snd p), poi_received_quantity (snd p) + ric_received_quantity (fst p))"
  have w: "received_writes (receipt_lines items pois) =
      map (\<lambda>l. ?f (snd l)) (receipt_lines items pois)"
    by (simp add: received_writes_def line_poi_def line_qty_def)
  have "set (received_writes (receipt_lines items pois)) = set (map ?f (zip items pois))"
    unfolding w set_map set_receipt_lines[symmetric] by (simp add: image_image)
  moreover have fst1: "map fst (received_writes (receipt_lines items pois)) = map line_poi (receipt_lines items pois)"
    by (simp add: received_writes_def comp_def)
  have ids: "map fst (map ?f (zip items pois)) = map ric_po_item_id items"
    using assms(1) by (induction rule: list_all2_induct) (auto dest: get_poi_id)
  moreover have "distinct (map fst (map ?f (zip items pois)))"
  proof -
    have "mset (map line_poi (receipt_lines items pois)) = mset (map fst (map ?f (zip items pois)))"
      by (simp add: receipt_lines_def line_poi_def[abs_def] comp_def
          flip: map_map[of "\<lambda>p. poi_id (snd p)" snd, unfolded comp_def])
    then show ?thesis using assms(2) mset_eq_imp_distinct_iff by blast
  qed
  ultimately have "map_of (received_writes (receipt_lines items pois)) = map_of (map ?f (zip items pois))"
    using assms(2) fst1 by (intro iffD2[OF map_of_inject_set]) simp_all
  moreover have "map_of (map ?f (zip items pois)) j =
    map_option (\<lambda>item. (case get_poi s j of None \<Rightarrow> 0 | Some poi \<Rightarrow> poi_received_quantity poi)
      + ric_received_quantity item) (find (\<lambda>item. ric_po_item_id item = j) items)"
    using assms(1) by (induction rule: list_all2_induct) (auto dest: get_poi_id)
  ultimately show ?thesis by simp
qed

lemma overwrite_received:
  assumes "list_all2 (\<lambda>x y. get_poi s (ric_po_item_id x) = Some y \<and> Q x y) items pois"
    and "distinct (map line_poi (receipt_lines items pois))"
    and "distinct (map poi_id (purchase_order_items s))"
  shows "overwrite (received_writes (receipt_lines items pois)) (purchase_order_items s) =
    map (receive_item items) (purchase_order_items s)"
  unfolding overwrite_def
proof (rule map_cong[OF refl])
  fix r assume "r \<in> set (purchase_order_items s)"
  then have "get_poi s (poi_id r) = Some r" using assms(3) by (simp add: get_poi_def row_by_distinct)
  then show "(case map_of (received_writes (receipt_lines items pois)) (poi_id r) of
      None \<Rightarrow> r | Some v \<Rightarrow> set_received v r) = receive_item items r"
    unfolding received_writes_find[OF assms(1,2)]
    by (simp add: receive_item_def set_received_def receive_def split: option.splits)
qed

lemma new_items_total:
  assumes "list_all2 (\<lambda>x y. poi_id y = ric_po_item_id x) items pois"
  shows "sum_over (\<lambda>ri. ri_po_item_id ri = j) ri_received_quantity
      (map (\<lambda>(n, l). new_receipt_item h n l) (enumerate n0 (receipt_lines items pois))) =
    sum_over (\<lambda>item. ric_po_item_id item = j) ric_received_quantity items"
proof -
  let ?xs = "sort_key (\<lambda>p. ric_po_item_id (fst p)) (zip items pois)"
  have m: "sum_over p g (map f xs) = sum_over (\<lambda>x. p (f x)) (\<lambda>x. g (f x)) xs"
    for p and g :: "'b \<Rightarrow> decimal" and f :: "'a \<Rightarrow> 'b" and xs
    by (induction xs) simp_all
  have "sum_over (\<lambda>ri. ri_po_item_id ri = j) ri_received_quantity
      (map (\<lambda>(n, l). new_receipt_item h n l) (enumerate n0 (receipt_lines items pois))) =
    sum_over (\<lambda>x. line_poi (snd x) = j) (\<lambda>x. line_qty (snd x)) (enumerate n0 (receipt_lines items pois))"
    unfolding m by (simp add: new_receipt_item_def split_beta)
  also have "\<dots> = sum_over (\<lambda>l. line_poi l = j) line_qty (receipt_lines items pois)"
    by (rule sum_over_enumerate)
  also have "\<dots> = sum_over (\<lambda>p. poi_id (snd p) = j) (\<lambda>p. ric_received_quantity (fst p)) ?xs"
    using sum_over_enumerate[of "\<lambda>p. poi_id (snd p) = j" "\<lambda>p. ric_received_quantity (fst p)" 1 ?xs]
    by (simp add: receipt_lines_def line_poi_def line_qty_def[abs_def])
  also have "\<dots> = sum_over (\<lambda>item. ric_po_item_id item = j) ric_received_quantity items"
    unfolding sum_over_sort_key by (rule sum_over_zip[OF assms]) simp_all
  finally show ?thesis .
qed

section \<open>Receiving against unchanged order lines\<close>

definition order_lines :: "db \<Rightarrow> nat \<Rightarrow> purchase_order_item list" where
  "order_lines d i = filter (\<lambda>r. poi_po_id r = i) (purchase_order_items d)"

lemma keyed_posted: "posted d j \<Longrightarrow> receipt_ids_ok d \<Longrightarrow> j < auto_inc d T_purchase_receipts"
  by (auto simp: posted_def receipt_ids_ok_def keyed_def list_ex_iff)

lemma sum_over_conj_all:
  "(\<And>r. r \<in> set rows \<Longrightarrow> q r) \<Longrightarrow> sum_over (\<lambda>r. p r \<and> q r) g rows = sum_over p g rows"
  by (rule sum_over_cong) auto

lemma list_all2_poi_ids:
  "list_all2 (\<lambda>x y. get_poi s (ric_po_item_id x) = Some y \<and> Q y) items pois \<Longrightarrow>
    list_all2 (\<lambda>x y. poi_id y = ric_po_item_id x) items pois"
  by (erule list_all2_mono) (blast dest: get_poi_id)

lemma overwrite_ids [simp]: "map poi_id (overwrite ws rows) = map poi_id rows"
  by (simp add: overwrite_def comp_def option.case_distrib[of poi_id])
    (auto intro!: map_cong simp: fun_eq_iff split: option.splits)

lemma create_receipt_total:
  assumes "create_receipt ctx u data s d = Inr d'" "receipt_ids_ok d"
  shows "receipt_ids_ok d'"
    and "received_total d' j = received_total d j +
      sum_over (\<lambda>item. ric_po_item_id item = j) ric_received_quantity (rcc_items data)"
proof -
  obtain po pois h lines no ris ts where
    "get_po s (rcc_po_id data) = Some po" "po_status po \<in> set RECEIVABLE_STATUSES"
    and l2: "list_all2 (\<lambda>x y. get_poi s (ric_po_item_id x) = Some y \<and> poi_po_id y = po_id po) (rcc_items data) pois"
    and dist: "distinct (map ric_po_item_id (rcc_items data))"
    and "list_all (\<lambda>i. 0 < ric_received_quantity i) (rcc_items data)"
    and rid: "rh_id h = auto_inc d T_purchase_receipts"
    and "rh_warehouse_id h = rcc_warehouse_id data" "rh_user_id h = cu_id u"
    and lines: "lines = receipt_lines (rcc_items data) pois" "distinct (map line_poi lines)"
    and poi: "purchase_order_items d' = overwrite (received_writes lines) (purchase_order_items d)"
    and rcv: "purchase_receipts d' = purchase_receipts d @ [\<lparr>rcv_id = rh_id h, rcv_receipt_no = no,
       rcv_po_id = po_id po, rcv_warehouse_id = rh_warehouse_id h, rcv_received_by = cu_id u,
       rcv_received_at = rh_at h, rcv_status = RCV_POSTED, rcv_reversed_by = None, rcv_reversed_at = None,
       rcv_reverse_reason = None, rcv_remark = rcc_remark data\<rparr>]"
    and ri: "purchase_receipt_items d' = purchase_receipt_items d @ ris"
    and "inventory_transactions d' = inventory_transactions d @ ts"
    and ris: "ris = map (\<lambda>(n, l). new_receipt_item h n l) (enumerate (auto_inc d T_purchase_receipt_items) lines)"
    and "list_all2 (books_receipt h) ris ts"
    and "purchase_orders d' = purchase_orders (recompute_po_status
       (received_items s (po_id po) (rcc_items data)) po d)"
    and inc: "auto_inc d' T_purchase_receipts = Suc (rh_id h)"
    and "(\<forall>r\<in>set (purchase_order_items d). poi_checks r) \<longrightarrow> (\<forall>r\<in>set (purchase_order_items d'). poi_checks r)"
    by (rule create_receipt_tables[OF assms(1)])
  have ris_rid: "ri_receipt_id r = rh_id h" if "r \<in> set ris" for r
    using that by (auto simp: ris new_receipt_item_def)
  have old: "ri_receipt_id r < rh_id h" if "r \<in> set (purchase_receipt_items d)" for r
    using that assms(2) by (simp add: receipt_ids_ok_def list_all_iff rid)
  have ris_poi: "map ri_po_item_id ris = map line_poi lines"
  proof -
    have "map ri_po_item_id ris = map line_poi (map snd (enumerate (auto_inc d T_purchase_receipt_items) lines))"
      by (simp add: ris new_receipt_item_def split_beta comp_def del: map_snd_enumerate)
    then show ?thesis unfolding map_snd_enumerate .
  qed
  have "distinct (map (\<lambda>ri. (ri_receipt_id ri, ri_po_item_id ri)) ris)"
  proof -
    have "distinct (map ri_po_item_id ris)" unfolding ris_poi by (rule lines(2))
    then show ?thesis by (simp add: distinct_map inj_on_def)
  qed
  moreover have "(\<lambda>ri. (ri_receipt_id ri, ri_po_item_id ri)) ` set (purchase_receipt_items d) \<inter>
      (\<lambda>ri. (ri_receipt_id ri, ri_po_item_id ri)) ` set ris = {}"
    using old ris_rid by fastforce
  ultimately have "distinct (map (\<lambda>ri. (ri_receipt_id ri, ri_po_item_id ri)) (purchase_receipt_items d'))"
    using assms(2) by (simp add: ri receipt_ids_ok_def)
  moreover have "map poi_id (purchase_order_items d') = map poi_id (purchase_order_items d)"
    by (simp add: poi)
  moreover have "list_all (\<lambda>ri. ri_receipt_id ri < Suc (rh_id h)) (purchase_receipt_items d')"
    using old ris_rid by (auto simp: list_all_iff ri less_SucI)
  moreover have "keyed rcv_id (Suc (rh_id h)) (purchase_receipts d')"
    using keyed_append[of rcv_id "rh_id h" "purchase_receipts d"] assms(2)
    by (simp add: rcv receipt_ids_ok_def rid)
  ultimately show "receipt_ids_ok d'" using assms(2) by (simp add: receipt_ids_ok_def inc)
  have posted: "posted d' k = (posted d k \<or> k = rh_id h)" for k by (auto simp: posted_def rcv)
  have "received_total d' j = sum_over (\<lambda>r. ri_po_item_id r = j \<and> posted d' (ri_receipt_id r)) ri_received_quantity
      (purchase_receipt_items d) + sum_over (\<lambda>r. ri_po_item_id r = j \<and> posted d' (ri_receipt_id r))
      ri_received_quantity ris" for j
    by (simp add: received_total_def ri)
  moreover have "sum_over (\<lambda>r. ri_po_item_id r = j \<and> posted d' (ri_receipt_id r)) ri_received_quantity
      (purchase_receipt_items d) = received_total d j" for j
    unfolding received_total_def using old by (intro sum_over_cong) (auto simp: posted dest!: old)
  moreover have "sum_over (\<lambda>r. ri_po_item_id r = j \<and> posted d' (ri_receipt_id r)) ri_received_quantity ris =
      sum_over (\<lambda>item. ric_po_item_id item = j) ric_received_quantity (rcc_items data)" for j
    using new_items_total[OF list_all2_poi_ids[OF l2]] ris_rid
    by (subst sum_over_conj_all) (simp_all add: posted ris lines(1))
  ultimately have total: "received_total d' j = received_total d j +
      sum_over (\<lambda>item. ric_po_item_id item = j) ric_received_quantity (rcc_items data)" for j by simp
  then show "received_total d' j = received_total d j +
      sum_over (\<lambda>item. ric_po_item_id item = j) ric_received_quantity (rcc_items data)" .
qed

lemma create_receipt_accounts:
  assumes "create_receipt ctx u data s d = Inr d'" "receipt_ids_ok d"
    and same: "purchase_order_items s = purchase_order_items d"
  shows "purchase_order_items d' = map (receive_item (rcc_items data)) (purchase_order_items d)"
    and "received_accounts d \<Longrightarrow> received_accounts d'"
proof -
  obtain po pois h lines no ris ts where
    "get_po s (rcc_po_id data) = Some po" "po_status po \<in> set RECEIVABLE_STATUSES"
    and l2: "list_all2 (\<lambda>x y. get_poi s (ric_po_item_id x) = Some y \<and> poi_po_id y = po_id po) (rcc_items data) pois"
    and dist: "distinct (map ric_po_item_id (rcc_items data))"
    and "list_all (\<lambda>i. 0 < ric_received_quantity i) (rcc_items data)"
    and rid: "rh_id h = auto_inc d T_purchase_receipts"
    and "rh_warehouse_id h = rcc_warehouse_id data" "rh_user_id h = cu_id u"
    and lines: "lines = receipt_lines (rcc_items data) pois" "distinct (map line_poi lines)"
    and poi: "purchase_order_items d' = overwrite (received_writes lines) (purchase_order_items d)"
    and rcv: "purchase_receipts d' = purchase_receipts d @ [\<lparr>rcv_id = rh_id h, rcv_receipt_no = no,
       rcv_po_id = po_id po, rcv_warehouse_id = rh_warehouse_id h, rcv_received_by = cu_id u,
       rcv_received_at = rh_at h, rcv_status = RCV_POSTED, rcv_reversed_by = None, rcv_reversed_at = None,
       rcv_reverse_reason = None, rcv_remark = rcc_remark data\<rparr>]"
    and ri: "purchase_receipt_items d' = purchase_receipt_items d @ ris"
    and "inventory_transactions d' = inventory_transactions d @ ts"
    and ris: "ris = map (\<lambda>(n, l). new_receipt_item h n l) (enumerate (auto_inc d T_purchase_receipt_items) lines)"
    and "list_all2 (books_receipt h) ris ts"
    and "purchase_orders d' = purchase_orders (recompute_po_status
       (received_items s (po_id po) (rcc_items data)) po d)"
    and inc: "auto_inc d' T_purchase_receipts = Suc (rh_id h)"
    and "(\<forall>r\<in>set (purchase_order_items d). poi_checks r) \<longrightarrow> (\<forall>r\<in>set (purchase_order_items d'). poi_checks r)"
    by (rule create_receipt_tables[OF assms(1)])
  have dp: "distinct (map poi_id (purchase_order_items d))" using assms(2) by (simp add: receipt_ids_ok_def)
  show rows: "purchase_order_items d' = map (receive_item (rcc_items data)) (purchase_order_items d)"
    using overwrite_received[OF l2 lines(2)[unfolded lines(1)]] dp by (simp add: poi lines(1) same)
  show "received_accounts d \<Longrightarrow> received_accounts d'"
    by (simp add: received_accounts_def rows list_all_iff receive_item_received[OF dist]
        create_receipt_total(2)[OF assms(1,2)])
qed

lemma recompute_po_status_get:
  assumes "items \<noteq> []" "get_po d i = Some po"
  shows "get_po (recompute_po_status items po d) j =
    map_option (\<lambda>r. if j = i then r\<lparr>po_status := derived_po_status items\<rparr> else r) (get_po d j)"
proof -
  have i: "po_id po = i" using get_po_id[OF assms(2)] .
  have "get_po (flush_po i (\<lambda>r. r\<lparr>po_status := st\<rparr>) d) j =
      map_option (\<lambda>r. if po_id r = i then r\<lparr>po_status := st\<rparr> else r) (get_po d j)" for st
    unfolding get_po_def flush_po_def by (simp add: row_by_update_rows)
  moreover have "map_option (\<lambda>r. if po_id r = i then r\<lparr>po_status := st\<rparr> else r) (get_po d j) =
      map_option (\<lambda>r. if j = i then r\<lparr>po_status := st\<rparr> else r) (get_po d j)" for st
    by (cases "get_po d j") (auto dest: get_po_id)
  moreover have "map_option (\<lambda>r. if j = i then r\<lparr>po_status := po_status po\<rparr> else r) (get_po d j) = get_po d j"
    using assms(2) by (cases "get_po d j") auto
  moreover have "recompute_po_status items po d = (if derived_po_status items = po_status po then d
      else flush_po i (\<lambda>r. r\<lparr>po_status := derived_po_status items\<rparr>) d)"
    using assms(1) by (simp add: recompute_po_status_def Let_def i)
  ultimately show ?thesis by (cases "derived_po_status items = po_status po") presburger+
qed

lemma get_po_of_orders: "purchase_orders d' = purchase_orders d'' \<Longrightarrow> get_po d' j = get_po d'' j"
  by (simp add: get_po_def)

lemma create_receipt_status:
  assumes "create_receipt ctx u data s d = Inr d'" "distinct (map poi_id (purchase_order_items d))"
    and same: "purchase_order_items s = purchase_order_items d" "get_po s (rcc_po_id data) = get_po d (rcc_po_id data)"
  shows "get_po d' j = map_option (\<lambda>r. if j = rcc_po_id data
      then r\<lparr>po_status := derived_po_status (order_lines d' j)\<rparr> else r) (get_po d j)"
    and "j \<noteq> rcc_po_id data \<Longrightarrow> order_lines d' j = order_lines d j"
proof -
  obtain po pois h lines no ris ts where
    po: "get_po s (rcc_po_id data) = Some po" and "po_status po \<in> set RECEIVABLE_STATUSES"
    and l2: "list_all2 (\<lambda>x y. get_poi s (ric_po_item_id x) = Some y \<and> poi_po_id y = po_id po) (rcc_items data) pois"
    and dist: "distinct (map ric_po_item_id (rcc_items data))"
    and "list_all (\<lambda>i. 0 < ric_received_quantity i) (rcc_items data)"
    and rid: "rh_id h = auto_inc d T_purchase_receipts"
    and "rh_warehouse_id h = rcc_warehouse_id data" "rh_user_id h = cu_id u"
    and lines: "lines = receipt_lines (rcc_items data) pois" "distinct (map line_poi lines)"
    and poi: "purchase_order_items d' = overwrite (received_writes lines) (purchase_order_items d)"
    and rcv: "purchase_receipts d' = purchase_receipts d @ [\<lparr>rcv_id = rh_id h, rcv_receipt_no = no,
       rcv_po_id = po_id po, rcv_warehouse_id = rh_warehouse_id h, rcv_received_by = cu_id u,
       rcv_received_at = rh_at h, rcv_status = RCV_POSTED, rcv_reversed_by = None, rcv_reversed_at = None,
       rcv_reverse_reason = None, rcv_remark = rcc_remark data\<rparr>]"
    and ri: "purchase_receipt_items d' = purchase_receipt_items d @ ris"
    and "inventory_transactions d' = inventory_transactions d @ ts"
    and ris: "ris = map (\<lambda>(n, l). new_receipt_item h n l) (enumerate (auto_inc d T_purchase_receipt_items) lines)"
    and "list_all2 (books_receipt h) ris ts"
    and orders: "purchase_orders d' = purchase_orders (recompute_po_status
       (received_items s (po_id po) (rcc_items data)) po d)"
    and inc: "auto_inc d' T_purchase_receipts = Suc (rh_id h)"
    and "(\<forall>r\<in>set (purchase_order_items d). poi_checks r) \<longrightarrow> (\<forall>r\<in>set (purchase_order_items d'). poi_checks r)"
    by (rule create_receipt_tables[OF assms(1)])
  have ids: "po_id po = rcc_po_id data" using get_po_id[OF po] .
  have rows: "purchase_order_items d' = map (receive_item (rcc_items data)) (purchase_order_items d)"
    using overwrite_received[OF l2 lines(2)[unfolded lines(1)]] assms(2) by (simp add: poi lines(1) same)
  have ol: "order_lines d' k = map (receive_item (rcc_items data)) (order_lines d k)" for k
    by (simp add: order_lines_def rows filter_map comp_def)
  have "received_items s (po_id po) (rcc_items data) = order_lines d' (rcc_po_id data)"
    by (simp add: received_items_eq ids ol[unfolded order_lines_def] order_lines_def same)
  note orders = orders[unfolded this]
  obtain x y where xy: "x \<in> set (rcc_items data)" "get_poi s (ric_po_item_id x) = Some y" "poi_po_id y = po_id po"
    using l2 assms(1) by (cases "rcc_items data"; cases pois) (auto simp: create_receipt_def)
  then have "y \<in> set (order_lines d (rcc_po_id data))"
    by (auto simp: order_lines_def ids same get_poi_def dest: row_by_SomeD)
  then have ne: "order_lines d' (rcc_po_id data) \<noteq> []" by (auto simp: ol)
  have pd: "get_po d (rcc_po_id data) = Some po" using po same(2) by simp
  show "get_po d' j = map_option (\<lambda>r. if j = rcc_po_id data
      then r\<lparr>po_status := derived_po_status (order_lines d' j)\<rparr> else r) (get_po d j)"
    unfolding get_po_of_orders[OF orders] recompute_po_status_get[OF ne pd]
    by (cases "get_po d j") auto
  show "order_lines d' j = order_lines d j" if j: "j \<noteq> rcc_po_id data"
  proof -
    have "receive_item (rcc_items data) r = r" if r: "r \<in> set (order_lines d j)" for r
    proof -
      have rd: "r \<in> set (purchase_order_items s)" "poi_po_id r = j" using r by (auto simp: order_lines_def same)
      then have g: "get_poi s (poi_id r) = Some r"
        using assms(2) by (simp add: get_poi_def row_by_distinct same)
      have "ric_po_item_id it \<noteq> poi_id r" if it: "it \<in> set (rcc_items data)" for it
      proof
        assume e: "ric_po_item_id it = poi_id r"
        obtain z where "get_poi s (ric_po_item_id it) = Some z" "poi_po_id z = po_id po"
          using l2 it by (auto simp: list_all2_conv_all_nth in_set_conv_nth)
        then show False using g e rd(2) j ids by simp
      qed
      then have "find (\<lambda>it. ric_po_item_id it = poi_id r) (rcc_items data) = None"
        by (simp add: find_None_iff)
      then show ?thesis by (simp add: receive_item_def)
    qed
    then show ?thesis by (simp add: ol map_idI)
  qed
qed

section \<open>Reversing against unchanged order lines\<close>

definition return_item :: "purchase_receipt_item list \<Rightarrow> purchase_order_item \<Rightarrow> purchase_order_item" where
  "return_item ris r = (case find (\<lambda>ri. ri_po_item_id ri = poi_id r) ris of
      None \<Rightarrow> r | Some ri \<Rightarrow> receive (- ri_received_quantity ri) r)"

lemma reversed_items_eq:
  "reversed_items s i ris = map (return_item ris) (filter (\<lambda>r. poi_po_id r = i) (purchase_order_items s))"
  by (simp add: reversed_items_def return_item_def[abs_def])

lemma return_item_simps [simp]:
  "poi_id (return_item ris r) = poi_id r" "poi_po_id (return_item ris r) = poi_po_id r"
  by (simp_all add: return_item_def split: option.splits)

lemma return_item_received:
  assumes "distinct (map ri_po_item_id ris)"
  shows "poi_received_quantity (return_item ris r) = poi_received_quantity r -
    sum_over (\<lambda>ri. ri_po_item_id ri = poi_id r) ri_received_quantity ris"
  using find_sum_over[OF assms, of "poi_id r" ri_received_quantity]
  by (simp add: return_item_def receive_def split: option.splits)

lemma map_of_map_find: "map_of (map (\<lambda>x. (k x, v x)) xs) j = map_option v (find (\<lambda>x. k x = j) xs)"
  by (induction xs) auto

lemma overwrite_reversal:
  assumes "distinct (map poi_id (purchase_order_items s))"
  shows "overwrite (reversal_writes s ris) (purchase_order_items s) =
    map (return_item ris) (purchase_order_items s)"
  unfolding overwrite_def
proof (rule map_cong[OF refl])
  fix r assume "r \<in> set (purchase_order_items s)"
  then have g: "get_poi s (poi_id r) = Some r" using assms by (simp add: get_poi_def row_by_distinct)
  show "(case map_of (reversal_writes s ris) (poi_id r) of None \<Rightarrow> r | Some v \<Rightarrow> set_received v r) =
      return_item ris r"
  proof (cases "find (\<lambda>ri. ri_po_item_id ri = poi_id r) ris")
    case None
    then show ?thesis by (simp add: reversal_writes_def map_of_map_find return_item_def)
  next
    case (Some ri)
    then have "ri_po_item_id ri = poi_id r" by (auto simp: find_Some_iff)
    then show ?thesis
      using Some g by (simp add: reversal_writes_def map_of_map_find return_item_def set_received_def receive_def)
  qed
qed

lemma receipt_items_distinct:
  assumes "receipt_ids_ok d" "receipt_items i s = receipt_items i d"
  shows "distinct (map ri_po_item_id (receipt_items i s))"
proof -
  have "distinct (map (\<lambda>ri. (ri_receipt_id ri, ri_po_item_id ri)) (purchase_receipt_items d))"
    using assms(1) by (simp add: receipt_ids_ok_def)
  then have "distinct (map (\<lambda>ri. (ri_receipt_id ri, ri_po_item_id ri))
      (filter (\<lambda>ri. ri_receipt_id ri = i) (purchase_receipt_items d)))"
    by (rule distinct_map_filter)
  then have "distinct (map ri_po_item_id (filter (\<lambda>ri. ri_receipt_id ri = i) (purchase_receipt_items d)))"
    by (auto simp: distinct_map inj_on_def)
  then show ?thesis unfolding assms(2) by (simp add: receipt_items_def distinct_map)
qed

lemma reverse_receipt_accounts:
  assumes "reverse_receipt ctx u i reason s d = Inr d'" "receipt_ids_ok d"
    and same: "purchase_order_items s = purchase_order_items d" "receipt_items i s = receipt_items i d"
  shows "receipt_ids_ok d'"
    and "purchase_order_items d' = map (return_item (receipt_items i d)) (purchase_order_items d)"
    and "received_total d' j = received_total d j -
      sum_over (\<lambda>ri. ri_po_item_id ri = j) ri_received_quantity (receipt_items i d)"
    and "received_accounts d \<Longrightarrow> received_accounts d'"
proof -
  obtain r0 r ts where
    "get_rcv s i = Some r0" "rcv_status r0 = RCV_POSTED"
    and ex: "\<exists>x\<in>set (purchase_receipts d). rcv_id x = i \<and> rcv_status x = RCV_POSTED"
    and rcv: "purchase_receipts d' = update_rows (\<lambda>x. rcv_id x = i \<and> rcv_status x = RCV_POSTED)
      (mark_reversed (cu_id u) (rq_now ctx) reason) (purchase_receipts d)"
    and "get_rcv d' i = Some r"
    and poi: "distinct (map ri_po_item_id (receipt_items i s)) \<longrightarrow> purchase_order_items d' =
      overwrite (reversal_writes s (receipt_items i s)) (purchase_order_items d)"
    and "(\<forall>r\<in>set (purchase_order_items d). poi_checks r) \<longrightarrow> (\<forall>r\<in>set (purchase_order_items d'). poi_checks r)"
    and ri: "purchase_receipt_items d' = purchase_receipt_items d"
    and "inventory_transactions d' = inventory_transactions d @ ts"
    "list_all2 (books_reversal s i) (receipt_items i s) ts"
    "purchase_orders d' = (case get_po s (rcv_po_id r) of None \<Rightarrow> purchase_orders d
      | Some po \<Rightarrow> purchase_orders (recompute_po_status
          (reversed_items s (po_id po) (receipt_items i s)) po d))"
    and inc: "auto_inc d' T_purchase_receipts = auto_inc d T_purchase_receipts"
    by (rule reverse_receipt_tables[OF assms(1)])
  have dp: "distinct (map poi_id (purchase_order_items d))" using assms(2) by (simp add: receipt_ids_ok_def)
  note dist = receipt_items_distinct[OF assms(2) same(2)]
  show rows: "purchase_order_items d' = map (return_item (receipt_items i d)) (purchase_order_items d)"
    using poi dist overwrite_reversal[of s "receipt_items i s"] dp by (simp add: same)
  have mid: "rcv_id (mark_reversed a b c x) = rcv_id x" "rcv_status (mark_reversed a b c x) = RCV_REVERSED"
    for a b c x by (simp_all add: mark_reversed_def)
  have ne: "mark_reversed a b c x = x \<Longrightarrow> rcv_status x = RCV_REVERSED" for a b c x
    by (metis mid(2))
  have posted: "posted d' k = (posted d k \<and> k \<noteq> i)" for k
    unfolding posted_def rcv list_ex_iff set_update_rows by (auto simp: mid dest: ne)
  have pi: "posted d i" using ex by (auto simp: posted_def list_ex_iff)
  show "receipt_ids_ok d'"
  proof -
    have "keyed rcv_id n (purchase_receipts d') = keyed rcv_id n (purchase_receipts d)" for n
      unfolding rcv by (rule keyed_update) (simp add: mid)
    then show ?thesis using assms(2) by (simp add: receipt_ids_ok_def ri inc rows comp_def)
  qed
  have total: "received_total d' j = received_total d j -
      sum_over (\<lambda>ri. ri_po_item_id ri = j) ri_received_quantity (receipt_items i d)" for j
  proof -
    have "sum_over (\<lambda>ri. ri_po_item_id ri = j) ri_received_quantity (receipt_items i d) =
        sum_over (\<lambda>ri. ri_po_item_id ri = j \<and> ri_receipt_id ri = i) ri_received_quantity (purchase_receipt_items d)"
      by (simp add: receipt_items_def sum_over_filter)
    moreover
    have "sum_over (\<lambda>ri. ri_po_item_id ri = j \<and> posted d (ri_receipt_id ri)) ri_received_quantity rows =
        sum_over (\<lambda>ri. ri_po_item_id ri = j \<and> posted d' (ri_receipt_id ri)) ri_received_quantity rows +
        sum_over (\<lambda>ri. ri_po_item_id ri = j \<and> ri_receipt_id ri = i) ri_received_quantity rows" for rows
      by (induction rows) (auto simp: posted pi)
    note * = this[of "purchase_receipt_items d"]
    ultimately show ?thesis unfolding received_total_def ri using * by linarith
  qed
  then show "received_total d' j = received_total d j -
      sum_over (\<lambda>ri. ri_po_item_id ri = j) ri_received_quantity (receipt_items i d)" .
  show "received_accounts d \<Longrightarrow> received_accounts d'"
    by (simp add: received_accounts_def rows list_all_iff return_item_received[OF dist[unfolded same(2)]] total)
qed

lemma reverse_receipt_status:
  assumes "reverse_receipt ctx u i reason s d = Inr d'" "receipt_ids_ok d"
    and same: "purchase_order_items s = purchase_order_items d" "receipt_items i s = receipt_items i d"
      "purchase_orders s = purchase_orders d"
    and ne: "\<And>r. get_rcv d' i = Some r \<Longrightarrow> order_lines d (rcv_po_id r) \<noteq> []"
  shows "\<exists>r. get_rcv d' i = Some r \<and> (\<forall>j. get_po d' j = map_option (\<lambda>po. if j = rcv_po_id r
      then po\<lparr>po_status := derived_po_status (order_lines d' j)\<rparr> else po) (get_po d j))"
proof -
  obtain r0 r ts where
    "get_rcv s i = Some r0" "rcv_status r0 = RCV_POSTED"
    and ex: "\<exists>x\<in>set (purchase_receipts d). rcv_id x = i \<and> rcv_status x = RCV_POSTED"
    and rcv: "purchase_receipts d' = update_rows (\<lambda>x. rcv_id x = i \<and> rcv_status x = RCV_POSTED)
      (mark_reversed (cu_id u) (rq_now ctx) reason) (purchase_receipts d)"
    and r: "get_rcv d' i = Some r"
    and poi: "distinct (map ri_po_item_id (receipt_items i s)) \<longrightarrow> purchase_order_items d' =
      overwrite (reversal_writes s (receipt_items i s)) (purchase_order_items d)"
    and "(\<forall>r\<in>set (purchase_order_items d). poi_checks r) \<longrightarrow> (\<forall>r\<in>set (purchase_order_items d'). poi_checks r)"
    and ri: "purchase_receipt_items d' = purchase_receipt_items d"
    and "inventory_transactions d' = inventory_transactions d @ ts"
    "list_all2 (books_reversal s i) (receipt_items i s) ts"
    and orders: "purchase_orders d' = (case get_po s (rcv_po_id r) of None \<Rightarrow> purchase_orders d
      | Some po \<Rightarrow> purchase_orders (recompute_po_status
          (reversed_items s (po_id po) (receipt_items i s)) po d))"
    and inc: "auto_inc d' T_purchase_receipts = auto_inc d T_purchase_receipts"
    by (rule reverse_receipt_tables[OF assms(1)])
  note rows = reverse_receipt_accounts(2)[OF assms(1,2) same(1,2)]
  have ol: "order_lines d' k = map (return_item (receipt_items i d)) (order_lines d k)" for k
    by (simp add: order_lines_def rows filter_map comp_def)
  have "get_po d' j = map_option (\<lambda>po. if j = rcv_po_id r
      then po\<lparr>po_status := derived_po_status (order_lines d' j)\<rparr> else po) (get_po d j)" for j
  proof (cases "get_po d (rcv_po_id r)")
    case None
    then have "get_po s (rcv_po_id r) = None" by (simp add: get_po_def same)
    then have "purchase_orders d' = purchase_orders d" using orders by simp
    then show ?thesis using None by (cases "get_po d j") (auto simp: get_po_def)
  next
    case (Some po)
    then have "get_po s (rcv_po_id r) = Some po" by (simp add: get_po_def same)
    then have o1: "purchase_orders d' = purchase_orders (recompute_po_status
          (reversed_items s (po_id po) (receipt_items i s)) po d)" using orders by simp
    have ids: "po_id po = rcv_po_id r" using get_po_id[OF Some] .
    have "reversed_items s (po_id po) (receipt_items i s) = order_lines d' (rcv_po_id r)"
      by (simp add: reversed_items_eq ids ol[unfolded order_lines_def] order_lines_def same)
    note o2 = o1[unfolded this]
    have "order_lines d' (rcv_po_id r) \<noteq> []" using ne[OF r] by (simp add: ol)
    from recompute_po_status_get[OF this Some] show ?thesis
      unfolding get_po_of_orders[OF o2] by (cases "get_po d j") auto
  qed
  then show ?thesis using r by blast
qed

section \<open>Every order line stays within its bounds\<close>

lemma create_receipt_checks:
  assumes "create_receipt ctx u data s d = Inr d'" "\<forall>r\<in>set (purchase_order_items d). poi_checks r"
  shows "\<forall>r\<in>set (purchase_order_items d'). poi_checks r"
proof -
  obtain po pois h lines no ris ts where
    "get_po s (rcc_po_id data) = Some po" "po_status po \<in> set RECEIVABLE_STATUSES"
    and l2: "list_all2 (\<lambda>x y. get_poi s (ric_po_item_id x) = Some y \<and> poi_po_id y = po_id po) (rcc_items data) pois"
    and dist: "distinct (map ric_po_item_id (rcc_items data))"
    and "list_all (\<lambda>i. 0 < ric_received_quantity i) (rcc_items data)"
    and rid: "rh_id h = auto_inc d T_purchase_receipts"
    and "rh_warehouse_id h = rcc_warehouse_id data" "rh_user_id h = cu_id u"
    and lines: "lines = receipt_lines (rcc_items data) pois" "distinct (map line_poi lines)"
    and poi: "purchase_order_items d' = overwrite (received_writes lines) (purchase_order_items d)"
    and rcv: "purchase_receipts d' = purchase_receipts d @ [\<lparr>rcv_id = rh_id h, rcv_receipt_no = no,
       rcv_po_id = po_id po, rcv_warehouse_id = rh_warehouse_id h, rcv_received_by = cu_id u,
       rcv_received_at = rh_at h, rcv_status = RCV_POSTED, rcv_reversed_by = None, rcv_reversed_at = None,
       rcv_reverse_reason = None, rcv_remark = rcc_remark data\<rparr>]"
    and ri: "purchase_receipt_items d' = purchase_receipt_items d @ ris"
    and "inventory_transactions d' = inventory_transactions d @ ts"
    and ris: "ris = map (\<lambda>(n, l). new_receipt_item h n l) (enumerate (auto_inc d T_purchase_receipt_items) lines)"
    and "list_all2 (books_receipt h) ris ts"
    and "purchase_orders d' = purchase_orders (recompute_po_status
       (received_items s (po_id po) (rcc_items data)) po d)"
    and inc: "auto_inc d' T_purchase_receipts = Suc (rh_id h)"
    and c: "(\<forall>r\<in>set (purchase_order_items d). poi_checks r) \<longrightarrow> (\<forall>r\<in>set (purchase_order_items d'). poi_checks r)"
    by (rule create_receipt_tables[OF assms(1)])
  show ?thesis using c assms(2) by blast
qed

lemma reverse_receipt_checks:
  assumes "reverse_receipt ctx u i reason s d = Inr d'" "\<forall>r\<in>set (purchase_order_items d). poi_checks r"
  shows "\<forall>r\<in>set (purchase_order_items d'). poi_checks r"
proof -
  obtain r0 r ts where
    "get_rcv s i = Some r0" "rcv_status r0 = RCV_POSTED"
    and ex: "\<exists>x\<in>set (purchase_receipts d). rcv_id x = i \<and> rcv_status x = RCV_POSTED"
    and rcv: "purchase_receipts d' = update_rows (\<lambda>x. rcv_id x = i \<and> rcv_status x = RCV_POSTED)
      (mark_reversed (cu_id u) (rq_now ctx) reason) (purchase_receipts d)"
    and "get_rcv d' i = Some r"
    and poi: "distinct (map ri_po_item_id (receipt_items i s)) \<longrightarrow> purchase_order_items d' =
      overwrite (reversal_writes s (receipt_items i s)) (purchase_order_items d)"
    and c: "(\<forall>r\<in>set (purchase_order_items d). poi_checks r) \<longrightarrow> (\<forall>r\<in>set (purchase_order_items d'). poi_checks r)"
    and ri: "purchase_receipt_items d' = purchase_receipt_items d"
    and "inventory_transactions d' = inventory_transactions d @ ts"
    "list_all2 (books_reversal s i) (receipt_items i s) ts"
    "purchase_orders d' = (case get_po s (rcv_po_id r) of None \<Rightarrow> purchase_orders d
      | Some po \<Rightarrow> purchase_orders (recompute_po_status
          (reversed_items s (po_id po) (receipt_items i s)) po d))"
    and inc: "auto_inc d' T_purchase_receipts = auto_inc d T_purchase_receipts"
    by (rule reverse_receipt_tables[OF assms(1)])
  show ?thesis using c assms(2) by blast
qed

section \<open>The live remainder\<close>

lemma receive_lines_capacity:
  assumes "rfold (receive_line h) lines run = Inr run'" "distinct (map line_poi lines)" "l \<in> set lines"
  shows "\<exists>r\<in>set (purchase_order_items (rr_db run)). poi_id r = line_poi l
    \<and> poi_received_quantity r + line_qty l \<le> poi_ordered_quantity r"
  using assms
proof (induction lines arbitrary: run)
  case (Cons x lines)
  then obtain r1 where r1: "receive_line h x run = Inr r1" "rfold (receive_line h) lines r1 = Inr run'" by auto
  show ?case
  proof (cases "l = x")
    case True
    then show ?thesis using receive_line_rows(3)[OF r1(1)] by simp
  next
    case False
    then have l: "l \<in> set lines" using Cons.prems(3) by simp
    obtain r where r: "r \<in> set (purchase_order_items (rr_db r1))" "poi_id r = line_poi l"
      "poi_received_quantity r + line_qty l \<le> poi_ordered_quantity r"
      using Cons.IH[OF r1(2) _ l] Cons.prems(2) by auto
    have "line_poi l \<noteq> line_poi x" using Cons.prems(2) l by (auto simp: image_iff)
    then have "r \<in> set (purchase_order_items (rr_db run))"
      using r(1,2) unfolding receive_line_rows(1)[OF r1(1)] set_update_rows by (auto split: if_splits)
    then show ?thesis using r(2,3) by blast
  qed
qed simp

lemma create_receipt_capacity:
  assumes "create_receipt ctx u data s d = Inr d'" "item \<in> set (rcc_items data)"
  shows "\<exists>r\<in>set (purchase_order_items d). poi_id r = ric_po_item_id item
      \<and> poi_received_quantity r + ric_received_quantity item \<le> poi_ordered_quantity r"
    and "\<exists>wh. get_wh s (rcc_warehouse_id data) = Some wh \<and> wh_status wh = ST_ACTIVE"
    and "\<exists>poi m. get_poi s (ric_po_item_id item) = Some poi \<and> poi_po_id poi = rcc_po_id data
      \<and> get_mat s (poi_material_id poi) = Some m \<and> mat_status m = ST_ACTIVE"
proof -
  obtain po wh pois ks d1 no d2 d3 h rcv run1 run2 where
    "rcc_items data \<noteq> []" and po: "receivable_po s (rcc_po_id data) = Inr po"
    and wh: "active_warehouse s (rcc_warehouse_id data) = Inr wh"
    and chk: "check_receipt_lines [] (rcc_items data) = Inr ()"
    and pois: "rtraverse (receipt_po_item s po) (rcc_items data) = Inr pois"
    and lock: "lock_balances (map (\<lambda>poi. (wh_id wh, poi_material_id poi)) pois) d = (ks, d1)"
    and no: "next_daily_code SEQ_PURCHASE_RECEIPT ''RCV'' (rq_today ctx) (Some (receipt_day ctx data)) d1 = (no, d2)"
    and "h = \<lparr>rh_id = auto_inc d2 T_purchase_receipts, rh_warehouse_id = wh_id wh,
       rh_at = DateTime (receipt_day ctx data) (dt_millis (rq_now ctx)), rh_user_id = cu_id u\<rparr>"
    "rcv = \<lparr>rcv_id = rh_id h, rcv_receipt_no = no, rcv_po_id = po_id po,
          rcv_warehouse_id = wh_id wh, rcv_received_by = cu_id u, rcv_received_at = rh_at h,
          rcv_status = RCV_POSTED, rcv_reversed_by = None, rcv_reversed_at = None,
          rcv_reverse_reason = None, rcv_remark = rcc_remark data\<rparr>"
    and ins: "insert_rcv rcv d2 = Inr d3"
    and lines: "rfold (receive_line h) (receipt_lines (rcc_items data) pois) (start_posting d1 d3) = Inr run1"
    and "rfold (post_inbound (rh_at h)) ks run1 = Inr run2"
    "d' = receipt_audit ctx RECEIPT_POST u (rh_id h) no
        (recompute_po_status (received_items s (po_id po) (rcc_items data)) po (rr_db run2))"
    by (rule create_receipt_cases[OF assms(1)])
  show "\<exists>wh. get_wh s (rcc_warehouse_id data) = Some wh \<and> wh_status wh = ST_ACTIVE"
    using wh by (simp add: active_warehouse_Inr)
  have l2: "list_all2 (\<lambda>x y. receipt_po_item s po x = Inr y) (rcc_items data) pois"
    using pois by (simp add: rtraverse_Inr_iff)
  then obtain k where k: "k < length (rcc_items data)" "k < length pois" "rcc_items data ! k = item"
    "receipt_po_item s po item = Inr (pois ! k)"
    using assms(2) by (auto simp: list_all2_conv_all_nth in_set_conv_nth)
  have pid: "po_id po = rcc_po_id data" using po get_po_id by (auto simp: receivable_po_Inr)
  show "\<exists>poi m. get_poi s (ric_po_item_id item) = Some poi \<and> poi_po_id poi = rcc_po_id data
      \<and> get_mat s (poi_material_id poi) = Some m \<and> mat_status m = ST_ACTIVE"
    using k(4) by (auto simp: receipt_po_item_Inr pid)
  have "(item, pois ! k) \<in> set (zip (rcc_items data) pois)"
    using k by (auto simp: set_zip)
  then obtain l where l: "l \<in> set (receipt_lines (rcc_items data) pois)" "snd l = (item, pois ! k)"
    unfolding set_receipt_lines[symmetric] by auto
  have "list_all2 (\<lambda>x y. poi_id y = ric_po_item_id x) (rcc_items data) pois"
    using l2 by (rule list_all2_mono) (auto simp: receipt_po_item_Inr dest: get_poi_id)
  then have "map (\<lambda>p. poi_id (snd p)) (zip (rcc_items data) pois) = map ric_po_item_id (rcc_items data)"
    by (induction rule: list_all2_induct) simp_all
  moreover have "mset (map line_poi (receipt_lines (rcc_items data) pois)) =
      mset (map (\<lambda>p. poi_id (snd p)) (zip (rcc_items data) pois))"
    by (simp add: receipt_lines_def line_poi_def[abs_def] comp_def
        flip: map_map[of "\<lambda>p. poi_id (snd p)" snd, unfolded comp_def])
  ultimately have "distinct (map line_poi (receipt_lines (rcc_items data) pois))"
    using chk by (metis check_receipt_lines_Inr mset_eq_imp_distinct_iff)
  from receive_lines_capacity[OF lines this l(1)]
  obtain r where r: "r \<in> set (purchase_order_items d3)" "poi_id r = line_poi l"
    "poi_received_quantity r + line_qty l \<le> poi_ordered_quantity r" unfolding start_posting_simps by blast
  obtain X Y where X: "d1 = d\<lparr>inventory_balances := X, auto_inc := Y\<rparr>" using lock_balances_effect(7)[OF lock] by blast
  obtain A B where A: "d2 = d1\<lparr>number_sequences := A, auto_inc := B\<rparr>" using next_daily_code_frame(1)[OF no] by blast
  have "purchase_order_items d3 = purchase_order_items d" by (simp add: insert_rcv_Inr(1)[OF ins] A X)
  moreover have "line_poi l = ric_po_item_id item" "line_qty l = ric_received_quantity item"
    using k(4) l(2) by (auto simp: line_poi_def line_qty_def receipt_po_item_Inr dest: get_poi_id)
  ultimately show "\<exists>r\<in>set (purchase_order_items d). poi_id r = ric_po_item_id item
      \<and> poi_received_quantity r + ric_received_quantity item \<le> poi_ordered_quantity r"
    using r by auto
qed

section \<open>What a stale snapshot does to a received quantity\<close>

lemma create_receipt_overwrites:
  assumes "create_receipt ctx u data s d = Inr d'" "receipt_ids_ok d"
    and "item \<in> set (rcc_items data)" "get_poi s (ric_po_item_id item) = Some ps"
    and "get_poi d (ric_po_item_id item) = Some pd"
  shows "get_poi d' (ric_po_item_id item) =
    Some (set_received (poi_received_quantity ps + ric_received_quantity item) pd)"
    and "received_total d' (ric_po_item_id item) =
      received_total d (ric_po_item_id item) + ric_received_quantity item"
proof -
  obtain po pois h lines no ris ts where
    "get_po s (rcc_po_id data) = Some po" "po_status po \<in> set RECEIVABLE_STATUSES"
    and l2: "list_all2 (\<lambda>x y. get_poi s (ric_po_item_id x) = Some y \<and> poi_po_id y = po_id po) (rcc_items data) pois"
    and dist: "distinct (map ric_po_item_id (rcc_items data))"
    and "list_all (\<lambda>i. 0 < ric_received_quantity i) (rcc_items data)"
    and rid: "rh_id h = auto_inc d T_purchase_receipts"
    and "rh_warehouse_id h = rcc_warehouse_id data" "rh_user_id h = cu_id u"
    and lines: "lines = receipt_lines (rcc_items data) pois" "distinct (map line_poi lines)"
    and poi: "purchase_order_items d' = overwrite (received_writes lines) (purchase_order_items d)"
    and rcv: "purchase_receipts d' = purchase_receipts d @ [\<lparr>rcv_id = rh_id h, rcv_receipt_no = no,
       rcv_po_id = po_id po, rcv_warehouse_id = rh_warehouse_id h, rcv_received_by = cu_id u,
       rcv_received_at = rh_at h, rcv_status = RCV_POSTED, rcv_reversed_by = None, rcv_reversed_at = None,
       rcv_reverse_reason = None, rcv_remark = rcc_remark data\<rparr>]"
    and ri: "purchase_receipt_items d' = purchase_receipt_items d @ ris"
    and "inventory_transactions d' = inventory_transactions d @ ts"
    and ris: "ris = map (\<lambda>(n, l). new_receipt_item h n l) (enumerate (auto_inc d T_purchase_receipt_items) lines)"
    and "list_all2 (books_receipt h) ris ts"
    and "purchase_orders d' = purchase_orders (recompute_po_status
       (received_items s (po_id po) (rcc_items data)) po d)"
    and inc: "auto_inc d' T_purchase_receipts = Suc (rh_id h)"
    and "(\<forall>r\<in>set (purchase_order_items d). poi_checks r) \<longrightarrow> (\<forall>r\<in>set (purchase_order_items d'). poi_checks r)"
    by (rule create_receipt_tables[OF assms(1)])
  have f: "find (\<lambda>x. ric_po_item_id x = ric_po_item_id item) (rcc_items data) = Some item"
    using row_by_distinct[OF dist assms(3)] by (simp add: row_by_def)
  have w: "map_of (received_writes lines) (ric_po_item_id item) =
      Some (poi_received_quantity ps + ric_received_quantity item)"
    using received_writes_find[OF l2 lines(2)[unfolded lines(1)], of "ric_po_item_id item"] f assms(4)
    by (simp add: lines(1))
  have "row_by poi_id j (overwrite ws rows) = map_option (\<lambda>r. case map_of ws (poi_id r) of
      None \<Rightarrow> r | Some v \<Rightarrow> set_received v r) (row_by poi_id j rows)" for j ws rows
    unfolding overwrite_def by (induction rows) (auto split: option.splits)
  then show "get_poi d' (ric_po_item_id item) =
    Some (set_received (poi_received_quantity ps + ric_received_quantity item) pd)"
    using assms(5) w get_poi_id[OF assms(5)] by (simp add: get_poi_def poi)
  show "received_total d' (ric_po_item_id item) =
      received_total d (ric_po_item_id item) + ric_received_quantity item"
    using create_receipt_total(2)[OF assms(1,2)] find_sum_over[OF dist, of "ric_po_item_id item" ric_received_quantity] f
    by simp
qed

end
