(* ===== verification/Receipt_Roundtrip.thy ===== *)
theory Receipt_Roundtrip
  imports Receipt_Accounts
begin

text \<open>
  Reversing the receipt that has just been posted: the order lines, the ledger totals
  and the balances are what they were before.
\<close>

section \<open>Adding and subtracting the same quantities\<close>

lemma receive_add [simp]: "receive 0 r = r" "receive p (receive q r) = receive (q + p) r"
  by (simp_all add: receive_def)

lemma receive_item_eq:
  assumes "distinct (map ric_po_item_id items)"
  shows "receive_item items r =
    receive (sum_over (\<lambda>item. ric_po_item_id item = poi_id r) ric_received_quantity items) r"
  using find_sum_over[OF assms, of "poi_id r" ric_received_quantity]
  by (simp add: receive_item_def split: option.splits)

lemma return_item_eq:
  assumes "distinct (map ri_po_item_id ris)"
  shows "return_item ris r =
    receive (- sum_over (\<lambda>ri. ri_po_item_id ri = poi_id r) ri_received_quantity ris) r"
  using find_sum_over[OF assms, of "poi_id r" ri_received_quantity]
  by (simp add: return_item_def split: option.splits)

section \<open>Finding the original bookings\<close>

text \<open>The receipts that the ledger refers to exist.\<close>

definition sources_known :: "db \<Rightarrow> bool" where
  "sources_known d \<longleftrightarrow> list_all (\<lambda>t. it_source_type t = Some SRC_PURCHASE_RECEIPT \<longrightarrow>
     (case it_source_id t of None \<Rightarrow> True | Some j \<Rightarrow> j < auto_inc d T_purchase_receipts))
   (inventory_transactions d)"

definition source_of :: "nat \<Rightarrow> nat \<Rightarrow> inventory_transaction \<Rightarrow> bool" where
  "source_of i ri t \<longleftrightarrow> it_source_type t = Some SRC_PURCHASE_RECEIPT
      \<and> it_source_id t = Some i \<and> it_source_item_id t = Some ri"

lemma original_txn_eq: "original_txn s i ri = find (source_of i ri) (inventory_transactions s)"
  by (simp add: original_txn_def source_of_def[abs_def])

lemma find_booking:
  assumes "list_all2 (books_receipt h) ris ts" "distinct (map ri_id ris)" "ri \<in> set ris"
  shows "\<exists>t. find (source_of (rh_id h) (ri_id ri)) ts = Some t \<and> books_receipt h ri t"
  using assms
proof (induction rule: list_all2_induct)
  case (Cons x xs t ts)
  show ?case
  proof (cases "ri = x")
    case True
    then show ?thesis using Cons.hyps(1) by (simp add: source_of_def books_receipt_def)
  next
    case False
    then have "ri \<in> set xs" using Cons.prems(2) by simp
    then have "ri_id ri \<noteq> ri_id x" using Cons.prems(1) by (auto simp: image_iff)
    then have "\<not> source_of (rh_id h) (ri_id ri) t"
      using Cons.hyps(1) by (simp add: source_of_def books_receipt_def)
    then show ?thesis using Cons.IH[OF _ \<open>ri \<in> set xs\<close>] Cons.prems(1) by simp
  qed
qed simp

lemma find_append_none: "(\<And>x. x \<in> set xs \<Longrightarrow> \<not> p x) \<Longrightarrow> find p (xs @ ys) = find p ys"
  by (induction xs) auto

lemma sum_over_map: "sum_over p g (map f xs) = sum_over (\<lambda>x. p (f x)) (\<lambda>x. g (f x)) xs"
  by (induction xs) simp_all

section \<open>The bookings of a new receipt\<close>

lemma create_receipt_bookings:
  assumes "create_receipt ctx u data s d = Inr d'" "receipt_ids_ok d" "sources_known d"
  defines "i \<equiv> auto_inc d T_purchase_receipts"
  shows "sum_over (\<lambda>ri. ri_po_item_id ri = j) ri_received_quantity (receipt_items i d') =
      sum_over (\<lambda>item. ric_po_item_id item = j) ric_received_quantity (rcc_items data)"
    and "outgoing_quantity d' i (rcc_warehouse_id data) k = incoming_quantity s data k"
    and "outgoing_amount d' i (rcc_warehouse_id data) k = incoming_amount s data k"
    and "distinct (map ric_po_item_id (rcc_items data))"
    and "\<exists>r. get_rcv d' i = Some r \<and> rcv_warehouse_id r = rcc_warehouse_id data \<and> rcv_status r = RCV_POSTED
      \<and> rcv_po_id r = rcc_po_id data"
proof -
  obtain po pois h lines no ris ts where
    po: "get_po s (rcc_po_id data) = Some po" and "po_status po \<in> set RECEIVABLE_STATUSES"
    and l2: "list_all2 (\<lambda>x y. get_poi s (ric_po_item_id x) = Some y \<and> poi_po_id y = po_id po) (rcc_items data) pois"
    and dist: "distinct (map ric_po_item_id (rcc_items data))"
    and "list_all (\<lambda>i. 0 < ric_received_quantity i) (rcc_items data)"
    and rid: "rh_id h = auto_inc d T_purchase_receipts"
    and rw: "rh_warehouse_id h = rcc_warehouse_id data" and "rh_user_id h = cu_id u"
    and lines: "lines = receipt_lines (rcc_items data) pois" "distinct (map line_poi lines)"
    and poi: "purchase_order_items d' = overwrite (received_writes lines) (purchase_order_items d)"
    and rcv: "purchase_receipts d' = purchase_receipts d @ [\<lparr>rcv_id = rh_id h, rcv_receipt_no = no,
       rcv_po_id = po_id po, rcv_warehouse_id = rh_warehouse_id h, rcv_received_by = cu_id u,
       rcv_received_at = rh_at h, rcv_status = RCV_POSTED, rcv_reversed_by = None, rcv_reversed_at = None,
       rcv_reverse_reason = None, rcv_remark = rcc_remark data\<rparr>]"
    and ri: "purchase_receipt_items d' = purchase_receipt_items d @ ris"
    and it: "inventory_transactions d' = inventory_transactions d @ ts"
    and ris: "ris = map (\<lambda>(n, l). new_receipt_item h n l) (enumerate (auto_inc d T_purchase_receipt_items) lines)"
    and books: "list_all2 (books_receipt h) ris ts"
    and "purchase_orders d' = purchase_orders (recompute_po_status
       (received_items s (po_id po) (rcc_items data)) po d)"
    and inc: "auto_inc d' T_purchase_receipts = Suc (rh_id h)"
    and "(\<forall>r\<in>set (purchase_order_items d). poi_checks r) \<longrightarrow> (\<forall>r\<in>set (purchase_order_items d'). poi_checks r)"
    by (rule create_receipt_tables[OF assms(1)])
  have i: "rh_id h = i" by (simp add: rid i_def)
  have old: "filter (\<lambda>ri. ri_receipt_id ri = i) (purchase_receipt_items d) = []"
    using assms(2) by (auto simp: filter_empty_conv receipt_ids_ok_def list_all_iff i_def)
  have ris_rid: "ri_receipt_id r = i" if "r \<in> set ris" for r
    using that by (auto simp: ris new_receipt_item_def i)
  have items: "receipt_items i d' = sort_key ri_po_item_id ris"
    using ris_rid by (simp add: receipt_items_def ri old filter_id_conv)
  show "sum_over (\<lambda>ri. ri_po_item_id ri = j) ri_received_quantity (receipt_items i d') =
      sum_over (\<lambda>item. ric_po_item_id item = j) ric_received_quantity (rcc_items data)"
    unfolding items sum_over_sort_key ris lines(1) by (rule new_items_total[OF list_all2_poi_ids[OF l2]])
  have pois: "list_all2 (\<lambda>x y. get_poi s (ric_po_item_id x) = Some y) (rcc_items data) pois"
    using l2 by (rule list_all2_mono) simp
  note sums = receipt_lines_sums[OF pois rw]
  have over: "sum_over (\<lambda>r. (rcc_warehouse_id data, ri_material_id r) = k) g ris =
      sum_over (\<lambda>l. line_key h l = k) f lines"
    if g: "\<And>n l. g (new_receipt_item h n l) = f l" for g f
  proof -
    have "sum_over (\<lambda>r. (rcc_warehouse_id data, ri_material_id r) = k) g ris =
        sum_over (\<lambda>x. line_key h (snd x) = k) (\<lambda>x. f (snd x)) (enumerate (auto_inc d T_purchase_receipt_items) lines)"
      unfolding ris sum_over_map
      by (rule sum_over_cong) (simp_all add: split_beta g line_key_def rw, simp add: new_receipt_item_def)
    also have "\<dots> = sum_over (\<lambda>l. line_key h l = k) f lines" by (rule sum_over_enumerate)
    finally show ?thesis .
  qed
  have oq: "sum_over (\<lambda>r. (rcc_warehouse_id data, ri_material_id r) = k) ri_received_quantity ris =
      incoming_quantity s data k"
    using over[of ri_received_quantity "\<lambda>l. ric_received_quantity (fst (snd l))"] sums(1)[of k]
    by (simp add: new_receipt_item_def line_qty_def lines(1))
  have oa: "sum_over (\<lambda>r. (rcc_warehouse_id data, ri_material_id r) = k) ri_amount ris = incoming_amount s data k"
    using over[of ri_amount "\<lambda>l. line_amount (ric_received_quantity (fst (snd l))) (poi_unit_price (snd (snd l)))"]
      sums(2)[of k]
    by (simp add: new_receipt_item_def line_qty_def lines(1))
  show "outgoing_quantity d' i (rcc_warehouse_id data) k = incoming_quantity s data k"
    by (simp only: outgoing_quantity_def items sum_over_sort_key oq)
  have ids: "map ri_id ris = map fst (enumerate (auto_inc d T_purchase_receipt_items) lines)"
    by (simp add: ris new_receipt_item_def split_beta comp_def del: map_fst_enumerate)
  have dids: "distinct (map ri_id ris)" unfolding ids by simp
  have orig: "\<exists>t. original_txn d' i (ri_id r) = Some t \<and> it_amount t = ri_amount r" if r: "r \<in> set ris" for r
  proof -
    have none: "\<not> source_of i (ri_id r) t" if t: "t \<in> set (inventory_transactions d)" for t
    proof
      assume "source_of i (ri_id r) t"
      then have st: "it_source_type t = Some SRC_PURCHASE_RECEIPT" "it_source_id t = Some i"
        by (simp_all add: source_of_def)
      have "i < auto_inc d T_purchase_receipts"
        using assms(3) t st by (fastforce simp: sources_known_def list_all_iff)
      then show False by (simp add: i_def)
    qed
    have "original_txn d' i (ri_id r) = find (source_of i (ri_id r)) ts"
      unfolding original_txn_eq it using none by (rule find_append_none)
    then show ?thesis using find_booking[OF books dids r] by (auto simp: i books_receipt_def)
  qed
  have "outgoing_amount d' i (rcc_warehouse_id data) k =
      sum_over (\<lambda>r. (rcc_warehouse_id data, ri_material_id r) = k)
        (\<lambda>r. case original_txn d' i (ri_id r) of None \<Rightarrow> 0 | Some t \<Rightarrow> it_amount t) ris"
    by (simp only: outgoing_amount_def items sum_over_sort_key)
  also have "\<dots> = sum_over (\<lambda>r. (rcc_warehouse_id data, ri_material_id r) = k) ri_amount ris"
    by (rule sum_over_cong) (use orig in fastforce)+
  finally show "outgoing_amount d' i (rcc_warehouse_id data) k = incoming_amount s data k" by (simp only: oa)
  show "distinct (map ric_po_item_id (rcc_items data))" by (rule dist)
  have "row_by rcv_id i (purchase_receipts d) = None"
    using assms(2) by (simp add: receipt_ids_ok_def i_def keyed_fresh)
  then show "\<exists>r. get_rcv d' i = Some r \<and> rcv_warehouse_id r = rcc_warehouse_id data \<and> rcv_status r = RCV_POSTED
      \<and> rcv_po_id r = rcc_po_id data"
    by (simp add: get_rcv_def rcv row_by_append i rw get_po_id[OF po])
qed

section \<open>The round trip\<close>

text \<open>A reversal rewrites the state of the receipt, not what was received.\<close>

lemma reverse_receipt_keeps:
  assumes "reverse_receipt ctx u i reason s d = Inr d'"
  shows "get_rcv d' j = map_option (\<lambda>x. if j = i \<and> rcv_status x = RCV_POSTED
    then mark_reversed (cu_id u) (rq_now ctx) reason x else x) (get_rcv d j)"
proof -
  obtain r0 r ts where
    "get_rcv s i = Some r0" "rcv_status r0 = RCV_POSTED"
    and ex: "\<exists>x\<in>set (purchase_receipts d). rcv_id x = i \<and> rcv_status x = RCV_POSTED"
    and rcv: "purchase_receipts d' = update_rows (\<lambda>x. rcv_id x = i \<and> rcv_status x = RCV_POSTED)
      (mark_reversed (cu_id u) (rq_now ctx) reason) (purchase_receipts d)"
    and "get_rcv d' i = Some r"
    and poi: "distinct (map ri_po_item_id (receipt_items i s)) \<longrightarrow> purchase_order_items d' =
      overwrite (reversal_writes s (receipt_items i s)) (purchase_order_items d)"
    and "(\<forall>r\<in>set (purchase_order_items d). poi_checks r) \<longrightarrow> (\<forall>r\<in>set (purchase_order_items d'). poi_checks r)"
    and ri: "purchase_receipt_items d' = purchase_receipt_items d"
    and "inventory_transactions d' = inventory_transactions d @ ts"
    "list_all2 (books_reversal s i) (receipt_items i s) ts"
    "purchase_orders d' = (case get_po s (rcv_po_id r) of None \<Rightarrow> purchase_orders d
      | Some po \<Rightarrow> purchase_orders (recompute_po_status
          (reversed_items s (po_id po) (receipt_items i s)) po d))"
    and inc: "auto_inc d' T_purchase_receipts = auto_inc d T_purchase_receipts"
    by (rule reverse_receipt_tables[OF assms(1)])
  have "row_by rcv_id j (purchase_receipts d') = map_option (\<lambda>x. if rcv_id x = i \<and> rcv_status x = RCV_POSTED
      then mark_reversed (cu_id u) (rq_now ctx) reason x else x) (row_by rcv_id j (purchase_receipts d))"
    unfolding rcv by (rule row_by_update_rows) (simp add: mark_reversed_def)
  then show ?thesis
    unfolding get_rcv_def by (cases "row_by rcv_id j (purchase_receipts d)") (auto dest: row_by_SomeD)
qed

lemma create_reverse_restores:
  assumes c: "create_receipt ctx u data d d = Inr d1"
    and r: "reverse_receipt ctx' u' (auto_inc d T_purchase_receipts) reason d1 d1 = Inr d2"
    and ok: "receipt_ids_ok d" "sources_known d" "stock_ok d"
  shows "purchase_order_items d2 = purchase_order_items d"
    and "ledger_quantity d2 k = ledger_quantity d k" "ledger_amount d2 k = ledger_amount d k"
    and "balance_quantity d2 k = balance_quantity d k" "balance_amount d2 k = balance_amount d k"
    and "ledger_prefix d d2"
proof -
  let ?i = "auto_inc d T_purchase_receipts"
  note b = create_receipt_bookings[OF c ok(1,2)]
  note a1 = create_receipt_accounts[OF c ok(1) refl]
  note ids1 = create_receipt_total(1)[OF c ok(1)]
  note a2 = reverse_receipt_accounts[OF r ids1 refl refl]
  note s1 = create_receipt_stock[OF c ok(3)]
  note s2 = reverse_receipt_stock[OF r s1(1) s1(1)]
  have dist: "distinct (map ri_po_item_id (receipt_items ?i d1))"
    by (rule receipt_items_distinct[OF ids1 refl])
  have "return_item (receipt_items ?i d1) (receive_item (rcc_items data) x) = x" for x
    unfolding return_item_eq[OF dist] receive_item_eq[OF b(4)]
    using b(1)[of "poi_id x"] by simp
  then show "purchase_order_items d2 = purchase_order_items d"
    unfolding a2(2) a1(1) by (simp add: comp_def)
  obtain r where r: "get_rcv d2 ?i = Some r"
    and st: "ledger_quantity d2 k = ledger_quantity d1 k - outgoing_quantity d1 ?i (rcv_warehouse_id r) k"
    "ledger_amount d2 k = ledger_amount d1 k - outgoing_amount d1 ?i (rcv_warehouse_id r) k"
    "balance_quantity d2 k = balance_quantity d1 k - outgoing_quantity d1 ?i (rcv_warehouse_id r) k"
    "balance_amount d2 k = balance_amount d1 k - outgoing_amount d1 ?i (rcv_warehouse_id r) k"
    using s2(4)[of k] by blast
  obtain r1 where r1: "get_rcv d1 ?i = Some r1" "rcv_warehouse_id r1 = rcc_warehouse_id data"
    using b(5) by blast
  have "rcv_warehouse_id r = rcc_warehouse_id data"
    using reverse_receipt_keeps[OF assms(2), of ?i] r r1 by (auto simp: mark_reversed_def split: if_splits)
  then show "ledger_quantity d2 k = ledger_quantity d k" "ledger_amount d2 k = ledger_amount d k"
    "balance_quantity d2 k = balance_quantity d k" "balance_amount d2 k = balance_amount d k"
    using st s1(3-6)[of k] b(2,3)[of k] by simp_all
  show "ledger_prefix d d2" using s1(2) s2(2) ledger_prefix_trans by blast
qed

end
