(* ===== verification/Receipt_Correct.thy ===== *)
theory Receipt_Correct
  imports Receipt_Roundtrip Example
begin

text \<open>
  Correctness of the receipt handlers: the stock they book, the bounds and the sums
  of received quantities, the order status that follows from them, reversal as the
  inverse of receiving, and what a stale snapshot does.
\<close>

section \<open>The step relation and the account\<close>

inductive rcpt_step :: "db \<Rightarrow> db \<Rightarrow> bool" where
  step_post: "create_receipt ctx u data s d = Inr d' \<Longrightarrow> rcpt_step d d'"
| step_reverse: "reverse_receipt ctx u i reason s d = Inr d' \<Longrightarrow> rcpt_step d d'"

text \<open>
  The abstract stock account: quantity and money per warehouse and material.  The
  ledger has one as its sums, the balance table stores one.
\<close>

type_synonym stock_account = "balance_key \<Rightarrow> decimal \<times> decimal"

definition ledger_account :: "db \<Rightarrow> stock_account" where
  "ledger_account d k = (ledger_quantity d k, ledger_amount d k)"

definition balance_account :: "db \<Rightarrow> stock_account" where
  "balance_account d k = (balance_quantity d k, balance_amount d k)"

definition deposit :: "stock_account \<Rightarrow> stock_account \<Rightarrow> stock_account" where
  "deposit goods acc k = (fst (acc k) + fst (goods k), snd (acc k) + snd (goods k))"

definition withdraw :: "stock_account \<Rightarrow> stock_account \<Rightarrow> stock_account" where
  "withdraw goods acc k = (fst (acc k) - fst (goods k), snd (acc k) - snd (goods k))"

definition goods_in :: "db \<Rightarrow> receipt_create \<Rightarrow> stock_account" where
  "goods_in s data k = (incoming_quantity s data k, incoming_amount s data k)"

definition goods_out :: "db \<Rightarrow> nat \<Rightarrow> nat \<Rightarrow> stock_account" where
  "goods_out s i w k = (outgoing_quantity s i w k, outgoing_amount s i w k)"

section \<open>Exclusive reversal\<close>

record reversal_claim =
  rvc_ctx :: request_ctx
  rvc_user :: current_user
  rvc_reason :: string
  rvc_snapshot :: db

definition claim_reverse :: "nat \<Rightarrow> reversal_claim \<Rightarrow> db \<Rightarrow> error + db" where
  "claim_reverse i c d = reverse_receipt (rvc_ctx c) (rvc_user c) i (rvc_reason c) (rvc_snapshot c) d"

lemma reverse_receipt_posted:
  assumes "reverse_receipt ctx u i reason s d = Inr d'"
  shows "posted d i" "\<not> posted d' i"
proof -
  obtain r0 r ts where
    "get_rcv s i = Some r0" "rcv_status r0 = RCV_POSTED"
    and ex: "\<exists>x\<in>set (purchase_receipts d). rcv_id x = i \<and> rcv_status x = RCV_POSTED"
    and rcv: "purchase_receipts d' = update_rows (\<lambda>x. rcv_id x = i \<and> rcv_status x = RCV_POSTED)
      (mark_reversed (cu_id u) (rq_now ctx) reason) (purchase_receipts d)"
    and "get_rcv d' i = Some r"
    and poi: "distinct (map ri_po_item_id (receipt_items i s)) \<longrightarrow> purchase_order_items d' =
      overwrite (reversal_writes s (receipt_items i s)) (purchase_order_items d)"
    and "(\<forall>r\<in>set (purchase_order_items d). poi_checks r) \<longrightarrow> (\<forall>r\<in>set (purchase_order_items d'). poi_checks r)"
    and ri: "purchase_receipt_items d' = purchase_receipt_items d"
    and "inventory_transactions d' = inventory_transactions d @ ts"
    "list_all2 (books_reversal s i) (receipt_items i s) ts"
    "purchase_orders d' = (case get_po s (rcv_po_id r) of None \<Rightarrow> purchase_orders d
      | Some po \<Rightarrow> purchase_orders (recompute_po_status
          (reversed_items s (po_id po) (receipt_items i s)) po d))"
    and inc: "auto_inc d' T_purchase_receipts = auto_inc d T_purchase_receipts"
    by (rule reverse_receipt_tables[OF assms])
  have mid: "rcv_status (mark_reversed a b c x) = RCV_REVERSED" for a b c x by (simp add: mark_reversed_def)
  have ne: "mark_reversed a b c x = x \<Longrightarrow> rcv_status x = RCV_REVERSED" for a b c x by (metis mid)
  show "posted d i" using ex by (simp add: posted_def list_ex_iff)
  show "\<not> posted d' i"
    unfolding posted_def rcv list_ex_iff set_update_rows by (auto simp: mid dest: ne)
qed

interpretation reversals: exclusive_claim "\<lambda>_. True" "\<lambda>d. posted d i" "claim_reverse i" for i
proof (unfold_locales, goal_cases)
  case (2 d c d')
  show ?case using reverse_receipt_posted(1)[OF 2(2)[unfolded claim_reverse_def]] .
next
  case (3 d c d')
  show ?case using reverse_receipt_posted(2)[OF 3(2)[unfolded claim_reverse_def]] .
qed simp

section \<open>Witness states\<close>

definition ex_receipt_create :: "decimal \<Rightarrow> receipt_create" where
  "ex_receipt_create q = \<lparr>rcc_po_id = 1, rcc_warehouse_id = 1, rcc_receipt_date = None,
    rcc_remark = None, rcc_items = [\<lparr>ric_po_item_id = 1, ric_received_quantity = q, ric_remark = None\<rparr>]\<rparr>"

definition ex_open_db :: db where
  "ex_open_db = (ex_po_db PO_CONFIRMED)\<lparr>purchase_order_items := [ex_po_item 1 1 4 0 10]\<rparr>"

definition ex_posted_db :: db where
  "ex_posted_db = committed (create_receipt ex_ctx ex_keeper (ex_receipt_create 4) ex_open_db ex_open_db)"

lemma ex_create_reverse:
  "case create_receipt ex_ctx ex_keeper (ex_receipt_create 4) ex_open_db ex_open_db of
     Inl e \<Rightarrow> False | Inr d \<Rightarrow> succeeds (reverse_receipt ex_ctx ex_keeper 10 ''damaged'' d d)"
  by code_simp

lemma ex_receive_succeeds:
  "create_receipt ex_ctx ex_keeper (ex_receipt_create 4) ex_open_db ex_open_db = Inr ex_posted_db"
  using ex_create_reverse by (auto simp: ex_posted_db_def split: sum.splits)

lemma ex_reverse_succeeds:
  "succeeds (reverse_receipt ex_ctx ex_keeper 1 ''damaged'' ex_received_db ex_received_db)"
  by code_simp

lemmas ex_open_simps = ex_open_db_def ex_po_db_def ex_po_item_def ex_po_row_def ex_empty_def

lemma ex_open_ids: "receipt_ids_ok ex_open_db"
  by (simp add: receipt_ids_ok_def keyed_def ex_open_simps)

lemma ex_open_stock: "stock_ok ex_open_db"
  by (simp add: stock_ok_def ex_open_simps)

lemma ex_received_stock: "stock_ok ex_received_db"
  by code_simp

section \<open>Properties\<close>

text \<open>
  C15: a committed receipt deposits, in the ledger's account and in the balances'
  account, exactly the goods of its request at the prices of the order lines it has
  read, and a committed reversal withdraws exactly the goods of its receipt at their
  original amounts.  The balances stay well-formed.  All this for any snapshot.
\<close>

theorem receipt_refines_account:
  assumes "stock_ok d"
  shows "(create_receipt ctx u data s d = Inr d' \<longrightarrow> stock_ok d'
      \<and> ledger_account d' = deposit (goods_in s data) (ledger_account d)
      \<and> balance_account d' = deposit (goods_in s data) (balance_account d))
    \<and> (stock_ok s \<and> reverse_receipt ctx u i reason s d = Inr d' \<longrightarrow> stock_ok d'
      \<and> (\<exists>r. get_rcv d i = Some r
        \<and> ledger_account d' = withdraw (goods_out s i (rcv_warehouse_id r)) (ledger_account d)
        \<and> balance_account d' = withdraw (goods_out s i (rcv_warehouse_id r)) (balance_account d)))"
proof (intro conjI impI)
  assume c: "create_receipt ctx u data s d = Inr d'"
  note e = create_receipt_stock[OF c assms]
  show "stock_ok d'" by (rule e(1))
  show "ledger_account d' = deposit (goods_in s data) (ledger_account d)"
    "balance_account d' = deposit (goods_in s data) (balance_account d)"
    by (rule ext, simp add: ledger_account_def balance_account_def deposit_def goods_in_def e(3-6))+
next
  assume "stock_ok s \<and> reverse_receipt ctx u i reason s d = Inr d'"
  then have r: "reverse_receipt ctx u i reason s d = Inr d'" and ok: "stock_ok s" by auto
  note e = reverse_receipt_stock[OF r assms ok]
  show "stock_ok d'" by (rule e(1))
  obtain r1 where r1: "get_rcv d' i = Some r1" using e(4) by blast
  then obtain r0 where r0: "get_rcv d i = Some r0" "rcv_warehouse_id r1 = rcv_warehouse_id r0"
    using reverse_receipt_keeps[OF r, of i] by (auto simp: mark_reversed_def)
  have "ledger_quantity d' k = ledger_quantity d k - outgoing_quantity s i (rcv_warehouse_id r0) k
    \<and> ledger_amount d' k = ledger_amount d k - outgoing_amount s i (rcv_warehouse_id r0) k
    \<and> balance_quantity d' k = balance_quantity d k - outgoing_quantity s i (rcv_warehouse_id r0) k
    \<and> balance_amount d' k = balance_amount d k - outgoing_amount s i (rcv_warehouse_id r0) k" for k
    using e(4)[of k] r1 r0(2) by auto
  then show "\<exists>r. get_rcv d i = Some r
        \<and> ledger_account d' = withdraw (goods_out s i (rcv_warehouse_id r)) (ledger_account d)
        \<and> balance_account d' = withdraw (goods_out s i (rcv_warehouse_id r)) (balance_account d)"
    using r0(1) by (intro exI[of _ r0])
      (simp add: fun_eq_iff ledger_account_def balance_account_def withdraw_def goods_out_def)
qed

theorem receipt_refines_account_witness:
  "balance_account ex_posted_db (1, 1) = (4, 40) \<and> ledger_account ex_posted_db (1, 1) = (4, 40)"
proof -
  have "goods_in ex_open_db (ex_receipt_create 4) (1, 1) = (4, 40)" by code_simp
  moreover have "balance_account ex_open_db (1, 1) = (0, 0)" "ledger_account ex_open_db (1, 1) = (0, 0)"
    by code_simp+
  ultimately show ?thesis
    using receipt_refines_account[OF ex_open_stock] ex_receive_succeeds by (simp add: deposit_def)
qed



text \<open>
  C17: as long as a request works on the current order lines, the received quantity of
  every order line is the sum of the posted receipts of it: receiving and reversing
  keep this account.
\<close>

theorem received_is_posted_total:
  assumes "receipt_ids_ok d" "received_accounts d" "purchase_order_items s = purchase_order_items d"
    and "create_receipt ctx u data s d = Inr d'
      \<or> (reverse_receipt ctx u i reason s d = Inr d' \<and> receipt_items i s = receipt_items i d)"
  shows "receipt_ids_ok d' \<and> received_accounts d'"
  using assms(4)
proof
  assume "create_receipt ctx u data s d = Inr d'"
  then show ?thesis
    using create_receipt_accounts(2)[OF _ assms(1,3) assms(2)] create_receipt_total(1)[OF _ assms(1)] by blast
next
  assume "reverse_receipt ctx u i reason s d = Inr d' \<and> receipt_items i s = receipt_items i d"
  then show ?thesis
    using reverse_receipt_accounts(1)[OF _ assms(1,3)] reverse_receipt_accounts(4)[OF _ assms(1,3) _ assms(2)]
    by blast
qed

theorem received_is_posted_total_witness:
  "received_accounts ex_posted_db"
  using received_is_posted_total[OF ex_open_ids _ refl disjI1[OF ex_receive_succeeds]]
  by (simp add: received_accounts_def received_total_def ex_open_simps)

text \<open>
  C20: with the current order and its lines in the snapshot, a receipt gives its order
  the status that the received quantities of its lines have: CONFIRMED when
  nothing is received, RECEIVED when everything is, PARTIALLY_RECEIVED otherwise; no
  other order and no other order's lines change.
\<close>

theorem receipt_order_status:
  assumes "create_receipt ctx u data s d = Inr d'" "receipt_ids_ok d"
    and "purchase_order_items s = purchase_order_items d"
    and "get_po s (rcc_po_id data) = get_po d (rcc_po_id data)"
  shows "get_po d' j = map_option (\<lambda>r. if j = rcc_po_id data
      then r\<lparr>po_status := derived_po_status (order_lines d' j)\<rparr> else r) (get_po d j)
    \<and> (j = rcc_po_id data \<or> order_lines d' j = order_lines d j)"
  using create_receipt_status[OF assms(1) _ assms(3,4)] assms(2) unfolding receipt_ids_ok_def by blast

theorem receipt_order_status_witness:
  "map_option po_status (get_po ex_posted_db 1) = Some PO_RECEIVED"
proof -
  have "order_lines ex_posted_db 1 = [ex_po_item 1 1 4 4 10]"
    using create_receipt_accounts(1)[OF ex_receive_succeeds ex_open_ids refl]
    by (simp add: order_lines_def receive_item_def receive_def ex_receipt_create_def ex_open_simps)
  moreover have "derived_po_status [ex_po_item 1 1 4 4 10] = PO_RECEIVED"
    by (simp add: derived_po_status_def ex_po_item_def)
  ultimately show ?thesis
    using receipt_order_status[OF ex_receive_succeeds ex_open_ids refl refl, of 1]
    by (simp add: ex_receipt_create_def get_po_def ex_open_simps)
qed

text \<open>
  C16: reversing the receipt that has just been posted restores the order lines, the
  ledger's totals and the balances, quantity and money, for every key; nothing is
  removed from the ledger.
\<close>

theorem receive_then_reverse:
  assumes "create_receipt ctx u data d d = Inr d1"
    and "reverse_receipt ctx' u' (auto_inc d T_purchase_receipts) reason d1 d1 = Inr d2"
    and "receipt_ids_ok d" "sources_known d" "stock_ok d"
  shows "purchase_order_items d2 = purchase_order_items d \<and> ledger_account d2 = ledger_account d
    \<and> balance_account d2 = balance_account d \<and> ledger_prefix d d2"
  using create_reverse_restores[OF assms]
  by (simp add: fun_eq_iff ledger_account_def balance_account_def)

lemma ex_reverse_new_succeeds: "succeeds (reverse_receipt ex_ctx ex_keeper 10 ''damaged'' ex_posted_db ex_posted_db)"
  using ex_create_reverse ex_receive_succeeds by simp

theorem receive_then_reverse_witness:
  "purchase_order_items (committed (reverse_receipt ex_ctx ex_keeper 10 ''damaged'' ex_posted_db ex_posted_db)) =
     [ex_po_item 1 1 4 0 10]
   \<and> balance_account (committed (reverse_receipt ex_ctx ex_keeper 10 ''damaged'' ex_posted_db ex_posted_db)) (1, 1)
     = (0, 0)"
proof -
  have inc: "auto_inc ex_open_db T_purchase_receipts = 10" by (simp add: ex_open_simps)
  have "balance_account ex_open_db (1, 1) = (0, 0)" by code_simp
  then show ?thesis
    using receive_then_reverse[OF ex_receive_succeeds
        succeeds_committed[OF ex_reverse_new_succeeds, folded inc] ex_open_ids _ ex_open_stock]
    by (simp add: inc sources_known_def ex_open_simps)
qed

text \<open>
  C21: of any number of concurrent reversals of one receipt at most one is committed,
  and none once the receipt is not POSTED.
\<close>

theorem receipt_reversed_once:
  "length (reversals.winners i cs d) \<le> 1 \<and> (posted d i \<or> reversals.winners i cs d = [])"
  using reversals.at_most_one_winner[OF TrueI] reversals.closed_no_winners[OF TrueI] by blast

text \<open>
  A receipt is committed only against an order that was receivable, into an active
  warehouse, with distinct positive lines of that order and active materials, and
  only when every line fits into what is still open of the live order line; the
  stored header names the user and is POSTED.
\<close>

theorem receipt_guards:
  assumes "create_receipt ctx u data s d = Inr d'"
  shows "(\<exists>po. get_po s (rcc_po_id data) = Some po \<and> po_status po \<in> {PO_CONFIRMED, PO_PARTIALLY_RECEIVED})
    \<and> map_option wh_status (get_wh s (rcc_warehouse_id data)) = Some ST_ACTIVE
    \<and> distinct (map ric_po_item_id (rcc_items data))
    \<and> list_all (\<lambda>item. 0 < ric_received_quantity item
        \<and> map_option poi_po_id (get_poi s (ric_po_item_id item)) = Some (rcc_po_id data)
        \<and> map_option mat_status (Option.bind (get_poi s (ric_po_item_id item))
            (\<lambda>poi. get_mat s (poi_material_id poi))) = Some ST_ACTIVE
        \<and> list_ex (\<lambda>r. poi_id r = ric_po_item_id item \<and>
            poi_received_quantity r + ric_received_quantity item \<le> poi_ordered_quantity r)
            (purchase_order_items d)) (rcc_items data)
    \<and> (\<exists>r. purchase_receipts d' = purchase_receipts d @ [r] \<and> rcv_status r = RCV_POSTED
        \<and> rcv_received_by r = cu_id u \<and> rcv_po_id r = rcc_po_id data
        \<and> rcv_warehouse_id r = rcc_warehouse_id data)"
proof -
  obtain po pois h lines no ris ts where
    po: "get_po s (rcc_po_id data) = Some po" "po_status po \<in> set RECEIVABLE_STATUSES"
    and l2: "list_all2 (\<lambda>x y. get_poi s (ric_po_item_id x) = Some y \<and> poi_po_id y = po_id po) (rcc_items data) pois"
    and dist: "distinct (map ric_po_item_id (rcc_items data))"
    and pos: "list_all (\<lambda>i. 0 < ric_received_quantity i) (rcc_items data)"
    and rid: "rh_id h = auto_inc d T_purchase_receipts"
    and rw: "rh_warehouse_id h = rcc_warehouse_id data" and "rh_user_id h = cu_id u"
    and lines: "lines = receipt_lines (rcc_items data) pois" "distinct (map line_poi lines)"
    and poi: "purchase_order_items d' = overwrite (received_writes lines) (purchase_order_items d)"
    and rcv: "purchase_receipts d' = purchase_receipts d @ [\<lparr>rcv_id = rh_id h, rcv_receipt_no = no,
       rcv_po_id = po_id po, rcv_warehouse_id = rh_warehouse_id h, rcv_received_by = cu_id u,
       rcv_received_at = rh_at h, rcv_status = RCV_POSTED, rcv_reversed_by = None, rcv_reversed_at = None,
       rcv_reverse_reason = None, rcv_remark = rcc_remark data\<rparr>]"
    and ri: "purchase_receipt_items d' = purchase_receipt_items d @ ris"
    and "inventory_transactions d' = inventory_transactions d @ ts"
    and ris: "ris = map (\<lambda>(n, l). new_receipt_item h n l) (enumerate (auto_inc d T_purchase_receipt_items) lines)"
    and "list_all2 (books_receipt h) ris ts"
    and "purchase_orders d' = purchase_orders (recompute_po_status
       (received_items s (po_id po) (rcc_items data)) po d)"
    and inc: "auto_inc d' T_purchase_receipts = Suc (rh_id h)"
    and "(\<forall>r\<in>set (purchase_order_items d). poi_checks r) \<longrightarrow> (\<forall>r\<in>set (purchase_order_items d'). poi_checks r)"
    by (rule create_receipt_tables[OF assms])
  have pid: "po_id po = rcc_po_id data" using get_po_id[OF po(1)] .
  note cap = create_receipt_capacity[OF assms]
  obtain item where "item \<in> set (rcc_items data)"
    using assms by (cases "rcc_items data") (auto simp: create_receipt_def)
  then have wh: "map_option wh_status (get_wh s (rcc_warehouse_id data)) = Some ST_ACTIVE"
    using cap(2) by auto
  have "list_all (\<lambda>item. 0 < ric_received_quantity item
        \<and> map_option poi_po_id (get_poi s (ric_po_item_id item)) = Some (rcc_po_id data)
        \<and> map_option mat_status (Option.bind (get_poi s (ric_po_item_id item))
            (\<lambda>poi. get_mat s (poi_material_id poi))) = Some ST_ACTIVE
        \<and> list_ex (\<lambda>r. poi_id r = ric_po_item_id item \<and>
            poi_received_quantity r + ric_received_quantity item \<le> poi_ordered_quantity r)
            (purchase_order_items d)) (rcc_items data)"
    unfolding list_all_iff
  proof (intro ballI conjI)
    fix x assume x: "x \<in> set (rcc_items data)"
    show "0 < ric_received_quantity x" using pos x by (simp add: list_all_iff)
    show "map_option poi_po_id (get_poi s (ric_po_item_id x)) = Some (rcc_po_id data)"
      "map_option mat_status (Option.bind (get_poi s (ric_po_item_id x))
            (\<lambda>poi. get_mat s (poi_material_id poi))) = Some ST_ACTIVE" using cap(3)[OF x] by auto
    show "list_ex (\<lambda>r. poi_id r = ric_po_item_id x \<and>
            poi_received_quantity r + ric_received_quantity x \<le> poi_ordered_quantity r)
            (purchase_order_items d)" using cap(1)[OF x] by (simp add: list_ex_iff)
  qed
  moreover have "po_status po \<in> {PO_CONFIRMED, PO_PARTIALLY_RECEIVED}"
    using po(2) by (simp add: RECEIVABLE_STATUSES_def)
  ultimately show ?thesis using po(1) wh dist rcv pid rw by simp
qed

theorem receipt_guards_witness:
  "list_ex (\<lambda>r. poi_id r = 1 \<and> poi_received_quantity r + 4 \<le> poi_ordered_quantity r)
    (purchase_order_items ex_open_db)"
  using receipt_guards[OF ex_receive_succeeds] by (simp add: ex_receipt_create_def)

text \<open>
  C19: a receipt whose snapshot has missed an earlier one overwrites it: afterwards the
  received quantity falls short of the posted receipts by exactly the quantity that
  the snapshot had missed, although the conditional UPDATE had taken it into account.
\<close>

theorem receipt_lost_update:
  assumes "create_receipt ctx u data s d = Inr d'" "receipt_ids_ok d" "received_accounts d"
    and "item \<in> set (rcc_items data)" "get_poi s (ric_po_item_id item) = Some ps"
    and "get_poi d (ric_po_item_id item) = Some pd"
  shows "\<exists>p. get_poi d' (ric_po_item_id item) = Some p
    \<and> received_total d' (ric_po_item_id item) - poi_received_quantity p =
      poi_received_quantity pd - poi_received_quantity ps"
proof -
  have "pd \<in> set (purchase_order_items d)" "poi_id pd = ric_po_item_id item"
    using assms(6) by (auto simp: get_poi_def dest: row_by_SomeD)
  then have "received_total d (ric_po_item_id item) = poi_received_quantity pd"
    using assms(3) by (auto simp: received_accounts_def list_all_iff)
  then show ?thesis using create_receipt_overwrites[OF assms(1,2,4,5,6)] by simp
qed

text \<open>Two receipts of two units each for four, both from the state before either.\<close>

definition ex_once_db :: db where
  "ex_once_db = committed (create_receipt ex_ctx ex_keeper (ex_receipt_create 2) ex_open_db ex_open_db)"

lemma ex_twice_succeeds:
  "case create_receipt ex_ctx ex_keeper (ex_receipt_create 2) ex_open_db ex_open_db of
     Inl e \<Rightarrow> False
   | Inr d \<Rightarrow> succeeds (create_receipt ex_ctx ex_keeper (ex_receipt_create 2) ex_open_db d)"
  by code_simp

theorem receipt_lost_update_witness:
  "\<exists>p. get_poi (committed (create_receipt ex_ctx ex_keeper (ex_receipt_create 2) ex_open_db ex_once_db)) 1 = Some p
    \<and> received_total (committed (create_receipt ex_ctx ex_keeper (ex_receipt_create 2) ex_open_db ex_once_db)) 1
      - poi_received_quantity p = 2"
proof -
  let ?c = "create_receipt ex_ctx ex_keeper (ex_receipt_create 2) ex_open_db"
  have c1: "?c ex_open_db = Inr ex_once_db" and c2: "succeeds (?c ex_once_db)"
    using ex_twice_succeeds by (auto simp: ex_once_db_def split: sum.splits)
  have it: "\<lparr>ric_po_item_id = 1, ric_received_quantity = 2, ric_remark = None\<rparr> \<in> set (rcc_items (ex_receipt_create 2))"
    by (simp add: ex_receipt_create_def)
  have p0: "get_poi ex_open_db 1 = Some (ex_po_item 1 1 4 0 10)" by (simp add: get_poi_def ex_open_simps)
  have acc0: "received_accounts ex_open_db" by (simp add: received_accounts_def received_total_def ex_open_simps)
  have p1: "get_poi ex_once_db 1 = Some (ex_po_item 1 1 4 2 10)"
    using create_receipt_overwrites(1)[OF c1 ex_open_ids it] p0 by (simp add: set_received_def ex_po_item_def)
  have ids1: "receipt_ids_ok ex_once_db" using create_receipt_total(1)[OF c1 ex_open_ids] .
  have acc1: "received_accounts ex_once_db" using create_receipt_accounts(2)[OF c1 ex_open_ids refl acc0] .
  from receipt_lost_update[OF succeeds_committed[OF c2] ids1 acc1 it, of "ex_po_item 1 1 4 0 10"
      "ex_po_item 1 1 4 2 10"] p0 p1 show ?thesis
    by (simp add: ex_po_item_def)
qed

text \<open>
  C22: a receipt and its reversal only append to the ledger: one PURCHASE_IN row per line
  of the receipt, with its quantity, amount and source; one PURCHASE_IN_REVERSAL row
  per line, the negation of the row it reverses at that row's unit cost, for a row
  that had not been reversed.
\<close>

theorem receipt_books_ledger:
  "(create_receipt ctx u data s d = Inr d' \<longrightarrow>
      (\<exists>h ris ts. purchase_receipt_items d' = purchase_receipt_items d @ ris
        \<and> inventory_transactions d' = inventory_transactions d @ ts
        \<and> list_all2 (books_receipt h) ris ts \<and> length ris = length (rcc_items data)
        \<and> rh_id h = auto_inc d T_purchase_receipts \<and> rh_warehouse_id h = rcc_warehouse_id data))
    \<and> (reverse_receipt ctx u i reason s d = Inr d' \<longrightarrow>
      (\<exists>ts. inventory_transactions d' = inventory_transactions d @ ts
        \<and> list_all2 (books_reversal s i) (receipt_items i s) ts))"
proof (intro conjI impI)
  assume a: "create_receipt ctx u data s d = Inr d'"
  obtain po pois h lines no ris ts where
    po: "get_po s (rcc_po_id data) = Some po" "po_status po \<in> set RECEIVABLE_STATUSES"
    and l2: "list_all2 (\<lambda>x y. get_poi s (ric_po_item_id x) = Some y \<and> poi_po_id y = po_id po) (rcc_items data) pois"
    and dist: "distinct (map ric_po_item_id (rcc_items data))"
    and pos: "list_all (\<lambda>i. 0 < ric_received_quantity i) (rcc_items data)"
    and rid: "rh_id h = auto_inc d T_purchase_receipts"
    and rw: "rh_warehouse_id h = rcc_warehouse_id data" and "rh_user_id h = cu_id u"
    and lines: "lines = receipt_lines (rcc_items data) pois" "distinct (map line_poi lines)"
    and poi: "purchase_order_items d' = overwrite (received_writes lines) (purchase_order_items d)"
    and rcv: "purchase_receipts d' = purchase_receipts d @ [\<lparr>rcv_id = rh_id h, rcv_receipt_no = no,
       rcv_po_id = po_id po, rcv_warehouse_id = rh_warehouse_id h, rcv_received_by = cu_id u,
       rcv_received_at = rh_at h, rcv_status = RCV_POSTED, rcv_reversed_by = None, rcv_reversed_at = None,
       rcv_reverse_reason = None, rcv_remark = rcc_remark data\<rparr>]"
    and ri: "purchase_receipt_items d' = purchase_receipt_items d @ ris"
    and it: "inventory_transactions d' = inventory_transactions d @ ts"
    and ris: "ris = map (\<lambda>(n, l). new_receipt_item h n l) (enumerate (auto_inc d T_purchase_receipt_items) lines)"
    and books: "list_all2 (books_receipt h) ris ts"
    and "purchase_orders d' = purchase_orders (recompute_po_status
       (received_items s (po_id po) (rcc_items data)) po d)"
    and inc: "auto_inc d' T_purchase_receipts = Suc (rh_id h)"
    and "(\<forall>r\<in>set (purchase_order_items d). poi_checks r) \<longrightarrow> (\<forall>r\<in>set (purchase_order_items d'). poi_checks r)"
    by (rule create_receipt_tables[OF a])
  have "length ris = length (rcc_items data)"
    using list_all2_lengthD[OF l2] by (simp add: ris lines(1) receipt_lines_def)
  then show "\<exists>h ris ts. purchase_receipt_items d' = purchase_receipt_items d @ ris
        \<and> inventory_transactions d' = inventory_transactions d @ ts
        \<and> list_all2 (books_receipt h) ris ts \<and> length ris = length (rcc_items data)
        \<and> rh_id h = auto_inc d T_purchase_receipts \<and> rh_warehouse_id h = rcc_warehouse_id data"
    using ri it books rid rw by blast
next
  assume a: "reverse_receipt ctx u i reason s d = Inr d'"
  obtain r0 r ts where
    "get_rcv s i = Some r0" "rcv_status r0 = RCV_POSTED"
    and ex: "\<exists>x\<in>set (purchase_receipts d). rcv_id x = i \<and> rcv_status x = RCV_POSTED"
    and rcv: "purchase_receipts d' = update_rows (\<lambda>x. rcv_id x = i \<and> rcv_status x = RCV_POSTED)
      (mark_reversed (cu_id u) (rq_now ctx) reason) (purchase_receipts d)"
    and "get_rcv d' i = Some r"
    and poi: "distinct (map ri_po_item_id (receipt_items i s)) \<longrightarrow> purchase_order_items d' =
      overwrite (reversal_writes s (receipt_items i s)) (purchase_order_items d)"
    and "(\<forall>r\<in>set (purchase_order_items d). poi_checks r) \<longrightarrow> (\<forall>r\<in>set (purchase_order_items d'). poi_checks r)"
    and ri: "purchase_receipt_items d' = purchase_receipt_items d"
    and it: "inventory_transactions d' = inventory_transactions d @ ts"
    and books: "list_all2 (books_reversal s i) (receipt_items i s) ts"
    and "purchase_orders d' = (case get_po s (rcv_po_id r) of None \<Rightarrow> purchase_orders d
      | Some po \<Rightarrow> purchase_orders (recompute_po_status
          (reversed_items s (po_id po) (receipt_items i s)) po d))"
    and inc: "auto_inc d' T_purchase_receipts = auto_inc d T_purchase_receipts"
    by (rule reverse_receipt_tables[OF a])
  show "\<exists>ts. inventory_transactions d' = inventory_transactions d @ ts
        \<and> list_all2 (books_reversal s i) (receipt_items i s) ts" using it books by blast
qed

theorem receipt_books_ledger_witness:
  "length (inventory_transactions ex_posted_db) = 1"
proof -
  obtain h ris ts where "inventory_transactions ex_posted_db = inventory_transactions ex_open_db @ ts"
    "list_all2 (books_receipt h) ris ts" "length ris = length (rcc_items (ex_receipt_create 4))"
    using conjunct1[OF receipt_books_ledger, THEN mp, OF ex_receive_succeeds] by blast
  then show ?thesis by (auto simp: ex_receipt_create_def ex_open_simps dest: list_all2_lengthD)
qed

text \<open>
  A reversal whose snapshot has the current orders and order lines gives the order
  of the receipt the status that its lines have after the goods are taken back, so
  that reversing the last receipt leads from RECEIVED back to CONFIRMED.
\<close>

theorem reversal_order_status:
  assumes "reverse_receipt ctx u i reason s d = Inr d'" "receipt_ids_ok d"
    and "purchase_order_items s = purchase_order_items d" "receipt_items i s = receipt_items i d"
    and "purchase_orders s = purchase_orders d"
    and "list_all (\<lambda>r. order_lines d (rcv_po_id r) \<noteq> []) (purchase_receipts d)"
  shows "\<exists>r. get_rcv d' i = Some r \<and> rcv_status r = RCV_REVERSED
    \<and> map_option po_status (get_po d' (rcv_po_id r)) =
      map_option (\<lambda>_. derived_po_status (order_lines d' (rcv_po_id r))) (get_po d (rcv_po_id r))"
proof -
  have ne: "order_lines d (rcv_po_id r) \<noteq> []" if "get_rcv d' i = Some r" for r
  proof -
    from that obtain r0 where "get_rcv d i = Some r0" "rcv_po_id r = rcv_po_id r0"
      using reverse_receipt_keeps[OF assms(1), of i] by (auto simp: mark_reversed_def split: if_splits)
    then show ?thesis using assms(6) by (auto simp: list_all_iff get_rcv_def dest!: row_by_SomeD)
  qed
  obtain r where r: "get_rcv d' i = Some r" "\<And>j. get_po d' j = map_option (\<lambda>po. if j = rcv_po_id r
      then po\<lparr>po_status := derived_po_status (order_lines d' j)\<rparr> else po) (get_po d j)"
    using reverse_receipt_status[OF assms(1-5) ne] by blast
  have "rcv_status r = RCV_REVERSED"
  proof (rule ccontr)
    assume "rcv_status r \<noteq> RCV_REVERSED"
    then have "rcv_status r = RCV_POSTED" by (cases "rcv_status r") simp_all
    then have "posted d' i" using r(1) by (auto simp: posted_def list_ex_iff get_rcv_def dest!: row_by_SomeD)
    then show False using reverse_receipt_posted(2)[OF assms(1)] by blast
  qed
  then show ?thesis using r by (cases "get_po d (rcv_po_id r)") auto
qed

theorem reversal_order_status_witness:
  "map_option po_status (get_po
    (committed (reverse_receipt ex_ctx ex_keeper 1 ''damaged'' ex_received_db ex_received_db)) 1) = Some PO_CONFIRMED"
proof -
  let ?d = "committed (reverse_receipt ex_ctx ex_keeper 1 ''damaged'' ex_received_db ex_received_db)"
  note r = succeeds_committed[OF ex_reverse_succeeds]
  have ids: "receipt_ids_ok ex_received_db" by code_simp
  have ne: "list_all (\<lambda>r. order_lines ex_received_db (rcv_po_id r) \<noteq> []) (purchase_receipts ex_received_db)"
    by code_simp
  have get: "get_rcv ex_received_db 1 = Some (ex_receipt RCV_POSTED)"
    by (simp add: get_rcv_def ex_received_db_def ex_receipt_def)
  have items: "receipt_items 1 ex_received_db = purchase_receipt_items ex_received_db"
    by (simp add: receipt_items_def ex_received_db_def)
  have "map (return_item (receipt_items 1 ex_received_db)) (purchase_order_items ex_received_db) =
      [ex_po_item 1 1 4 0 10]"
    unfolding items by (simp add: return_item_def receive_def ex_received_db_def ex_po_item_def)
  then have "purchase_order_items ?d = [ex_po_item 1 1 4 0 10]"
    by (simp only: reverse_receipt_accounts(2)[OF r ids refl refl])
  then have st: "derived_po_status (order_lines ?d 1) = PO_CONFIRMED"
    by (simp add: order_lines_def derived_po_status_def ex_po_item_def)
  have "get_po ex_received_db 1 = Some (ex_po_row PO_RECEIVED 1)"
    by (simp add: get_po_def ex_received_db_def ex_po_db_def ex_po_row_def)
  then show ?thesis
    using reversal_order_status[OF r ids refl refl refl ne] reverse_receipt_keeps[OF r, of 1] get st
    by (auto simp: mark_reversed_def ex_receipt_def)
qed

end
