(* ===== verification/Reconciliation_Correct.thy ===== *)
theory Reconciliation_Correct
  imports Reconciliation_Life Receipt_Correct
begin

text \<open>
  Correctness of the stock counts: what an approval posts, when it is refused, who may
  approve, and the life of a document.
\<close>

section \<open>Exclusive decisions\<close>

text \<open>Approvals and rejections of one document compete for its claim.\<close>

datatype rc_decision =
  Approve request_ctx current_user rc_approve db
| Reject request_ctx current_user string db

fun decide_rc :: "nat \<Rightarrow> rc_decision \<Rightarrow> db \<Rightarrow> error + db" where
  "decide_rc i (Approve ctx u p s) d = approve_reconciliation ctx u i p s d"
| "decide_rc i (Reject ctx u c s) d = reject_reconciliation ctx u i c s d"

definition rc_open :: "nat \<Rightarrow> db \<Rightarrow> bool" where
  "rc_open i d \<longleftrightarrow> list_ex (\<lambda>r. rc_id r = i \<and> rc_status r = RC_PENDING) (stock_reconciliations d)"

lemma claimed_closed:
  assumes "stock_reconciliations d' = update_rows (\<lambda>r. rc_id r = i \<and> rc_status r = RC_PENDING) f
      (stock_reconciliations d)" "\<And>r. rc_status (f r) \<noteq> RC_PENDING"
  shows "\<not> rc_open i d'"
  using assms by (auto simp: rc_open_def list_ex_iff set_update_rows)

lemma decide_rc_claims: "decide_rc i c d = Inr d' \<Longrightarrow> rc_open i d \<and> \<not> rc_open i d'"
proof (cases c)
  case (Approve ctx u p s)
  assume "decide_rc i c d = Inr d'"
  then have "approve_reconciliation ctx u i p s d = Inr d'" by (simp add: Approve)
  from approve_rows[OF this] obtain ov where
    e: "\<exists>r\<in>set (stock_reconciliations d). rc_id r = i \<and> rc_status r = RC_PENDING"
    "stock_reconciliations d' = update_rows (\<lambda>r. rc_id r = i \<and> rc_status r = RC_PENDING)
      (mark_posted (rq_now ctx) (cu_id u) p ov) (stock_reconciliations d)" by blast
  then show ?thesis using claimed_closed[OF e(2)] by (auto simp: rc_open_def list_ex_iff)
next
  case (Reject ctx u m s)
  assume "decide_rc i c d = Inr d'"
  then have "reject_reconciliation ctx u i m s d = Inr d'" by (simp add: Reject)
  note e = reject_document[OF this]
  show ?thesis using e(1) claimed_closed[OF e(2)] by (auto simp: rc_open_def list_ex_iff)
qed

interpretation rc_decisions: exclusive_claim "\<lambda>_. True" "rc_open i" "decide_rc i" for i
  by unfold_locales (auto dest: decide_rc_claims)

section \<open>Witness states\<close>

definition ex_count_row :: "reconciliation_status \<Rightarrow> nat \<Rightarrow> stock_reconciliation" where
  "ex_count_row st v = \<lparr>rc_id = 1, rc_reconciliation_no = ''CNT-00260901-0001'', rc_warehouse_id = 1,
    rc_counted_by = 5, rc_counted_on = Date 26 9 1, rc_status = st, rc_reason = None, rc_remark = None,
    rc_submitted_at = None, rc_posted_at = None, rc_approved_by = None, rc_approve_comment = None,
    rc_override_self_approval = False, rc_override_reason = None, rc_version = v\<rparr>"

text \<open>Four pieces worth 40.00 are on the books, ledger row 1 being the last one.\<close>

definition ex_count_item :: "decimal \<Rightarrow> decimal option \<Rightarrow> decimal \<Rightarrow> stock_reconciliation_item" where
  "ex_count_item q rate amt = \<lparr>rci_id = 1, rci_reconciliation_id = 1, rci_line_no = 1, rci_material_id = 1,
    rci_book_quantity_snapshot = 4, rci_book_total_amount_snapshot = 40, rci_book_avg_cost_snapshot = 10,
    rci_book_last_transaction_id_snapshot = Some 1, rci_physical_quantity = q,
    rci_difference_quantity = q - 4, rci_valuation_rate = rate, rci_adjustment_amount = amt,
    rci_remark = None\<rparr>"

definition ex_count_db :: "reconciliation_status \<Rightarrow> decimal \<Rightarrow> decimal option \<Rightarrow> decimal \<Rightarrow> db" where
  "ex_count_db st q rate amt = ex_received_db\<lparr>stock_reconciliations := [ex_count_row st 2],
    stock_reconciliation_items := [ex_count_item q rate amt]\<rparr>"

definition ex_approve :: rc_approve where
  "ex_approve = \<lparr>rna_approve_comment = None, rna_override_self_approval = False,
    rna_override_reason = None\<rparr>"

definition ex_found_db :: db where
  "ex_found_db = ex_count_db RC_PENDING 6 (Some 11) 22"

definition ex_missing_db :: db where
  "ex_missing_db = ex_count_db RC_PENDING 1 None (- 30)"

definition ex_counted_db :: "db \<Rightarrow> db" where
  "ex_counted_db d = committed (approve_reconciliation ex_ctx ex_admin 1 ex_approve d d)"

lemma ex_found_approved: "succeeds (approve_reconciliation ex_ctx ex_admin 1 ex_approve ex_found_db ex_found_db)"
  by code_simp

lemma ex_missing_approved: "succeeds (approve_reconciliation ex_ctx ex_admin 1 ex_approve ex_missing_db ex_missing_db)"
  by code_simp

lemma ex_count_ok: "stock_ok ex_found_db" "stock_ok ex_missing_db"
  by (code_simp, code_simp)

lemma ex_count_items: "rc_items 1 ex_found_db = [ex_count_item 6 (Some 11) 22]"
    "rc_items 1 ex_missing_db = [ex_count_item 1 None (- 30)]"
  by (simp_all add: rc_items_def ex_found_db_def ex_missing_db_def ex_count_db_def ex_count_item_def)

lemma ex_count_lines: "list_all count_ok (rc_items 1 ex_found_db)" "list_all count_ok (rc_items 1 ex_missing_db)"
  unfolding ex_count_items by (simp_all add: count_ok_def money_ok_def ex_count_item_def on_grid_def scale10_def)

section \<open>Properties\<close>

definition goods_counted :: "db \<Rightarrow> nat \<Rightarrow> nat \<Rightarrow> stock_account" where
  "goods_counted s i w k = (counted_quantity s i w k, counted_amount s i w k)"

text \<open>
  C23: a committed approval adds, in the ledger's account and in the balances' account,
  exactly the differences and adjustments of the lines it has read, for any snapshot;
  the ledger only grows and the balances stay well-formed.
\<close>

theorem approval_refines_account:
  assumes "approve_reconciliation ctx u i payload s d = Inr d'"
    and "stock_ok d" "list_all count_ok (rc_items i s)"
  shows "stock_ok d' \<and> ledger_prefix d d' \<and> (\<exists>doc. get_rc d i = Some doc
    \<and> ledger_account d' = deposit (goods_counted s i (rc_warehouse_id doc)) (ledger_account d)
    \<and> balance_account d' = deposit (goods_counted s i (rc_warehouse_id doc)) (balance_account d))"
  by (rule approve_document[OF assms(1)])
    (use assms(2,3) in \<open>simp add: count_ok_money list_all_iff fun_eq_iff ledger_account_def balance_account_def
      deposit_def goods_counted_def\<close>)

theorem approval_refines_account_witness:
  "balance_account (ex_counted_db ex_found_db) (1, 1) = (6, 62)
   \<and> ledger_account (ex_counted_db ex_found_db) (1, 1) = (6, 62)"
proof -
  have "goods_counted ex_found_db 1 1 (1, 1) = (2, 22)"
    unfolding goods_counted_def counted_quantity_def counted_amount_def ex_count_items
    by (simp add: ex_count_item_def count_key_def)
  moreover have "balance_account ex_found_db (1, 1) = (4, 40)" "ledger_account ex_found_db (1, 1) = (4, 40)"
    by code_simp+
  moreover have "get_rc ex_found_db 1 = Some (ex_count_row RC_PENDING 2)"
    by (simp add: get_rc_def ex_found_db_def ex_count_db_def ex_count_row_def)
  ultimately show ?thesis
    using approval_refines_account[OF succeeds_committed[OF ex_found_approved] ex_count_ok(1) ex_count_lines(1)]
    by (auto simp: ex_counted_db_def deposit_def ex_count_row_def)
qed

lemma moving_key_sum:
  assumes "distinct (map rci_material_id items)" "it \<in> set items"
  shows "sum_over (\<lambda>x. count_key w x = count_key w it) g items = (g it :: decimal)"
  using assms
proof (induction items)
  case (Cons a items)
  show ?case
  proof (cases "a = it")
    case True
    then have "sum_over (\<lambda>x. count_key w x = count_key w it) g items = 0"
      using Cons.prems(1) by (intro sum_over_none) (auto simp: count_key_def image_iff)
    then show ?thesis using True by simp
  next
    case False
    then show ?thesis using Cons by (auto simp: count_key_def image_iff)
  qed
qed simp

lemma sum_over_zero: "(\<And>r. r \<in> set rows \<Longrightarrow> p r \<Longrightarrow> g r = 0) \<Longrightarrow> sum_over p g rows = 0"
  by (induction rows) auto

text \<open>
  C24: an approval makes the books say what was counted: the balance of every moving
  line becomes its physical quantity, and its money the snapshot's money plus the
  adjustment; every other balance stays as it was.
\<close>

theorem approval_sets_count:
  assumes "approve_reconciliation ctx u i payload s d = Inr d'" "stock_ok d"
    and "list_all count_ok (rc_items i s)" "distinct (map rci_material_id (rc_items i s))"
  shows "\<exists>doc. get_rc d i = Some doc
    \<and> (\<forall>it\<in>set (rc_items i s). rci_difference_quantity it \<noteq> 0 \<longrightarrow>
        balance_account d' (rc_warehouse_id doc, rci_material_id it) =
          (rci_physical_quantity it, rci_book_total_amount_snapshot it + rci_adjustment_amount it))
    \<and> (\<forall>k. k \<notin> set (moving_keys (rc_warehouse_id doc) (rc_items i s)) \<longrightarrow>
        balance_account d' k = balance_account d k)"
proof -
  obtain doc where doc: "get_rc d i = Some doc"
    and e: "\<And>k. balance_quantity d' k = balance_quantity d k + counted_quantity s i (rc_warehouse_id doc) k"
      "\<And>k. balance_amount d' k = balance_amount d k + counted_amount s i (rc_warehouse_id doc) k"
    and g: "\<And>it. it \<in> set (rc_items i s) \<Longrightarrow> rci_difference_quantity it \<noteq> 0 \<Longrightarrow>
        balance_quantity d (count_key (rc_warehouse_id doc) it) = rci_book_quantity_snapshot it
        \<and> balance_amount d (count_key (rc_warehouse_id doc) it) = rci_book_total_amount_snapshot it"
    by (rule approve_document[OF assms(1)]) (use assms(2-4) in \<open>auto simp: list_all_iff count_ok_money\<close>)
  let ?w = "rc_warehouse_id doc"
  have ok: "\<forall>it\<in>set (rc_items i s). count_ok it" using assms(3) by (simp add: list_all_iff)
  have "balance_account d' (count_key ?w it) =
      (rci_physical_quantity it, rci_book_total_amount_snapshot it + rci_adjustment_amount it)"
    if it: "it \<in> set (rc_items i s)" "rci_difference_quantity it \<noteq> 0" for it
  proof -
    have "rci_difference_quantity it = rci_physical_quantity it - rci_book_quantity_snapshot it"
      using ok it(1) by (simp add: count_ok_def money_ok_def)
    then show ?thesis
      using g[OF it] moving_key_sum[OF assms(4) it(1)]
      by (simp add: balance_account_def e counted_quantity_def counted_amount_def)
  qed
  moreover have "balance_account d' k = balance_account d k"
    if k: "k \<notin> set (moving_keys ?w (rc_items i s))" for k
  proof -
    have z: "rci_difference_quantity it = 0 \<and> rci_adjustment_amount it = 0"
      if "it \<in> set (rc_items i s)" "count_key ?w it = k" for it
      using k ok that by (auto simp: moving_keys_def count_key_def count_ok_def money_ok_def)
    have "counted_quantity s i ?w k = 0" "counted_amount s i ?w k = 0"
      unfolding counted_quantity_def counted_amount_def using z by (auto intro: sum_over_zero)
    then show ?thesis by (simp add: balance_account_def e)
  qed
  ultimately show ?thesis using doc unfolding count_key_def by blast
qed

theorem approval_sets_count_witness:
  "balance_account (ex_counted_db ex_missing_db) (1, 1) = (1, 10)"
proof -
  have "get_rc ex_missing_db 1 = Some (ex_count_row RC_PENDING 2)"
    by (simp add: get_rc_def ex_missing_db_def ex_count_db_def ex_count_row_def)
  moreover have "distinct (map rci_material_id (rc_items 1 ex_missing_db))" unfolding ex_count_items by simp
  ultimately show ?thesis
    using approval_sets_count[OF succeeds_committed[OF ex_missing_approved] ex_count_ok(2) ex_count_lines(2)]
    unfolding ex_count_items by (auto simp: ex_counted_db_def ex_count_row_def ex_count_item_def)
qed

lemma watermark_upper:
  assumes "t \<in> set (inventory_transactions s)" "key_of_txn t = k"
  shows "it_id t \<le> value_or_0 (ledger_watermark s k)"
proof -
  have "x \<in> set xs \<Longrightarrow> x \<le> fold max xs a" for x a :: nat and xs
  proof (induction xs arbitrary: a)
    case (Cons y ys)
    have "b \<le> fold max ys b" for b :: nat
      by (induction ys arbitrary: b) (simp, metis fold_simps(2) max.bounded_iff)
    then show ?case using Cons by (auto intro: order_trans[OF max.cobounded1])
  qed simp
  moreover have "it_id t \<in> set (map it_id (filter (\<lambda>t. key_of_txn t = k) (inventory_transactions s)))"
    using assms by simp
  moreover have "filter (\<lambda>t. key_of_txn t = k) (inventory_transactions s) \<noteq> []"
    using assms by (auto simp: filter_empty_conv)
  ultimately show ?thesis by (simp add: ledger_watermark_def max_id_def value_or_0_def)
qed

text \<open>
  C25: a stale count is never posted: an approval is committed only if the locked
  balance of every moving line still has the quantity and the money of the line's
  snapshot, and the ledger as the approver's transaction sees it has no row of that
  material newer than the snapshot's watermark.
\<close>

theorem approval_not_stale:
  assumes "approve_reconciliation ctx u i payload s d = Inr d'" "stock_ok d"
    and "list_all count_ok (rc_items i s)" "distinct (map rci_material_id (rc_items i s))"
  shows "\<exists>doc. get_rc d i = Some doc \<and> (\<forall>it\<in>set (rc_items i s). rci_difference_quantity it \<noteq> 0 \<longrightarrow>
      balance_account d (rc_warehouse_id doc, rci_material_id it) =
        (rci_book_quantity_snapshot it, rci_book_total_amount_snapshot it)
      \<and> (\<forall>t\<in>set (inventory_transactions s). key_of_txn t = (rc_warehouse_id doc, rci_material_id it) \<longrightarrow>
          it_id t \<le> value_or_0 (rci_book_last_transaction_id_snapshot it)))"
proof -
  obtain doc where doc: "get_rc d i = Some doc"
    and g: "\<And>it. it \<in> set (rc_items i s) \<Longrightarrow> rci_difference_quantity it \<noteq> 0 \<Longrightarrow>
        value_or_0 (ledger_watermark s (count_key (rc_warehouse_id doc) it)) =
          value_or_0 (rci_book_last_transaction_id_snapshot it)
        \<and> balance_quantity d (count_key (rc_warehouse_id doc) it) = rci_book_quantity_snapshot it
        \<and> balance_amount d (count_key (rc_warehouse_id doc) it) = rci_book_total_amount_snapshot it"
    by (rule approve_document[OF assms(1)]) (use assms(2-4) in \<open>auto simp: list_all_iff count_ok_money\<close>)
  have "balance_account d (rc_warehouse_id doc, rci_material_id it) =
        (rci_book_quantity_snapshot it, rci_book_total_amount_snapshot it)
      \<and> (\<forall>t\<in>set (inventory_transactions s). key_of_txn t = (rc_warehouse_id doc, rci_material_id it) \<longrightarrow>
          it_id t \<le> value_or_0 (rci_book_last_transaction_id_snapshot it))"
    if "it \<in> set (rc_items i s)" "rci_difference_quantity it \<noteq> 0" for it
    using g[OF that] watermark_upper[of _ s "count_key (rc_warehouse_id doc) it"]
    by (simp add: balance_account_def count_key_def)
  then show ?thesis using doc by blast
qed

theorem approval_not_stale_witness:
  "balance_account ex_missing_db (1, 1) = (4, 40)"
proof -
  have "get_rc ex_missing_db 1 = Some (ex_count_row RC_PENDING 2)"
    by (simp add: get_rc_def ex_missing_db_def ex_count_db_def ex_count_row_def)
  moreover have "distinct (map rci_material_id (rc_items 1 ex_missing_db))" unfolding ex_count_items by simp
  ultimately show ?thesis
    using approval_not_stale[OF succeeds_committed[OF ex_missing_approved] ex_count_ok(2) ex_count_lines(2)]
    unfolding ex_count_items by (auto simp: ex_count_row_def ex_count_item_def)
qed

definition ex_moved_db :: db where
  "ex_moved_db = ex_found_db\<lparr>inventory_transactions := [ex_txn 1 1 4 10, ex_txn 2 1 1 10,
    (ex_txn 3 1 1 10)\<lparr>it_quantity := - 1, it_amount := - 10, it_transaction_type := PURCHASE_IN_REVERSAL\<rparr>]\<rparr>"

text \<open>
  The watermark that an approval compares is the one of its transaction's
  snapshot: goods that came and went again after the snapshot was taken, at the same
  price, leave quantity and money as counted, and the approval is committed
  although the live ledger has newer rows.
\<close>

theorem approval_misses_newer_rows:
  "succeeds (approve_reconciliation ex_ctx ex_admin 1 ex_approve ex_found_db ex_moved_db)
   \<and> map rci_book_last_transaction_id_snapshot (rc_items 1 ex_moved_db) = [Some 1]
   \<and> ledger_watermark ex_moved_db (1, 1) = Some 3
   \<and> \<not> succeeds (approve_reconciliation ex_ctx ex_admin 1 ex_approve ex_moved_db ex_moved_db)"
proof (intro conjI)
  show "succeeds (approve_reconciliation ex_ctx ex_admin 1 ex_approve ex_found_db ex_moved_db)" by code_simp
  show "map rci_book_last_transaction_id_snapshot (rc_items 1 ex_moved_db) = [Some 1]" by code_simp
  show "ledger_watermark ex_moved_db (1, 1) = Some 3" by code_simp
  show "\<not> succeeds (approve_reconciliation ex_ctx ex_admin 1 ex_approve ex_moved_db ex_moved_db)" by code_simp
qed

text \<open>
  An approval posts the lines that its own snapshot shows.  The claim does not test
  the version, so lines that were rejected, revised and submitted again meanwhile are
  not posted, the superseded ones are.
\<close>

theorem approval_posts_superseded_lines:
  "succeeds (approve_reconciliation ex_ctx ex_admin 1 ex_approve ex_found_db
      (ex_missing_db\<lparr>stock_reconciliations := [ex_count_row RC_PENDING 5]\<rparr>))
   \<and> balance_quantity (committed (approve_reconciliation ex_ctx ex_admin 1 ex_approve ex_found_db
      (ex_missing_db\<lparr>stock_reconciliations := [ex_count_row RC_PENDING 5]\<rparr>))) (1, 1) = 6
   \<and> map rci_physical_quantity (rc_items 1 ex_missing_db) = [1]"
proof -
  let ?d = "ex_missing_db\<lparr>stock_reconciliations := [ex_count_row RC_PENDING 5]\<rparr>"
  have s: "succeeds (approve_reconciliation ex_ctx ex_admin 1 ex_approve ex_found_db ?d)" by code_simp
  have "succeeds (approve_reconciliation ex_ctx ex_admin 1 ex_approve ex_found_db ?d)
    \<and> balance_quantity (committed (approve_reconciliation ex_ctx ex_admin 1 ex_approve ex_found_db ?d)) (1, 1) = 6"
    by code_simp
  then show ?thesis unfolding ex_count_items by (simp add: ex_count_item_def)
qed

lemma approve_row:
  assumes "approve_reconciliation ctx u i payload s d = Inr d'" "rc_ids_ok d"
  obtains ov doc r where "get_rc s i = Some doc" "self_approval s doc u payload = Inr ov"
    "get_rc d i = Some r" "get_rc d' i = Some (mark_posted (rq_now ctx) (cu_id u) payload ov r)"
proof -
  from approve_rows[OF assms(1)] obtain ov doc where
    doc: "get_rc s i = Some doc" and sa: "self_approval s doc u payload = Inr ov"
    and e: "\<exists>r\<in>set (stock_reconciliations d). rc_id r = i \<and> rc_status r = RC_PENDING"
    and rows: "stock_reconciliations d' = update_rows (\<lambda>r. rc_id r = i \<and> rc_status r = RC_PENDING)
      (mark_posted (rq_now ctx) (cu_id u) payload ov) (stock_reconciliations d)" by blast
  obtain r where r: "row_by rc_id i (stock_reconciliations d) = Some r"
    using e by (cases "row_by rc_id i (stock_reconciliations d)") (auto simp: row_by_None_iff)
  have "get_rc d' i = Some (mark_posted (rq_now ctx) (cu_id u) payload ov r)"
    unfolding get_rc_def rows using row_by_claim[OF _ e _ r] assms(2) by (simp add: rc_ids_ok_def keyed_def)
  then show ?thesis using that doc sa r by (simp add: get_rc_def)
qed

text \<open>
  C26: nobody posts a count of their own unless by an override: the role must have
  the permission, and the request must set the flag and give a reason.  The document
  records the approver, whether it was an override, and then the reason.
\<close>

theorem approval_separates_duties:
  assumes "approve_reconciliation ctx u i payload s d = Inr d'" "rc_ids_ok d"
  shows "\<exists>doc r. get_rc s i = Some doc \<and> get_rc d' i = Some r \<and> rc_status r = RC_POSTED
    \<and> rc_approved_by r = Some (cu_id u)
    \<and> rc_override_self_approval r = (rc_counted_by doc = cu_id u)
    \<and> rc_override_reason r = (if rc_counted_by doc = cu_id u then rna_override_reason payload else None)
    \<and> (rc_counted_by doc = cu_id u \<longrightarrow> has_permission s (cu_role_id u) PERM_SELF_APPROVE_OVERRIDE
        \<and> rna_override_self_approval payload \<and> rna_override_reason payload \<notin> {None, Some []})"
  by (rule approve_row[OF assms]) (auto simp: self_approval_def split: if_splits)

lemma ex_count_ids: "rc_ids_ok ex_found_db"
  by (simp add: rc_ids_ok_def keyed_def ex_found_db_def ex_count_db_def ex_count_row_def ex_received_db_def
      ex_po_db_def ex_empty_def)

theorem approval_separates_duties_witness:
  "map_option rc_approved_by (get_rc (ex_counted_db ex_found_db) 1) = Some (Some 1)
   \<and> (case approve_reconciliation ex_ctx ex_keeper 1 (ex_approve\<lparr>rna_override_self_approval := True,
       rna_override_reason := Some ''x''\<rparr>) ex_found_db ex_found_db of
     Inl e \<Rightarrow> e = raise_class ReconciliationSelfApprovalException | Inr x \<Rightarrow> False)"
proof
  show "map_option rc_approved_by (get_rc (ex_counted_db ex_found_db) 1) = Some (Some 1)"
    using approval_separates_duties[OF succeeds_committed[OF ex_found_approved] ex_count_ids]
    by (auto simp: ex_counted_db_def ex_admin_def ex_principal_def)
  show "(case approve_reconciliation ex_ctx ex_keeper 1 (ex_approve\<lparr>rna_override_self_approval := True,
       rna_override_reason := Some ''x''\<rparr>) ex_found_db ex_found_db of
     Inl e \<Rightarrow> e = raise_class ReconciliationSelfApprovalException | Inr x \<Rightarrow> False)"
    by code_simp
qed

text \<open>
  Of any number of approvals and rejections of one document, in any order and each
  with its own snapshot, at most one is committed, and none once the document is decided.
\<close>

theorem count_decided_once:
  "length (rc_decisions.winners i decisions d) \<le> 1
   \<and> (rc_open i d \<or> rc_decisions.winners i decisions d = [])"
  using rc_decisions.at_most_one_winner[OF TrueI] rc_decisions.closed_no_winners[OF TrueI] by blast

text \<open>
  C27: whatever snapshots the requests have read, a document moves only from draft to
  pending, from pending to posted or rejected, and from rejected or draft back to
  draft, each time with the next version; number, warehouse and counter stay, and a
  posted document never changes again.
\<close>

theorem count_status_machine:
  assumes "rc_step uow d d'" "rc_ids_ok d" "get_rc d i = Some r"
  shows "\<exists>r'. get_rc d' i = Some r' \<and> rc_reconciliation_no r' = rc_reconciliation_no r
    \<and> rc_warehouse_id r' = rc_warehouse_id r \<and> rc_counted_by r' = rc_counted_by r
    \<and> (r' = r \<or> rc_status r \<noteq> RC_POSTED \<and> rc_version r' = rc_version r + 1
        \<and> (rc_status r' \<in> set (rc_transitions (rc_status r)) \<or> rc_status r = RC_DRAFT \<and> rc_status r' = RC_DRAFT))"
  using rc_row_step[OF assms] by (cases "rc_status r") auto

theorem count_status_machine_witness:
  "map_option rc_version (get_rc (ex_counted_db ex_found_db) 1) = Some 3"
proof -
  have r: "get_rc ex_found_db 1 = Some (ex_count_row RC_PENDING 2)"
    by (simp add: get_rc_def ex_found_db_def ex_count_db_def ex_count_row_def)
  have "\<exists>x. get_rc (committed (approve_reconciliation ex_ctx ex_admin 1 ex_approve ex_found_db ex_found_db)) 1
      = Some x \<and> rc_status x = RC_POSTED"
    by (rule approve_row[OF succeeds_committed[OF ex_found_approved] ex_count_ids]) simp
  then show ?thesis
    using count_status_machine[OF step_approve_count[OF succeeds_committed[OF ex_found_approved], where uow = id]
        ex_count_ids r]
    by (auto simp: ex_counted_db_def ex_count_row_def)
qed

section \<open>Drafts and amounts\<close>

lemma list_all2_enumerate:
  "list_all2 P (enumerate n xs) ys \<longleftrightarrow> length ys = length xs \<and> (\<forall>j<length xs. P (n + j, xs ! j) (ys ! j))"
  by (auto simp: list_all2_conv_all_nth nth_enumerate_eq)

definition line_of_request :: "db \<Rightarrow> nat \<Rightarrow> nat \<Rightarrow> rc_line \<Rightarrow> stock_reconciliation_item \<Rightarrow> bool" where
  "line_of_request s w n l it \<longleftrightarrow> rci_line_no it = n \<and> rci_material_id it = rcl_material_id l
    \<and> rci_physical_quantity it = q4 (rcl_physical_quantity l) \<and> counts_book s w it
    \<and> count_ok it \<and> rci_checks it"

lemma book_grid:
  assumes "list_all (\<lambda>b. on_grid 4 (ib_quantity b)) (inventory_balances s)"
  shows "on_grid 4 (bs_quantity (book_of s k))"
  using assms by (auto simp: book_of_def list_all_iff dest!: balance_row_SomeD split: option.splits)

text \<open>
  C40: a new document is a draft of version 1 with one line per line of the request, in
  the request's order and for different materials; each line freezes the book state
  that the request has read and holds its difference to the counted quantity.  The
  stock does not move.
\<close>

theorem count_freezes_book:
  assumes "create_reconciliation ctx u data s d = Inr d'"
    and "list_all (\<lambda>b. on_grid 4 (ib_quantity b)) (inventory_balances s)"
  shows "\<exists>doc items. stock_reconciliations d' = stock_reconciliations d @ [doc]
    \<and> stock_reconciliation_items d' = stock_reconciliation_items d @ items
    \<and> rc_status doc = RC_DRAFT \<and> rc_version doc = 1 \<and> rc_counted_by doc = cu_id u
    \<and> distinct (map rci_material_id items) \<and> length items = length (rnc_items data)
    \<and> (\<forall>j<length items. line_of_request s (rc_warehouse_id doc) (j + 1) (rnc_items data ! j) (items ! j)
        \<and> rci_reconciliation_id (items ! j) = rc_id doc)
    \<and> same_stock d d'"
proof -
  let ?r = "auto_inc d T_stock_reconciliations" let ?w = "rnc_warehouse_id data"
  obtain no items n where doc: "stock_reconciliations d' = stock_reconciliations d @
      [\<lparr>rc_id = ?r, rc_reconciliation_no = no, rc_warehouse_id = ?w, rc_counted_by = cu_id u,
        rc_counted_on = rq_today ctx, rc_status = RC_DRAFT, rc_reason = rnc_reason data,
        rc_remark = rnc_remark data, rc_submitted_at = None, rc_posted_at = None, rc_approved_by = None,
        rc_approve_comment = None, rc_override_self_approval = False, rc_override_reason = None,
        rc_version = 1\<rparr>]" (is "_ = _ @ [?doc]")
    and it: "stock_reconciliation_items d' = stock_reconciliation_items d @
      map (\<lambda>(n, r). r\<lparr>rci_id := n\<rparr>) (enumerate n items)" (is "_ = _ @ ?new")
    and l: "list_all2 (\<lambda>(n, l) it. new_rc_item ?r n l (book_of s (?w, rcl_material_id l)) = Inr it)
      (enumerate 1 (rnc_items data)) items"
    and chk: "\<forall>it\<in>set items. rci_checks it" and dist: "distinct (map rcl_material_id (rnc_items data))"
    and "rnc_items data \<noteq> []" and same: "same_stock d d'"
    by (rule create_document[OF assms(1)]) blast
  have len: "length items = length (rnc_items data)"
    and nth: "\<And>j. j < length items \<Longrightarrow> new_rc_item ?r (1 + j) (rnc_items data ! j)
      (book_of s (?w, rcl_material_id (rnc_items data ! j))) = Inr (items ! j)"
    using l by (auto simp: list_all2_enumerate)
  have new: "?new ! j = (items ! j)\<lparr>rci_id := n + j\<rparr>" if "j < length items" for j
    using that by (simp add: nth_enumerate_eq)
  have row: "line_of_request s ?w (j + 1) (rnc_items data ! j) (?new ! j) \<and> rci_reconciliation_id (?new ! j) = ?r"
    if j: "j < length items" for j
  proof -
    note e = new_rc_item_Inr[OF nth[OF j]]
    have "count_ok (items ! j)" by (rule new_rc_item_count_ok[OF nth[OF j] book_grid[OF assms(2)]])
    moreover have "rci_checks (items ! j)" using chk j by simp
    ultimately show ?thesis
      unfolding new[OF j] using e by (simp add: line_of_request_def counts_book_def count_key_def Let_def
          count_ok_def money_ok_def rci_checks_def)
  qed
  have "map rci_material_id ?new = map rcl_material_id (rnc_items data)"
    by (rule nth_equalityI) (simp_all add: len nth_enumerate_eq new_rc_item_Inr(3)[OF nth])
  then have "distinct (map rci_material_id ?new)" using dist by simp
  then show ?thesis
    using doc it same len row by (intro exI[of _ ?doc] exI[of _ ?new]) simp
qed


definition ex_count_create :: "decimal \<Rightarrow> decimal option \<Rightarrow> rc_create" where
  "ex_count_create q rate = \<lparr>rnc_warehouse_id = 1, rnc_reason = None, rnc_remark = None,
    rnc_items = [\<lparr>rcl_material_id = 1, rcl_physical_quantity = q, rcl_valuation_rate = rate,
      rcl_remark = None\<rparr>]\<rparr>"

lemma ex_count_created:
  "succeeds (create_reconciliation ex_ctx ex_keeper (ex_count_create 1 None) ex_received_db ex_received_db)"
  by code_simp

theorem count_freezes_book_witness:
  "length (stock_reconciliation_items (committed
    (create_reconciliation ex_ctx ex_keeper (ex_count_create 1 None) ex_received_db ex_received_db))) = 1"
proof -
  have "list_all (\<lambda>b. on_grid 4 (ib_quantity b)) (inventory_balances ex_received_db)"
    by (simp add: ex_received_db_def ex_balance_def on_grid_def scale10_def)
  moreover have "stock_reconciliation_items ex_received_db = []"
    by (simp add: ex_received_db_def ex_po_db_def ex_empty_def)
  ultimately show ?thesis
    using count_freezes_book[OF succeeds_committed[OF ex_count_created]] by (auto simp: ex_count_create_def)
qed

lemma q4_tiny: "0 < r \<Longrightarrow> r \<le> 1/20000 \<Longrightarrow> q4 r = 0"
proof -
  assume r: "0 < r" "r \<le> 1/20000"
  then have "r * 10000 \<le> 1/2" by (simp add: field_simps)
  moreover from this r have "\<lfloor>r * 10000\<rfloor> = 0" by (intro floor_unique) auto
  ultimately show ?thesis by (simp add: q4_def quantize_half_even_def scale10_def Let_def)
qed

text \<open>
  A positive valuation rate of at most 0.00005 passes the validation of the request
  and the service's own test, is stored as 0 and refused by the table's CHECK: such a
  count of a surplus is never created.
\<close>

theorem tiny_rate_refused:
  assumes "l \<in> set (rnc_items data)" "rcl_valuation_rate l = Some rate" "0 < rate" "rate \<le> 1/20000"
    and "bs_quantity (book_of s (rnc_warehouse_id data, rcl_material_id l)) < q4 (rcl_physical_quantity l)"
    and "on_grid 4 (bs_quantity (book_of s (rnc_warehouse_id data, rcl_material_id l)))"
  shows "\<exists>e. create_reconciliation ctx u data s d = Inl e"
proof (rule ccontr)
  assume "\<nexists>e. create_reconciliation ctx u data s d = Inl e"
  then obtain d' where c: "create_reconciliation ctx u data s d = Inr d'"
    by (cases "create_reconciliation ctx u data s d") auto
  let ?r = "auto_inc d T_stock_reconciliations" let ?w = "rnc_warehouse_id data"
  obtain items where l: "list_all2 (\<lambda>(n, l) it. new_rc_item ?r n l (book_of s (?w, rcl_material_id l)) = Inr it)
      (enumerate 1 (rnc_items data)) items" and chk: "\<forall>it\<in>set items. rci_checks it"
    by (rule create_document[OF c]) blast
  obtain j where j: "j < length (rnc_items data)" "rnc_items data ! j = l"
    using assms(1) by (auto simp: in_set_conv_nth)
  then have n: "new_rc_item ?r (1 + j) l (book_of s (?w, rcl_material_id l)) = Inr (items ! j)"
    and "rci_checks (items ! j)"
    using l chk by (auto simp: list_all2_enumerate)
  have "0 < q4 (q4 (rcl_physical_quantity l) - bs_quantity (book_of s (?w, rcl_material_id l)))"
    using assms(5) q4_exact[OF on_grid_diff[OF q4_grid assms(6)]] by simp
  then have "rci_valuation_rate (items ! j) = Some 0"
    using new_rc_item_Inr(9)[OF n] assms(2-4) q4_tiny[OF assms(3,4)]
    by (simp add: amount_for_def Let_def split: if_splits)
  then show False using \<open>rci_checks (items ! j)\<close> by (simp add: rci_checks_def)
qed

theorem tiny_rate_refused_witness:
  "valid_rc_create (ex_count_create 5 (Some (1/20000)))
   \<and> (\<exists>e. create_reconciliation ex_ctx ex_keeper (ex_count_create 5 (Some (1/20000))) ex_received_db ex_received_db = Inl e)"
proof
  show "valid_rc_create (ex_count_create 5 (Some (1/20000)))"
    by (simp add: valid_rc_create_def ex_count_create_def valid_rc_line_def opt_cond_def opt_len_def on_grid_def scale10_def)
  have b: "bs_quantity (book_of ex_received_db (1, 1)) = 4"
    by (simp add: book_of_def balance_row_def ex_received_db_def ex_balance_def key_of_balance_def)
  show "\<exists>e. create_reconciliation ex_ctx ex_keeper (ex_count_create 5 (Some (1/20000))) ex_received_db ex_received_db = Inl e"
    by (rule tiny_rate_refused[where rate = "1/20000" and l = "\<lparr>rcl_material_id = 1,
        rcl_physical_quantity = 5, rcl_valuation_rate = Some (1/20000), rcl_remark = None\<rparr>"])
      (use b in \<open>simp_all add: ex_count_create_def on_grid_def scale10_def q4_exact\<close>)
qed

text \<open>
  A count to zero takes a material off the books up to rounding: what is left of its
  money is at most half a cent and half of the last digit of the average for each unit.
\<close>

theorem count_to_zero_residual:
  assumes "stock_ok s" "balance_row k s = Some b" "on_grid 4 (ib_quantity b)" "0 < ib_quantity b"
    and "rcl_physical_quantity l = 0"
    and "amount_for l (bs_quantity (book_of s k)) (bs_average (book_of s k)) = Inr (diff, rate, amount)"
  shows "diff = - ib_quantity b \<and> \<bar>ib_total_amount b + amount\<bar> \<le> ib_quantity b / 20000 + 1/200"
proof -
  have bk: "bs_quantity (book_of s k) = ib_quantity b" "bs_average (book_of s k) = ib_average_unit_cost b"
    using assms(2) by (simp_all add: book_of_def)
  have q0: "q4 0 = 0" by (simp add: q4_exact)
  have diff: "diff = - ib_quantity b"
    using amount_for_Inr(1)[OF assms(6)] by (simp add: assms(5) q0 bk q4_exact assms(3))
  then have am: "amount = - money (ib_quantity b * ib_average_unit_cost b)"
    using amount_for_Inr(5)[OF assms(6)] assms(4) by (simp add: bk)
  have "ib_average_unit_cost b = unit_cost (ib_total_amount b / ib_quantity b)"
    using stock_ok_row[OF assms(1,2)] assms(4) by (simp add: balance_ok_def new_average_def)
  then have "\<bar>ib_average_unit_cost b - ib_total_amount b / ib_quantity b\<bar> \<le> 1 / 20000"
    using unit_cost_error by simp
  then have "\<bar>ib_average_unit_cost b - ib_total_amount b / ib_quantity b\<bar> * ib_quantity b \<le> 1 / 20000 * ib_quantity b"
    using assms(4) by (intro mult_right_mono) simp_all
  moreover have "\<bar>ib_average_unit_cost b - ib_total_amount b / ib_quantity b\<bar> * ib_quantity b =
      \<bar>ib_quantity b * ib_average_unit_cost b - ib_total_amount b\<bar>"
    by (subst abs_mult_pos) (use assms(4) in \<open>simp_all add: right_diff_distrib left_diff_distrib mult.commute\<close>)
  ultimately have "\<bar>ib_quantity b * ib_average_unit_cost b - ib_total_amount b\<bar> \<le> ib_quantity b / 20000"
    by simp
  then show ?thesis
    using money_error[of "ib_quantity b * ib_average_unit_cost b"] diff am by linarith
qed


theorem count_to_zero_residual_witness:
  "case amount_for \<lparr>rcl_material_id = 1, rcl_physical_quantity = 0, rcl_valuation_rate = None,
      rcl_remark = None\<rparr> 4 10 of
     Inr (diff, rate, amount) \<Rightarrow> diff = - 4 \<and> \<bar>40 + amount\<bar> \<le> 4 / 20000 + 1 / 200 | Inl e \<Rightarrow> False"
proof -
  let ?l = "\<lparr>rcl_material_id = 1, rcl_physical_quantity = 0, rcl_valuation_rate = None, rcl_remark = None\<rparr>"
  have row: "balance_row (1, 1) ex_received_db = Some (ex_balance 1 4 40 10)"
    by (simp add: balance_row_def ex_received_db_def ex_balance_def key_of_balance_def)
  have q: "q4 0 = 0" by (simp add: q4_exact)
  have d: "q4 (- 4) = - 4" by (rule q4_exact) (simp add: on_grid_def scale10_def)
  obtain amount where a: "amount_for ?l 4 10 = Inr (- 4, None, amount)"
    by (simp add: amount_for_def q d)
  have "amount_for ?l (bs_quantity (book_of ex_received_db (1, 1))) (bs_average (book_of ex_received_db (1, 1))) =
      Inr (- 4, None, amount)"
    using a row by (simp add: book_of_def ex_balance_def)
  from count_to_zero_residual[OF ex_received_stock row _ _ _ this] show ?thesis
    using a by (simp add: ex_balance_def on_grid_def scale10_def)
qed

definition ex_cheap_db :: "decimal \<Rightarrow> decimal \<Rightarrow> decimal \<Rightarrow> db" where
  "ex_cheap_db worth avg amount = (ex_count_db RC_PENDING 0 None amount)\<lparr>
    inventory_balances := [ex_balance 1 30000 worth avg],
    stock_reconciliation_items := [(ex_count_item 0 None amount)\<lparr>rci_book_quantity_snapshot := 30000,
      rci_book_total_amount_snapshot := worth, rci_book_avg_cost_snapshot := avg,
      rci_difference_quantity := - 30000\<rparr>]\<rparr>"

text \<open>
  The money of an emptied balance is not forced to zero: after a count to zero of
  30000 units worth 100000.00, posted without an error, 1.00 stays on a balance of
  quantity 0, and the same count of units worth 50000.00 can never be posted.
\<close>

theorem emptied_balance_keeps_money:
  "new_average 100000 30000 = 33333/10000
   \<and> balance_account (ex_counted_db (ex_cheap_db 100000 (33333/10000) (- 99999))) (1, 1) = (0, 1)
   \<and> new_average 50000 30000 = 16667/10000
   \<and> (case approve_reconciliation ex_ctx ex_admin 1 ex_approve (ex_cheap_db 50000 (16667/10000) (- 50001))
        (ex_cheap_db 50000 (16667/10000) (- 50001)) of
      Inl e \<Rightarrow> e = raise_code ConflictException INVENTORY_BALANCE_MISMATCH | Inr x \<Rightarrow> False)"
proof (intro conjI)
  show "new_average 100000 30000 = 33333/10000" by code_simp
  show "balance_account (ex_counted_db (ex_cheap_db 100000 (33333/10000) (- 99999))) (1, 1) = (0, 1)" by code_simp
  show "new_average 50000 30000 = 16667/10000" by code_simp
  show "case approve_reconciliation ex_ctx ex_admin 1 ex_approve (ex_cheap_db 50000 (16667/10000) (- 50001))
        (ex_cheap_db 50000 (16667/10000) (- 50001)) of
      Inl e \<Rightarrow> e = raise_code ConflictException INVENTORY_BALANCE_MISMATCH | Inr x \<Rightarrow> False"
    by code_simp
qed

end
