(* ===== verification/Stock_Correct.thy ===== *)
theory Stock_Correct
  imports Stock_History Reconciliation_Correct
begin

text \<open>
  The stock in every reachable state: what requisitions, orders, receipts, reversals
  and counts keep together, under any interleaving and with any stale snapshots.
\<close>

lemma erp_step_ledger:
  assumes "erp_step uowp uowc s d d'" "books_ok d" "books_ok s"
  shows "ledger_prefix d d'"
proof -
  have v: "ledger_prefix d d'" if "stock_view d' = stock_view d"
    using that by (simp add: stock_view_def ledger_prefix_same)
  have c: "ledger_prefix d d'" if "same_stock d d'"
    using that by (simp add: same_stock_def ledger_prefix_same)
  have ok: "stock_ok d" "stock_ok s" using assms(2,3) by (simp_all add: books_ok_def)
  have m: "\<forall>it\<in>set (rc_items i s). money_ok it" for i
    using assms(3) by (auto simp: books_ok_def lines_ok_def count_lines_def)
  from assms(1) show ?thesis
  proof cases
    case (erp_receive ctx u rcc)
    then show ?thesis using create_receipt_stock(2) ok by blast
  next
    case (erp_reverse ctx u i reason)
    then show ?thesis using reverse_receipt_stock(2) ok by blast
  next
    case (erp_approve ctx u i rna)
    show ?thesis by (rule approve_document[OF erp_approve]) (use m ok in blast)
  next
    case (erp_count ctx u rnc)
    show ?thesis by (rule create_document[OF erp_count]) (rule c)
  next
    case (erp_recount ctx u i rnu)
    show ?thesis by (rule c) (rule update_document(3)[OF erp_recount])
  next
    case (erp_submit ctx u i v)
    show ?thesis by (rule c) (rule submit_document(3)[OF erp_submit])
  next
    case (erp_reject ctx u i cm)
    show ?thesis by (rule c) (rule reject_document(3)[OF erp_reject])
  qed (rule v, erule view_pr_handlers view_po_handlers)+
qed

lemma run_ledger:
  assumes "erp_run uowp uowc d0 h" "books_ok d0" and uow: "\<And>sts. set (uowc sts) \<subseteq> set sts"
  shows "\<forall>s\<in>set h. ledger_prefix s (hd h)"
  using assms(1)
proof induction
  case run_start
  then show ?case by simp
next
  case (run_step d h s d')
  note b = run_books[OF run_step.hyps(1) assms(2) uow]
  have "ledger_prefix d d'" using erp_step_ledger[OF run_step.hyps(3)] b run_step.hyps(2) by auto
  then show ?case using run_step.IH ledger_prefix_trans by auto
qed

section \<open>Witness\<close>

lemma ex_open_books: "books_ok ex_open_db"
  unfolding books_ok_def
  by (intro conjI, rule ex_open_stock)
    (simp_all add: reconciles_code stock_keys_def lines_ok_def rc_ids_ok_def keyed_def ex_open_simps)

lemma ex_found_books: "books_ok ex_found_db"
proof -
  have "reconciles ex_found_db" by code_simp
  moreover have "lines_ok ex_found_db"
    by (simp add: lines_ok_def keyed_def ex_found_db_def ex_count_db_def ex_count_item_def money_ok_def on_grid_def
        scale10_def ex_received_db_def ex_po_db_def ex_empty_def)
  ultimately show ?thesis using ex_count_ok(1) ex_count_ids by (simp add: books_ok_def)
qed

lemma ex_count_run: "erp_run id id ex_found_db [ex_counted_db ex_found_db, ex_found_db]"
  unfolding ex_counted_db_def
  by (rule run_step[OF run_start, of ex_found_db])
    (simp, rule erp_approve, rule succeeds_committed[OF ex_found_approved])

lemma ex_run: "erp_run id id ex_open_db [ex_posted_db, ex_open_db]"
  by (rule run_step[OF run_start, of ex_open_db]) (simp, rule erp_receive, rule ex_receive_succeeds)

section \<open>Properties\<close>

text \<open>
  In every state that requisitions, orders, receipts, reversals and stock counts
  reach together, however they interleave and whichever earlier state each of them has
  read, the ledger explains the balances: quantity and money of every balance are the
  sums of its ledger rows, no balance is negative, and every balance is well-formed.
\<close>

theorem books_always_agree:
  assumes "erp_run uowp uowc d0 h" "books_ok d0" "\<And>sts. set (uowc sts) \<subseteq> set sts" "s \<in> set h"
  shows "ledger_account s = balance_account s \<and> stock_ok s
    \<and> (\<forall>k. 0 \<le> fst (balance_account s k) \<and> 0 \<le> snd (balance_account s k))"
proof -
  have b: "stock_ok s" "reconciles s"
    using run_books[OF assms(1-3)] assms(4) by (auto simp: books_ok_def)
  have "0 \<le> balance_quantity s k \<and> 0 \<le> balance_amount s k" for k
    using stock_ok_row[OF b(1)]
    by (cases "balance_row k s") (auto simp: balance_quantity_def balance_amount_def balance_ok_def ib_checks_def)
  then show ?thesis
    using b(1) reconcilesD[OF b(2)] by (simp add: fun_eq_iff ledger_account_def balance_account_def)
qed

theorem books_always_agree_witness:
  "ledger_account ex_posted_db (1, 1) = balance_account ex_posted_db (1, 1)
   \<and> length (inventory_transactions ex_posted_db) = length (inventory_transactions ex_open_db) + 1"
proof
  show "ledger_account ex_posted_db (1, 1) = balance_account ex_posted_db (1, 1)"
    using books_always_agree[OF ex_run ex_open_books, of ex_posted_db] by simp
  show "length (inventory_transactions ex_posted_db) = length (inventory_transactions ex_open_db) + 1"
    by code_simp
qed

text \<open>
  The ledger is append-only: along any run of the handlers the rows of every earlier
  state are still there, unchanged and in the same order.
\<close>

theorem ledger_append_only:
  assumes "erp_run uowp uowc d0 (d # h)" "books_ok d0" "\<And>sts. set (uowc sts) \<subseteq> set sts" "s \<in> set h"
  shows "\<exists>ts. inventory_transactions d = inventory_transactions s @ ts"
  using run_ledger[OF assms(1-3)] assms(4) by (auto simp: ledger_prefix_iff)

theorem ledger_append_only_witness:
  "\<exists>ts. inventory_transactions ex_posted_db = inventory_transactions ex_open_db @ ts"
  by (rule ledger_append_only[OF ex_run ex_open_books]) simp_all

text \<open>
  C4: what a request has read of a count stays true as long as the version is the same:
  in any run, a document that still has the version of an earlier state still has
  the lines of that state, and versions never go back.
\<close>

theorem count_version_identifies_lines:
  assumes "erp_run uowp uowc d0 (d # h)" "books_ok d0" "\<And>sts. set (uowc sts) \<subseteq> set sts" "s \<in> set h"
    and "get_rc s i = Some r"
  shows "\<exists>r'. get_rc d i = Some r' \<and> rc_version r \<le> rc_version r'
    \<and> (rc_version r < rc_version r' \<or> rc_items i d = rc_items i s)"
proof -
  have "knows s d" using run_books[OF assms(1-3)] assms(4) by auto
  then obtain r' where "get_rc d i = Some r'" "rc_version r \<le> rc_version r'"
    "rc_version r' = rc_version r \<longrightarrow> count_lines i d = count_lines i s"
    using assms(5) unfolding knows_def by blast
  then show ?thesis using rc_items_cong[of i d s] by (intro exI[of _ r']) auto
qed

theorem count_version_identifies_lines_witness:
  "case get_rc (ex_counted_db ex_found_db) 1 of Some r \<Rightarrow> 2 \<le> rc_version r | None \<Rightarrow> False"
proof -
  have "get_rc ex_found_db 1 = Some (ex_count_row RC_PENDING 2)"
    by (simp add: get_rc_def ex_found_db_def ex_count_db_def ex_count_row_def)
  from count_version_identifies_lines[OF ex_count_run ex_found_books _ _ this]
  show ?thesis by (auto simp: ex_count_row_def)
qed

lemma rc_where_None: "rc_where i p f d = None \<Longrightarrow> get_rc d i = Some r \<Longrightarrow> \<not> p r"
  by (auto simp: rc_where_def cas_rows_None_iff get_rc_def dest!: row_by_SomeD)

lemma po_where_None: "po_where i p f d = None \<Longrightarrow> get_po d i = Some r \<Longrightarrow> \<not> p r"
  by (auto simp: po_where_def cas_rows_None_iff get_po_def dest!: row_by_SomeD)

lemma succeeds_rbind: "succeeds (rbind m f) \<longleftrightarrow> (\<exists>x. m = Inr x \<and> succeeds (f x))"
  by (cases m) simp_all

lemma submit_enabled: "succeeds (submit_reconciliation ctx u i v d d) \<longleftrightarrow>
     (case get_rc d i of None \<Rightarrow> False
      | Some r \<Rightarrow> rc_status r = RC_DRAFT \<and> rc_version r = v \<and> rc_items i d \<noteq> [])"
  by (cases "get_rc d i")
    (auto simp: submit_reconciliation_def succeeds_rbind require_def dest: rc_where_None split: option.splits)

lemma reject_enabled: "succeeds (reject_reconciliation ctx u i c d d) \<longleftrightarrow>
     (case get_rc d i of None \<Rightarrow> False | Some r \<Rightarrow> rc_status r = RC_PENDING)"
  by (cases "get_rc d i")
    (auto simp: reject_reconciliation_def succeeds_rbind require_def dest: rc_where_None split: option.splits)

lemma confirm_enabled: "succeeds (confirm_po ctx u i v d d) \<longleftrightarrow>
     (case get_po d i of None \<Rightarrow> False
      | Some r \<Rightarrow> po_status r = PO_DRAFT \<and> po_version r = v
        \<and> (cu_role_code u = Some ROLE_ADMIN \<or> po_buyer_id r = cu_id u)
        \<and> po_items i d \<noteq> [] \<and> list_all (\<lambda>it. 0 < poi_unit_price it) (po_items i d))"
proof (cases "get_po d i")
  case (Some r)
  have "PO_CONFIRMED \<in> set (po_transitions (po_status r)) \<longleftrightarrow> po_status r = PO_DRAFT"
    by (cases "po_status r") simp_all
  then show ?thesis
    using Some by (auto simp: confirm_po_def succeeds_rbind require_def Let_def list_all_iff not_le
        dest: po_where_None split: option.splits)
qed (simp add: confirm_po_def succeeds_rbind)

text \<open>
  C28: the handlers make progress: on the current state, a draft count with lines can be
  submitted with its version, and a pending one rejected; a draft order whose lines all
  have a price can be confirmed by its buyer or an administrator; and these are the only cases.
\<close>

theorem documents_progress:
  "succeeds (submit_reconciliation ctx u i v d d) =
     (case get_rc d i of None \<Rightarrow> False
      | Some r \<Rightarrow> rc_status r = RC_DRAFT \<and> rc_version r = v \<and> rc_items i d \<noteq> [])
   \<and> succeeds (reject_reconciliation ctx u i c d d) =
     (case get_rc d i of None \<Rightarrow> False | Some r \<Rightarrow> rc_status r = RC_PENDING)
   \<and> succeeds (confirm_po ctx u i v d d) =
     (case get_po d i of None \<Rightarrow> False
      | Some r \<Rightarrow> po_status r = PO_DRAFT \<and> po_version r = v
        \<and> (cu_role_code u = Some ROLE_ADMIN \<or> po_buyer_id r = cu_id u)
        \<and> po_items i d \<noteq> [] \<and> list_all (\<lambda>it. 0 < poi_unit_price it) (po_items i d))"
  by (intro conjI submit_enabled reject_enabled confirm_enabled)

end
