(* ===== verification/System.thy ===== *)
theory System
  imports Master_View Stock_Correct
begin

text \<open>
  All handlers of the program together: those of the purchase-to-stock flow
  (\<^verbatim>\<open>erp_step\<close>) and the administrative ones (\<^verbatim>\<open>admin_step\<close>).  Either group leaves
  the tables of the other as they are, so what each keeps holds in every run of both.
\<close>

section \<open>The administrative handlers leave the documents and the stock alone\<close>

definition document_view :: "db \<Rightarrow> _" where
  "document_view d = (stock_view d,
     (purchase_requisitions d, purchase_requisition_items d),
     (purchase_orders d, purchase_order_items d, purchase_order_item_sources d),
     (purchase_receipts d, purchase_receipt_items d),
     map (auto_inc d) [T_purchase_requisitions, T_purchase_requisition_items, T_purchase_orders,
       T_purchase_order_items, T_purchase_order_item_sources, T_purchase_receipts,
       T_purchase_receipt_items])"

named_theorems dview \<open>Statements that leave documents and stock alone\<close>

lemma document_view_audit [simp]:
  "document_view (write_audit c a m u n t i no d) = document_view d"
  by (simp add: document_view_def stock_view_def)

lemma dview_number [dview]:
  "next_code k p dt d = (c, d') \<Longrightarrow> document_view d' = document_view d"
  by (auto dest!: next_code_db simp: document_view_def stock_view_def upsert_sequence_def)

lemma dview_insert [dview]:
  "insert_mat r1 d = Inr d' \<Longrightarrow> document_view d' = document_view d"
  "insert_sup r2 d = Inr d' \<Longrightarrow> document_view d' = document_view d"
  "insert_wh r3 d = Inr d' \<Longrightarrow> document_view d' = document_view d"
  "insert_pol r4 d = Inr d' \<Longrightarrow> document_view d' = document_view d"
  "insert_account same r5 d = Inr d' \<Longrightarrow> document_view d' = document_view d"
  "insert_dept same r6 d = Inr d' \<Longrightarrow> document_view d' = document_view d"
  "insert_role r7 d = Inr d' \<Longrightarrow> document_view d' = document_view d"
  "insert_rp r8 d = Inr d' \<Longrightarrow> document_view d' = document_view d"
  "delete_role_row i d = Inr d' \<Longrightarrow> document_view d' = document_view d"
  by (auto simp: insert_mat_def insert_sup_def insert_wh_def insert_pol_def insert_account_def
      insert_dept_def insert_role_def insert_rp_def delete_role_row_def
      document_view_def stock_view_def split: if_splits)

lemma dview_flush [dview]:
  "flush_material m m' d = Inr d' \<Longrightarrow> document_view d' = document_view d"
  "flush_supplier p p' d = Inr d' \<Longrightarrow> document_view d' = document_view d"
  "flush_warehouse w w' d = Inr d' \<Longrightarrow> document_view d' = document_view d"
  "flush_policy q q' d = Inr d' \<Longrightarrow> document_view d' = document_view d"
  "flush_user u u' d = Inr d' \<Longrightarrow> document_view d' = document_view d"
  "flush_department e e' d = Inr d' \<Longrightarrow> document_view d' = document_view d"
  "flush_role l l' d = Inr d' \<Longrightarrow> document_view d' = document_view d"
  by (auto simp: flush_material_def flush_supplier_def flush_warehouse_def flush_policy_def
      flush_user_def flush_department_def flush_role_def document_view_def stock_view_def)

lemma document_view_drop [simp]: "document_view (drop_role_permissions i d) = document_view d"
  by (simp add: drop_role_permissions_def document_view_def stock_view_def)

lemma dview_replace [dview]:
  assumes "replace_permissions i ids s d = Inr d'"
  shows "document_view d' = document_view d"
proof (cases "sort (remdups ids) = []")
  case True
  then show ?thesis using assms by (auto simp: replace_permissions_def)
next
  case False
  then have "rfold (\<lambda>pid. insert_rp (permission_link i pid)) (sort (remdups ids))
      (drop_role_permissions i d) = Inr d'"
    using assms by (simp add: replace_permissions_def Let_def)
  then have "document_view d' = document_view (drop_role_permissions i d)"
    by (rule rfold_same) (rule dview_insert(8))
  then show ?thesis by simp
qed

lemma dview_master:
  "create_material ctx un c1 d = Inr d' \<Longrightarrow> document_view d' = document_view d"
  "update_material ctx un i u1 s d = Inr d' \<Longrightarrow> document_view d' = document_view d"
  "disable_material ctx un i s d = Inr d' \<Longrightarrow> document_view d' = document_view d"
  "enable_material ctx un i s d = Inr d' \<Longrightarrow> document_view d' = document_view d"
  "create_supplier ctx un c2 d = Inr d' \<Longrightarrow> document_view d' = document_view d"
  "update_supplier ctx un i u2 s d = Inr d' \<Longrightarrow> document_view d' = document_view d"
  "disable_supplier ctx un i s d = Inr d' \<Longrightarrow> document_view d' = document_view d"
  "enable_supplier ctx un i s d = Inr d' \<Longrightarrow> document_view d' = document_view d"
  "create_warehouse ctx un c3 d = Inr d' \<Longrightarrow> document_view d' = document_view d"
  "update_warehouse ctx un i u3 s d = Inr d' \<Longrightarrow> document_view d' = document_view d"
  "disable_warehouse ctx un i s d = Inr d' \<Longrightarrow> document_view d' = document_view d"
  "enable_warehouse ctx un i s d = Inr d' \<Longrightarrow> document_view d' = document_view d"
  by (auto simp: create_material_def update_material_def disable_material_def enable_material_def
      material_audit_def create_supplier_def update_supplier_def disable_supplier_def
      enable_supplier_def supplier_audit_def create_warehouse_def update_warehouse_def
      disable_warehouse_def enable_warehouse_def warehouse_audit_def Let_def
      split: prod.splits dest!: dview)

lemma dview_identity:
  "create_policy ctx un c1 s d = Inr d' \<Longrightarrow> document_view d' = document_view d"
  "update_policy ctx un i u1 s d = Inr d' \<Longrightarrow> document_view d' = document_view d"
  "create_user same hash c2 s d = Inr d' \<Longrightarrow> document_view d' = document_view d"
  "update_user hash i u2 s d = Inr d' \<Longrightarrow> document_view d' = document_view d"
  "disable_user i s d = Inr d' \<Longrightarrow> document_view d' = document_view d"
  "create_role c3 s d = Inr d' \<Longrightarrow> document_view d' = document_view d"
  "update_role i u3 s d = Inr d' \<Longrightarrow> document_view d' = document_view d"
  "delete_role i s d = Inr d' \<Longrightarrow> document_view d' = document_view d"
  "assign_permissions ctx u i ids s d = Inr d' \<Longrightarrow> document_view d' = document_view d"
  "create_department same c4 s d = Inr d' \<Longrightarrow> document_view d' = document_view d"
  "update_department i u4 s d = Inr d' \<Longrightarrow> document_view d' = document_view d"
  "disable_department i s d = Inr d' \<Longrightarrow> document_view d' = document_view d"
  by (auto simp: create_policy_def update_policy_def policy_audit_def create_user_def update_user_def
      disable_user_def create_role_def update_role_def delete_role_def assign_permissions_def
      create_department_def update_department_def disable_department_def Let_def
      split: if_splits dest!: dview)

lemma dview_login: "login env ctx n p s d = (res, d') \<Longrightarrow> document_view d' = document_view d"
  by (auto simp: login_def Let_def split: option.splits if_splits sum.splits dest!: dview)

lemma admin_step_documents: "admin_step same d d' \<Longrightarrow> document_view d' = document_view d"
  by (erule admin_step.cases; hypsubst) (erule dview_master dview_identity dview_login)+

lemma document_view_stock: "document_view d' = document_view d \<Longrightarrow> stock_view d' = stock_view d"
  by (simp add: document_view_def)

section \<open>Runs of the whole program\<close>

inductive sys_step ::
    "(string \<Rightarrow> string \<Rightarrow> bool) \<Rightarrow> (item_stmt list \<Rightarrow> item_stmt list) \<Rightarrow> (rci_stmt list \<Rightarrow> rci_stmt list)
     \<Rightarrow> db \<Rightarrow> db \<Rightarrow> db \<Rightarrow> bool"
  for same uowp uowc s d where
  sys_erp: "erp_step uowp uowc s d d' \<Longrightarrow> sys_step same uowp uowc s d d'"
| sys_admin: "admin_step same d d' \<Longrightarrow> sys_step same uowp uowc s d d'"
| sys_idle: "sys_step same uowp uowc s d d"

inductive sys_run ::
    "(string \<Rightarrow> string \<Rightarrow> bool) \<Rightarrow> (item_stmt list \<Rightarrow> item_stmt list) \<Rightarrow> (rci_stmt list \<Rightarrow> rci_stmt list)
     \<Rightarrow> db \<Rightarrow> db list \<Rightarrow> bool"
  for same uowp uowc d0 where
  sys_start: "sys_run same uowp uowc d0 [d0]"
| sys_next: "sys_run same uowp uowc d0 (d # h) \<Longrightarrow> s \<in> set (d # h) \<Longrightarrow>
    sys_step same uowp uowc s d d' \<Longrightarrow> sys_run same uowp uowc d0 (d' # d # h)"

lemma sys_step_books:
  assumes "sys_step same uowp uowc s d d'" "books_ok d" "books_ok s" "knows s d"
    and uow: "\<And>sts. set (uowc sts) \<subseteq> set sts"
  shows "books_ok d' \<and> knows d d' \<and> ledger_prefix d d'"
  using assms(1)
proof cases
  case sys_erp
  show ?thesis
    using erp_step_books[OF sys_erp assms(2-4) uow] erp_step_ledger[OF sys_erp assms(2,3)] by simp
next
  case sys_admin
  have v: "stock_view d' = stock_view d"
    by (rule document_view_stock[OF admin_step_documents[OF sys_admin]])
  then have "ledger_prefix d d'" by (simp add: stock_view_def ledger_prefix_same)
  then show ?thesis by (intro conjI view_step[OF v assms(2)])
next
  case sys_idle
  then show ?thesis using assms(2) by (simp add: knows_refl ledger_prefix_same)
qed

lemma sys_run_books:
  assumes "sys_run same uowp uowc d0 h" "books_ok d0" and uow: "\<And>sts. set (uowc sts) \<subseteq> set sts"
  shows "h \<noteq> [] \<and> (\<forall>s\<in>set h. books_ok s \<and> knows s (hd h) \<and> ledger_prefix s (hd h))"
  using assms(1)
proof induction
  case sys_start
  then show ?case using assms(2) by (simp add: knows_refl ledger_prefix_same)
next
  case (sys_next d h s d')
  have "books_ok d" "books_ok s" "knows s d" using sys_next.IH sys_next.hyps(2) by auto
  from sys_step_books[OF sys_next.hyps(3) this uow]
  have n: "books_ok d'" "knows d d'" "ledger_prefix d d'" by auto
  have "books_ok x \<and> knows x d' \<and> ledger_prefix x d'" if "x \<in> set (d # h)" for x
    using sys_next.IH that knows_trans[OF _ n(2)] ledger_prefix_trans[OF _ n(3)] by auto
  then show ?case using n(1) by (auto simp: knows_refl ledger_prefix_same)
qed

section \<open>Identity of the administrative rows\<close>

text \<open>The keys and codes of the six tables: which rows exist, and that none is there twice.\<close>

definition records_ok :: "db \<Rightarrow> bool" where
  "records_ok d \<longleftrightarrow> ids_ok mat_id mat_material_code (auto_inc d T_materials) (materials d)
    \<and> ids_ok sup_id sup_supplier_code (auto_inc d T_suppliers) (suppliers d)
    \<and> ids_ok wh_id wh_warehouse_code (auto_inc d T_warehouses) (warehouses d)
    \<and> ids_ok pol_id policy_pair (auto_inc d T_inventory_policies) (inventory_policies d)
    \<and> ids_ok user_id user_username (auto_inc d T_users) (users d)
    \<and> ids_ok dept_id dept_code (auto_inc d T_departments) (departments d)"

definition records_kept :: "db \<Rightarrow> db \<Rightarrow> bool" where
  "records_kept d d' \<longleftrightarrow>
      prefix (identities mat_id mat_material_code (materials d)) (identities mat_id mat_material_code (materials d'))
    \<and> prefix (identities sup_id sup_supplier_code (suppliers d)) (identities sup_id sup_supplier_code (suppliers d'))
    \<and> prefix (identities wh_id wh_warehouse_code (warehouses d)) (identities wh_id wh_warehouse_code (warehouses d'))
    \<and> prefix (identities pol_id policy_pair (inventory_policies d)) (identities pol_id policy_pair (inventory_policies d'))
    \<and> prefix (identities user_id user_username (users d)) (identities user_id user_username (users d'))
    \<and> prefix (identities dept_id dept_code (departments d)) (identities dept_id dept_code (departments d'))"

lemma sys_step_grows:
  assumes "sys_step same uowp uowc s d d'" and "\<And>x. same x x"
  shows "admin_grows d d'"
  using assms(1)
proof cases
  case sys_erp
  then have "identity_view d' = identity_view d"
    using erp_step_master by (fastforce simp: master_view_def)
  moreover have "admin_grows d d" by (simp add: admin_grows_def grows_defs)
  ultimately show ?thesis using identity_view_grows by blast
next
  case sys_admin
  then show ?thesis by (rule admin_step_grows) (rule assms(2))
next
  case sys_idle
  then show ?thesis by (simp add: admin_grows_def grows_defs)
qed

text \<open>The interface of the tables that are never deleted from, on the six of them.\<close>

interpretation material_table: identity_table materials mat_id mat_material_code T_materials admin_grows
  by unfold_locales (simp add: admin_grows_def grows_defs)

interpretation supplier_table: identity_table suppliers sup_id sup_supplier_code T_suppliers admin_grows
  by unfold_locales (simp add: admin_grows_def grows_defs)

interpretation warehouse_table: identity_table warehouses wh_id wh_warehouse_code T_warehouses admin_grows
  by unfold_locales (simp add: admin_grows_def grows_defs)

interpretation policy_table: identity_table inventory_policies pol_id policy_pair T_inventory_policies admin_grows
  by unfold_locales (simp add: admin_grows_def grows_defs)

interpretation user_table: identity_table users user_id user_username T_users admin_grows
  by unfold_locales (simp add: admin_grows_def grows_defs)

interpretation dept_table: identity_table departments dept_id dept_code T_departments admin_grows
  by unfold_locales (simp add: admin_grows_def grows_defs)

lemma records_kept_refl [simp]: "records_kept d d"
  by (simp add: records_kept_def)

lemma records_kept_trans: "\<lbrakk>records_kept a b; records_kept b c\<rbrakk> \<Longrightarrow> records_kept a c"
  unfolding records_kept_def by (meson prefix_order.order_trans)

lemma step_records:
  assumes "admin_grows d d'" and "records_ok d"
  shows "records_ok d' \<and> records_kept d d'"
  using material_table.step_identities[OF assms(1)] supplier_table.step_identities[OF assms(1)]
    warehouse_table.step_identities[OF assms(1)] policy_table.step_identities[OF assms(1)]
    user_table.step_identities[OF assms(1)] dept_table.step_identities[OF assms(1)] assms(2)
  unfolding records_ok_def records_kept_def by blast

lemma sys_run_records:
  assumes "sys_run same uowp uowc d0 h" "records_ok d0" and "\<And>x. same x x"
  shows "h \<noteq> [] \<and> (\<forall>s\<in>set h. records_ok s \<and> records_kept s (hd h))"
  using assms(1)
proof induction
  case sys_start
  then show ?case using assms(2) by simp
next
  case (sys_next d h s d')
  have "records_ok d" using sys_next.IH by simp
  then have n: "records_ok d'" "records_kept d d'"
    using step_records[OF sys_step_grows[OF sys_next.hyps(3) assms(3)]] by auto
  have "records_ok x \<and> records_kept x d'" if "x \<in> set (d # h)" for x
    using sys_next.IH that records_kept_trans[OF _ n(2)] by auto
  then show ?case using n(1) by auto
qed

end
