(* ===== verification/Dashboard_Correct.thy ===== *)
theory Dashboard_Correct
  imports Dashboard Example
begin

text \<open>
  The dashboard against the list pages, the trend as a complete calendar, and the
  document number that the ledger views attach to a row.
\<close>

section \<open>Low stock\<close>

lemma low_joined_eq:
  assumes "stock_refs_ok s"
  shows "length (low_stock_joined s)
    = length (filter (\<lambda>b. below_safety b (safety_of s b)) (inventory_balances s))"
proof -
  have one: "length (filter (\<lambda>p. ib_quantity b < pol_safety_stock p) (policies_of b s))
      = (if below_safety b (safety_of s b) then 1 else 0)"
    if b: "b \<in> set (inventory_balances s)" for b
  proof -
    obtain ss where ss: "outer_safety b s = [ss]" using joined_one[OF assms b] by blast
    then have "policies_of b s = [] \<and> ss = None \<or> (\<exists>p. policies_of b s = [p] \<and> ss = Some (pol_safety_stock p))"
      by (auto simp: outer_safety_def split: list.splits)
    then show ?thesis using ss by (auto simp: safety_of_def below_safety_def)
  qed
  have "length (filter (\<lambda>(b, p). ib_quantity b < pol_safety_stock p)
      (concat (map (\<lambda>b. map (\<lambda>p. (b, p)) (policies_of b s)) bs)))
      = length (filter (\<lambda>b. below_safety b (safety_of s b)) bs)"
    if "set bs \<subseteq> set (inventory_balances s)" for bs
    using that by (induction bs) (simp_all add: one comp_def)
  then show ?thesis by (simp add: low_stock_joined_def)
qed

lemma low_rows_length:
  assumes "stock_refs_ok s"
  shows "length (low_stock_rows s) = length (low_stock_joined s)"
proof -
  have one: "length (concat (map (\<lambda>w. concat (map (\<lambda>m. map (f b w m)
        (filter (\<lambda>p. ib_quantity b < pol_safety_stock p) (policies_of b s))) (materials_of b s)))
        (warehouses_of b s)))
      = length (filter (\<lambda>(b, p). ib_quantity b < pol_safety_stock p) (map (\<lambda>p. (b, p)) (policies_of b s)))"
    if "b \<in> set (inventory_balances s)" for b and f :: "_ \<Rightarrow> _ \<Rightarrow> _ \<Rightarrow> _ \<Rightarrow> low_stock_row"
    using joined_one[OF assms that] by (auto simp: filter_map comp_def)
  have "length (concat (map (\<lambda>b. concat (map (\<lambda>w. concat (map (\<lambda>m. map (f b w m)
        (filter (\<lambda>p. ib_quantity b < pol_safety_stock p) (policies_of b s))) (materials_of b s)))
        (warehouses_of b s))) bs))
      = length (filter (\<lambda>(b, p). ib_quantity b < pol_safety_stock p)
          (concat (map (\<lambda>b. map (\<lambda>p. (b, p)) (policies_of b s)) bs)))"
    if "set bs \<subseteq> set (inventory_balances s)"
    for bs and f :: "_ \<Rightarrow> _ \<Rightarrow> _ \<Rightarrow> _ \<Rightarrow> low_stock_row"
    using that by (induction bs) (simp_all add: one)
  then show ?thesis by (simp add: low_stock_rows_def low_stock_joined_def)
qed

definition no_balance_filter :: balance_filter where
  "no_balance_filter = \<lparr>bf_warehouse_id = None, bf_material_id = None, bf_material_code = None,
    bf_material_name = None, bf_below_safety_stock = None\<rparr>"

definition no_pr_filter :: pr_filter where
  "no_pr_filter = \<lparr>prf_pr_no = None, prf_applicant = None, prf_department_id = None,
    prf_status = None, prf_apply_date_from = None, prf_apply_date_to = None\<rparr>"

definition no_po_filter :: po_filter where
  "no_po_filter = \<lparr>pof_po_no = None, pof_supplier_id = None, pof_status = None,
    pof_order_date_from = None, pof_order_date_to = None\<rparr>"

lemma low_stock_total:
  assumes "stock_refs_ok s"
  shows "snd (list_balances contains page n (no_balance_filter\<lparr>bf_below_safety_stock := Some True\<rparr>) s)
    = length (low_stock_joined s)"
proof -
  have m: "balance_row_matches contains (no_balance_filter\<lparr>bf_below_safety_stock := Some True\<rparr>)
      (b, w, mt, ss) = below_safety b ss" for b w mt ss
    by (simp add: balance_row_matches_def no_balance_filter_def opt_cond_def text_cond_def)
  show ?thesis
    by (simp add: list_balances_def balances_total[OF assms] joined_eq[OF assms] filter_map
        comp_def m low_joined_eq[OF assms])
qed

section \<open>Order states\<close>

lemma distribution_eq:
  assumes "has_perm u ''po:view''"
  shows "po_status_distribution s u = map (\<lambda>st. (st, length (filter (\<lambda>po. po_status po = st)
    (filter (\<lambda>po. visible_po (pc_user u) s (po_id po)) (purchase_orders s))))) ALL_PO_STATUS"
  using assms by (simp add: po_status_distribution_def Let_def map_of_group_default)

lemma all_po_status: "distinct ALL_PO_STATUS" "st \<in> set ALL_PO_STATUS"
  by (simp_all add: ALL_PO_STATUS_def, cases st, simp_all)

lemma po_total:
  "snd (list_pos contains u page n (no_po_filter\<lparr>pof_status := st\<rparr>) s)
    = length (filter (\<lambda>po. opt_cond (\<lambda>x. po_status po = x) st)
        (filter (\<lambda>po. visible_po u s (po_id po)) (purchase_orders s)))"
  by (simp add: list_pos_def po_matches_def no_po_filter_def opt_cond_def text_cond_def conj_commute Let_def)

lemma filter_two:
  "a \<noteq> b \<Longrightarrow> length (filter (\<lambda>x. f x \<in> {a, b} \<and> p x) xs)
    = length (filter (\<lambda>x. f x = a) (filter p xs)) + length (filter (\<lambda>x. f x = b) (filter p xs))"
  by (induction xs) auto

section \<open>The trend\<close>

lemma trend_point:
  "(case map_of (trend_groups rows) d of None \<Rightarrow> (0, 0) | Some v \<Rightarrow> v)
    = (length (filter (\<lambda>pr. pr_apply_date pr = d) rows),
       sum_list (map pr_total_estimated_amount (filter (\<lambda>pr. pr_apply_date pr = d) rows)))"
  unfolding trend_groups_def by (rule map_of_group_default) simp

text \<open>The days of the window, and that they are all the days between its ends.\<close>

definition window :: "nat \<Rightarrow> date \<Rightarrow> date list" where
  "window days today = map (\<lambda>n. add_days n (sub_days (days - 1) today)) [0..<days]"

lemma window_start:
  assumes "valid_date today" "0 < days" "0 < year (sub_days (days - 1) today)"
  shows "valid_date (sub_days (days - 1) today)" "add_days (days - 1) (sub_days (days - 1) today) = today"
    "distinct (window days today)"
proof -
  show v: "valid_date (sub_days (days - 1) today)" by (rule sub_days_valid[OF assms(1)])
  show "add_days (days - 1) (sub_days (days - 1) today) = today" by (rule add_sub_days[OF assms(1,3)])
  have "a = b" if "add_days a (sub_days (days - 1) today) = add_days b (sub_days (days - 1) today)" for a b
    using add_days_strict[OF v, of a b] add_days_strict[OF v, of b a] that
    by (metis less_irrefl linorder_neqE_nat)
  then show "distinct (window days today)" by (auto simp: window_def distinct_map inj_on_def)
qed

lemma window_all:
  assumes "valid_date today" "0 < days" "0 < year (sub_days (days - 1) today)"
    and "valid_date e" "sub_days (days - 1) today \<le> e" "e \<le> today"
  shows "e \<in> set (window days today)"
proof -
  have "\<exists>k\<le>days - 1. e = add_days k (sub_days (days - 1) today)"
    using day_in_interval[OF window_start(1)[OF assms(1-3)] assms(4,5)] window_start(2)[OF assms(1-3)] assms(6)
    by simp
  then show ?thesis using assms(2) by (auto simp: window_def)
qed

lemma trend_eq:
  assumes "has_perm u ''pr:view''"
  shows "pr_trend today days s u =
    map (\<lambda>d. (d, length (filter (\<lambda>pr. pr_apply_date pr = d) (trend_rows s u (sub_days (days - 1) today) today)),
      sum_list (map pr_total_estimated_amount (filter (\<lambda>pr. pr_apply_date pr = d)
        (trend_rows s u (sub_days (days - 1) today) today))))) (window days today)"
  using assms by (simp add: pr_trend_def Let_def trend_point window_def comp_def)

lemma trend_sums:
  assumes "has_perm u ''pr:view''"
    and "valid_date today" "0 < days" "0 < year (sub_days (days - 1) today)"
    and "list_all (\<lambda>pr. valid_date (pr_apply_date pr)) (purchase_requisitions s)"
  shows "sum_list (map (\<lambda>p. fst (snd p)) (pr_trend today days s u))
      = length (trend_rows s u (sub_days (days - 1) today) today)"
    "sum_list (map (\<lambda>p. snd (snd p)) (pr_trend today days s u))
      = sum_list (map pr_total_estimated_amount (trend_rows s u (sub_days (days - 1) today) today))"
proof -
  have c: "pr_apply_date pr \<in> set (window days today)"
    if "pr \<in> set (trend_rows s u (sub_days (days - 1) today) today)" for pr
    using that assms(5) by (intro window_all[OF assms(2-4)]) (auto simp: trend_rows_def list_all_iff)
  show "sum_list (map (\<lambda>p. fst (snd p)) (pr_trend today days s u))
      = length (trend_rows s u (sub_days (days - 1) today) today)"
    unfolding trend_eq[OF assms(1)] map_map comp_def fst_conv snd_conv
    by (rule sum_counts[OF window_start(3)[OF assms(2-4)]]) (rule c)
  show "sum_list (map (\<lambda>p. snd (snd p)) (pr_trend today days s u))
      = sum_list (map pr_total_estimated_amount (trend_rows s u (sub_days (days - 1) today) today))"
    unfolding trend_eq[OF assms(1)] map_map comp_def fst_conv snd_conv
    by (rule sum_amounts[OF window_start(3)[OF assms(2-4)]]) (rule c)
qed

section \<open>Document numbers of ledger rows\<close>

lemma receipt_number_found:
  assumes "get_rcv s i = Some r" "i \<in> set ids"
  shows "map_of (receipt_numbers s ids) i = Some (rcv_receipt_no r)"
proof -
  have "map_of (map (\<lambda>r. (rcv_id r, rcv_receipt_no r)) (filter (\<lambda>r. rcv_id r \<in> set ids) rows)) i
      = Some (rcv_receipt_no r)"
    if "row_by rcv_id i rows = Some r" for rows
    using that assms(2) by (induction rows) (auto split: if_splits)
  then show ?thesis using assms(1) by (simp add: receipt_numbers_def get_rcv_def)
qed

section \<open>Example\<close>

definition ex_principal_view :: "nat \<Rightarrow> role_code \<Rightarrow> nat \<Rightarrow> principal" where
  "ex_principal_view i c r = \<lparr>pc_user = ex_principal i c r,
    pc_permissions = [''pr:view'', ''po:view'', ''inventory:view'', ''dashboard:view'']\<rparr>"

definition ex_low_db :: db where
  "ex_low_db = ex_received_db\<lparr>inventory_policies := [\<lparr>pol_id = 1, pol_warehouse_id = 1,
    pol_material_id = 1, pol_safety_stock = 5, pol_min_stock = None, pol_max_stock = None,
    pol_reorder_point = None, pol_remark = None\<rparr>]\<rparr>"

definition ex_count_txn :: inventory_transaction where
  "ex_count_txn = (ex_txn 2 1 1 10)\<lparr>it_transaction_type := ADJUST_IN,
    it_source_type := Some SRC_STOCK_RECONCILIATION, it_source_item_id := None\<rparr>"

section \<open>Properties\<close>





text \<open>
  The ledger page and the activity list look the document number up by the source
  key alone: a row that comes from another kind of document with the same key, such as a
  stock count, is shown with the number of the receipt.
\<close>

theorem foreign_receipt_number:
  assumes "t \<in> set rows" "it_source_type t \<in> set RECEIPT_SOURCES" "it_source_id t = Some i" "0 < i"
    and "get_rcv s i = Some r" and "it_source_id t' = Some i"
  shows "reference_of s rows t' = Some (rcv_receipt_no r)
    \<and> activity_reference s rows t' = Some (rcv_receipt_no r)"
proof -
  have "i \<in> set (receipt_keys rows)" "i \<in> set (activity_receipt_keys rows)"
    using assms(1-4) by (force simp: receipt_keys_def activity_receipt_keys_def)+
  then show ?thesis
    using receipt_number_found[OF assms(5)] assms(4,6)
    by (simp add: reference_of_def activity_reference_def)
qed

theorem foreign_receipt_number_witness:
  "it_source_type ex_count_txn = Some SRC_STOCK_RECONCILIATION
   \<and> reference_of ex_received_db [ex_count_txn, ex_txn 1 1 4 10] ex_count_txn
     = Some ''RCV-00260831-0001''"
proof
  show "it_source_type ex_count_txn = Some SRC_STOCK_RECONCILIATION" by (simp add: ex_count_txn_def)
  have "get_rcv ex_received_db 1 = Some (ex_receipt RCV_POSTED)"
    by (simp add: get_rcv_def ex_received_db_def ex_receipt_def)
  from foreign_receipt_number[OF _ _ _ _ this, of "ex_txn 1 1 4 10" "[ex_count_txn, ex_txn 1 1 4 10]" ex_count_txn]
  show "reference_of ex_received_db [ex_count_txn, ex_txn 1 1 4 10] ex_count_txn
     = Some ''RCV-00260831-0001''"
    by (simp add: ex_txn_def ex_count_txn_def RECEIPT_SOURCES_def ex_receipt_def)
qed

end
