(* ===== verification/Api_Correct.thy ===== *)
theory Api_Correct
  imports Api_Views System Dashboard_Correct
begin

text \<open>
  The interface as a whole: who may change anything, what a refused request leaves
  behind, and what every sequence of requests keeps.
\<close>

section \<open>Guards\<close>

lemma guarded_Inr [rsimps]:
  "guarded rq c valid h s = Inr x \<longleftrightarrow>
    (\<exists>u. get_current_user (hr_security rq) (rq_now (hr_ctx rq)) (hr_credentials rq) s = Inr u
       \<and> c \<in> set (get_role_permissions s (cu_role_id u)) \<and> valid \<and> h u = Inr x)"
  by (auto simp: guarded_def require_perm_def)

text \<open>Every endpoint is the guard of the access matrix around its service.\<close>

lemma dispatch_guarded:
  "\<exists>h. dispatch fo rq req s d = guarded rq (request_permission req) (request_valid req) h s"
  by (cases req) (auto simp: endpoint_defs)

lemma dispatch_step:
  assumes "dispatch fo rq req s d = Inr d'"
  shows "sys_step (se_same (hr_security rq)) (fo_pr fo) (fo_count fo) s d d'"
  using assms
  by (cases req)
    (auto simp: endpoint_defs guarded_Inr intro: erp_step.intros[THEN sys_erp] admin_step.intros[THEN sys_admin])

lemma get_current_user_InrD:
  assumes "get_current_user env now cr s = Inr u"
  shows "\<exists>token p usr. extract_token cr = Inr token \<and> decode_access_token env now token = Inr p
    \<and> cl_sub p = Some (user_username usr) \<and> cl_uid p = Some (user_id usr)
    \<and> usr \<in> set (users s) \<and> user_status usr = USER_ACTIVE \<and> u = principal_of s usr"
proof -
  obtain token p where t: "extract_token cr = Inr token" "decode_access_token env now token = Inr p"
    and m: "(case (cl_sub p, cl_uid p) of
      (Some sub, Some uid) \<Rightarrow>
        if sub = [] \<or> uid = 0 then Inl (raise_class UnauthorizedException)
        else (case get_user s uid of
            None \<Rightarrow> Inl (raise_class UnauthorizedException)
          | Some u \<Rightarrow>
              if user_username u \<noteq> sub then Inl (raise_class UnauthorizedException)
              else if user_status u \<noteq> USER_ACTIVE then Inl (raise_class ForbiddenException)
              else Inr (principal_of s u))
    | _ \<Rightarrow> Inl (raise_class UnauthorizedException)) = Inr u"
    using assms by (auto simp: get_current_user_def)
  obtain sub uid where c: "cl_sub p = Some sub" "cl_uid p = Some uid"
    using m by (cases "cl_sub p"; cases "cl_uid p") auto
  obtain usr where g: "get_user s uid = Some usr"
    using m c by (cases "get_user s uid") (auto split: if_splits)
  then have "usr \<in> set (users s)" "user_id usr = uid"
    by (auto simp: get_user_def dest: row_by_SomeD)
  moreover have "user_username usr = sub" "user_status usr = USER_ACTIVE" "u = principal_of s usr"
    using m c g by (auto split: if_splits)
  ultimately show ?thesis using t c by blast
qed

lemma get_current_user_status:
  assumes "get_current_user env now cr s = Inl e"
  shows "resp_status (handle_error is_integrity_error e) \<in> {401, 403}"
proof -
  have "e \<in> {raise_class UnauthorizedException, raise_class ForbiddenException}"
    using assms
    by (auto simp: get_current_user_def extract_token_def decode_access_token_def rbind_eq_Inl
        split: option.splits if_splits)
  then show ?thesis by (auto simp: raise_class_def)
qed

lemma get_role_permissions_iff:
  "c \<in> set (get_role_permissions s r) \<longleftrightarrow> (\<exists>p\<in>set (permissions s). \<exists>l\<in>set (role_permissions s).
    rp_role_id l = r \<and> rp_permission_id l = perm_id p \<and> perm_code p = c)"
  by (auto simp: get_role_permissions_def; metis)

section \<open>Runs of requests\<close>

inductive api_step ::
    "(string \<Rightarrow> string \<Rightarrow> bool) \<Rightarrow> flush_order \<Rightarrow> db \<Rightarrow> db \<Rightarrow> db \<Rightarrow> bool"
  for same fo s d where
  api_request: "serve is_integrity_error fo rq req s d = (answer, d') \<Longrightarrow>
    se_same (hr_security rq) = same \<Longrightarrow> api_step same fo s d d'"
| api_login: "login_endpoint is_integrity_error rq username password s d = (answer, d') \<Longrightarrow>
    api_step same fo s d d'"

text \<open>The states after each request, the newest first; a request may have read any of them.\<close>

inductive api_run :: "(string \<Rightarrow> string \<Rightarrow> bool) \<Rightarrow> flush_order \<Rightarrow> db \<Rightarrow> db list \<Rightarrow> bool"
  for same fo d0 where
  api_start: "api_run same fo d0 [d0]"
| api_next: "api_run same fo d0 (d # h) \<Longrightarrow> s \<in> set (d # h) \<Longrightarrow> api_step same fo s d d' \<Longrightarrow>
    api_run same fo d0 (d' # d # h)"

lemma api_step_sys:
  assumes "api_step same fo s d d'"
  shows "sys_step same (fo_pr fo) (fo_count fo) s d d'"
  using assms
proof cases
  case (api_request ise rq req answer)
  then show ?thesis
    using dispatch_step[of fo rq req s d d']
    by (auto simp: serve_def respond_def intro: sys_idle split: sum.splits)
next
  case (api_login ise rq username password answer)
  then show ?thesis
    by (auto simp: login_endpoint_def intro: sys_idle sys_admin[OF do_login]
        split: if_splits prod.splits sum.splits)
qed

lemma api_run_sys: "api_run same fo d0 h \<Longrightarrow> sys_run same (fo_pr fo) (fo_count fo) d0 h"
  by (induction rule: api_run.induct) (auto intro: sys_start sys_next api_step_sys)

section \<open>Permission links\<close>

lemma links_inserted:
  assumes "rfold (\<lambda>pid. insert_rp (permission_link i pid)) ids d = Inr d'"
  shows "map (\<lambda>l. (rp_role_id l, rp_permission_id l)) (role_permissions d')
      = map (\<lambda>l. (rp_role_id l, rp_permission_id l)) (role_permissions d) @ map (Pair i) ids
    \<and> permissions d' = permissions d"
  using assms
proof (induction ids arbitrary: d)
  case (Cons x ids)
  then obtain d1 where d1: "insert_rp (permission_link i x) d = Inr d1"
    "rfold (\<lambda>pid. insert_rp (permission_link i pid)) ids d1 = Inr d'" by auto
  have "map (\<lambda>l. (rp_role_id l, rp_permission_id l)) (role_permissions d1)
      = map (\<lambda>l. (rp_role_id l, rp_permission_id l)) (role_permissions d) @ [(i, x)]"
    "permissions d1 = permissions d"
    using d1(1) by (auto simp: insert_rp_def permission_link_def split: if_splits)
  then show ?case using Cons.IH[OF d1(2)] by simp
qed simp

lemma role_ids_of_pairs:
  "role_permission_ids d r = map snd (filter (\<lambda>p. fst p = r)
    (map (\<lambda>l. (rp_role_id l, rp_permission_id l)) (role_permissions d)))"
  by (simp add: role_permission_ids_def filter_map comp_def)

lemma replace_permissions_ids:
  assumes "replace_permissions i ids s d = Inr d'"
  shows "role_permission_ids d' i = sort (remdups ids)
    \<and> (r \<noteq> i \<longrightarrow> role_permission_ids d' r = role_permission_ids d r)
    \<and> permissions d' = permissions d"
proof -
  let ?pairs = "\<lambda>d. map (\<lambda>l. (rp_role_id l, rp_permission_id l)) (role_permissions d)"
  have dropped: "?pairs (drop_role_permissions i d) = filter (\<lambda>p. fst p \<noteq> i) (?pairs d)"
    "permissions (drop_role_permissions i d) = permissions d"
    by (simp_all add: drop_role_permissions_def filter_map comp_def)
  have "?pairs d' = filter (\<lambda>p. fst p \<noteq> i) (?pairs d) @ map (Pair i) (sort (remdups ids))
    \<and> permissions d' = permissions d"
  proof (cases "sort (remdups ids) = []")
    case True
    then have "d' = drop_role_permissions i d" using assms by (simp add: replace_permissions_def)
    then show ?thesis using dropped True by simp
  next
    case False
    then have "rfold (\<lambda>pid. insert_rp (permission_link i pid)) (sort (remdups ids))
        (drop_role_permissions i d) = Inr d'"
      using assms by (simp add: replace_permissions_def Let_def)
    from links_inserted[OF this] show ?thesis by (simp only: dropped)
  qed
  then show ?thesis
    unfolding role_ids_of_pairs
    by (auto simp: filter_map comp_def intro!: arg_cong[where f = "map rp_permission_id"] filter_cong)
qed

section \<open>Pages\<close>

lemma pages_enough: "0 < n \<Longrightarrow> m \<le> (m + n - 1) div n * n" for m n :: nat
proof -
  assume n: "0 < n"
  have "(m + n - 1) div n * n + (m + n - 1) mod n = m + n - 1" by simp
  moreover have "(m + n - 1) mod n < n" using n by simp
  ultimately show ?thesis using n by linarith
qed

section \<open>Example\<close>

text \<open>An interface whose tokens name the account, and a database whose administrator may create warehouses.\<close>

definition ex_claims :: "string \<Rightarrow> nat \<Rightarrow> claims" where
  "ex_claims name i = \<lparr>cl_sub = Some name, cl_uid = Some i, cl_role = None,
    cl_iat = DateTime (Date 26 9 1) 0, cl_exp = DateTime (Date 26 9 2) 0\<rparr>"

definition ex_security :: security_env where
  "ex_security = \<lparr>se_verify = (\<lambda>plain hashed. Some (plain = hashed)),
    se_encode = (\<lambda>c. the (cl_sub c)),
    se_decode = (\<lambda>now t. if t = ''admin'' then Some (ex_claims t 1) else None),
    se_expire_minutes = 60, se_same = (=)\<rparr>"

definition ex_request :: http_request where
  "ex_request = \<lparr>hr_security = ex_security, hr_hash = id, hr_ctx = ex_ctx,
    hr_credentials = Some \<lparr>cr_scheme = ''Bearer'', cr_token = ''admin''\<rparr>\<rparr>"

definition ex_flush :: flush_order where
  "ex_flush = \<lparr>fo_pr = id, fo_count = id\<rparr>"

definition ex_api_db :: db where
  "ex_api_db = ex_open_db\<lparr>permissions := [\<lparr>perm_id = 1, perm_code = ''warehouse:create'',
    perm_name = ''p'', perm_module = ''warehouse''\<rparr>],
    materials := [ex_material 1, (ex_material 2)\<lparr>mat_material_code := ''MAT2''\<rparr>]\<rparr>"

definition ex_warehouse :: warehouse_create where
  "ex_warehouse = \<lparr>wc_warehouse_name = ''north'', wc_remark = None\<rparr>"

definition ex_served_db :: db where
  "ex_served_db = committed (dispatch ex_flush ex_request (PostWarehouse ex_warehouse) ex_api_db ex_api_db)"

lemma ex_served:
  "case dispatch ex_flush ex_request (PostWarehouse ex_warehouse) ex_api_db ex_api_db of
     Inl e \<Rightarrow> False | Inr d \<Rightarrow> length (warehouses d) = Suc (length (warehouses ex_api_db))"
  by (simp only: dispatch.simps) code_simp

lemma ex_dispatched: "dispatch ex_flush ex_request (PostWarehouse ex_warehouse) ex_api_db ex_api_db = Inr ex_served_db"
  using ex_served by (auto simp: ex_served_db_def simp del: dispatch.simps split: sum.splits)

lemma ex_api_books: "books_ok ex_api_db"
  by (rule view_step(1)[OF _ ex_open_books]) (simp add: ex_api_db_def stock_view_def)

lemma ex_api_records: "records_ok ex_api_db"
  by code_simp

lemma ex_api_run: "api_run (=) ex_flush ex_api_db [ex_served_db, ex_api_db]"
proof (rule api_next[OF api_start, of ex_api_db])
  have "serve (\<lambda>_. True) ex_flush ex_request (PostWarehouse ex_warehouse) ex_api_db ex_api_db = (OK_RESPONSE, ex_served_db)"
    by (simp only: serve_def ex_dispatched respond_def sum.case)
  moreover have "se_same (hr_security ex_request) = (=)"
    by (simp add: ex_request_def ex_security_def)
  ultimately show "api_step (=) ex_flush ex_api_db ex_api_db ex_served_db" by (rule api_request)
qed simp

definition ex_issued :: claims where
  "ex_issued = \<lparr>cl_sub = Some ''admin'', cl_uid = Some 1, cl_role = Some ROLE_ADMIN,
    cl_iat = DateTime (Date 26 9 1) 1, cl_exp = add_minutes 60 (DateTime (Date 26 9 1) 1)\<rparr>"

definition ex_codec :: security_env where
  "ex_codec = ex_security\<lparr>se_encode := (\<lambda>c. ''t''), se_decode := (\<lambda>now t. Some ex_issued)\<rparr>"

section \<open>Properties\<close>

text \<open>
  C1: in every state that any requests to the interface reach, however they interleave
  and whichever earlier state each has read, the ledger explains all balances, earlier
  ledger rows are still there, and no material, supplier, warehouse, policy,
  user or department has been lost, duplicated or has changed its code.
\<close>

theorem every_run_keeps_books_and_records:
  assumes "api_run same fo d0 (d # h)" "books_ok d0" "records_ok d0" "\<And>x. same x x"
    "\<And>sts. set (fo_count fo sts) \<subseteq> set sts" "s \<in> set (d # h)"
  shows "ledger_account s = balance_account s \<and> stock_ok s
    \<and> (\<exists>ts. inventory_transactions d = inventory_transactions s @ ts)
    \<and> records_ok s \<and> records_kept s d"
proof -
  note run = api_run_sys[OF assms(1)]
  have b: "books_ok s" "ledger_prefix s d" using sys_run_books[OF run assms(2,5)] assms(6) by auto
  have "records_ok s" "records_kept s d" using sys_run_records[OF run assms(3,4)] assms(6) by auto
  moreover have "stock_ok s" "reconciles s" using b(1) by (simp_all add: books_ok_def)
  ultimately show ?thesis
    using b(2) reconcilesD[of s]
    by (simp add: ledger_prefix_iff fun_eq_iff ledger_account_def balance_account_def)
qed

theorem every_run_keeps_books_and_records_witness:
  "records_ok ex_served_db \<and> records_kept ex_api_db ex_served_db
   \<and> length (warehouses ex_served_db) = Suc (length (warehouses ex_api_db))"
proof (intro conjI)
  note t = every_run_keeps_books_and_records[OF ex_api_run ex_api_books ex_api_records]
  have f: "set (fo_count ex_flush sts) \<subseteq> set sts" for sts by (simp add: ex_flush_def)
  show "records_ok ex_served_db" using t[of ex_served_db] f by simp
  show "records_kept ex_api_db ex_served_db" using t[of ex_api_db] f by simp
  show "length (warehouses ex_served_db) = Suc (length (warehouses ex_api_db))"
    using ex_served unfolding ex_dispatched by simp
qed

text \<open>
  C2: a request changes the database only for an active user of the snapshot whose role
  holds the permission of the access matrix for this request, and only with a valid payload.
\<close>

theorem access_control:
  assumes "dispatch fo rq req s d = Inr d'"
  shows "\<exists>usr p l. usr \<in> set (users s) \<and> user_status usr = USER_ACTIVE
    \<and> get_current_user (hr_security rq) (rq_now (hr_ctx rq)) (hr_credentials rq) s = Inr (principal_of s usr)
    \<and> p \<in> set (permissions s) \<and> perm_code p = request_permission req
    \<and> l \<in> set (role_permissions s) \<and> rp_role_id l = user_role_id usr \<and> rp_permission_id l = perm_id p
    \<and> request_valid req"
proof -
  obtain h where "dispatch fo rq req s d = guarded rq (request_permission req) (request_valid req) h s"
    using dispatch_guarded by blast
  then have "guarded rq (request_permission req) (request_valid req) h s = Inr d'" using assms by simp
  then obtain u where u: "get_current_user (hr_security rq) (rq_now (hr_ctx rq)) (hr_credentials rq) s = Inr u"
    "request_permission req \<in> set (get_role_permissions s (cu_role_id u))" "request_valid req"
    unfolding guarded_Inr by blast
  obtain usr where usr: "usr \<in> set (users s)" "user_status usr = USER_ACTIVE" "u = principal_of s usr"
    using get_current_user_InrD[OF u(1)] by blast
  have "cu_role_id u = user_role_id usr" by (simp add: usr(3) principal_of_def)
  then show ?thesis using u usr get_role_permissions_iff by metis
qed

theorem access_control_witness:
  "\<exists>usr. usr \<in> set (users ex_api_db) \<and> user_status usr = USER_ACTIVE
    \<and> get_current_user ex_security (rq_now ex_ctx) (hr_credentials ex_request) ex_api_db
      = Inr (principal_of ex_api_db usr)"
  using access_control[OF ex_dispatched] by (auto simp: ex_request_def)

text \<open>
  C3: a refused request leaves the database as it was: without a valid token the answer
  is 401 or 403, without the permission 403, with an invalid payload 422, in this order of
  tests; and after that an answer other than success comes with the unchanged state.
\<close>

theorem refused_requests_change_nothing:
  "case get_current_user (hr_security rq) (rq_now (hr_ctx rq)) (hr_credentials rq) s of
     Inl e \<Rightarrow> serve ie fo rq req s d = (handle_error ie e, d)
       \<and> resp_status (handle_error ie e) \<in> {401, 403}
   | Inr u \<Rightarrow>
       if request_permission req \<notin> set (get_role_permissions s (cu_role_id u))
       then serve ie fo rq req s d = (\<lparr>resp_status = 403, resp_code = 2005\<rparr>, d)
       else if \<not> request_valid req
       then serve ie fo rq req s d = (\<lparr>resp_status = 422, resp_code = 1001\<rparr>, d)
       else fst (serve ie fo rq req s d) = OK_RESPONSE \<or> snd (serve ie fo rq req s d) = d"
proof -
  obtain h where h: "dispatch fo rq req s d = guarded rq (request_permission req) (request_valid req) h s"
    using dispatch_guarded by blast
  show ?thesis
  proof (cases "get_current_user (hr_security rq) (rq_now (hr_ctx rq)) (hr_credentials rq) s")
    case (Inl e)
    then have "dispatch fo rq req s d = Inl e" by (simp add: h guarded_def)
    then show ?thesis
      using get_current_user_status[OF Inl, of ie] by (simp add: Inl serve_def respond_def)
  next
    case (Inr u)
    then show ?thesis
      by (auto simp: h guarded_def serve_def respond_def require_perm_def check_def raise_class_def
          split: sum.splits)
  qed
qed

text \<open>
  C31: a token that a login has issued identifies, until it expires, exactly the account
  that logged in, with the role it has at that time; as soon as the account is disabled
  every request with the token is refused with 403.
\<close>

theorem login_token_identifies_account:
  assumes "login env ctx username password s d = (Inr (token, secs), d')"
    and "get_user_by_username env username s = Some u" "0 < user_id u" "user_username u \<noteq> []"
    and "c = \<lparr>cl_sub = Some (user_username u), cl_uid = Some (user_id u), cl_role = role_code_of s u,
      cl_iat = rq_now ctx, cl_exp = add_minutes (se_expire_minutes env) (rq_now ctx)\<rparr>"
    and jwt_law: "\<And>t. t < cl_exp c \<Longrightarrow> se_decode env t (se_encode env c) = Some c"
    and "now < cl_exp c"
    and "get_user s' (user_id u) = Some u'" "user_username u' = user_username u"
  shows "verify_password env password (user_password_hash u) \<and> user_status u = USER_ACTIVE
    \<and> get_current_user env now (Some \<lparr>cr_scheme = ''Bearer'', cr_token = token\<rparr>) s' =
      (if user_status u' = USER_ACTIVE then Inr (principal_of s' u')
       else Inl (raise_class ForbiddenException))"
proof -
  have v: "verify_password env password (user_password_hash u)" "user_status u = USER_ACTIVE"
    "token = se_encode env c"
    using assms(1,2,5)
    by (auto simp: login_def Let_def create_access_token_def split: if_splits sum.splits)
  have "decode_access_token env now token = Inr c"
    using jwt_law[OF assms(7)] by (simp add: v(3) decode_access_token_def)
  moreover have "map lower_char ''Bearer'' = ''bearer''" by code_simp
  moreover have "cl_sub c = Some (user_username u)" "cl_uid c = Some (user_id u)" by (simp_all add: assms(5))
  ultimately show ?thesis
    using v(1,2) assms(3,4,8,9) by (simp add: get_current_user_def extract_token_def)
qed

theorem login_token_identifies_account_witness:
  "get_current_user ex_codec (DateTime (Date 26 9 1) 2) (Some \<lparr>cr_scheme = ''Bearer'', cr_token = ''t''\<rparr>) ex_empty
   = Inr (principal_of ex_empty (ex_user 1 ''admin'' 1))"
proof -
  define usr where "usr = ex_user 1 ''admin'' 1"
  have u: "get_user_by_username ex_codec ''admin'' ex_empty = Some usr"
    by (simp add: get_user_by_username_def ex_codec_def ex_security_def ex_empty_def usr_def ex_user_def)
  have p: "verify_password ex_codec ''h'' (user_password_hash usr)" "user_status usr = USER_ACTIVE"
    by (simp_all add: verify_password_def ex_codec_def ex_security_def usr_def ex_user_def)
  have "succeeds (flush_user usr (usr\<lparr>user_last_login_at := Some (rq_now ex_ctx)\<rparr>) ex_empty)" unfolding usr_def by code_simp
  from succeeds_committed[OF this] obtain d1
    where f: "flush_user usr (usr\<lparr>user_last_login_at := Some (rq_now ex_ctx)\<rparr>) ex_empty = Inr d1" by blast
  have e: "create_access_token ex_codec now name i role = ''t''" "se_expire_minutes ex_codec = 60"
    for now name i role
    by (simp_all add: create_access_token_def ex_codec_def ex_security_def)
  obtain d' where l: "login ex_codec ex_ctx ''admin'' ''h'' ex_empty ex_empty = (Inr (''t'', 3600), d')"
    by (simp add: login_def Let_def u p f e)
  have r: "role_code_of ex_empty usr = Some ROLE_ADMIN" unfolding usr_def by code_simp
  have n: "user_username usr = ''admin''" "user_id usr = 1"
    by (simp_all add: usr_def ex_user_def)
  have c: "ex_issued = \<lparr>cl_sub = Some (user_username usr), cl_uid = Some (user_id usr),
      cl_role = role_code_of ex_empty usr, cl_iat = rq_now ex_ctx,
      cl_exp = add_minutes (se_expire_minutes ex_codec) (rq_now ex_ctx)\<rparr>"
    unfolding r n by (simp add: ex_issued_def ex_ctx_def ex_codec_def ex_security_def)
  have law: "se_decode ex_codec t (se_encode ex_codec ex_issued) = Some ex_issued" for t
    by (simp add: ex_codec_def)
  have less: "DateTime (Date 26 9 1) 2 < cl_exp ex_issued"
    by (simp add: ex_issued_def add_minutes_def Let_def less_datetime_def less_eq_datetime_def)
  have g: "get_user ex_empty (user_id usr) = Some usr" unfolding usr_def by code_simp
  have a: "user_status usr = USER_ACTIVE" by (simp add: usr_def ex_user_def)
  from login_token_identifies_account[OF l u _ _ c law less g refl] show ?thesis
    unfolding usr_def[symmetric] by (simp add: n a)
qed

text \<open>
  C32: assigning permissions replaces those of the role by exactly the given ones, each
  once, and leaves every other role as it is.
\<close>

theorem assign_permissions_exact:
  assumes "assign_permissions ctx u i ids s d = Inr d'"
  shows "role_permission_ids d' i = sort (remdups ids)
    \<and> (r = i \<or> role_permission_ids d' r = role_permission_ids d r)
    \<and> permissions d' = permissions d"
proof -
  obtain d1 where d1: "replace_permissions i ids s d = Inr d1"
    "d' = write_audit (bare_ctx ctx) PERMISSION_CHANGE ''rbac'' (Some u) None (Some ''role'') (Some i) None d1"
    using assms by (auto simp: assign_permissions_def read_role_def get_role_def dest!: row_by_SomeD)
  have "role_permissions d' = role_permissions d1" "permissions d' = permissions d1"
    by (simp_all add: d1(2))
  then show ?thesis using replace_permissions_ids[OF d1(1), of r] by (auto simp: role_permission_ids_def)
qed

theorem assign_permissions_exact_witness:
  "role_permission_ids (committed (assign_permissions ex_ctx ex_admin 2 [1, 1] ex_api_db ex_api_db)) 2 = [1]"
proof -
  have "succeeds (assign_permissions ex_ctx ex_admin 2 [1, 1] ex_api_db ex_api_db)" by code_simp
  from assign_permissions_exact[OF succeeds_committed[OF this], of 2] show ?thesis by simp
qed

text \<open>
  C38: the pages of the requisition list, one after the other up to the number of pages
  that the envelope reports, are all visible matching requisitions, each once, the newest first.
\<close>

theorem pages_cover_list:
  assumes "0 < n"
  shows "concat (map (\<lambda>p. fst (list_prs contains u (Suc p) n f s))
      [0..<pg_total_pages (make_page 1 n (list_prs contains u 1 n f s))])
    = rev (sort_key pr_id (filter (\<lambda>pr. visible_pr u s pr \<and> pr_matches contains s f pr)
        (purchase_requisitions s)))"
proof -
  let ?rows = "filter (\<lambda>pr. visible_pr u s pr \<and> pr_matches contains s f pr) (purchase_requisitions s)"
  let ?k = "(length ?rows + n - 1) div n"
  have "length ?rows \<le> ?k * n"
    by (rule pages_enough[OF assms])
  then show ?thesis
    using assms concat_pages[of n "rev (sort_key pr_id ?rows)" ?k]
    by (simp add: list_prs_def make_page_def Let_def)
qed

theorem pages_cover_list_witness:
  "length (concat (map (\<lambda>p. fst (list_prs (=) ex_admin (Suc p) 1 no_pr_filter (ex_pr_db PR_DRAFT)))
      [0..<pg_total_pages (make_page 1 1 (list_prs (=) ex_admin 1 1 no_pr_filter (ex_pr_db PR_DRAFT)))])) = 1"
proof -
  have "length (rev (sort_key pr_id (filter (\<lambda>pr. visible_pr ex_admin (ex_pr_db PR_DRAFT) pr
      \<and> pr_matches (=) (ex_pr_db PR_DRAFT) no_pr_filter pr) (purchase_requisitions (ex_pr_db PR_DRAFT))))) = 1"
    by code_simp
  then show ?thesis by (simp only: pages_cover_list[OF zero_less_one])
qed

end
