(* ===== verification/Master_Correct.thy ===== *)
theory Master_Correct
  imports System
begin

text \<open>
  Two rules of the master data: the thresholds of a stock policy stay in order, and
  a disabled warehouse holds no stock; with the one operation that can break the second.
\<close>

section \<open>Policies\<close>

definition range_ok :: "inventory_policy \<Rightarrow> bool" where
  "range_ok p \<longleftrightarrow> validate_ranges (Some (pol_safety_stock p)) (pol_reorder_point p) (pol_max_stock p) = Inr ()"

lemma validate_ranges_Inr:
  "validate_ranges a b c = Inr () \<longleftrightarrow> \<not> exceeds a b \<and> \<not> exceeds b c \<and> \<not> exceeds a c"
  by (simp add: validate_ranges_def)

lemma exceeds_rounded: "\<not> exceeds a b \<Longrightarrow> \<not> exceeds (map_option column4 a) (map_option column4 b)"
  using quantize_half_up_mono[of _ _ 4]
  by (auto simp: exceeds_def column4_def not_less split: option.splits)

lemma rounded_ranges:
  "validate_ranges a b c = Inr () \<Longrightarrow>
    validate_ranges (map_option column4 a) (map_option column4 b) (map_option column4 c) = Inr ()"
  by (simp add: validate_ranges_Inr exceeds_rounded)

lemma create_policy_ranges:
  assumes "create_policy ctx un data s d = Inr d'" "list_all range_ok (inventory_policies d)"
  shows "list_all range_ok (inventory_policies d')"
  using assms rounded_ranges[of "Some (pc_safety_stock data)" "pc_reorder_point data" "pc_max_stock data"]
  by (auto simp: create_policy_def policy_audit_def insert_pol_def range_ok_def split: if_splits)

lemma update_policy_ranges:
  assumes "update_policy ctx un i data d d = Inr d'" "list_all range_ok (inventory_policies d)"
    and "distinct (map pol_id (inventory_policies d))"
  shows "list_all range_ok (inventory_policies d')"
proof -
  obtain p p' d1 where p: "get_pol d i = Some p"
    and p': "p' = p\<lparr>pol_safety_stock := given (pu_safety_stock data) (pol_safety_stock p),
      pol_reorder_point := given_opt (pu_reorder_point data) (pol_reorder_point p),
      pol_max_stock := given_opt (pu_max_stock data) (pol_max_stock p),
      pol_remark := given_opt (pu_remark data) (pol_remark p)\<rparr>"
    and v: "range_ok p'" and f: "flush_policy p p' d = Inr d1"
    and d': "d' = policy_audit ctx un (pol_id p) d1"
    using assms(1) by (auto simp: update_policy_def load_policy_def Let_def range_ok_def)
  have r: "range_ok (rounded_policy (merge_policy p p' p))"
    using v rounded_ranges[of "Some (pol_safety_stock p')" "pol_reorder_point p'" "pol_max_stock p'"]
    by (simp add: range_ok_def rounded_policy_def merge_policy_def)
  have only: "r = p" if "r \<in> set (inventory_policies d)" "pol_id r = pol_id p" for r
    using that p assms(3) row_by_distinct[of pol_id "inventory_policies d"] row_by_SomeD[of pol_id]
    unfolding get_pol_def by (metis option.inject)
  have rows: "inventory_policies d' = inventory_policies d1" by (simp add: d' policy_audit_def)
  have "inventory_policies d1 = inventory_policies d \<or> inventory_policies d1 =
      update_rows (\<lambda>r. pol_id r = pol_id p) (\<lambda>c. rounded_policy (merge_policy p p' c)) (inventory_policies d)"
    using f by (auto simp: flush_policy_def flush_row_Inr split: if_splits)
  moreover have "\<forall>x\<in>set (update_rows (\<lambda>r. pol_id r = pol_id p)
      (\<lambda>c. rounded_policy (merge_policy p p' c)) (inventory_policies d)). range_ok x"
    unfolding set_update_rows using only r assms(2) by (auto simp: list_all_iff)
  ultimately show ?thesis using assms(2) unfolding rows list_all_iff by auto
qed

section \<open>Warehouses\<close>

definition warehouse_open :: "db \<Rightarrow> nat \<Rightarrow> bool" where
  "warehouse_open d i = (case get_wh d i of None \<Rightarrow> False | Some w \<Rightarrow> wh_status w = ST_ACTIVE)"

definition closed_empty :: "db \<Rightarrow> bool" where
  "closed_empty d = list_all (\<lambda>b. ib_quantity b = 0 \<or> warehouse_open d (ib_warehouse_id b)) (inventory_balances d)"

lemma closed_empty_iff:
  assumes "stock_ok d"
  shows "closed_empty d \<longleftrightarrow> (\<forall>k. balance_quantity d k \<noteq> 0 \<longrightarrow> warehouse_open d (fst k))"
proof
  assume c: "closed_empty d"
  show "\<forall>k. balance_quantity d k \<noteq> 0 \<longrightarrow> warehouse_open d (fst k)"
    using c row_by_SomeD[of key_of_balance _ "inventory_balances d"]
    by (fastforce simp: closed_empty_def list_all_iff balance_quantity_def balance_row_def
        key_of_balance_def split: option.splits)
next
  assume a: "\<forall>k. balance_quantity d k \<noteq> 0 \<longrightarrow> warehouse_open d (fst k)"
  have "balance_quantity d (key_of_balance b) = ib_quantity b" if "b \<in> set (inventory_balances d)" for b
    using that assms by (simp add: balance_quantity_def balance_row_def stock_ok_def row_by_distinct)
  then have "ib_quantity b = 0 \<or> warehouse_open d (ib_warehouse_id b)" if "b \<in> set (inventory_balances d)" for b
    using that a[rule_format, of "key_of_balance b"] by (auto simp: key_of_balance_def)
  then show "closed_empty d" by (simp add: closed_empty_def list_all_iff)
qed

lemma open_after_flush:
  assumes "flush_warehouse w w' d = Inr d1" "distinct (map wh_id (warehouses d))" "get_wh d i = Some w"
    and "wh_id w' = wh_id w" "merge_warehouse w w' w = w'"
  shows "inventory_balances d1 = inventory_balances d"
    and "warehouse_open d1 j = (if j = i then wh_status w' = ST_ACTIVE else warehouse_open d j)"
proof -
  obtain rows' where r: "flush_row wh_id merge_warehouse w w' (warehouses d) = Inr rows'"
    and d1: "d1 = d\<lparr>warehouses := rows'\<rparr>"
    using assms(1) by (auto simp: flush_warehouse_def)
  show "inventory_balances d1 = inventory_balances d" by (simp add: d1)
  obtain rows2 where "flush_row wh_id merge_warehouse w w' (warehouses d) = Inr rows2"
    "row_by wh_id i rows2 = Some w'" "\<forall>j. j \<noteq> i \<longrightarrow> row_by wh_id j rows2 = row_by wh_id j (warehouses d)"
    using flush_row_serial[where key = wh_id and merge = merge_warehouse,
        OF assms(2) assms(3)[unfolded get_wh_def] assms(4,5)] by blast
  then have "get_wh d1 i = Some w'" "j \<noteq> i \<Longrightarrow> get_wh d1 j = get_wh d j"
    using r by (simp_all add: get_wh_def d1)
  then show "warehouse_open d1 j = (if j = i then wh_status w' = ST_ACTIVE else warehouse_open d j)"
    by (simp add: warehouse_open_def)
qed

lemma warehouse_open_audit [simp]:
  "warehouse_open (warehouse_audit ctx ac un i d) j = warehouse_open d j"
  "inventory_balances (warehouse_audit ctx ac un i d) = inventory_balances d"
  by (simp_all add: warehouse_open_def get_wh_def warehouse_audit_def)

lemma create_warehouse_closed:
  assumes "create_warehouse ctx un data d = Inr d'" "closed_empty d"
  shows "closed_empty d'"
proof -
  obtain c d1 where n: "next_code SEQ_WAREHOUSE ''WH'' (rq_today ctx) d = (c, d1)" by fastforce
  then have t: "warehouses d1 = warehouses d" "inventory_balances d1 = inventory_balances d"
    by (auto dest!: next_code_db simp: upsert_sequence_def)
  obtain d2 w where d2: "insert_wh w d1 = Inr d2" "d' = warehouse_audit ctx WAREHOUSE_CREATE un (auto_inc d1 T_warehouses) d2"
    using assms(1) n by (auto simp: create_warehouse_def Let_def)
  have "inventory_balances d2 = inventory_balances d"
    "warehouses d2 = warehouses d @ [w\<lparr>wh_id := auto_inc d1 T_warehouses\<rparr>]"
    using d2(1) t by (auto simp: insert_wh_def split: if_splits)
  then have "inventory_balances d' = inventory_balances d" "warehouse_open d j \<Longrightarrow> warehouse_open d' j" for j
    by (auto simp: d2(2) warehouse_open_def get_wh_def row_by_append warehouse_audit_def split: option.splits)
  then show ?thesis using assms(2) by (auto simp: closed_empty_def list_all_iff)
qed

lemma toggle_warehouse_closed:
  assumes "distinct (map wh_id (warehouses d))" "closed_empty d"
  shows "update_warehouse ctx un i upd d d = Inr d' \<Longrightarrow> closed_empty d'"
    and "disable_warehouse ctx un i d d = Inr d' \<Longrightarrow> closed_empty d'"
    and "enable_warehouse ctx un i d d = Inr d' \<Longrightarrow> closed_empty d'"
proof -
  assume "update_warehouse ctx un i upd d d = Inr d'"
  then obtain w d1 where w: "get_wh d i = Some w"
    and f: "flush_warehouse w (w\<lparr>wh_warehouse_name := given (wu_warehouse_name upd) (wh_warehouse_name w),
        wh_remark := given_opt (wu_remark upd) (wh_remark w)\<rparr>) d = Inr d1"
    and d': "d' = warehouse_audit ctx WAREHOUSE_UPDATE un (wh_id w) d1"
    by (auto simp: update_warehouse_def load_warehouse_def Let_def)
  have "merge_warehouse w (w\<lparr>wh_warehouse_name := given (wu_warehouse_name upd) (wh_warehouse_name w),
        wh_remark := given_opt (wu_remark upd) (wh_remark w)\<rparr>) w
      = w\<lparr>wh_warehouse_name := given (wu_warehouse_name upd) (wh_warehouse_name w),
        wh_remark := given_opt (wu_remark upd) (wh_remark w)\<rparr>"
    by (simp add: merge_warehouse_def)
  note after = open_after_flush[OF f assms(1) w _ this, simplified]
  have "warehouse_open d i = (wh_status w = ST_ACTIVE)" using w by (simp add: warehouse_open_def)
  then have "warehouse_open d' j = warehouse_open d j" "inventory_balances d' = inventory_balances d" for j
    using after(1) after(2)[of j] unfolding d' by simp_all
  then show "closed_empty d'" using assms(2) by (simp add: closed_empty_def)
next
  assume "disable_warehouse ctx un i d d = Inr d'"
  then obtain w d1 where w: "get_wh d i = Some w" and n: "assert_no_stock d i = Inr ()"
    and f: "flush_warehouse w (w\<lparr>wh_status := ST_DISABLED\<rparr>) d = Inr d1"
    and d': "d' = warehouse_audit ctx WAREHOUSE_DISABLE un (wh_id w) d1"
    by (auto simp: disable_warehouse_def load_warehouse_def)
  have e: "\<forall>b\<in>set (inventory_balances d). ib_warehouse_id b = i \<longrightarrow> ib_quantity b = 0"
    using n by (auto simp: assert_no_stock_def filter_empty_conv)
  have "warehouse_open d' j = (j \<noteq> i \<and> warehouse_open d j)" "inventory_balances d' = inventory_balances d" for j
    using open_after_flush(1)[OF f assms(1) w] open_after_flush(2)[OF f assms(1) w, where j = j] by (auto simp: d' merge_warehouse_def)
  then show "closed_empty d'" using assms(2) e by (auto simp: closed_empty_def list_all_iff)
next
  assume "enable_warehouse ctx un i d d = Inr d'"
  then obtain w d1 where w: "get_wh d i = Some w"
    and f: "flush_warehouse w (w\<lparr>wh_status := ST_ACTIVE\<rparr>) d = Inr d1"
    and d': "d' = warehouse_audit ctx WAREHOUSE_ENABLE un (wh_id w) d1"
    by (auto simp: enable_warehouse_def load_warehouse_def)
  have "warehouse_open d' j = (j = i \<or> warehouse_open d j)" "inventory_balances d' = inventory_balances d" for j
    using open_after_flush(1)[OF f assms(1) w] open_after_flush(2)[OF f assms(1) w, where j = j] by (auto simp: d' merge_warehouse_def)
  then show "closed_empty d'" using assms(2) by (auto simp: closed_empty_def list_all_iff)
qed

lemma receipts_open:
  assumes "create_receipt ctx u rcc s d = Inr d' \<or> reverse_receipt ctx u i reason s d = Inr d'"
  shows "warehouse_open d' j = warehouse_open d j"
proof -
  have "master_view d' = master_view d" using assms mview_receipts by blast
  then show ?thesis by (simp add: master_view_def identity_view_def warehouse_open_def get_wh_def)
qed

lemma create_receipt_closed:
  assumes "create_receipt ctx u rcc d d = Inr d'" "stock_ok d" "closed_empty d"
  shows "closed_empty d'"
proof -
  obtain wh where "active_warehouse d (rcc_warehouse_id rcc) = Inr wh"
    by (rule create_receipt_cases[OF assms(1)])
  then have a: "warehouse_open d (rcc_warehouse_id rcc)"
    by (auto simp: active_warehouse_def warehouse_open_def split: option.splits if_splits)
  have "warehouse_open d (fst k)" if "balance_quantity d' k \<noteq> 0" for k
  proof (cases "incoming_quantity d rcc k = 0")
    case True
    then have "balance_quantity d k \<noteq> 0" using that create_receipt_stock(5)[OF assms(1,2)] by simp
    then show ?thesis using assms(3) closed_empty_iff[OF assms(2)] by blast
  next
    case False
    then obtain item where "receipt_key d rcc item = k"
      unfolding incoming_quantity_def by (meson sum_over_none)
    then have "fst k = rcc_warehouse_id rcc" by (auto simp: receipt_key_def)
    then show ?thesis using a by simp
  qed
  moreover have "warehouse_open d' j = warehouse_open d j" for j
    by (rule receipts_open) (use assms(1) in blast)
  ultimately show ?thesis
    using closed_empty_iff[OF create_receipt_stock(1)[OF assms(1,2)]] by simp
qed

lemma reverse_receipt_closed:
  assumes "reverse_receipt ctx u i reason d d = Inr d'" "stock_ok d" "closed_empty d"
    and "list_all ri_checks (purchase_receipt_items d)"
  shows "closed_empty d'"
proof -
  note ok = reverse_receipt_stock(1)[OF assms(1,2,2)]
  have "warehouse_open d (fst k)" if "balance_quantity d' k \<noteq> 0" for k
  proof -
    obtain w where r: "balance_quantity d' k = balance_quantity d k - outgoing_quantity d i w k"
      using reverse_receipt_stock(4)[OF assms(1,2,2), of k] by blast
    have "0 \<le> outgoing_quantity d i w k"
      using assms(4) unfolding outgoing_quantity_def sum_over_def receipt_items_def
      by (intro sum_list_nonneg) (auto simp: list_all_iff ri_checks_def)
    moreover have "0 \<le> balance_quantity d' k"
      using stock_ok_row[OF ok]
      by (cases "balance_row k d'") (auto simp: balance_quantity_def balance_ok_def ib_checks_def)
    ultimately have "balance_quantity d k \<noteq> 0" using r that by fastforce
    then show ?thesis using assms(3) closed_empty_iff[OF assms(2)] by blast
  qed
  moreover have "warehouse_open d' j = warehouse_open d j" for j
    by (rule receipts_open) (use assms(1) in blast)
  ultimately show ?thesis using closed_empty_iff[OF ok] by simp
qed

section \<open>Example\<close>

definition ex_policy_create :: policy_create where
  "ex_policy_create = \<lparr>pc_warehouse_id = 1, pc_material_id = 1, pc_safety_stock = 5,
    pc_reorder_point = Some 8, pc_max_stock = Some 20, pc_remark = None\<rparr>"

definition ex_policy_db :: db where
  "ex_policy_db = committed (create_policy ex_ctx None ex_policy_create ex_empty ex_empty)"

definition ex_lower_max :: policy_update where
  "ex_lower_max = \<lparr>pu_safety_stock = None, pu_reorder_point = None, pu_max_stock = Some 9, pu_remark = None\<rparr>"

definition ex_raise_point :: policy_update where
  "ex_raise_point = \<lparr>pu_safety_stock = None, pu_reorder_point = Some 12, pu_max_stock = None, pu_remark = None\<rparr>"

text \<open>A count of five pieces was submitted for the empty warehouse 1, which was then disabled.\<close>

definition ex_closed_db :: db where
  "ex_closed_db = ex_empty\<lparr>
    warehouses := map (wh_status_update (\<lambda>_. ST_DISABLED)) (warehouses ex_empty),
    stock_reconciliations := [ex_count_row RC_PENDING 2],
    stock_reconciliation_items := [\<lparr>rci_id = 1, rci_reconciliation_id = 1, rci_line_no = 1,
      rci_material_id = 1, rci_book_quantity_snapshot = 0, rci_book_total_amount_snapshot = 0,
      rci_book_avg_cost_snapshot = 0, rci_book_last_transaction_id_snapshot = None,
      rci_physical_quantity = 5, rci_difference_quantity = 5, rci_valuation_rate = Some 10,
      rci_adjustment_amount = 50, rci_remark = None\<rparr>]\<rparr>"

section \<open>Properties\<close>

text \<open>
  C29: a policy that is created or, from its current row, updated has its thresholds in
  order after the columns have rounded them, and so have all other policies:
  safety stock, reorder point and maximum never exceed the next one.
\<close>

theorem policy_ranges_kept:
  assumes "create_policy ctx un data s d = Inr d' \<or> update_policy ctx un i upd d d = Inr d'"
    and "list_all range_ok (inventory_policies d)" "distinct (map pol_id (inventory_policies d))"
  shows "list_all range_ok (inventory_policies d')"
  using assms create_policy_ranges update_policy_ranges by blast

theorem policy_ranges_kept_witness:
  "list_all range_ok (inventory_policies ex_policy_db) \<and> length (inventory_policies ex_policy_db) = 1"
proof
  have "succeeds (create_policy ex_ctx None ex_policy_create ex_empty ex_empty)" by code_simp
  then have "create_policy ex_ctx None ex_policy_create ex_empty ex_empty = Inr ex_policy_db"
    unfolding ex_policy_db_def by (rule succeeds_committed)
  then show "list_all range_ok (inventory_policies ex_policy_db)"
    using policy_ranges_kept[of ex_ctx None ex_policy_create ex_empty ex_empty ex_policy_db 0 ex_lower_max]
    by (simp add: ex_empty_def)
  show "length (inventory_policies ex_policy_db) = 1" by code_simp
qed

text \<open>
  Two updates that have both read the same policy are each in order, and the row they leave is not.
\<close>

theorem stale_updates_invert_policy:
  "case update_policy ex_ctx None 10 ex_lower_max ex_policy_db ex_policy_db of
     Inl e \<Rightarrow> False
   | Inr d \<Rightarrow> list_all range_ok (inventory_policies d)
       \<and> (case update_policy ex_ctx None 10 ex_raise_point ex_policy_db d of
           Inl e \<Rightarrow> False | Inr d' \<Rightarrow> \<not> list_all range_ok (inventory_policies d'))"
  by code_simp

text \<open>
  C30: requests that run one after the other never leave stock in a disabled
  warehouse: neither creating, changing, disabling or enabling a warehouse nor posting
  or reversing a receipt does.
\<close>

theorem closed_warehouses_stay_empty:
  assumes "stock_ok d" "distinct (map wh_id (warehouses d))"
    and "list_all ri_checks (purchase_receipt_items d)" "closed_empty d"
    and "create_warehouse ctx un data d = Inr d' \<or> update_warehouse ctx un i upd d d = Inr d'
      \<or> disable_warehouse ctx un i d d = Inr d' \<or> enable_warehouse ctx un i d d = Inr d'
      \<or> create_receipt ctx u rcc d d = Inr d' \<or> reverse_receipt ctx u i reason d d = Inr d'"
  shows "closed_empty d'"
  using assms(5)
  by (elim disjE)
    (erule create_warehouse_closed[OF _ assms(4)] toggle_warehouse_closed[OF assms(2,4)]
      create_receipt_closed[OF _ assms(1,4)] reverse_receipt_closed[OF _ assms(1,4,3)])+

lemma ex_disable_refused:
  "case create_receipt ex_ctx ex_keeper (ex_receipt_create 4) ex_open_db ex_open_db of
     Inl e \<Rightarrow> False | Inr d \<Rightarrow> \<not> succeeds (disable_warehouse ex_ctx None 1 d d)"
  by code_simp

theorem closed_warehouses_stay_empty_witness:
  "closed_empty ex_posted_db \<and> \<not> succeeds (disable_warehouse ex_ctx None 1 ex_posted_db ex_posted_db)"
proof
  have "distinct (map wh_id (warehouses ex_open_db))" "list_all ri_checks (purchase_receipt_items ex_open_db)"
    "closed_empty ex_open_db" by code_simp+
  then show "closed_empty ex_posted_db"
    using closed_warehouses_stay_empty[OF ex_open_stock] ex_receive_succeeds by blast
  show "\<not> succeeds (disable_warehouse ex_ctx None 1 ex_posted_db ex_posted_db)"
    using ex_disable_refused unfolding ex_receive_succeeds by simp
qed

text \<open>
  The approval of a count does not look at the warehouse: a count that was pending when
  the empty warehouse was disabled still posts stock into it.
\<close>

theorem count_fills_disabled_warehouse:
  "closed_empty ex_closed_db \<and> \<not> warehouse_open ex_closed_db 1
   \<and> (case approve_reconciliation ex_ctx ex_admin 1 ex_approve ex_closed_db ex_closed_db of
        Inl e \<Rightarrow> False | Inr d \<Rightarrow> \<not> closed_empty d)"
  by code_simp

end
