(* ===== verification/Schema_Ddl.thy ===== *)
theory Schema_Ddl
  imports Store
begin

text \<open>
  The schema of the database and the statements that change it.  A migration under
  \<open>alembic/versions\<close> is a list of statements; this theory gives them their meaning on a
  catalogue of tables and triggers, as the SQL of the server defines it, with the
  conditions under which the server refuses a statement: a missing or duplicate table,
  column, key or index, a foreign key to a missing table, the removal of a table that another
  one refers to or of an index that a foreign key needs.  What a statement does to its own
  table does not depend on other tables (\<open>alter\<close>), and whether the other tables admit it
  depends on nothing but who refers to whom (\<open>admit\<close>); so a run is decided by one run for
  each table and one of the reference graph.  The order of the columns of a table and
  comments have no meaning for the program; the first does not count in \<open>same_table\<close> and
  the second are left out.
\<close>

datatype column_type = VARCHAR int | UNSIGNED_BIGINT | INT_TYPE | UNSIGNED_INT | UNSIGNED_SMALLINT
  | DATE_TYPE | DATETIME_TYPE int | BOOL_TYPE | DECIMAL int int | ENUM_TYPE "string list"

text \<open>Type, nullable, server default, and the expression of a generated column.\<close>

datatype column = Column column_type bool "string option" "string option"

type_synonym columns = "(string \<times> column) list"

text \<open>A foreign key has its columns, the table and columns it refers to, and ON DELETE.\<close>

datatype table_key =
    PRIMARY_KEY string "string list"
  | UNIQUE_KEY string "string list"
  | FOREIGN_KEY string "string list" db_table "string list" "string option"
  | CHECK_KEY string string

record table_def =
  td_columns :: columns
  td_keys :: "table_key list"
  td_indexes :: "(string \<times> string list) list"

datatype trigger_event = Refuse_Update | Refuse_Delete

record catalogue =
  cat_tables :: "db_table \<Rightarrow> table_def option"
  cat_triggers :: "(string \<times> trigger_event \<times> db_table) list"

definition empty_catalogue :: catalogue where
  "empty_catalogue = \<lparr>cat_tables = (\<lambda>_. None), cat_triggers = []\<rparr>"

datatype ddl =
    Create_Table db_table columns "table_key list"
  | Drop_Table db_table
  | Create_Index string db_table "string list"
  | Drop_Index string db_table
  | Add_Column db_table "string \<times> column"
  | Drop_Column db_table string
  | Modify_Column db_table string column
  | Add_Check db_table string string
  | Drop_Check db_table string
  | Add_Foreign db_table table_key
  | Create_Trigger string trigger_event db_table
  | Drop_Trigger_If_Exists string

datatype ddl_error = TABLE_EXISTS | NO_SUCH_TABLE | DUPLICATE_COLUMN | NO_SUCH_COLUMN
  | DUPLICATE_KEY_NAME | NO_SUCH_KEY | REFERENCED_TABLE_MISSING | TABLE_REFERENCED | INDEX_NEEDED
  | COLUMN_IN_KEY | TRIGGER_EXISTS

fun ddl_table :: "ddl \<Rightarrow> db_table option" where
  "ddl_table (Create_Table t _ _) = Some t"
| "ddl_table (Drop_Table t) = Some t"
| "ddl_table (Create_Index _ t _) = Some t"
| "ddl_table (Drop_Index _ t) = Some t"
| "ddl_table (Add_Column t _) = Some t"
| "ddl_table (Drop_Column t _) = Some t"
| "ddl_table (Modify_Column t _ _) = Some t"
| "ddl_table (Add_Check t _ _) = Some t"
| "ddl_table (Drop_Check t _) = Some t"
| "ddl_table (Add_Foreign t _) = Some t"
| "ddl_table (Create_Trigger _ _ _) = None"
| "ddl_table (Drop_Trigger_If_Exists _) = None"

fun key_name :: "table_key \<Rightarrow> string" where
  "key_name (PRIMARY_KEY n _) = n"
| "key_name (UNIQUE_KEY n _) = n"
| "key_name (FOREIGN_KEY n _ _ _ _) = n"
| "key_name (CHECK_KEY n _) = n"

fun key_columns :: "table_key \<Rightarrow> string list" where
  "key_columns (PRIMARY_KEY _ cs) = cs"
| "key_columns (UNIQUE_KEY _ cs) = cs"
| "key_columns (FOREIGN_KEY _ cs _ _ _) = cs"
| "key_columns (CHECK_KEY _ _) = []"

fun key_targets :: "table_key \<Rightarrow> db_table list" where
  "key_targets (FOREIGN_KEY _ _ t _ _) = [t]"
| "key_targets _ = []"

text \<open>Primary and unique keys bring an index of their own.\<close>

fun key_index :: "table_key \<Rightarrow> (string \<times> string list) list" where
  "key_index (PRIMARY_KEY n cs) = [(n, cs)]"
| "key_index (UNIQUE_KEY n cs) = [(n, cs)]"
| "key_index _ = []"

fun table_name :: "db_table \<Rightarrow> string" where
  "table_name T_departments = ''departments''"
| "table_name T_roles = ''roles''"
| "table_name T_permissions = ''permissions''"
| "table_name T_role_permissions = ''role_permissions''"
| "table_name T_users = ''users''"
| "table_name T_department_managers = ''department_managers''"
| "table_name T_materials = ''materials''"
| "table_name T_suppliers = ''suppliers''"
| "table_name T_warehouses = ''warehouses''"
| "table_name T_inventory_policies = ''inventory_policies''"
| "table_name T_purchase_requisitions = ''purchase_requisitions''"
| "table_name T_purchase_requisition_items = ''purchase_requisition_items''"
| "table_name T_purchase_orders = ''purchase_orders''"
| "table_name T_purchase_order_items = ''purchase_order_items''"
| "table_name T_purchase_order_item_sources = ''purchase_order_item_sources''"
| "table_name T_approval_records = ''approval_records''"
| "table_name T_purchase_receipts = ''purchase_receipts''"
| "table_name T_purchase_receipt_items = ''purchase_receipt_items''"
| "table_name T_inventory_balances = ''inventory_balances''"
| "table_name T_inventory_transactions = ''inventory_transactions''"
| "table_name T_stock_reconciliations = ''stock_reconciliations''"
| "table_name T_stock_reconciliation_items = ''stock_reconciliation_items''"
| "table_name T_number_sequences = ''number_sequences''"
| "table_name T_operation_logs = ''operation_logs''"

text \<open>The names that the metadata's naming convention gives to primary keys and check constraints.\<close>

definition pk_name :: "db_table \<Rightarrow> string" where
  "pk_name t = ''pk_'' @ table_name t"

definition ck_name :: "db_table \<Rightarrow> string \<Rightarrow> string" where
  "ck_name t constraint_name = ''ck_'' @ table_name t @ ''_'' @ constraint_name"

section \<open>One table\<close>

definition has_columns :: "table_def \<Rightarrow> string list \<Rightarrow> bool" where
  "has_columns t cs = list_all (\<lambda>x. map_of (td_columns t) x \<noteq> None) cs"

definition all_indexes :: "table_def \<Rightarrow> (string \<times> string list) list" where
  "all_indexes t = td_indexes t @ concat (map key_index (td_keys t))"

definition covers :: "string list \<Rightarrow> string \<times> string list \<Rightarrow> bool" where
  "covers cs i = (take (length cs) (snd i) = cs)"

text \<open>
  A foreign key needs an index that starts with its columns; the server does not let go
  of the last one.
\<close>

definition index_needed :: "table_def \<Rightarrow> string \<Rightarrow> bool" where
  "index_needed t n =
    list_ex (\<lambda>k. key_targets k \<noteq> []
        \<and> list_ex (covers (key_columns k)) (filter (\<lambda>i. fst i = n) (all_indexes t))
        \<and> \<not> list_ex (covers (key_columns k)) (filter (\<lambda>i. fst i \<noteq> n) (all_indexes t)))
      (td_keys t)"

definition add_key :: "table_key \<Rightarrow> table_def \<Rightarrow> ddl_error + table_def" where
  "add_key k t =
    rbind (check (has_columns t (key_columns k)) NO_SUCH_COLUMN) (\<lambda>_.
    rbind (check (key_name k \<notin> set (map key_name (td_keys t))) DUPLICATE_KEY_NAME) (\<lambda>_.
    Inr (t\<lparr>td_keys := td_keys t @ [k]\<rparr>)))"

fun is_check :: "string \<Rightarrow> table_key \<Rightarrow> bool" where
  "is_check n (CHECK_KEY m _) = (m = n)"
| "is_check _ _ = False"

definition drop_check :: "string \<Rightarrow> table_def \<Rightarrow> ddl_error + table_def" where
  "drop_check n t =
    rbind (check (list_ex (is_check n) (td_keys t)) NO_SUCH_KEY) (\<lambda>_.
    Inr (t\<lparr>td_keys := filter (\<lambda>k. \<not> is_check n k) (td_keys t)\<rparr>))"

text \<open>
  The statements on an existing table.  A column that a key or an index uses is not
  dropped by any migration; here that is refused.
\<close>

fun alter_table :: "ddl \<Rightarrow> table_def \<Rightarrow> ddl_error + table_def" where
  "alter_table (Create_Index i _ cs) t =
    rbind (check (has_columns t cs) NO_SUCH_COLUMN) (\<lambda>_.
    rbind (check (i \<notin> set (map fst (all_indexes t))) DUPLICATE_KEY_NAME) (\<lambda>_.
    Inr (t\<lparr>td_indexes := td_indexes t @ [(i, cs)]\<rparr>)))"
| "alter_table (Drop_Index i _) t =
    rbind (check (i \<in> set (map fst (td_indexes t))) NO_SUCH_KEY) (\<lambda>_.
    rbind (check (\<not> index_needed t i) INDEX_NEEDED) (\<lambda>_.
    Inr (t\<lparr>td_indexes := filter (\<lambda>x. fst x \<noteq> i) (td_indexes t)\<rparr>)))"
| "alter_table (Add_Column _ col) t =
    rbind (check (\<not> has_columns t [fst col]) DUPLICATE_COLUMN) (\<lambda>_.
    Inr (t\<lparr>td_columns := td_columns t @ [col]\<rparr>))"
| "alter_table (Drop_Column _ x) t =
    rbind (check (has_columns t [x]) NO_SUCH_COLUMN) (\<lambda>_.
    rbind (check (\<not> list_ex (\<lambda>k. x \<in> set (key_columns k)) (td_keys t)
        \<and> \<not> list_ex (\<lambda>i. x \<in> set (snd i)) (td_indexes t)) COLUMN_IN_KEY) (\<lambda>_.
    Inr (t\<lparr>td_columns := filter (\<lambda>y. fst y \<noteq> x) (td_columns t)\<rparr>)))"
| "alter_table (Modify_Column _ x col) t =
    rbind (check (has_columns t [x]) NO_SUCH_COLUMN) (\<lambda>_.
    Inr (t\<lparr>td_columns := map (\<lambda>y. if fst y = x then (x, col) else y) (td_columns t)\<rparr>))"
| "alter_table (Add_Check _ n e) t = add_key (CHECK_KEY n e) t"
| "alter_table (Drop_Check _ n) t = drop_check n t"
| "alter_table (Add_Foreign _ k) t = add_key k t"
| "alter_table _ t = Inr t"

text \<open>What a statement does to its own table, which may not exist.\<close>

fun alter :: "ddl \<Rightarrow> table_def option \<Rightarrow> ddl_error + table_def option" where
  "alter (Create_Table _ cols keys) None =
    rbind (check (distinct (map fst cols)) DUPLICATE_COLUMN) (\<lambda>_.
    rbind (rfold add_key keys \<lparr>td_columns = cols, td_keys = [], td_indexes = []\<rparr>) (\<lambda>t.
    Inr (Some t)))"
| "alter (Create_Table _ _ _) (Some _) = Inl TABLE_EXISTS"
| "alter (Drop_Table _) (Some _) = Inr None"
| "alter stmt (Some t) = rbind (alter_table stmt t) (\<lambda>t'. Inr (Some t'))"
| "alter _ None = Inl NO_SUCH_TABLE"

section \<open>The other tables\<close>

text \<open>The tables that a table refers to, and the triggers.\<close>

type_synonym reference_graph =
  "(db_table \<Rightarrow> db_table list option) \<times> (string \<times> trigger_event \<times> db_table) list"

definition targets :: "table_def \<Rightarrow> db_table list" where
  "targets t = concat (map key_targets (td_keys t))"

definition graph_of :: "catalogue \<Rightarrow> reference_graph" where
  "graph_of c = (\<lambda>t. map_option targets (cat_tables c t), cat_triggers c)"

definition ALL_TABLES :: "db_table list" where
  "ALL_TABLES = [T_departments, T_roles, T_permissions, T_role_permissions, T_users,
    T_department_managers, T_materials, T_suppliers, T_warehouses, T_inventory_policies,
    T_purchase_requisitions, T_purchase_requisition_items, T_purchase_orders,
    T_purchase_order_items, T_purchase_order_item_sources, T_approval_records,
    T_purchase_receipts, T_purchase_receipt_items, T_inventory_balances,
    T_inventory_transactions, T_stock_reconciliations, T_stock_reconciliation_items,
    T_number_sequences, T_operation_logs]"

definition known :: "(db_table \<Rightarrow> db_table list option) \<Rightarrow> db_table \<Rightarrow> db_table list \<Rightarrow> bool" where
  "known g t ts = list_all (\<lambda>t'. t' = t \<or> g t' \<noteq> None) ts"

fun admit :: "ddl \<Rightarrow> reference_graph \<Rightarrow> ddl_error + reference_graph" where
  "admit (Create_Table t _ keys) (g, tr) =
    (let ts = concat (map key_targets keys) in
     rbind (check (known g t ts) REFERENCED_TABLE_MISSING) (\<lambda>_. Inr (g(t := Some ts), tr)))"
| "admit (Add_Foreign t k) (g, tr) =
    rbind (check (known g t (key_targets k)) REFERENCED_TABLE_MISSING) (\<lambda>_.
    Inr (g(t := map_option (\<lambda>ts. ts @ key_targets k) (g t)), tr))"
| "admit (Drop_Table t) (g, tr) =
    rbind (check (list_all (\<lambda>t'. t' = t \<or> (case g t' of None \<Rightarrow> True | Some ts \<Rightarrow> t \<notin> set ts)) ALL_TABLES)
      TABLE_REFERENCED) (\<lambda>_.
    Inr (g(t := None), filter (\<lambda>x. snd (snd x) \<noteq> t) tr))"
| "admit (Create_Trigger n e t) (g, tr) =
    rbind (check (g t \<noteq> None) NO_SUCH_TABLE) (\<lambda>_.
    rbind (check (n \<notin> set (map fst tr)) TRIGGER_EXISTS) (\<lambda>_.
    Inr (g, tr @ [(n, e, t)])))"
| "admit (Drop_Trigger_If_Exists n) (g, tr) = Inr (g, filter (\<lambda>x. fst x \<noteq> n) tr)"
| "admit _ gt = Inr gt"

section \<open>Statements on the catalogue\<close>

definition apply_ddl :: "ddl \<Rightarrow> catalogue \<Rightarrow> ddl_error + catalogue" where
  "apply_ddl stmt c =
    rbind (admit stmt (graph_of c)) (\<lambda>(_, tr).
    case ddl_table stmt of
      None \<Rightarrow> Inr (c\<lparr>cat_triggers := tr\<rparr>)
    | Some t \<Rightarrow> rbind (alter stmt (cat_tables c t)) (\<lambda>x.
        Inr \<lparr>cat_tables = (cat_tables c)(t := x), cat_triggers = tr\<rparr>))"

definition run_ddl :: "ddl list \<Rightarrow> catalogue \<Rightarrow> ddl_error + catalogue" where
  "run_ddl = rfold apply_ddl"

definition statements :: "db_table \<Rightarrow> ddl list \<Rightarrow> ddl list" where
  "statements t = filter (\<lambda>s. ddl_table s = Some t)"

definition run_table :: "db_table \<Rightarrow> ddl list \<Rightarrow> table_def option \<Rightarrow> ddl_error + table_def option" where
  "run_table t stmts = rfold alter (statements t stmts)"

section \<open>Comparing schemas\<close>

text \<open>The same entries in any order.\<close>

fun same_entries :: "'a list \<Rightarrow> 'a list \<Rightarrow> bool" where
  "same_entries [] ys = (ys = [])"
| "same_entries (x # xs) ys = (x \<in> set ys \<and> same_entries xs (remove1 x ys))"

definition same_table :: "table_def \<Rightarrow> table_def \<Rightarrow> bool" where
  "same_table t t' = (same_entries (td_columns t) (td_columns t')
    \<and> same_entries (td_keys t) (td_keys t') \<and> same_entries (td_indexes t) (td_indexes t'))"

definition same_option :: "table_def option \<Rightarrow> table_def option \<Rightarrow> bool" where
  "same_option x y = (case (x, y) of (None, None) \<Rightarrow> True | (Some t, Some t') \<Rightarrow> same_table t t' | _ \<Rightarrow> False)"

definition same_catalogue :: "catalogue \<Rightarrow> catalogue \<Rightarrow> bool" where
  "same_catalogue c c' = ((\<forall>t. same_option (cat_tables c t) (cat_tables c' t))
    \<and> cat_triggers c = cat_triggers c')"

section \<open>Revisions\<close>

record revision =
  rev_id :: string
  rev_down :: "string option"
  rev_upgrade :: "ddl list"
  rev_downgrade :: "ddl list"

text \<open>The revisions form one line: each names the one before it.\<close>

fun linear_from :: "string option \<Rightarrow> revision list \<Rightarrow> bool" where
  "linear_from _ [] = True"
| "linear_from p (r # rs) = (rev_down r = p \<and> linear_from (Some (rev_id r)) rs)"

definition upgrade_all :: "revision list \<Rightarrow> catalogue \<Rightarrow> ddl_error + catalogue" where
  "upgrade_all = rfold (\<lambda>r. run_ddl (rev_upgrade r))"

text \<open>
  The history of one table along the line of revisions: every step succeeds, its downgrade
  leads back to the table before, and the last state is the one the models declare.
\<close>

fun history_ok :: "db_table \<Rightarrow> table_def \<Rightarrow> revision list \<Rightarrow> table_def option \<Rightarrow> bool" where
  "history_ok t goal [] x = (case x of None \<Rightarrow> False | Some d \<Rightarrow> same_table d goal)"
| "history_ok t goal (r # rs) x =
    (case run_table t (rev_upgrade r) x of
       Inl _ \<Rightarrow> False
     | Inr y \<Rightarrow> (case run_table t (rev_downgrade r) y of Inl _ \<Rightarrow> False | Inr z \<Rightarrow> same_option z x)
         \<and> history_ok t goal rs y)"

text \<open>The same for the references and triggers.\<close>

fun graph_ok :: "(string \<times> trigger_event \<times> db_table) list \<Rightarrow> revision list \<Rightarrow> reference_graph \<Rightarrow> bool" where
  "graph_ok tr [] g = (snd g = tr)"
| "graph_ok tr (r # rs) g =
    (case rfold admit (rev_upgrade r) g of
       Inl _ \<Rightarrow> False
     | Inr g' \<Rightarrow> (case rfold admit (rev_downgrade r) g' of Inl _ \<Rightarrow> False | Inr g'' \<Rightarrow> snd g'' = snd g)
         \<and> graph_ok tr rs g')"

section \<open>Runs table by table\<close>

lemma same_entries_refl [simp]: "same_entries xs xs"
  by (induction xs) simp_all

lemma same_table_refl [simp]: "same_table t t"
  by (simp add: same_table_def)

lemma same_option_refl [simp]: "same_option x x"
  by (cases x) (simp_all add: same_option_def)

lemma in_ALL_TABLES [simp]: "t \<in> set ALL_TABLES"
  by (cases t) (simp_all add: ALL_TABLES_def)

lemma statements_simps [simp]:
  "statements t [] = []"
  "statements t (s # ss) = (if ddl_table s = Some t then s # statements t ss else statements t ss)"
  "statements t (ss @ ss') = statements t ss @ statements t ss'"
  by (simp_all add: statements_def)

lemma run_table_none [simp]: "statements t ss = [] \<Longrightarrow> run_table t ss x = Inr x"
  by (simp add: run_table_def)

lemma add_key_targets: "add_key k t = Inr t' \<Longrightarrow> targets t' = targets t @ key_targets k"
  by (auto simp: add_key_def targets_def)

lemma add_keys_targets:
  "rfold add_key ks t = Inr t' \<Longrightarrow> targets t' = targets t @ concat (map key_targets ks)"
  by (induction ks arbitrary: t) (auto dest!: add_key_targets)

lemma drop_check_targets: "drop_check n t = Inr t' \<Longrightarrow> targets t' = targets t"
proof -
  assume "drop_check n t = Inr t'"
  then have "td_keys t' = filter (\<lambda>k. \<not> is_check n k) (td_keys t)" by (auto simp: drop_check_def)
  moreover have "concat (map key_targets (filter (\<lambda>k. \<not> is_check n k) ks)) = concat (map key_targets ks)" for ks
  proof (induction ks)
    case (Cons k ks)
    then show ?case by (cases k) simp_all
  qed simp
  ultimately show ?thesis by (simp add: targets_def)
qed

text \<open>The reference graph follows the catalogue.\<close>

lemma alter_graph:
  assumes "alter s x = Inr y" "ddl_table s = Some t" "g t = map_option targets x"
    and "admit s (g, tr) = Inr (g', tr')"
  shows "g' = g(t := map_option targets y)"
proof (cases s)
  case (Create_Table t1 cols keys)
  then show ?thesis using assms
    by (cases x) (auto simp: Let_def targets_def dest!: add_keys_targets)
next
  case (Add_Foreign t1 k)
  then show ?thesis using assms by (cases x) (auto dest!: add_key_targets)
next
  case (Drop_Check t1 n)
  then show ?thesis using assms by (cases x) (auto dest!: drop_check_targets)
next
  case (Add_Check t1 n e)
  then show ?thesis using assms by (cases x) (auto dest!: add_key_targets)
next
  case (Drop_Table t1)
  then show ?thesis using assms by (cases x) auto
qed (use assms in \<open>cases x; force simp: targets_def fun_upd_idem\<close>)+

lemma apply_ddl_graph:
  assumes "apply_ddl s c = Inr c'"
  shows "admit s (graph_of c) = Inr (graph_of c')"
proof -
  obtain g' tr where a: "admit s (graph_of c) = Inr (g', tr)"
    using assms by (auto simp: apply_ddl_def)
  show ?thesis
  proof (cases "ddl_table s")
    case None
    then have "c' = c\<lparr>cat_triggers := tr\<rparr>" using assms a by (simp add: apply_ddl_def)
    moreover have "g' = fst (graph_of c)" using a None by (cases s) (auto simp: graph_of_def)
    ultimately show ?thesis using a by (simp add: graph_of_def)
  next
    case (Some t)
    then obtain x where x: "alter s (cat_tables c t) = Inr x"
      "c' = \<lparr>cat_tables = (cat_tables c)(t := x), cat_triggers = tr\<rparr>"
      using assms a by (auto simp: apply_ddl_def)
    have "g' = (\<lambda>t. map_option targets (cat_tables c t))(t := map_option targets x)"
      by (rule alter_graph[OF x(1) Some]) (use a in \<open>auto simp: graph_of_def\<close>)
    then have "graph_of c' = (g', tr)" by (simp add: x(2) graph_of_def fun_eq_iff)
    then show ?thesis using a by simp
  qed
qed

lemma run_ddl_graph: "run_ddl ss c = Inr c' \<Longrightarrow> rfold admit ss (graph_of c) = Inr (graph_of c')"
proof (induction ss arbitrary: c)
  case (Cons s ss)
  then obtain c1 where "apply_ddl s c = Inr c1" "run_ddl ss c1 = Inr c'" by (auto simp: run_ddl_def)
  then show ?case using apply_ddl_graph Cons.IH by (simp del: split_paired_Ex)
qed (simp add: run_ddl_def)

lemma apply_ddl_tables:
  "apply_ddl s c = Inr c' \<Longrightarrow> run_table t [s] (cat_tables c t) = Inr (cat_tables c' t)"
  by (cases "ddl_table s") (auto simp: apply_ddl_def run_table_def)

text \<open>A run of the whole catalogue is a run of every table by its own statements.\<close>

lemma run_ddl_tables:
  "run_ddl ss c = Inr c' \<Longrightarrow> run_table t ss (cat_tables c t) = Inr (cat_tables c' t)"
proof (induction ss arbitrary: c)
  case Nil
  then show ?case by (simp add: run_ddl_def run_table_def)
next
  case (Cons s ss)
  then obtain c1 where c1: "apply_ddl s c = Inr c1" "run_ddl ss c1 = Inr c'" by (auto simp: run_ddl_def)
  show ?case using apply_ddl_tables[OF c1(1), of t] Cons.IH[OF c1(2)]
    by (auto simp: run_table_def split: if_splits)
qed

lemma run_ddl_succeeds:
  assumes "rfold admit ss (graph_of c) = Inr g" "\<And>t. \<exists>x. run_table t ss (cat_tables c t) = Inr x"
  shows "\<exists>c'. run_ddl ss c = Inr c' \<and> graph_of c' = g"
  using assms
proof (induction ss arbitrary: c)
  case Nil
  then show ?case by (simp add: run_ddl_def)
next
  case (Cons s ss)
  obtain g1 tr1 where g1: "admit s (graph_of c) = Inr (g1, tr1)" "rfold admit ss (g1, tr1) = Inr g"
    using Cons.prems(1) by auto
  have "\<exists>c1. apply_ddl s c = Inr c1"
  proof (cases "ddl_table s")
    case (Some t)
    then obtain x where "alter s (cat_tables c t) = Inr x"
      using Cons.prems(2)[of t] by (auto simp: run_table_def)
    then show ?thesis using Some g1(1) by (simp add: apply_ddl_def)
  qed (simp add: apply_ddl_def g1(1))
  then obtain c1 where c1: "apply_ddl s c = Inr c1" by blast
  have "graph_of c1 = (g1, tr1)" using apply_ddl_graph[OF c1] g1(1) by simp
  moreover have "\<exists>x. run_table t ss (cat_tables c1 t) = Inr x" for t
    using Cons.prems(2)[of t] apply_ddl_tables[OF c1, of t] by (auto simp: run_table_def split: if_splits)
  ultimately obtain c' where "run_ddl ss c1 = Inr c'" "graph_of c' = g"
    using Cons.IH[of c1] g1(2) by auto
  then show ?case using c1 by (auto simp: run_ddl_def)
qed

text \<open>From the histories of the tables and of the graph to the history of the catalogue.\<close>

lemma history_step:
  assumes "\<And>t. history_ok t (m t) (r # rs) (cat_tables c t)" "graph_ok tr (r # rs) (graph_of c)"
  shows "\<exists>c' c''. run_ddl (rev_upgrade r) c = Inr c' \<and> run_ddl (rev_downgrade r) c' = Inr c''
    \<and> same_catalogue c'' c \<and> (\<forall>t. history_ok t (m t) rs (cat_tables c' t)) \<and> graph_ok tr rs (graph_of c')"
proof -
  obtain g' g'' where g: "rfold admit (rev_upgrade r) (graph_of c) = Inr g'"
    "rfold admit (rev_downgrade r) g' = Inr g''" "snd g'' = snd (graph_of c)" "graph_ok tr rs g'"
    using assms(2) by (auto split: sum.splits)
  have up: "\<exists>x. run_table t (rev_upgrade r) (cat_tables c t) = Inr x" for t
    using assms(1)[of t] by (auto split: sum.splits)
  obtain c' where c': "run_ddl (rev_upgrade r) c = Inr c'" "graph_of c' = g'"
    using run_ddl_succeeds[OF g(1) up] by blast
  have down: "\<exists>z. run_table t (rev_downgrade r) (cat_tables c' t) = Inr z \<and> same_option z (cat_tables c t)"
    and rest: "history_ok t (m t) rs (cat_tables c' t)" for t
    using assms(1)[of t] run_ddl_tables[OF c'(1), of t] by (auto split: sum.splits)
  obtain c'' where c'': "run_ddl (rev_downgrade r) c' = Inr c''" "graph_of c'' = g''"
    using run_ddl_succeeds[of "rev_downgrade r" c' g''] g(2) c'(2) down by blast
  have "same_option (cat_tables c'' t) (cat_tables c t)" for t
    using down[of t] run_ddl_tables[OF c''(1), of t] by auto
  moreover have "cat_triggers c'' = cat_triggers c" using c''(2) g(3) by (auto simp: graph_of_def)
  ultimately show ?thesis using c' c'' rest g(4) by (auto simp: same_catalogue_def)
qed

lemma history_head:
  assumes "\<And>t. history_ok t (m t) rs (cat_tables c t)" "graph_ok tr rs (graph_of c)"
  shows "\<exists>h. upgrade_all rs c = Inr h \<and> (\<forall>t. \<exists>d. cat_tables h t = Some d \<and> same_table d (m t))
    \<and> cat_triggers h = tr"
  using assms
proof (induction rs arbitrary: c)
  case Nil
  have "\<exists>d. cat_tables c t = Some d \<and> same_table d (m t)" for t
    using Nil.prems(1)[of t] by (auto split: option.splits)
  then show ?case using Nil.prems(2) by (simp add: upgrade_all_def graph_of_def)
next
  case (Cons r rs)
  then obtain c' where "run_ddl (rev_upgrade r) c = Inr c'" "\<forall>t. history_ok t (m t) rs (cat_tables c' t)"
    "graph_ok tr rs (graph_of c')" using history_step[OF Cons.prems] by blast
  then show ?case using Cons.IH[of c'] by (simp add: upgrade_all_def)
qed

lemma history_middle:
  assumes "\<And>t. history_ok t (m t) (rs @ r # rs') (cat_tables c t)" "graph_ok tr (rs @ r # rs') (graph_of c)"
  shows "\<exists>c1 c' c''. upgrade_all rs c = Inr c1 \<and> run_ddl (rev_upgrade r) c1 = Inr c'
    \<and> run_ddl (rev_downgrade r) c' = Inr c'' \<and> same_catalogue c'' c1"
  using assms
proof (induction rs arbitrary: c)
  case Nil
  then show ?case using history_step[OF Nil.prems[unfolded append_Nil]] by (auto simp: upgrade_all_def)
next
  case (Cons q rs)
  then obtain c' where "run_ddl (rev_upgrade q) c = Inr c'" "\<forall>t. history_ok t (m t) (rs @ r # rs') (cat_tables c' t)"
    "graph_ok tr (rs @ r # rs') (graph_of c')" using history_step[OF Cons.prems[unfolded append_Cons]] by blast
  then show ?case using Cons.IH[of c'] by (simp add: upgrade_all_def)
qed

lemma history_skip:
  "statements t (rev_upgrade r) = [] \<Longrightarrow> statements t (rev_downgrade r) = []
    \<Longrightarrow> history_ok t (m t) (r # rs) x = history_ok t (m t) rs x"
  by simp

end
