(* ===== verification/Migration_Base.thy ===== *)
theory Migration_Base
  imports Schema_Ddl
begin

text \<open>
  The first migration, \<open>create_all_22_base_tables\<close>: one list of statements for each table
  with its indexes, the foreign keys that had to wait for the users, and the triggers of the
  ledger; then its downgrade.
\<close>

definition base_departments :: "ddl list" where
  "base_departments = [
    Create_Table T_departments
      [(''dept_code'', Column (VARCHAR 32) False None None),
       (''dept_name'', Column (VARCHAR 64) False None None),
       (''parent_id'', Column UNSIGNED_BIGINT True None None),
       (''sort_order'', Column INT_TYPE False None None),
       (''status'', Column (ENUM_TYPE [''ACTIVE'', ''INACTIVE'']) False (Some ''ACTIVE'') None),
       (''remark'', Column (VARCHAR 255) True None None),
       (''created_by'', Column UNSIGNED_BIGINT True None None),
       (''updated_by'', Column UNSIGNED_BIGINT True None None),
       (''id'', Column UNSIGNED_BIGINT False None None),
       (''created_at'', Column (DATETIME_TYPE 3) False (Some ''CURRENT_TIMESTAMP(3)'') None),
       (''updated_at'', Column (DATETIME_TYPE 3) False (Some ''CURRENT_TIMESTAMP(3)'') None)]
      [FOREIGN_KEY ''fk_dept_parent'' [''parent_id''] T_departments [''id''] None,
       PRIMARY_KEY ''pk_departments'' [''id''],
       UNIQUE_KEY ''uk_dept_code'' [''dept_code'']],
    Create_Index ''ix_dept_parent'' T_departments [''parent_id''],
    Create_Index ''ix_dept_status'' T_departments [''status'']]"

definition base_number_sequences :: "ddl list" where
  "base_number_sequences = [
    Create_Table T_number_sequences
      [(''sequence_key'', Column (VARCHAR 32) False None None),
       (''sequence_date'', Column DATE_TYPE False None None),
       (''current_value'', Column UNSIGNED_BIGINT False (Some ''0'') None),
       (''updated_at'', Column (DATETIME_TYPE 3) False (Some ''CURRENT_TIMESTAMP(3)'') None),
       (''id'', Column UNSIGNED_BIGINT False None None)]
      [PRIMARY_KEY ''pk_number_sequences'' [''id''],
       UNIQUE_KEY ''uk_seq'' [''sequence_key'', ''sequence_date'']]]"

definition base_permissions :: "ddl list" where
  "base_permissions = [
    Create_Table T_permissions
      [(''perm_code'', Column (VARCHAR 64) False None None),
       (''perm_name'', Column (VARCHAR 64) False None None),
       (''module'', Column (VARCHAR 32) False None None),
       (''created_at'', Column (DATETIME_TYPE 3) False (Some ''CURRENT_TIMESTAMP(3)'') None),
       (''id'', Column UNSIGNED_BIGINT False None None)]
      [PRIMARY_KEY ''pk_permissions'' [''id''],
       UNIQUE_KEY ''uk_perm_code'' [''perm_code'']],
    Create_Index ''ix_perm_module'' T_permissions [''module'']]"

definition base_roles :: "ddl list" where
  "base_roles = [
    Create_Table T_roles
      [(''role_code'', Column (ENUM_TYPE [''ADMIN'', ''APPLICANT'', ''DEPT_MANAGER'', ''BUYER'', ''WAREHOUSE'']) False None None),
       (''role_name'', Column (VARCHAR 64) False None None),
       (''description'', Column (VARCHAR 255) True None None),
       (''is_system'', Column BOOL_TYPE False None None),
       (''status'', Column (ENUM_TYPE [''ACTIVE'', ''DISABLED'']) False (Some ''ACTIVE'') None),
       (''id'', Column UNSIGNED_BIGINT False None None),
       (''created_at'', Column (DATETIME_TYPE 3) False (Some ''CURRENT_TIMESTAMP(3)'') None),
       (''updated_at'', Column (DATETIME_TYPE 3) False (Some ''CURRENT_TIMESTAMP(3)'') None)]
      [PRIMARY_KEY ''pk_roles'' [''id''],
       UNIQUE_KEY ''uk_role_code'' [''role_code'']],
    Create_Index ''ix_role_status'' T_roles [''status'']]"

definition base_users :: "ddl list" where
  "base_users = [
    Create_Table T_users
      [(''username'', Column (VARCHAR 64) False None None),
       (''password_hash'', Column (VARCHAR 255) False None None),
       (''real_name'', Column (VARCHAR 64) False None None),
       (''email'', Column (VARCHAR 128) True None None),
       (''phone'', Column (VARCHAR 32) True None None),
       (''department_id'', Column UNSIGNED_BIGINT True None None),
       (''role_id'', Column UNSIGNED_BIGINT False None None),
       (''status'', Column (ENUM_TYPE [''ACTIVE'', ''DISABLED'']) False (Some ''ACTIVE'') None),
       (''last_login_at'', Column (DATETIME_TYPE 3) True None None),
       (''created_by'', Column UNSIGNED_BIGINT True None None),
       (''updated_by'', Column UNSIGNED_BIGINT True None None),
       (''id'', Column UNSIGNED_BIGINT False None None),
       (''created_at'', Column (DATETIME_TYPE 3) False (Some ''CURRENT_TIMESTAMP(3)'') None),
       (''updated_at'', Column (DATETIME_TYPE 3) False (Some ''CURRENT_TIMESTAMP(3)'') None)]
      [FOREIGN_KEY ''fk_users_created_by_users'' [''created_by''] T_users [''id''] None,
       FOREIGN_KEY ''fk_user_dept'' [''department_id''] T_departments [''id''] (Some ''RESTRICT''),
       FOREIGN_KEY ''fk_user_role'' [''role_id''] T_roles [''id''] (Some ''RESTRICT''),
       FOREIGN_KEY ''fk_users_updated_by_users'' [''updated_by''] T_users [''id''] None,
       PRIMARY_KEY ''pk_users'' [''id''],
       UNIQUE_KEY ''uk_user_username'' [''username'']],
    Create_Index ''ix_user_dept'' T_users [''department_id''],
    Create_Index ''ix_user_role'' T_users [''role_id''],
    Create_Index ''ix_user_status'' T_users [''status'']]"

definition base_approval_records :: "ddl list" where
  "base_approval_records = [
    Create_Table T_approval_records
      [(''document_type'', Column (ENUM_TYPE [''PURCHASE_REQUISITION'', ''PURCHASE_ORDER'']) False None None),
       (''document_id'', Column UNSIGNED_BIGINT False None None),
       (''step_no'', Column UNSIGNED_SMALLINT False (Some ''1'') None),
       (''step_name'', Column (VARCHAR 64) True None None),
       (''approver_id'', Column UNSIGNED_BIGINT False None None),
       (''action'', Column (ENUM_TYPE [''SUBMIT'', ''APPROVE'', ''REJECT'', ''CANCEL'']) False None None),
       (''result_status'', Column (VARCHAR 32) False None None),
       (''comment'', Column (VARCHAR 1000) True None None),
       (''created_at'', Column (DATETIME_TYPE 3) False (Some ''CURRENT_TIMESTAMP(3)'') None),
       (''id'', Column UNSIGNED_BIGINT False None None)]
      [FOREIGN_KEY ''fk_ar_approver'' [''approver_id''] T_users [''id''] (Some ''RESTRICT''),
       PRIMARY_KEY ''pk_approval_records'' [''id'']],
    Create_Index ''ix_ar_approver'' T_approval_records [''approver_id''],
    Create_Index ''ix_ar_doc'' T_approval_records [''document_type'', ''document_id''],
    Create_Index ''ix_ar_time'' T_approval_records [''created_at'']]"

definition base_department_managers :: "ddl list" where
  "base_department_managers = [
    Create_Table T_department_managers
      [(''dept_id'', Column UNSIGNED_BIGINT False None None),
       (''user_id'', Column UNSIGNED_BIGINT False None None),
       (''is_primary'', Column BOOL_TYPE False None None),
       (''created_at'', Column (DATETIME_TYPE 3) False (Some ''CURRENT_TIMESTAMP(3)'') None),
       (''id'', Column UNSIGNED_BIGINT False None None)]
      [FOREIGN_KEY ''fk_deptmgr_dept'' [''dept_id''] T_departments [''id''] (Some ''CASCADE''),
       FOREIGN_KEY ''fk_deptmgr_user'' [''user_id''] T_users [''id''] (Some ''CASCADE''),
       PRIMARY_KEY ''pk_department_managers'' [''id''],
       UNIQUE_KEY ''uk_deptmgr'' [''dept_id'', ''user_id'']],
    Create_Index ''ix_deptmgr_user'' T_department_managers [''user_id'']]"

definition base_materials :: "ddl list" where
  "base_materials = [
    Create_Table T_materials
      [(''material_code'', Column (VARCHAR 32) False None None),
       (''material_name'', Column (VARCHAR 128) False None None),
       (''category'', Column (VARCHAR 64) True None None),
       (''specification'', Column (VARCHAR 128) True None None),
       (''unit'', Column (VARCHAR 16) False None None),
       (''status'', Column (ENUM_TYPE [''ACTIVE'', ''DISABLED'']) False (Some ''ACTIVE'') None),
       (''remark'', Column (VARCHAR 255) True None None),
       (''created_by'', Column UNSIGNED_BIGINT True None None),
       (''updated_by'', Column UNSIGNED_BIGINT True None None),
       (''id'', Column UNSIGNED_BIGINT False None None),
       (''created_at'', Column (DATETIME_TYPE 3) False (Some ''CURRENT_TIMESTAMP(3)'') None),
       (''updated_at'', Column (DATETIME_TYPE 3) False (Some ''CURRENT_TIMESTAMP(3)'') None)]
      [FOREIGN_KEY ''fk_materials_created_by_users'' [''created_by''] T_users [''id''] None,
       FOREIGN_KEY ''fk_materials_updated_by_users'' [''updated_by''] T_users [''id''] None,
       PRIMARY_KEY ''pk_materials'' [''id''],
       UNIQUE_KEY ''uk_mat_code'' [''material_code'']],
    Create_Index ''ix_mat_name'' T_materials [''material_name''],
    Create_Index ''ix_mat_status'' T_materials [''status'']]"

definition base_operation_logs :: "ddl list" where
  "base_operation_logs = [
    Create_Table T_operation_logs
      [(''operator_id'', Column UNSIGNED_BIGINT True None None),
       (''username_snapshot'', Column (VARCHAR 64) True None None),
       (''action'', Column (ENUM_TYPE [''LOGIN'', ''LOGIN_FAILED'', ''PR_SUBMIT'', ''PR_APPROVE'', ''PR_REJECT'', ''PR_CANCEL'', ''PO_CREATE'', ''PO_CONFIRM'', ''RECEIPT_POST'', ''RECEIPT_REVERSE'', ''PERMISSION_CHANGE'']) False None None),
       (''module'', Column (VARCHAR 32) False None None),
       (''document_type'', Column (VARCHAR 32) True None None),
       (''document_id'', Column UNSIGNED_BIGINT True None None),
       (''description'', Column (VARCHAR 500) True None None),
       (''ip_address'', Column (VARCHAR 45) True None None),
       (''user_agent'', Column (VARCHAR 255) True None None),
       (''request_id'', Column (VARCHAR 64) True None None),
       (''created_at'', Column (DATETIME_TYPE 3) False (Some ''CURRENT_TIMESTAMP(3)'') None),
       (''id'', Column UNSIGNED_BIGINT False None None)]
      [FOREIGN_KEY ''fk_ol_operator'' [''operator_id''] T_users [''id''] (Some ''SET NULL''),
       PRIMARY_KEY ''pk_operation_logs'' [''id'']],
    Create_Index ''ix_ol_action'' T_operation_logs [''action''],
    Create_Index ''ix_ol_doc'' T_operation_logs [''document_type'', ''document_id''],
    Create_Index ''ix_ol_operator'' T_operation_logs [''operator_id''],
    Create_Index ''ix_ol_time'' T_operation_logs [''created_at'']]"

definition base_purchase_requisitions :: "ddl list" where
  "base_purchase_requisitions = [
    Create_Table T_purchase_requisitions
      [(''pr_no'', Column (VARCHAR 32) False None None),
       (''applicant_id'', Column UNSIGNED_BIGINT False None None),
       (''department_id'', Column UNSIGNED_BIGINT False None None),
       (''apply_date'', Column DATE_TYPE False None None),
       (''reason'', Column (VARCHAR 500) True None None),
       (''status'', Column (ENUM_TYPE [''DRAFT'', ''PENDING'', ''APPROVED'', ''REJECTED'', ''CANCELLED'', ''CONVERTED'']) False (Some ''DRAFT'') None),
       (''total_estimated_amount'', Column (DECIMAL 18 4) False (Some ''0'') None),
       (''remark'', Column (VARCHAR 255) True None None),
       (''created_by'', Column UNSIGNED_BIGINT True None None),
       (''updated_by'', Column UNSIGNED_BIGINT True None None),
       (''id'', Column UNSIGNED_BIGINT False None None),
       (''created_at'', Column (DATETIME_TYPE 3) False (Some ''CURRENT_TIMESTAMP(3)'') None),
       (''updated_at'', Column (DATETIME_TYPE 3) False (Some ''CURRENT_TIMESTAMP(3)'') None)]
      [FOREIGN_KEY ''fk_pr_applicant'' [''applicant_id''] T_users [''id''] (Some ''RESTRICT''),
       FOREIGN_KEY ''fk_pr_created_by_users'' [''created_by''] T_users [''id''] None,
       FOREIGN_KEY ''fk_pr_dept'' [''department_id''] T_departments [''id''] (Some ''RESTRICT''),
       FOREIGN_KEY ''fk_pr_updated_by_users'' [''updated_by''] T_users [''id''] None,
       PRIMARY_KEY ''pk_purchase_requisitions'' [''id''],
       UNIQUE_KEY ''uk_pr_no'' [''pr_no'']],
    Create_Index ''ix_pr_applicant'' T_purchase_requisitions [''applicant_id''],
    Create_Index ''ix_pr_date'' T_purchase_requisitions [''apply_date''],
    Create_Index ''ix_pr_dept'' T_purchase_requisitions [''department_id''],
    Create_Index ''ix_pr_status'' T_purchase_requisitions [''status'']]"

definition base_role_permissions :: "ddl list" where
  "base_role_permissions = [
    Create_Table T_role_permissions
      [(''role_id'', Column UNSIGNED_BIGINT False None None),
       (''permission_id'', Column UNSIGNED_BIGINT False None None),
       (''id'', Column UNSIGNED_BIGINT False None None)]
      [FOREIGN_KEY ''fk_rp_permission'' [''permission_id''] T_permissions [''id''] (Some ''CASCADE''),
       FOREIGN_KEY ''fk_rp_role'' [''role_id''] T_roles [''id''] (Some ''CASCADE''),
       PRIMARY_KEY ''pk_role_permissions'' [''id''],
       UNIQUE_KEY ''uk_role_perm'' [''role_id'', ''permission_id'']],
    Create_Index ''ix_roleperm_perm'' T_role_permissions [''permission_id'']]"

definition base_suppliers :: "ddl list" where
  "base_suppliers = [
    Create_Table T_suppliers
      [(''supplier_code'', Column (VARCHAR 32) False None None),
       (''supplier_name'', Column (VARCHAR 128) False None None),
       (''contact_person'', Column (VARCHAR 64) True None None),
       (''phone'', Column (VARCHAR 32) True None None),
       (''email'', Column (VARCHAR 128) True None None),
       (''address'', Column (VARCHAR 255) True None None),
       (''status'', Column (ENUM_TYPE [''ACTIVE'', ''DISABLED'']) False (Some ''ACTIVE'') None),
       (''remark'', Column (VARCHAR 255) True None None),
       (''created_by'', Column UNSIGNED_BIGINT True None None),
       (''updated_by'', Column UNSIGNED_BIGINT True None None),
       (''id'', Column UNSIGNED_BIGINT False None None),
       (''created_at'', Column (DATETIME_TYPE 3) False (Some ''CURRENT_TIMESTAMP(3)'') None),
       (''updated_at'', Column (DATETIME_TYPE 3) False (Some ''CURRENT_TIMESTAMP(3)'') None)]
      [FOREIGN_KEY ''fk_suppliers_created_by_users'' [''created_by''] T_users [''id''] None,
       FOREIGN_KEY ''fk_suppliers_updated_by_users'' [''updated_by''] T_users [''id''] None,
       PRIMARY_KEY ''pk_suppliers'' [''id''],
       UNIQUE_KEY ''uk_sup_code'' [''supplier_code'']],
    Create_Index ''ix_sup_name'' T_suppliers [''supplier_name''],
    Create_Index ''ix_sup_status'' T_suppliers [''status'']]"

definition base_warehouses :: "ddl list" where
  "base_warehouses = [
    Create_Table T_warehouses
      [(''warehouse_code'', Column (VARCHAR 32) False None None),
       (''warehouse_name'', Column (VARCHAR 64) False None None),
       (''status'', Column (ENUM_TYPE [''ACTIVE'', ''DISABLED'']) False (Some ''ACTIVE'') None),
       (''remark'', Column (VARCHAR 255) True None None),
       (''created_by'', Column UNSIGNED_BIGINT True None None),
       (''updated_by'', Column UNSIGNED_BIGINT True None None),
       (''id'', Column UNSIGNED_BIGINT False None None),
       (''created_at'', Column (DATETIME_TYPE 3) False (Some ''CURRENT_TIMESTAMP(3)'') None),
       (''updated_at'', Column (DATETIME_TYPE 3) False (Some ''CURRENT_TIMESTAMP(3)'') None)]
      [FOREIGN_KEY ''fk_warehouses_created_by_users'' [''created_by''] T_users [''id''] None,
       FOREIGN_KEY ''fk_warehouses_updated_by_users'' [''updated_by''] T_users [''id''] None,
       PRIMARY_KEY ''pk_warehouses'' [''id''],
       UNIQUE_KEY ''uk_wh_code'' [''warehouse_code'']],
    Create_Index ''ix_wh_status'' T_warehouses [''status'']]"

definition base_inventory_balances :: "ddl list" where
  "base_inventory_balances = [
    Create_Table T_inventory_balances
      [(''warehouse_id'', Column UNSIGNED_BIGINT False None None),
       (''material_id'', Column UNSIGNED_BIGINT False None None),
       (''quantity'', Column (DECIMAL 18 4) False (Some ''0'') None),
       (''total_amount'', Column (DECIMAL 18 4) False (Some ''0'') None),
       (''average_unit_cost'', Column (DECIMAL 18 4) False (Some ''0'') None),
       (''version'', Column UNSIGNED_INT False (Some ''0'') None),
       (''last_transaction_at'', Column (DATETIME_TYPE 3) True None None),
       (''id'', Column UNSIGNED_BIGINT False None None),
       (''created_at'', Column (DATETIME_TYPE 3) False (Some ''CURRENT_TIMESTAMP(3)'') None),
       (''updated_at'', Column (DATETIME_TYPE 3) False (Some ''CURRENT_TIMESTAMP(3)'') None)]
      [CHECK_KEY ''ck_inventory_balances_ib_avg_nonneg'' ''average_unit_cost >= 0'',
       CHECK_KEY ''ck_inventory_balances_ib_qty_nonneg'' ''quantity >= 0'',
       CHECK_KEY ''ck_inventory_balances_ib_amount_nonneg'' ''total_amount >= 0'',
       FOREIGN_KEY ''fk_ib_mat'' [''material_id''] T_materials [''id''] (Some ''RESTRICT''),
       FOREIGN_KEY ''fk_ib_wh'' [''warehouse_id''] T_warehouses [''id''] (Some ''RESTRICT''),
       PRIMARY_KEY ''pk_inventory_balances'' [''id''],
       UNIQUE_KEY ''uk_ib'' [''warehouse_id'', ''material_id'']],
    Create_Index ''ix_ib_mat'' T_inventory_balances [''material_id'']]"

definition base_inventory_policies :: "ddl list" where
  "base_inventory_policies = [
    Create_Table T_inventory_policies
      [(''warehouse_id'', Column UNSIGNED_BIGINT False None None),
       (''material_id'', Column UNSIGNED_BIGINT False None None),
       (''safety_stock'', Column (DECIMAL 18 4) False (Some ''0'') None),
       (''min_stock'', Column (DECIMAL 18 4) True None None),
       (''max_stock'', Column (DECIMAL 18 4) True None None),
       (''reorder_point'', Column (DECIMAL 18 4) True None None),
       (''remark'', Column (VARCHAR 255) True None None),
       (''id'', Column UNSIGNED_BIGINT False None None),
       (''created_at'', Column (DATETIME_TYPE 3) False (Some ''CURRENT_TIMESTAMP(3)'') None),
       (''updated_at'', Column (DATETIME_TYPE 3) False (Some ''CURRENT_TIMESTAMP(3)'') None)]
      [CHECK_KEY ''ck_inventory_policies_max_stock_nonneg'' ''max_stock IS NULL OR max_stock >= 0'',
       CHECK_KEY ''ck_inventory_policies_min_stock_nonneg'' ''min_stock IS NULL OR min_stock >= 0'',
       CHECK_KEY ''ck_inventory_policies_reorder_point_nonneg'' ''reorder_point IS NULL OR reorder_point >= 0'',
       CHECK_KEY ''ck_inventory_policies_safety_stock_nonneg'' ''safety_stock >= 0'',
       FOREIGN_KEY ''fk_invpol_mat'' [''material_id''] T_materials [''id''] (Some ''CASCADE''),
       FOREIGN_KEY ''fk_invpol_wh'' [''warehouse_id''] T_warehouses [''id''] (Some ''CASCADE''),
       PRIMARY_KEY ''pk_inventory_policies'' [''id''],
       UNIQUE_KEY ''uk_invpol'' [''warehouse_id'', ''material_id'']],
    Create_Index ''ix_invpol_mat'' T_inventory_policies [''material_id'']]"

definition base_inventory_transactions :: "ddl list" where
  "base_inventory_transactions = [
    Create_Table T_inventory_transactions
      [(''txn_no'', Column (VARCHAR 32) False None None),
       (''transaction_type'', Column (ENUM_TYPE [''PURCHASE_IN'', ''PURCHASE_IN_REVERSAL'', ''ADJUST_IN'', ''ADJUST_OUT'', ''PRODUCTION_OUT'', ''PRODUCTION_IN'']) False None None),
       (''warehouse_id'', Column UNSIGNED_BIGINT False None None),
       (''material_id'', Column UNSIGNED_BIGINT False None None),
       (''quantity'', Column (DECIMAL 18 4) False None None),
       (''unit_cost'', Column (DECIMAL 18 4) False (Some ''0'') None),
       (''amount'', Column (DECIMAL 18 4) False (Some ''0'') None),
       (''balance_after'', Column (DECIMAL 18 4) False None None),
       (''source_type'', Column (ENUM_TYPE [''PURCHASE_RECEIPT'', ''PURCHASE_RECEIPT_REVERSAL'', ''MANUAL_ADJUST'', ''PRODUCTION_ISSUE'', ''PRODUCTION_RECEIPT'']) True None None),
       (''source_id'', Column UNSIGNED_BIGINT True None None),
       (''source_item_id'', Column UNSIGNED_BIGINT True None None),
       (''reversed_transaction_id'', Column UNSIGNED_BIGINT True None None),
       (''transaction_at'', Column (DATETIME_TYPE 3) False None None),
       (''remark'', Column (VARCHAR 500) True None None),
       (''created_by'', Column UNSIGNED_BIGINT True None None),
       (''created_at'', Column (DATETIME_TYPE 3) False (Some ''CURRENT_TIMESTAMP(3)'') None),
       (''id'', Column UNSIGNED_BIGINT False None None)]
      [CHECK_KEY ''ck_inventory_transactions_it_sign'' ''(transaction_type IN ('PURCHASE_IN','ADJUST_IN','PRODUCTION_IN') AND quantity > 0) OR (transaction_type IN ('PURCHASE_IN_REVERSAL','ADJUST_OUT','PRODUCTION_OUT') AND quantity < 0)'',
       CHECK_KEY ''ck_inventory_transactions_it_cost_nonneg'' ''unit_cost >= 0'',
       FOREIGN_KEY ''fk_it_created_by_users'' [''created_by''] T_users [''id''] None,
       FOREIGN_KEY ''fk_it_mat'' [''material_id''] T_materials [''id''] (Some ''RESTRICT''),
       FOREIGN_KEY ''fk_it_reversed'' [''reversed_transaction_id''] T_inventory_transactions [''id''] None,
       FOREIGN_KEY ''fk_it_wh'' [''warehouse_id''] T_warehouses [''id''] (Some ''RESTRICT''),
       PRIMARY_KEY ''pk_inventory_transactions'' [''id''],
       UNIQUE_KEY ''uk_txn_no'' [''txn_no'']],
    Create_Index ''ix_it_mat'' T_inventory_transactions [''material_id''],
    Create_Index ''ix_it_reversed'' T_inventory_transactions [''reversed_transaction_id''],
    Create_Index ''ix_it_source'' T_inventory_transactions [''source_type'', ''source_id''],
    Create_Index ''ix_it_time'' T_inventory_transactions [''transaction_at''],
    Create_Index ''ix_it_type'' T_inventory_transactions [''transaction_type''],
    Create_Index ''ix_it_wh_mat'' T_inventory_transactions [''warehouse_id'', ''material_id'']]"

definition base_purchase_orders :: "ddl list" where
  "base_purchase_orders = [
    Create_Table T_purchase_orders
      [(''po_no'', Column (VARCHAR 32) False None None),
       (''supplier_id'', Column UNSIGNED_BIGINT False None None),
       (''buyer_id'', Column UNSIGNED_BIGINT False None None),
       (''order_date'', Column DATE_TYPE False None None),
       (''expected_date'', Column DATE_TYPE True None None),
       (''status'', Column (ENUM_TYPE [''DRAFT'', ''CONFIRMED'', ''PARTIALLY_RECEIVED'', ''RECEIVED'', ''CANCELLED'']) False (Some ''DRAFT'') None),
       (''total_amount'', Column (DECIMAL 18 4) False (Some ''0'') None),
       (''remark'', Column (VARCHAR 255) True None None),
       (''created_by'', Column UNSIGNED_BIGINT True None None),
       (''updated_by'', Column UNSIGNED_BIGINT True None None),
       (''id'', Column UNSIGNED_BIGINT False None None),
       (''created_at'', Column (DATETIME_TYPE 3) False (Some ''CURRENT_TIMESTAMP(3)'') None),
       (''updated_at'', Column (DATETIME_TYPE 3) False (Some ''CURRENT_TIMESTAMP(3)'') None)]
      [FOREIGN_KEY ''fk_po_buyer'' [''buyer_id''] T_users [''id''] (Some ''RESTRICT''),
       FOREIGN_KEY ''fk_po_created_by_users'' [''created_by''] T_users [''id''] None,
       FOREIGN_KEY ''fk_po_supplier'' [''supplier_id''] T_suppliers [''id''] (Some ''RESTRICT''),
       FOREIGN_KEY ''fk_po_updated_by_users'' [''updated_by''] T_users [''id''] None,
       PRIMARY_KEY ''pk_purchase_orders'' [''id''],
       UNIQUE_KEY ''uk_po_no'' [''po_no'']],
    Create_Index ''ix_po_buyer'' T_purchase_orders [''buyer_id''],
    Create_Index ''ix_po_date'' T_purchase_orders [''order_date''],
    Create_Index ''ix_po_status'' T_purchase_orders [''status''],
    Create_Index ''ix_po_supplier'' T_purchase_orders [''supplier_id'']]"

definition base_purchase_requisition_items :: "ddl list" where
  "base_purchase_requisition_items = [
    Create_Table T_purchase_requisition_items
      [(''pr_id'', Column UNSIGNED_BIGINT False None None),
       (''line_no'', Column INT_TYPE False None None),
       (''material_id'', Column UNSIGNED_BIGINT False None None),
       (''requested_quantity'', Column (DECIMAL 18 4) False None None),
       (''converted_quantity'', Column (DECIMAL 18 4) False (Some ''0'') None),
       (''estimated_unit_price'', Column (DECIMAL 18 4) False (Some ''0'') None),
       (''estimated_amount'', Column (DECIMAL 18 4) False None (Some ''ROUND(requested_quantity * estimated_unit_price, 4)'')),
       (''required_date'', Column DATE_TYPE True None None),
       (''remark'', Column (VARCHAR 255) True None None),
       (''id'', Column UNSIGNED_BIGINT False None None),
       (''created_at'', Column (DATETIME_TYPE 3) False (Some ''CURRENT_TIMESTAMP(3)'') None),
       (''updated_at'', Column (DATETIME_TYPE 3) False (Some ''CURRENT_TIMESTAMP(3)'') None)]
      [CHECK_KEY ''ck_purchase_requisition_items_pri_converted_not_exceed'' ''converted_quantity >= 0 AND converted_quantity <= requested_quantity'',
       CHECK_KEY ''ck_purchase_requisition_items_pri_qty_positive'' ''requested_quantity > 0'',
       FOREIGN_KEY ''fk_pri_mat'' [''material_id''] T_materials [''id''] (Some ''RESTRICT''),
       FOREIGN_KEY ''fk_pri_pr'' [''pr_id''] T_purchase_requisitions [''id''] (Some ''CASCADE''),
       PRIMARY_KEY ''pk_purchase_requisition_items'' [''id''],
       UNIQUE_KEY ''uk_pri_line'' [''pr_id'', ''line_no'']],
    Create_Index ''ix_pri_mat'' T_purchase_requisition_items [''material_id''],
    Create_Index ''ix_pri_pr'' T_purchase_requisition_items [''pr_id'']]"

definition base_purchase_order_items :: "ddl list" where
  "base_purchase_order_items = [
    Create_Table T_purchase_order_items
      [(''po_id'', Column UNSIGNED_BIGINT False None None),
       (''line_no'', Column INT_TYPE False None None),
       (''material_id'', Column UNSIGNED_BIGINT False None None),
       (''ordered_quantity'', Column (DECIMAL 18 4) False None None),
       (''received_quantity'', Column (DECIMAL 18 4) False (Some ''0'') None),
       (''unit_price'', Column (DECIMAL 18 4) False (Some ''0'') None),
       (''amount'', Column (DECIMAL 18 4) False None (Some ''ROUND(ordered_quantity * unit_price, 4)'')),
       (''remark'', Column (VARCHAR 255) True None None),
       (''id'', Column UNSIGNED_BIGINT False None None),
       (''created_at'', Column (DATETIME_TYPE 3) False (Some ''CURRENT_TIMESTAMP(3)'') None),
       (''updated_at'', Column (DATETIME_TYPE 3) False (Some ''CURRENT_TIMESTAMP(3)'') None)]
      [CHECK_KEY ''ck_purchase_order_items_poi_ordered_positive'' ''ordered_quantity > 0'',
       CHECK_KEY ''ck_purchase_order_items_poi_received_not_exceed'' ''received_quantity >= 0 AND received_quantity <= ordered_quantity'',
       CHECK_KEY ''ck_purchase_order_items_poi_price_nonneg'' ''unit_price >= 0'',
       FOREIGN_KEY ''fk_poi_mat'' [''material_id''] T_materials [''id''] (Some ''RESTRICT''),
       FOREIGN_KEY ''fk_poi_po'' [''po_id''] T_purchase_orders [''id''] (Some ''CASCADE''),
       PRIMARY_KEY ''pk_purchase_order_items'' [''id''],
       UNIQUE_KEY ''uk_poi_line'' [''po_id'', ''line_no'']],
    Create_Index ''ix_poi_mat'' T_purchase_order_items [''material_id''],
    Create_Index ''ix_poi_po'' T_purchase_order_items [''po_id'']]"

definition base_purchase_receipts :: "ddl list" where
  "base_purchase_receipts = [
    Create_Table T_purchase_receipts
      [(''receipt_no'', Column (VARCHAR 32) False None None),
       (''po_id'', Column UNSIGNED_BIGINT False None None),
       (''warehouse_id'', Column UNSIGNED_BIGINT False None None),
       (''received_by'', Column UNSIGNED_BIGINT False None None),
       (''received_at'', Column (DATETIME_TYPE 3) False None None),
       (''status'', Column (ENUM_TYPE [''POSTED'', ''REVERSED'']) False (Some ''POSTED'') None),
       (''reversed_by'', Column UNSIGNED_BIGINT True None None),
       (''reversed_at'', Column (DATETIME_TYPE 3) True None None),
       (''reverse_reason'', Column (VARCHAR 500) True None None),
       (''remark'', Column (VARCHAR 255) True None None),
       (''id'', Column UNSIGNED_BIGINT False None None),
       (''created_at'', Column (DATETIME_TYPE 3) False (Some ''CURRENT_TIMESTAMP(3)'') None),
       (''updated_at'', Column (DATETIME_TYPE 3) False (Some ''CURRENT_TIMESTAMP(3)'') None)]
      [FOREIGN_KEY ''fk_receipt_po'' [''po_id''] T_purchase_orders [''id''] (Some ''RESTRICT''),
       FOREIGN_KEY ''fk_receipt_user'' [''received_by''] T_users [''id''] (Some ''RESTRICT''),
       FOREIGN_KEY ''fk_receipt_reversed_by_users'' [''reversed_by''] T_users [''id''] None,
       FOREIGN_KEY ''fk_receipt_wh'' [''warehouse_id''] T_warehouses [''id''] (Some ''RESTRICT''),
       PRIMARY_KEY ''pk_purchase_receipts'' [''id''],
       UNIQUE_KEY ''uk_receipt_no'' [''receipt_no'']],
    Create_Index ''ix_receipt_po'' T_purchase_receipts [''po_id''],
    Create_Index ''ix_receipt_status'' T_purchase_receipts [''status''],
    Create_Index ''ix_receipt_wh'' T_purchase_receipts [''warehouse_id'']]"

definition base_purchase_order_item_sources :: "ddl list" where
  "base_purchase_order_item_sources = [
    Create_Table T_purchase_order_item_sources
      [(''po_item_id'', Column UNSIGNED_BIGINT False None None),
       (''pr_item_id'', Column UNSIGNED_BIGINT False None None),
       (''quantity'', Column (DECIMAL 18 4) False None None),
       (''created_at'', Column (DATETIME_TYPE 3) False (Some ''CURRENT_TIMESTAMP(3)'') None),
       (''id'', Column UNSIGNED_BIGINT False None None)]
      [CHECK_KEY ''ck_purchase_order_item_sources_pois_qty_positive'' ''quantity > 0'',
       FOREIGN_KEY ''fk_pois_poi'' [''po_item_id''] T_purchase_order_items [''id''] (Some ''CASCADE''),
       FOREIGN_KEY ''fk_pois_pri'' [''pr_item_id''] T_purchase_requisition_items [''id''] (Some ''RESTRICT''),
       PRIMARY_KEY ''pk_purchase_order_item_sources'' [''id''],
       UNIQUE_KEY ''uk_pois'' [''po_item_id'', ''pr_item_id'']],
    Create_Index ''ix_pois_pri'' T_purchase_order_item_sources [''pr_item_id'']]"

definition base_purchase_receipt_items :: "ddl list" where
  "base_purchase_receipt_items = [
    Create_Table T_purchase_receipt_items
      [(''receipt_id'', Column UNSIGNED_BIGINT False None None),
       (''po_item_id'', Column UNSIGNED_BIGINT False None None),
       (''line_no'', Column INT_TYPE False None None),
       (''material_id'', Column UNSIGNED_BIGINT False None None),
       (''received_quantity'', Column (DECIMAL 18 4) False None None),
       (''unit_price'', Column (DECIMAL 18 4) False None None),
       (''amount'', Column (DECIMAL 18 4) False None (Some ''ROUND(received_quantity * unit_price, 4)'')),
       (''remark'', Column (VARCHAR 255) True None None),
       (''created_at'', Column (DATETIME_TYPE 3) False (Some ''CURRENT_TIMESTAMP(3)'') None),
       (''id'', Column UNSIGNED_BIGINT False None None)]
      [CHECK_KEY ''ck_purchase_receipt_items_ri_qty_positive'' ''received_quantity > 0'',
       CHECK_KEY ''ck_purchase_receipt_items_ri_price_nonneg'' ''unit_price >= 0'',
       FOREIGN_KEY ''fk_ri_mat'' [''material_id''] T_materials [''id''] (Some ''RESTRICT''),
       FOREIGN_KEY ''fk_ri_poi'' [''po_item_id''] T_purchase_order_items [''id''] (Some ''RESTRICT''),
       FOREIGN_KEY ''fk_ri_receipt'' [''receipt_id''] T_purchase_receipts [''id''] (Some ''CASCADE''),
       PRIMARY_KEY ''pk_purchase_receipt_items'' [''id''],
       UNIQUE_KEY ''uk_ri_line'' [''receipt_id'', ''line_no''],
       UNIQUE_KEY ''uk_ri_poi'' [''receipt_id'', ''po_item_id'']],
    Create_Index ''ix_ri_mat'' T_purchase_receipt_items [''material_id''],
    Create_Index ''ix_ri_poi'' T_purchase_receipt_items [''po_item_id'']]"

definition base_deferred_keys :: "ddl list" where
  "base_deferred_keys = [
    Add_Foreign T_departments (FOREIGN_KEY ''fk_departments_created_by_users'' [''created_by''] T_users [''id''] None),
    Add_Foreign T_departments (FOREIGN_KEY ''fk_departments_updated_by_users'' [''updated_by''] T_users [''id''] None)]"

definition base_ledger_triggers :: "ddl list" where
  "base_ledger_triggers = [
    Create_Trigger ''trg_it_no_update'' Refuse_Update T_inventory_transactions,
    Create_Trigger ''trg_it_no_delete'' Refuse_Delete T_inventory_transactions]"

definition base_upgrade :: "ddl list" where
  "base_upgrade = base_departments @
    base_number_sequences @
    base_permissions @
    base_roles @
    base_users @
    base_approval_records @
    base_department_managers @
    base_materials @
    base_operation_logs @
    base_purchase_requisitions @
    base_role_permissions @
    base_suppliers @
    base_warehouses @
    base_inventory_balances @
    base_inventory_policies @
    base_inventory_transactions @
    base_purchase_orders @
    base_purchase_requisition_items @
    base_purchase_order_items @
    base_purchase_receipts @
    base_purchase_order_item_sources @
    base_purchase_receipt_items @
    base_deferred_keys @
    base_ledger_triggers"

definition base_downgrade :: "ddl list" where
  "base_downgrade = [
    Drop_Trigger_If_Exists ''trg_it_no_update'',
    Drop_Trigger_If_Exists ''trg_it_no_delete'',
    Drop_Index ''ix_ri_poi'' T_purchase_receipt_items,
    Drop_Index ''ix_ri_mat'' T_purchase_receipt_items,
    Drop_Table T_purchase_receipt_items,
    Drop_Index ''ix_pois_pri'' T_purchase_order_item_sources,
    Drop_Table T_purchase_order_item_sources,
    Drop_Index ''ix_receipt_wh'' T_purchase_receipts,
    Drop_Index ''ix_receipt_status'' T_purchase_receipts,
    Drop_Index ''ix_receipt_po'' T_purchase_receipts,
    Drop_Table T_purchase_receipts,
    Drop_Index ''ix_poi_po'' T_purchase_order_items,
    Drop_Index ''ix_poi_mat'' T_purchase_order_items,
    Drop_Table T_purchase_order_items,
    Drop_Index ''ix_pri_pr'' T_purchase_requisition_items,
    Drop_Index ''ix_pri_mat'' T_purchase_requisition_items,
    Drop_Table T_purchase_requisition_items,
    Drop_Index ''ix_po_supplier'' T_purchase_orders,
    Drop_Index ''ix_po_status'' T_purchase_orders,
    Drop_Index ''ix_po_date'' T_purchase_orders,
    Drop_Index ''ix_po_buyer'' T_purchase_orders,
    Drop_Table T_purchase_orders,
    Drop_Index ''ix_it_wh_mat'' T_inventory_transactions,
    Drop_Index ''ix_it_type'' T_inventory_transactions,
    Drop_Index ''ix_it_time'' T_inventory_transactions,
    Drop_Index ''ix_it_source'' T_inventory_transactions,
    Drop_Index ''ix_it_reversed'' T_inventory_transactions,
    Drop_Index ''ix_it_mat'' T_inventory_transactions,
    Drop_Table T_inventory_transactions,
    Drop_Index ''ix_invpol_mat'' T_inventory_policies,
    Drop_Table T_inventory_policies,
    Drop_Index ''ix_ib_mat'' T_inventory_balances,
    Drop_Table T_inventory_balances,
    Drop_Index ''ix_wh_status'' T_warehouses,
    Drop_Table T_warehouses,
    Drop_Index ''ix_sup_status'' T_suppliers,
    Drop_Index ''ix_sup_name'' T_suppliers,
    Drop_Table T_suppliers,
    Drop_Index ''ix_roleperm_perm'' T_role_permissions,
    Drop_Table T_role_permissions,
    Drop_Index ''ix_pr_status'' T_purchase_requisitions,
    Drop_Index ''ix_pr_dept'' T_purchase_requisitions,
    Drop_Index ''ix_pr_date'' T_purchase_requisitions,
    Drop_Index ''ix_pr_applicant'' T_purchase_requisitions,
    Drop_Table T_purchase_requisitions,
    Drop_Index ''ix_ol_time'' T_operation_logs,
    Drop_Index ''ix_ol_operator'' T_operation_logs,
    Drop_Index ''ix_ol_doc'' T_operation_logs,
    Drop_Index ''ix_ol_action'' T_operation_logs,
    Drop_Table T_operation_logs,
    Drop_Index ''ix_mat_status'' T_materials,
    Drop_Index ''ix_mat_name'' T_materials,
    Drop_Table T_materials,
    Drop_Index ''ix_deptmgr_user'' T_department_managers,
    Drop_Table T_department_managers,
    Drop_Index ''ix_ar_time'' T_approval_records,
    Drop_Index ''ix_ar_doc'' T_approval_records,
    Drop_Index ''ix_ar_approver'' T_approval_records,
    Drop_Table T_approval_records,
    Drop_Index ''ix_user_status'' T_users,
    Drop_Index ''ix_user_role'' T_users,
    Drop_Index ''ix_user_dept'' T_users,
    Drop_Table T_users,
    Drop_Index ''ix_role_status'' T_roles,
    Drop_Table T_roles,
    Drop_Index ''ix_perm_module'' T_permissions,
    Drop_Table T_permissions,
    Drop_Table T_number_sequences,
    Drop_Index ''ix_dept_status'' T_departments,
    Drop_Index ''ix_dept_parent'' T_departments,
    Drop_Table T_departments]"

definition base_revision :: revision where
  "base_revision = \<lparr>rev_id = ''0d8e51ed6370'', rev_down = None,
    rev_upgrade = base_upgrade, rev_downgrade = base_downgrade\<rparr>"

end
