(* ===== verification/Migration_Steps.thy ===== *)
theory Migration_Steps
  imports Migration_Base
begin

text \<open>
  The later migrations, each with the lists of enumeration values it uses, its upgrade and
  its downgrade, and the line of revisions.
\<close>

section \<open>Phase5: revision 9f2e7c1a4b8d\<close>

definition phase5_AUDIT_ACTIONS :: "string list" where
  "phase5_AUDIT_ACTIONS =
    [''LOGIN'', ''LOGIN_FAILED'', ''PR_SUBMIT'', ''PR_APPROVE'', ''PR_REJECT'',
     ''PR_CANCEL'', ''PO_CREATE'', ''PO_CONFIRM'', ''RECEIPT_POST'', ''RECEIPT_REVERSE'',
     ''PERMISSION_CHANGE'', ''MATERIAL_CREATE'', ''MATERIAL_UPDATE'', ''MATERIAL_DISABLE'',
     ''MATERIAL_ENABLE'', ''SUPPLIER_CREATE'', ''SUPPLIER_UPDATE'', ''SUPPLIER_DISABLE'',
     ''SUPPLIER_ENABLE'', ''WAREHOUSE_CREATE'', ''WAREHOUSE_UPDATE'', ''WAREHOUSE_DISABLE'',
     ''WAREHOUSE_ENABLE'', ''INVENTORY_POLICY_CHANGE'']"

definition phase5_ORIGINAL_ACTIONS :: "string list" where
  "phase5_ORIGINAL_ACTIONS =
    [''LOGIN'', ''LOGIN_FAILED'', ''PR_SUBMIT'', ''PR_APPROVE'', ''PR_REJECT'',
     ''PR_CANCEL'', ''PO_CREATE'', ''PO_CONFIRM'', ''RECEIPT_POST'', ''RECEIPT_REVERSE'',
     ''PERMISSION_CHANGE'']"

definition phase5_upgrade :: "ddl list" where
  "phase5_upgrade = [
    Modify_Column T_operation_logs ''action'' (Column (ENUM_TYPE phase5_AUDIT_ACTIONS) False None None),
    Drop_Check T_inventory_policies ''ck_inventory_policies_max_stock_nonneg'',
    Add_Check T_inventory_policies ''ck_inventory_policies_max_stock_nonneg'' ''max_stock IS NULL OR max_stock > 0'']"

definition phase5_downgrade :: "ddl list" where
  "phase5_downgrade = [
    Drop_Check T_inventory_policies ''ck_inventory_policies_max_stock_nonneg'',
    Add_Check T_inventory_policies ''ck_inventory_policies_max_stock_nonneg'' ''max_stock IS NULL OR max_stock >= 0'',
    Modify_Column T_operation_logs ''action'' (Column (ENUM_TYPE phase5_ORIGINAL_ACTIONS) False None None)]"

definition phase5_revision :: revision where
  "phase5_revision = \<lparr>rev_id = ''9f2e7c1a4b8d'', rev_down = Some ''0d8e51ed6370'',
    rev_upgrade = phase5_upgrade, rev_downgrade = phase5_downgrade\<rparr>"

section \<open>Phase6: revision f2a7d3b5c9e1\<close>

definition phase6_AUDIT_ACTIONS :: "string list" where
  "phase6_AUDIT_ACTIONS =
    [''LOGIN'', ''LOGIN_FAILED'', ''PR_CREATE'', ''PR_UPDATE'', ''PR_SUBMIT'',
     ''PR_APPROVE'', ''PR_REJECT'', ''PR_CANCEL'', ''PO_CREATE'', ''PO_CONFIRM'',
     ''RECEIPT_POST'', ''RECEIPT_REVERSE'', ''PERMISSION_CHANGE'', ''MATERIAL_CREATE'',
     ''MATERIAL_UPDATE'', ''MATERIAL_DISABLE'', ''MATERIAL_ENABLE'', ''SUPPLIER_CREATE'',
     ''SUPPLIER_UPDATE'', ''SUPPLIER_DISABLE'', ''SUPPLIER_ENABLE'', ''WAREHOUSE_CREATE'',
     ''WAREHOUSE_UPDATE'', ''WAREHOUSE_DISABLE'', ''WAREHOUSE_ENABLE'',
     ''INVENTORY_POLICY_CHANGE'']"

definition phase6_PREVIOUS_ACTIONS :: "string list" where
  "phase6_PREVIOUS_ACTIONS =
    [''LOGIN'', ''LOGIN_FAILED'', ''PR_SUBMIT'', ''PR_APPROVE'', ''PR_REJECT'',
     ''PR_CANCEL'', ''PO_CREATE'', ''PO_CONFIRM'', ''RECEIPT_POST'', ''RECEIPT_REVERSE'',
     ''PERMISSION_CHANGE'', ''MATERIAL_CREATE'', ''MATERIAL_UPDATE'', ''MATERIAL_DISABLE'',
     ''MATERIAL_ENABLE'', ''SUPPLIER_CREATE'', ''SUPPLIER_UPDATE'', ''SUPPLIER_DISABLE'',
     ''SUPPLIER_ENABLE'', ''WAREHOUSE_CREATE'', ''WAREHOUSE_UPDATE'', ''WAREHOUSE_DISABLE'',
     ''WAREHOUSE_ENABLE'', ''INVENTORY_POLICY_CHANGE'']"

definition phase6_upgrade :: "ddl list" where
  "phase6_upgrade = [
    Add_Column T_purchase_requisitions (''submitted_at'', Column (DATETIME_TYPE 3) True None None),
    Add_Column T_purchase_requisitions (''version'', Column INT_TYPE False (Some ''1'') None),
    Modify_Column T_purchase_requisitions ''total_estimated_amount'' (Column (DECIMAL 18 2) False (Some ''0'') None),
    Drop_Column T_purchase_requisition_items ''estimated_amount'',
    Add_Column T_purchase_requisition_items (''estimated_amount'', Column (DECIMAL 18 2) False (Some ''0'') None),
    Add_Check T_purchase_requisition_items (ck_name T_purchase_requisition_items ''pri_price_nonneg'') ''estimated_unit_price >= 0'',
    Add_Column T_operation_logs (''document_no'', Column (VARCHAR 32) True None None),
    Modify_Column T_operation_logs ''action'' (Column (ENUM_TYPE phase6_AUDIT_ACTIONS) False None None)]"

definition phase6_downgrade :: "ddl list" where
  "phase6_downgrade = [
    Modify_Column T_operation_logs ''action'' (Column (ENUM_TYPE phase6_PREVIOUS_ACTIONS) False None None),
    Drop_Column T_operation_logs ''document_no'',
    Drop_Check T_purchase_requisition_items (ck_name T_purchase_requisition_items ''pri_price_nonneg''),
    Drop_Column T_purchase_requisition_items ''estimated_amount'',
    Add_Column T_purchase_requisition_items (''estimated_amount'', Column (DECIMAL 18 4) False None (Some ''ROUND(requested_quantity * estimated_unit_price, 4)'')),
    Modify_Column T_purchase_requisitions ''total_estimated_amount'' (Column (DECIMAL 18 4) False (Some ''0'') None),
    Drop_Column T_purchase_requisitions ''version'',
    Drop_Column T_purchase_requisitions ''submitted_at'']"

definition phase6_revision :: revision where
  "phase6_revision = \<lparr>rev_id = ''f2a7d3b5c9e1'', rev_down = Some ''9f2e7c1a4b8d'',
    rev_upgrade = phase6_upgrade, rev_downgrade = phase6_downgrade\<rparr>"

section \<open>Phase7: revision b7c4d9e1a3f6\<close>

definition phase7_AUDIT_ACTIONS :: "string list" where
  "phase7_AUDIT_ACTIONS =
    [''LOGIN'', ''LOGIN_FAILED'', ''PR_CREATE'', ''PR_UPDATE'', ''PR_SUBMIT'',
     ''PR_APPROVE'', ''PR_REJECT'', ''PR_REVISE'', ''PR_CANCEL'', ''PO_CREATE'',
     ''PO_CONFIRM'', ''RECEIPT_POST'', ''RECEIPT_REVERSE'', ''PERMISSION_CHANGE'',
     ''MATERIAL_CREATE'', ''MATERIAL_UPDATE'', ''MATERIAL_DISABLE'', ''MATERIAL_ENABLE'',
     ''SUPPLIER_CREATE'', ''SUPPLIER_UPDATE'', ''SUPPLIER_DISABLE'', ''SUPPLIER_ENABLE'',
     ''WAREHOUSE_CREATE'', ''WAREHOUSE_UPDATE'', ''WAREHOUSE_DISABLE'',
     ''WAREHOUSE_ENABLE'', ''INVENTORY_POLICY_CHANGE'']"

definition phase7_PREVIOUS_ACTIONS :: "string list" where
  "phase7_PREVIOUS_ACTIONS =
    [''LOGIN'', ''LOGIN_FAILED'', ''PR_CREATE'', ''PR_UPDATE'', ''PR_SUBMIT'',
     ''PR_APPROVE'', ''PR_REJECT'', ''PR_CANCEL'', ''PO_CREATE'', ''PO_CONFIRM'',
     ''RECEIPT_POST'', ''RECEIPT_REVERSE'', ''PERMISSION_CHANGE'', ''MATERIAL_CREATE'',
     ''MATERIAL_UPDATE'', ''MATERIAL_DISABLE'', ''MATERIAL_ENABLE'', ''SUPPLIER_CREATE'',
     ''SUPPLIER_UPDATE'', ''SUPPLIER_DISABLE'', ''SUPPLIER_ENABLE'', ''WAREHOUSE_CREATE'',
     ''WAREHOUSE_UPDATE'', ''WAREHOUSE_DISABLE'', ''WAREHOUSE_ENABLE'',
     ''INVENTORY_POLICY_CHANGE'']"

definition phase7_upgrade :: "ddl list" where
  "phase7_upgrade = [
    Add_Column T_approval_records (''document_no'', Column (VARCHAR 32) True None None),
    Add_Column T_approval_records (''from_status'', Column (VARCHAR 32) True None None),
    Add_Column T_approval_records (''to_status'', Column (VARCHAR 32) True None None),
    Modify_Column T_approval_records ''result_status'' (Column (VARCHAR 32) False None None),
    Create_Index ''ix_pr_dept_status'' T_purchase_requisitions [''department_id'', ''status''],
    Modify_Column T_operation_logs ''action'' (Column (ENUM_TYPE phase7_AUDIT_ACTIONS) False None None)]"

definition phase7_downgrade :: "ddl list" where
  "phase7_downgrade = [
    Modify_Column T_operation_logs ''action'' (Column (ENUM_TYPE phase7_PREVIOUS_ACTIONS) False None None),
    Drop_Index ''ix_pr_dept_status'' T_purchase_requisitions,
    Modify_Column T_approval_records ''result_status'' (Column (VARCHAR 32) False None None),
    Drop_Column T_approval_records ''to_status'',
    Drop_Column T_approval_records ''from_status'',
    Drop_Column T_approval_records ''document_no'']"

definition phase7_revision :: revision where
  "phase7_revision = \<lparr>rev_id = ''b7c4d9e1a3f6'', rev_down = Some ''f2a7d3b5c9e1'',
    rev_upgrade = phase7_upgrade, rev_downgrade = phase7_downgrade\<rparr>"

section \<open>Phase8: revision a1b2c3d4e5f6\<close>

definition phase8_AUDIT_ACTIONS :: "string list" where
  "phase8_AUDIT_ACTIONS =
    [''LOGIN'', ''LOGIN_FAILED'', ''PR_CREATE'', ''PR_UPDATE'', ''PR_SUBMIT'',
     ''PR_APPROVE'', ''PR_REJECT'', ''PR_REVISE'', ''PR_CANCEL'', ''PO_CREATE'',
     ''PO_CONFIRM'', ''PO_CANCEL'', ''RECEIPT_POST'', ''RECEIPT_REVERSE'',
     ''PERMISSION_CHANGE'', ''MATERIAL_CREATE'', ''MATERIAL_UPDATE'', ''MATERIAL_DISABLE'',
     ''MATERIAL_ENABLE'', ''SUPPLIER_CREATE'', ''SUPPLIER_UPDATE'', ''SUPPLIER_DISABLE'',
     ''SUPPLIER_ENABLE'', ''WAREHOUSE_CREATE'', ''WAREHOUSE_UPDATE'', ''WAREHOUSE_DISABLE'',
     ''WAREHOUSE_ENABLE'', ''INVENTORY_POLICY_CHANGE'']"

definition phase8_PREVIOUS_ACTIONS :: "string list" where
  "phase8_PREVIOUS_ACTIONS =
    [''LOGIN'', ''LOGIN_FAILED'', ''PR_CREATE'', ''PR_UPDATE'', ''PR_SUBMIT'',
     ''PR_APPROVE'', ''PR_REJECT'', ''PR_REVISE'', ''PR_CANCEL'', ''PO_CREATE'',
     ''PO_CONFIRM'', ''RECEIPT_POST'', ''RECEIPT_REVERSE'', ''PERMISSION_CHANGE'',
     ''MATERIAL_CREATE'', ''MATERIAL_UPDATE'', ''MATERIAL_DISABLE'', ''MATERIAL_ENABLE'',
     ''SUPPLIER_CREATE'', ''SUPPLIER_UPDATE'', ''SUPPLIER_DISABLE'', ''SUPPLIER_ENABLE'',
     ''WAREHOUSE_CREATE'', ''WAREHOUSE_UPDATE'', ''WAREHOUSE_DISABLE'',
     ''WAREHOUSE_ENABLE'', ''INVENTORY_POLICY_CHANGE'']"

definition phase8_upgrade :: "ddl list" where
  "phase8_upgrade = [
    Add_Column T_purchase_orders (''version'', Column INT_TYPE False (Some ''1'') None),
    Modify_Column T_purchase_orders ''total_amount'' (Column (DECIMAL 18 2) False (Some ''0'') None),
    Drop_Column T_purchase_order_items ''amount'',
    Add_Column T_purchase_order_items (''amount'', Column (DECIMAL 18 2) False (Some ''0'') None),
    Modify_Column T_operation_logs ''action'' (Column (ENUM_TYPE phase8_AUDIT_ACTIONS) False None None)]"

definition phase8_downgrade :: "ddl list" where
  "phase8_downgrade = [
    Modify_Column T_operation_logs ''action'' (Column (ENUM_TYPE phase8_PREVIOUS_ACTIONS) False None None),
    Drop_Column T_purchase_order_items ''amount'',
    Add_Column T_purchase_order_items (''amount'', Column (DECIMAL 18 4) False None (Some ''ROUND(ordered_quantity * unit_price, 4)'')),
    Modify_Column T_purchase_orders ''total_amount'' (Column (DECIMAL 18 4) False (Some ''0'') None),
    Drop_Column T_purchase_orders ''version'']"

definition phase8_revision :: revision where
  "phase8_revision = \<lparr>rev_id = ''a1b2c3d4e5f6'', rev_down = Some ''b7c4d9e1a3f6'',
    rev_upgrade = phase8_upgrade, rev_downgrade = phase8_downgrade\<rparr>"

section \<open>Phase9: revision c3f8a1d2b7e9\<close>

definition phase9_upgrade :: "ddl list" where
  "phase9_upgrade = [
    Drop_Column T_purchase_receipt_items ''amount'',
    Add_Column T_purchase_receipt_items (''amount'', Column (DECIMAL 18 2) False (Some ''0'') None),
    Modify_Column T_inventory_balances ''total_amount'' (Column (DECIMAL 18 2) False (Some ''0'') None),
    Modify_Column T_inventory_transactions ''amount'' (Column (DECIMAL 18 2) False (Some ''0'') None),
    Modify_Column T_purchase_receipts ''reverse_reason'' (Column (VARCHAR 1000) True None None),
    Modify_Column T_purchase_receipts ''receipt_no'' (Column (VARCHAR 32) False None None),
    Modify_Column T_number_sequences ''sequence_key'' (Column (VARCHAR 32) False None None)]"

definition phase9_downgrade :: "ddl list" where
  "phase9_downgrade = [
    Modify_Column T_number_sequences ''sequence_key'' (Column (VARCHAR 32) False None None),
    Modify_Column T_purchase_receipts ''receipt_no'' (Column (VARCHAR 32) False None None),
    Modify_Column T_purchase_receipts ''reverse_reason'' (Column (VARCHAR 500) True None None),
    Modify_Column T_inventory_transactions ''amount'' (Column (DECIMAL 18 4) False (Some ''0'') None),
    Modify_Column T_inventory_balances ''total_amount'' (Column (DECIMAL 18 4) False (Some ''0'') None),
    Drop_Column T_purchase_receipt_items ''amount'',
    Add_Column T_purchase_receipt_items (''amount'', Column (DECIMAL 18 4) False None (Some ''ROUND(received_quantity * unit_price, 4)''))]"

definition phase9_revision :: revision where
  "phase9_revision = \<lparr>rev_id = ''c3f8a1d2b7e9'', rev_down = Some ''a1b2c3d4e5f6'',
    rev_upgrade = phase9_upgrade, rev_downgrade = phase9_downgrade\<rparr>"

section \<open>Review fix: revision e5f6a7b8c9d0\<close>

definition review_fix_NEW_CHECK :: string where
  "review_fix_NEW_CHECK =
    ''(transaction_type IN ('PURCHASE_IN','ADJUST_IN','PRODUCTION_IN') AND quantity > '' @
    ''0 AND amount >= 0) OR (transaction_type IN '' @
    ''('PURCHASE_IN_REVERSAL','ADJUST_OUT','PRODUCTION_OUT') AND quantity < 0 AND '' @
    ''amount <= 0)''"

definition review_fix_OLD_CHECK :: string where
  "review_fix_OLD_CHECK =
    ''(transaction_type IN ('PURCHASE_IN','ADJUST_IN','PRODUCTION_IN') AND quantity > '' @
    ''0) OR (transaction_type IN '' @
    ''('PURCHASE_IN_REVERSAL','ADJUST_OUT','PRODUCTION_OUT') AND quantity < 0)''"

definition review_fix_upgrade :: "ddl list" where
  "review_fix_upgrade = [
    Drop_Check T_inventory_transactions ''ck_inventory_transactions_it_sign'',
    Add_Check T_inventory_transactions ''ck_inventory_transactions_it_sign'' review_fix_NEW_CHECK]"

definition review_fix_downgrade :: "ddl list" where
  "review_fix_downgrade = [
    Drop_Check T_inventory_transactions ''ck_inventory_transactions_it_sign'',
    Add_Check T_inventory_transactions ''ck_inventory_transactions_it_sign'' review_fix_OLD_CHECK]"

definition review_fix_revision :: revision where
  "review_fix_revision = \<lparr>rev_id = ''e5f6a7b8c9d0'', rev_down = Some ''c3f8a1d2b7e9'',
    rev_upgrade = review_fix_upgrade, rev_downgrade = review_fix_downgrade\<rparr>"

section \<open>Sprint1: revision a7b9c1d2e3f4a5b6\<close>

definition sprint1_AUDIT_ACTIONS_BEFORE :: "string list" where
  "sprint1_AUDIT_ACTIONS_BEFORE =
    [''LOGIN'', ''LOGIN_FAILED'', ''PR_CREATE'', ''PR_UPDATE'', ''PR_SUBMIT'',
     ''PR_APPROVE'', ''PR_REJECT'', ''PR_REVISE'', ''PR_CANCEL'', ''PO_CREATE'',
     ''PO_CONFIRM'', ''PO_CANCEL'', ''RECEIPT_POST'', ''RECEIPT_REVERSE'',
     ''PERMISSION_CHANGE'', ''MATERIAL_CREATE'', ''MATERIAL_UPDATE'', ''MATERIAL_DISABLE'',
     ''MATERIAL_ENABLE'', ''SUPPLIER_CREATE'', ''SUPPLIER_UPDATE'', ''SUPPLIER_DISABLE'',
     ''SUPPLIER_ENABLE'', ''WAREHOUSE_CREATE'', ''WAREHOUSE_UPDATE'', ''WAREHOUSE_DISABLE'',
     ''WAREHOUSE_ENABLE'', ''INVENTORY_POLICY_CHANGE'']"

definition sprint1_AUDIT_ACTIONS_AFTER :: "string list" where
  "sprint1_AUDIT_ACTIONS_AFTER =
    sprint1_AUDIT_ACTIONS_BEFORE @
    [''STOCK_COUNT_CREATE'', ''STOCK_COUNT_SUBMIT'', ''STOCK_COUNT_APPROVE'',
     ''STOCK_COUNT_REJECT'']"

definition sprint1_SOURCE_TYPES_BEFORE :: "string list" where
  "sprint1_SOURCE_TYPES_BEFORE =
    [''PURCHASE_RECEIPT'', ''PURCHASE_RECEIPT_REVERSAL'', ''MANUAL_ADJUST'',
     ''PRODUCTION_ISSUE'', ''PRODUCTION_RECEIPT'']"

definition sprint1_SOURCE_TYPES_AFTER :: "string list" where
  "sprint1_SOURCE_TYPES_AFTER =
    sprint1_SOURCE_TYPES_BEFORE @
    [''STOCK_RECONCILIATION'']"

definition sprint1_upgrade :: "ddl list" where
  "sprint1_upgrade = [
    Modify_Column T_operation_logs ''action'' (Column (ENUM_TYPE sprint1_AUDIT_ACTIONS_AFTER) False None None),
    Modify_Column T_inventory_transactions ''source_type'' (Column (ENUM_TYPE sprint1_SOURCE_TYPES_AFTER) True None None),
    Create_Table T_stock_reconciliations
      [(''reconciliation_no'', Column (VARCHAR 32) False None None),
       (''warehouse_id'', Column UNSIGNED_BIGINT False None None),
       (''counted_by'', Column UNSIGNED_BIGINT False None None),
       (''counted_on'', Column DATE_TYPE False None None),
       (''status'', Column (ENUM_TYPE [''DRAFT'', ''PENDING'', ''POSTED'', ''REJECTED'', ''CANCELLED'', ''REVERSED'']) False (Some ''DRAFT'') None),
       (''reason'', Column (VARCHAR 500) True None None),
       (''remark'', Column (VARCHAR 255) True None None),
       (''submitted_at'', Column (DATETIME_TYPE 3) True None None),
       (''posted_at'', Column (DATETIME_TYPE 3) True None None),
       (''approved_by'', Column UNSIGNED_BIGINT True None None),
       (''approve_comment'', Column (VARCHAR 1000) True None None),
       (''override_self_approval'', Column BOOL_TYPE False (Some ''0'') None),
       (''override_reason'', Column (VARCHAR 500) True None None),
       (''version'', Column INT_TYPE False (Some ''1'') None),
       (''created_at'', Column (DATETIME_TYPE 3) False (Some ''CURRENT_TIMESTAMP(3)'') None),
       (''updated_at'', Column (DATETIME_TYPE 3) False (Some ''CURRENT_TIMESTAMP(3)'') None),
       (''id'', Column UNSIGNED_BIGINT False None None)]
      [FOREIGN_KEY ''fk_reconcile_wh'' [''warehouse_id''] T_warehouses [''id''] (Some ''RESTRICT''),
       FOREIGN_KEY ''fk_reconcile_counted_by'' [''counted_by''] T_users [''id''] (Some ''RESTRICT''),
       FOREIGN_KEY ''fk_reconcile_approved_by'' [''approved_by''] T_users [''id''] (Some ''RESTRICT''),
       PRIMARY_KEY ''pk_stock_reconciliations'' [''id''],
       UNIQUE_KEY ''uk_reconciliation_no'' [''reconciliation_no'']],
    Create_Index ''ix_reconcile_wh_status'' T_stock_reconciliations [''warehouse_id'', ''status''],
    Create_Index ''ix_reconcile_counted_on'' T_stock_reconciliations [''counted_on''],
    Create_Index ''ix_reconcile_status'' T_stock_reconciliations [''status''],
    Create_Table T_stock_reconciliation_items
      [(''reconciliation_id'', Column UNSIGNED_BIGINT False None None),
       (''line_no'', Column INT_TYPE False None None),
       (''material_id'', Column UNSIGNED_BIGINT False None None),
       (''book_quantity_snapshot'', Column (DECIMAL 18 4) False None None),
       (''book_total_amount_snapshot'', Column (DECIMAL 18 2) False None None),
       (''book_avg_cost_snapshot'', Column (DECIMAL 18 4) False None None),
       (''physical_quantity'', Column (DECIMAL 18 4) False None None),
       (''difference_quantity'', Column (DECIMAL 18 4) False (Some ''0'') None),
       (''valuation_rate'', Column (DECIMAL 18 4) True None None),
       (''adjustment_amount'', Column (DECIMAL 18 2) False (Some ''0'') None),
       (''remark'', Column (VARCHAR 255) True None None),
       (''created_at'', Column (DATETIME_TYPE 3) False (Some ''CURRENT_TIMESTAMP(3)'') None),
       (''id'', Column UNSIGNED_BIGINT False None None)]
      [FOREIGN_KEY ''fk_rc_item_reconcile'' [''reconciliation_id''] T_stock_reconciliations [''id''] (Some ''CASCADE''),
       FOREIGN_KEY ''fk_rc_item_mat'' [''material_id''] T_materials [''id''] (Some ''RESTRICT''),
       PRIMARY_KEY ''pk_stock_reconciliation_items'' [''id''],
       UNIQUE_KEY ''uk_rc_line'' [''reconciliation_id'', ''line_no''],
       UNIQUE_KEY ''uk_rc_mat'' [''reconciliation_id'', ''material_id''],
       CHECK_KEY (ck_name T_stock_reconciliation_items ''ck_rc_physical_nonneg'') ''physical_quantity >= 0'',
       CHECK_KEY (ck_name T_stock_reconciliation_items ''ck_rc_qty_snapshot_nonneg'') ''book_quantity_snapshot >= 0'',
       CHECK_KEY (ck_name T_stock_reconciliation_items ''ck_rc_amount_snapshot_nonneg'') ''book_total_amount_snapshot >= 0'',
       CHECK_KEY (ck_name T_stock_reconciliation_items ''ck_rc_avg_snapshot_nonneg'') ''book_avg_cost_snapshot >= 0'',
       CHECK_KEY (ck_name T_stock_reconciliation_items ''ck_rc_rate_pos'') ''valuation_rate IS NULL OR valuation_rate > 0''],
    Create_Index ''ix_rc_mat'' T_stock_reconciliation_items [''material_id'']]"

definition sprint1_downgrade :: "ddl list" where
  "sprint1_downgrade = [
    Drop_Table T_stock_reconciliation_items,
    Drop_Table T_stock_reconciliations,
    Modify_Column T_inventory_transactions ''source_type'' (Column (ENUM_TYPE sprint1_SOURCE_TYPES_BEFORE) True None None),
    Modify_Column T_operation_logs ''action'' (Column (ENUM_TYPE sprint1_AUDIT_ACTIONS_BEFORE) False None None)]"

definition sprint1_revision :: revision where
  "sprint1_revision = \<lparr>rev_id = ''a7b9c1d2e3f4a5b6'', rev_down = Some ''e5f6a7b8c9d0'',
    rev_upgrade = sprint1_upgrade, rev_downgrade = sprint1_downgrade\<rparr>"

section \<open>Watermark: revision d4e5f6a7b8c9d0a1\<close>

definition watermark_upgrade :: "ddl list" where
  "watermark_upgrade = [
    Add_Column T_stock_reconciliation_items (''book_last_transaction_id_snapshot'', Column UNSIGNED_BIGINT True None None),
    Add_Check T_stock_reconciliation_items (ck_name T_stock_reconciliation_items ''ck_rc_wm_null_or_pos'') ''book_last_transaction_id_snapshot IS NULL OR book_last_transaction_id_snapshot > 0'']"

definition watermark_downgrade :: "ddl list" where
  "watermark_downgrade = [
    Drop_Check T_stock_reconciliation_items (ck_name T_stock_reconciliation_items ''ck_rc_wm_null_or_pos''),
    Drop_Column T_stock_reconciliation_items ''book_last_transaction_id_snapshot'']"

definition watermark_revision :: revision where
  "watermark_revision = \<lparr>rev_id = ''d4e5f6a7b8c9d0a1'', rev_down = Some ''a7b9c1d2e3f4a5b6'',
    rev_upgrade = watermark_upgrade, rev_downgrade = watermark_downgrade\<rparr>"

definition LATER_REVISIONS :: "revision list" where
  "LATER_REVISIONS = [phase5_revision,
    phase6_revision,
    phase7_revision,
    phase8_revision,
    phase9_revision,
    review_fix_revision,
    sprint1_revision,
    watermark_revision]"

definition REVISIONS :: "revision list" where
  "REVISIONS = base_revision # LATER_REVISIONS"

end
