(* ===== verification/Model_Tables.thy ===== *)
theory Model_Tables
  imports Schema_Ddl
begin

text \<open>
  The tables as the models under \<open>app/models\<close> declare them: columns with type, nullability and
  server default, keys and indexes; the columns of the mixins come first.  Enumeration columns
  take their values from \<open>utils/enums.py\<close>.
\<close>

definition ActiveStatus_values :: "string list" where
  "ActiveStatus_values =
    [''ACTIVE'', ''DISABLED'']"

definition DeptStatus_values :: "string list" where
  "DeptStatus_values =
    [''ACTIVE'', ''INACTIVE'']"

definition UserStatus_values :: "string list" where
  "UserStatus_values =
    [''ACTIVE'', ''DISABLED'']"

definition PrStatus_values :: "string list" where
  "PrStatus_values =
    [''DRAFT'', ''PENDING'', ''APPROVED'', ''REJECTED'', ''CANCELLED'', ''CONVERTED'']"

definition PoStatus_values :: "string list" where
  "PoStatus_values =
    [''DRAFT'', ''CONFIRMED'', ''PARTIALLY_RECEIVED'', ''RECEIVED'', ''CANCELLED'']"

definition ReceiptStatus_values :: "string list" where
  "ReceiptStatus_values =
    [''POSTED'', ''REVERSED'']"

definition ReconciliationStatus_values :: "string list" where
  "ReconciliationStatus_values =
    [''DRAFT'', ''PENDING'', ''POSTED'', ''REJECTED'', ''CANCELLED'', ''REVERSED'']"

definition TxnType_values :: "string list" where
  "TxnType_values =
    [''PURCHASE_IN'', ''PURCHASE_IN_REVERSAL'', ''ADJUST_IN'', ''ADJUST_OUT'',
     ''PRODUCTION_OUT'', ''PRODUCTION_IN'']"

definition TxnSourceType_values :: "string list" where
  "TxnSourceType_values =
    [''PURCHASE_RECEIPT'', ''PURCHASE_RECEIPT_REVERSAL'', ''MANUAL_ADJUST'',
     ''PRODUCTION_ISSUE'', ''PRODUCTION_RECEIPT'', ''STOCK_RECONCILIATION'']"

definition DocumentType_values :: "string list" where
  "DocumentType_values =
    [''PURCHASE_REQUISITION'', ''PURCHASE_ORDER'']"

definition ApprovalAction_values :: "string list" where
  "ApprovalAction_values =
    [''SUBMIT'', ''APPROVE'', ''REJECT'', ''CANCEL'']"

definition RoleCode_values :: "string list" where
  "RoleCode_values =
    [''ADMIN'', ''APPLICANT'', ''DEPT_MANAGER'', ''BUYER'', ''WAREHOUSE'']"

definition AuditAction_values :: "string list" where
  "AuditAction_values =
    [''LOGIN'', ''LOGIN_FAILED'', ''PR_CREATE'', ''PR_UPDATE'', ''PR_SUBMIT'',
     ''PR_APPROVE'', ''PR_REJECT'', ''PR_REVISE'', ''PR_CANCEL'', ''PO_CREATE'',
     ''PO_CONFIRM'', ''PO_CANCEL'', ''RECEIPT_POST'', ''RECEIPT_REVERSE'',
     ''PERMISSION_CHANGE'', ''MATERIAL_CREATE'', ''MATERIAL_UPDATE'', ''MATERIAL_DISABLE'',
     ''MATERIAL_ENABLE'', ''SUPPLIER_CREATE'', ''SUPPLIER_UPDATE'', ''SUPPLIER_DISABLE'',
     ''SUPPLIER_ENABLE'', ''WAREHOUSE_CREATE'', ''WAREHOUSE_UPDATE'', ''WAREHOUSE_DISABLE'',
     ''WAREHOUSE_ENABLE'', ''INVENTORY_POLICY_CHANGE'', ''STOCK_COUNT_CREATE'',
     ''STOCK_COUNT_SUBMIT'', ''STOCK_COUNT_APPROVE'', ''STOCK_COUNT_REJECT'']"

definition PKMixin_columns :: columns where
  "PKMixin_columns =
    [(''id'', Column UNSIGNED_BIGINT False None None)]"

definition TimestampMixin_columns :: columns where
  "TimestampMixin_columns =
    [(''created_at'', Column (DATETIME_TYPE 3) False (Some ''CURRENT_TIMESTAMP(3)'') None),
     (''updated_at'', Column (DATETIME_TYPE 3) False (Some ''CURRENT_TIMESTAMP(3)'') None)]"

definition Department_table :: table_def where
  "Department_table = \<lparr>td_columns = PKMixin_columns @ TimestampMixin_columns @
     [(''dept_code'', Column (VARCHAR 32) False None None),
      (''dept_name'', Column (VARCHAR 64) False None None),
      (''parent_id'', Column UNSIGNED_BIGINT True None None),
      (''sort_order'', Column INT_TYPE False None None),
      (''status'', Column (ENUM_TYPE DeptStatus_values) False (Some ''ACTIVE'') None),
      (''remark'', Column (VARCHAR 255) True None None),
      (''created_by'', Column UNSIGNED_BIGINT True None None),
      (''updated_by'', Column UNSIGNED_BIGINT True None None)],
    td_keys =
     [PRIMARY_KEY (pk_name T_departments) [''id''],
      UNIQUE_KEY ''uk_dept_code'' [''dept_code''],
      FOREIGN_KEY ''fk_dept_parent'' [''parent_id''] T_departments [''id''] None,
      FOREIGN_KEY ''fk_departments_created_by_users'' [''created_by''] T_users [''id''] None,
      FOREIGN_KEY ''fk_departments_updated_by_users'' [''updated_by''] T_users [''id''] None],
    td_indexes =
     [(''ix_dept_parent'', [''parent_id'']),
      (''ix_dept_status'', [''status''])]\<rparr>"

definition Role_table :: table_def where
  "Role_table = \<lparr>td_columns = PKMixin_columns @ TimestampMixin_columns @
     [(''role_code'', Column (ENUM_TYPE RoleCode_values) False None None),
      (''role_name'', Column (VARCHAR 64) False None None),
      (''description'', Column (VARCHAR 255) True None None),
      (''is_system'', Column BOOL_TYPE False None None),
      (''status'', Column (ENUM_TYPE ActiveStatus_values) False (Some ''ACTIVE'') None)],
    td_keys =
     [PRIMARY_KEY (pk_name T_roles) [''id''],
      UNIQUE_KEY ''uk_role_code'' [''role_code'']],
    td_indexes =
     [(''ix_role_status'', [''status''])]\<rparr>"

definition Permission_table :: table_def where
  "Permission_table = \<lparr>td_columns = PKMixin_columns @
     [(''perm_code'', Column (VARCHAR 64) False None None),
      (''perm_name'', Column (VARCHAR 64) False None None),
      (''module'', Column (VARCHAR 32) False None None),
      (''created_at'', Column (DATETIME_TYPE 3) False (Some ''CURRENT_TIMESTAMP(3)'') None)],
    td_keys =
     [PRIMARY_KEY (pk_name T_permissions) [''id''],
      UNIQUE_KEY ''uk_perm_code'' [''perm_code'']],
    td_indexes =
     [(''ix_perm_module'', [''module''])]\<rparr>"

definition RolePermission_table :: table_def where
  "RolePermission_table = \<lparr>td_columns = PKMixin_columns @
     [(''role_id'', Column UNSIGNED_BIGINT False None None),
      (''permission_id'', Column UNSIGNED_BIGINT False None None)],
    td_keys =
     [PRIMARY_KEY (pk_name T_role_permissions) [''id''],
      UNIQUE_KEY ''uk_role_perm'' [''role_id'', ''permission_id''],
      FOREIGN_KEY ''fk_rp_role'' [''role_id''] T_roles [''id''] (Some ''CASCADE''),
      FOREIGN_KEY ''fk_rp_permission'' [''permission_id''] T_permissions [''id''] (Some ''CASCADE'')],
    td_indexes =
     [(''ix_roleperm_perm'', [''permission_id''])]\<rparr>"

definition User_table :: table_def where
  "User_table = \<lparr>td_columns = PKMixin_columns @ TimestampMixin_columns @
     [(''username'', Column (VARCHAR 64) False None None),
      (''password_hash'', Column (VARCHAR 255) False None None),
      (''real_name'', Column (VARCHAR 64) False None None),
      (''email'', Column (VARCHAR 128) True None None),
      (''phone'', Column (VARCHAR 32) True None None),
      (''department_id'', Column UNSIGNED_BIGINT True None None),
      (''role_id'', Column UNSIGNED_BIGINT False None None),
      (''status'', Column (ENUM_TYPE UserStatus_values) False (Some ''ACTIVE'') None),
      (''last_login_at'', Column (DATETIME_TYPE 3) True None None),
      (''created_by'', Column UNSIGNED_BIGINT True None None),
      (''updated_by'', Column UNSIGNED_BIGINT True None None)],
    td_keys =
     [PRIMARY_KEY (pk_name T_users) [''id''],
      UNIQUE_KEY ''uk_user_username'' [''username''],
      FOREIGN_KEY ''fk_user_dept'' [''department_id''] T_departments [''id''] (Some ''RESTRICT''),
      FOREIGN_KEY ''fk_user_role'' [''role_id''] T_roles [''id''] (Some ''RESTRICT''),
      FOREIGN_KEY ''fk_users_created_by_users'' [''created_by''] T_users [''id''] None,
      FOREIGN_KEY ''fk_users_updated_by_users'' [''updated_by''] T_users [''id''] None],
    td_indexes =
     [(''ix_user_dept'', [''department_id'']),
      (''ix_user_role'', [''role_id'']),
      (''ix_user_status'', [''status''])]\<rparr>"

definition DepartmentManager_table :: table_def where
  "DepartmentManager_table = \<lparr>td_columns = PKMixin_columns @
     [(''dept_id'', Column UNSIGNED_BIGINT False None None),
      (''user_id'', Column UNSIGNED_BIGINT False None None),
      (''is_primary'', Column BOOL_TYPE False None None),
      (''created_at'', Column (DATETIME_TYPE 3) False (Some ''CURRENT_TIMESTAMP(3)'') None)],
    td_keys =
     [PRIMARY_KEY (pk_name T_department_managers) [''id''],
      UNIQUE_KEY ''uk_deptmgr'' [''dept_id'', ''user_id''],
      FOREIGN_KEY ''fk_deptmgr_dept'' [''dept_id''] T_departments [''id''] (Some ''CASCADE''),
      FOREIGN_KEY ''fk_deptmgr_user'' [''user_id''] T_users [''id''] (Some ''CASCADE'')],
    td_indexes =
     [(''ix_deptmgr_user'', [''user_id''])]\<rparr>"

definition Material_table :: table_def where
  "Material_table = \<lparr>td_columns = PKMixin_columns @ TimestampMixin_columns @
     [(''material_code'', Column (VARCHAR 32) False None None),
      (''material_name'', Column (VARCHAR 128) False None None),
      (''category'', Column (VARCHAR 64) True None None),
      (''specification'', Column (VARCHAR 128) True None None),
      (''unit'', Column (VARCHAR 16) False None None),
      (''status'', Column (ENUM_TYPE ActiveStatus_values) False (Some ''ACTIVE'') None),
      (''remark'', Column (VARCHAR 255) True None None),
      (''created_by'', Column UNSIGNED_BIGINT True None None),
      (''updated_by'', Column UNSIGNED_BIGINT True None None)],
    td_keys =
     [PRIMARY_KEY (pk_name T_materials) [''id''],
      UNIQUE_KEY ''uk_mat_code'' [''material_code''],
      FOREIGN_KEY ''fk_materials_created_by_users'' [''created_by''] T_users [''id''] None,
      FOREIGN_KEY ''fk_materials_updated_by_users'' [''updated_by''] T_users [''id''] None],
    td_indexes =
     [(''ix_mat_name'', [''material_name'']),
      (''ix_mat_status'', [''status''])]\<rparr>"

definition Supplier_table :: table_def where
  "Supplier_table = \<lparr>td_columns = PKMixin_columns @ TimestampMixin_columns @
     [(''supplier_code'', Column (VARCHAR 32) False None None),
      (''supplier_name'', Column (VARCHAR 128) False None None),
      (''contact_person'', Column (VARCHAR 64) True None None),
      (''phone'', Column (VARCHAR 32) True None None),
      (''email'', Column (VARCHAR 128) True None None),
      (''address'', Column (VARCHAR 255) True None None),
      (''status'', Column (ENUM_TYPE ActiveStatus_values) False (Some ''ACTIVE'') None),
      (''remark'', Column (VARCHAR 255) True None None),
      (''created_by'', Column UNSIGNED_BIGINT True None None),
      (''updated_by'', Column UNSIGNED_BIGINT True None None)],
    td_keys =
     [PRIMARY_KEY (pk_name T_suppliers) [''id''],
      UNIQUE_KEY ''uk_sup_code'' [''supplier_code''],
      FOREIGN_KEY ''fk_suppliers_created_by_users'' [''created_by''] T_users [''id''] None,
      FOREIGN_KEY ''fk_suppliers_updated_by_users'' [''updated_by''] T_users [''id''] None],
    td_indexes =
     [(''ix_sup_name'', [''supplier_name'']),
      (''ix_sup_status'', [''status''])]\<rparr>"

definition Warehouse_table :: table_def where
  "Warehouse_table = \<lparr>td_columns = PKMixin_columns @ TimestampMixin_columns @
     [(''warehouse_code'', Column (VARCHAR 32) False None None),
      (''warehouse_name'', Column (VARCHAR 64) False None None),
      (''status'', Column (ENUM_TYPE ActiveStatus_values) False (Some ''ACTIVE'') None),
      (''remark'', Column (VARCHAR 255) True None None),
      (''created_by'', Column UNSIGNED_BIGINT True None None),
      (''updated_by'', Column UNSIGNED_BIGINT True None None)],
    td_keys =
     [PRIMARY_KEY (pk_name T_warehouses) [''id''],
      UNIQUE_KEY ''uk_wh_code'' [''warehouse_code''],
      FOREIGN_KEY ''fk_warehouses_created_by_users'' [''created_by''] T_users [''id''] None,
      FOREIGN_KEY ''fk_warehouses_updated_by_users'' [''updated_by''] T_users [''id''] None],
    td_indexes =
     [(''ix_wh_status'', [''status''])]\<rparr>"

definition InventoryPolicy_table :: table_def where
  "InventoryPolicy_table = \<lparr>td_columns = PKMixin_columns @ TimestampMixin_columns @
     [(''warehouse_id'', Column UNSIGNED_BIGINT False None None),
      (''material_id'', Column UNSIGNED_BIGINT False None None),
      (''safety_stock'', Column (DECIMAL 18 4) False (Some ''0'') None),
      (''min_stock'', Column (DECIMAL 18 4) True None None),
      (''max_stock'', Column (DECIMAL 18 4) True None None),
      (''reorder_point'', Column (DECIMAL 18 4) True None None),
      (''remark'', Column (VARCHAR 255) True None None)],
    td_keys =
     [PRIMARY_KEY (pk_name T_inventory_policies) [''id''],
      UNIQUE_KEY ''uk_invpol'' [''warehouse_id'', ''material_id''],
      CHECK_KEY (ck_name T_inventory_policies ''safety_stock_nonneg'') ''safety_stock >= 0'',
      CHECK_KEY (ck_name T_inventory_policies ''min_stock_nonneg'') ''min_stock IS NULL OR min_stock >= 0'',
      CHECK_KEY (ck_name T_inventory_policies ''max_stock_nonneg'') ''max_stock IS NULL OR max_stock > 0'',
      CHECK_KEY (ck_name T_inventory_policies ''reorder_point_nonneg'') ''reorder_point IS NULL OR reorder_point >= 0'',
      FOREIGN_KEY ''fk_invpol_wh'' [''warehouse_id''] T_warehouses [''id''] (Some ''CASCADE''),
      FOREIGN_KEY ''fk_invpol_mat'' [''material_id''] T_materials [''id''] (Some ''CASCADE'')],
    td_indexes =
     [(''ix_invpol_mat'', [''material_id''])]\<rparr>"

definition PurchaseRequisition_table :: table_def where
  "PurchaseRequisition_table = \<lparr>td_columns = PKMixin_columns @ TimestampMixin_columns @
     [(''pr_no'', Column (VARCHAR 32) False None None),
      (''applicant_id'', Column UNSIGNED_BIGINT False None None),
      (''department_id'', Column UNSIGNED_BIGINT False None None),
      (''apply_date'', Column DATE_TYPE False None None),
      (''reason'', Column (VARCHAR 500) True None None),
      (''status'', Column (ENUM_TYPE PrStatus_values) False (Some ''DRAFT'') None),
      (''total_estimated_amount'', Column (DECIMAL 18 2) False (Some ''0'') None),
      (''submitted_at'', Column (DATETIME_TYPE 3) True None None),
      (''version'', Column INT_TYPE False (Some ''1'') None),
      (''remark'', Column (VARCHAR 255) True None None),
      (''created_by'', Column UNSIGNED_BIGINT True None None),
      (''updated_by'', Column UNSIGNED_BIGINT True None None)],
    td_keys =
     [PRIMARY_KEY (pk_name T_purchase_requisitions) [''id''],
      UNIQUE_KEY ''uk_pr_no'' [''pr_no''],
      FOREIGN_KEY ''fk_pr_applicant'' [''applicant_id''] T_users [''id''] (Some ''RESTRICT''),
      FOREIGN_KEY ''fk_pr_dept'' [''department_id''] T_departments [''id''] (Some ''RESTRICT''),
      FOREIGN_KEY ''fk_pr_created_by_users'' [''created_by''] T_users [''id''] None,
      FOREIGN_KEY ''fk_pr_updated_by_users'' [''updated_by''] T_users [''id''] None],
    td_indexes =
     [(''ix_pr_status'', [''status'']),
      (''ix_pr_applicant'', [''applicant_id'']),
      (''ix_pr_dept'', [''department_id'']),
      (''ix_pr_date'', [''apply_date'']),
      (''ix_pr_dept_status'', [''department_id'', ''status''])]\<rparr>"

definition PurchaseRequisitionItem_table :: table_def where
  "PurchaseRequisitionItem_table = \<lparr>td_columns = PKMixin_columns @ TimestampMixin_columns @
     [(''pr_id'', Column UNSIGNED_BIGINT False None None),
      (''line_no'', Column INT_TYPE False None None),
      (''material_id'', Column UNSIGNED_BIGINT False None None),
      (''requested_quantity'', Column (DECIMAL 18 4) False None None),
      (''converted_quantity'', Column (DECIMAL 18 4) False (Some ''0'') None),
      (''estimated_unit_price'', Column (DECIMAL 18 4) False (Some ''0'') None),
      (''estimated_amount'', Column (DECIMAL 18 2) False (Some ''0'') None),
      (''required_date'', Column DATE_TYPE True None None),
      (''remark'', Column (VARCHAR 255) True None None)],
    td_keys =
     [PRIMARY_KEY (pk_name T_purchase_requisition_items) [''id''],
      UNIQUE_KEY ''uk_pri_line'' [''pr_id'', ''line_no''],
      CHECK_KEY (ck_name T_purchase_requisition_items ''pri_qty_positive'') ''requested_quantity > 0'',
      CHECK_KEY (ck_name T_purchase_requisition_items ''pri_price_nonneg'') ''estimated_unit_price >= 0'',
      CHECK_KEY (ck_name T_purchase_requisition_items ''pri_converted_not_exceed'') ''converted_quantity >= 0 AND converted_quantity <= requested_quantity'',
      FOREIGN_KEY ''fk_pri_pr'' [''pr_id''] T_purchase_requisitions [''id''] (Some ''CASCADE''),
      FOREIGN_KEY ''fk_pri_mat'' [''material_id''] T_materials [''id''] (Some ''RESTRICT'')],
    td_indexes =
     [(''ix_pri_mat'', [''material_id'']),
      (''ix_pri_pr'', [''pr_id''])]\<rparr>"

definition PurchaseOrder_table :: table_def where
  "PurchaseOrder_table = \<lparr>td_columns = PKMixin_columns @ TimestampMixin_columns @
     [(''po_no'', Column (VARCHAR 32) False None None),
      (''supplier_id'', Column UNSIGNED_BIGINT False None None),
      (''buyer_id'', Column UNSIGNED_BIGINT False None None),
      (''order_date'', Column DATE_TYPE False None None),
      (''expected_date'', Column DATE_TYPE True None None),
      (''status'', Column (ENUM_TYPE PoStatus_values) False (Some ''DRAFT'') None),
      (''total_amount'', Column (DECIMAL 18 2) False (Some ''0'') None),
      (''version'', Column INT_TYPE False (Some ''1'') None),
      (''remark'', Column (VARCHAR 255) True None None),
      (''created_by'', Column UNSIGNED_BIGINT True None None),
      (''updated_by'', Column UNSIGNED_BIGINT True None None)],
    td_keys =
     [PRIMARY_KEY (pk_name T_purchase_orders) [''id''],
      UNIQUE_KEY ''uk_po_no'' [''po_no''],
      FOREIGN_KEY ''fk_po_supplier'' [''supplier_id''] T_suppliers [''id''] (Some ''RESTRICT''),
      FOREIGN_KEY ''fk_po_buyer'' [''buyer_id''] T_users [''id''] (Some ''RESTRICT''),
      FOREIGN_KEY ''fk_po_created_by_users'' [''created_by''] T_users [''id''] None,
      FOREIGN_KEY ''fk_po_updated_by_users'' [''updated_by''] T_users [''id''] None],
    td_indexes =
     [(''ix_po_supplier'', [''supplier_id'']),
      (''ix_po_buyer'', [''buyer_id'']),
      (''ix_po_status'', [''status'']),
      (''ix_po_date'', [''order_date''])]\<rparr>"

definition PurchaseOrderItem_table :: table_def where
  "PurchaseOrderItem_table = \<lparr>td_columns = PKMixin_columns @ TimestampMixin_columns @
     [(''po_id'', Column UNSIGNED_BIGINT False None None),
      (''line_no'', Column INT_TYPE False None None),
      (''material_id'', Column UNSIGNED_BIGINT False None None),
      (''ordered_quantity'', Column (DECIMAL 18 4) False None None),
      (''received_quantity'', Column (DECIMAL 18 4) False (Some ''0'') None),
      (''unit_price'', Column (DECIMAL 18 4) False (Some ''0'') None),
      (''amount'', Column (DECIMAL 18 2) False (Some ''0'') None),
      (''remark'', Column (VARCHAR 255) True None None)],
    td_keys =
     [PRIMARY_KEY (pk_name T_purchase_order_items) [''id''],
      UNIQUE_KEY ''uk_poi_line'' [''po_id'', ''line_no''],
      CHECK_KEY (ck_name T_purchase_order_items ''poi_ordered_positive'') ''ordered_quantity > 0'',
      CHECK_KEY (ck_name T_purchase_order_items ''poi_received_not_exceed'') ''received_quantity >= 0 AND received_quantity <= ordered_quantity'',
      CHECK_KEY (ck_name T_purchase_order_items ''poi_price_nonneg'') ''unit_price >= 0'',
      FOREIGN_KEY ''fk_poi_po'' [''po_id''] T_purchase_orders [''id''] (Some ''CASCADE''),
      FOREIGN_KEY ''fk_poi_mat'' [''material_id''] T_materials [''id''] (Some ''RESTRICT'')],
    td_indexes =
     [(''ix_poi_mat'', [''material_id'']),
      (''ix_poi_po'', [''po_id''])]\<rparr>"

definition PurchaseOrderItemSource_table :: table_def where
  "PurchaseOrderItemSource_table = \<lparr>td_columns = PKMixin_columns @
     [(''po_item_id'', Column UNSIGNED_BIGINT False None None),
      (''pr_item_id'', Column UNSIGNED_BIGINT False None None),
      (''quantity'', Column (DECIMAL 18 4) False None None),
      (''created_at'', Column (DATETIME_TYPE 3) False (Some ''CURRENT_TIMESTAMP(3)'') None)],
    td_keys =
     [PRIMARY_KEY (pk_name T_purchase_order_item_sources) [''id''],
      UNIQUE_KEY ''uk_pois'' [''po_item_id'', ''pr_item_id''],
      CHECK_KEY (ck_name T_purchase_order_item_sources ''pois_qty_positive'') ''quantity > 0'',
      FOREIGN_KEY ''fk_pois_poi'' [''po_item_id''] T_purchase_order_items [''id''] (Some ''CASCADE''),
      FOREIGN_KEY ''fk_pois_pri'' [''pr_item_id''] T_purchase_requisition_items [''id''] (Some ''RESTRICT'')],
    td_indexes =
     [(''ix_pois_pri'', [''pr_item_id''])]\<rparr>"

definition ApprovalRecord_table :: table_def where
  "ApprovalRecord_table = \<lparr>td_columns = PKMixin_columns @
     [(''document_type'', Column (ENUM_TYPE DocumentType_values) False None None),
      (''document_id'', Column UNSIGNED_BIGINT False None None),
      (''document_no'', Column (VARCHAR 32) True None None),
      (''step_no'', Column UNSIGNED_SMALLINT False (Some ''1'') None),
      (''step_name'', Column (VARCHAR 64) True None None),
      (''approver_id'', Column UNSIGNED_BIGINT False None None),
      (''action'', Column (ENUM_TYPE ApprovalAction_values) False None None),
      (''from_status'', Column (VARCHAR 32) True None None),
      (''to_status'', Column (VARCHAR 32) True None None),
      (''result_status'', Column (VARCHAR 32) False None None),
      (''comment'', Column (VARCHAR 1000) True None None),
      (''created_at'', Column (DATETIME_TYPE 3) False (Some ''CURRENT_TIMESTAMP(3)'') None)],
    td_keys =
     [PRIMARY_KEY (pk_name T_approval_records) [''id''],
      FOREIGN_KEY ''fk_ar_approver'' [''approver_id''] T_users [''id''] (Some ''RESTRICT'')],
    td_indexes =
     [(''ix_ar_doc'', [''document_type'', ''document_id'']),
      (''ix_ar_approver'', [''approver_id'']),
      (''ix_ar_time'', [''created_at''])]\<rparr>"

definition PurchaseReceipt_table :: table_def where
  "PurchaseReceipt_table = \<lparr>td_columns = PKMixin_columns @ TimestampMixin_columns @
     [(''receipt_no'', Column (VARCHAR 32) False None None),
      (''po_id'', Column UNSIGNED_BIGINT False None None),
      (''warehouse_id'', Column UNSIGNED_BIGINT False None None),
      (''received_by'', Column UNSIGNED_BIGINT False None None),
      (''received_at'', Column (DATETIME_TYPE 3) False None None),
      (''status'', Column (ENUM_TYPE ReceiptStatus_values) False (Some ''POSTED'') None),
      (''reversed_by'', Column UNSIGNED_BIGINT True None None),
      (''reversed_at'', Column (DATETIME_TYPE 3) True None None),
      (''reverse_reason'', Column (VARCHAR 1000) True None None),
      (''remark'', Column (VARCHAR 255) True None None)],
    td_keys =
     [PRIMARY_KEY (pk_name T_purchase_receipts) [''id''],
      UNIQUE_KEY ''uk_receipt_no'' [''receipt_no''],
      FOREIGN_KEY ''fk_receipt_po'' [''po_id''] T_purchase_orders [''id''] (Some ''RESTRICT''),
      FOREIGN_KEY ''fk_receipt_wh'' [''warehouse_id''] T_warehouses [''id''] (Some ''RESTRICT''),
      FOREIGN_KEY ''fk_receipt_user'' [''received_by''] T_users [''id''] (Some ''RESTRICT''),
      FOREIGN_KEY ''fk_receipt_reversed_by_users'' [''reversed_by''] T_users [''id''] None],
    td_indexes =
     [(''ix_receipt_po'', [''po_id'']),
      (''ix_receipt_wh'', [''warehouse_id'']),
      (''ix_receipt_status'', [''status''])]\<rparr>"

definition PurchaseReceiptItem_table :: table_def where
  "PurchaseReceiptItem_table = \<lparr>td_columns = PKMixin_columns @
     [(''receipt_id'', Column UNSIGNED_BIGINT False None None),
      (''po_item_id'', Column UNSIGNED_BIGINT False None None),
      (''line_no'', Column INT_TYPE False None None),
      (''material_id'', Column UNSIGNED_BIGINT False None None),
      (''received_quantity'', Column (DECIMAL 18 4) False None None),
      (''unit_price'', Column (DECIMAL 18 4) False None None),
      (''amount'', Column (DECIMAL 18 2) False (Some ''0'') None),
      (''remark'', Column (VARCHAR 255) True None None),
      (''created_at'', Column (DATETIME_TYPE 3) False (Some ''CURRENT_TIMESTAMP(3)'') None)],
    td_keys =
     [PRIMARY_KEY (pk_name T_purchase_receipt_items) [''id''],
      UNIQUE_KEY ''uk_ri_line'' [''receipt_id'', ''line_no''],
      UNIQUE_KEY ''uk_ri_poi'' [''receipt_id'', ''po_item_id''],
      CHECK_KEY (ck_name T_purchase_receipt_items ''ri_qty_positive'') ''received_quantity > 0'',
      CHECK_KEY (ck_name T_purchase_receipt_items ''ri_price_nonneg'') ''unit_price >= 0'',
      FOREIGN_KEY ''fk_ri_receipt'' [''receipt_id''] T_purchase_receipts [''id''] (Some ''CASCADE''),
      FOREIGN_KEY ''fk_ri_poi'' [''po_item_id''] T_purchase_order_items [''id''] (Some ''RESTRICT''),
      FOREIGN_KEY ''fk_ri_mat'' [''material_id''] T_materials [''id''] (Some ''RESTRICT'')],
    td_indexes =
     [(''ix_ri_poi'', [''po_item_id'']),
      (''ix_ri_mat'', [''material_id''])]\<rparr>"

definition InventoryBalance_table :: table_def where
  "InventoryBalance_table = \<lparr>td_columns = PKMixin_columns @ TimestampMixin_columns @
     [(''warehouse_id'', Column UNSIGNED_BIGINT False None None),
      (''material_id'', Column UNSIGNED_BIGINT False None None),
      (''quantity'', Column (DECIMAL 18 4) False (Some ''0'') None),
      (''total_amount'', Column (DECIMAL 18 2) False (Some ''0'') None),
      (''average_unit_cost'', Column (DECIMAL 18 4) False (Some ''0'') None),
      (''version'', Column UNSIGNED_INT False (Some ''0'') None),
      (''last_transaction_at'', Column (DATETIME_TYPE 3) True None None)],
    td_keys =
     [PRIMARY_KEY (pk_name T_inventory_balances) [''id''],
      UNIQUE_KEY ''uk_ib'' [''warehouse_id'', ''material_id''],
      CHECK_KEY (ck_name T_inventory_balances ''ib_qty_nonneg'') ''quantity >= 0'',
      CHECK_KEY (ck_name T_inventory_balances ''ib_amount_nonneg'') ''total_amount >= 0'',
      CHECK_KEY (ck_name T_inventory_balances ''ib_avg_nonneg'') ''average_unit_cost >= 0'',
      FOREIGN_KEY ''fk_ib_wh'' [''warehouse_id''] T_warehouses [''id''] (Some ''RESTRICT''),
      FOREIGN_KEY ''fk_ib_mat'' [''material_id''] T_materials [''id''] (Some ''RESTRICT'')],
    td_indexes =
     [(''ix_ib_mat'', [''material_id''])]\<rparr>"

definition InventoryTransaction_table :: table_def where
  "InventoryTransaction_table = \<lparr>td_columns = PKMixin_columns @
     [(''txn_no'', Column (VARCHAR 32) False None None),
      (''transaction_type'', Column (ENUM_TYPE TxnType_values) False None None),
      (''warehouse_id'', Column UNSIGNED_BIGINT False None None),
      (''material_id'', Column UNSIGNED_BIGINT False None None),
      (''quantity'', Column (DECIMAL 18 4) False None None),
      (''unit_cost'', Column (DECIMAL 18 4) False (Some ''0'') None),
      (''amount'', Column (DECIMAL 18 2) False (Some ''0'') None),
      (''balance_after'', Column (DECIMAL 18 4) False None None),
      (''source_type'', Column (ENUM_TYPE TxnSourceType_values) True None None),
      (''source_id'', Column UNSIGNED_BIGINT True None None),
      (''source_item_id'', Column UNSIGNED_BIGINT True None None),
      (''reversed_transaction_id'', Column UNSIGNED_BIGINT True None None),
      (''transaction_at'', Column (DATETIME_TYPE 3) False None None),
      (''remark'', Column (VARCHAR 500) True None None),
      (''created_by'', Column UNSIGNED_BIGINT True None None),
      (''created_at'', Column (DATETIME_TYPE 3) False (Some ''CURRENT_TIMESTAMP(3)'') None)],
    td_keys =
     [PRIMARY_KEY (pk_name T_inventory_transactions) [''id''],
      UNIQUE_KEY ''uk_txn_no'' [''txn_no''],
      CHECK_KEY (ck_name T_inventory_transactions ''it_sign'') ''(transaction_type IN ('PURCHASE_IN','ADJUST_IN','PRODUCTION_IN') AND quantity > 0 AND amount >= 0) OR (transaction_type IN ('PURCHASE_IN_REVERSAL','ADJUST_OUT','PRODUCTION_OUT') AND quantity < 0 AND amount <= 0)'',
      CHECK_KEY (ck_name T_inventory_transactions ''it_cost_nonneg'') ''unit_cost >= 0'',
      FOREIGN_KEY ''fk_it_wh'' [''warehouse_id''] T_warehouses [''id''] (Some ''RESTRICT''),
      FOREIGN_KEY ''fk_it_mat'' [''material_id''] T_materials [''id''] (Some ''RESTRICT''),
      FOREIGN_KEY ''fk_it_reversed'' [''reversed_transaction_id''] T_inventory_transactions [''id''] None,
      FOREIGN_KEY ''fk_it_created_by_users'' [''created_by''] T_users [''id''] None],
    td_indexes =
     [(''ix_it_wh_mat'', [''warehouse_id'', ''material_id'']),
      (''ix_it_mat'', [''material_id'']),
      (''ix_it_source'', [''source_type'', ''source_id'']),
      (''ix_it_type'', [''transaction_type'']),
      (''ix_it_time'', [''transaction_at'']),
      (''ix_it_reversed'', [''reversed_transaction_id''])]\<rparr>"

definition StockReconciliation_table :: table_def where
  "StockReconciliation_table = \<lparr>td_columns = PKMixin_columns @ TimestampMixin_columns @
     [(''reconciliation_no'', Column (VARCHAR 32) False None None),
      (''warehouse_id'', Column UNSIGNED_BIGINT False None None),
      (''counted_by'', Column UNSIGNED_BIGINT False None None),
      (''counted_on'', Column DATE_TYPE False None None),
      (''status'', Column (ENUM_TYPE ReconciliationStatus_values) False (Some ''DRAFT'') None),
      (''reason'', Column (VARCHAR 500) True None None),
      (''remark'', Column (VARCHAR 255) True None None),
      (''submitted_at'', Column (DATETIME_TYPE 3) True None None),
      (''posted_at'', Column (DATETIME_TYPE 3) True None None),
      (''approved_by'', Column UNSIGNED_BIGINT True None None),
      (''approve_comment'', Column (VARCHAR 1000) True None None),
      (''override_self_approval'', Column BOOL_TYPE False (Some ''0'') None),
      (''override_reason'', Column (VARCHAR 500) True None None),
      (''version'', Column INT_TYPE False (Some ''1'') None)],
    td_keys =
     [PRIMARY_KEY (pk_name T_stock_reconciliations) [''id''],
      UNIQUE_KEY ''uk_reconciliation_no'' [''reconciliation_no''],
      FOREIGN_KEY ''fk_reconcile_wh'' [''warehouse_id''] T_warehouses [''id''] (Some ''RESTRICT''),
      FOREIGN_KEY ''fk_reconcile_counted_by'' [''counted_by''] T_users [''id''] (Some ''RESTRICT''),
      FOREIGN_KEY ''fk_reconcile_approved_by'' [''approved_by''] T_users [''id''] (Some ''RESTRICT'')],
    td_indexes =
     [(''ix_reconcile_wh_status'', [''warehouse_id'', ''status'']),
      (''ix_reconcile_counted_on'', [''counted_on'']),
      (''ix_reconcile_status'', [''status''])]\<rparr>"

definition StockReconciliationItem_table :: table_def where
  "StockReconciliationItem_table = \<lparr>td_columns = PKMixin_columns @
     [(''reconciliation_id'', Column UNSIGNED_BIGINT False None None),
      (''line_no'', Column INT_TYPE False None None),
      (''material_id'', Column UNSIGNED_BIGINT False None None),
      (''book_quantity_snapshot'', Column (DECIMAL 18 4) False None None),
      (''book_total_amount_snapshot'', Column (DECIMAL 18 2) False None None),
      (''book_avg_cost_snapshot'', Column (DECIMAL 18 4) False None None),
      (''book_last_transaction_id_snapshot'', Column UNSIGNED_BIGINT True None None),
      (''physical_quantity'', Column (DECIMAL 18 4) False None None),
      (''difference_quantity'', Column (DECIMAL 18 4) False (Some ''0'') None),
      (''valuation_rate'', Column (DECIMAL 18 4) True None None),
      (''adjustment_amount'', Column (DECIMAL 18 2) False (Some ''0'') None),
      (''remark'', Column (VARCHAR 255) True None None),
      (''created_at'', Column (DATETIME_TYPE 3) False (Some ''CURRENT_TIMESTAMP(3)'') None)],
    td_keys =
     [PRIMARY_KEY (pk_name T_stock_reconciliation_items) [''id''],
      UNIQUE_KEY ''uk_rc_line'' [''reconciliation_id'', ''line_no''],
      UNIQUE_KEY ''uk_rc_mat'' [''reconciliation_id'', ''material_id''],
      CHECK_KEY (ck_name T_stock_reconciliation_items ''ck_rc_physical_nonneg'') ''physical_quantity >= 0'',
      CHECK_KEY (ck_name T_stock_reconciliation_items ''ck_rc_qty_snapshot_nonneg'') ''book_quantity_snapshot >= 0'',
      CHECK_KEY (ck_name T_stock_reconciliation_items ''ck_rc_amount_snapshot_nonneg'') ''book_total_amount_snapshot >= 0'',
      CHECK_KEY (ck_name T_stock_reconciliation_items ''ck_rc_avg_snapshot_nonneg'') ''book_avg_cost_snapshot >= 0'',
      CHECK_KEY (ck_name T_stock_reconciliation_items ''ck_rc_rate_pos'') ''valuation_rate IS NULL OR valuation_rate > 0'',
      CHECK_KEY (ck_name T_stock_reconciliation_items ''ck_rc_wm_null_or_pos'') ''book_last_transaction_id_snapshot IS NULL OR book_last_transaction_id_snapshot > 0'',
      FOREIGN_KEY ''fk_rc_item_reconcile'' [''reconciliation_id''] T_stock_reconciliations [''id''] (Some ''CASCADE''),
      FOREIGN_KEY ''fk_rc_item_mat'' [''material_id''] T_materials [''id''] (Some ''RESTRICT'')],
    td_indexes =
     [(''ix_rc_mat'', [''material_id''])]\<rparr>"

definition NumberSequence_table :: table_def where
  "NumberSequence_table = \<lparr>td_columns = PKMixin_columns @
     [(''sequence_key'', Column (VARCHAR 32) False None None),
      (''sequence_date'', Column DATE_TYPE False None None),
      (''current_value'', Column UNSIGNED_BIGINT False (Some ''0'') None),
      (''updated_at'', Column (DATETIME_TYPE 3) False (Some ''CURRENT_TIMESTAMP(3)'') None)],
    td_keys =
     [PRIMARY_KEY (pk_name T_number_sequences) [''id''],
      UNIQUE_KEY ''uk_seq'' [''sequence_key'', ''sequence_date'']],
    td_indexes =
     []\<rparr>"

definition OperationLog_table :: table_def where
  "OperationLog_table = \<lparr>td_columns = PKMixin_columns @
     [(''operator_id'', Column UNSIGNED_BIGINT True None None),
      (''username_snapshot'', Column (VARCHAR 64) True None None),
      (''action'', Column (ENUM_TYPE AuditAction_values) False None None),
      (''module'', Column (VARCHAR 32) False None None),
      (''document_type'', Column (VARCHAR 32) True None None),
      (''document_id'', Column UNSIGNED_BIGINT True None None),
      (''document_no'', Column (VARCHAR 32) True None None),
      (''description'', Column (VARCHAR 500) True None None),
      (''ip_address'', Column (VARCHAR 45) True None None),
      (''user_agent'', Column (VARCHAR 255) True None None),
      (''request_id'', Column (VARCHAR 64) True None None),
      (''created_at'', Column (DATETIME_TYPE 3) False (Some ''CURRENT_TIMESTAMP(3)'') None)],
    td_keys =
     [PRIMARY_KEY (pk_name T_operation_logs) [''id''],
      FOREIGN_KEY ''fk_ol_operator'' [''operator_id''] T_users [''id''] (Some ''SET NULL'')],
    td_indexes =
     [(''ix_ol_operator'', [''operator_id'']),
      (''ix_ol_action'', [''action'']),
      (''ix_ol_doc'', [''document_type'', ''document_id'']),
      (''ix_ol_time'', [''created_at''])]\<rparr>"

fun model_table :: "db_table \<Rightarrow> table_def" where
  "model_table T_departments = Department_table"
| "model_table T_roles = Role_table"
| "model_table T_permissions = Permission_table"
| "model_table T_role_permissions = RolePermission_table"
| "model_table T_users = User_table"
| "model_table T_department_managers = DepartmentManager_table"
| "model_table T_materials = Material_table"
| "model_table T_suppliers = Supplier_table"
| "model_table T_warehouses = Warehouse_table"
| "model_table T_inventory_policies = InventoryPolicy_table"
| "model_table T_purchase_requisitions = PurchaseRequisition_table"
| "model_table T_purchase_requisition_items = PurchaseRequisitionItem_table"
| "model_table T_purchase_orders = PurchaseOrder_table"
| "model_table T_purchase_order_items = PurchaseOrderItem_table"
| "model_table T_purchase_order_item_sources = PurchaseOrderItemSource_table"
| "model_table T_approval_records = ApprovalRecord_table"
| "model_table T_purchase_receipts = PurchaseReceipt_table"
| "model_table T_purchase_receipt_items = PurchaseReceiptItem_table"
| "model_table T_inventory_balances = InventoryBalance_table"
| "model_table T_inventory_transactions = InventoryTransaction_table"
| "model_table T_stock_reconciliations = StockReconciliation_table"
| "model_table T_stock_reconciliation_items = StockReconciliationItem_table"
| "model_table T_number_sequences = NumberSequence_table"
| "model_table T_operation_logs = OperationLog_table"

end
