(* ===== verification/Migration_Correct.thy ===== *)
theory Migration_Correct
  imports Migration_Steps Model_Tables
begin

text \<open>
  The line of migrations, evaluated table by table: it builds the schema that the models
  declare, each later downgrade takes its upgrade back, and the downgrade of the first
  migration is refused by the server.
\<close>

section \<open>Which statement touches which table\<close>

lemma statements_of:
  "list_all (\<lambda>s. ddl_table s = Some t') ss \<Longrightarrow> statements t ss = (if t = t' then ss else [])"
  by (induction ss) auto

lemmas own_statements = list.pred_inject ddl_table.simps simp_thms

lemma base_departments_statements: "statements t base_departments = (if t = T_departments then base_departments else [])"
  by (rule statements_of) (simp only: base_departments_def own_statements)

lemma base_roles_statements: "statements t base_roles = (if t = T_roles then base_roles else [])"
  by (rule statements_of) (simp only: base_roles_def own_statements)

lemma base_permissions_statements: "statements t base_permissions = (if t = T_permissions then base_permissions else [])"
  by (rule statements_of) (simp only: base_permissions_def own_statements)

lemma base_role_permissions_statements: "statements t base_role_permissions = (if t = T_role_permissions then base_role_permissions else [])"
  by (rule statements_of) (simp only: base_role_permissions_def own_statements)

lemma base_users_statements: "statements t base_users = (if t = T_users then base_users else [])"
  by (rule statements_of) (simp only: base_users_def own_statements)

lemma base_department_managers_statements: "statements t base_department_managers = (if t = T_department_managers then base_department_managers else [])"
  by (rule statements_of) (simp only: base_department_managers_def own_statements)

lemma base_materials_statements: "statements t base_materials = (if t = T_materials then base_materials else [])"
  by (rule statements_of) (simp only: base_materials_def own_statements)

lemma base_suppliers_statements: "statements t base_suppliers = (if t = T_suppliers then base_suppliers else [])"
  by (rule statements_of) (simp only: base_suppliers_def own_statements)

lemma base_warehouses_statements: "statements t base_warehouses = (if t = T_warehouses then base_warehouses else [])"
  by (rule statements_of) (simp only: base_warehouses_def own_statements)

lemma base_inventory_policies_statements: "statements t base_inventory_policies = (if t = T_inventory_policies then base_inventory_policies else [])"
  by (rule statements_of) (simp only: base_inventory_policies_def own_statements)

lemma base_purchase_requisitions_statements: "statements t base_purchase_requisitions = (if t = T_purchase_requisitions then base_purchase_requisitions else [])"
  by (rule statements_of) (simp only: base_purchase_requisitions_def own_statements)

lemma base_purchase_requisition_items_statements: "statements t base_purchase_requisition_items = (if t = T_purchase_requisition_items then base_purchase_requisition_items else [])"
  by (rule statements_of) (simp only: base_purchase_requisition_items_def own_statements)

lemma base_purchase_orders_statements: "statements t base_purchase_orders = (if t = T_purchase_orders then base_purchase_orders else [])"
  by (rule statements_of) (simp only: base_purchase_orders_def own_statements)

lemma base_purchase_order_items_statements: "statements t base_purchase_order_items = (if t = T_purchase_order_items then base_purchase_order_items else [])"
  by (rule statements_of) (simp only: base_purchase_order_items_def own_statements)

lemma base_purchase_order_item_sources_statements: "statements t base_purchase_order_item_sources = (if t = T_purchase_order_item_sources then base_purchase_order_item_sources else [])"
  by (rule statements_of) (simp only: base_purchase_order_item_sources_def own_statements)

lemma base_approval_records_statements: "statements t base_approval_records = (if t = T_approval_records then base_approval_records else [])"
  by (rule statements_of) (simp only: base_approval_records_def own_statements)

lemma base_purchase_receipts_statements: "statements t base_purchase_receipts = (if t = T_purchase_receipts then base_purchase_receipts else [])"
  by (rule statements_of) (simp only: base_purchase_receipts_def own_statements)

lemma base_purchase_receipt_items_statements: "statements t base_purchase_receipt_items = (if t = T_purchase_receipt_items then base_purchase_receipt_items else [])"
  by (rule statements_of) (simp only: base_purchase_receipt_items_def own_statements)

lemma base_inventory_balances_statements: "statements t base_inventory_balances = (if t = T_inventory_balances then base_inventory_balances else [])"
  by (rule statements_of) (simp only: base_inventory_balances_def own_statements)

lemma base_inventory_transactions_statements: "statements t base_inventory_transactions = (if t = T_inventory_transactions then base_inventory_transactions else [])"
  by (rule statements_of) (simp only: base_inventory_transactions_def own_statements)

lemma base_number_sequences_statements: "statements t base_number_sequences = (if t = T_number_sequences then base_number_sequences else [])"
  by (rule statements_of) (simp only: base_number_sequences_def own_statements)

lemma base_operation_logs_statements: "statements t base_operation_logs = (if t = T_operation_logs then base_operation_logs else [])"
  by (rule statements_of) (simp only: base_operation_logs_def own_statements)

lemma base_deferred_keys_statements: "statements t base_deferred_keys = (if t = T_departments then base_deferred_keys else [])"
  by (rule statements_of) (simp only: base_deferred_keys_def own_statements)

lemma base_ledger_triggers_statements: "statements t base_ledger_triggers = []"
  by (simp add: base_ledger_triggers_def)

lemmas base_statements = 
  base_departments_statements base_roles_statements base_permissions_statements
  base_role_permissions_statements base_users_statements base_department_managers_statements
  base_materials_statements base_suppliers_statements base_warehouses_statements
  base_inventory_policies_statements base_purchase_requisitions_statements base_purchase_requisition_items_statements
  base_purchase_orders_statements base_purchase_order_items_statements base_purchase_order_item_sources_statements
  base_approval_records_statements base_purchase_receipts_statements base_purchase_receipt_items_statements
  base_inventory_balances_statements base_inventory_transactions_statements base_number_sequences_statements
  base_operation_logs_statements base_deferred_keys_statements base_ledger_triggers_statements

lemma later_statements:
  "t \<notin> {T_operation_logs, T_inventory_policies} \<Longrightarrow> statements t phase5_upgrade = []"
  "t \<notin> {T_operation_logs, T_inventory_policies} \<Longrightarrow> statements t phase5_downgrade = []"
  "t \<notin> {T_operation_logs, T_purchase_requisition_items, T_purchase_requisitions} \<Longrightarrow> statements t phase6_upgrade = []"
  "t \<notin> {T_operation_logs, T_purchase_requisition_items, T_purchase_requisitions} \<Longrightarrow> statements t phase6_downgrade = []"
  "t \<notin> {T_operation_logs, T_approval_records, T_purchase_requisitions} \<Longrightarrow> statements t phase7_upgrade = []"
  "t \<notin> {T_operation_logs, T_approval_records, T_purchase_requisitions} \<Longrightarrow> statements t phase7_downgrade = []"
  "t \<notin> {T_operation_logs, T_purchase_orders, T_purchase_order_items} \<Longrightarrow> statements t phase8_upgrade = []"
  "t \<notin> {T_operation_logs, T_purchase_orders, T_purchase_order_items} \<Longrightarrow> statements t phase8_downgrade = []"
  "t \<notin> {T_purchase_receipt_items, T_inventory_transactions, T_inventory_balances, T_number_sequences, T_purchase_receipts} \<Longrightarrow> statements t phase9_upgrade = []"
  "t \<notin> {T_purchase_receipt_items, T_inventory_transactions, T_inventory_balances, T_number_sequences, T_purchase_receipts} \<Longrightarrow> statements t phase9_downgrade = []"
  "t \<notin> {T_inventory_transactions} \<Longrightarrow> statements t review_fix_upgrade = []"
  "t \<notin> {T_inventory_transactions} \<Longrightarrow> statements t review_fix_downgrade = []"
  "t \<notin> {T_operation_logs, T_inventory_transactions, T_stock_reconciliation_items, T_stock_reconciliations} \<Longrightarrow> statements t sprint1_upgrade = []"
  "t \<notin> {T_operation_logs, T_inventory_transactions, T_stock_reconciliation_items, T_stock_reconciliations} \<Longrightarrow> statements t sprint1_downgrade = []"
  "t \<notin> {T_stock_reconciliation_items} \<Longrightarrow> statements t watermark_upgrade = []"
  "t \<notin> {T_stock_reconciliation_items} \<Longrightarrow> statements t watermark_downgrade = []"
  by (auto simp: phase5_upgrade_def phase5_downgrade_def
    phase6_upgrade_def phase6_downgrade_def
    phase7_upgrade_def phase7_downgrade_def
    phase8_upgrade_def phase8_downgrade_def
    phase9_upgrade_def phase9_downgrade_def
    review_fix_upgrade_def review_fix_downgrade_def
    sprint1_upgrade_def sprint1_downgrade_def
    watermark_upgrade_def watermark_downgrade_def)

lemma revision_parts:
  "rev_upgrade phase5_revision = phase5_upgrade" "rev_downgrade phase5_revision = phase5_downgrade"
  "rev_upgrade phase6_revision = phase6_upgrade" "rev_downgrade phase6_revision = phase6_downgrade"
  "rev_upgrade phase7_revision = phase7_upgrade" "rev_downgrade phase7_revision = phase7_downgrade"
  "rev_upgrade phase8_revision = phase8_upgrade" "rev_downgrade phase8_revision = phase8_downgrade"
  "rev_upgrade phase9_revision = phase9_upgrade" "rev_downgrade phase9_revision = phase9_downgrade"
  "rev_upgrade review_fix_revision = review_fix_upgrade" "rev_downgrade review_fix_revision = review_fix_downgrade"
  "rev_upgrade sprint1_revision = sprint1_upgrade" "rev_downgrade sprint1_revision = sprint1_downgrade"
  "rev_upgrade watermark_revision = watermark_upgrade" "rev_downgrade watermark_revision = watermark_downgrade"
  by (simp_all add: phase5_revision_def
    phase6_revision_def
    phase7_revision_def
    phase8_revision_def
    phase9_revision_def
    review_fix_revision_def
    sprint1_revision_def
    watermark_revision_def)

text \<open>The revisions that touch a table.\<close>

fun touching :: "db_table \<Rightarrow> revision list" where
  "touching T_inventory_policies = [phase5_revision]"
| "touching T_purchase_requisitions = [phase6_revision, phase7_revision]"
| "touching T_purchase_requisition_items = [phase6_revision]"
| "touching T_purchase_orders = [phase8_revision]"
| "touching T_purchase_order_items = [phase8_revision]"
| "touching T_approval_records = [phase7_revision]"
| "touching T_purchase_receipts = [phase9_revision]"
| "touching T_purchase_receipt_items = [phase9_revision]"
| "touching T_inventory_balances = [phase9_revision]"
| "touching T_inventory_transactions = [phase9_revision, review_fix_revision, sprint1_revision]"
| "touching T_stock_reconciliations = [sprint1_revision]"
| "touching T_stock_reconciliation_items = [sprint1_revision, watermark_revision]"
| "touching T_number_sequences = [phase9_revision]"
| "touching T_operation_logs = [phase5_revision, phase6_revision, phase7_revision, phase8_revision, sprint1_revision]"
| "touching _ = []"

lemma history_later: "history_ok t goal LATER_REVISIONS x = history_ok t goal (touching t) x"
  by (cases t) (simp_all only: LATER_REVISIONS_def touching.simps history_ok.simps revision_parts
    later_statements run_table_none sum.case same_option_refl insert_iff empty_iff db_table.distinct
    db_table.simps simp_thms)

section \<open>The history of each table\<close>

definition table_history :: "db_table \<Rightarrow> bool" where
  "table_history t = (case rfold alter (statements t base_upgrade) None of
     Inl _ \<Rightarrow> False | Inr x \<Rightarrow> history_ok t (model_table t) (touching t) x)"

lemmas table_only = model_table.simps touching.simps base_upgrade_def statements_simps(3) base_statements db_table.distinct
  if_True if_False simp_thms append_Nil append_Nil2

lemma history_departments: "table_history T_departments"
  unfolding table_history_def by (simp only: table_only) code_simp

lemma history_roles: "table_history T_roles"
  unfolding table_history_def by (simp only: table_only) code_simp

lemma history_permissions: "table_history T_permissions"
  unfolding table_history_def by (simp only: table_only) code_simp

lemma history_role_permissions: "table_history T_role_permissions"
  unfolding table_history_def by (simp only: table_only) code_simp

lemma history_users: "table_history T_users"
  unfolding table_history_def by (simp only: table_only) code_simp

lemma history_department_managers: "table_history T_department_managers"
  unfolding table_history_def by (simp only: table_only) code_simp

lemma history_materials: "table_history T_materials"
  unfolding table_history_def by (simp only: table_only) code_simp

lemma history_suppliers: "table_history T_suppliers"
  unfolding table_history_def by (simp only: table_only) code_simp

lemma history_warehouses: "table_history T_warehouses"
  unfolding table_history_def by (simp only: table_only) code_simp

lemma history_inventory_policies: "table_history T_inventory_policies"
  unfolding table_history_def by (simp only: table_only) code_simp

lemma history_purchase_requisitions: "table_history T_purchase_requisitions"
  unfolding table_history_def by (simp only: table_only) code_simp

lemma history_purchase_requisition_items: "table_history T_purchase_requisition_items"
  unfolding table_history_def by (simp only: table_only) code_simp

lemma history_purchase_orders: "table_history T_purchase_orders"
  unfolding table_history_def by (simp only: table_only) code_simp

lemma history_purchase_order_items: "table_history T_purchase_order_items"
  unfolding table_history_def by (simp only: table_only) code_simp

lemma history_purchase_order_item_sources: "table_history T_purchase_order_item_sources"
  unfolding table_history_def by (simp only: table_only) code_simp

lemma history_approval_records: "table_history T_approval_records"
  unfolding table_history_def by (simp only: table_only) code_simp

lemma history_purchase_receipts: "table_history T_purchase_receipts"
  unfolding table_history_def by (simp only: table_only) code_simp

lemma history_purchase_receipt_items: "table_history T_purchase_receipt_items"
  unfolding table_history_def by (simp only: table_only) code_simp

lemma history_inventory_balances: "table_history T_inventory_balances"
  unfolding table_history_def by (simp only: table_only) code_simp

lemma history_inventory_transactions: "table_history T_inventory_transactions"
  unfolding table_history_def by (simp only: table_only) code_simp

lemma history_stock_reconciliations: "table_history T_stock_reconciliations"
  unfolding table_history_def by (simp only: table_only) code_simp

lemma history_stock_reconciliation_items: "table_history T_stock_reconciliation_items"
  unfolding table_history_def by (simp only: table_only) code_simp

lemma history_number_sequences: "table_history T_number_sequences"
  unfolding table_history_def by (simp only: table_only) code_simp

lemma history_operation_logs: "table_history T_operation_logs"
  unfolding table_history_def by (simp only: table_only) code_simp

lemma all_histories: "table_history t"
  by (cases t) (simp_all only: history_departments history_roles history_permissions
    history_role_permissions history_users history_department_managers history_materials
    history_suppliers history_warehouses history_inventory_policies history_purchase_requisitions
    history_purchase_requisition_items history_purchase_orders history_purchase_order_items
    history_purchase_order_item_sources history_approval_records history_purchase_receipts
    history_purchase_receipt_items history_inventory_balances history_inventory_transactions
    history_stock_reconciliations history_stock_reconciliation_items history_number_sequences
    history_operation_logs)

section \<open>The history of the catalogue\<close>

definition LEDGER_TRIGGERS :: "(string \<times> trigger_event \<times> db_table) list" where
  "LEDGER_TRIGGERS = [(''trg_it_no_update'', Refuse_Update, T_inventory_transactions),
    (''trg_it_no_delete'', Refuse_Delete, T_inventory_transactions)]"

definition without_index_drops :: "ddl list \<Rightarrow> ddl list" where
  "without_index_drops = filter (\<lambda>s. case s of Drop_Index _ _ \<Rightarrow> False | _ \<Rightarrow> True)"

definition graph_history :: bool where
  "graph_history = (case rfold admit base_upgrade (\<lambda>_. None, []) of
     Inl _ \<Rightarrow> False
   | Inr g \<Rightarrow> graph_ok LEDGER_TRIGGERS LATER_REVISIONS g
       \<and> (case rfold admit (without_index_drops base_downgrade) g of
            Inl e \<Rightarrow> e = TABLE_REFERENCED | Inr _ \<Rightarrow> False))"

lemma graph_histories: graph_history
  by code_simp

lemma graph_of_empty: "graph_of empty_catalogue = (\<lambda>_. None, [])"
  by (simp add: graph_of_def empty_catalogue_def)

text \<open>The catalogue after the first migration.\<close>

lemma base_catalogue:
  obtains c where "run_ddl base_upgrade empty_catalogue = Inr c"
    and "\<And>t. history_ok t (model_table t) LATER_REVISIONS (cat_tables c t)"
    and "graph_ok LEDGER_TRIGGERS LATER_REVISIONS (graph_of c)"
    and "rfold admit (without_index_drops base_downgrade) (graph_of c) = Inl TABLE_REFERENCED"
proof -
  obtain g where g: "rfold admit base_upgrade (graph_of empty_catalogue) = Inr g"
    "graph_ok LEDGER_TRIGGERS LATER_REVISIONS g"
    "rfold admit (without_index_drops base_downgrade) g = Inl TABLE_REFERENCED"
    using graph_histories unfolding graph_history_def graph_of_empty by (auto split: sum.splits)
  have none: "cat_tables empty_catalogue t = None" for t by (simp add: empty_catalogue_def)
  have h: "\<exists>x. run_table t base_upgrade (cat_tables empty_catalogue t) = Inr x
      \<and> history_ok t (model_table t) LATER_REVISIONS x" for t
    using all_histories[of t] unfolding table_history_def none run_table_def history_later
    by (auto split: sum.splits)
  obtain c where c: "run_ddl base_upgrade empty_catalogue = Inr c" "graph_of c = g"
    using run_ddl_succeeds[OF g(1)] h by blast
  show ?thesis
    using that[of c] c g(2,3) h run_ddl_tables[OF c(1)] by (metis sum.inject(2))
qed

lemma base_revision_parts: "rev_upgrade base_revision = base_upgrade" "rev_downgrade base_revision = base_downgrade"
  by (simp_all add: base_revision_def)

section \<open>Properties\<close>

text \<open>Every foreign key refers to the primary key of its table.\<close>

definition refers_to_primary :: "table_key \<Rightarrow> bool" where
  "refers_to_primary k = (case k of
     FOREIGN_KEY _ _ t cs _ \<Rightarrow> list_ex (\<lambda>p. p = PRIMARY_KEY (pk_name t) cs) (td_keys (model_table t))
   | _ \<Rightarrow> True)"

lemma model_references: "list_all (\<lambda>t. list_all refers_to_primary (td_keys (model_table t))) ALL_TABLES"
  by code_simp

text \<open>
  C35: the migrations form one line of revisions; run from an empty database they all
  succeed and build exactly the tables that the models declare, up to the order of columns
  and keys: every column with its type, nullability and default, every key, check and
  index; all foreign keys refer to primary keys, and the two triggers keep the ledger append-only.
\<close>

theorem migrations_build_models:
  "linear_from None REVISIONS
   \<and> (\<exists>h. upgrade_all REVISIONS empty_catalogue = Inr h \<and> cat_triggers h = LEDGER_TRIGGERS
     \<and> (\<forall>t. \<exists>d. cat_tables h t = Some d \<and> same_table d (model_table t)
         \<and> list_all refers_to_primary (td_keys (model_table t))))"
proof
  show "linear_from None REVISIONS"
    unfolding REVISIONS_def LATER_REVISIONS_def
    by (simp add: base_revision_def phase5_revision_def phase6_revision_def phase7_revision_def
      phase8_revision_def phase9_revision_def review_fix_revision_def sprint1_revision_def
      watermark_revision_def)
  obtain c where c: "run_ddl base_upgrade empty_catalogue = Inr c"
    "\<And>t. history_ok t (model_table t) LATER_REVISIONS (cat_tables c t)"
    "graph_ok LEDGER_TRIGGERS LATER_REVISIONS (graph_of c)"
    by (rule base_catalogue) (rule that)
  obtain h where h: "upgrade_all LATER_REVISIONS c = Inr h" "cat_triggers h = LEDGER_TRIGGERS"
    "\<forall>t. \<exists>d. cat_tables h t = Some d \<and> same_table d (model_table t)"
    using history_head[OF c(2,3)] by blast
  have "upgrade_all REVISIONS empty_catalogue = Inr h"
    using c(1) h(1) by (simp add: upgrade_all_def REVISIONS_def base_revision_parts)
  moreover have "list_all refers_to_primary (td_keys (model_table t))" for t
    using model_references in_ALL_TABLES[of t] unfolding list_all_iff by blast
  ultimately show "\<exists>h. upgrade_all REVISIONS empty_catalogue = Inr h \<and> cat_triggers h = LEDGER_TRIGGERS
     \<and> (\<forall>t. \<exists>d. cat_tables h t = Some d \<and> same_table d (model_table t)
         \<and> list_all refers_to_primary (td_keys (model_table t)))"
    using h(2,3) by blast
qed

text \<open>
  C36: along the line of revisions the downgrade of every migration but the first undoes its
  upgrade: both succeed, and the schema is the one before, up to the order of columns and keys.
\<close>

theorem downgrade_undoes_upgrade:
  assumes "LATER_REVISIONS = rs @ r # rs'"
  shows "\<exists>c c' c''. upgrade_all (base_revision # rs) empty_catalogue = Inr c
    \<and> run_ddl (rev_upgrade r) c = Inr c' \<and> run_ddl (rev_downgrade r) c' = Inr c'' \<and> same_catalogue c'' c"
proof -
  obtain c where c: "run_ddl base_upgrade empty_catalogue = Inr c"
    "\<And>t. history_ok t (model_table t) LATER_REVISIONS (cat_tables c t)"
    "graph_ok LEDGER_TRIGGERS LATER_REVISIONS (graph_of c)"
    by (rule base_catalogue) (rule that)
  show ?thesis
    using history_middle[OF c(2,3)[unfolded assms]] c(1)
    by (simp add: upgrade_all_def base_revision_parts)
qed

theorem downgrade_undoes_upgrade_witness:
  "\<exists>c c' c''. upgrade_all [base_revision, phase5_revision] empty_catalogue = Inr c
    \<and> run_ddl phase6_upgrade c = Inr c' \<and> run_ddl phase6_downgrade c' = Inr c'' \<and> same_catalogue c'' c"
  using downgrade_undoes_upgrade[of "[phase5_revision]" phase6_revision]
  by (simp add: LATER_REVISIONS_def revision_parts)

text \<open>
  The downgrade of the first migration never runs through: it drops an index that a foreign
  key still needs, and without those statements it drops the users while the departments
  refer to them.
\<close>

theorem first_downgrade_refused:
  "\<exists>c. run_ddl base_upgrade empty_catalogue = Inr c \<and> run_ddl base_downgrade c = Inl INDEX_NEEDED
    \<and> (\<forall>c'. run_ddl (without_index_drops base_downgrade) c \<noteq> Inr c')"
proof -
  obtain c where c: "run_ddl base_upgrade empty_catalogue = Inr c"
    "rfold admit (without_index_drops base_downgrade) (graph_of c) = Inl TABLE_REFERENCED"
    by (rule base_catalogue) (rule that)
  have "(case rfold alter base_purchase_receipt_items None of
      Inr (Some d) \<Rightarrow> alter_table (Drop_Index ''ix_ri_poi'' T_purchase_receipt_items) d = Inl INDEX_NEEDED
    | _ \<Rightarrow> False)" by code_simp
  moreover have "rfold alter base_purchase_receipt_items None = Inr (cat_tables c T_purchase_receipt_items)"
    using run_ddl_tables[OF c(1), of T_purchase_receipt_items]
    unfolding run_table_def by (simp add: table_only empty_catalogue_def del: model_table.simps)
  ultimately obtain d where d: "cat_tables c T_purchase_receipt_items = Some d"
    "alter_table (Drop_Index ''ix_ri_poi'' T_purchase_receipt_items) d = Inl INDEX_NEEDED"
    by (auto split: option.splits)
  obtain rest where eq: "base_downgrade = Drop_Trigger_If_Exists ''trg_it_no_update''
      # Drop_Trigger_If_Exists ''trg_it_no_delete'' # Drop_Index ''ix_ri_poi'' T_purchase_receipt_items # rest"
    by (simp add: base_downgrade_def)
  have "run_ddl base_downgrade c = Inl INDEX_NEEDED"
    unfolding eq run_ddl_def by (simp add: apply_ddl_def graph_of_def d del: alter_table.simps)
  then show ?thesis using c run_ddl_graph by fastforce
qed

end
