(* ===== verification/Spec2Isabelle.thy ===== *)
theory Spec2Isabelle
  imports Requisition_Correct Order_Correct Seed_Correct Api_Correct Master_Correct Migration_Correct Settings
begin

text \<open>
  The backend of manufacturing-erp-lite (\<^verbatim>\<open>src/backend\<close>): purchasing and stock keeping of a
  small manufacturer.  An applicant writes a purchase requisition, a department manager
  approves it, a buyer turns approved lines into purchase orders, the warehouse receives the
  goods, and stock counts correct the books.  Receipts and counts post into an append-only
  ledger and into the balances, which must agree.  Around that flow lie master data, users
  with roles and permissions, login, a dashboard, the HTTP interface, the bootstrap data and
  the migrations of the database.  This development models that Python code and proves what
  makes it correct.

  \<^bold>\<open>How a request is modelled.\<close>  A service function of the program runs in one database
  transaction.  Plain SELECTs read the transaction's snapshot (REPEATABLE READ), while an
  UPDATE, a locking SELECT and a unique key see the live state.  So a handler is a function
  of two databases, the snapshot \<^verbatim>\<open>s\<close> and the live state \<^verbatim>\<open>d\<close>, into \<^verbatim>\<open>error + db\<close>: \<^verbatim>\<open>Inl\<close> is
  the exception that rolls the transaction back, \<^verbatim>\<open>Inr\<close> the state it commits.  The \<^verbatim>\<open>WHERE\<close>
  clauses of conditional updates, the version tests and the row locks are written where the
  code has them; what the session flushes later from the objects it has loaded is written
  after them, with the values computed from the snapshot.  A run is the list of states
  committed so far, and the snapshot of the next request is any state of the run: that is how
  interleavings and stale reads enter the theorems (\<^verbatim>\<open>erp_run\<close>, \<^verbatim>\<open>sys_run\<close>, \<^verbatim>\<open>api_run\<close>).

  \<^bold>\<open>Theories and code.\<close>  The foundations are

  \<^item> \<^verbatim>\<open>Prelude\<close>: the error monad over sums, folds that may fail, rounding, list lemmas;
    \<^verbatim>\<open>Calendar\<close> and \<^verbatim>\<open>Clock\<close>: dates, timestamps and their arithmetic;
  \<^item> \<^verbatim>\<open>Enums\<close> (\<^verbatim>\<open>utils/enums.py\<close>, \<^verbatim>\<open>core/exceptions.py\<close>, \<^verbatim>\<open>core/exception_handlers.py\<close>) and \<^verbatim>\<open>Money\<close>
    (\<^verbatim>\<open>utils/money.py\<close>, decimals as exact rationals with ROUND_HALF_UP);
  \<^item> \<^verbatim>\<open>Schema\<close> and \<^verbatim>\<open>Store\<close> (\<^verbatim>\<open>models\<close>): one record for each mapped class, the record \<^verbatim>\<open>db\<close> of
    all tables with their key counters, inserts with UNIQUE and CHECK constraints, conditional
    updates; \<^verbatim>\<open>Session\<close>: the flush of a loaded object;
  \<^item> \<^verbatim>\<open>Numbering\<close>, \<^verbatim>\<open>AuditLog\<close>, \<^verbatim>\<open>Inventory\<close> (\<^verbatim>\<open>numbering_service.py\<close>, \<^verbatim>\<open>audit_service.py\<close>,
    \<^verbatim>\<open>inventory_service.py\<close>): document numbers, the operation log, balance locks, moving average
    costing and ledger rows; \<^verbatim>\<open>Inventory_Queries\<close>: the two stock lists;
  \<^item> \<^verbatim>\<open>Contracts\<close>: the interfaces between the services, as locales: \<^verbatim>\<open>exclusive_claim\<close> (a status
    flip that at most one request wins), \<^verbatim>\<open>bounded_counter\<close> (a quantity taken and given back by
    conditional updates), \<^verbatim>\<open>ledger_posting\<close> (ledger and balance move together); \<^verbatim>\<open>sequence\<close> in
    \<^verbatim>\<open>Numbering\<close> and \<^verbatim>\<open>identity_table\<close> in \<^verbatim>\<open>Session\<close>.  Each is interpreted on the model where the
    code provides it, so that the client's facts are proved once.

  The components follow; each has its operations in one theory, what they do to the tables
  in \<^verbatim>\<open>_Facts\<close>, the step relations and invariants in \<^verbatim>\<open>_Steps\<close>, the properties in \<^verbatim>\<open>_Correct\<close>:

  \<^item> \<^verbatim>\<open>Requisition\<close> (\<^verbatim>\<open>purchase_requisition_service.py\<close>), \<^verbatim>\<open>Order\<close> (\<^verbatim>\<open>purchase_order_service.py\<close>),
    \<^verbatim>\<open>Receipt\<close> (\<^verbatim>\<open>purchase_receipt_service.py\<close>, with \<^verbatim>\<open>Receipt_Accounts\<close> and \<^verbatim>\<open>Receipt_Roundtrip\<close>),
    \<^verbatim>\<open>Reconciliation\<close> (\<^verbatim>\<open>stock_reconciliation_service.py\<close>, with \<^verbatim>\<open>Reconciliation_Life\<close>), each with
    the request types and validators of its module under \<^verbatim>\<open>schemas\<close>;
  \<^item> \<^verbatim>\<open>Masterdata\<close> (materials, suppliers, warehouses, stock policies), \<^verbatim>\<open>Identity\<close> (users, roles,
    permissions, departments), \<^verbatim>\<open>Auth\<close> (\<^verbatim>\<open>core/security.py\<close>, \<^verbatim>\<open>auth_service.py\<close>, \<^verbatim>\<open>api/v1/deps.py\<close>),
    \<^verbatim>\<open>Seed\<close> (\<^verbatim>\<open>db/init_data.py\<close>), \<^verbatim>\<open>Dashboard\<close> (\<^verbatim>\<open>dashboard_service.py\<close>);
  \<^item> \<^verbatim>\<open>Api\<close> and \<^verbatim>\<open>Api_Views\<close> (\<^verbatim>\<open>api/v1\<close>, \<^verbatim>\<open>core/response.py\<close>): one definition for each endpoint,
    \<^verbatim>\<open>guarded\<close> for the order of authentication, permission and validation, \<^verbatim>\<open>serve\<close> for the
    commit or rollback and the status of the answer, the response bodies of reading endpoints;
  \<^item> \<^verbatim>\<open>Schema_Ddl\<close>, \<^verbatim>\<open>Migration_Base\<close>, \<^verbatim>\<open>Migration_Steps\<close> (\<^verbatim>\<open>alembic/versions\<close>) and \<^verbatim>\<open>Model_Tables\<close>
    (the tables as \<^verbatim>\<open>models\<close> and \<^verbatim>\<open>db/base.py\<close> declare them); \<^verbatim>\<open>Settings\<close> (\<^verbatim>\<open>core/config.py\<close> and
    \<^verbatim>\<open>alembic/env.py\<close>, as far as they choose the database).

  The components meet in \<^verbatim>\<open>Stock_View\<close>, \<^verbatim>\<open>Count_Lines\<close>, \<^verbatim>\<open>Stock_History\<close> and \<^verbatim>\<open>Stock_Correct\<close> (the
  purchase-to-stock flow), \<^verbatim>\<open>Admin_Steps\<close> and \<^verbatim>\<open>Master_View\<close> (the administrative side, and that
  neither side writes the other's tables), \<^verbatim>\<open>System\<close> and \<^verbatim>\<open>Api_Correct\<close> (everything).
  \<^verbatim>\<open>Example\<close> holds the small database of the witnesses.

  \<^bold>\<open>What is shown.\<close>  The abstract specification of stock keeping is an account: a map from
  warehouse and material to quantity and money.  The ledger and the balances are two
  readings of it; receipts, reversals and approved counts are shown to refine deposits and
  withdrawals in both (\<^verbatim>\<open>receipt_refines_account\<close>, \<^verbatim>\<open>approval_refines_account\<close>), and every run of
  the interface keeps the two equal (\<^verbatim>\<open>every_run_keeps_books_and_records\<close>).  Between
  requisitions, orders and receipts the converted and received quantities are accounts as
  well: exact, never beyond what was requested or ordered, restored by cancellation and
  reversal.  The status machines are shown for every snapshot, and with them that a document
  is decided once.  Access control is shown for the interface as a whole and tied to the
  permission matrix of the bootstrap data.  The dashboard is compared with the list pages,
  paging with the whole list, the migrations with the models.  Where the code does not keep a
  rule, the theorem says what it does instead: \<^verbatim>\<open>receipt_lost_update\<close>, \<^verbatim>\<open>submit_stale_total\<close>,
  \<^verbatim>\<open>approval_posts_superseded_lines\<close>, \<^verbatim>\<open>approval_misses_newer_rows\<close>, \<^verbatim>\<open>emptied_balance_keeps_money\<close>,
  \<^verbatim>\<open>tiny_rate_refused\<close>, \<^verbatim>\<open>stale_updates_invert_policy\<close>, \<^verbatim>\<open>count_fills_disabled_warehouse\<close>,
  \<^verbatim>\<open>foreign_receipt_number\<close>, \<^verbatim>\<open>first_downgrade_refused\<close>.

  \<^bold>\<open>Termination.\<close>  The program has no unbounded loop: every loop runs over a list it has read.
  All functions of the model are total and need no fuel; that a request returns is part of
  the statements that say it succeeds (\<^verbatim>\<open>documents_progress\<close>, \<^verbatim>\<open>seed_installs_matrix\<close>,
  \<^verbatim>\<open>migrations_build_models\<close>).

  \<^bold>\<open>Parameters.\<close>  Code that is not in the repository enters as an argument: the order in which
  the ORM flushes the changed lines of a count (any order; the theorems ask only that it
  flushes no other lines), LIKE matching and the collation of unique text columns (reflexive,
  and for the bootstrap data not identifying two of its codes), the password hash, the token
  codec (a token decodes to its claims until it expires), the classification of integrity
  errors, and the clock.  SQL has its standard meaning; DDL statements have the one in
  \<^verbatim>\<open>Schema_Ddl\<close>.

  \<^bold>\<open>Not modelled.\<close>  Columns that are only displayed (\<^verbatim>\<open>created_at\<close>, \<^verbatim>\<open>updated_at\<close> of most tables),
  message texts and the generated descriptions of the log; lock waits, deadlocks and time-outs
  (a request is one step of a run); the response bodies of writing endpoints, which are those
  of the reading ones; \<^verbatim>\<open>seed_demo.py\<close>, which replays requests against the interface for a
  demonstration and has no rule of its own; \<^verbatim>\<open>main.py\<close>, \<^verbatim>\<open>db/session.py\<close>, \<^verbatim>\<open>api/v1/router.py\<close> and
  the rest of \<^verbatim>\<open>core/config.py\<close> and \<^verbatim>\<open>alembic/env.py\<close>, which configure frameworks; the Vue frontend, the showcase site, tests and
  scripts, which are not part of the Python program.
\<close>

end
